(* ===== verification/QJS_Prelude.thy ===== *)
theory QJS_Prelude
  imports Main "HOL-Library.Word" "HOL-Library.Multiset"
begin

text \<open>
  Shared vocabulary of the development: the machine-integer types of the C sources, bytes and
  C strings as lists, the little-endian byte encodings, and the contract of the reallocation
  callback that every growable structure of the sources (\<^verbatim>\<open>DynBuf\<close>, \<^verbatim>\<open>CharRange\<close>, the regexp
  state stack) relies on. The lemmas below are the generic facts on lists, words and binary
  search that the component theories use.
\<close>

unbundle bit_operations_syntax

section \<open>Machine integers\<close>

type_synonym u8 = "8 word"
type_synonym u16 = "16 word"
type_synonym u32 = "32 word"
type_synonym u64 = "64 word"
type_synonym bytes = "u8 list"

abbreviation INT32_MAX :: nat where "INT32_MAX \<equiv> 2147483647"
abbreviation PTRDIFF_MAX :: nat where "PTRDIFF_MAX \<equiv> 9223372036854775807"
abbreviation SIZE_MOD :: nat where "SIZE_MOD \<equiv> 18446744073709551616"

section \<open>C strings and memory blocks\<close>

text \<open>
  A C string is the list of the bytes before its terminator; reading one past the last byte
  yields the terminating NUL.
\<close>

definition c_at :: "bytes \<Rightarrow> nat \<Rightarrow> u8" where
  "c_at s i = (if i < length s then s ! i else 0)"

definition c_string :: "bytes \<Rightarrow> bytes" where
  "c_string s = takeWhile (\<lambda>c. c \<noteq> 0) s"

text \<open>Copying of a block into another at an offset (\<^verbatim>\<open>memcpy\<close>).\<close>

definition blit :: "'a list \<Rightarrow> nat \<Rightarrow> 'a list \<Rightarrow> 'a list" where
  "blit dst off src = take off dst @ src @ drop (off + length src) dst"

lemma length_blit [simp]: "off + length src \<le> length dst \<Longrightarrow> length (blit dst off src) = length dst"
  by (simp add: blit_def)

lemma take_blit_below [simp]: "n \<le> off \<Longrightarrow> off \<le> length dst \<Longrightarrow> take n (blit dst off src) = take n dst"
  by (simp add: blit_def min_def)

lemma take_blit_end:
  "off + length src \<le> length dst \<Longrightarrow> take (off + length src) (blit dst off src) = take off dst @ src"
  by (simp add: blit_def)

lemma nth_blit:
  assumes "off + length src \<le> length dst" "i < length dst"
  shows "blit dst off src ! i =
    (if off \<le> i \<and> i < off + length src then src ! (i - off) else dst ! i)"
  using assms by (auto simp: blit_def nth_append min_def)

lemma c_at_less [simp]: "i < length s \<Longrightarrow> c_at s i = s ! i"
  by (simp add: c_at_def)

lemma c_at_ge [simp]: "length s \<le> i \<Longrightarrow> c_at s i = 0"
  by (simp add: c_at_def)

lemma c_string_append_zero [simp]: "c_string (s @ 0 # t) = c_string s"
  by (induction s) (auto simp: c_string_def)

lemma c_string_id: "0 \<notin> set s \<Longrightarrow> c_string s = s"
  by (induction s) (auto simp: c_string_def)

lemma c_string_prefix: "q < length (c_string s) \<Longrightarrow> c_string s ! q = s ! q \<and> s ! q \<noteq> 0 \<and> q < length s"
  by (induction s arbitrary: q) (auto simp: c_string_def nth_Cons split: nat.splits if_splits)

lemma c_at_c_string:
  assumes "q \<le> length (c_string s)"
  shows "c_at s q = (if q < length (c_string s) then c_string s ! q else 0)"
proof (cases "q < length (c_string s)")
  case True
  then show ?thesis by (simp add: c_string_prefix)
next
  case False
  with assms have q: "q = length (takeWhile (\<lambda>c. c \<noteq> 0) s)" by (simp add: c_string_def)
  show ?thesis
  proof (cases "q < length s")
    case True
    with q have "s ! q = 0" using nth_length_takeWhile by blast
    with True False show ?thesis by simp
  qed (use False in simp)
qed

lemma c_string_nonzero: "q < length (c_string s) \<Longrightarrow> c_string s ! q \<noteq> 0"
  by (simp add: c_string_prefix)

lemma blit_Nil [simp]: "blit dst off [] = dst"
  by (simp add: blit_def)

lemma blit_update:
  "off + Suc (length src) \<le> length dst \<Longrightarrow> blit (dst[off := x]) (Suc off) src = blit dst off (x # src)"
  by (rule nth_equalityI) (auto simp: nth_blit nth_list_update nth_Cons' )

lemma take_c_string: "n \<le> length (c_string s) \<Longrightarrow> take n s = take n (c_string s)"
  by (metis c_string_def min.absorb1 take_take takeWhile_eq_take)

section \<open>Reallocation\<close>

text \<open>
  Every growable structure stores a callback \<^verbatim>\<open>realloc_func(opaque, ptr, size)\<close>. The model gives the
  callback the number of requests made so far (the state behind \<^verbatim>\<open>opaque\<close>), the old block and the
  requested size; the answer is the new block, or \<open>None\<close> for \<^verbatim>\<open>NULL\<close>. The locale states the documented
  behaviour of \<^verbatim>\<open>realloc\<close> that the callers rely on: the new block has the requested size, starts
  with the old contents, and no object is larger than \<^verbatim>\<open>PTRDIFF_MAX\<close>.
\<close>

type_synonym 'a realloc_fun = "nat \<Rightarrow> 'a list \<Rightarrow> nat \<Rightarrow> 'a list option"

locale realloc_contract =
  fixes rf :: "'a realloc_fun"
  assumes realloc_length: "rf t old n = Some new \<Longrightarrow> length new = n"
    and realloc_prefix: "rf t old n = Some new \<Longrightarrow> length old \<le> n \<Longrightarrow> take (length old) new = old"
    and realloc_bound: "rf t old n = Some new \<Longrightarrow> n \<le> PTRDIFF_MAX"
begin

lemma realloc_take:
  "rf t old n = Some new \<Longrightarrow> length old \<le> n \<Longrightarrow> k \<le> length old \<Longrightarrow> take k new = take k old"
  using realloc_prefix [of t old n new] by (metis min.absorb1 take_take)

lemma realloc_nth:
  "rf t old n = Some new \<Longrightarrow> length old \<le> n \<Longrightarrow> i < length old \<Longrightarrow> new ! i = old ! i"
  using realloc_prefix [of t old n new] by (metis nth_take)

end

text \<open>
  The C library's \<^verbatim>\<open>realloc\<close>: a request is granted or not (\<open>grants\<close> answers by the number of the
  request and its size, so a run may fail at any request), and the grown part of the block holds
  unspecified bytes (\<open>fill\<close>).
\<close>

definition libc_realloc :: "(nat \<Rightarrow> nat \<Rightarrow> bool) \<Rightarrow> 'a \<Rightarrow> 'a realloc_fun" where
  "libc_realloc grants fill t old n =
     (if n \<le> PTRDIFF_MAX \<and> grants t n then Some (take n old @ replicate (n - length old) fill)
      else None)"

lemma libc_realloc_contract [intro, simp]: "realloc_contract (libc_realloc grants fill)"
  by unfold_locales (auto simp: libc_realloc_def split: if_splits)

text \<open>
  Failure is never gratuitous: a caller that reports it was refused a request of at most \<open>k\<close> elements.
\<close>

definition refused :: "'a realloc_fun \<Rightarrow> nat \<Rightarrow> bool" where
  "refused rf k \<longleftrightarrow> (\<exists>t old n. n \<le> k \<and> rf t old n = None)"

lemma refusedI: "rf t old n = None \<Longrightarrow> n \<le> k \<Longrightarrow> refused rf k"
  by (auto simp: refused_def)

lemma refused_mono: "refused rf k \<Longrightarrow> k \<le> k' \<Longrightarrow> refused rf k'"
  by (auto simp: refused_def intro: order.trans)

lemma libc_realloc_refused:
  "k \<le> PTRDIFF_MAX \<Longrightarrow> refused (libc_realloc grants fill :: 'a realloc_fun) k \<longleftrightarrow> (\<exists>t n. n \<le> k \<and> \<not> grants t n)"
  by (auto simp: refused_def libc_realloc_def)

section \<open>Little-endian integers in byte blocks\<close>

text \<open>
  \<^verbatim>\<open>cutils.h\<close> reads and writes unaligned integers through packed structs; the supported targets are
  little-endian (\<^verbatim>\<open>WORDS_BIGENDIAN\<close> is undefined). A pointer into a block is an offset.
\<close>

definition le16 :: "u16 \<Rightarrow> bytes" where
  "le16 v = [ucast v, ucast (drop_bit 8 v)]"

definition le32 :: "u32 \<Rightarrow> bytes" where
  "le32 v = [ucast v, ucast (drop_bit 8 v), ucast (drop_bit 16 v), ucast (drop_bit 24 v)]"

definition le64 :: "u64 \<Rightarrow> bytes" where
  "le64 v = [ucast v, ucast (drop_bit 8 v), ucast (drop_bit 16 v), ucast (drop_bit 24 v),
             ucast (drop_bit 32 v), ucast (drop_bit 40 v), ucast (drop_bit 48 v), ucast (drop_bit 56 v)]"

lemma length_le [simp]: "length (le16 v) = 2" "length (le32 w) = 4" "length (le64 x) = 8"
  by (simp_all add: le16_def le32_def le64_def)

lemma byte_split: "n < 8 * k \<Longrightarrow> \<exists>j m. n = 8 * j + m \<and> j < k \<and> (m::nat) < 8"
  by (rule exI [of _ "n div 8"], rule exI [of _ "n mod 8"]) auto

lemma byte_cases32:
  assumes "n < 32"
  obtains m :: nat where "m < 8" "n = m \<or> n = 8 + m \<or> n = 16 + m \<or> n = 24 + m"
proof -
  obtain j m where "n = 8 * j + m" "j < 4" "m < 8" using byte_split [of n 4] assms by auto
  moreover from \<open>j < 4\<close> have "j = 0 \<or> j = 1 \<or> j = 2 \<or> j = 3" by arith
  ultimately show ?thesis using that [of m] by auto
qed

lemma byte_cases64:
  assumes "n < 64"
  obtains m :: nat where "m < 8" "n = m \<or> n = 8 + m \<or> n = 16 + m \<or> n = 24 + m \<or>
     n = 32 + m \<or> n = 40 + m \<or> n = 48 + m \<or> n = 56 + m"
proof -
  obtain j m where "n = 8 * j + m" "j < 8" "m < 8" using byte_split [of n 8] assms by auto
  moreover from \<open>j < 8\<close> have "j = 0 \<or> j = 1 \<or> j = 2 \<or> j = 3 \<or> j = 4 \<or> j = 5 \<or> j = 6 \<or> j = 7" by arith
  ultimately show ?thesis using that [of m] by auto
qed

section \<open>Bit operations as arithmetic\<close>

lemma word_take_bit_small: "unat (a :: 'a::len word) < 2 ^ k \<Longrightarrow> take_bit k a = a"
  by (metis take_bit_nat_eq_self unsigned_take_bit_eq word_unat_eq_iff)

lemma word_and_push_bit_small:
  assumes "unat (a :: 'a::len word) < 2 ^ k"
  shows "a AND push_bit k b = 0"
proof (rule bit_word_eqI)
  fix n
  have "bit a n \<longleftrightarrow> n < k \<and> bit a n"
    using word_take_bit_small [OF assms] by (metis bit_take_bit_iff)
  then show "bit (a AND push_bit k b) n = bit 0 n" by (auto simp: bit_simps)
qed

lemma unat_or_push_bit:
  assumes "unat (a :: 'a::len word) < 2 ^ k" "unat a + unat (push_bit k b) < 2 ^ LENGTH('a)"
  shows "unat (a OR push_bit k b) = unat a + unat (push_bit k b)"
  using assms by (simp add: disjunctive_add_eq_or [symmetric] word_and_push_bit_small unat_word_ariths)

lemma unat_and_mask: "unat (a AND mask k :: 'a::len word) = unat a mod 2 ^ k"
  by (metis take_bit_eq_mask take_bit_eq_mod unsigned_take_bit_eq)

lemma unat_drop_bit: "unat (drop_bit k (a :: 'a::len word)) = unat a div 2 ^ k"
  by (metis drop_bit_eq_div unat_drop_bit_eq)

lemma unat_push_bit_small:
  "unat (a :: 'a::len word) * 2 ^ k < 2 ^ LENGTH('a) \<Longrightarrow> unat (push_bit k a) = unat a * 2 ^ k"
  by (metis push_bit_eq_mult take_bit_nat_eq_self unsigned_push_bit_eq)

lemma unat_ucast_small: "unat (a :: 'a::len word) < 2 ^ LENGTH('b::len) \<Longrightarrow> unat (ucast a :: 'b word) = unat a"
  by (simp add: unsigned_ucast_eq take_bit_nat_eq_self)

lemma unat_u8_u32 [simp]: "unat (ucast (b :: u8) :: u32) = unat b"
  by (intro unat_ucast_small order_less_le_trans [OF unsigned_less]) simp

end
