(* ===== verification/CUtils.thy ===== *)
theory CUtils
  imports QJS_Prelude "HOL-Library.Sublist"
begin

text \<open>
  The small helpers of \<^verbatim>\<open>quickjs/cutils.c\<close> and \<^verbatim>\<open>quickjs/cutils.h\<close>: bounded string copies, prefix and
  suffix tests, minima and maxima, unaligned integer access, byte swaps and hexadecimal digits.
\<close>

section \<open>Bounded string copies\<close>

text \<open>\<^verbatim>\<open>pstrcpy\<close> writes into the block \<open>buf\<close> at offset \<open>base\<close> (the pointer argument).\<close>

function pstrcpy_loop :: "bytes \<Rightarrow> nat \<Rightarrow> nat \<Rightarrow> bytes \<Rightarrow> nat \<Rightarrow> bytes \<times> nat" where
  "pstrcpy_loop buf base buf_size str q =
     (let c = c_at str q in
      if c = 0 \<or> q \<ge> buf_size - 1 then (buf, q)
      else pstrcpy_loop (buf[base + q := c]) base buf_size str (q + 1))"
  by pat_completeness auto
termination by (relation "measure (\<lambda>(buf, base, n, str, q). n - q)") auto

declare pstrcpy_loop.simps [simp del]

definition pstrcpy :: "bytes \<Rightarrow> nat \<Rightarrow> int \<Rightarrow> bytes \<Rightarrow> bytes" where
  "pstrcpy buf base buf_size str =
     (if buf_size \<le> 0 then buf
      else let (buf', q) = pstrcpy_loop buf base (nat buf_size) str 0 in buf'[base + q := 0])"

definition strlen :: "bytes \<Rightarrow> nat" where
  "strlen s = length (c_string s)"

definition pstrcat :: "bytes \<Rightarrow> int \<Rightarrow> bytes \<Rightarrow> bytes" where
  "pstrcat buf buf_size s =
     (let len = strlen buf in
      if int len < buf_size then pstrcpy buf len (buf_size - int len) s else buf)"

section \<open>Prefix and suffix tests\<close>

text \<open>\<^verbatim>\<open>strstart\<close> returns the position after the prefix (the \<^verbatim>\<open>ptr\<close> output), or \<open>None\<close> for 0.\<close>

function strstart_loop :: "bytes \<Rightarrow> bytes \<Rightarrow> nat \<Rightarrow> nat option" where
  "strstart_loop str val i =
     (if c_at val i \<noteq> 0 then
        (if c_at str i \<noteq> c_at val i then None else strstart_loop str val (i + 1))
      else Some i)"
  by pat_completeness auto
termination
  by (relation "measure (\<lambda>(s, v, i). length v - i)") (auto simp: c_at_def split: if_splits)

declare strstart_loop.simps [simp del]

definition strstart :: "bytes \<Rightarrow> bytes \<Rightarrow> nat option" where
  "strstart str val = strstart_loop str val 0"

definition has_suffix :: "bytes \<Rightarrow> bytes \<Rightarrow> bool" where
  "has_suffix str sfx =
     (let len = strlen str; slen = strlen sfx in
      slen \<le> len \<and> take slen (drop (len - slen) str) = take slen sfx)"

section \<open>Minima, maxima, hexadecimal digits\<close>

definition max_int :: "int \<Rightarrow> int \<Rightarrow> int" where
  "max_int a b = (if a > b then a else b)"

definition min_int :: "int \<Rightarrow> int \<Rightarrow> int" where
  "min_int a b = (if a < b then a else b)"

definition max_uint32 :: "u32 \<Rightarrow> u32 \<Rightarrow> u32" where
  "max_uint32 a b = (if a > b then a else b)"

definition min_uint32 :: "u32 \<Rightarrow> u32 \<Rightarrow> u32" where
  "min_uint32 a b = (if a < b then a else b)"

definition max_int64 :: "int \<Rightarrow> int \<Rightarrow> int" where
  "max_int64 a b = (if a > b then a else b)"

definition min_int64 :: "int \<Rightarrow> int \<Rightarrow> int" where
  "min_int64 a b = (if a < b then a else b)"

definition from_hex :: "int \<Rightarrow> int" where
  "from_hex c =
     (if 48 \<le> c \<and> c \<le> 57 then c - 48
      else if 65 \<le> c \<and> c \<le> 70 then c - 65 + 10
      else if 97 \<le> c \<and> c \<le> 102 then c - 97 + 10
      else -1)"

section \<open>Unaligned access and byte swaps\<close>

definition get_u8 :: "bytes \<Rightarrow> nat \<Rightarrow> u32" where
  "get_u8 tab i = ucast (tab ! i)"

definition get_u16 :: "bytes \<Rightarrow> nat \<Rightarrow> u32" where
  "get_u16 tab i = ucast (tab ! i) OR push_bit 8 (ucast (tab ! (i + 1)))"

definition get_u32 :: "bytes \<Rightarrow> nat \<Rightarrow> u32" where
  "get_u32 tab i =
     ucast (tab ! i) OR push_bit 8 (ucast (tab ! (i + 1))) OR
     push_bit 16 (ucast (tab ! (i + 2))) OR push_bit 24 (ucast (tab ! (i + 3)))"

definition get_u64 :: "bytes \<Rightarrow> nat \<Rightarrow> u64" where
  "get_u64 tab i = ucast (get_u32 tab i) OR push_bit 32 (ucast (get_u32 tab (i + 4)))"

definition get_i8 :: "bytes \<Rightarrow> nat \<Rightarrow> int" where
  "get_i8 tab i = sint (tab ! i)"

definition get_i16 :: "bytes \<Rightarrow> nat \<Rightarrow> int" where
  "get_i16 tab i = sint (ucast (get_u16 tab i) :: u16)"

definition get_i32 :: "bytes \<Rightarrow> nat \<Rightarrow> int" where
  "get_i32 tab i = sint (get_u32 tab i)"

definition get_i64 :: "bytes \<Rightarrow> nat \<Rightarrow> int" where
  "get_i64 tab i = sint (get_u64 tab i)"

definition put_u8 :: "bytes \<Rightarrow> nat \<Rightarrow> u8 \<Rightarrow> bytes" where
  "put_u8 tab i val = tab[i := val]"

definition put_u16 :: "bytes \<Rightarrow> nat \<Rightarrow> u16 \<Rightarrow> bytes" where
  "put_u16 tab i val = blit tab i (le16 val)"

definition put_u32 :: "bytes \<Rightarrow> nat \<Rightarrow> u32 \<Rightarrow> bytes" where
  "put_u32 tab i val = blit tab i (le32 val)"

definition put_u64 :: "bytes \<Rightarrow> nat \<Rightarrow> u64 \<Rightarrow> bytes" where
  "put_u64 tab i val = blit tab i (le64 val)"

definition bswap16 :: "u16 \<Rightarrow> u16" where
  "bswap16 x = drop_bit 8 x OR push_bit 8 x"

definition bswap32 :: "u32 \<Rightarrow> u32" where
  "bswap32 v =
     drop_bit 24 (v AND 0xff000000) OR drop_bit 8 (v AND 0x00ff0000) OR
     push_bit 8 (v AND 0x0000ff00) OR push_bit 24 (v AND 0x000000ff)"

definition bswap64 :: "u64 \<Rightarrow> u64" where
  "bswap64 v =
     drop_bit 56 (v AND push_bit 56 0xff) OR drop_bit 40 (v AND push_bit 48 0xff) OR
     drop_bit 24 (v AND push_bit 40 0xff) OR drop_bit 8 (v AND push_bit 32 0xff) OR
     push_bit 8 (v AND push_bit 24 0xff) OR push_bit 24 (v AND push_bit 16 0xff) OR
     push_bit 40 (v AND push_bit 8 0xff) OR push_bit 56 (v AND push_bit 0 0xff)"

section \<open>Properties\<close>

lemma pstrcpy_loop_spec:
  assumes "base + n \<le> length buf" "q \<le> length (c_string str)"
  shows "pstrcpy_loop buf base n str q =
    (blit buf (base + q) (take (n - 1 - q) (drop q (c_string str))),
     q + min (n - 1 - q) (length (c_string str) - q))"
  using assms
proof (induction buf base n str q rule: pstrcpy_loop.induct)
  case (1 buf base n str q)
  let ?cs = "c_string str"
  show ?case
  proof (cases "c_at str q = 0 \<or> q \<ge> n - 1")
    case True
    then have "n - 1 - q = 0 \<or> length ?cs - q = 0"
      using "1.prems"(2) by (auto simp: c_at_c_string dest: c_string_nonzero split: if_splits)
    with True show ?thesis by (auto simp: pstrcpy_loop.simps [of buf base n str q])
  next
    case False
    then have q: "q < length ?cs" "c_at str q = ?cs ! q" "q < n - 1"
      using "1.prems"(2) by (auto simp: c_at_c_string split: if_splits)
    have "take (n - 1 - q) (drop q ?cs) = ?cs ! q # take (n - 1 - Suc q) (drop (Suc q) ?cs)"
      using q by (metis Cons_nth_drop_Suc Suc_diff_Suc take_Suc_Cons)
    then show ?thesis
      using "1.IH" [OF refl False] "1.prems" q False
      by (simp add: pstrcpy_loop.simps [of buf base n str q] blit_update Let_def)
  qed
qed

text \<open>
  Property C19. \<^verbatim>\<open>pstrcpy\<close> writes the longest prefix of the source string that fits, and always a
  terminating NUL, inside the \<open>buf_size\<close> bytes it is given and nowhere else.
\<close>

theorem pstrcpy_spec:
  assumes "0 < buf_size" "base + nat buf_size \<le> length buf"
  shows "pstrcpy buf base buf_size str = blit buf base (take (nat buf_size - 1) (c_string str) @ [0])"
proof -
  let ?t = "take (nat buf_size - 1) (c_string str)"
  have len: "length ?t < nat buf_size" using assms(1) by auto
  have "pstrcpy buf base buf_size str = (blit buf base ?t)[base + length ?t := 0]"
    using assms by (simp add: pstrcpy_def pstrcpy_loop_spec min.commute)
  also have "\<dots> = blit buf base (?t @ [0])"
    using assms(2) len by (intro nth_equalityI) (auto simp: nth_blit nth_list_update nth_append)
  finally show ?thesis .
qed

theorem pstrcpy_spec_witness:
  "pstrcpy [9, 9, 9, 9, 9] 1 3 [65, 66, 67] = blit [9, 9, 9, 9, 9] 1 (take 2 (c_string [65, 66, 67]) @ [0])"
  using pstrcpy_spec [of 3 1 "[9, 9, 9, 9, 9]" "[65, 66, 67]"] by simp

lemma strstart_loop_spec:
  assumes "i \<le> length (c_string val)" "take i (c_string str) = take i (c_string val)" "i \<le> length (c_string str)"
  shows "strstart_loop str val i =
    (if prefix (c_string val) (c_string str) then Some (length (c_string val)) else None)"
  using assms
proof (induction str val i rule: strstart_loop.induct)
  case (1 str val i)
  let ?v = "c_string val" and ?s = "c_string str"
  have cv: "c_at val i = (if i < length ?v then ?v ! i else 0)"
    using "1.prems" by (simp add: c_at_c_string)
  have cs: "c_at str i = (if i < length ?s then ?s ! i else 0)"
    using "1.prems" by (simp add: c_at_c_string)
  show ?case
  proof (cases "i < length ?v")
    case False
    then have "i = length ?v" using "1.prems" by simp
    then have "take (length ?v) ?s = ?v" using "1.prems"(2) by simp
    then have "prefix ?v ?s" using take_is_prefix [of "length ?v" ?s] by simp
    with False show ?thesis
      using \<open>i = length ?v\<close> cv by (subst strstart_loop.simps) simp
  next
    case True
    then have nz: "c_at val i \<noteq> 0" by (simp add: cv c_string_nonzero)
    show ?thesis
    proof (cases "c_at str i = c_at val i")
      case False
      have "\<not> prefix ?v ?s"
      proof
        assume "prefix ?v ?s"
        then have "i < length ?s" "?s ! i = ?v ! i" using True
          by (auto simp: prefix_def nth_append)
        with False True show False by (simp add: cv cs)
      qed
      with nz False show ?thesis by (simp add: strstart_loop.simps [of str val i])
    next
      case eq: True
      then have i: "i < length ?s" "?s ! i = ?v ! i"
        using nz True by (auto simp: cv cs split: if_splits)
      then have "take (Suc i) ?s = take (Suc i) ?v"
        using True "1.prems" by (simp add: take_Suc_conv_app_nth)
      then show ?thesis using "1.IH" nz eq i True
        by (simp add: strstart_loop.simps [of str val i])
    qed
  qed
qed

text \<open>
  Property C20. \<^verbatim>\<open>strstart\<close> succeeds exactly when \<open>val\<close> is a prefix of \<open>str\<close>, and then leaves the pointer just
  after the prefix.
\<close>

theorem strstart_spec:
  "strstart str val =
    (if prefix (c_string val) (c_string str) then Some (length (c_string val)) else None)"
  by (simp add: strstart_def strstart_loop_spec)

text \<open>Property C21. \<^verbatim>\<open>has_suffix\<close> decides whether one string ends in the other.\<close>

theorem has_suffix_spec: "has_suffix str sfx \<longleftrightarrow> suffix (c_string sfx) (c_string str)"
proof -
  let ?s = "c_string str" and ?x = "c_string sfx"
  have s: "?s = take (length ?s) str" by (simp add: take_c_string)
  have x: "take (length ?x) sfx = ?x" by (simp add: take_c_string)
  show ?thesis
  proof (cases "length ?x \<le> length ?s")
    case True
    have "take (length ?x) (drop (length ?s - length ?x) str) = drop (length ?s - length ?x) ?s"
      using True by (subst (2) s) (simp add: drop_take)
    then show ?thesis using True
      by (auto simp: has_suffix_def strlen_def x suffix_def)
        (metis append_take_drop_id)
  next
    case False
    then show ?thesis by (auto simp: has_suffix_def strlen_def suffix_def)
  qed
qed

lemma get_put_u16: "i + 2 \<le> length t \<Longrightarrow> get_u16 (put_u16 t i v) i = ucast v"
  by (rule bit_word_eqI)
    (auto simp: get_u16_def put_u16_def nth_blit le16_def bit_simps dest: bit_imp_le_length)

lemma get_put_u32: 
  assumes "i + 4 \<le> length t" 
  shows "get_u32 (put_u32 t i v) i = v"
proof (rule bit_word_eqI)
  fix n assume "n < LENGTH(32)"
  then have "n < 32" by simp
  then obtain m where "m < 8" "n = m \<or> n = 8 + m \<or> n = 16 + m \<or> n = 24 + m"
    by (rule byte_cases32)
  then show "bit (get_u32 (put_u32 t i v) i) n = bit v n"
    using assms by (elim disjE) (simp_all add: get_u32_def put_u32_def nth_blit le32_def bit_simps)
qed

lemma get_put_u64:
  assumes "i + 8 \<le> length t" 
  shows "get_u64 (put_u64 t i v) i = v"
proof (rule bit_word_eqI)
  fix n assume "n < LENGTH(64)"
  then have "n < 64" by simp
  then obtain m where "m < 8" "n = m \<or> n = 8 + m \<or> n = 16 + m \<or> n = 24 + m \<or>
     n = 32 + m \<or> n = 40 + m \<or> n = 48 + m \<or> n = 56 + m"
    by (rule byte_cases64)
  then show "bit (get_u64 (put_u64 t i v) i) n = bit v n"
    using assms
    by (elim disjE) (simp_all add: get_u64_def get_u32_def put_u64_def nth_blit le64_def bit_simps)
qed

lemma bit_bswap16: "n < 8 \<Longrightarrow> bit (bswap16 x) n = bit x (8 + n)" "n < 8 \<Longrightarrow> bit (bswap16 x) (8 + n) = bit x n"
  by (auto simp: bswap16_def bit_simps dest: bit_imp_le_length)

lemma bswap_masks:
  "(0xff000000 :: u32) = push_bit 24 (mask 8)" "(0x00ff0000 :: u32) = push_bit 16 (mask 8)"
  "(0x0000ff00 :: u32) = push_bit 8 (mask 8)" "(0xff :: 'a::len word) = mask 8"
  by (simp_all add: push_bit_eq_mult mask_eq_exp_minus_1)

lemma bit_bswap32: 
  assumes "m < 8"
  shows "bit (bswap32 x) m = bit x (24 + m)" "bit (bswap32 x) (8 + m) = bit x (16 + m)"
    "bit (bswap32 x) (16 + m) = bit x (8 + m)" "bit (bswap32 x) (24 + m) = bit x m"
  unfolding bswap32_def bswap_masks
  using assms by (simp_all add: bit_simps)

lemma bit_bswap64: 
  assumes "m < 8"
  shows "bit (bswap64 x) m = bit x (56 + m)" "bit (bswap64 x) (8 + m) = bit x (48 + m)"
    "bit (bswap64 x) (16 + m) = bit x (40 + m)" "bit (bswap64 x) (24 + m) = bit x (32 + m)"
    "bit (bswap64 x) (32 + m) = bit x (24 + m)" "bit (bswap64 x) (40 + m) = bit x (16 + m)"
    "bit (bswap64 x) (48 + m) = bit x (8 + m)" "bit (bswap64 x) (56 + m) = bit x m"
  unfolding bswap64_def bswap_masks
  using assms by (simp_all add: bit_simps)

lemma bswap16_le: "le16 (bswap16 x) = rev (le16 x)"
  by (simp add: le16_def; intro conjI bit_word_eqI) (simp_all add: bit_simps bit_bswap16)

lemma bswap32_le: "le32 (bswap32 x) = rev (le32 x)"
  by (simp add: le32_def; intro conjI bit_word_eqI) (simp_all add: bit_simps bit_bswap32)

lemma bswap64_le: "le64 (bswap64 x) = rev (le64 x)"
  by (simp add: le64_def; intro conjI bit_word_eqI) (simp_all add: bit_simps bit_bswap64)


text \<open>
  Property C22. The accessors of packed integers are inverse to each other at every width, and the
  byte swaps reverse the stored bytes.
\<close>

theorem packed_integers:
  assumes "i + 8 \<le> length t"
  shows "get_u32 (put_u32 t i v) i = v \<and> get_u64 (put_u64 t i w) i = w \<and>
    get_u16 (put_u16 t i (ucast u)) i = ucast (u :: u16) \<and>
    le16 (bswap16 u) = rev (le16 u) \<and> le32 (bswap32 v) = rev (le32 v) \<and> le64 (bswap64 w) = rev (le64 w)"
  using assms by (simp add: get_put_u16 get_put_u32 get_put_u64 bswap16_le bswap32_le bswap64_le)

theorem packed_integers_witness: "get_u32 (put_u32 [0, 0, 0, 0, 0, 0, 0, 0, 0] 1 0x12345678) 1 = 0x12345678"
  using packed_integers [of 1 "[0, 0, 0, 0, 0, 0, 0, 0, 0]" "0x12345678"] by simp

end
