(* ===== verification/UTF8.thy ===== *)
theory UTF8
  imports CUtils
begin

text \<open>
  The UTF-8 coder of \<^verbatim>\<open>quickjs/cutils.c\<close> (\<^verbatim>\<open>unicode_to_utf8\<close>, \<^verbatim>\<open>unicode_from_utf8\<close>): the original
  encoding of up to six bytes for 31-bit values. The main results are that decoding inverts
  encoding and that the decoder accepts nothing but encodings (no overlong form).
\<close>

section \<open>Encoder\<close>

text \<open>The bytes stored through \<^verbatim>\<open>q\<close>; their number is the returned length.\<close>

definition unicode_to_utf8 :: "u32 \<Rightarrow> bytes" where
  "unicode_to_utf8 c =
     (if c < 0x80 then [ucast c]
      else if c < 0x800 then
        [ucast (drop_bit 6 c OR 0xc0), ucast ((c AND 0x3f) OR 0x80)]
      else if c < 0x10000 then
        [ucast (drop_bit 12 c OR 0xe0),
         ucast ((drop_bit 6 c AND 0x3f) OR 0x80), ucast ((c AND 0x3f) OR 0x80)]
      else if c < 0x00200000 then
        [ucast (drop_bit 18 c OR 0xf0), ucast ((drop_bit 12 c AND 0x3f) OR 0x80),
         ucast ((drop_bit 6 c AND 0x3f) OR 0x80), ucast ((c AND 0x3f) OR 0x80)]
      else if c < 0x04000000 then
        [ucast (drop_bit 24 c OR 0xf8), ucast ((drop_bit 18 c AND 0x3f) OR 0x80),
         ucast ((drop_bit 12 c AND 0x3f) OR 0x80), ucast ((drop_bit 6 c AND 0x3f) OR 0x80),
         ucast ((c AND 0x3f) OR 0x80)]
      else if c < 0x80000000 then
        [ucast (drop_bit 30 c OR 0xfc), ucast ((drop_bit 24 c AND 0x3f) OR 0x80),
         ucast ((drop_bit 18 c AND 0x3f) OR 0x80), ucast ((drop_bit 12 c AND 0x3f) OR 0x80),
         ucast ((drop_bit 6 c AND 0x3f) OR 0x80), ucast ((c AND 0x3f) OR 0x80)]
      else [])"

section \<open>Decoder\<close>

definition utf8_min_code :: "u32 list" where
  "utf8_min_code = [0x80, 0x800, 0x10000, 0x00200000, 0x04000000]"

definition utf8_first_code_mask :: "u32 list" where
  "utf8_first_code_mask = [0x1f, 0xf, 0x7, 0x3, 0x1]"

text \<open>The number of continuation bytes announced by a first byte \<open>c \<ge> 0x80\<close> (the \<^verbatim>\<open>switch\<close>).\<close>

definition utf8_tail_len :: "u32 \<Rightarrow> nat option" where
  "utf8_tail_len c =
     (if 0xc0 \<le> c \<and> c \<le> 0xdf then Some 1
      else if 0xe0 \<le> c \<and> c \<le> 0xef then Some 2
      else if 0xf0 \<le> c \<and> c \<le> 0xf7 then Some 3
      else if 0xf8 \<le> c \<and> c \<le> 0xfb then Some 4
      else if 0xfc \<le> c \<and> c \<le> 0xfd then Some 5
      else None)"

fun utf8_tail_loop :: "bytes \<Rightarrow> nat \<Rightarrow> nat \<Rightarrow> u32 \<Rightarrow> u32 option" where
  "utf8_tail_loop s p 0 c = Some c"
| "utf8_tail_loop s p (Suc l) c =
     (let b = ucast (c_at s p) :: u32 in
      if b < 0x80 \<or> b \<ge> 0xc0 then None
      else utf8_tail_loop s (p + 1) l (push_bit 6 c OR (b AND 0x3f)))"

text \<open>
  \<open>unicode_from_utf8 s p max_len\<close> reads at offset \<open>p\<close>; \<open>None\<close> is the result -1, \<open>Some (c, p')\<close> the
  code point and the updated \<^verbatim>\<open>*pp\<close>.
\<close>

definition unicode_from_utf8 :: "bytes \<Rightarrow> nat \<Rightarrow> int \<Rightarrow> (u32 \<times> nat) option" where
  "unicode_from_utf8 s p max_len =
     (let c = ucast (c_at s p) :: u32 in
      if c < 0x80 then Some (c, p + 1)
      else case utf8_tail_len c of
        None \<Rightarrow> None
      | Some l \<Rightarrow>
          if int l > max_len - 1 then None
          else case utf8_tail_loop s (p + 1) l (c AND utf8_first_code_mask ! (l - 1)) of
            None \<Rightarrow> None
          | Some c' \<Rightarrow>
              if c' < utf8_min_code ! (l - 1) then None else Some (c', p + 1 + l))"

section \<open>The bytes read as numbers\<close>

lemma unat_and_3f: "unat (a AND 0x3f :: u32) = unat a mod 64"
  using unat_and_mask [of a 6] by (simp add: mask_eq_exp_minus_1)

text \<open>The bytes that the encoder writes, read as numbers.\<close>

lemma unat_cont_byte: "unat (ucast ((x AND 0x3f) OR 0x80 :: u32) :: u8) = 128 + unat x mod 64"
proof -
  have "unat ((x AND 0x3f) OR push_bit 6 2) = unat (x AND 0x3f) + unat (push_bit 6 2 :: u32)"
    by (rule unat_or_push_bit) (simp_all add: unat_and_3f push_bit_eq_mult less_le_trans [OF add_strict_right_mono])
  then have *: "unat ((x AND 0x3f) OR 0x80) = 128 + unat x mod 64"
    by (simp add: unat_and_3f push_bit_eq_mult)
  have "unat x mod 64 < 64" by simp
  then show ?thesis by (subst unat_ucast_small) (simp_all add: *)
qed

lemma unat_lead_byte:
  assumes "unat (push_bit k m :: u32) + 2 ^ k \<le> 256" "unat x < 2 ^ k"
  shows "unat (ucast (x OR push_bit k m :: u32) :: u8) = unat (push_bit k m) + unat x"
proof -
  have "unat (x OR push_bit k m) = unat x + unat (push_bit k m)"
    using assms by (intro unat_or_push_bit) auto
  then show ?thesis using assms by (subst unat_ucast_small) simp_all
qed

lemmas unat_lead_bytes =
  unat_lead_byte [of 5 6, simplified push_bit_numeral, simplified]
  unat_lead_byte [of 4 14, simplified]
  unat_lead_byte [of 3 30, simplified]
  unat_lead_byte [of 2 62, simplified]
  unat_lead_byte [of 1 126, simplified]

lemma unat_utf8_step:
  assumes "unat c < 2 ^ 26"
  shows "unat (push_bit 6 c OR (ucast (b :: u8) AND 0x3f) :: u32) = unat c * 64 + unat b mod 64"
proof -
  have p: "unat (push_bit 6 c) = unat c * 64"
    using assms by (subst unat_push_bit_small) simp_all
  have m: "unat (ucast b AND 0x3f :: u32) = unat b mod 64" by (simp add: unat_and_3f)
  have "unat ((ucast b AND 0x3f) OR push_bit 6 c) = unat (ucast b AND 0x3f :: u32) + unat (push_bit 6 c)"
    using assms by (intro unat_or_push_bit) (simp_all add: p m, linarith?)
  then show ?thesis by (simp add: p m or.commute)
qed

text \<open>Masks of the first byte.\<close>

lemma unat_first_masks:
  "unat (a AND 0x1f :: u32) = unat a mod 32" "unat (a AND 0xf :: u32) = unat a mod 16"
  "unat (a AND 0x7 :: u32) = unat a mod 8" "unat (a AND 0x3 :: u32) = unat a mod 4"
  "unat (a AND 0x1 :: u32) = unat a mod 2"
  using unat_and_mask [of a 5] unat_and_mask [of a 4] unat_and_mask [of a 3]
    unat_and_mask [of a 2] unat_and_mask [of a 1]
  by (simp_all add: mask_eq_exp_minus_1)

lemma utf8_tail_len_nat:
  "utf8_tail_len (ucast (b :: u8)) =
     (let n = unat b in
      if 192 \<le> n \<and> n \<le> 223 then Some 1 else if 224 \<le> n \<and> n \<le> 239 then Some 2
      else if 240 \<le> n \<and> n \<le> 247 then Some 3 else if 248 \<le> n \<and> n \<le> 251 then Some 4
      else if 252 \<le> n \<and> n \<le> 253 then Some 5 else None)"
  by (simp add: utf8_tail_len_def word_le_nat_alt Let_def)

text \<open>The value accumulated over the continuation bytes.\<close>

fun tail_value :: "bytes \<Rightarrow> nat \<Rightarrow> nat \<Rightarrow> nat \<Rightarrow> nat" where
  "tail_value s p 0 n = n"
| "tail_value s p (Suc l) n = tail_value s (p + 1) l (n * 64 + unat (c_at s p) mod 64)"

lemma tail_value_less: "n < 2 ^ k \<Longrightarrow> tail_value s p l n < 2 ^ (k + 6 * l)"
proof (induction s p l n arbitrary: k rule: tail_value.induct)
  case (2 s p l n)
  have "unat (c_at s p) mod 64 < 64" by simp
  then have "n * 64 + unat (c_at s p) mod 64 < 2 ^ k * 64" using "2.prems" by linarith
  then have "n * 64 + unat (c_at s p) mod 64 < 2 ^ (k + 6)" by (simp add: power_add)
  from "2.IH" [OF this] show ?case by (simp add: algebra_simps)
qed simp

lemma utf8_tail_loop_value:
  assumes "unat c < 2 ^ k" "k + 6 * l \<le> 32"
  shows "utf8_tail_loop s p l c =
    (if \<forall>j<l. 128 \<le> unat (c_at s (p + j)) \<and> unat (c_at s (p + j)) < 192
     then Some (of_nat (tail_value s p l (unat c))) else None)"
  using assms
proof (induction s p l c arbitrary: k rule: utf8_tail_loop.induct)
  case (2 s p l c)
  let ?c = "push_bit 6 c OR (ucast (c_at s p) AND 0x3f) :: u32"
  have k: "k \<le> 26" using "2.prems"(2) by simp
  then have c26: "unat c < 2 ^ 26" using "2.prems"(1) power_increasing [of k 26 "2::nat"] by simp
  have uc: "unat ?c = unat c * 64 + unat (c_at s p) mod 64" by (rule unat_utf8_step [OF c26])
  have "unat (c_at s p) mod 64 < 64" by simp
  then have "unat ?c < 2 ^ k * 64" using "2.prems"(1) unfolding uc by linarith
  then have uk: "unat ?c < 2 ^ (k + 6)" by (simp add: power_add)
  have all: "(\<forall>j<Suc l. 128 \<le> unat (c_at s (p + j)) \<and> unat (c_at s (p + j)) < 192) \<longleftrightarrow>
    128 \<le> unat (c_at s p) \<and> unat (c_at s p) < 192 \<and>
    (\<forall>j<l. 128 \<le> unat (c_at s (p + 1 + j)) \<and> unat (c_at s (p + 1 + j)) < 192)"
    by (auto simp: less_Suc_eq_0_disj)
  show ?case
  proof (cases "128 \<le> unat (c_at s p) \<and> unat (c_at s p) < 192")
    case True
    then have "utf8_tail_loop s (p + 1) l ?c =
      (if \<forall>j<l. 128 \<le> unat (c_at s (p + 1 + j)) \<and> unat (c_at s (p + 1 + j)) < 192
       then Some (of_nat (tail_value s (p + 1) l (unat ?c))) else None)"
      using "2.IH" [OF refl _ uk] "2.prems"(2)
      by (simp add: word_less_nat_alt word_le_nat_alt)
    with True show ?thesis
      unfolding all by (simp add: word_less_nat_alt word_le_nat_alt uc Let_def)
  next
    case False
    then have "\<not> (\<forall>j<Suc l. 128 \<le> unat (c_at s (p + j)) \<and> unat (c_at s (p + j)) < 192)"
      unfolding all by blast
    with False show ?thesis by (auto simp: word_less_nat_alt word_le_nat_alt Let_def)
  qed
qed simp

text \<open>The decoder as arithmetic on the bytes.\<close>

lemma unat_first_code:
  assumes "utf8_tail_len (ucast (b :: u8)) = Some l"
  shows "1 \<le> l" "l \<le> 5" "unat (ucast b AND utf8_first_code_mask ! (l - 1)) = unat b mod 2 ^ (6 - l)"
  using assms
  by (auto simp: utf8_tail_len_nat Let_def utf8_first_code_mask_def unat_first_masks split: if_splits)

lemma unat_mod_first: "n mod 2 ^ (6 - l) < (2::nat) ^ (6 - l)" by simp

lemma unicode_from_utf8_value:
  "unicode_from_utf8 s p max_len =
     (if unat (c_at s p) < 128 then Some (ucast (c_at s p), p + 1)
      else case utf8_tail_len (ucast (c_at s p)) of None \<Rightarrow> None
      | Some l \<Rightarrow>
         if int l > max_len - 1 then None
         else let n = tail_value s (p + 1) l (unat (c_at s p) mod 2 ^ (6 - l)) in
           if (\<forall>j<l. 128 \<le> unat (c_at s (p + 1 + j)) \<and> unat (c_at s (p + 1 + j)) < 192)
              \<and> unat (utf8_min_code ! (l - 1)) \<le> n
           then Some (of_nat n, p + 1 + l) else None)"
proof (cases "utf8_tail_len (ucast (c_at s p))")
  case None
  then show ?thesis by (simp add: unicode_from_utf8_def word_less_nat_alt Let_def)
next
  case (Some l)
  let ?c = "ucast (c_at s p) AND utf8_first_code_mask ! (l - 1) :: u32"
  let ?n = "tail_value s (p + 1) l (unat (c_at s p) mod 2 ^ (6 - l))"
  note l = unat_first_code [OF Some]
  have loop: "utf8_tail_loop s (p + 1) l ?c =
    (if \<forall>j<l. 128 \<le> unat (c_at s (p + 1 + j)) \<and> unat (c_at s (p + 1 + j)) < 192
     then Some (of_nat (tail_value s (p + 1) l (unat ?c))) else None)"
    using l by (intro utf8_tail_loop_value [where k = "6 - l"]) (simp_all, linarith?)
  have "?n < 2 ^ ((6 - l) + 6 * l)" by (rule tail_value_less) simp
  also have "\<dots> \<le> 2 ^ 31" using l by (intro power_increasing) auto
  finally have n: "unat (of_nat ?n :: u32) = ?n" by (simp add: unat_of_nat)
  show ?thesis
    using Some
    by (auto simp: unicode_from_utf8_def word_less_nat_alt Let_def loop [simplified] l [simplified] n [simplified]
        not_le not_less)
qed


text \<open>Base-64 digits of the decoded value.\<close>

abbreviation cont_ok :: "bytes \<Rightarrow> nat \<Rightarrow> nat \<Rightarrow> bool" where
  "cont_ok s p l \<equiv> \<forall>j<l. 128 \<le> unat (c_at s (p + j)) \<and> unat (c_at s (p + j)) < 192"

abbreviation digit64 :: "nat \<Rightarrow> nat \<Rightarrow> nat" where
  "digit64 n k \<equiv> n div 64 ^ k mod 64"

lemma all_less_Suc_shift: "(\<forall>j<Suc l. P j) \<longleftrightarrow> P 0 \<and> (\<forall>j<l. P (Suc j))"
  by (auto simp: less_Suc_eq_0_disj)

lemma tail_value_encode:
  "\<forall>j<l. unat (c_at s (p + j)) = 128 + digit64 n (l - 1 - j) \<Longrightarrow>
   tail_value s p l m = m * 64 ^ l + n mod 64 ^ l"
proof (induction l arbitrary: p m)
  case (Suc l)
  have b: "unat (c_at s p) = 128 + digit64 n l"
    and IHp: "\<forall>j<l. unat (c_at s (Suc p + j)) = 128 + digit64 n (l - 1 - j)"
    using Suc.prems by (auto simp: all_less_Suc_shift)
  have "(128 + digit64 n l) mod 64 = digit64 n l"
    using mod_mult_self3 [of 2 64 "digit64 n l"] by simp
  then have "tail_value s p (Suc l) m = (m * 64 + digit64 n l) * 64 ^ l + n mod 64 ^ l"
    using Suc.IH [OF IHp, of "m * 64 + digit64 n l"] b by simp
  also have "\<dots> = m * 64 ^ Suc l + n mod 64 ^ Suc l"
    using mod_mult2_eq [of n "64 ^ l" 64] by (simp add: algebra_simps)
  finally show ?case .
qed simp

lemma tail_value_decode:
  "cont_ok s p l \<Longrightarrow> tail_value s p l m div 64 ^ l = m \<and>
   (\<forall>j<l. unat (c_at s (p + j)) = 128 + digit64 (tail_value s p l m) (l - 1 - j))"
proof (induction l arbitrary: p m)
  case (Suc l)
  let ?x = "unat (c_at s p) mod 64"
  define n where "n = tail_value s p (Suc l) m"
  have bnd: "128 \<le> unat (c_at s p)" "unat (c_at s p) < 192" and c: "cont_ok s (Suc p) l"
    using Suc.prems by (auto simp: all_less_Suc_shift)
  have b: "unat (c_at s p) = 128 + ?x"
    using bnd mod_mult_self3 [of 2 64 "unat (c_at s p) - 128"] by simp
  have IH: "n div 64 ^ l = m * 64 + ?x"
    "\<forall>j<l. unat (c_at s (Suc p + j)) = 128 + digit64 n (l - 1 - j)"
    using Suc.IH [OF c, of "m * 64 + ?x"] by (simp_all add: n_def)
  have "n div 64 ^ Suc l = m"
    using IH(1) div_mult2_eq [of n "64 ^ l" 64] by (simp add: mult.commute)
  moreover have "unat (c_at s p) = 128 + digit64 n l"
    using b IH(1) by simp
  ultimately show ?case
    using IH(2) unfolding n_def [symmetric] all_less_Suc_shift by simp
qed simp

text \<open>Lead byte and range of the sequences with \<open>l\<close> continuation bytes.\<close>

lemma utf8_tail_len_iff:
  "utf8_tail_len (ucast (b :: u8)) = Some l \<longleftrightarrow>
     1 \<le> l \<and> l \<le> 5 \<and> 256 - 2 ^ (7 - l) \<le> unat b \<and> unat b < 256 - 2 ^ (7 - l) + 2 ^ (6 - l)"
proof -
  consider "l = 0" | "l = 1" | "l = 2" | "l = 3" | "l = 4" | "l = 5" | "5 < l" by linarith
  then show ?thesis
    by cases (auto simp: utf8_tail_len_nat Let_def)
qed

definition utf8_len :: "nat \<Rightarrow> nat" where
  "utf8_len n = (if n < 0x800 then 1 else if n < 0x10000 then 2 else if n < 0x200000 then 3
     else if n < 0x4000000 then 4 else 5)"

lemma utf8_len_iff:
  assumes "0x80 \<le> n" "n < 0x80000000" "1 \<le> l" "l \<le> 5"
  shows "utf8_len n = l \<longleftrightarrow> unat (utf8_min_code ! (l - 1)) \<le> n \<and> n < 2 ^ (6 + 5 * l)"
proof -
  from assms(3,4) consider "l = 1" | "l = 2" | "l = 3" | "l = 4" | "l = 5" by linarith
  then show ?thesis using assms(1,2) by cases (auto simp: utf8_len_def utf8_min_code_def)
qed

lemma unat_utf8_bytes:
  assumes "0x80 \<le> unat c" "unat c < 0x80000000"
  defines "l \<equiv> utf8_len (unat c)"
  shows "map unat (unicode_to_utf8 c) =
    (256 - 2 ^ (7 - l) + unat c div 64 ^ l) # map (\<lambda>j. 128 + digit64 (unat c) (l - 1 - j)) [0..<l]"
proof -
  have u: "[0..<Suc 0] = [0]" "[0..<2] = [0, 1]" "[0..<3] = [0, 1, 2]" "[0..<4] = [0, 1, 2, 3]" "[0..<5] = [0, 1, 2, 3, 4]"
    by (simp_all add: upt_rec)
  have "l = 1 \<or> l = 2 \<or> l = 3 \<or> l = 4 \<or> l = 5" by (simp add: l_def utf8_len_def)
  then show ?thesis
    using assms(1,2) unfolding unicode_to_utf8_def word_less_nat_alt
    by (elim disjE) (simp_all add: unat_cont_byte unat_lead_bytes unat_drop_bit less_mult_imp_div_less u l_def utf8_len_def split: if_splits)
qed

lemma utf8_len_bounds: "1 \<le> utf8_len n" "utf8_len n \<le> 5"
  by (simp_all add: utf8_len_def)

lemma utf8_range_lead: "(n::nat) < 2 ^ (6 + 5 * l) \<Longrightarrow> 1 \<le> l \<Longrightarrow> l \<le> 5 \<Longrightarrow> n div 64 ^ l < 2 ^ (6 - l)"
proof -
  assume a: "n < 2 ^ (6 + 5 * l)" "1 \<le> l" "l \<le> 5"
  have "(64::nat) ^ l = 2 ^ (6 * l)" by (simp add: power_mult)
  then have "(2::nat) ^ (6 - l) * 64 ^ l = 2 ^ (6 - l + 6 * l)" by (simp add: power_add)
  also have "6 - l + 6 * l = 6 + 5 * l" using a by simp
  finally show ?thesis using a by (intro less_mult_imp_div_less) simp
qed

lemma lead_mod:
  assumes "1 \<le> l" "l \<le> 5" "x < (2::nat) ^ (6 - l)"
  shows "(256 - 2 ^ (7 - l) + x) mod 2 ^ (6 - l) = x"
proof -
  from assms(1,2) consider "l = 1" | "l = 2" | "l = 3" | "l = 4" | "l = 5" by linarith
  then show ?thesis
    using assms(3) mod_mult_self3 [of 6 32 x] mod_mult_self3 [of 14 16 x] mod_mult_self3 [of 30 8 x]
      mod_mult_self3 [of 62 4 x] mod_mult_self3 [of 126 2 x]
    by cases simp_all
qed

text \<open>
  Property C11. Decoding what the encoder wrote gives the code point back and consumes exactly the
  bytes written, for every code point below \<^verbatim>\<open>0x80000000\<close> and anywhere in a buffer.
\<close>

theorem utf8_decode_encode:
  assumes c: "c < 0x80000000"
    and s: "\<And>i. i < length (unicode_to_utf8 c) \<Longrightarrow> c_at s (p + i) = unicode_to_utf8 c ! i"
    and max_len: "int (length (unicode_to_utf8 c)) \<le> max_len"
  shows "unicode_from_utf8 s p max_len = Some (c, p + length (unicode_to_utf8 c))"
proof (cases "unat c < 0x80")
  case True
  then have u: "unicode_to_utf8 c = [ucast c]" by (simp add: unicode_to_utf8_def word_less_nat_alt)
  then have "c_at s p = ucast c" using s [of 0] by simp
  moreover have "unat (ucast c :: u8) = unat c" using True by (intro unat_ucast_small) simp
  ultimately show ?thesis
    using True by (simp add: unicode_from_utf8_value u word_unat_eq_iff)
next
  case False
  let ?n = "unat c" and ?l = "utf8_len (unat c)"
  have n: "0x80 \<le> ?n" "?n < 0x80000000" using c False by (simp_all add: word_less_nat_alt)
  note l = utf8_len_bounds [of ?n]
  have rng: "unat (utf8_min_code ! (?l - 1)) \<le> ?n" "?n < 2 ^ (6 + 5 * ?l)"
    using utf8_len_iff [OF n l] by auto
  have lead: "?n div 64 ^ ?l < 2 ^ (6 - ?l)" using utf8_range_lead [OF rng(2) l] .
  note bytes = unat_utf8_bytes [OF n]
  have len: "length (unicode_to_utf8 c) = ?l + 1" using arg_cong [OF bytes, of length] by simp
  have byte: "unat (c_at s (p + i)) = map unat (unicode_to_utf8 c) ! i" if "i \<le> ?l" for i
    using s [of i] that len by simp
  have b0: "unat (c_at s p) = 256 - 2 ^ (7 - ?l) + ?n div 64 ^ ?l"
    using byte [of 0] unfolding bytes by simp
  have bj: "\<forall>j<?l. unat (c_at s (p + 1 + j)) = 128 + digit64 ?n (?l - 1 - j)"
    using byte [of "Suc j" for j] unfolding bytes by simp
  have m0: "unat (c_at s p) mod 2 ^ (6 - ?l) = ?n div 64 ^ ?l"
    unfolding b0 by (rule lead_mod [OF l lead])
  have tl: "utf8_tail_len (ucast (c_at s p)) = Some ?l"
    using b0 l lead by (simp add: utf8_tail_len_iff)
  have "tail_value s (p + 1) ?l (?n div 64 ^ ?l) = ?n"
    unfolding tail_value_encode [OF bj] by (rule div_mult_mod_eq)
  moreover have "128 \<le> unat (c_at s p)"
  proof -
    have "(2::nat) ^ (7 - ?l) \<le> 2 ^ 6" using l by (intro power_increasing) auto
    then show ?thesis using b0 by simp
  qed
  moreover have "digit64 n k < 64" for n k by simp
  ultimately show ?thesis
    using tl bj rng max_len len unfolding unicode_from_utf8_value m0
    by (simp add: m0 Let_def)
qed

theorem utf8_decode_encode_witness:
  "unicode_from_utf8 [0x41, 0xe2, 0x82, 0xac] 1 6 = Some (0x20ac, 4)"
proof -
  have u: "unicode_to_utf8 0x20ac = [0xe2, 0x82, 0xac]" by code_simp
  have "c_at [0x41, 0xe2, 0x82, 0xac] (1 + i) = unicode_to_utf8 0x20ac ! i" if "i < 3" for i
    unfolding u using that by (auto simp: c_at_def less_Suc_eq numeral_3_eq_3)
  then show ?thesis using utf8_decode_encode [of "0x20ac" "[0x41, 0xe2, 0x82, 0xac]" 1 6] by (simp add: u)
qed

text \<open>
  Property C12. Whatever the decoder accepts is the canonical encoding of the code point it returns:
  overlong forms, truncated sequences and stray continuation bytes are all rejected.
\<close>

theorem utf8_decode_canonical:
  assumes "unicode_from_utf8 s p max_len = Some (c, p')"
  shows "c < 0x80000000 \<and> p' = p + length (unicode_to_utf8 c) \<and>
    (\<forall>i<length (unicode_to_utf8 c). c_at s (p + i) = unicode_to_utf8 c ! i)"
proof (cases "unat (c_at s p) < 128")
  case True
  then have c: "c = ucast (c_at s p)" "p' = p + 1"
    using assms by (simp_all add: unicode_from_utf8_value)
  then have "unat c < 128" using True by simp
  moreover have "(ucast c :: u8) = c_at s p"
    unfolding c word_unat_eq_iff using True by (subst unat_ucast_small) simp_all
  ultimately show ?thesis using c(2) by (simp add: unicode_to_utf8_def word_less_nat_alt)
next
  case False
  then obtain l where tl: "utf8_tail_len (ucast (c_at s p)) = Some l"
    using assms by (auto simp: unicode_from_utf8_value split: option.splits)
  define n where "n = tail_value s (p + 1) l (unat (c_at s p) mod 2 ^ (6 - l))"
  have ok: "cont_ok s (p + 1) l" and min: "unat (utf8_min_code ! (l - 1)) \<le> n"
    and c: "c = of_nat n" and p': "p' = p + 1 + l"
    using assms False tl by (auto simp: unicode_from_utf8_value n_def Let_def split: if_splits)
  have l: "1 \<le> l" "l \<le> 5" and b0: "256 - 2 ^ (7 - l) \<le> unat (c_at s p)"
    "unat (c_at s p) < 256 - 2 ^ (7 - l) + 2 ^ (6 - l)"
    using tl by (simp_all add: utf8_tail_len_iff)
  have "n < 2 ^ (6 - l + 6 * l)" unfolding n_def by (rule tail_value_less) simp
  then have n: "n < 2 ^ (6 + 5 * l)" using l by (simp add: algebra_simps)
  also have "\<dots> \<le> 2 ^ 31" using l by (intro power_increasing) auto
  finally have n31: "n < 0x80000000" by simp
  then have uc: "unat c = n" by (simp add: c unat_of_nat take_bit_nat_eq_self)
  have "unat (utf8_min_code ! 0) \<le> unat (utf8_min_code ! (l - 1))"
    using l by (auto simp: utf8_min_code_def nth_Cons' )
  then have n80: "0x80 \<le> n" using min by (simp add: utf8_min_code_def)
  have len: "utf8_len n = l" using utf8_len_iff [OF n80 n31 l] min n by simp
  have dec: "n div 64 ^ l = unat (c_at s p) mod 2 ^ (6 - l)"
    "\<forall>j<l. unat (c_at s (p + 1 + j)) = 128 + digit64 n (l - 1 - j)"
    using tail_value_decode [OF ok, of "unat (c_at s p) mod 2 ^ (6 - l)"] by (simp_all add: n_def)
  have lead: "unat (c_at s p) = 256 - 2 ^ (7 - l) + n div 64 ^ l"
    using lead_mod [OF l, of "unat (c_at s p) - (256 - 2 ^ (7 - l))"] b0 dec(1) by simp
  have "map unat (unicode_to_utf8 c) = map (\<lambda>j. unat (c_at s (p + j))) [0..<Suc l]"
    using unat_utf8_bytes [of c] n80 n31 lead dec(2)
    by (simp add: uc len upt_conv_Cons map_Suc_upt [symmetric] del: upt_Suc)
  then have eq: "map unat (unicode_to_utf8 c) = map unat (map (\<lambda>j. c_at s (p + j)) [0..<Suc l])"
    by (simp add: comp_def)
  have "inj (unat :: u8 \<Rightarrow> nat)" by (rule injI) (simp add: word_unat_eq_iff)
  from eq this have "unicode_to_utf8 c = map (\<lambda>j. c_at s (p + j)) [0..<Suc l]" by (rule map_injective)
  then show ?thesis using n31 p' uc by (auto simp: word_less_nat_alt nth_append simp del: upt_Suc)
qed

theorem utf8_decode_canonical_witness:
  "length (unicode_to_utf8 0x20ac) = 3 \<and> unicode_to_utf8 0x20ac ! 0 = 0xe2"
proof -
  have "unicode_from_utf8 [0xe2, 0x82, 0xac] 0 3 = Some (0x20ac, 3)" by code_simp
  from utf8_decode_canonical [OF this] show ?thesis by (auto dest: spec [of _ 0])
qed

end
