(* ===== verification/DynBuf.thy ===== *)
theory DynBuf
  imports CUtils
begin

text \<open>
  The dynamic buffer package of \<^verbatim>\<open>quickjs/cutils.c\<close>: a growable byte block with a sticky error flag.
  \<open>buf\<close> is the allocated block (its length is \<open>allocated_size\<close>, \<^verbatim>\<open>NULL\<close> is the empty list), the first
  \<open>dbuf_size\<close> bytes of it are the contents. Return codes are the C ones: 0, or -1 for a failed
  allocation. Sums of sizes wrap at \<^verbatim>\<open>size_t\<close>.
\<close>

record dynbuf =
  buf :: bytes
  dbuf_size :: nat
  allocated_size :: nat
  error :: bool
  realloc_func :: "u8 realloc_fun"
  opaque :: nat

section \<open>Operations\<close>

definition dbuf_default_realloc :: "(nat \<Rightarrow> nat \<Rightarrow> bool) \<Rightarrow> u8 \<Rightarrow> u8 realloc_fun" where
  "dbuf_default_realloc grants fill op ptr n = libc_realloc grants fill op ptr n"

definition dbuf_init2 :: "(nat \<Rightarrow> nat \<Rightarrow> bool) \<Rightarrow> u8 \<Rightarrow> nat \<Rightarrow> u8 realloc_fun option \<Rightarrow> dynbuf" where
  "dbuf_init2 grants fill op rf =
     \<lparr>buf = [], dbuf_size = 0, allocated_size = 0, error = False,
      realloc_func = (case rf of None \<Rightarrow> dbuf_default_realloc grants fill | Some f \<Rightarrow> f),
      opaque = op\<rparr>"

definition dbuf_init :: "(nat \<Rightarrow> nat \<Rightarrow> bool) \<Rightarrow> u8 \<Rightarrow> dynbuf" where
  "dbuf_init grants fill = dbuf_init2 grants fill 0 None"

definition dbuf_realloc :: "dynbuf \<Rightarrow> nat \<Rightarrow> dynbuf \<times> int" where
  "dbuf_realloc s new_size =
     (if new_size > allocated_size s then
        (if error s then (s, -1)
         else
           let grown = (allocated_size s * 3) mod SIZE_MOD div 2;
               new_size = (if grown > new_size then grown else new_size)
           in case realloc_func s (opaque s) (buf s) new_size of
                None \<Rightarrow> (s\<lparr>error := True, opaque := opaque s + 1\<rparr>, -1)
              | Some new_buf \<Rightarrow>
                  (s\<lparr>buf := new_buf, allocated_size := new_size, opaque := opaque s + 1\<rparr>, 0))
      else (s, 0))"

definition dbuf_write :: "dynbuf \<Rightarrow> nat \<Rightarrow> bytes \<Rightarrow> dynbuf \<times> int" where
  "dbuf_write s offset data =
     (let wend = (offset + length data) mod SIZE_MOD;
          (s, r) = dbuf_realloc s wend
      in if r \<noteq> 0 then (s, -1)
         else let s = s\<lparr>buf := blit (buf s) offset data\<rparr>
              in (if wend > dbuf_size s then s\<lparr>dbuf_size := wend\<rparr> else s, 0))"

text \<open>The growth step shared by \<^verbatim>\<open>dbuf_put\<close> and \<^verbatim>\<open>dbuf_put_self\<close>.\<close>

definition dbuf_reserve :: "dynbuf \<Rightarrow> nat \<Rightarrow> dynbuf \<times> int" where
  "dbuf_reserve s len =
     (if (dbuf_size s + len) mod SIZE_MOD > allocated_size s
      then dbuf_realloc s ((dbuf_size s + len) mod SIZE_MOD) else (s, 0))"

definition dbuf_put :: "dynbuf \<Rightarrow> bytes \<Rightarrow> dynbuf \<times> int" where
  "dbuf_put s data =
     (let (s, r) = dbuf_reserve s (length data) in
      if r \<noteq> 0 then (s, -1)
      else (s\<lparr>buf := blit (buf s) (dbuf_size s) data,
              dbuf_size := (dbuf_size s + length data) mod SIZE_MOD\<rparr>, 0))"

definition dbuf_put_self :: "dynbuf \<Rightarrow> nat \<Rightarrow> nat \<Rightarrow> dynbuf \<times> int" where
  "dbuf_put_self s offset len =
     (let (s, r) = dbuf_reserve s len in
      if r \<noteq> 0 then (s, -1)
      else (s\<lparr>buf := blit (buf s) (dbuf_size s) (take len (drop offset (buf s))),
              dbuf_size := (dbuf_size s + len) mod SIZE_MOD\<rparr>, 0))"

definition dbuf_putc :: "dynbuf \<Rightarrow> u8 \<Rightarrow> dynbuf \<times> int" where
  "dbuf_putc s c = dbuf_put s [c]"

definition dbuf_putstr :: "dynbuf \<Rightarrow> bytes \<Rightarrow> dynbuf \<times> int" where
  "dbuf_putstr s str = dbuf_put s (take (strlen str) str)"

definition dbuf_put_u16 :: "dynbuf \<Rightarrow> u16 \<Rightarrow> dynbuf \<times> int" where
  "dbuf_put_u16 s val = dbuf_put s (le16 val)"

definition dbuf_put_u32 :: "dynbuf \<Rightarrow> u32 \<Rightarrow> dynbuf \<times> int" where
  "dbuf_put_u32 s val = dbuf_put s (le32 val)"

definition dbuf_put_u64 :: "dynbuf \<Rightarrow> u64 \<Rightarrow> dynbuf \<times> int" where
  "dbuf_put_u64 s val = dbuf_put s (le64 val)"

text \<open>
  \<^verbatim>\<open>dbuf_printf\<close> formats twice with \<^verbatim>\<open>vsnprintf\<close>; \<open>out\<close> is the formatted text, of which
  \<^verbatim>\<open>vsnprintf(p, n, ...)\<close> stores at most \<open>n - 1\<close> bytes and a terminating NUL.
\<close>

definition dbuf_printf :: "dynbuf \<Rightarrow> bytes \<Rightarrow> dynbuf \<times> int" where
  "dbuf_printf s out =
     (let len = length out in
      if len < 128 then dbuf_put s out
      else
        let (s, r) = dbuf_realloc s ((dbuf_size s + len + 1) mod SIZE_MOD) in
        if r \<noteq> 0 then (s, -1)
        else (s\<lparr>buf := blit (buf s) (dbuf_size s)
                  (take (allocated_size s - dbuf_size s - 1) out @ [0]),
                dbuf_size := (dbuf_size s + len) mod SIZE_MOD\<rparr>, 0))"

text \<open>
  \<^verbatim>\<open>dbuf_free\<close> releases a non-null block and clears the structure (\<^verbatim>\<open>memset\<close>); the second component
  says whether a block was handed to \<^verbatim>\<open>realloc_func(.., 0)\<close>.
\<close>

definition dbuf_free :: "dynbuf \<Rightarrow> dynbuf \<times> bool" where
  "dbuf_free s =
     (\<lparr>buf = [], dbuf_size = 0, allocated_size = 0, error = False,
       realloc_func = (\<lambda>_ _ _. None), opaque = 0\<rparr>, buf s \<noteq> [])"

definition dbuf_error :: "dynbuf \<Rightarrow> bool" where
  "dbuf_error s = error s"

definition dbuf_set_error :: "dynbuf \<Rightarrow> dynbuf" where
  "dbuf_set_error s = s\<lparr>error := True\<rparr>"

interpretation dbuf_alloc: realloc_contract "dbuf_default_realloc grants fill" for grants fill
  using libc_realloc_contract [of grants fill] by (simp add: dbuf_default_realloc_def [abs_def])

section \<open>Invariant and contents\<close>

definition contents :: "dynbuf \<Rightarrow> bytes" where
  "contents s = take (dbuf_size s) (buf s)"

definition dbuf_ok :: "dynbuf \<Rightarrow> bool" where
  "dbuf_ok s \<longleftrightarrow> length (buf s) = allocated_size s \<and> dbuf_size s \<le> allocated_size s \<and>
     allocated_size s \<le> PTRDIFF_MAX \<and> realloc_contract (realloc_func s)"

lemma length_contents [simp]: "dbuf_ok s \<Longrightarrow> length (contents s) = dbuf_size s"
  by (simp add: dbuf_ok_def contents_def)

lemma dbuf_init2_ok [simp]:
  "(case rf of None \<Rightarrow> True | Some f \<Rightarrow> realloc_contract f) \<Longrightarrow> dbuf_ok (dbuf_init2 grants fill op rf)"
  by (auto simp: dbuf_ok_def dbuf_init2_def dbuf_default_realloc_def [abs_def] split: option.splits)

lemma contents_init2 [simp]: "contents (dbuf_init2 grants fill op rf) = []"
  by (simp add: contents_def dbuf_init2_def)

lemma dbuf_init_ok [simp]: "dbuf_ok (dbuf_init grants fill)" "contents (dbuf_init grants fill) = []"
  by (simp_all add: dbuf_init_def)

lemma dbuf_realloc_ok:
  assumes "dbuf_ok s" "dbuf_realloc s n = (s', 0)"
  shows "dbuf_ok s'" "n \<le> allocated_size s'" "dbuf_size s' = dbuf_size s" "contents s' = contents s"
    "error s' = error s" "allocated_size s \<le> allocated_size s'"
    "take (allocated_size s) (buf s') = buf s" "realloc_func s' = realloc_func s"
proof -
  from assms(1) have c: "realloc_contract (realloc_func s)" and l: "length (buf s) = allocated_size s"
    and z: "dbuf_size s \<le> allocated_size s" by (simp_all add: dbuf_ok_def)
  have "dbuf_ok s' \<and> n \<le> allocated_size s' \<and> dbuf_size s' = dbuf_size s \<and> contents s' = contents s \<and>
    error s' = error s \<and> allocated_size s \<le> allocated_size s' \<and>
    take (allocated_size s) (buf s') = buf s \<and> realloc_func s' = realloc_func s"
  proof (cases "n > allocated_size s")
    case False
    then show ?thesis using assms by (auto simp: dbuf_realloc_def dbuf_ok_def)
  next
    case True
    define m where "m = (let grown = (allocated_size s * 3) mod SIZE_MOD div 2
      in if grown > n then grown else n)"
    have m: "n \<le> m" by (simp add: m_def Let_def)
    from True assms(2) obtain nb where nb: "realloc_func s (opaque s) (buf s) m = Some nb"
      and s': "s' = s\<lparr>buf := nb, allocated_size := m, opaque := opaque s + 1\<rparr>"
      by (auto simp: dbuf_realloc_def m_def Let_def split: if_splits option.splits)
    have "length (buf s) \<le> m" using True m l by simp
    note r = realloc_contract.realloc_length [OF c nb] realloc_contract.realloc_prefix [OF c nb this]
      realloc_contract.realloc_bound [OF c nb] realloc_contract.realloc_take [OF c nb this]
    show ?thesis using r m True l z c by (auto simp: s' dbuf_ok_def contents_def)
  qed
  then show "dbuf_ok s'" "n \<le> allocated_size s'" "dbuf_size s' = dbuf_size s" "contents s' = contents s"
    "error s' = error s" "allocated_size s \<le> allocated_size s'"
    "take (allocated_size s) (buf s') = buf s" "realloc_func s' = realloc_func s" by blast+
qed

lemma dbuf_realloc_fail:
  assumes "dbuf_ok s" "dbuf_realloc s n = (s', r)" "r \<noteq> 0"
  shows "r = -1" "dbuf_ok s'" "error s'" "contents s' = contents s" "dbuf_size s' = dbuf_size s"
    "buf s' = buf s" "allocated_size s' = allocated_size s" "realloc_func s' = realloc_func s"
  using assms
  by (auto simp: dbuf_realloc_def dbuf_ok_def contents_def Let_def split: if_splits option.splits)

lemma dbuf_realloc_returns: "\<exists>s' r. dbuf_realloc s n = (s', r) \<and> (r = 0 \<or> r = -1)"
  by (auto simp: dbuf_realloc_def Let_def split: option.splits)

lemma dbuf_sum_no_wrap:
  "dbuf_ok s \<Longrightarrow> n \<le> PTRDIFF_MAX \<Longrightarrow> (dbuf_size s + n) mod SIZE_MOD = dbuf_size s + n"
  by (simp add: dbuf_ok_def)

lemma dbuf_reserve_cases:
  assumes "dbuf_ok s" "n \<le> PTRDIFF_MAX" "dbuf_reserve s n = (s', r)"
  shows "dbuf_ok s'" "dbuf_size s' = dbuf_size s" "contents s' = contents s" "r = 0 \<or> r = -1"
    "r = 0 \<Longrightarrow> dbuf_size s + n \<le> allocated_size s' \<and> error s' = error s \<and>
       take (allocated_size s) (buf s') = buf s" 
    "r \<noteq> 0 \<Longrightarrow> error s'" "allocated_size s \<le> allocated_size s'" "realloc_func s' = realloc_func s"
proof -
  have w: "(dbuf_size s + n) mod SIZE_MOD = dbuf_size s + n" using dbuf_sum_no_wrap assms(1,2) .
  have "dbuf_ok s' \<and> dbuf_size s' = dbuf_size s \<and> contents s' = contents s \<and> (r = 0 \<or> r = -1) \<and>
    (r = 0 \<longrightarrow> dbuf_size s + n \<le> allocated_size s' \<and> error s' = error s \<and> take (allocated_size s) (buf s') = buf s) \<and>
    (r \<noteq> 0 \<longrightarrow> error s') \<and> allocated_size s \<le> allocated_size s' \<and> realloc_func s' = realloc_func s"
  proof (cases "dbuf_size s + n > allocated_size s")
    case True
    then have re: "dbuf_realloc s (dbuf_size s + n) = (s', r)"
      using assms(3) by (simp add: dbuf_reserve_def w)
    show ?thesis
    proof (cases "r = 0")
      case True
      with re show ?thesis using dbuf_realloc_ok [OF assms(1), of "dbuf_size s + n" s'] by simp
    next
      case False
      then show ?thesis using dbuf_realloc_fail [OF assms(1) re False] by simp
    qed
  next
    case False
    then have "s' = s" "r = 0" using assms(3) by (simp_all add: dbuf_reserve_def w)
    then show ?thesis using assms(1) False by (simp add: dbuf_ok_def)
  qed
  then show "dbuf_ok s'" "dbuf_size s' = dbuf_size s" "contents s' = contents s" "r = 0 \<or> r = -1"
    "r = 0 \<Longrightarrow> dbuf_size s + n \<le> allocated_size s' \<and> error s' = error s \<and> take (allocated_size s) (buf s') = buf s" 
    "r \<noteq> 0 \<Longrightarrow> error s'" "allocated_size s \<le> allocated_size s'" "realloc_func s' = realloc_func s" by blast+
qed

lemma dbuf_put_cases:
  assumes "dbuf_ok s" "length data \<le> PTRDIFF_MAX" "dbuf_put s data = (s', r)"
  shows "dbuf_ok s'" "r = 0 \<or> r = -1" "r = 0 \<Longrightarrow> contents s' = contents s @ data \<and> error s' = error s"
    "r \<noteq> 0 \<Longrightarrow> contents s' = contents s \<and> error s'" "realloc_func s' = realloc_func s"
    "allocated_size s \<le> allocated_size s'"
proof -
  obtain s1 r1 where re: "dbuf_reserve s (length data) = (s1, r1)" by (cases "dbuf_reserve s (length data)")
  note R = dbuf_reserve_cases [OF assms(1,2) re]
  have w: "(dbuf_size s1 + length data) mod SIZE_MOD = dbuf_size s1 + length data"
    using dbuf_sum_no_wrap R(1) assms(2) .
  have "dbuf_ok s' \<and> (r = 0 \<or> r = -1) \<and> (r = 0 \<longrightarrow> contents s' = contents s @ data \<and> error s' = error s) \<and>
    (r \<noteq> 0 \<longrightarrow> contents s' = contents s \<and> error s') \<and> realloc_func s' = realloc_func s \<and>
    allocated_size s \<le> allocated_size s'"
  proof (cases "r1 = 0")
    case True
    then have s': "s' = s1\<lparr>buf := blit (buf s1) (dbuf_size s1) data, dbuf_size := dbuf_size s1 + length data\<rparr>"
      and r: "r = 0" using assms(3) by (simp_all add: dbuf_put_def re w)
    have fit: "dbuf_size s1 + length data \<le> length (buf s1)"
      using R True by (simp add: dbuf_ok_def)
    then have "contents s' = contents s1 @ data"
      by (simp add: s' contents_def take_blit_end)
    moreover have "dbuf_ok s'" using R(1) fit by (simp add: s' dbuf_ok_def)
    ultimately show ?thesis using R True r by (simp add: s')
  next
    case False
    then have "s' = s1" "r = -1" using assms(3) by (simp_all add: dbuf_put_def re)
    then show ?thesis using R False by simp
  qed
  then show "dbuf_ok s'" "r = 0 \<or> r = -1" "r = 0 \<Longrightarrow> contents s' = contents s @ data \<and> error s' = error s"
    "r \<noteq> 0 \<Longrightarrow> contents s' = contents s \<and> error s'" "realloc_func s' = realloc_func s"
    "allocated_size s \<le> allocated_size s'" by blast+
qed

lemma dbuf_put_self_cases:
  assumes "dbuf_ok s" "offset + len \<le> dbuf_size s" "dbuf_put_self s offset len = (s', r)"
  shows "dbuf_ok s' \<and> (r = 0 \<or> r = -1) \<and>
    (r = 0 \<longrightarrow> contents s' = contents s @ take len (drop offset (contents s)) \<and> error s' = error s) \<and>
    (r \<noteq> 0 \<longrightarrow> contents s' = contents s \<and> error s') \<and> realloc_func s' = realloc_func s"
proof -
  have len: "len \<le> PTRDIFF_MAX" using assms(1,2) by (simp add: dbuf_ok_def)
  obtain s1 r1 where re: "dbuf_reserve s len = (s1, r1)" by (cases "dbuf_reserve s len")
  note R = dbuf_reserve_cases [OF assms(1) len re]
  have w: "(dbuf_size s1 + len) mod SIZE_MOD = dbuf_size s1 + len"
    using dbuf_sum_no_wrap R(1) len .
  show ?thesis
  proof (cases "r1 = 0")
    case True
    let ?d = "take len (drop offset (buf s1))"
    have s': "s' = s1\<lparr>buf := blit (buf s1) (dbuf_size s1) ?d, dbuf_size := dbuf_size s1 + len\<rparr>"
      and r: "r = 0" using True assms(3) by (simp_all add: dbuf_put_self_def re w)
    have fit: "dbuf_size s1 + len \<le> length (buf s1)" using R True by (simp add: dbuf_ok_def)
    have d: "?d = take len (drop offset (contents s1))"
      using assms(2) R(2) by (simp add: contents_def drop_take min_def)
    have ld: "length ?d = len" using assms(2) R(2) fit by simp
    have "contents s' = contents s1 @ ?d"
      using fit ld take_blit_end [of "dbuf_size s1" ?d "buf s1"] by (simp add: s' contents_def)
    moreover have "dbuf_ok s'" using R(1) fit ld by (simp add: s' dbuf_ok_def)
    ultimately show ?thesis using R True r d by (simp add: s')
  next
    case False
    then have "s' = s1" "r = -1" using assms(3) by (simp_all add: dbuf_put_self_def re)
    then show ?thesis using R False by simp
  qed
qed

section \<open>The interface of a byte sink\<close>

text \<open>
  What the clients (the regexp emitter, the normalizer) rely on: they append chunk after chunk,
  ignore the return codes and look at the error flag once at the end.
\<close>

locale byte_sink =
  fixes put :: "'s \<Rightarrow> bytes \<Rightarrow> 's \<times> int"
    and view :: "'s \<Rightarrow> bytes"
    and failed :: "'s \<Rightarrow> bool"
    and invar :: "'s \<Rightarrow> bool"
    and small :: "bytes \<Rightarrow> bool"
  assumes put_invar: "invar s \<Longrightarrow> small d \<Longrightarrow> invar (fst (put s d))"
    and put_view: "invar s \<Longrightarrow> small d \<Longrightarrow> \<not> failed (fst (put s d)) \<Longrightarrow> view (fst (put s d)) = view s @ d"
    and put_sticky: "invar s \<Longrightarrow> small d \<Longrightarrow> failed s \<Longrightarrow> failed (fst (put s d))"
begin

primrec puts :: "'s \<Rightarrow> bytes list \<Rightarrow> 's" where
  "puts s [] = s"
| "puts s (d # ds) = puts (fst (put s d)) ds"

lemma puts_invar: "invar s \<Longrightarrow> list_all small ds \<Longrightarrow> invar (puts s ds)"
  by (induction ds arbitrary: s) (auto intro: put_invar)

lemma puts_sticky: "invar s \<Longrightarrow> list_all small ds \<Longrightarrow> failed s \<Longrightarrow> failed (puts s ds)"
  by (induction ds arbitrary: s) (auto intro: put_invar put_sticky)

lemma puts_view:
  "invar s \<Longrightarrow> list_all small ds \<Longrightarrow> \<not> failed (puts s ds) \<Longrightarrow> view (puts s ds) = view s @ concat ds"
proof (induction ds arbitrary: s)
  case (Cons d ds)
  then have i: "invar (fst (put s d))" by (auto intro: put_invar)
  then have "\<not> failed (fst (put s d))" using Cons.prems puts_sticky by auto
  then show ?case using Cons put_view [of s d] i by simp
qed simp

end

interpretation dbuf_sink: byte_sink dbuf_put contents error dbuf_ok "\<lambda>d. length d \<le> PTRDIFF_MAX"
proof unfold_locales
  fix s :: dynbuf and d :: bytes
  assume a: "dbuf_ok s" "length d \<le> PTRDIFF_MAX"
  obtain s' r where p: "dbuf_put s d = (s', r)" by (cases "dbuf_put s d")
  note P = dbuf_put_cases [OF a p]
  show "dbuf_ok (fst (dbuf_put s d))" using P p by simp
  show "contents (fst (dbuf_put s d)) = contents s @ d" if "\<not> error (fst (dbuf_put s d))"
    using P p that by (cases "r = 0") auto
  show "error (fst (dbuf_put s d))" if "error s" using P p that by (cases "r = 0") auto
qed


lemma dbuf_puts_foldl: "dbuf_sink.puts s ds = foldl (\<lambda>s d. fst (dbuf_put s d)) s ds"
  by (induction ds arbitrary: s) simp_all

section \<open>Properties\<close>

text \<open>
  Property C13. Appending to a well-formed buffer either appends exactly the data, or reports -1, sets
  the sticky error flag and leaves the contents alone; the block stays large enough either way.
\<close>

theorem dbuf_put_correct:
  assumes "dbuf_ok s" "length data \<le> PTRDIFF_MAX"
  shows "case dbuf_put s data of (s', r) \<Rightarrow> dbuf_ok s' \<and>
    (r = 0 \<and> contents s' = contents s @ data \<and> error s' = error s \<or>
     r = -1 \<and> contents s' = contents s \<and> error s')"
proof -
  obtain s' r where p: "dbuf_put s data = (s', r)" by (cases "dbuf_put s data")
  show ?thesis using dbuf_put_cases [OF assms p] p by auto
qed

theorem dbuf_put_correct_witness:
  "case dbuf_put (dbuf_init (\<lambda>_ n. n < 100) 0) [1, 2] of (s', r) \<Rightarrow>
     dbuf_ok s' \<and> (r = 0 \<and> contents s' = [1, 2] \<or> r = -1 \<and> contents s' = [] \<and> error s')"
  using dbuf_put_correct [OF dbuf_init_ok(1), of "[1, 2]" "\<lambda>_ n. n < 100" 0] by (auto split: prod.splits)

text \<open>
  Property C14. A client may ignore the return codes of a whole run of appends and test the error
  flag once: if it is clear, the contents are all the chunks in order.
\<close>

theorem dbuf_puts_correct:
  assumes "dbuf_ok s" "list_all (\<lambda>d. length d \<le> PTRDIFF_MAX) ds"
    and "\<not> dbuf_error (foldl (\<lambda>s d. fst (dbuf_put s d)) s ds)"
  shows "contents (foldl (\<lambda>s d. fst (dbuf_put s d)) s ds) = contents s @ concat ds"
  using dbuf_sink.puts_view [OF assms(1,2)] assms(3) by (simp add: dbuf_puts_foldl dbuf_error_def)

theorem dbuf_puts_correct_witness:
  "contents (foldl (\<lambda>s d. fst (dbuf_put s d)) (dbuf_init (\<lambda>_ n. n < 100) 0) [[1, 2], [3]]) = [1, 2, 3]"
  using dbuf_puts_correct [OF dbuf_init_ok(1), of "[[1, 2], [3]]" "\<lambda>_ n. n < 100" 0]
  by (simp add: dbuf_init_def dbuf_error_def dbuf_put_def dbuf_reserve_def dbuf_realloc_def dbuf_init2_def
    dbuf_default_realloc_def [abs_def] libc_realloc_def contents_def)

text \<open>
  Property C15. Copying a part of the buffer to its own end survives the reallocation in between: the
  copied bytes are those of the old contents.
\<close>

theorem dbuf_put_self_correct:
  assumes "dbuf_ok s" "offset + len \<le> dbuf_size s"
  shows "case dbuf_put_self s offset len of (s', r) \<Rightarrow> dbuf_ok s' \<and>
    (r = 0 \<and> contents s' = contents s @ take len (drop offset (contents s)) \<or>
     r = -1 \<and> contents s' = contents s \<and> error s')"
proof -
  obtain s' r where p: "dbuf_put_self s offset len = (s', r)" by (cases "dbuf_put_self s offset len")
  show ?thesis using dbuf_put_self_cases [OF assms p] p by auto
qed

theorem dbuf_put_self_correct_witness:
  "case dbuf_put_self \<lparr>buf = [1, 2, 3], dbuf_size = 2, allocated_size = 3, error = False,
       realloc_func = dbuf_default_realloc (\<lambda>_ n. n < 100) 0, opaque = 0\<rparr> 0 2 of (s', r) \<Rightarrow>
     dbuf_ok s' \<and> (r = 0 \<and> contents s' = [1, 2, 1, 2] \<or> r = -1 \<and> error s')"
  using dbuf_put_self_correct [of "\<lparr>buf = [1, 2, 3], dbuf_size = 2, allocated_size = 3, error = False,
       realloc_func = dbuf_default_realloc (\<lambda>_ n. n < 100) 0, opaque = 0\<rparr>" 0 2]
  by (auto simp: dbuf_ok_def contents_def dbuf_alloc.realloc_contract_axioms split: prod.splits)

end
