(* ===== verification/ListHead.thy ===== *)
theory ListHead
  imports QJS_Prelude
begin

text \<open>
  The intrusive doubly linked circular lists of \<^verbatim>\<open>quickjs/list.h\<close>, on which the engine keeps its
  objects, contexts and jobs. The store maps addresses to \<^verbatim>\<open>struct list_head\<close> nodes; address 0 is \<^verbatim>\<open>NULL\<close>.
  The abstraction \<open>list_rep h head xs\<close> says that the ring of \<open>head\<close> holds the elements \<open>xs\<close> in order.
\<close>

type_synonym addr = nat

record list_head =
  lh_prev :: addr
  lh_next :: addr

type_synonym store = "addr \<Rightarrow> list_head"

section \<open>Operations\<close>

definition set_next :: "store \<Rightarrow> addr \<Rightarrow> addr \<Rightarrow> store" where
  "set_next h p v = h(p := (h p)\<lparr>lh_next := v\<rparr>)"

definition set_prev :: "store \<Rightarrow> addr \<Rightarrow> addr \<Rightarrow> store" where
  "set_prev h p v = h(p := (h p)\<lparr>lh_prev := v\<rparr>)"

definition init_list_head :: "store \<Rightarrow> addr \<Rightarrow> store" where
  "init_list_head h head = set_next (set_prev h head head) head head"

definition list_add_between :: "store \<Rightarrow> addr \<Rightarrow> addr \<Rightarrow> addr \<Rightarrow> store" where
  "list_add_between h el prv nxt =
     (let h = set_next h prv el;
          h = set_prev h el prv;
          h = set_next h el nxt
      in set_prev h nxt el)"

definition list_add :: "store \<Rightarrow> addr \<Rightarrow> addr \<Rightarrow> store" where
  "list_add h el head = list_add_between h el head (lh_next (h head))"

definition list_add_tail :: "store \<Rightarrow> addr \<Rightarrow> addr \<Rightarrow> store" where
  "list_add_tail h el head = list_add_between h el (lh_prev (h head)) head"

definition list_del :: "store \<Rightarrow> addr \<Rightarrow> store" where
  "list_del h el =
     (let prv = lh_prev (h el); nxt = lh_next (h el);
          h = set_next h prv nxt;
          h = set_prev h nxt prv;
          h = set_prev h el 0
      in set_next h el 0)"

definition list_empty :: "store \<Rightarrow> addr \<Rightarrow> bool" where
  "list_empty h el = (lh_next (h el) = el)"

text \<open>
  The iteration macros, as the list of the addresses their body sees. A ring may be broken, so a
  run has fuel; \<open>None\<close> means that it did not come back to the head.
\<close>

fun list_for_each :: "store \<Rightarrow> addr \<Rightarrow> nat \<Rightarrow> addr \<Rightarrow> addr list option" where
  "list_for_each h head 0 el = None"
| "list_for_each h head (Suc fuel) el =
     (if el = head then Some []
      else map_option (Cons el) (list_for_each h head fuel (lh_next (h el))))"

fun list_for_each_prev :: "store \<Rightarrow> addr \<Rightarrow> nat \<Rightarrow> addr \<Rightarrow> addr list option" where
  "list_for_each_prev h head 0 el = None"
| "list_for_each_prev h head (Suc fuel) el =
     (if el = head then Some []
      else map_option (Cons el) (list_for_each_prev h head fuel (lh_prev (h el))))"

text \<open>
  \<^verbatim>\<open>list_for_each_safe\<close> fetches the successor before the body runs; the body here unlinks the
  element when \<open>drop_it\<close> says so, the way the engine frees objects while walking a list.
\<close>

fun list_for_each_safe :: "(addr \<Rightarrow> bool) \<Rightarrow> store \<Rightarrow> addr \<Rightarrow> nat \<Rightarrow> addr \<Rightarrow> store option" where
  "list_for_each_safe drop_it h head 0 el = None"
| "list_for_each_safe drop_it h head (Suc fuel) el =
     (let el1 = lh_next (h el) in
      if el = head then Some h
      else list_for_each_safe drop_it (if drop_it el then list_del h el else h) head fuel el1)"

section \<open>Abstraction\<close>

fun chain :: "store \<Rightarrow> addr list \<Rightarrow> bool" where
  "chain h (x # y # zs) \<longleftrightarrow> lh_next (h x) = y \<and> lh_prev (h y) = x \<and> chain h (y # zs)"
| "chain h _ \<longleftrightarrow> True"

definition list_rep :: "store \<Rightarrow> addr \<Rightarrow> addr list \<Rightarrow> bool" where
  "list_rep h head xs \<longleftrightarrow> chain h (head # xs @ [head]) \<and> distinct (head # xs) \<and> 0 \<notin> set (head # xs)"

section \<open>Properties\<close>

lemma set_next_simps [simp]:
  "lh_next (set_next h p v x) = (if x = p then v else lh_next (h x))"
  "lh_prev (set_next h p v x) = lh_prev (h x)"
  by (simp_all add: set_next_def)

lemma set_prev_simps [simp]:
  "lh_prev (set_prev h p v x) = (if x = p then v else lh_prev (h x))"
  "lh_next (set_prev h p v x) = lh_next (h x)"
  by (simp_all add: set_prev_def)

lemma chain_append:
  "us \<noteq> [] \<Longrightarrow> vs \<noteq> [] \<Longrightarrow> chain h (us @ vs) \<longleftrightarrow>
     chain h us \<and> lh_next (h (last us)) = hd vs \<and> lh_prev (h (hd vs)) = last us \<and> chain h vs"
proof (induction us)
  case (Cons x us)
  then show ?case by (cases us; cases vs) auto
qed simp

lemma chain_frame:
  assumes "\<And>x. x \<in> set (butlast zs) \<Longrightarrow> lh_next (h' x) = lh_next (h x)"
    and "\<And>x. x \<in> set (tl zs) \<Longrightarrow> lh_prev (h' x) = lh_prev (h x)"
  shows "chain h' zs \<longleftrightarrow> chain h zs"
  using assms by (induction h zs rule: chain.induct) auto

lemma last_notin_butlast: "distinct zs \<Longrightarrow> zs \<noteq> [] \<Longrightarrow> last zs \<notin> set (butlast zs)"
  by (induction zs rule: rev_induct) auto

text \<open>
  Splitting a ring at the gap between \<open>xs\<close> and \<open>ys\<close>: stores that change the forward link of the
  node before the gap and the backward link of the node after it keep the two halves.
\<close>

lemma chain_gap_frame:
  assumes d: "distinct (head # xs @ ys)"
    and p: "p = last (head # xs)" and n: "n = hd (ys @ [head])"
    and nx: "\<And>x. x \<in> set (head # xs @ ys) \<Longrightarrow> x \<noteq> p \<Longrightarrow> lh_next (h' x) = lh_next (h x)"
    and pv: "\<And>x. x \<in> set (head # xs @ ys) \<Longrightarrow> x \<noteq> n \<Longrightarrow> lh_prev (h' x) = lh_prev (h x)"
  shows "chain h' (head # xs) = chain h (head # xs)" "chain h' (ys @ [head]) = chain h (ys @ [head])"
    "p \<in> set (head # xs)" "n \<in> set (head # ys)"
proof -
  show pin: "p \<in> set (head # xs)" and nin: "n \<in> set (head # ys)"
    unfolding p n by (rule last_in_set, simp) (cases ys, simp_all)
  have pb: "p \<notin> set (butlast (head # xs))" unfolding p using d by (intro last_notin_butlast) auto
  have nt: "n \<notin> set (tl (ys @ [head]))" unfolding n using d by (cases ys) auto
  have tl: "set (tl (ys @ [head])) \<subseteq> set (head # ys)" by (cases ys) auto
  have bl: "set (butlast (head # xs)) \<subseteq> set (head # xs)" by (meson in_set_butlastD subsetI)
  show "chain h' (head # xs) = chain h (head # xs)"
  proof (rule chain_frame)
    fix x assume "x \<in> set (butlast (head # xs))"
    then show "lh_next (h' x) = lh_next (h x)" using pb bl by (intro nx) auto
  next
    fix x assume "x \<in> set (tl (head # xs))"
    then show "lh_prev (h' x) = lh_prev (h x)" using d nin by (intro pv) auto
  qed
  show "chain h' (ys @ [head]) = chain h (ys @ [head])"
  proof (rule chain_frame)
    fix x assume "x \<in> set (butlast (ys @ [head]))"
    then show "lh_next (h' x) = lh_next (h x)" using d pin by (intro nx) auto
  next
    fix x assume "x \<in> set (tl (ys @ [head]))"
    then show "lh_prev (h' x) = lh_prev (h x)" using nt tl by (intro pv) auto
  qed
qed

lemma chain_Cons:
  "zs \<noteq> [] \<Longrightarrow> chain h (x # zs) \<longleftrightarrow> lh_next (h x) = hd zs \<and> lh_prev (h (hd zs)) = x \<and> chain h zs"
  by (cases zs) auto

lemma chain_gap:
  "chain h (head # xs @ ys @ [head]) \<longleftrightarrow> chain h (head # xs) \<and>
     lh_next (h (last (head # xs))) = hd (ys @ [head]) \<and>
     lh_prev (h (hd (ys @ [head]))) = last (head # xs) \<and> chain h (ys @ [head])"
  using chain_append [of "head # xs" "ys @ [head]" h] by simp

lemma list_add_between_rep:
  assumes rep: "list_rep h head (xs @ ys)" and el: "el \<notin> set (head # xs @ ys)" "el \<noteq> 0"
  shows "list_rep (list_add_between h el (last (head # xs)) (hd (ys @ [head]))) head (xs @ el # ys)"
proof -
  define p n where pn: "p = last (head # xs)" "n = hd (ys @ [head])"
  let ?h = "list_add_between h el p n"
  have ch: "chain h (head # xs @ ys @ [head])" and d: "distinct (head # xs @ ys)"
    and z: "0 \<notin> set (head # xs @ ys)" using rep by (simp_all add: list_rep_def)
  have nx: "lh_next (?h x) = (if x = el then n else if x = p then el else lh_next (h x))" for x
    by (simp add: list_add_between_def Let_def)
  have pv: "lh_prev (?h x) = (if x = n then el else if x = el then p else lh_prev (h x))" for x
    by (simp add: list_add_between_def Let_def)
  have keep: "chain ?h (head # xs) = chain h (head # xs)" "chain ?h (ys @ [head]) = chain h (ys @ [head])"
    and ends: "p \<in> set (head # xs)" "n \<in> set (head # ys)"
    using el by (intro chain_gap_frame [OF d pn]; auto simp: nx pv)+
  have "chain h (head # xs)" "chain h (ys @ [head])"
    using ch chain_gap [of h head xs ys] by simp_all
  moreover have "el \<noteq> p" "el \<noteq> n" using el ends by auto
  ultimately have "chain ?h (head # xs @ (el # ys) @ [head])"
    unfolding chain_gap [of ?h head xs "el # ys", folded pn(1)]
    by (simp add: keep nx pv chain_Cons pn(2) [symmetric])
  then show ?thesis using d z el by (simp add: list_rep_def pn)
qed

lemma list_rep_ends:
  assumes "list_rep h head xs"
  shows "lh_next (h head) = hd (xs @ [head])" "lh_prev (h head) = last (head # xs)"
proof -
  have c: "chain h (head # xs @ [head])" using assms by (simp add: list_rep_def)
  then show "lh_next (h head) = hd (xs @ [head])" by (cases xs) auto
  have "chain h ((head # xs) @ [head])" using c by simp
  then show "lh_prev (h head) = last (head # xs)" by (subst (asm) chain_append) simp_all
qed

lemma list_add_rep:
  "list_rep h head xs \<Longrightarrow> el \<notin> set (head # xs) \<Longrightarrow> el \<noteq> 0 \<Longrightarrow> list_rep (list_add h el head) head (el # xs)"
  using list_add_between_rep [of h head "[]" xs el] by (simp add: list_add_def list_rep_ends)

lemma list_add_tail_rep:
  "list_rep h head xs \<Longrightarrow> el \<notin> set (head # xs) \<Longrightarrow> el \<noteq> 0 \<Longrightarrow>
   list_rep (list_add_tail h el head) head (xs @ [el])"
  using list_add_between_rep [of h head xs "[]" el] by (simp add: list_add_tail_def list_rep_ends)

lemma init_list_head_rep: "head \<noteq> 0 \<Longrightarrow> list_rep (init_list_head h head) head []"
  by (simp add: list_rep_def init_list_head_def)

lemma list_empty_rep: "list_rep h head xs \<Longrightarrow> list_empty h head \<longleftrightarrow> xs = []"
  by (cases xs) (auto simp: list_empty_def list_rep_ends list_rep_def)

lemma list_del_rep:
  assumes rep: "list_rep h head (xs @ el # ys)"
  shows "list_rep (list_del h el) head (xs @ ys)" "lh_next (list_del h el el) = 0" "lh_prev (list_del h el el) = 0"
proof -
  define p n where pn: "p = last (head # xs)" "n = hd (ys @ [head])"
  let ?h = "list_del h el"
  have ch: "chain h (head # xs @ (el # ys) @ [head])" and d: "distinct (head # xs @ el # ys)"
    and z: "0 \<notin> set (head # xs @ el # ys)" using rep by (simp_all add: list_rep_def)
  have c1: "chain h (head # xs)" "lh_prev (h el) = p" "lh_next (h el) = n" "chain h (ys @ [head])"
    using ch unfolding chain_gap by (cases ys; simp add: pn)+
  have nx: "lh_next (?h x) = (if x = el then 0 else if x = p then n else lh_next (h x))" for x
    by (simp add: list_del_def Let_def c1)
  have pv: "lh_prev (?h x) = (if x = el then 0 else if x = n then p else lh_prev (h x))" for x
    by (simp add: list_del_def Let_def c1)
  have d': "distinct (head # xs @ ys)" using d by auto
  have keep: "chain ?h (head # xs) = chain h (head # xs)" "chain ?h (ys @ [head]) = chain h (ys @ [head])"
    and ends: "p \<in> set (head # xs)" "n \<in> set (head # ys)"
    using d by (intro chain_gap_frame [OF d' pn]; auto simp: nx pv)+
  have "el \<noteq> p" "el \<noteq> n" using d ends by auto
  then have "chain ?h (head # xs @ ys @ [head])"
    unfolding chain_gap [of ?h head xs ys, folded pn] by (simp add: keep nx pv c1)
  then show "list_rep ?h head (xs @ ys)" using d z by (simp add: list_rep_def)
  show "lh_next (?h el) = 0" "lh_prev (?h el) = 0" by (simp_all add: nx pv)
qed

lemma list_for_each_chain:
  "chain h (x # xs @ [head]) \<Longrightarrow> head \<notin> set xs \<Longrightarrow> length xs < fuel \<Longrightarrow>
   list_for_each h head fuel (lh_next (h x)) = Some xs"
proof (induction xs arbitrary: x fuel)
  case Nil
  then show ?case by (cases fuel) auto
next
  case (Cons y ys)
  then show ?case by (cases fuel) auto
qed

lemma list_for_each_rep:
  "list_rep h head xs \<Longrightarrow> length xs < fuel \<Longrightarrow> list_for_each h head fuel (lh_next (h head)) = Some xs"
  by (rule list_for_each_chain) (auto simp: list_rep_def)

lemma list_for_each_prev_chain:
  "chain h (head # xs @ [x]) \<Longrightarrow> head \<notin> set xs \<Longrightarrow> length xs < fuel \<Longrightarrow>
   list_for_each_prev h head fuel (lh_prev (h x)) = Some (rev xs)"
proof (induction xs arbitrary: x fuel rule: rev_induct)
  case Nil
  then show ?case by (cases fuel) auto
next
  case (snoc y ys)
  have "chain h ((head # ys) @ [y, x])" using snoc.prems by simp
  then have "chain h ((head # ys) @ [y])" "lh_prev (h x) = y"
    by (simp_all add: chain_append del: append_Cons)
  with snoc show ?case by (cases fuel) auto
qed

lemma list_for_each_prev_rep:
  "list_rep h head xs \<Longrightarrow> length xs < fuel \<Longrightarrow>
   list_for_each_prev h head fuel (lh_prev (h head)) = Some (rev xs)"
  by (rule list_for_each_prev_chain) (auto simp: list_rep_def)

lemma list_rep_next:
  assumes "list_rep h head (xs @ el # ys)"
  shows "lh_next (h el) = hd (ys @ [head])"
proof -
  have "chain h ((head # xs) @ [el] @ (ys @ [head]))" using assms by (simp add: list_rep_def)
  then show ?thesis by (simp add: chain_append del: append_Cons append.simps(2))
qed

lemma list_for_each_safe_rep:
  "list_rep h head (xs @ ys) \<Longrightarrow> length ys < fuel \<Longrightarrow>
   \<exists>h'. list_for_each_safe drop_it h head fuel (hd (ys @ [head])) = Some h' \<and>
     list_rep h' head (xs @ filter (\<lambda>x. \<not> drop_it x) ys)"
proof (induction ys arbitrary: h xs fuel)
  case Nil
  then show ?case by (cases fuel) (auto simp: Let_def)
next
  case (Cons y ys)
  obtain f where f: "fuel = Suc f" using Cons.prems(2) by (cases fuel) auto
  have "y \<noteq> head" using Cons.prems(1) by (auto simp: list_rep_def)
  moreover have "lh_next (h y) = hd (ys @ [head])" using list_rep_next Cons.prems(1) .
  ultimately show ?case
    using Cons.IH [of "list_del h y" xs f] list_del_rep(1) [OF Cons.prems(1)]
      Cons.IH [of h "xs @ [y]" f] Cons.prems f by (auto simp: Let_def)
qed


section \<open>Sequences of operations\<close>

text \<open>What the engine does to one of its lists, and the list of elements it means.\<close>

datatype list_op = Add addr | Add_tail addr | Del addr

fun list_op_step :: "addr \<Rightarrow> store \<Rightarrow> list_op \<Rightarrow> store" where
  "list_op_step head h (Add el) = list_add h el head"
| "list_op_step head h (Add_tail el) = list_add_tail h el head"
| "list_op_step head h (Del el) = list_del h el"

fun list_op_spec :: "addr list \<Rightarrow> list_op \<Rightarrow> addr list" where
  "list_op_spec xs (Add el) = el # xs"
| "list_op_spec xs (Add_tail el) = xs @ [el]"
| "list_op_spec xs (Del el) = remove1 el xs"

fun list_op_pre :: "addr \<Rightarrow> addr list \<Rightarrow> list_op \<Rightarrow> bool" where
  "list_op_pre head xs (Add el) \<longleftrightarrow> el \<noteq> 0 \<and> el \<noteq> head \<and> el \<notin> set xs"
| "list_op_pre head xs (Add_tail el) \<longleftrightarrow> el \<noteq> 0 \<and> el \<noteq> head \<and> el \<notin> set xs"
| "list_op_pre head xs (Del el) \<longleftrightarrow> el \<in> set xs"

fun list_ops_pre :: "addr \<Rightarrow> addr list \<Rightarrow> list_op list \<Rightarrow> bool" where
  "list_ops_pre head xs [] \<longleftrightarrow> True"
| "list_ops_pre head xs (op # ops) \<longleftrightarrow> list_op_pre head xs op \<and> list_ops_pre head (list_op_spec xs op) ops"

lemma list_op_step_rep:
  assumes "list_rep h head xs" "list_op_pre head xs op"
  shows "list_rep (list_op_step head h op) head (list_op_spec xs op)"
proof (cases op)
  case (Del el)
  with assms(2) obtain us vs where xs: "xs = us @ el # vs" "el \<notin> set us"
    by (auto dest: split_list_first)
  then show ?thesis using list_del_rep(1) [of h head us el vs] assms(1) Del by (simp add: remove1_append)
qed (use assms list_add_rep list_add_tail_rep in auto)

text \<open>
  Property C16. Every sequence of insertions at either end and deletions on the linked nodes leaves a
  well-formed ring that holds exactly the elements that the same sequence leaves in a plain list.
\<close>

theorem list_ops_refine:
  assumes "list_rep h head xs" "list_ops_pre head xs ops"
  shows "list_rep (foldl (list_op_step head) h ops) head (foldl list_op_spec xs ops)"
  using assms by (induction ops arbitrary: h xs) (simp_all add: list_op_step_rep)

theorem list_ops_refine_witness:
  "list_rep (foldl (list_op_step 1) (init_list_head (\<lambda>_. \<lparr>lh_prev = 0, lh_next = 0\<rparr>) 1)
     [Add 2, Add_tail 3, Add 4, Del 2]) 1 [4, 3]"
  using list_ops_refine [OF init_list_head_rep [of 1], of "[Add 2, Add_tail 3, Add 4, Del 2]"] by simp

text \<open>
  Property C17. Walking a list with \<^verbatim>\<open>list_for_each_safe\<close> while the body unlinks elements comes back to
  the head, and leaves exactly the elements that were not unlinked, in order.
\<close>

theorem list_for_each_safe_filter:
  assumes "list_rep h head ys" "length ys < fuel"
  shows "\<exists>h'. list_for_each_safe drop_it h head fuel (lh_next (h head)) = Some h' \<and>
     list_rep h' head (filter (\<lambda>x. \<not> drop_it x) ys)"
  using list_for_each_safe_rep [of h head "[]" ys fuel drop_it] assms by (simp add: list_rep_ends)

theorem list_for_each_safe_filter_witness:
  "\<exists>h'. list_for_each_safe (\<lambda>x. x = 2) (list_add (init_list_head (\<lambda>_. \<lparr>lh_prev = 0, lh_next = 0\<rparr>) 1) 2 1) 1 5 2 = Some h' \<and>
     list_rep h' 1 []"
  using list_for_each_safe_filter [OF list_add_rep [OF init_list_head_rep, of 1 2], of 5 "\<lambda>x. x = 2"]
  by (simp add: list_add_def list_add_between_def init_list_head_def)

end
