(* ===== verification/MemExchange.thy ===== *)
theory MemExchange
  imports QJS_Prelude
begin

text \<open>
  The exchange functions at the start of the sorting code of \<^verbatim>\<open>quickjs/cutils.c\<close>: \<^verbatim>\<open>exchange_func\<close> picks,
  from the alignment of the array and the element size, the widest unit in which two elements can
  be exchanged in memory. The lemmas show that every choice exchanges the two blocks exactly.
\<close>

section \<open>Exchanging memory\<close>

text \<open>
  The exchange functions work on raw memory at two offsets. One unit of \<open>w\<close> bytes is read from \<open>a\<close>,
  overwritten by the unit at \<open>b\<close>, and stored at \<open>b\<close>.
\<close>

definition load :: "nat \<Rightarrow> bytes \<Rightarrow> nat \<Rightarrow> bytes" where
  "load w m a = take w (drop a m)"

definition exchange_unit :: "nat \<Rightarrow> bytes \<Rightarrow> nat \<Rightarrow> nat \<Rightarrow> bytes" where
  "exchange_unit w m a b = (let t = load w m a; m = blit m a (load w m b) in blit m b t)"

fun exchange_units :: "nat \<Rightarrow> nat \<Rightarrow> bytes \<Rightarrow> nat \<Rightarrow> nat \<Rightarrow> bytes" where
  "exchange_units w 0 m a b = m"
| "exchange_units w (Suc k) m a b = exchange_units w k (exchange_unit w m a b) (a + w) (b + w)"

definition exchange_bytes :: "bytes \<Rightarrow> nat \<Rightarrow> nat \<Rightarrow> nat \<Rightarrow> bytes" where
  "exchange_bytes m a b n = exchange_units 1 n m a b"

definition exchange_one_byte :: "bytes \<Rightarrow> nat \<Rightarrow> nat \<Rightarrow> nat \<Rightarrow> bytes" where
  "exchange_one_byte m a b n = exchange_unit 1 m a b"

definition exchange_int16s :: "bytes \<Rightarrow> nat \<Rightarrow> nat \<Rightarrow> nat \<Rightarrow> bytes" where
  "exchange_int16s m a b n = exchange_units 2 (n div 2) m a b"

definition exchange_one_int16 :: "bytes \<Rightarrow> nat \<Rightarrow> nat \<Rightarrow> nat \<Rightarrow> bytes" where
  "exchange_one_int16 m a b n = exchange_unit 2 m a b"

definition exchange_int32s :: "bytes \<Rightarrow> nat \<Rightarrow> nat \<Rightarrow> nat \<Rightarrow> bytes" where
  "exchange_int32s m a b n = exchange_units 4 (n div 4) m a b"

definition exchange_one_int32 :: "bytes \<Rightarrow> nat \<Rightarrow> nat \<Rightarrow> nat \<Rightarrow> bytes" where
  "exchange_one_int32 m a b n = exchange_unit 4 m a b"

definition exchange_int64s :: "bytes \<Rightarrow> nat \<Rightarrow> nat \<Rightarrow> nat \<Rightarrow> bytes" where
  "exchange_int64s m a b n = exchange_units 8 (n div 8) m a b"

definition exchange_one_int64 :: "bytes \<Rightarrow> nat \<Rightarrow> nat \<Rightarrow> nat \<Rightarrow> bytes" where
  "exchange_one_int64 m a b n = exchange_unit 8 m a b"

text \<open>Two 64-bit words at once: both of \<open>a\<close> are read before either is overwritten.\<close>

definition exchange_pair64 :: "bytes \<Rightarrow> nat \<Rightarrow> nat \<Rightarrow> bytes" where
  "exchange_pair64 m a b =
     (let t = load 8 m a; u = load 8 m (a + 8);
          m = blit m a (load 8 m b);
          m = blit m (a + 8) (load 8 m (b + 8));
          m = blit m b t
      in blit m (b + 8) u)"

fun exchange_pairs64 :: "nat \<Rightarrow> bytes \<Rightarrow> nat \<Rightarrow> nat \<Rightarrow> bytes" where
  "exchange_pairs64 0 m a b = m"
| "exchange_pairs64 (Suc k) m a b = exchange_pairs64 k (exchange_pair64 m a b) (a + 16) (b + 16)"

definition exchange_int128s :: "bytes \<Rightarrow> nat \<Rightarrow> nat \<Rightarrow> nat \<Rightarrow> bytes" where
  "exchange_int128s m a b n = exchange_pairs64 (n div 16) m a b"

definition exchange_one_int128 :: "bytes \<Rightarrow> nat \<Rightarrow> nat \<Rightarrow> nat \<Rightarrow> bytes" where
  "exchange_one_int128 m a b n = exchange_pair64 m a b"

definition exchange_func :: "nat \<Rightarrow> nat \<Rightarrow> bytes \<Rightarrow> nat \<Rightarrow> nat \<Rightarrow> nat \<Rightarrow> bytes" where
  "exchange_func base n =
     (let k = (base OR n) AND 15 in
      if k = 0 then (if n = 16 then exchange_one_int128 else exchange_int128s)
      else if k = 8 then (if n = 8 then exchange_one_int64 else exchange_int64s)
      else if k = 4 \<or> k = 12 then (if n = 4 then exchange_one_int32 else exchange_int32s)
      else if k = 2 \<or> k = 6 \<or> k = 10 \<or> k = 14 then
        (if n = 2 then exchange_one_int16 else exchange_int16s)
      else (if n = 1 then exchange_one_byte else exchange_bytes))"

section \<open>The exchange functions swap blocks\<close>

definition block_swap :: "bytes \<Rightarrow> nat \<Rightarrow> nat \<Rightarrow> nat \<Rightarrow> bytes" where
  "block_swap m a b n = map (\<lambda>k.
     if a \<le> k \<and> k < a + n then m ! (b + (k - a))
     else if b \<le> k \<and> k < b + n then m ! (a + (k - b)) else m ! k) [0..<length m]"

text \<open>Two blocks of \<open>n\<close> bytes in memory that are the same block or do not overlap.\<close>

definition blocks :: "bytes \<Rightarrow> nat \<Rightarrow> nat \<Rightarrow> nat \<Rightarrow> bool" where
  "blocks m a b n \<longleftrightarrow> a + n \<le> length m \<and> b + n \<le> length m \<and> (a = b \<or> a + n \<le> b \<or> b + n \<le> a)"

lemma length_block_swap [simp]: "length (block_swap m a b n) = length m"
  by (simp add: block_swap_def)

lemma block_swap_nth:
  "k < length m \<Longrightarrow> block_swap m a b n ! k =
     (if a \<le> k \<and> k < a + n then m ! (b + (k - a))
      else if b \<le> k \<and> k < b + n then m ! (a + (k - b)) else m ! k)"
  by (simp add: block_swap_def)

lemma length_load [simp]: "a + w \<le> length m \<Longrightarrow> length (load w m a) = w"
  by (simp add: load_def)

lemma nth_load [simp]: "a + w \<le> length m \<Longrightarrow> j < w \<Longrightarrow> load w m a ! j = m ! (a + j)"
  by (simp add: load_def)

lemma block_swap_0: "block_swap m a b 0 = m"
  by (rule nth_equalityI) (auto simp: block_swap_nth)

lemma block_swap_split:
  assumes "blocks m a b (n + w)"
  shows "block_swap (block_swap m a b w) (a + w) (b + w) n = block_swap m a b (n + w)"
proof (rule nth_equalityI)
  fix k assume "k < length (block_swap (block_swap m a b w) (a + w) (b + w) n)"
  then have k: "k < length m" by simp
  consider "a \<le> k" "k < a + w" | "a + w \<le> k" "k < a + w + n" | "b \<le> k" "k < b + w"
    | "b + w \<le> k" "k < b + w + n"
    | "\<not> (a \<le> k \<and> k < a + w + n)" "\<not> (b \<le> k \<and> k < b + w + n)" by linarith
  then show "block_swap (block_swap m a b w) (a + w) (b + w) n ! k = block_swap m a b (n + w) ! k"
    by cases (use assms k in \<open>auto simp: block_swap_nth blocks_def\<close>)
qed simp

lemma exchange_unit_block:
  assumes "blocks m a b w"
  shows "exchange_unit w m a b = block_swap m a b w"
proof (rule nth_equalityI)
  have l: "length (load w m a) = w" "length (load w m b) = w"
    using assms by (auto simp: load_def blocks_def)
  show "length (exchange_unit w m a b) = length (block_swap m a b w)"
    using assms l by (simp add: exchange_unit_def blocks_def)
  fix k assume "k < length (exchange_unit w m a b)"
  then have "k < length m" using assms l by (simp add: exchange_unit_def blocks_def)
  then show "exchange_unit w m a b ! k = block_swap m a b w ! k"
    using assms l by (auto simp: exchange_unit_def blocks_def nth_blit load_def block_swap_nth)
qed

lemma exchange_pair64_block:
  assumes "blocks m a b 16"
  shows "exchange_pair64 m a b = block_swap m a b 16"
proof (rule nth_equalityI)
  show l: "length (exchange_pair64 m a b) = length (block_swap m a b 16)"
    using assms by (simp add: exchange_pair64_def Let_def blocks_def)
  fix k assume "k < length (exchange_pair64 m a b)"
  then have k: "k < length m" using l by simp
  consider "a \<le> k" "k < a + 8" | "a + 8 \<le> k" "k < a + 16" | "b \<le> k" "k < b + 8"
    | "b + 8 \<le> k" "k < b + 16" | "\<not> (a \<le> k \<and> k < a + 16)" "\<not> (b \<le> k \<and> k < b + 16)" by linarith
  then show "exchange_pair64 m a b ! k = block_swap m a b 16 ! k"
    by cases (use assms k in \<open>auto simp: exchange_pair64_def Let_def blocks_def nth_blit block_swap_nth\<close>)
qed

lemma blocks_step: "blocks m a b (n + w) \<Longrightarrow> blocks m a b w \<and> blocks (block_swap m a b w) (a + w) (b + w) n"
  by (auto simp: blocks_def)

lemma exchange_units_block: "blocks m a b (k * w) \<Longrightarrow> exchange_units w k m a b = block_swap m a b (k * w)"
proof (induction w k m a b rule: exchange_units.induct)
  case (2 w k m a b)
  then have b: "blocks m a b (k * w + w)" by (simp add: add.commute)
  then show ?case
    using 2(1) blocks_step [OF b] block_swap_split [OF b] by (simp add: exchange_unit_block add.commute)
qed (simp add: block_swap_0)

lemma exchange_pairs64_block: "blocks m a b (k * 16) \<Longrightarrow> exchange_pairs64 k m a b = block_swap m a b (k * 16)"
proof (induction k m a b rule: exchange_pairs64.induct)
  case (2 k m a b)
  then have b: "blocks m a b (k * 16 + 16)" by (simp add: add.commute)
  then show ?case
    using 2(1) blocks_step [OF b] block_swap_split [OF b] by (simp add: exchange_pair64_block add.commute)
qed (simp add: block_swap_0)

text \<open>The unit that the alignment of the array and the element size select divides the size.\<close>

lemma or_and_dvd:
  assumes "take_bit i ((base OR n) AND 15 :: nat) = 0" "i \<le> 4"
  shows "2 ^ i dvd n"
proof -
  have m: "(15 :: nat) = mask 4" by (simp add: mask_eq_exp_minus_1)
  have "take_bit i ((base OR n) AND 15) = take_bit i base OR take_bit i n"
    using assms(2) unfolding m take_bit_eq_mask [symmetric] by (simp add: take_bit_or min_def)
  then have "take_bit i n = 0" using assms(1) by (simp add: or_eq_0_iff)
  then show ?thesis by (simp add: take_bit_eq_0_iff)
qed

lemma or_128_dvd:
  assumes "2 ^ i dvd (s OR 128 :: nat)" "i \<le> 4"
  shows "2 ^ i dvd s"
proof -
  have "take_bit i (128 :: nat) = 0"
    using assms(2) le_imp_power_dvd [of i 7 "2 :: nat"] by (simp add: take_bit_eq_0_iff dvd_trans)
  then have "take_bit i s = take_bit i (s OR 128)" by (simp only: take_bit_or or.right_neutral)
  then show ?thesis using assms(1) by (metis take_bit_eq_0_iff)
qed

lemma exchange_func_block:
  assumes b: "blocks m a b n" and sz: "sz = n \<or> s dvd n \<and> sz = s OR 128"
  shows "exchange_func base sz m a b n = block_swap m a b n"
proof -
  define k where "k = (base OR sz) AND 15"
  have d: "2 ^ i dvd n" if "take_bit i k = 0" "i \<le> 4" for i
    using or_and_dvd [of i base sz] or_128_dvd [of i s] that sz by (auto simp: k_def intro: dvd_trans)
  have one: "sz = n" if "sz \<le> 16"
  proof (rule ccontr)
    assume "sz \<noteq> n"
    then have "sz = s OR 128" using sz by simp
    moreover have "bit (s OR (128 :: nat)) 7" unfolding bit_or_iff by (simp add: bit_iff_odd)
    ultimately have "odd (sz div 128)" by (simp add: bit_iff_odd)
    then show False using that by (simp add: div_less)
  qed
  have units: "exchange_units w (n div w) m a b = block_swap m a b n" if "w dvd n" for w
    using exchange_units_block [of m a b "n div w" w] b that by simp
  have pairs: "exchange_pairs64 (n div 16) m a b = block_swap m a b n" if "16 dvd n"
    using exchange_pairs64_block [of m a b "n div 16"] b that by simp
  have unit: "exchange_unit sz m a b = block_swap m a b n" if "sz \<le> 16"
    using one [OF that] exchange_unit_block b by simp
  have pair: "exchange_pair64 m a b = block_swap m a b n" if "sz = 16"
    using one that exchange_pair64_block b by simp
  have "2 ^ 4 dvd n" if "k = 0" using d [of 4] that by simp
  moreover have "2 ^ 3 dvd n" if "k = 8" using d [of 3] that by (simp add: take_bit_eq_mod)
  moreover have "2 ^ 2 dvd n" if "k = 4 \<or> k = 12" using d [of 2] that by (auto simp: take_bit_eq_mod)
  moreover have "2 ^ 1 dvd n" if "k = 2 \<or> k = 6 \<or> k = 10 \<or> k = 14"
    using d [of 1] that by (auto simp: take_bit_eq_mod)
  ultimately show ?thesis
    using units [of 1] units [of 2] units [of 4] units [of 8] pairs unit pair
    unfolding exchange_func_def Let_def k_def [symmetric]
    by (auto simp: exchange_bytes_def exchange_one_byte_def exchange_int16s_def exchange_one_int16_def
      exchange_int32s_def exchange_one_int32_def exchange_int64s_def exchange_one_int64_def
      exchange_int128s_def exchange_one_int128_def)
qed

end
