(* ===== verification/RQSort.thy ===== *)
theory RQSort
  imports MemExchange
begin

text \<open>
  The sorting routine of \<^verbatim>\<open>quickjs/cutils.c\<close>: an in-place quicksort with an explicit stack of 50
  segments, three-way partitioning, insertion sort below seven elements, and heap sort beyond
  depth 50; and the comparison functions that the typed-array sort of \<^verbatim>\<open>quickjs/quickjs.c\<close> passes to
  it. The array is a list of elements; the pointers of the C code are positions relative to the
  segment they point into, and \<^verbatim>\<open>cmp\<close> is any function, also one that is not an ordering.
\<close>

section \<open>Exchanging elements\<close>

type_synonym 'a cmp = "'a \<Rightarrow> 'a \<Rightarrow> int"

definition swap :: "'a list \<Rightarrow> nat \<Rightarrow> nat \<Rightarrow> 'a list" where
  "swap xs a b = (let t = xs ! a; xs = xs[a := xs ! b] in xs[b := t])"

fun swap_block :: "'a list \<Rightarrow> nat \<Rightarrow> nat \<Rightarrow> nat \<Rightarrow> 'a list" where
  "swap_block xs a b 0 = xs"
| "swap_block xs a b (Suc k) = swap_block (swap xs a b) (a + 1) (b + 1) k"

section \<open>Heap sort\<close>

text \<open>The inner loop of both phases: sink the element at \<open>r\<close> in the heap of the first \<open>n\<close> elements.\<close>

definition child :: "'a cmp \<Rightarrow> 'a list \<Rightarrow> nat \<Rightarrow> nat \<Rightarrow> nat" where
  "child cmp xs n r =
     (let c = r * 2 + 1 in if c < n - 1 \<and> cmp (xs ! c) (xs ! (c + 1)) \<le> 0 then c + 1 else c)"

function sift :: "'a cmp \<Rightarrow> 'a list \<Rightarrow> nat \<Rightarrow> nat \<Rightarrow> 'a list" where
  "sift cmp xs n r =
     (if r * 2 + 1 < n then
        let c = child cmp xs n r in
        if cmp (xs ! r) (xs ! c) > 0 then xs
        else sift cmp (swap xs r c) n c
      else xs)"
  by pat_completeness auto
termination
  by (relation "measure (\<lambda>(cmp, xs, n, r). n - r)") (auto simp: child_def Let_def)

declare sift.simps [simp del]

fun heap_build :: "'a cmp \<Rightarrow> 'a list \<Rightarrow> nat \<Rightarrow> nat \<Rightarrow> 'a list" where
  "heap_build cmp xs n 0 = xs"
| "heap_build cmp xs n (Suc i) = heap_build cmp (sift cmp xs n i) n i"

fun heap_extract :: "'a cmp \<Rightarrow> 'a list \<Rightarrow> nat \<Rightarrow> 'a list" where
  "heap_extract cmp xs 0 = xs"
| "heap_extract cmp xs (Suc i) = heap_extract cmp (sift cmp (swap xs 0 (Suc i)) (Suc i) 0) i"

definition heapsortx :: "'a cmp \<Rightarrow> 'a list \<Rightarrow> 'a list" where
  "heapsortx cmp xs =
     (let nmemb = length xs in
      if nmemb > 1 then heap_extract cmp (heap_build cmp xs nmemb (nmemb div 2)) (nmemb - 1)
      else xs)"

section \<open>Quicksort\<close>

definition med3 :: "'a cmp \<Rightarrow> 'a list \<Rightarrow> nat \<Rightarrow> nat \<Rightarrow> nat \<Rightarrow> nat" where
  "med3 cmp xs a b c =
     (if cmp (xs ! a) (xs ! b) < 0 then
        (if cmp (xs ! b) (xs ! c) < 0 then b else if cmp (xs ! a) (xs ! c) < 0 then c else a)
      else
        (if cmp (xs ! b) (xs ! c) > 0 then b else if cmp (xs ! a) (xs ! c) < 0 then a else c))"

text \<open>
  The partition of one segment \<open>xs\<close> around its first element. \<open>part_up\<close> and \<open>part_down\<close> are the two
  inner \<^verbatim>\<open>while\<close> loops, \<open>part_loop\<close> the \<^verbatim>\<open>for(;;)\<close> around them. The pointers \<^verbatim>\<open>pi\<close>, \<^verbatim>\<open>plt\<close>, \<^verbatim>\<open>pgt\<close> are at the positions
  \<open>i\<close>, \<open>lt\<close>, \<open>gt\<close>.
\<close>

function part_up :: "'a cmp \<Rightarrow> 'a list \<Rightarrow> nat \<Rightarrow> nat \<Rightarrow> nat \<Rightarrow> 'a list \<times> nat \<times> nat" where
  "part_up cmp xs i lt pj =
     (if i < pj \<and> cmp (xs ! 0) (xs ! i) \<ge> 0 then
        (if cmp (xs ! 0) (xs ! i) = 0 then part_up cmp (swap xs lt i) (i + 1) (lt + 1) pj
         else part_up cmp xs (i + 1) lt pj)
      else (xs, i, lt))"
  by pat_completeness auto
termination by (relation "measure (\<lambda>(cmp, xs, i, lt, pj). pj - i)") auto

function part_down :: "'a cmp \<Rightarrow> 'a list \<Rightarrow> nat \<Rightarrow> nat \<Rightarrow> nat \<Rightarrow> 'a list \<times> nat \<times> nat" where
  "part_down cmp xs i pj gt =
     (let pj = pj - 1 in
      if i < pj \<and> cmp (xs ! 0) (xs ! pj) \<le> 0 then
        (if cmp (xs ! 0) (xs ! pj) = 0 then part_down cmp (swap xs (gt - 1) pj) i pj (gt - 1)
         else part_down cmp xs i pj gt)
      else (xs, pj, gt))"
  by pat_completeness auto
termination by (relation "measure (\<lambda>(cmp, xs, i, pj, gt). pj)") auto

declare part_up.simps [simp del] part_down.simps [simp del]

lemma part_up_eqs:
  "\<not> i < pj \<Longrightarrow> part_up cmp xs i lt pj = (xs, i, lt)"
  "cmp (xs ! 0) (xs ! i) < 0 \<Longrightarrow> part_up cmp xs i lt pj = (xs, i, lt)"
  "i < pj \<Longrightarrow> cmp (xs ! 0) (xs ! i) = 0 \<Longrightarrow>
   part_up cmp xs i lt pj = part_up cmp (swap xs lt i) (i + 1) (lt + 1) pj"
  "i < pj \<Longrightarrow> 0 < cmp (xs ! 0) (xs ! i) \<Longrightarrow> part_up cmp xs i lt pj = part_up cmp xs (i + 1) lt pj"
  by (subst part_up.simps, simp)+

lemma part_up_cases:
  obtains "\<not> i < (pj :: nat)" | "i < pj" "cmp (xs ! 0) (xs ! i) < (0 :: int)"
  | "i < pj" "cmp (xs ! 0) (xs ! i) = 0" | "i < pj" "0 < cmp (xs ! 0) (xs ! i)"
  by linarith

lemma part_down_eqs:
  "\<not> i < pj - 1 \<Longrightarrow> part_down cmp xs i pj gt = (xs, pj - 1, gt)"
  "0 < cmp (xs ! 0) (xs ! (pj - 1)) \<Longrightarrow> part_down cmp xs i pj gt = (xs, pj - 1, gt)"
  "i < pj - 1 \<Longrightarrow> cmp (xs ! 0) (xs ! (pj - 1)) = 0 \<Longrightarrow>
   part_down cmp xs i pj gt = part_down cmp (swap xs (gt - 1) (pj - 1)) i (pj - 1) (gt - 1)"
  "i < pj - 1 \<Longrightarrow> cmp (xs ! 0) (xs ! (pj - 1)) < 0 \<Longrightarrow>
   part_down cmp xs i pj gt = part_down cmp xs i (pj - 1) gt"
  by (subst part_down.simps, simp add: Let_def)+

lemma part_down_cases:
  obtains "\<not> i < (pj :: nat) - 1" | "i < pj - 1" "0 < (cmp (xs ! 0) (xs ! (pj - 1)) :: int)"
  | "i < pj - 1" "cmp (xs ! 0) (xs ! (pj - 1)) = 0" | "i < pj - 1" "cmp (xs ! 0) (xs ! (pj - 1)) < 0"
  by linarith


lemma part_down_le: "part_down cmp xs i pj gt = (xs', pj', gt') \<Longrightarrow> pj' \<le> pj - 1"
proof (induction cmp xs i pj gt rule: part_down.induct)
  case (1 cmp xs i pj gt)
  note IH = "1.IH" [OF refl]
  show ?case
    by (cases rule: part_down_cases [of i pj _ cmp xs]; use IH "1.prems" in \<open>auto simp: part_down_eqs diff_le_mono\<close>)
qed

function part_loop :: "'a cmp \<Rightarrow> 'a list \<Rightarrow> nat \<Rightarrow> nat \<Rightarrow> nat \<Rightarrow> nat \<Rightarrow> 'a list \<times> nat \<times> nat \<times> nat" where
  "part_loop cmp xs i lt pj gt =
     (case part_up cmp xs i lt pj of (xs, i, lt) \<Rightarrow>
      case part_down cmp xs i pj gt of (xs, pj', gt) \<Rightarrow>
        if i \<ge> pj' then (xs, i, lt, gt)
        else part_loop cmp (swap xs i pj') (i + 1) lt pj' gt)"
  by pat_completeness auto
termination
proof (relation "measure (\<lambda>(cmp, xs, i, lt, pj, gt). pj)", goal_cases)
  case (2 cmp xs i lt pj gt)
  then show ?case by (auto dest!: sym [of "(_, _)"] dest: part_down_le)
qed simp

declare part_loop.simps [simp del]

text \<open>
  One round of the quicksort loop on a segment of \<open>n\<close> elements: the pivot goes to the front, the
  segment is partitioned, and the two runs of elements equal to the pivot are moved between the
  smaller and the greater ones. The result is the segment with the ends of the two remaining parts.
\<close>

definition partition3 :: "'a cmp \<Rightarrow> 'a list \<Rightarrow> nat \<Rightarrow> 'a list \<times> nat \<times> nat" where
  "partition3 cmp xs n =
     (let m4 = n div 4;
          m = med3 cmp xs m4 (2 * m4) (3 * m4);
          xs = swap xs 0 m
      in case part_loop cmp xs 1 1 n n of (xs, i, lt, gt) \<Rightarrow>
        let xs = (let span = min lt (i - lt) in swap_block xs 0 (i - span) span);
            xs = (let span = min (n - gt) (gt - i) in swap_block xs i (n - span) span)
        in (xs, i - lt, n - (gt - i)))"

fun insert_down :: "'a cmp \<Rightarrow> 'a list \<Rightarrow> nat \<Rightarrow> 'a list" where
  "insert_down cmp xs 0 = xs"
| "insert_down cmp xs (Suc j) =
     (if cmp (xs ! j) (xs ! Suc j) > 0 then insert_down cmp (swap xs (Suc j) j) j else xs)"

fun insertion_loop :: "'a cmp \<Rightarrow> 'a list \<Rightarrow> nat \<Rightarrow> nat \<Rightarrow> 'a list" where
  "insertion_loop cmp xs i 0 = xs"
| "insertion_loop cmp xs i (Suc k) = insertion_loop cmp (insert_down cmp xs i) (i + 1) k"

definition insertion_sort :: "'a cmp \<Rightarrow> 'a list \<Rightarrow> 'a list" where
  "insertion_sort cmp xs = insertion_loop cmp xs 1 (length xs - 1)"

text \<open>
  The driver. The stack of pending segments \<^verbatim>\<open>(base, count, depth)\<close> has 50 slots; a push beyond the
  last slot would be a write out of bounds and is the value \<open>None\<close>.
\<close>

type_synonym segment = "nat \<times> nat \<times> nat"

definition segment_of :: "'a list \<Rightarrow> nat \<Rightarrow> nat \<Rightarrow> 'a list" where
  "segment_of xs ptr n = take n (drop ptr xs)"

function rq_inner :: "'a cmp \<Rightarrow> segment list \<Rightarrow> 'a list \<Rightarrow> nat \<Rightarrow> nat \<Rightarrow> nat \<Rightarrow>
    (segment list \<times> 'a list \<times> nat \<times> nat) option" where
  "rq_inner cmp st xs ptr nmemb depth =
     (if nmemb > 6 then
        if depth + 1 > 50 then
          Some (st, blit xs ptr (heapsortx cmp (segment_of xs ptr nmemb)), ptr, 0)
        else
          case partition3 cmp (segment_of xs ptr nmemb) nmemb of (seg, lt, gt) \<Rightarrow>
            let xs = blit xs ptr seg in
            if length st \<ge> 50 then None
            else if lt > nmemb - gt then
              rq_inner cmp ((ptr, lt, depth + 1) # st) xs (ptr + gt) (nmemb - gt) (depth + 1)
            else
              rq_inner cmp ((ptr + gt, nmemb - gt, depth + 1) # st) xs ptr lt (depth + 1)
      else Some (st, xs, ptr, nmemb))"
  by pat_completeness auto
termination by (relation "measure (\<lambda>(cmp, st, xs, ptr, nmemb, depth). 51 - depth)") auto

declare rq_inner.simps [simp del]

section \<open>Positions\<close>

lemma part_up_idx:
  "part_up cmp xs i lt pj = (xs', i', lt') \<Longrightarrow> lt \<le> i \<Longrightarrow> i \<le> pj \<Longrightarrow>
   i \<le> i' \<and> i' \<le> pj \<and> lt \<le> lt' \<and> lt' \<le> i'"
proof (induction cmp xs i lt pj rule: part_up.induct)
  case (1 cmp xs i lt pj)
  show ?case
    by (cases rule: part_up_cases [of i pj _ cmp xs]; use 1 in \<open>auto simp: part_up_eqs\<close>)
qed

lemma part_down_idx:
  "part_down cmp xs i pj gt = (xs', pj', gt') \<Longrightarrow> i \<le> pj \<Longrightarrow> pj \<le> gt \<Longrightarrow> 0 < i \<Longrightarrow>
   gt' \<le> gt \<and> i \<le> gt' \<and> pj' \<le> gt' \<and> (i < pj' \<longrightarrow> pj' < gt')"
proof (induction cmp xs i pj gt rule: part_down.induct)
  case (1 cmp xs i pj gt)
  note IH = "1.IH" [OF refl]
  show ?case
    by (cases rule: part_down_cases [of i pj _ cmp xs]; use IH "1.prems" in \<open>auto simp: part_down_eqs diff_le_mono\<close>)
qed

lemma part_loop_idx:
  "part_loop cmp xs i lt pj gt = (xs', i', lt', gt') \<Longrightarrow> 0 < lt \<Longrightarrow> lt \<le> i \<Longrightarrow> i \<le> pj \<Longrightarrow> pj \<le> gt \<Longrightarrow>
   0 < lt' \<and> lt' \<le> i' \<and> i' \<le> gt' \<and> gt' \<le> gt"
proof (induction cmp xs i lt pj gt rule: part_loop.induct)
  case (1 cmp xs i lt pj gt)
  obtain xs1 i1 lt1 where up: "part_up cmp xs i lt pj = (xs1, i1, lt1)" by (metis prod_cases3)
  obtain xs2 pj2 gt2 where down: "part_down cmp xs1 i1 pj gt = (xs2, pj2, gt2)" by (metis prod_cases3)
  note u = part_up_idx [OF up] and d = part_down_idx [OF down]
  show ?case
  proof (cases "pj2 \<le> i1")
    case True
    with 1(2-) u d show ?thesis by (subst (asm) part_loop.simps) (auto simp: up down)
  next
    case False
    with "1.prems"(1) have "part_loop cmp (swap xs2 i1 pj2) (i1 + 1) lt1 pj2 gt2 = (xs', i', lt', gt')"
      by (subst (asm) part_loop.simps) (simp add: up down)
    from "1.IH" [OF up [symmetric] refl down [symmetric] refl False this] 1(3-) u d False
    show ?thesis by force
  qed
qed

lemma partition3_idx:
  assumes "partition3 cmp xs n = (ys, lt, gt)" "0 < n"
  shows "lt < gt \<and> gt \<le> n"
proof -
  let ?xs = "swap xs 0 (med3 cmp xs (n div 4) (2 * (n div 4)) (3 * (n div 4)))"
  obtain xs' i' lt' gt' where l: "part_loop cmp ?xs 1 1 n n = (xs', i', lt', gt')"
    by (metis prod_cases4)
  from part_loop_idx [OF this] assms show ?thesis
    by (auto simp: partition3_def Let_def simp flip: One_nat_def simp: l)
qed

definition pending :: "segment list \<Rightarrow> nat" where
  "pending st = sum_list (map (\<lambda>(b, c, d). c + 1) st)"

lemma rq_inner_pending:
  "rq_inner cmp st xs ptr n depth = Some (st', xs', ptr', n') \<Longrightarrow> pending st' + n' \<le> pending st + n"
proof (induction cmp st xs ptr n depth rule: rq_inner.induct)
  case (1 cmp st xs ptr n depth)
  obtain seg lt gt where p: "partition3 cmp (segment_of xs ptr n) n = (seg, lt, gt)"
    by (metis prod_cases3)
  show ?case
  proof (cases "n > 6 \<and> depth + 1 \<le> 50 \<and> length st < 50")
    case True
    then have "lt < gt \<and> gt \<le> n" using partition3_idx [OF p] by simp
    then show ?thesis
      using "1.prems" True "1.IH" [OF _ _ p [symmetric] refl refl]
      by (subst (asm) rq_inner.simps) (force simp: p pending_def Let_def split: if_splits)
  next
    case False
    then show ?thesis using "1.prems"
      by (subst (asm) rq_inner.simps) (auto simp: p Let_def split: if_splits)
  qed
qed

function rq_outer :: "'a cmp \<Rightarrow> segment list \<Rightarrow> 'a list \<Rightarrow> 'a list option" where
  "rq_outer cmp [] xs = Some xs"
| "rq_outer cmp ((ptr, nmemb, depth) # st) xs =
     (case rq_inner cmp st xs ptr nmemb depth of
        None \<Rightarrow> None
      | Some (st, xs, ptr, nmemb) \<Rightarrow>
          rq_outer cmp st (blit xs ptr (insertion_sort cmp (segment_of xs ptr nmemb))))"
  by pat_completeness auto
termination
  by (relation "measure (\<lambda>(cmp, st, xs). pending st)")
    (auto dest!: rq_inner_pending simp: pending_def)

definition rqsort :: "'a cmp \<Rightarrow> 'a list \<Rightarrow> 'a list option" where
  "rqsort cmp xs = (if length xs < 2 then Some xs else rq_outer cmp [(0, length xs, 0)] xs)"

section \<open>Permutations\<close>

lemma swap_nth:
  "a < length xs \<Longrightarrow> b < length xs \<Longrightarrow>
   swap xs a b ! k = xs ! (if k = a then b else if k = b then a else k)"
  by (simp add: swap_def nth_list_update)

lemma swap_keeps [simp]:
  "length (swap xs a b) = length xs"
  "a < length xs \<Longrightarrow> b < length xs \<Longrightarrow> mset (swap xs a b) = mset xs"
  by (simp_all add: swap_def Let_def mset_swap)

lemma length_swap_block [simp]: "length (swap_block xs a b k) = length xs"
  by (induction xs a b k rule: swap_block.induct) auto

lemma mset_swap_block [simp]:
  "a + k \<le> length xs \<Longrightarrow> b + k \<le> length xs \<Longrightarrow> mset (swap_block xs a b k) = mset xs"
  by (induction xs a b k rule: swap_block.induct) auto

lemma swap_block_nth:
  "a + k \<le> b \<Longrightarrow> b + k \<le> length xs \<Longrightarrow>
   swap_block xs a b k ! j =
     (if a \<le> j \<and> j < a + k then xs ! (b + (j - a))
      else if b \<le> j \<and> j < b + k then xs ! (a + (j - b)) else xs ! j)"
proof (induction xs a b k arbitrary: j rule: swap_block.induct)
  case (2 xs a b k)
  from 2(2,3) have "swap_block (swap xs a b) (a + 1) (b + 1) k ! j =
     (if a + 1 \<le> j \<and> j < a + 1 + k then swap xs a b ! (b + 1 + (j - (a + 1)))
      else if b + 1 \<le> j \<and> j < b + 1 + k then swap xs a b ! (a + 1 + (j - (b + 1)))
      else swap xs a b ! j)"
    by (intro "2.IH") auto
  moreover from 2 have "a < length xs" "b < length xs" "a < b" by auto
  moreover consider "j = a" | "j = b" | "a < j \<and> j < b \<or> b < j" "j \<noteq> a" "j \<noteq> b" | "j < a" by linarith
  then show ?case 
    by cases (use calculation 2(2,3) in \<open>auto simp: swap_nth Suc_diff_Suc\<close>)
qed auto

text \<open>What the partition loop keeps, with the pivot in front: the three known parts of the segment.\<close>

definition parts :: "'a cmp \<Rightarrow> 'a list \<Rightarrow> nat \<Rightarrow> nat \<Rightarrow> nat \<Rightarrow> nat \<Rightarrow> bool" where
  "parts cmp xs i lt pj gt \<longleftrightarrow>
     0 < lt \<and> lt \<le> i \<and> i \<le> pj \<and> pj \<le> gt \<and> gt \<le> length xs \<and>
     (\<forall>k. 0 < k \<and> k < lt \<longrightarrow> cmp (xs ! 0) (xs ! k) = 0) \<and>
     (\<forall>k. lt \<le> k \<and> k < i \<longrightarrow> cmp (xs ! 0) (xs ! k) > 0) \<and>
     (\<forall>k. pj \<le> k \<and> k < gt \<longrightarrow> cmp (xs ! 0) (xs ! k) < 0) \<and>
     (\<forall>k. gt \<le> k \<and> k < length xs \<longrightarrow> cmp (xs ! 0) (xs ! k) = 0)"

lemma parts_up_eq:
  "parts cmp xs i lt pj gt \<Longrightarrow> i < pj \<Longrightarrow> cmp (xs ! 0) (xs ! i) = 0 \<Longrightarrow>
   parts cmp (swap xs lt i) (i + 1) (lt + 1) pj gt"
  by (auto simp: parts_def swap_nth less_Suc_eq_le)

lemma parts_up_less:
  "parts cmp xs i lt pj gt \<Longrightarrow> i < pj \<Longrightarrow> cmp (xs ! 0) (xs ! i) > 0 \<Longrightarrow> parts cmp xs (i + 1) lt pj gt"
  by (auto simp: parts_def less_Suc_eq_le le_less)

lemma parts_down_eq:
  assumes "parts cmp xs i lt (Suc q) gt" "i < q" "cmp (xs ! 0) (xs ! q) = 0"
  shows "parts cmp (swap xs (gt - 1) q) i lt q (gt - 1)"
proof -
  from assms(1) obtain g where g: "gt = Suc g" by (cases gt) (auto simp: parts_def)
  have "cmp (xs ! 0) (xs ! k) < 0" if "q \<le> k" "k \<noteq> q" "k < gt" for k
    using that assms(1) by (auto simp: parts_def)
  then show ?thesis using assms by (auto simp: parts_def swap_nth g)
qed

lemma parts_down_greater:
  assumes "parts cmp xs i lt (Suc q) gt" "i < q" "cmp (xs ! 0) (xs ! q) < 0"
  shows "parts cmp xs i lt q gt"
proof -
  have "cmp (xs ! 0) (xs ! k) < 0" if "q \<le> k" "k < gt" for k
    using that assms(1,3) by (cases "k = q") (auto simp: parts_def)
  then show ?thesis using assms by (auto simp: parts_def)
qed

lemma parts_down_end:
  assumes "parts cmp xs i lt pj gt" "\<not> i < pj - 1" "i < pj \<longrightarrow> cmp (xs ! 0) (xs ! i) < 0"
  shows "parts cmp xs i lt i gt"
proof -
  have "cmp (xs ! 0) (xs ! k) < 0" if "i \<le> k" "k < gt" for k
    using that assms by (cases "k = i"; cases "i < pj") (auto simp: parts_def)
  then show ?thesis using assms by (auto simp: parts_def)
qed

lemma parts_exchange:
  assumes "parts cmp xs i lt (Suc q) gt" "i < q" "cmp (xs ! 0) (xs ! q) > 0" "cmp (xs ! 0) (xs ! i) < 0"
  shows "parts cmp (swap xs i q) (i + 1) lt q gt"
proof -
  have "cmp (xs ! 0) (xs ! k) < 0" if "q \<le> k" "k \<noteq> q" "k < gt" for k
    using that assms(1) by (auto simp: parts_def)
  moreover have "cmp (xs ! 0) (xs ! k) > 0" if "lt \<le> k" "k \<noteq> i" "k < Suc i" for k
    using that assms(1) by (auto simp: parts_def)
  ultimately show ?thesis using assms by (auto simp: parts_def swap_nth)
qed

lemma part_up_parts:
  "part_up cmp xs i lt pj = (xs', i', lt') \<Longrightarrow> parts cmp xs i lt pj gt \<Longrightarrow>
   parts cmp xs' i' lt' pj gt \<and> mset xs' = mset xs \<and> xs' ! 0 = xs ! 0 \<and>
   (i' < pj \<longrightarrow> cmp (xs' ! 0) (xs' ! i') < 0)"
proof (induction cmp xs i lt pj rule: part_up.induct)
  case (1 cmp xs i lt pj)
  note p = parts_up_eq [OF "1.prems"(2)] parts_up_less [OF "1.prems"(2)]
  have "i < pj \<Longrightarrow> lt < length xs \<and> i < length xs \<and> 0 < lt \<and> 0 < i"
    using "1.prems"(2) by (auto simp: parts_def)
  then show ?case
    by (cases rule: part_up_cases [of i pj _ cmp xs]; use 1 p in \<open>auto simp: part_up_eqs swap_nth\<close>)
qed

lemma part_down_parts:
  "part_down cmp xs i pj gt = (xs', pj', gt') \<Longrightarrow> parts cmp xs i lt pj gt \<Longrightarrow>
   (i < pj \<longrightarrow> cmp (xs ! 0) (xs ! i) < 0) \<Longrightarrow>
   mset xs' = mset xs \<and> xs' ! 0 = xs ! 0 \<and>
   (if i < pj' then parts cmp xs' i lt (pj' + 1) gt' \<and> cmp (xs' ! 0) (xs' ! pj') > 0 \<and> cmp (xs' ! 0) (xs' ! i) < 0
    else parts cmp xs' i lt i gt')"
proof (induction cmp xs i pj gt rule: part_down.induct)
  case (1 cmp xs i pj gt)
  note IH = "1.IH" [OF refl]
  have b: "0 < gt \<Longrightarrow> gt - 1 < length xs" "0 < lt" "lt \<le> i" "pj \<le> gt"
    using "1.prems"(2) by (auto simp: parts_def)
  show ?case
  proof (cases rule: part_down_cases [of i pj _ cmp xs])
    case 1
    then show ?thesis using parts_down_end [OF "1.prems"(2)] "1.prems" by (simp add: part_down_eqs)
  next
    case 2
    then show ?thesis using "1.prems" by (auto simp: part_down_eqs)
  next
    case 3
    then obtain q where q: "pj = Suc q" by (cases pj) auto
    have s: "swap xs (gt - 1) q ! i = xs ! i" "swap xs (gt - 1) q ! 0 = xs ! 0"
      "mset (swap xs (gt - 1) q) = mset xs"
      using b q 3 by (auto simp: swap_nth)
    then show ?thesis
      using 3 q IH(1) "1.prems" parts_down_eq [of cmp xs i lt q gt] by (auto simp: part_down_eqs)
  next
    case 4
    then obtain q where q: "pj = Suc q" by (cases pj) auto
    then show ?thesis
      using 4 IH(2) "1.prems" parts_down_greater [of cmp xs i lt q gt] by (auto simp: part_down_eqs)
  qed
qed

lemma part_loop_parts:
  "part_loop cmp xs i lt pj gt = (xs', i', lt', gt') \<Longrightarrow> parts cmp xs i lt pj gt \<Longrightarrow>
   parts cmp xs' i' lt' i' gt' \<and> mset xs' = mset xs \<and> xs' ! 0 = xs ! 0"
proof (induction cmp xs i lt pj gt rule: part_loop.induct)
  case (1 cmp xs i lt pj gt)
  obtain xs1 i1 lt1 where up: "part_up cmp xs i lt pj = (xs1, i1, lt1)" by (metis prod_cases3)
  obtain xs2 pj2 gt2 where down: "part_down cmp xs1 i1 pj gt = (xs2, pj2, gt2)" by (metis prod_cases3)
  note u = part_up_parts [OF up "1.prems"(2)]
  note d = part_down_parts [OF down, of lt1]
  have e: "part_loop cmp xs i lt pj gt =
     (if pj2 \<le> i1 then (xs2, i1, lt1, gt2) else part_loop cmp (swap xs2 i1 pj2) (i1 + 1) lt1 pj2 gt2)"
    by (subst part_loop.simps) (simp add: up down)
  show ?case
  proof (cases "pj2 \<le> i1")
    case True
    with u d "1.prems"(1) e show ?thesis by auto
  next
    case False
    with u d have p: "parts cmp xs2 i1 lt1 (Suc pj2) gt2" "cmp (xs2 ! 0) (xs2 ! pj2) > 0"
      "cmp (xs2 ! 0) (xs2 ! i1) < 0" by auto
    then have "parts cmp (swap xs2 i1 pj2) (i1 + 1) lt1 pj2 gt2"
      using False by (intro parts_exchange) auto
    moreover have "mset (swap xs2 i1 pj2) = mset xs2" "swap xs2 i1 pj2 ! 0 = xs2 ! 0"
      using p(1) False by (auto simp: parts_def swap_nth)
    ultimately show ?thesis
      using "1.IH" [OF up [symmetric] refl down [symmetric] refl False] "1.prems"(1) e False u d by auto
  qed
qed


text \<open>
  The outcome of one round: the elements smaller than the pivot \<open>pv\<close>, those equal to it (among
  them the pivot itself), and the greater ones.
\<close>

definition split3 :: "'a cmp \<Rightarrow> 'a \<Rightarrow> 'a list \<Rightarrow> nat \<Rightarrow> nat \<Rightarrow> bool" where
  "split3 cmp pv xs lt gt \<longleftrightarrow> lt < gt \<and> gt \<le> length xs \<and>
     (\<forall>k<lt. cmp pv (xs ! k) > 0) \<and>
     (\<forall>k. lt \<le> k \<and> k < gt \<longrightarrow> cmp pv (xs ! k) = 0 \<or> xs ! k = pv) \<and>
     (\<forall>k. gt \<le> k \<and> k < length xs \<longrightarrow> cmp pv (xs ! k) < 0)"

lemma parts_split3:
  assumes "parts cmp xs i lt i gt"
  defines "ys \<equiv> (let span = min lt (i - lt) in swap_block xs 0 (i - span) span)"
  defines "zs \<equiv> (let span = min (length xs - gt) (gt - i) in swap_block ys i (length xs - span) span)"
  shows "split3 cmp (xs ! 0) zs (i - lt) (length xs - (gt - i)) \<and> mset zs = mset xs"
proof -
  have b: "0 < lt" "lt \<le> i" "i \<le> gt" "gt \<le> length xs" using assms(1) by (auto simp: parts_def)
  have ly: "length ys = length xs" by (simp add: ys_def Let_def)
  have lz: "length zs = length xs" by (simp add: zs_def Let_def ly)
  have eq: "k < lt \<or> gt \<le> k \<and> k < length xs \<Longrightarrow> cmp (xs ! 0) (xs ! k) = 0 \<or> xs ! k = xs ! 0" for k
    using assms(1) by (cases "k = 0") (auto simp: parts_def)
  have less: "lt \<le> k \<Longrightarrow> k < i \<Longrightarrow> cmp (xs ! 0) (xs ! k) > 0" for k
    using assms(1) by (auto simp: parts_def)
  have more: "i \<le> k \<Longrightarrow> k < gt \<Longrightarrow> cmp (xs ! 0) (xs ! k) < 0" for k
    using assms(1) by (auto simp: parts_def)
  have y: "ys ! k = (let span = min lt (i - lt) in
      if k < span then xs ! (i - span + k)
      else if i - span \<le> k \<and> k < i then xs ! (k - (i - span)) else xs ! k)" for k
    using b by (simp add: ys_def Let_def swap_block_nth)
  have z: "zs ! k = (let span = min (length xs - gt) (gt - i) in
      if i \<le> k \<and> k < i + span then ys ! (length xs - span + (k - i))
      else if length xs - span \<le> k \<and> k < length xs then ys ! (i + (k - (length xs - span)))
      else ys ! k)" for k
    using b ly by (simp add: zs_def Let_def swap_block_nth)
  have y1: "k < i - lt \<Longrightarrow> cmp (xs ! 0) (ys ! k) > 0" for k
    using b by (auto simp: y Let_def min_def intro!: less)
  have y2: "i - lt \<le> k \<Longrightarrow> k < i \<Longrightarrow> cmp (xs ! 0) (ys ! k) = 0 \<or> ys ! k = xs ! 0" for k
    using b by (auto simp: y Let_def min_def intro!: eq)
  have y3: "i \<le> k \<Longrightarrow> ys ! k = xs ! k" for k
    using b by (auto simp: y Let_def min_def)
  have z1: "k < i \<Longrightarrow> zs ! k = ys ! k" for k
    using b by (auto simp: z Let_def min_def)
  have z2: "i \<le> k \<Longrightarrow> k < length xs - (gt - i) \<Longrightarrow> cmp (xs ! 0) (zs ! k) = 0 \<or> zs ! k = xs ! 0" for k
    using b by (auto simp: z Let_def min_def y3 intro!: eq)
  have z3: "length xs - (gt - i) \<le> k \<Longrightarrow> k < length xs \<Longrightarrow> cmp (xs ! 0) (zs ! k) < 0" for k
    using b by (auto simp: z Let_def min_def y3 intro!: more)
  have "mset ys = mset xs" using b by (simp add: ys_def Let_def)
  moreover have "mset zs = mset ys" using b ly by (simp add: zs_def Let_def)
  moreover have "split3 cmp (xs ! 0) zs (i - lt) (length xs - (gt - i))"
    unfolding split3_def lz using b y1 y2 z1 z2 z3
    by (auto simp: not_less) (metis not_less)+
  ultimately show ?thesis by simp
qed

lemma med3_cases: "med3 cmp xs a b c \<in> {a, b, c}"
  by (simp add: med3_def)

lemma partition3_split:
  assumes "partition3 cmp xs (length xs) = (ys, lt, gt)" "xs \<noteq> []"
  shows "mset ys = mset xs \<and> (\<exists>pv. split3 cmp pv ys lt gt)"
proof -
  let ?n = "length xs"
  let ?m = "med3 cmp xs (?n div 4) (2 * (?n div 4)) (3 * (?n div 4))"
  obtain xs' i' lt' gt' where l: "part_loop cmp (swap xs 0 ?m) 1 1 ?n ?n = (xs', i', lt', gt')"
    by (metis prod_cases4)
  have "?m < ?n" using med3_cases [of cmp xs "?n div 4" "2 * (?n div 4)" "3 * (?n div 4)"] assms(2)
    by (auto simp del: length_greater_0_conv simp flip: length_greater_0_conv)
  then have m: "mset (swap xs 0 ?m) = mset xs" using assms(2) by simp
  have "parts cmp (swap xs 0 ?m) 1 1 ?n ?n" using assms(2) by (auto simp: parts_def Suc_leI)
  from part_loop_parts [OF l this] have p: "parts cmp xs' i' lt' i' gt'" "mset xs' = mset xs"
    using m by auto
  then have "length xs' = ?n" by (metis size_mset)
  with parts_split3 [OF p(1)] p(2) assms(1) show ?thesis
    by (auto simp: partition3_def Let_def l simp del: One_nat_def)
qed


lemma child_bounds: "r * 2 + 1 < n \<Longrightarrow> r < child cmp xs n r \<and> child cmp xs n r < n"
  by (auto simp: child_def Let_def)

lemma sift_mset:
  "n \<le> length xs \<Longrightarrow> r < n \<Longrightarrow>
   mset (sift cmp xs n r) = mset xs \<and> (\<forall>k\<ge>n. sift cmp xs n r ! k = xs ! k)"
proof (induction cmp xs n r rule: sift.induct)
  case (1 cmp xs n r)
  let ?c = "child cmp xs n r"
  show ?case
  proof (cases "r * 2 + 1 < n \<and> \<not> cmp (xs ! r) (xs ! ?c) > 0")
    case True
    then have c: "r < ?c" "?c < n" using child_bounds by blast+
    have "mset (sift cmp (swap xs r ?c) n ?c) = mset (swap xs r ?c) \<and>
        (\<forall>k\<ge>n. sift cmp (swap xs r ?c) n ?c ! k = swap xs r ?c ! k)"
      using True "1.prems" c by (intro "1.IH") auto
    moreover have "sift cmp xs n r = sift cmp (swap xs r ?c) n ?c"
      using True by (subst sift.simps) (simp add: Let_def)
    ultimately show ?thesis using c "1.prems" by (simp add: swap_nth)
  next
    case False
    then have "sift cmp xs n r = xs" by (subst sift.simps) (auto simp: Let_def)
    then show ?thesis by simp
  qed
qed

lemma length_sift [simp]: "n \<le> length xs \<Longrightarrow> r < n \<Longrightarrow> length (sift cmp xs n r) = length xs"
  using sift_mset by (metis size_mset)

lemma heap_build_mset:
  "n \<le> length xs \<Longrightarrow> i \<le> n \<Longrightarrow> mset (heap_build cmp xs n i) = mset xs"
  by (induction cmp xs n i rule: heap_build.induct) (auto simp: sift_mset)

lemma heap_extract_mset: "i < length xs \<Longrightarrow> mset (heap_extract cmp xs i) = mset xs"
proof (induction cmp xs i rule: heap_extract.induct)
  case (2 cmp xs i)
  then have "mset (swap xs 0 (Suc i)) = mset xs" by (intro swap_keeps) auto
  with 2 show ?case by (simp add: sift_mset)
qed simp

lemma heapsortx_mset: "mset (heapsortx cmp xs) = mset xs"
proof -
  let ?h = "heap_build cmp xs (length xs) (length xs div 2)"
  have h: "mset ?h = mset xs" by (rule heap_build_mset) auto
  then have "length ?h = length xs" by (metis size_mset)
  then have "1 < length xs \<Longrightarrow> mset (heap_extract cmp ?h (length xs - 1)) = mset xs"
    using heap_extract_mset [of "length xs - 1" ?h cmp] h by simp
  then show ?thesis by (simp add: heapsortx_def Let_def)
qed

lemma insert_down_mset: "j < length xs \<Longrightarrow> mset (insert_down cmp xs j) = mset xs"
  by (induction cmp xs j rule: insert_down.induct) auto

lemma insertion_loop_mset: "i + k \<le> length xs \<Longrightarrow> mset (insertion_loop cmp xs i k) = mset xs"
proof (induction cmp xs i k rule: insertion_loop.induct)
  case (2 cmp xs i k)
  have "mset (insert_down cmp xs i) = mset xs" using 2(2) by (intro insert_down_mset) simp
  moreover from this have "length (insert_down cmp xs i) = length xs" by (metis size_mset)
  ultimately show ?case using 2 by simp
qed simp

lemma insertion_sort_mset: "mset (insertion_sort cmp xs) = mset xs"
  using insertion_loop_mset [of 1 "length xs - 1" xs cmp] by (cases xs) (auto simp: insertion_sort_def)

lemma mset_blit:
  assumes "ptr + n \<le> length xs" "mset ys = mset (segment_of xs ptr n)"
  shows "mset (blit xs ptr ys) = mset xs"
proof -
  have "length ys = n" using assms by (metis length_drop length_take min.absorb2 segment_of_def size_mset
     add_le_imp_le_diff add.commute)
  moreover have "xs = take ptr xs @ segment_of xs ptr n @ drop (ptr + n) xs"
    by (simp add: segment_of_def) (metis append_take_drop_id drop_drop add.commute)
  ultimately show ?thesis using assms(2)
    by (metis (no_types, lifting) blit_def mset_append)
qed

end
