(* ===== verification/RQSortOrder.thy ===== *)
theory RQSortOrder
  imports RQSort
begin

text \<open>
  Correctness of the sorting routine: the contract of a comparison function as a locale, heap sort
  and insertion sort under it, the invariant of the quicksort loop on the segments still to be
  sorted, the comparison functions of typed arrays as instances, and the step from elements to
  memory.
\<close>

section \<open>Consistent comparison functions\<close>

text \<open>
  What a caller promises when it wants a sorted array: the sign of \<^verbatim>\<open>cmp\<close> is that of a total preorder.
\<close>

locale c_comparator =
  fixes cmp :: "'a cmp"
  assumes cmp_refl: "cmp x x = 0"
    and cmp_flip: "cmp x y < 0 \<longleftrightarrow> cmp y x > 0"
    and cmp_trans: "cmp x y \<le> 0 \<Longrightarrow> cmp y z \<le> 0 \<Longrightarrow> cmp x z \<le> 0"
begin

lemma cmp_flip_le: "cmp x y \<le> 0 \<longleftrightarrow> cmp y x \<ge> 0"
  using cmp_flip [of y x] by linarith

lemma cmp_total: "cmp x y \<le> 0 \<or> cmp y x \<le> 0"
  using cmp_flip_le [of x y] by linarith

lemma cmp_eq_flip: "cmp x y = 0 \<Longrightarrow> cmp y x = 0"
  using cmp_flip [of x y] cmp_flip [of y x] by linarith

text \<open>Pairs of positions below \<open>n\<close> that are in order.\<close>

lemma insert_down_sorted:
  "j \<le> i \<Longrightarrow> i < length xs \<Longrightarrow>
   \<forall>a b. a < b \<and> b \<le> i \<and> a \<noteq> j \<and> b \<noteq> j \<longrightarrow> cmp (xs ! a) (xs ! b) \<le> 0 \<Longrightarrow>
   \<forall>b. j < b \<and> b \<le> i \<longrightarrow> cmp (xs ! j) (xs ! b) \<le> 0 \<Longrightarrow>
   (\<forall>a b. a < b \<and> b \<le> i \<longrightarrow> cmp (insert_down cmp xs j ! a) (insert_down cmp xs j ! b) \<le> 0)"
proof (induction j arbitrary: xs)
  case 0
  then show ?case by (metis insert_down.simps(1) less_nat_zero_code neq0_conv)
next
  case (Suc j)
  show ?case
  proof (cases "cmp (xs ! j) (xs ! Suc j) > 0")
    case True
    let ?ys = "swap xs (Suc j) j"
    have n: "?ys ! k = (if k = Suc j then xs ! j else if k = j then xs ! Suc j else xs ! k)" for k
      using Suc.prems by (simp add: swap_nth)
    have "cmp (xs ! Suc j) (xs ! j) \<le> 0" using True cmp_total [of "xs ! j" "xs ! Suc j"] by simp
    then have "\<forall>b. j < b \<and> b \<le> i \<longrightarrow> cmp (?ys ! j) (?ys ! b) \<le> 0"
      using Suc.prems by (auto simp: n)
    moreover have "\<forall>a b. a < b \<and> b \<le> i \<and> a \<noteq> j \<and> b \<noteq> j \<longrightarrow> cmp (?ys ! a) (?ys ! b) \<le> 0"
      using Suc.prems by (auto simp: n)
    ultimately show ?thesis using Suc.IH [of ?ys] Suc.prems True by simp
  next
    case False
    have "cmp (xs ! a) (xs ! Suc j) \<le> 0" if "a < Suc j" for a
    proof (cases "a = j")
      case False
      with that have "cmp (xs ! a) (xs ! j) \<le> 0" using Suc.prems by auto
      then show ?thesis using cmp_trans \<open>\<not> cmp (xs ! j) (xs ! Suc j) > 0\<close> by force
    qed (use False in simp)
    then have "\<forall>a b. a < b \<and> b \<le> i \<longrightarrow> cmp (xs ! a) (xs ! b) \<le> 0"
      using Suc.prems by metis
    then show ?thesis using False by simp
  qed
qed

lemma insertion_loop_sorted:
  "i + k \<le> length xs \<Longrightarrow> \<forall>a b. a < b \<and> b < i \<longrightarrow> cmp (xs ! a) (xs ! b) \<le> 0 \<Longrightarrow>
   \<forall>a b. a < b \<and> b < i + k \<longrightarrow> cmp (insertion_loop cmp xs i k ! a) (insertion_loop cmp xs i k ! b) \<le> 0"
proof (induction k arbitrary: i xs)
  case (Suc k)
  let ?ys = "insert_down cmp xs i"
  have "length ?ys = length xs" using insert_down_mset [of i xs cmp] Suc.prems(1)
    by (metis add_lessD1 less_eq_Suc_le add_Suc_right size_mset)
  moreover have "\<forall>a b. a < b \<and> b \<le> i \<longrightarrow> cmp (?ys ! a) (?ys ! b) \<le> 0"
    using Suc.prems by (intro insert_down_sorted) auto
  ultimately show ?case using Suc.IH [of "i + 1" ?ys] Suc.prems(1) by (simp add: less_Suc_eq_le)
qed simp

lemma insertion_sort_sorted:
  "i < j \<Longrightarrow> j < length xs \<Longrightarrow> cmp (insertion_sort cmp xs ! i) (insertion_sort cmp xs ! j) \<le> 0"
  using insertion_loop_sorted [of 1 "length xs - 1" xs] by (cases xs) (auto simp: insertion_sort_def)

definition heap :: "'a list \<Rightarrow> nat \<Rightarrow> nat \<Rightarrow> bool" where
  "heap xs n s \<longleftrightarrow>
     (\<forall>p c. s \<le> p \<and> (c = 2 * p + 1 \<or> c = 2 * p + 2) \<and> c < n \<longrightarrow> cmp (xs ! c) (xs ! p) \<le> 0)"

text \<open>A heap from \<open>s\<close> on except for the children of \<open>r\<close>, which are below the parent of \<open>r\<close>.\<close>

definition heap_hole :: "'a list \<Rightarrow> nat \<Rightarrow> nat \<Rightarrow> nat \<Rightarrow> bool" where
  "heap_hole xs n s r \<longleftrightarrow>
     (\<forall>p c. s \<le> p \<and> p \<noteq> r \<and> (c = 2 * p + 1 \<or> c = 2 * p + 2) \<and> c < n \<longrightarrow> cmp (xs ! c) (xs ! p) \<le> 0) \<and>
     (\<forall>p c. s \<le> p \<and> (r = 2 * p + 1 \<or> r = 2 * p + 2) \<and> (c = 2 * r + 1 \<or> c = 2 * r + 2) \<and> c < n \<longrightarrow>
        cmp (xs ! c) (xs ! p) \<le> 0)"

lemma child_greatest:
  assumes "r * 2 + 1 < n" "c = 2 * r + 1 \<or> c = 2 * r + 2" "c < n"
  shows "cmp (xs ! c) (xs ! child cmp xs n r) \<le> 0"
proof -
  have "\<not> cmp (xs ! Suc (r * 2)) (xs ! Suc (Suc (r * 2))) \<le> 0 \<Longrightarrow> cmp (xs ! Suc (Suc (r * 2))) (xs ! Suc (r * 2)) \<le> 0"
    using cmp_total by blast
  then show ?thesis using assms by (auto simp: child_def Let_def cmp_refl mult.commute)
qed

lemma heap_hole_swap:
  assumes "heap_hole xs n s r" "s \<le> r" "r * 2 + 1 < n" "n \<le> length xs"
    and le: "cmp (xs ! r) (xs ! child cmp xs n r) \<le> 0"
  shows "heap_hole (swap xs r (child cmp xs n r)) n s (child cmp xs n r)"
proof -
  define c where "c = child cmp xs n r"
  have c: "c = 2 * r + 1 \<or> c = 2 * r + 2" "c < n" "r < c"
    using assms(3) child_bounds [OF assms(3), of cmp xs] by (auto simp: c_def child_def Let_def)
  have n: "swap xs r c ! k = (if k = r then xs ! c else if k = c then xs ! r else xs ! k)" for k
    using assms c by (simp add: swap_nth)
  note great = child_greatest [OF assms(3), of _ xs, folded c_def]
  have "cmp (swap xs r c ! k) (swap xs r c ! p) \<le> 0"
    if p: "s \<le> p" "p \<noteq> c" "k = 2 * p + 1 \<or> k = 2 * p + 2" "k < n" for p k
  proof (cases "p = r")
    case True
    then show ?thesis using p great [of k] le [folded c_def] by (auto simp: n)
  next
    case False
    have "k \<noteq> c" using p(3) c False by auto
    then show ?thesis using False p assms(1) c by (auto simp: n heap_hole_def)
  qed
  moreover have "cmp (swap xs r c ! k) (swap xs r c ! p) \<le> 0"
    if p: "s \<le> p" "c = 2 * p + 1 \<or> c = 2 * p + 2" "k = 2 * c + 1 \<or> k = 2 * c + 2" "k < n" for p k
  proof -
    have "p = r" using p(2) c(1) by auto
    moreover have "k \<noteq> r" "k \<noteq> c" using p(3) c by auto
    moreover have "cmp (xs ! k) (xs ! c) \<le> 0"
      using assms(1,2) p c unfolding heap_hole_def by (metis less_imp_le less_irrefl order.trans)
    ultimately show ?thesis by (simp add: n)
  qed
  ultimately show ?thesis unfolding heap_hole_def c_def [symmetric] by blast
qed

lemma sift_heap:
  "heap_hole xs n s r \<Longrightarrow> s \<le> r \<Longrightarrow> n \<le> length xs \<Longrightarrow> heap (sift cmp xs n r) n s"
proof (induction "n - r" arbitrary: xs r rule: less_induct)
  case less
  let ?c = "child cmp xs n r"
  show ?case
  proof (cases "r * 2 + 1 < n \<and> \<not> cmp (xs ! r) (xs ! ?c) > 0")
    case True
    then have "heap_hole (swap xs r ?c) n s ?c" using less.prems by (intro heap_hole_swap) auto
    moreover have "r < ?c" "?c < n" using child_bounds True by blast+
    ultimately have "heap (sift cmp (swap xs r ?c) n ?c) n s"
      using less.prems by (intro less.hyps) auto
    then show ?thesis using True by (subst sift.simps) (simp add: Let_def)
  next
    case False
    then have e: "sift cmp xs n r = xs" by (subst sift.simps) (auto simp: Let_def)
    have "cmp (xs ! c) (xs ! r) \<le> 0" if c: "c = 2 * r + 1 \<or> c = 2 * r + 2" "c < n" for c
    proof -
      have "r * 2 + 1 < n" using c by auto
      moreover from this have "cmp (xs ! ?c) (xs ! r) \<le> 0" using False cmp_flip_le by force
      ultimately show ?thesis using child_greatest [OF _ c, of xs] cmp_trans by blast
    qed
    then show ?thesis using less.prems(1) by (auto simp: e heap_def heap_hole_def)
  qed
qed

lemma heap_build_heap:
  "n \<le> length xs \<Longrightarrow> i \<le> n \<Longrightarrow> heap xs n i \<Longrightarrow> heap (heap_build cmp xs n i) n 0"
proof (induction i arbitrary: xs)
  case (Suc i)
  have "heap_hole xs n i i" using Suc.prems(3) by (auto simp: heap_def heap_hole_def)
  then have "heap (sift cmp xs n i) n i" using Suc.prems by (intro sift_heap) auto
  then show ?case using Suc by simp
qed simp

lemma heap_top: "heap xs n 0 \<Longrightarrow> k < n \<Longrightarrow> cmp (xs ! k) (xs ! 0) \<le> 0"
proof (induction k rule: less_induct)
  case (less k)
  show ?case
  proof (cases "k = 0")
    case False
    let ?p = "(k - 1) div 2"
    have "cmp (xs ! k) (xs ! ?p) \<le> 0" using less.prems False
      unfolding heap_def by (metis (no_types, lifting) Suc_diff_1 div_mod_decomp mod2_eq_if mult.commute
        add.commute add_0 bot_nat_0.not_eq_extremum plus_1_eq_Suc le0 add_2_eq_Suc')
    moreover have "cmp (xs ! ?p) (xs ! 0) \<le> 0" using less False by (intro less.IH) auto
    ultimately show ?thesis using cmp_trans by blast
  qed (simp add: cmp_refl)
qed

lemma sift_set_take:
  assumes "n \<le> length xs" "r < n"
  shows "set (take n (sift cmp xs n r)) = set (take n xs)"
proof -
  let ?ys = "sift cmp xs n r"
  have m: "mset ?ys = mset xs" and d: "drop n ?ys = drop n xs"
    using sift_mset [OF assms, of cmp] assms by (auto intro: nth_equalityI)
  have "mset (take n ?ys) + mset (drop n xs) = mset (take n xs) + mset (drop n xs)"
    using m d by (metis append_take_drop_id mset_append)
  then show ?thesis by (metis add_right_cancel set_mset_mset)
qed

lemma heap_extract_sorted:
  "i < length xs \<Longrightarrow> heap xs (Suc i) 0 \<Longrightarrow>
   \<forall>j k. j < k \<and> i < k \<and> k < length xs \<longrightarrow> cmp (xs ! j) (xs ! k) \<le> 0 \<Longrightarrow>
   j < k \<Longrightarrow> k < length xs \<Longrightarrow> cmp (heap_extract cmp xs i ! j) (heap_extract cmp xs i ! k) \<le> 0"
proof (induction i arbitrary: xs)
  case 0
  then show ?case by simp
next
  case (Suc i)
  let ?ys = "swap xs 0 (Suc i)"
  let ?zs = "sift cmp ?ys (Suc i) 0"
  have y: "?ys ! k = (if k = 0 then xs ! Suc i else if k = Suc i then xs ! 0 else xs ! k)" for k
    using Suc.prems(1) by (subst swap_nth) auto
  have low: "\<exists>q\<le>Suc i. ?zs ! p = xs ! q" if "p \<le> i" for p
  proof -
    have "?zs ! p \<in> set (take (Suc i) ?zs)"
      using that Suc.prems(1) by (auto simp: in_set_conv_nth intro!: exI [of _ p])
    then have "?zs ! p \<in> set (take (Suc i) ?ys)" using Suc.prems(1) by (simp add: sift_set_take)
    then obtain q where "q < Suc i" "?zs ! p = ?ys ! q" by (auto simp: in_set_conv_nth)
    then show ?thesis by (auto simp: y split: if_splits intro: exI [of _ q])
  qed
  have high: "?zs ! p = ?ys ! p" if "i < p" for p
    using sift_mset [of "Suc i" ?ys 0 cmp] Suc.prems(1) that by simp
  have "cmp (?zs ! a) (?zs ! b) \<le> 0" if ab: "a < b" "i < b" "b < length ?zs" for a b
  proof -
    have b: "b < length xs" using ab(3) Suc.prems(1) by simp
    have "\<exists>q. ?zs ! a = xs ! q \<and> (q < b \<or> q \<le> Suc i)"
    proof (cases "a \<le> i")
      case False
      then show ?thesis using high [of a] y [of a] ab(1)
        by (cases "a = Suc i") (auto intro: exI [of _ 0] exI [of _ a])
    qed (use low in blast)
    then obtain q where q: "?zs ! a = xs ! q" "q < b \<or> q \<le> Suc i" by blast
    show ?thesis
    proof (cases "b = Suc i")
      case True
      then show ?thesis using q heap_top [OF Suc.prems(2), of q] high [of b] by (auto simp: y)
    next
      case False
      then have "q < b" using q ab by auto
      then show ?thesis using q(1) Suc.prems(3) b ab False high [of b] by (simp add: y)
    qed
  qed
  moreover have "heap_hole ?ys (Suc i) 0 0"
    using Suc.prems(2) by (auto simp: heap_hole_def heap_def y)
  then have "heap ?zs (Suc i) 0" using Suc.prems(1) by (intro sift_heap) auto
  ultimately show ?case using Suc.IH [of ?zs] Suc.prems by simp
qed

lemma heapsortx_sorted:
  assumes "i < j" "j < length xs"
  shows "cmp (heapsortx cmp xs ! i) (heapsortx cmp xs ! j) \<le> 0"
proof -
  let ?n = "length xs"
  let ?h = "heap_build cmp xs ?n (?n div 2)"
  have l: "length ?h = ?n" using heap_build_mset [of ?n xs "?n div 2" cmp] by (metis div_le_dividend order_refl size_mset)
  have "heap xs ?n (?n div 2)" by (auto simp: heap_def)
  then have "heap ?h ?n 0" using heap_build_heap [of ?n xs "?n div 2"] by simp
  moreover have "Suc (?n - 1) = ?n" using assms by simp
  ultimately have h: "heap ?h (Suc (?n - 1)) 0" by (simp only:)
  have "cmp (heap_extract cmp ?h (?n - 1) ! i) (heap_extract cmp ?h (?n - 1) ! j) \<le> 0"
    by (rule heap_extract_sorted [OF _ h]) (use assms l in auto)
  then show ?thesis using assms by (simp add: heapsortx_def Let_def)
qed

lemma split3_ordered:
  assumes "split3 cmp pv ys lt gt" "i < j" "j < length ys"
  shows "j < lt \<or> gt \<le> i \<or> cmp (ys ! i) (ys ! j) \<le> 0"
proof -
  have "cmp (ys ! i) pv \<le> 0" if "i < gt"
    using that assms(1,2,3) cmp_flip_le [of "ys ! i" pv] cmp_refl cmp_eq_flip [of pv "ys ! i"] unfolding split3_def
    by (metis leI less_imp_le)
  moreover have "cmp pv (ys ! j) \<le> 0" if "lt \<le> j"
    using that assms cmp_refl unfolding split3_def by (metis leI less_imp_le order_refl)
  ultimately show ?thesis using cmp_trans by (meson not_le)
qed

end

section \<open>The segments still to be sorted\<close>

fun segs_ok :: "nat \<Rightarrow> segment list \<Rightarrow> bool" where
  "segs_ok n [] = True"
| "segs_ok n ((b, c, d) # st) =
     (b + c \<le> n \<and> (\<forall>(b', c', d') \<in> set st. b + c \<le> b' \<or> b' + c' \<le> b) \<and> segs_ok n st)"

fun depths_ok :: "nat \<Rightarrow> segment list \<Rightarrow> bool" where
  "depths_ok d [] = True"
| "depths_ok d ((b, c, e) # st) = (0 < e \<and> e \<le> d \<and> depths_ok (e - 1) st)"

lemma depths_ok_length: "depths_ok d st \<Longrightarrow> length st \<le> d"
  by (induction d st rule: depths_ok.induct) auto

lemma depths_ok_mono: "depths_ok d st \<Longrightarrow> d \<le> d' \<Longrightarrow> depths_ok d' st"
  by (cases st) auto

text \<open>Two positions inside one pending segment may still be out of order.\<close>

definition within :: "segment list \<Rightarrow> nat \<Rightarrow> nat \<Rightarrow> bool" where
  "within st i j \<longleftrightarrow> (\<exists>(b, c, d) \<in> set st. b \<le> i \<and> i < b + c \<and> b \<le> j \<and> j < b + c)"

definition ordered_upto :: "'a cmp \<Rightarrow> segment list \<Rightarrow> 'a list \<Rightarrow> bool" where
  "ordered_upto cmp st xs \<longleftrightarrow>
     (\<forall>i j. i < j \<and> j < length xs \<longrightarrow> within st i j \<or> cmp (xs ! i) (xs ! j) \<le> 0)"

lemma segment_nth:
  "ptr + n \<le> length xs \<Longrightarrow> i < n \<Longrightarrow> segment_of xs ptr n ! i = xs ! (ptr + i)"
  by (simp add: segment_of_def)

lemma length_segment [simp]: "ptr + n \<le> length xs \<Longrightarrow> length (segment_of xs ptr n) = n"
  by (simp add: segment_of_def)

lemma within_simps [simp]:
  "within ((b, 0, d) # st) i j \<longleftrightarrow> within st i j"
  "within [] i j \<longleftrightarrow> False"
  by (auto simp: within_def)

lemma ordered_upto_refine:
  assumes ord: "ordered_upto cmp ((b, c, d) # st) xs"
    and ok: "segs_ok (length xs) ((b, c, d) # st)"
    and ys: "mset ys = mset (segment_of xs b c)"
    and new: "\<And>i j. i < j \<Longrightarrow> j < c \<Longrightarrow> within st' (b + i) (b + j) \<or> cmp (ys ! i) (ys ! j) \<le> 0"
    and sub: "set st \<subseteq> set st'"
  shows "ordered_upto cmp st' (blit xs b ys)"
proof -
  have bc: "b + c \<le> length xs" using ok by simp
  then have l: "length ys = c" using ys by (metis length_segment size_mset)
  let ?zs = "blit xs b ys"
  have z: "?zs ! k = (if b \<le> k \<and> k < b + c then ys ! (k - b) else xs ! k)" if "k < length xs" for k
    using that bc l by (simp add: nth_blit)
  have from_seg: "\<exists>q. b \<le> q \<and> q < b + c \<and> ?zs ! k = xs ! q" if "b \<le> k" "k < b + c" for k
  proof -
    have "ys ! (k - b) \<in> set (segment_of xs b c)"
      using that l ys by (metis add_diff_inverse_nat nth_mem nat_add_left_cancel_less not_le set_mset_mset)
    then obtain q where "q < c" "ys ! (k - b) = segment_of xs b c ! q"
      by (metis bc in_set_conv_nth length_segment)
    then show ?thesis using that bc z [of k] segment_nth [OF bc] by (auto intro!: exI [of _ "b + q"])
  qed
  have out: "\<not> within st i j" if "b \<le> i \<and> i < b + c \<or> b \<le> j \<and> j < b + c" for i j
  proof
    assume "within st i j"
    then obtain b' c' d' where "(b', c', d') \<in> set st" "b' \<le> i" "i < b' + c'" "b' \<le> j" "j < b' + c'"
      by (auto simp: within_def)
    moreover from this ok have "b + c \<le> b' \<or> b' + c' \<le> b" by auto
    ultimately show False using that by linarith
  qed
  have pair: "within st i j \<or> cmp (xs ! i) (xs ! j) \<le> 0"
    if "i < j" "j < length xs" "\<not> (b \<le> i \<and> j < b + c)" for i j
  proof -
    have "within ((b, c, d) # st) i j \<longleftrightarrow> within st i j" using that by (auto simp: within_def)
    then show ?thesis using ord that by (auto simp: ordered_upto_def)
  qed
  have mono: "within st i j \<Longrightarrow> within st' i j" for i j
    using sub by (auto simp: within_def)
  have "within st' i j \<or> cmp (?zs ! i) (?zs ! j) \<le> 0" if ij: "i < j" "j < length xs" for i j
  proof (cases "b \<le> i \<and> j < b + c")
    case True
    then show ?thesis using new [of "i - b" "j - b"] z [of i] z [of j] ij by auto
  next
    case False
    consider "b \<le> i" "i < b + c" "b + c \<le> j" | "i < b" "b \<le> j" "j < b + c"
      | "\<not> (b \<le> i \<and> i < b + c)" "\<not> (b \<le> j \<and> j < b + c)"
      using False ij by linarith
    then show ?thesis
    proof cases
      case 1
      then obtain q where q: "b \<le> q" "q < b + c" "?zs ! i = xs ! q" using from_seg by blast
      then have "cmp (xs ! q) (xs ! j) \<le> 0" using pair [of q j] out [of q j] ij 1 by auto
      then show ?thesis using q z [of j] ij 1 by simp
    next
      case 2
      then obtain q where q: "b \<le> q" "q < b + c" "?zs ! j = xs ! q" using from_seg by blast
      then have "cmp (xs ! i) (xs ! q) \<le> 0" using pair [of i q] out [of i q] bc 2 by auto
      then show ?thesis using q z [of i] ij 2 by simp
    next
      case 3
      then show ?thesis using pair [of i j] mono z [of i] z [of j] ij False by auto
    qed
  qed
  then show ?thesis using bc l by (simp add: ordered_upto_def)
qed


lemma ordered_upto_blit:
  assumes "ordered_upto cmp ((b, c, d) # st) xs" "segs_ok (length xs) ((b, c, d) # st)"
    and "mset ys = mset (segment_of xs b c)"
    and "\<And>i j. i < j \<Longrightarrow> j < c \<Longrightarrow> cmp (ys ! i) (ys ! j) \<le> 0"
  shows "ordered_upto cmp st (blit xs b ys)"
  using assms by (intro ordered_upto_refine) auto

lemma partition_segs:
  assumes "segs_ok n ((b, c, d) # st)" "lt < gt" "gt \<le> c"
  shows "segs_ok n ((b, lt, e) # (b + gt, c - gt, f) # st)"
    and "segs_ok n ((b + gt, c - gt, f) # (b, lt, e) # st)"
proof -
  have "b + lt \<le> b' \<or> b' + c' \<le> b" "b + c \<le> b' \<or> b' + c' \<le> b + gt" if "(b', c', d') \<in> set st" for b' c' d'
    using that assms by fastforce+
  then show "segs_ok n ((b, lt, e) # (b + gt, c - gt, f) # st)"
    and "segs_ok n ((b + gt, c - gt, f) # (b, lt, e) # st)"
    using assms by auto
qed

text \<open>One round of the loop, on the segments and on the array.\<close>

lemma partition3_round:
  assumes "partition3 cmp (segment_of xs b c) c = (ys, lt, gt)" "0 < c" "b + c \<le> length xs"
  shows "mset ys = mset (segment_of xs b c) \<and> lt < gt \<and> gt \<le> c \<and> (\<exists>pv. split3 cmp pv ys lt gt) \<and>
    mset (blit xs b ys) = mset xs \<and> length (blit xs b ys) = length xs"
proof -
  have "length (segment_of xs b c) = c" using assms(3) by simp
  then have "mset ys = mset (segment_of xs b c) \<and> (\<exists>pv. split3 cmp pv ys lt gt)"
    using partition3_split [of cmp "segment_of xs b c" ys lt gt] assms(1,2) by fastforce
  moreover from this have "mset (blit xs b ys) = mset xs" using mset_blit [OF assms(3)] by blast
  ultimately show ?thesis using partition3_idx [OF assms(1,2)] by (metis size_mset)
qed

lemma heapsortx_round:
  assumes "b + c \<le> length xs"
  shows "mset (blit xs b (heapsortx cmp (segment_of xs b c))) = mset xs"
  using mset_blit [OF assms] heapsortx_mset by blast

lemma rq_inner_total:
  "depths_ok depth st \<Longrightarrow> depth \<le> 50 \<Longrightarrow> segs_ok (length xs) ((ptr, n, depth) # st) \<Longrightarrow>
   \<exists>st' xs' ptr' n'. rq_inner cmp st xs ptr n depth = Some (st', xs', ptr', n') \<and>
     depths_ok 50 st' \<and> segs_ok (length xs) ((ptr', n', 0) # st') \<and> mset xs' = mset xs"
proof (induction cmp st xs ptr n depth rule: rq_inner.induct)
  case (1 cmp st xs ptr n depth)
  have pn: "ptr + n \<le> length xs" using "1.prems"(3) by simp
  show ?case
  proof (cases "n > 6 \<and> depth + 1 \<le> 50")
    case True
    obtain ys lt gt where p: "partition3 cmp (segment_of xs ptr n) n = (ys, lt, gt)"
      by (metis prod_cases3)
    note r = partition3_round [OF p _ pn]
    have st: "\<not> length st \<ge> 50" using depths_ok_length [OF "1.prems"(1)] True by simp
    let ?xs = "blit xs ptr ys"
    let ?a = "(ptr, lt, depth + 1)" and ?b = "(ptr + gt, n - gt, depth + 1)"
    have "segs_ok (length ?xs) (?b # ?a # st)" "segs_ok (length ?xs) (?a # ?b # st)"
      using partition_segs [OF "1.prems"(3), of lt gt] r True by auto
    moreover have "depths_ok (depth + 1) (?a # st)" "depths_ok (depth + 1) (?b # st)"
      using "1.prems"(1) by auto
    moreover have e: "rq_inner cmp st xs ptr n depth =
        (if n - gt < lt then rq_inner cmp (?a # st) ?xs (ptr + gt) (n - gt) (depth + 1)
         else rq_inner cmp (?b # st) ?xs ptr lt (depth + 1))"
      using True st by (subst rq_inner.simps) (simp add: p Let_def)
    ultimately show ?thesis
      using "1.IH" [OF _ _ p [symmetric] refl refl _] True st r
      by (cases "n - gt < lt") (simp_all del: segs_ok.simps depths_ok.simps)
  next
    case False
    have "depths_ok 50 st" using depths_ok_mono "1.prems"(1,2) by blast
    then show ?thesis
      using False "1.prems" heapsortx_round [OF pn, of cmp]
      by (subst rq_inner.simps) (force simp: Let_def)
  qed
qed


lemma rq_outer_total:
  "(case st of [] \<Rightarrow> True | (_, _, d) # st' \<Rightarrow> depths_ok d st' \<and> d \<le> 50) \<Longrightarrow> segs_ok (length xs) st \<Longrightarrow>
   \<exists>ys. rq_outer cmp st xs = Some ys \<and> mset ys = mset xs"
proof (induction cmp st xs rule: rq_outer.induct)
  case (2 cmp ptr n depth st xs)
  then obtain st' xs' ptr' n' where i: "rq_inner cmp st xs ptr n depth = Some (st', xs', ptr', n')"
    "depths_ok 50 st'" "segs_ok (length xs) ((ptr', n', 0) # st')" "mset xs' = mset xs"
    using rq_inner_total [of depth st xs ptr n cmp] by auto
  let ?xs = "blit xs' ptr' (insertion_sort cmp (segment_of xs' ptr' n'))"
  have l: "length xs' = length xs" using i(4) by (metis size_mset)
  then have m: "mset ?xs = mset xs" using i mset_blit insertion_sort_mset by (metis segs_ok.simps(2))
  then have "length ?xs = length xs" by (metis size_mset)
  moreover have "case st' of [] \<Rightarrow> True | (_, _, d) # st' \<Rightarrow> depths_ok d st' \<and> d \<le> 50"
    using i(2) depths_ok_mono by (auto split: list.splits)
  ultimately show ?case using "2.IH" [OF i(1) refl refl refl] i(1,3) m by simp
qed simp

context c_comparator
begin

lemma rq_inner_ordered:
  "rq_inner cmp st xs ptr n depth = Some (st', xs', ptr', n') \<Longrightarrow>
   segs_ok (length xs) ((ptr, n, depth) # st) \<Longrightarrow> ordered_upto cmp ((ptr, n, depth) # st) xs \<Longrightarrow>
   segs_ok (length xs') ((ptr', n', 0) # st') \<and> ordered_upto cmp ((ptr', n', 0) # st') xs'"
proof (induction "51 - depth" arbitrary: st xs ptr n depth rule: less_induct)
  case less
  have pn: "ptr + n \<le> length xs" using less.prems(2) by simp
  show ?case
  proof (cases "n > 6 \<and> depth + 1 \<le> 50")
    case True
    obtain ys lt gt where p: "partition3 cmp (segment_of xs ptr n) n = (ys, lt, gt)"
      by (metis prod_cases3)
    have r: "mset ys = mset (segment_of xs ptr n)" "lt < gt" "gt \<le> n" "length (blit xs ptr ys) = length xs"
      using partition3_round [OF p _ pn] True by auto
    obtain pv where pv: "split3 cmp pv ys lt gt" using partition3_round [OF p _ pn] True by auto
    have ly: "length ys = n" using r(1) pn by (metis length_segment size_mset)
    let ?xs = "blit xs ptr ys"
    let ?a = "(ptr, lt, depth + 1)" and ?b = "(ptr + gt, n - gt, depth + 1)"
    have ord: "ordered_upto cmp s ?xs" if "?a \<in> set s" "?b \<in> set s" "set st \<subseteq> set s" for s
    proof (rule ordered_upto_refine [OF less.prems(3,2) r(1) _ that(3)])
      fix i j assume ij: "i < j" "j < n"
      have "within s (ptr + i) (ptr + j)" if "j < lt"
        using that ij \<open>?a \<in> set s\<close> by (force simp: within_def intro: bexI [of _ ?a])
      moreover have "within s (ptr + i) (ptr + j)" if "gt \<le> i"
        using that ij \<open>?b \<in> set s\<close> by (force simp: within_def intro: bexI [of _ ?b])
      ultimately show "within s (ptr + i) (ptr + j) \<or> cmp (ys ! i) (ys ! j) \<le> 0"
        using split3_ordered [OF pv, of i j] ij ly by blast
    qed
    have seg: "segs_ok (length ?xs) (?b # ?a # st)" "segs_ok (length ?xs) (?a # ?b # st)"
      using partition_segs [OF less.prems(2) r(2,3)] r(4) by auto
    have "(if n - gt < lt then rq_inner cmp (?a # st) ?xs (ptr + gt) (n - gt) (depth + 1)
         else rq_inner cmp (?b # st) ?xs ptr lt (depth + 1)) = Some (st', xs', ptr', n')"
      using less.prems(1) True by (subst (asm) rq_inner.simps) (simp add: p Let_def split: if_splits)
    moreover have dec: "51 - (depth + 1) < 51 - depth" using True by linarith
    ultimately show ?thesis
      using less.hyps [OF dec _ seg(1) ord] less.hyps [OF dec _ seg(2) ord]
      by (cases "n - gt < lt") (simp_all add: insert_commute subset_insertI2)
  next
    case False
    let ?h = "heapsortx cmp (segment_of xs ptr n)"
    have "ordered_upto cmp st (blit xs ptr ?h)"
      by (rule ordered_upto_blit [OF less.prems(3,2) heapsortx_mset])
        (use pn heapsortx_sorted in simp)
    moreover have "length (blit xs ptr ?h) = length xs" using heapsortx_round [OF pn] by (metis size_mset)
    moreover have "ordered_upto cmp ((ptr, 0, 0) # st) ys \<longleftrightarrow> ordered_upto cmp st ys"
      "ordered_upto cmp ((ptr, n, 0) # st) ys \<longleftrightarrow> ordered_upto cmp ((ptr, n, depth) # st) ys" for ys
      by (simp_all add: ordered_upto_def) (simp add: within_def)
    ultimately show ?thesis using less.prems False
      by (subst (asm) rq_inner.simps) (auto split: if_splits)
  qed
qed

lemma rq_outer_ordered:
  "rq_outer cmp st xs = Some ys \<Longrightarrow> segs_ok (length xs) st \<Longrightarrow> ordered_upto cmp st xs \<Longrightarrow>
   ordered_upto cmp [] ys"
proof (induction "pending st" arbitrary: st xs rule: less_induct)
  case less
  show ?case
  proof (cases st)
    case (Cons s st1)
    obtain ptr n depth where s: "s = (ptr, n, depth)" by (metis prod_cases3)
    from less.prems(1) Cons s obtain st' xs' ptr' n'
      where i: "rq_inner cmp st1 xs ptr n depth = Some (st', xs', ptr', n')"
        and o: "rq_outer cmp st' (blit xs' ptr' (insertion_sort cmp (segment_of xs' ptr' n'))) = Some ys"
      by (auto split: option.splits)
    let ?ys = "insertion_sort cmp (segment_of xs' ptr' n')"
    have r: "segs_ok (length xs') ((ptr', n', 0) # st')" "ordered_upto cmp ((ptr', n', 0) # st') xs'"
      using rq_inner_ordered [OF i] less.prems(2,3) Cons s by auto
    then have "ordered_upto cmp st' (blit xs' ptr' ?ys)"
      using insertion_sort_sorted by (intro ordered_upto_blit [OF r(2,1) insertion_sort_mset]) auto
    moreover have "mset (blit xs' ptr' ?ys) = mset xs'" using r(1) insertion_sort_mset mset_blit
      by (metis segs_ok.simps(2))
    then have "length (blit xs' ptr' ?ys) = length xs'" by (metis size_mset)
    moreover have "pending st' < pending st" using rq_inner_pending [OF i] Cons s by (simp add: pending_def)
    ultimately show ?thesis using less.hyps [OF _ o] r(1) by simp
  qed (use less.prems in simp)
qed

end


section \<open>Comparison functions of typed arrays\<close>

text \<open>
  The comparison functions that \<^verbatim>\<open>TypedArray.prototype.sort\<close> passes to \<open>rqsort\<close>. The C expression
  \<^verbatim>\<open>(y < x) - (y > x)\<close> subtracts truth values.
\<close>

definition js_TA_cmp_int8 :: "u8 cmp" where
  "js_TA_cmp_int8 a b = sint a - sint b"

definition js_TA_cmp_uint8 :: "u8 cmp" where
  "js_TA_cmp_uint8 a b = uint a - uint b"

definition js_TA_cmp_int16 :: "u16 cmp" where
  "js_TA_cmp_int16 a b = sint a - sint b"

definition js_TA_cmp_uint16 :: "u16 cmp" where
  "js_TA_cmp_uint16 a b = uint a - uint b"

definition js_TA_cmp_int32 :: "u32 cmp" where
  "js_TA_cmp_int32 a b =
     (let x = sint a; y = sint b in of_bool (y < x) - of_bool (y > x))"

definition js_TA_cmp_uint32 :: "u32 cmp" where
  "js_TA_cmp_uint32 x y = of_bool (y < x) - of_bool (y > x)"

definition js_TA_cmp_int64 :: "u64 cmp" where
  "js_TA_cmp_int64 a b =
     (let x = sint a; y = sint b in of_bool (y < x) - of_bool (y > x))"

definition js_TA_cmp_uint64 :: "u64 cmp" where
  "js_TA_cmp_uint64 x y = of_bool (y < x) - of_bool (y > x)"

interpretation ta_int8: c_comparator js_TA_cmp_int8
  by unfold_locales (auto simp: js_TA_cmp_int8_def)

interpretation ta_uint8: c_comparator js_TA_cmp_uint8
  by unfold_locales (auto simp: js_TA_cmp_uint8_def)

interpretation ta_int16: c_comparator js_TA_cmp_int16
  by unfold_locales (auto simp: js_TA_cmp_int16_def)

interpretation ta_uint16: c_comparator js_TA_cmp_uint16
  by unfold_locales (auto simp: js_TA_cmp_uint16_def)

interpretation ta_int32: c_comparator js_TA_cmp_int32
  by unfold_locales (auto simp: js_TA_cmp_int32_def Let_def of_bool_def split: if_splits)

interpretation ta_uint32: c_comparator js_TA_cmp_uint32
  by unfold_locales (auto simp: js_TA_cmp_uint32_def of_bool_def split: if_splits)

interpretation ta_int64: c_comparator js_TA_cmp_int64
  by unfold_locales (auto simp: js_TA_cmp_int64_def Let_def of_bool_def split: if_splits)

interpretation ta_uint64: c_comparator js_TA_cmp_uint64
  by unfold_locales (auto simp: js_TA_cmp_uint64_def of_bool_def split: if_splits)

section \<open>Elements in memory\<close>

text \<open>The elements as they lie in memory, one after the other.\<close>

lemma length_concat_uniform: "\<forall>x \<in> set xs. length x = s \<Longrightarrow> length (concat xs) = length xs * s"
  by (induction xs) auto

lemma nth_concat_uniform:
  "\<forall>x \<in> set xs. length x = s \<Longrightarrow> i < length xs \<Longrightarrow> j < s \<Longrightarrow> concat xs ! (i * s + j) = xs ! i ! j"
proof (induction xs arbitrary: i)
  case (Cons x xs)
  then show ?case by (cases i) (auto simp: nth_append)
qed simp

lemma concat_permute:
  assumes u: "\<forall>x \<in> set xs. length x = s" and "length ys = length xs"
    and f: "\<And>i. i < length xs \<Longrightarrow> f i < length xs \<and> ys ! i = xs ! f i"
    and m: "length m = length xs * s"
      "\<And>i j. i < length xs \<Longrightarrow> j < s \<Longrightarrow> m ! (i * s + j) = concat xs ! (f i * s + j)"
  shows "concat ys = m"
proof (rule nth_equalityI)
  have uy: "\<forall>y \<in> set ys. length y = s" using u f assms(2) by (metis in_set_conv_nth nth_mem)
  then show l: "length (concat ys) = length m" using m(1) assms(2) length_concat_uniform by metis
  fix k assume "k < length (concat ys)"
  then have k: "k < length xs * s" using l m(1) by simp
  then have s: "k div s < length xs" "k mod s < s"
    by (simp add: less_mult_imp_div_less) (cases s; use k in simp)
  have "concat ys ! (k div s * s + k mod s) = ys ! (k div s) ! (k mod s)"
    using nth_concat_uniform [OF uy, of "k div s" "k mod s"] s assms(2) by simp
  also have "\<dots> = m ! (k div s * s + k mod s)"
    using f m(2) [OF s] nth_concat_uniform [OF u, of "f (k div s)" "k mod s"] s by metis
  finally show "concat ys ! k = m ! k" by simp
qed

lemma unit_less: "j < s \<Longrightarrow> i * s + j < c * s \<longleftrightarrow> i < (c :: nat)"
proof
  assume "j < s" "i < c"
  then have "(i + 1) * s \<le> c * s" by (intro mult_le_mono1) simp
  then show "i * s + j < c * s" using \<open>j < s\<close> by simp
next
  assume "j < s" "i * s + j < c * s"
  then have "i * s < c * s" by linarith
  then show "i < c" by simp
qed

lemma block_swap_concat:
  assumes u: "\<forall>x \<in> set xs. length x = s" and k: "a + k \<le> b" "b + k \<le> length xs"
  shows "concat (swap_block xs a b k) = block_swap (concat xs) (a * s) (b * s) (k * s)"
proof (rule concat_permute [OF u])
  let ?f = "\<lambda>i. if a \<le> i \<and> i < a + k then b + (i - a) else if b \<le> i \<and> i < b + k then a + (i - b) else i"
  show "?f i < length xs \<and> swap_block xs a b k ! i = xs ! ?f i" if "i < length xs" for i
    using that k by (auto simp: swap_block_nth)
  fix i j assume ij: "i < length xs" "j < s"
  note lt = unit_less [OF ij(2), of i]
  have off: "d * s + (i * s + j - c * s) = (d + (i - c)) * s + j" if "c \<le> i" for c d
    using that by (auto simp: add_mult_distrib dest!: le_Suc_ex)
  have bound: "i * s + j < length xs * s" using lt ij by simp
  have "block_swap (concat xs) (a * s) (b * s) (k * s) ! (i * s + j) =
    (if a \<le> i \<and> i < a + k then concat xs ! (b * s + (i * s + j - a * s))
     else if b \<le> i \<and> i < b + k then concat xs ! (a * s + (i * s + j - b * s)) else concat xs ! (i * s + j))"
    using bound lt [of a] lt [of b] lt [of "a + k"] lt [of "b + k"]
    by (simp add: block_swap_nth length_concat_uniform [OF u] not_less [symmetric] add_mult_distrib)
  then show "block_swap (concat xs) (a * s) (b * s) (k * s) ! (i * s + j) = concat xs ! (?f i * s + j)"
    by (auto simp: off)
qed (use u in \<open>simp_all add: length_concat_uniform\<close>)

lemma swap_concat:
  assumes u: "\<forall>x \<in> set xs. length x = s" and ab: "a < length xs" "b < length xs"
  shows "concat (swap xs a b) = block_swap (concat xs) (a * s) (b * s) s"
proof (rule concat_permute [OF u])
  let ?f = "\<lambda>i. if i = a then b else if i = b then a else i"
  show "?f i < length xs \<and> swap xs a b ! i = xs ! ?f i" if "i < length xs" for i
    using that ab by (auto simp: swap_nth)
  fix i j assume ij: "i < length xs" "j < s"
  have at: "c * s \<le> i * s + j \<and> i * s + j < c * s + s \<longleftrightarrow> i = c" for c
    using unit_less [OF ij(2), of i c] unit_less [OF ij(2), of i "c + 1"] by (auto simp: add_mult_distrib)
  have "(i + 1) * s \<le> length xs * s" using ij(1) by (intro mult_le_mono1) simp
  then have "i * s + j < length xs * s" using ij by simp
  then show "block_swap (concat xs) (a * s) (b * s) s ! (i * s + j) = concat xs ! (?f i * s + j)"
    by (simp add: block_swap_nth length_concat_uniform [OF u] at)
qed (use u in \<open>simp_all add: length_concat_uniform\<close>)


section \<open>Correctness\<close>

text \<open>
  Property C10. Whatever the comparison function answers, also an inconsistent one, \<open>rqsort\<close> ends,
  never pushes a segment beyond the 50 slots of its stack, and leaves a permutation of the array.
\<close>

theorem rqsort_permutes: "\<exists>ys. rqsort cmp xs = Some ys \<and> mset ys = mset xs"
  using rq_outer_total [of "[(0, length xs, 0)]" xs cmp] by (simp add: rqsort_def del: rq_outer.simps)

text \<open>
  Property C2. With a comparison function that has the sign of a total preorder, \<open>rqsort\<close> returns the
  elements of the array in ascending order.
\<close>

theorem rqsort_sorts:
  assumes "c_comparator cmp"
  shows "\<exists>ys. rqsort cmp xs = Some ys \<and> mset ys = mset xs \<and> sorted_wrt (\<lambda>x y. cmp x y \<le> 0) ys"
proof (cases "length xs < 2")
  case True
  then show ?thesis by (cases xs) (auto simp: rqsort_def numeral_2_eq_2)
next
  case False
  let ?st = "[(0, length xs, 0)]"
  obtain ys where ys: "rq_outer cmp ?st xs = Some ys" "mset ys = mset xs"
    using rq_outer_total [of ?st xs cmp] by (auto simp del: rq_outer.simps)
  moreover have "ordered_upto cmp ?st xs" by (auto simp: ordered_upto_def within_def)
  ultimately have "ordered_upto cmp [] ys" using c_comparator.rq_outer_ordered [OF assms] by force
  then show ?thesis
    using ys False by (auto simp: rqsort_def ordered_upto_def sorted_wrt_iff_nth_less)
qed

theorem rqsort_sorts_witness:
  "\<exists>ys. rqsort js_TA_cmp_int32 [3, - 1, 2, 7, 0, 5, 4, 1] = Some ys \<and> mset ys = mset [3, - 1, 2, 7, 0, 5, 4, 1] \<and>
     sorted_wrt (\<lambda>x y. js_TA_cmp_int32 x y \<le> 0) ys"
  using rqsort_sorts [OF ta_int32.c_comparator_axioms, of "[3, - 1, 2, 7, 0, 5, 4, 1]"] .

text \<open>
  Property C18. The exchange function chosen for the element size, and the one chosen for moving whole
  runs of elements (with the size \<^verbatim>\<open>size | 128\<close>), do in memory what the swaps of the algorithm do on
  elements, whatever the alignment of the array.
\<close>

theorem exchange_func_refines_swap:
  assumes "\<forall>x \<in> set xs. length x = sz" "a < length xs" "b < length xs"
  shows "concat (swap xs a b) = exchange_func base sz (concat xs) (a * sz) (b * sz) sz \<and>
    (a + k \<le> b \<and> b + k \<le> length xs \<longrightarrow>
       concat (swap_block xs a b k) =
         exchange_func base (sz OR 128) (concat xs) (a * sz) (b * sz) (k * sz))"
proof (intro conjI impI)
  have l: "length (concat xs) = length xs * sz" by (rule length_concat_uniform [OF assms(1)])
  have le: "c * sz + k * sz \<le> d * sz" if "c + k \<le> d" for c d k
    using mult_le_mono1 [OF that, of sz] by (simp add: add_mult_distrib)
  have "blocks (concat xs) (a * sz) (b * sz) sz"
    using le [of a 1 b] le [of b 1 a] le [of a 1 "length xs"] le [of b 1 "length xs"] assms(2,3)
    by (cases a b rule: linorder_cases) (auto simp: blocks_def l)
  then show "concat (swap xs a b) = exchange_func base sz (concat xs) (a * sz) (b * sz) sz"
    by (simp add: exchange_func_block swap_concat [OF assms])
  assume k: "a + k \<le> b \<and> b + k \<le> length xs"
  then have "blocks (concat xs) (a * sz) (b * sz) (k * sz)"
    using le [of a k b] le [of b k "length xs"] by (auto simp: blocks_def l)
  then show "concat (swap_block xs a b k) =
      exchange_func base (sz OR 128) (concat xs) (a * sz) (b * sz) (k * sz)"
    using k by (simp add: exchange_func_block [where s = sz] block_swap_concat [OF assms(1)])
qed

theorem exchange_func_refines_swap_witness:
  "concat (swap [[1, 2], [3, 4], [5, 6]] 0 2) = exchange_func 6 2 (concat [[1, 2], [3, 4], [5, 6]]) 0 4 2"
  using exchange_func_refines_swap [of "[[1, 2], [3, 4], [5, 6]]" 2 0 2 6] by simp

end
