(* ===== verification/CharRange.thy ===== *)
theory CharRange
  imports CUtils
begin

text \<open>
  Sets of code points as sorted lists of interval ends, from \<^verbatim>\<open>quickjs/libunicode.c\<close> and
  \<^verbatim>\<open>quickjs/libunicode.h\<close>: the regular-expression compiler builds its character classes with them and
  the Unicode tables are expanded into them. The block \<open>points\<close> has \<open>cr_size\<close> entries, the first \<open>cr_len\<close>
  of which are in use; the entries at even positions open an interval and those at odd positions
  close it. The allocator state behind \<^verbatim>\<open>mem_opaque\<close> is the number of requests made so far.
\<close>

record char_range =
  cr_len :: nat
  cr_size :: nat
  points :: "u32 list"
  mem_opaque :: nat
  cr_realloc_func :: "u32 realloc_fun"

datatype char_range_op = CR_OP_UNION | CR_OP_INTER | CR_OP_XOR

section \<open>Operations\<close>

definition cr_default_realloc :: "(nat \<Rightarrow> nat \<Rightarrow> bool) \<Rightarrow> u32 \<Rightarrow> u32 realloc_fun" where
  "cr_default_realloc grants fill op ptr n = libc_realloc grants fill op ptr n"

definition cr_init :: "(nat \<Rightarrow> nat \<Rightarrow> bool) \<Rightarrow> u32 \<Rightarrow> nat \<Rightarrow> u32 realloc_fun option \<Rightarrow> char_range" where
  "cr_init grants fill op rf =
     \<lparr>cr_len = 0, cr_size = 0, points = [], mem_opaque = op,
      cr_realloc_func = (case rf of None \<Rightarrow> cr_default_realloc grants fill | Some f \<Rightarrow> f)\<rparr>"

text \<open>Failure is the C code -1; the structure is then as it was, but for the request counted.\<close>

definition cr_realloc :: "char_range \<Rightarrow> nat \<Rightarrow> char_range \<times> int" where
  "cr_realloc cr n =
     (if n > cr_size cr then
        let new_size = max n (cr_size cr * 3 div 2) in
        case cr_realloc_func cr (mem_opaque cr) (points cr) new_size of
          None \<Rightarrow> (cr\<lparr>mem_opaque := mem_opaque cr + 1\<rparr>, -1)
        | Some new_buf \<Rightarrow>
            (cr\<lparr>points := new_buf, cr_size := new_size, mem_opaque := mem_opaque cr + 1\<rparr>, 0)
      else (cr, 0))"

text \<open>\<^verbatim>\<open>cr_free\<close> hands the block to the callback with size 0; the structure is not usable afterwards.\<close>

definition cr_free :: "char_range \<Rightarrow> char_range" where
  "cr_free cr = cr\<lparr>points := [], mem_opaque := mem_opaque cr + 1\<rparr>"

definition cr_copy :: "char_range \<Rightarrow> char_range \<Rightarrow> char_range \<times> int" where
  "cr_copy cr cr1 =
     (let (cr, r) = cr_realloc cr (cr_len cr1) in
      if r \<noteq> 0 then (cr, -1)
      else (cr\<lparr>points := blit (points cr) 0 (take (cr_len cr1) (points cr1)), cr_len := cr_len cr1\<rparr>, 0))"

definition cr_add_point :: "char_range \<Rightarrow> u32 \<Rightarrow> char_range \<times> int" where
  "cr_add_point cr v =
     (let (cr, r) = (if cr_len cr \<ge> cr_size cr then cr_realloc cr (cr_len cr + 1) else (cr, 0)) in
      if r \<noteq> 0 then (cr, -1)
      else (cr\<lparr>points := (points cr)[cr_len cr := v], cr_len := cr_len cr + 1\<rparr>, 0))"

definition cr_add_interval :: "char_range \<Rightarrow> u32 \<Rightarrow> u32 \<Rightarrow> char_range \<times> int" where
  "cr_add_interval cr c1 c2 =
     (let (cr, r) = (if cr_len cr + 2 > cr_size cr then cr_realloc cr (cr_len cr + 2) else (cr, 0)) in
      if r \<noteq> 0 then (cr, -1)
      else (cr\<lparr>points := (points cr)[cr_len cr := c1, cr_len cr + 1 := c2], cr_len := cr_len cr + 2\<rparr>, 0))"

text \<open>
  \<^verbatim>\<open>cr_compress\<close> works in place: \<open>compress_run\<close> is its inner loop, which looks for the end of a run of
  touching intervals, and \<open>compress_loop\<close> the outer one.
\<close>

function compress_run :: "u32 list \<Rightarrow> nat \<Rightarrow> nat \<Rightarrow> nat" where
  "compress_run pt len j =
     (if j + 3 < len \<and> pt ! (j + 1) = pt ! (j + 2) then compress_run pt len (j + 2) else j)"
  by pat_completeness auto
termination by (relation "measure (\<lambda>(pt, len, j). len - j)") auto

declare compress_run.simps [simp del]

lemma compress_run_ge: "j \<le> compress_run pt len j"
proof (induction pt len j rule: compress_run.induct)
  case (1 pt len j)
  then show ?case by (subst compress_run.simps) auto
qed

lemma compress_run_decreases: "Suc i < len \<Longrightarrow> len - Suc (Suc (compress_run pt len i)) < len - i"
  using compress_run_ge [of i pt len] by linarith

function compress_loop :: "u32 list \<Rightarrow> nat \<Rightarrow> nat \<Rightarrow> nat \<Rightarrow> u32 list \<times> nat" where
  "compress_loop pt len i k =
     (if i + 1 < len then
        if pt ! i = pt ! (i + 1) then compress_loop pt len (i + 2) k
        else let j = compress_run pt len i;
                 pt = pt[k := pt ! i];
                 pt = pt[k + 1 := pt ! (j + 1)]
             in compress_loop pt len (j + 2) (k + 2)
      else (pt, k))"
  by pat_completeness auto
termination
  by (relation "measure (\<lambda>(pt, len, i, k). len - i)") (auto simp: compress_run_decreases)

declare compress_loop.simps [simp del]

definition cr_compress :: "char_range \<Rightarrow> char_range" where
  "cr_compress cr =
     (let (pt, k) = compress_loop (points cr) (cr_len cr) 0 0 in cr\<lparr>points := pt, cr_len := k\<rparr>)"

text \<open>
  \<open>cr_next\<close> takes the next point from \<open>a\<close> or \<open>b\<close> in increasing order (from both when they agree);
  \<open>cr_is_in\<close> is the status after it.
\<close>

definition cr_next :: "u32 list \<Rightarrow> u32 list \<Rightarrow> nat \<Rightarrow> nat \<Rightarrow> (u32 \<times> nat \<times> nat) option" where
  "cr_next a b a_idx b_idx =
     (if a_idx < length a \<and> b_idx < length b then
        if a ! a_idx < b ! b_idx then Some (a ! a_idx, a_idx + 1, b_idx)
        else if a ! a_idx = b ! b_idx then Some (a ! a_idx, a_idx + 1, b_idx + 1)
        else Some (b ! b_idx, a_idx, b_idx + 1)
      else if a_idx < length a then Some (a ! a_idx, a_idx + 1, b_idx)
      else if b_idx < length b then Some (b ! b_idx, a_idx, b_idx + 1)
      else None)"

fun cr_is_in :: "char_range_op \<Rightarrow> bool \<Rightarrow> bool \<Rightarrow> bool" where
  "cr_is_in CR_OP_UNION p q = (p \<or> q)"
| "cr_is_in CR_OP_INTER p q = (p \<and> q)"
| "cr_is_in CR_OP_XOR p q = (p \<noteq> q)"

lemma cr_next_decreases:
  "cr_next a b i j = Some (v, i', j') \<Longrightarrow> length a - i' + (length b - j') < length a - i + (length b - j)"
  by (auto simp: cr_next_def split: if_splits)

function cr_op_loop :: "char_range \<Rightarrow> u32 list \<Rightarrow> u32 list \<Rightarrow> char_range_op \<Rightarrow> nat \<Rightarrow> nat \<Rightarrow> char_range \<times> int" where
  "cr_op_loop cr a b op a_idx b_idx =
     (case cr_next a b a_idx b_idx of
        None \<Rightarrow> (cr, 0)
      | Some (v, a_idx, b_idx) \<Rightarrow>
          if cr_is_in op (odd a_idx) (odd b_idx) \<noteq> odd (cr_len cr) then
            case cr_add_point cr v of (cr, r) \<Rightarrow>
              if r \<noteq> 0 then (cr, -1) else cr_op_loop cr a b op a_idx b_idx
          else cr_op_loop cr a b op a_idx b_idx)"
  by pat_completeness auto
termination
  by (relation "measure (\<lambda>(cr, a, b, op, i, j). length a - i + (length b - j))")
    (auto dest: cr_next_decreases)

declare cr_op_loop.simps [simp del]

definition cr_op :: "char_range \<Rightarrow> u32 list \<Rightarrow> u32 list \<Rightarrow> char_range_op \<Rightarrow> char_range \<times> int" where
  "cr_op cr a b op =
     (case cr_op_loop cr a b op 0 0 of (cr, r) \<Rightarrow> if r \<noteq> 0 then (cr, -1) else (cr_compress cr, 0))"

text \<open>The saved copy of the old range is only read and then freed; its block is not part of the result.\<close>

definition cr_union1 :: "char_range \<Rightarrow> u32 list \<Rightarrow> char_range \<times> int" where
  "cr_union1 cr b_pt =
     cr_op (cr\<lparr>cr_len := 0, cr_size := 0, points := []\<rparr>) (take (cr_len cr) (points cr)) b_pt CR_OP_UNION"

definition cr_union_interval :: "char_range \<Rightarrow> u32 \<Rightarrow> u32 \<Rightarrow> char_range \<times> int" where
  "cr_union_interval cr c1 c2 = cr_union1 cr [c1, c2 + 1]"

definition cr_invert :: "char_range \<Rightarrow> char_range \<times> int" where
  "cr_invert cr =
     (let len = cr_len cr; (cr, r) = cr_realloc cr (len + 2) in
      if r \<noteq> 0 then (cr, -1)
      else let pt = blit (points cr) 1 (take len (points cr));
               pt = pt[0 := 0];
               pt = pt[len + 1 := 0xffffffff]
           in (cr_compress (cr\<lparr>points := pt, cr_len := len + 2\<rparr>), 0))"

section \<open>The denoted set\<close>

text \<open>A code point is in the set when an odd number of interval ends are at or below it.\<close>

definition cr_mem :: "u32 list \<Rightarrow> u32 \<Rightarrow> bool" where
  "cr_mem pts c \<longleftrightarrow> odd (length (filter (\<lambda>p. p \<le> c) pts))"

definition cr_points :: "char_range \<Rightarrow> u32 list" where
  "cr_points cr = take (cr_len cr) (points cr)"

definition cr_ok :: "char_range \<Rightarrow> bool" where
  "cr_ok cr \<longleftrightarrow> length (points cr) = cr_size cr \<and> cr_len cr \<le> cr_size cr \<and>
     realloc_contract (cr_realloc_func cr)"

text \<open>What every finished range satisfies: complete, non-empty, disjoint, non-touching intervals.\<close>

definition cr_normal :: "u32 list \<Rightarrow> bool" where
  "cr_normal pts \<longleftrightarrow> even (length pts) \<and> sorted_wrt (<) pts"

interpretation cr_alloc: realloc_contract "cr_default_realloc grants fill" for grants fill
  using libc_realloc_contract [of grants fill] by (simp add: cr_default_realloc_def [abs_def])

lemma cr_init_ok [simp]:
  "(case rf of None \<Rightarrow> True | Some f \<Rightarrow> realloc_contract f) \<Longrightarrow> cr_ok (cr_init grants fill op rf)"
  "cr_points (cr_init grants fill op rf) = []" "cr_len (cr_init grants fill op rf) = 0"
  by (auto simp: cr_ok_def cr_init_def cr_points_def cr_alloc.realloc_contract_axioms split: option.splits)

lemma length_cr_points [simp]: "cr_ok cr \<Longrightarrow> length (cr_points cr) = cr_len cr"
  by (simp add: cr_ok_def cr_points_def)

lemma cr_mem_Nil [simp]: "\<not> cr_mem [] c"
  by (simp add: cr_mem_def)

lemma cr_mem_append: "cr_mem (xs @ ys) c \<longleftrightarrow> cr_mem xs c \<noteq> cr_mem ys c"
  by (simp add: cr_mem_def)

lemma cr_mem_Cons: "cr_mem (x # ys) c \<longleftrightarrow> (x \<le> c) \<noteq> cr_mem ys c"
  by (simp add: cr_mem_def)

lemma cr_mem_above: "\<forall>x \<in> set xs. x \<le> c \<Longrightarrow> cr_mem xs c \<longleftrightarrow> odd (length xs)"
  by (simp add: cr_mem_def)

lemma cr_mem_below: "\<forall>x \<in> set xs. c < x \<Longrightarrow> \<not> cr_mem xs c"
proof -
  assume "\<forall>x \<in> set xs. c < x"
  then have "filter (\<lambda>p. p \<le> c) xs = []" by (auto simp: filter_empty_conv)
  then show ?thesis by (simp add: cr_mem_def)
qed

section \<open>Growing\<close>

lemma cr_realloc_cases:
  assumes "cr_ok cr" "cr_realloc cr n = (cr', r)"
  shows "cr_ok cr' \<and> (r = 0 \<or> r = -1) \<and> cr_points cr' = cr_points cr \<and> cr_len cr' = cr_len cr \<and>
    (r = 0 \<longrightarrow> n \<le> cr_size cr') \<and> cr_realloc_func cr' = cr_realloc_func cr"
proof (cases "n > cr_size cr")
  case False
  then show ?thesis using assms by (auto simp: cr_realloc_def)
next
  case True
  define m where "m = max n (cr_size cr * 3 div 2)"
  have c: "realloc_contract (cr_realloc_func cr)" and l: "length (points cr) \<le> m" "cr_len cr \<le> length (points cr)"
    using assms(1) True by (auto simp: cr_ok_def m_def)
  show ?thesis
  proof (cases "cr_realloc_func cr (mem_opaque cr) (points cr) m")
    case None
    then show ?thesis using True assms by (auto simp: cr_realloc_def m_def cr_ok_def cr_points_def)
  next
    case (Some nb)
    then have e: "cr' = cr\<lparr>points := nb, cr_size := m, mem_opaque := mem_opaque cr + 1\<rparr>" "r = 0"
      using True assms(2) by (auto simp: cr_realloc_def m_def)
    have "take (cr_len cr) nb = take (cr_len cr) (points cr)"
      using realloc_contract.realloc_take [OF c Some l(1)] l(2) by (metis min.absorb1 take_take)
    then show ?thesis
      using e realloc_contract.realloc_length [OF c Some] l assms(1)
      by (auto simp: cr_ok_def cr_points_def m_def)
  qed
qed

lemma take_update_end: "n < length xs \<Longrightarrow> take (Suc n) (xs[n := v]) = take n xs @ [v]"
  by (simp add: take_Suc_conv_app_nth)

lemma take_update_end2:
  "Suc n < length xs \<Longrightarrow> take (Suc (Suc n)) (xs[n := v, Suc n := w]) = take n xs @ [v, w]"
  using take_update_end [of "Suc n" "xs[n := v]" w] by (simp add: take_update_end)

lemma cr_add_point_cases:
  assumes "cr_ok cr" "cr_add_point cr v = (cr', r)"
  shows "cr_ok cr' \<and> (r = 0 \<or> r = -1) \<and>
    (r = 0 \<longrightarrow> cr_points cr' = cr_points cr @ [v] \<and> cr_len cr' = cr_len cr + 1) \<and>
    (r \<noteq> 0 \<longrightarrow> cr_points cr' = cr_points cr) \<and> cr_realloc_func cr' = cr_realloc_func cr"
proof -
  obtain c1 r1 where g: "(if cr_len cr \<ge> cr_size cr then cr_realloc cr (cr_len cr + 1) else (cr, 0)) = (c1, r1)"
    by (metis surj_pair)
  have c1: "cr_ok c1" "r1 = 0 \<or> r1 = -1" "cr_points c1 = cr_points cr" "cr_len c1 = cr_len cr"
    "r1 = 0 \<longrightarrow> cr_len c1 < cr_size c1" "cr_realloc_func c1 = cr_realloc_func cr"
    using g cr_realloc_cases [OF assms(1), of "cr_len cr + 1" c1 r1] assms(1)
    by (auto simp: cr_ok_def split: if_splits)
  show ?thesis
    using assms(2) c1 unfolding cr_add_point_def g
    by (auto simp: cr_ok_def cr_points_def take_update_end split: if_splits)
qed

lemma cr_add_interval_cases:
  assumes "cr_ok cr" "cr_add_interval cr v w = (cr', r)"
  shows "cr_ok cr' \<and> (r = 0 \<or> r = -1) \<and>
    (r = 0 \<longrightarrow> cr_points cr' = cr_points cr @ [v, w] \<and> cr_len cr' = cr_len cr + 2) \<and>
    (r \<noteq> 0 \<longrightarrow> cr_points cr' = cr_points cr) \<and> cr_realloc_func cr' = cr_realloc_func cr"
proof -
  obtain c1 r1 where g: "(if cr_len cr + 2 > cr_size cr then cr_realloc cr (cr_len cr + 2) else (cr, 0)) = (c1, r1)"
    by (metis surj_pair)
  have c1: "cr_ok c1" "r1 = 0 \<or> r1 = -1" "cr_points c1 = cr_points cr" "cr_len c1 = cr_len cr"
    "r1 = 0 \<longrightarrow> cr_len c1 + 2 \<le> cr_size c1" "cr_realloc_func c1 = cr_realloc_func cr"
    using g cr_realloc_cases [OF assms(1), of "cr_len cr + 2" c1 r1] assms(1)
    by (auto simp: cr_ok_def split: if_splits)
  show ?thesis
    using assms(2) c1 unfolding cr_add_interval_def g
    by (auto simp: cr_ok_def cr_points_def take_update_end2 split: if_splits)
qed

text \<open>When growing fails, the callback refused a request of at most twice the points asked for.\<close>

lemma cr_realloc_refused:
  "cr_realloc cr n = (cr', r) \<Longrightarrow> r \<noteq> 0 \<Longrightarrow> refused (cr_realloc_func cr) (2 * n)"
  by (auto simp: cr_realloc_def Let_def intro!: refusedI split: if_splits option.splits)

lemma cr_add_point_refused:
  assumes "cr_add_point cr v = (cr', r)" "r \<noteq> 0"
  shows "refused (cr_realloc_func cr) (2 * (cr_len cr + 1))"
  using assms cr_realloc_refused [of cr "cr_len cr + 1"]
  by (auto simp: cr_add_point_def Let_def split: if_splits prod.splits)

lemma cr_add_interval_refused:
  assumes "cr_add_interval cr v w = (cr', r)" "r \<noteq> 0"
  shows "refused (cr_realloc_func cr) (2 * (cr_len cr + 2))"
  using assms cr_realloc_refused [of cr "cr_len cr + 2"]
  by (auto simp: cr_add_interval_def Let_def split: if_splits prod.splits)

section \<open>Merging of touching intervals\<close>

fun run_end :: "u32 \<Rightarrow> u32 list \<Rightarrow> u32 \<times> u32 list" where
  "run_end q (q' # r # rest) = (if q = q' then run_end r rest else (q, q' # r # rest))"
| "run_end q rest = (q, rest)"

lemma run_end_length: "run_end q rest = (e, rest') \<Longrightarrow> length rest' \<le> length rest"
  by (induction q rest rule: run_end.induct) (auto split: if_splits)

function compress :: "u32 list \<Rightarrow> u32 list" where
  "compress (p # q # rest) =
     (if p = q then compress rest else case run_end q rest of (e, rest) \<Rightarrow> p # e # compress rest)"
| "compress [p] = []"
| "compress [] = []"
  by pat_completeness auto
termination by (relation "measure length") (auto dest!: sym [of "(_, _)"] run_end_length)

lemma run_end_spec:
  "len \<le> length pt \<Longrightarrow> j + 1 < len \<Longrightarrow>
   run_end (pt ! (j + 1)) (take (len - (j + 2)) (drop (j + 2) pt)) =
     (pt ! (compress_run pt len j + 1),
      take (len - (compress_run pt len j + 2)) (drop (compress_run pt len j + 2) pt)) \<and>
   compress_run pt len j + 1 < len"
proof (induction pt len j rule: compress_run.induct)
  case (1 pt len j)
  let ?rest = "take (len - (j + 2)) (drop (j + 2) pt)"
  show ?case
  proof (cases "j + 3 < len")
    case True
    have "drop (j + 2) pt = pt ! (j + 2) # pt ! (j + 3) # drop (j + 4) pt"
      using "1.prems"(1) True by (simp add: Cons_nth_drop_Suc numeral_eq_Suc)
    moreover have "len - (j + 2) = Suc (Suc (len - (j + 4)))" using True by simp
    ultimately have r: "?rest = pt ! (j + 2) # pt ! (j + 3) # take (len - (j + 4)) (drop (j + 4) pt)"
      by (simp only: take_Suc_Cons)
    show ?thesis
    proof (cases "pt ! (j + 1) = pt ! (j + 2)")
      case eq: True
      have "compress_run pt len j = compress_run pt len (j + 2)"
        using True eq by (subst compress_run.simps) simp
      then show ?thesis using "1.IH" "1.prems" True eq r by (simp add: numeral_eq_Suc)
    next
      case False
      then have "compress_run pt len j = j" by (subst compress_run.simps) simp
      then show ?thesis using r False "1.prems" by simp
    qed
  next
    case False
    then have "compress_run pt len j = j" by (subst compress_run.simps) simp
    moreover have "length ?rest \<le> 1" using False by simp
    then have "run_end q ?rest = (q, ?rest)" for q
      by (cases ?rest; cases "tl ?rest") auto
    ultimately show ?thesis using "1.prems" by simp
  qed
qed

lemma take_two:
  "i + 1 < len \<Longrightarrow> len \<le> length pt \<Longrightarrow>
   take (len - i) (drop i pt) = pt ! i # pt ! (i + 1) # take (len - (i + 2)) (drop (i + 2) pt)"
proof -
  assume a: "i + 1 < len" "len \<le> length pt"
  then have "drop i pt = pt ! i # pt ! (i + 1) # drop (i + 2) pt" by (simp add: Cons_nth_drop_Suc)
  moreover have "len - i = Suc (Suc (len - (i + 2)))" using a by simp
  ultimately show ?thesis by (simp only: take_Suc_Cons)
qed

lemma compress_loop_spec:
  "len \<le> length pt \<Longrightarrow> k \<le> i \<Longrightarrow> i \<le> len \<Longrightarrow>
   case compress_loop pt len i k of (pt', k') \<Rightarrow>
     length pt' = length pt \<and> k' \<le> length pt \<and>
     take k' pt' = take k pt @ compress (take (len - i) (drop i pt))"
proof (induction pt len i k rule: compress_loop.induct)
  case (1 pt len i k)
  let ?rest = "take (len - (i + 2)) (drop (i + 2) pt)"
  show ?case
  proof (cases "i + 1 < len")
    case False
    then have "length (take (len - i) (drop i pt)) \<le> 1" by simp
    then have "compress (take (len - i) (drop i pt)) = []"
      by (cases "take (len - i) (drop i pt)"; cases "tl (take (len - i) (drop i pt))") auto
    then show ?thesis using False "1.prems" by (subst compress_loop.simps) simp
  next
    case True
    note two = take_two [OF True "1.prems"(1)]
    show ?thesis
    proof (cases "pt ! i = pt ! (i + 1)")
      case eq: True
      then show ?thesis using "1.IH"(1) [OF True eq] "1.prems" True two
        by (subst compress_loop.simps) simp
    next
      case False
      define j where "j = compress_run pt len i"
      define pt2 where "pt2 = pt[k := pt ! i, k + 1 := pt ! (j + 1)]"
      have r: "run_end (pt ! (i + 1)) ?rest = (pt ! (j + 1), take (len - (j + 2)) (drop (j + 2) pt))"
        "j + 1 < len" using run_end_spec [OF "1.prems"(1) True] by (simp_all add: j_def)
      have j: "i \<le> j" by (simp add: j_def compress_run_ge)
      have e: "compress_loop pt len i k = compress_loop pt2 len (j + 2) (k + 2)"
        using True False j "1.prems"(2)
        by (subst compress_loop.simps) (simp add: j_def [symmetric] pt2_def Let_def)
      have p2: "length pt2 = length pt" "drop (j + 2) pt2 = drop (j + 2) pt"
        "take (k + 2) pt2 = take k pt @ [pt ! i, pt ! (j + 1)]"
        using j r(2) "1.prems" by (simp_all add: pt2_def drop_update_cancel take_update_end2)
      have "case compress_loop pt2 len (j + 2) (k + 2) of (pt', k') \<Rightarrow>
          length pt' = length pt2 \<and> k' \<le> length pt2 \<and>
          take k' pt' = take (k + 2) pt2 @ compress (take (len - (j + 2)) (drop (j + 2) pt2))"
        using "1.prems" j r(2)
        by (intro "1.IH"(2) [OF True False j_def refl]) (simp_all add: pt2_def)
      then show ?thesis unfolding e two using False r(1) p2 by (simp split: prod.splits)
    qed
  qed
qed

lemma cr_compress_points:
  assumes "cr_ok cr"
  shows "cr_ok (cr_compress cr) \<and> cr_points (cr_compress cr) = compress (cr_points cr) \<and>
    cr_realloc_func (cr_compress cr) = cr_realloc_func cr"
  using compress_loop_spec [of "cr_len cr" "points cr" 0 0] assms
  by (auto simp: cr_compress_def cr_ok_def cr_points_def split: prod.splits)

lemma compress_length: "length (compress xs) \<le> length xs"
proof (induction xs rule: compress.induct)
  case (1 p q rest)
  obtain e rest' where r: "run_end q rest = (e, rest')" by (metis surj_pair)
  show ?case using 1(1) 1(2) [OF _ r [symmetric]] run_end_length [OF r] r by auto
qed simp_all

lemma cr_compress_len: "cr_ok cr \<Longrightarrow> cr_len (cr_compress cr) \<le> cr_len cr"
  using cr_compress_points [of cr] compress_length [of "cr_points cr"] by (metis length_cr_points)

text \<open>Merging keeps the set and leaves a normal list.\<close>

lemma run_end_sorted:
  "run_end q rest = (e, rest') \<Longrightarrow> sorted (q # rest) \<Longrightarrow> even (length rest) \<Longrightarrow>
   q \<le> e \<and> sorted (e # rest') \<and> even (length rest') \<and> (\<forall>x \<in> set rest'. e < x) \<and>
   insert e (set rest') \<subseteq> insert q (set rest) \<and> (\<forall>c. cr_mem (q # rest) c = cr_mem (e # rest') c)"
proof (induction q rest rule: run_end.induct)
  case (1 q q' r rest)
  show ?case
  proof (cases "q = q'")
    case False
    then have "q < q'" using "1.prems"(2) by (simp add: order.strict_iff_order)
    then have "\<forall>x \<in> set (q' # r # rest). q < x"
      using "1.prems"(2) by (auto intro: less_le_trans [of q q'])
    then show ?thesis using "1.prems" False by auto
  qed (use 1 in \<open>auto simp: cr_mem_Cons\<close>)
qed auto

lemma compress_normal:
  "sorted xs \<Longrightarrow> even (length xs) \<Longrightarrow>
   cr_normal (compress xs) \<and> (\<forall>c. cr_mem (compress xs) c = cr_mem xs c) \<and> set (compress xs) \<subseteq> set xs"
proof (induction xs rule: compress.induct)
  case (1 p q rest)
  obtain e rest' where r: "run_end q rest = (e, rest')" by (metis surj_pair)
  have s: "sorted (q # rest)" "even (length rest)" using "1.prems" by auto
  show ?case
  proof (cases "p = q")
    case True
    then show ?thesis using 1 by (auto simp: cr_mem_Cons)
  next
    case False
    note R = run_end_sorted [OF r s]
    have "p < q" using "1.prems" False by (simp add: order.strict_iff_order)
    then have "p < e" "\<forall>x \<in> set rest'. p < x" using R by (auto intro: less_trans less_le_trans)
    moreover have "compress (p # q # rest) = p # e # compress rest'" using False r by simp
    moreover have "cr_normal (compress rest')" "\<forall>c. cr_mem (compress rest') c = cr_mem rest' c"
      "set (compress rest') \<subseteq> set rest'"
      using "1.IH"(2) [OF False r [symmetric]] R by auto
    ultimately show ?thesis
      using R by (auto simp: cr_normal_def cr_mem_Cons simp del: compress.simps)
  qed
qed (auto simp: cr_normal_def)

section \<open>The merge of two ranges\<close>

text \<open>
  After the points before \<open>i\<close> and \<open>j\<close> have been taken, the output denotes the combination of the two
  parts taken, and every point taken is at or below every point left.
\<close>

definition merged :: "char_range_op \<Rightarrow> u32 list \<Rightarrow> u32 list \<Rightarrow> nat \<Rightarrow> nat \<Rightarrow> u32 list \<Rightarrow> bool" where
  "merged op a b i j out \<longleftrightarrow> i \<le> length a \<and> j \<le> length b \<and> sorted out \<and>
     odd (length out) = cr_is_in op (odd i) (odd j) \<and>
     (\<forall>c. cr_mem out c = cr_is_in op (cr_mem (take i a) c) (cr_mem (take j b) c)) \<and>
     (\<forall>x \<in> set out \<union> set (take i a) \<union> set (take j b).
        \<forall>y \<in> set (drop i a) \<union> set (drop j b). x \<le> y)"

lemma cr_is_in_False [simp]: "cr_is_in op False False = False"
  by (cases op) auto

lemma merged_init: "merged op a b 0 0 []"
  by (simp add: merged_def)

lemma merged_step:
  assumes m: "merged op a b i j out" and i': "i \<le> i'" "i' \<le> length a" and j': "j \<le> j'" "j' \<le> length b"
    and new: "set (take (i' - i) (drop i a)) \<union> set (take (j' - j) (drop j b)) \<subseteq> {v}"
    and v: "v \<in> set (drop i a) \<union> set (drop j b)"
    and rest: "\<forall>y \<in> set (drop i' a) \<union> set (drop j' b). v \<le> y"
  shows "merged op a b i' j' (if cr_is_in op (odd i') (odd j') \<noteq> odd (length out) then out @ [v] else out)"
    (is "merged _ _ _ _ _ ?out")
proof -
  have ta: "take i' a = take i a @ take (i' - i) (drop i a)"
    using i' by (metis le_add_diff_inverse take_add)
  have tb: "take j' b = take j b @ take (j' - j) (drop j b)"
    using j' by (metis le_add_diff_inverse take_add)
  have sets: "set (take i' a) \<subseteq> insert v (set (take i a))" "set (take j' b) \<subseteq> insert v (set (take j b))"
    "set ?out \<subseteq> insert v (set out)" using new by (auto simp: ta tb)
  have old: "\<forall>x \<in> set out \<union> set (take i a) \<union> set (take j b). x \<le> v"
    using m v by (auto simp: merged_def)
  have le: "\<forall>x \<in> set ?out \<union> set (take i' a) \<union> set (take j' b). x \<le> v"
    using sets old by auto
  have par: "odd (length ?out) = cr_is_in op (odd i') (odd j')" by auto
  have "cr_mem ?out c = cr_is_in op (cr_mem (take i' a) c) (cr_mem (take j' b) c)" for c
  proof (cases "v \<le> c")
    case True
    then have "\<forall>x \<in> set ?out. x \<le> c" "\<forall>x \<in> set (take i' a). x \<le> c" "\<forall>x \<in> set (take j' b). x \<le> c"
      using le by (auto intro: order.trans)
    then show ?thesis using par i' j' by (simp only: cr_mem_above) simp
  next
    case False
    then have "\<not> cr_mem (take (i' - i) (drop i a)) c" "\<not> cr_mem (take (j' - j) (drop j b)) c" "\<not> cr_mem [v] c"
      using new by (intro cr_mem_below; auto)+
    then have "cr_mem ?out c = cr_mem out c" "cr_mem (take i' a) c = cr_mem (take i a) c"
      "cr_mem (take j' b) c = cr_mem (take j b) c"
      by (auto simp: cr_mem_append ta tb)
    moreover have "cr_mem out c = cr_is_in op (cr_mem (take i a) c) (cr_mem (take j b) c)"
      using m by (simp add: merged_def)
    ultimately show ?thesis by (simp only:)
  qed
  moreover have "sorted ?out" using m old by (auto simp: merged_def sorted_append)
  moreover have "\<forall>x \<in> set ?out \<union> set (take i' a) \<union> set (take j' b).
      \<forall>y \<in> set (drop i' a) \<union> set (drop j' b). x \<le> y"
    using le rest by (meson order.trans)
  ultimately show ?thesis unfolding merged_def using par i' j' by blast
qed

lemma sorted_nth_drop: "sorted xs \<Longrightarrow> i < length xs \<Longrightarrow> \<forall>y \<in> set (drop i xs). xs ! i \<le> y"
  by (metis Cons_nth_drop_Suc order_refl set_ConsD sorted_wrt.simps(2) sorted_wrt_drop)

lemma set_drop_Suc_subset: "set (drop (Suc i) xs) \<subseteq> set (drop i xs)"
  by (simp add: set_drop_subset_set_drop)

lemma take_1_drop: "i < length xs \<Longrightarrow> take 1 (drop i xs) = [xs ! i]"
  by (simp add: take_Suc_conv_app_nth)

lemma nth_in_drop: "i < length xs \<Longrightarrow> xs ! i \<in> set (drop i xs)"
  by (metis Cons_nth_drop_Suc list.set_intros(1))

lemma cr_next_cases:
  assumes "cr_next a b i j = Some (v, i', j')"
  obtains "i < length a" "v = a ! i" "i' = i + 1" "j' = j" "j < length b \<longrightarrow> a ! i < b ! j"
    | "j < length b" "v = b ! j" "i' = i" "j' = j + 1" "i < length a \<longrightarrow> b ! j < a ! i"
    | "i < length a" "j < length b" "v = a ! i" "v = b ! j" "i' = i + 1" "j' = j + 1"
proof (cases "i < length a \<and> j < length b")
  case True
  show ?thesis
  proof (cases "a ! i" "b ! j" rule: linorder_cases)
    case less
    then show ?thesis using True assms that(1) unfolding cr_next_def by fastforce
  next
    case equal
    then show ?thesis using True assms that(3) unfolding cr_next_def by fastforce
  next
    case greater
    then have "\<not> a ! i < b ! j" "a ! i \<noteq> b ! j" by auto
    then show ?thesis using True assms that(2) greater unfolding cr_next_def by fastforce
  qed
next
  case False
  then show ?thesis using assms that(1,2) unfolding cr_next_def by (auto split: if_splits)
qed

lemma merged_next:
  assumes m: "merged op a b i j out" and n: "cr_next a b i j = Some (v, i', j')" and s: "sorted a" "sorted b"
  shows "merged op a b i' j' (if cr_is_in op (odd i') (odd j') \<noteq> odd (length out) then out @ [v] else out)"
proof -
  have ij: "i \<le> length a" "j \<le> length b" using m by (auto simp: merged_def)
  have a: "\<forall>y \<in> set (drop i a). a ! i \<le> y" "a ! i \<in> set (drop i a)" "take 1 (drop i a) = [a ! i]" if "i < length a"
    using that s(1) by (simp_all add: sorted_nth_drop take_1_drop nth_in_drop del: One_nat_def)
  have b: "\<forall>y \<in> set (drop j b). b ! j \<le> y" "b ! j \<in> set (drop j b)" "take 1 (drop j b) = [b ! j]" if "j < length b"
    using that s(2) by (simp_all add: sorted_nth_drop take_1_drop nth_in_drop del: One_nat_def)
  have sub: "set (drop (Suc i) a) \<subseteq> set (drop i a)" "set (drop (Suc j) b) \<subseteq> set (drop j b)"
    by (rule set_drop_Suc_subset)+
  from n show ?thesis
  proof (cases rule: cr_next_cases)
    case 1
    have "\<forall>y \<in> set (drop j b). v \<le> y"
      using 1 b(1) ij(2) by (cases "j < length b") (auto intro: less_imp_le less_le_trans)
    then show ?thesis using 1 a ij sub by (intro merged_step [OF m]) auto
  next
    case 2
    have "\<forall>y \<in> set (drop i a). v \<le> y"
      using 2 a(1) ij(1) by (cases "i < length a") (auto intro: less_imp_le less_le_trans)
    then show ?thesis using 2 b ij sub by (intro merged_step [OF m]) auto
  next
    case 3
    then show ?thesis using a b ij sub by (intro merged_step [OF m]) auto
  qed
qed

lemma cr_op_loop_correct:
  assumes "sorted a" "sorted b"
  shows "cr_ok cr \<Longrightarrow> merged op a b i j (cr_points cr) \<Longrightarrow>
    case cr_op_loop cr a b op i j of (cr', r) \<Rightarrow> cr_ok cr' \<and> (r = 0 \<or> r = -1) \<and>
      cr_realloc_func cr' = cr_realloc_func cr \<and>
      (r = 0 \<longrightarrow> merged op a b (length a) (length b) (cr_points cr'))"
proof (induction "length a - i + (length b - j)" arbitrary: cr i j rule: less_induct)
  case less
  show ?case
  proof (cases "cr_next a b i j")
    case None
    then have "i = length a" "j = length b" using less.prems(2)
      by (auto simp: cr_next_def merged_def split: if_splits)
    then show ?thesis using None less.prems by (subst cr_op_loop.simps) simp
  next
    case (Some n)
    obtain v i' j' where n: "n = (v, i', j')" by (metis prod_cases3)
    note dec = cr_next_decreases [OF Some [unfolded n]]
    have m: "merged op a b i' j' (if cr_is_in op (odd i') (odd j') \<noteq> odd (cr_len cr)
        then cr_points cr @ [v] else cr_points cr)"
      using merged_next [OF less.prems(2) Some [unfolded n] assms] less.prems(1) by simp
    show ?thesis
    proof (cases "cr_is_in op (odd i') (odd j') \<noteq> odd (cr_len cr)")
      case True
      obtain cr1 r where p: "cr_add_point cr v = (cr1, r)" by (metis surj_pair)
      note P = cr_add_point_cases [OF less.prems(1) p]
      have e: "cr_op_loop cr a b op i j = (if r \<noteq> 0 then (cr1, -1) else cr_op_loop cr1 a b op i' j')"
        using True p by (subst cr_op_loop.simps) (simp add: Some n)
      show ?thesis
      proof (cases "r = 0")
        case True
        then show ?thesis
          using less.hyps [OF dec, of cr1] P m e \<open>cr_is_in op (odd i') (odd j') \<noteq> odd (cr_len cr)\<close>
          by (auto split: prod.splits)
      qed (use P e in auto)
    next
      case False
      then have "cr_op_loop cr a b op i j = cr_op_loop cr a b op i' j'"
        by (subst cr_op_loop.simps) (simp add: Some n)
      then show ?thesis using less.hyps [OF dec less.prems(1)] m False by simp
    qed
  qed
qed

lemma cr_op_cases:
  assumes "sorted a" "sorted b" "even (length a)" "even (length b)" "cr_ok cr" "cr_len cr = 0"
    and "cr_op cr a b op = (cr', r)"
  shows "cr_ok cr' \<and> (r = 0 \<or> r = -1) \<and> cr_realloc_func cr' = cr_realloc_func cr \<and>
    (r = 0 \<longrightarrow> cr_normal (cr_points cr') \<and>
       (\<forall>c. cr_mem (cr_points cr') c = cr_is_in op (cr_mem a c) (cr_mem b c)))"
proof -
  obtain cr1 r1 where l: "cr_op_loop cr a b op 0 0 = (cr1, r1)" by (metis surj_pair)
  have "cr_points cr = []" using assms(6) by (simp add: cr_points_def)
  then have L: "cr_ok cr1" "r1 = 0 \<or> r1 = -1" "cr_realloc_func cr1 = cr_realloc_func cr"
    "r1 = 0 \<Longrightarrow> merged op a b (length a) (length b) (cr_points cr1)"
    using cr_op_loop_correct [OF assms(1,2,5), of op 0 0] l by (auto simp: merged_init)
  have "sorted (cr_points cr1) \<and> even (length (cr_points cr1)) \<and>
      (\<forall>c. cr_mem (cr_points cr1) c = cr_is_in op (cr_mem a c) (cr_mem b c))" if "r1 = 0"
    using L(4) [OF that] assms(3,4) by (auto simp: merged_def)
  then show ?thesis
    using assms(7) L(1-3) cr_compress_points [OF L(1)] compress_normal [of "cr_points cr1"]
    by (auto simp: cr_op_def l split: if_splits)
qed

lemma cr_op_loop_refused:
  "cr_ok cr \<Longrightarrow> cr_len cr \<le> i + j \<Longrightarrow> i \<le> length a \<Longrightarrow> j \<le> length b \<Longrightarrow>
   cr_op_loop cr a b op i j = (cr', r) \<Longrightarrow> r \<noteq> 0 \<Longrightarrow> refused (cr_realloc_func cr) (2 * (length a + length b))"
proof (induction cr a b op i j rule: cr_op_loop.induct)
  case (1 cr a b op i j)
  from "1.prems"(5,6) obtain v i' j' where n: "cr_next a b i j = Some (v, i', j')"
    by (subst (asm) cr_op_loop.simps) (auto split: option.splits)
  have ij: "i' \<le> length a" "j' \<le> length b" "i + j + 1 \<le> i' + j'"
    using n "1.prems"(3,4) by (auto simp: cr_next_def split: if_splits)
  obtain c1 r1 where p: "cr_add_point cr v = (c1, r1)" by (metis surj_pair)
  note P = cr_add_point_cases [OF "1.prems"(1) p]
  show ?case
  proof (cases "cr_is_in op (odd i') (odd j') \<noteq> odd (cr_len cr)")
    case True
    show ?thesis
    proof (cases "r1 = 0")
      case True
      then have "cr_op_loop c1 a b op i' j' = (cr', r)"
        using "1.prems"(5) \<open>cr_is_in op (odd i') (odd j') \<noteq> odd (cr_len cr)\<close>
        by (subst (asm) cr_op_loop.simps) (simp add: n p)
      then show ?thesis
        using "1.IH"(1) [OF n refl refl \<open>cr_is_in op (odd i') (odd j') \<noteq> odd (cr_len cr)\<close> p [symmetric]] P True ij "1.prems"(2,6)
        by simp
    next
      case False
      have "2 * (cr_len cr + 1) \<le> 2 * (length a + length b)" using "1.prems"(2) ij by simp
      then show ?thesis using cr_add_point_refused [OF p False] by (rule refused_mono [rotated])
    qed
  next
    case False
    then have "cr_op_loop cr a b op i' j' = (cr', r)"
      using "1.prems"(5) by (subst (asm) cr_op_loop.simps) (simp add: n)
    then show ?thesis using "1.IH"(2) [OF n refl refl False] "1.prems"(1,2,6) ij by simp
  qed
qed

lemma cr_op_refused:
  assumes "cr_ok cr" "cr_len cr = 0" "cr_op cr a b op = (cr', r)" "r \<noteq> 0"
  shows "refused (cr_realloc_func cr) (2 * (length a + length b))"
  using assms cr_op_loop_refused [of cr 0 0 a b op]
  by (auto simp: cr_op_def split: prod.splits if_splits)

lemma cr_op_loop_len:
  "cr_ok cr \<Longrightarrow> cr_op_loop cr a b op i j = (cr', r) \<Longrightarrow> cr_len cr \<le> i + j \<Longrightarrow> i \<le> length a \<Longrightarrow> j \<le> length b \<Longrightarrow> r = 0 \<Longrightarrow>
   cr_len cr' \<le> length a + length b"
proof (induction cr a b op i j rule: cr_op_loop.induct)
  case (1 cr a b op i j)
  show ?case
  proof (cases "cr_next a b i j")
    case None
    then show ?thesis using "1.prems" by (subst (asm) cr_op_loop.simps) auto
  next
    case (Some n)
    obtain v i' j' where n: "cr_next a b i j = Some (v, i', j')" using Some by (metis surj_pair)
    have ij: "i' \<le> length a" "j' \<le> length b" "i + j + 1 \<le> i' + j'"
      using n "1.prems"(4,5) by (auto simp: cr_next_def split: if_splits)
    obtain c1 r1 where p: "cr_add_point cr v = (c1, r1)" by (metis surj_pair)
    note P = cr_add_point_cases [OF "1.prems"(1) p]
    show ?thesis
    proof (cases "cr_is_in op (odd i') (odd j') \<noteq> odd (cr_len cr)")
      case True
      then have "r1 = 0 \<and> cr_op_loop c1 a b op i' j' = (cr', r)"
        using "1.prems"(2,6) by (subst (asm) cr_op_loop.simps) (simp add: n p split: if_splits)
      then show ?thesis
        using "1.IH"(1) [OF n refl refl True p [symmetric]] P ij "1.prems"(3,6) by simp
    next
      case False
      then have "cr_op_loop cr a b op i' j' = (cr', r)"
        using "1.prems"(2) by (subst (asm) cr_op_loop.simps) (simp add: n)
      then show ?thesis using "1.IH"(2) [OF n refl refl False] "1.prems"(1,3,6) ij by simp
    qed
  qed
qed

lemma cr_op_len:
  assumes "sorted a" "sorted b" "cr_ok cr" "cr_len cr = 0" "cr_op cr a b op = (cr', 0)"
  shows "cr_len cr' \<le> length a + length b"
proof -
  obtain cr1 r1 where l: "cr_op_loop cr a b op 0 0 = (cr1, r1)" by (metis surj_pair)
  have "cr_ok cr1" using cr_op_loop_correct [OF assms(1-3), of op 0 0] assms(4) l
    by (auto simp: merged_init cr_points_def)
  then show ?thesis
    using cr_op_loop_len [OF assms(3) l] assms(4,5) l cr_compress_len [of cr1] by (auto simp: cr_op_def split: if_splits)
qed

lemma cr_union1_refused:
  assumes "cr_ok cr" "cr_union1 cr b = (cr', r)" "r \<noteq> 0"
  shows "refused (cr_realloc_func cr) (2 * (cr_len cr + length b))"
proof -
  have "cr_ok (cr\<lparr>cr_len := 0, cr_size := 0, points := []\<rparr>)" "min (length (points cr)) (cr_len cr) = cr_len cr"
    using assms(1) by (auto simp: cr_ok_def)
  then show ?thesis using cr_op_refused assms(2,3) by (fastforce simp: cr_union1_def)
qed

lemma cr_normal_sorted: "cr_normal pts \<Longrightarrow> sorted pts \<and> even (length pts)"
  by (auto simp: cr_normal_def strict_sorted_imp_sorted)

lemma cr_union1_cases:
  assumes "cr_ok cr" "sorted (cr_points cr)" "even (cr_len cr)" "sorted b" "even (length b)"
    and "cr_union1 cr b = (cr', r)"
  shows "cr_ok cr' \<and> (r = 0 \<or> r = -1) \<and> cr_realloc_func cr' = cr_realloc_func cr \<and>
    (r = 0 \<longrightarrow> cr_normal (cr_points cr') \<and> (\<forall>c. cr_mem (cr_points cr') c \<longleftrightarrow> cr_mem (cr_points cr) c \<or> cr_mem b c))"
proof -
  let ?c = "cr\<lparr>cr_len := 0, cr_size := 0, points := []\<rparr>"
  have "cr_ok ?c" using assms(1) by (simp add: cr_ok_def)
  from cr_op_cases [OF assms(2,4) _ assms(5) this, of CR_OP_UNION cr' r] show ?thesis
    using assms(1,3,6) by (simp add: cr_union1_def cr_points_def [symmetric])
qed

lemma cr_mem_pair: "c1 \<le> c2 \<Longrightarrow> cr_mem [c1, c2] c \<longleftrightarrow> c1 \<le> c \<and> c < c2"
  by (auto simp: cr_mem_Cons not_le intro: order.trans)

lemma cr_normal_sorted_drop2: "cr_normal (p # q # rest) \<Longrightarrow> cr_normal rest \<and> p < q \<and> (\<forall>x \<in> set rest. q < x)"
  by (auto simp: cr_normal_def)

text \<open>The interval reading of a finished range.\<close>

fun in_intervals :: "u32 list \<Rightarrow> u32 \<Rightarrow> bool" where
  "in_intervals (p # q # rest) c \<longleftrightarrow> p \<le> c \<and> c < q \<or> in_intervals rest c"
| "in_intervals _ c \<longleftrightarrow> False"

lemma cr_mem_in_intervals: "cr_normal pts \<Longrightarrow> cr_mem pts c \<longleftrightarrow> in_intervals pts c"
proof (induction pts c rule: in_intervals.induct)
  case (1 p q rest c)
  have n: "cr_normal rest" "p < q" "\<forall>x \<in> set rest. q < x" using cr_normal_sorted_drop2 "1.prems" by auto
  show ?case
  proof (cases "q \<le> c")
    case True
    then show ?thesis using 1(1) [OF n(1)] n(2) by (auto simp: cr_mem_Cons)
  next
    case False
    then have "\<forall>x \<in> set rest. c < x" using n(3) by (auto intro: less_trans)
    then show ?thesis using 1(1) [OF n(1)] False cr_mem_below by (auto simp: cr_mem_Cons)
  qed
qed (auto simp: cr_normal_def)

lemma cr_init_grants:
  "k \<le> 1000 \<Longrightarrow> \<not> refused (cr_realloc_func (cr_init (\<lambda>_ _. True) fill op None)) k"
  by (simp add: cr_init_def cr_default_realloc_def [abs_def] libc_realloc_refused)

lemma cr_invert_cases:
  assumes "cr_ok cr" "sorted (cr_points cr)" "even (cr_len cr)"
  shows "case cr_invert cr of (cr', r) \<Rightarrow> cr_ok cr' \<and> cr_realloc_func cr' = cr_realloc_func cr \<and>
    (r = -1 \<and> cr_points cr' = cr_points cr \<and> refused (cr_realloc_func cr) (2 * (cr_len cr + 2)) \<or>
     r = 0 \<and> cr_normal (cr_points cr') \<and> cr_len cr' \<le> cr_len cr + 2 \<and>
       (\<forall>c. cr_mem (cr_points cr') c \<longleftrightarrow> c \<noteq> 0xffffffff \<and> \<not> cr_mem (cr_points cr) c))"
proof -
  let ?len = "cr_len cr"
  obtain c1 r1 where g: "cr_realloc cr (?len + 2) = (c1, r1)" by (metis surj_pair)
  note G = cr_realloc_cases [OF assms(1) g]
  show ?thesis
  proof (cases "r1 = 0")
    case False
    then show ?thesis using G cr_realloc_refused [OF g] unfolding cr_invert_def Let_def g by simp
  next
    case True
    define pt where "pt = (blit (points c1) 1 (take ?len (points c1)))[0 := 0, ?len + 1 := 0xffffffff]"
    let ?c2 = "c1\<lparr>points := pt, cr_len := ?len + 2\<rparr>"
    have l: "?len + 2 \<le> length (points c1)" "cr_len c1 = ?len" using G True by (auto simp: cr_ok_def)
    have tk: "take (?len + 2) pt = 0 # cr_points cr @ [0xffffffff]"
    proof (rule nth_equalityI)
      fix i assume "i < length (take (?len + 2) pt)"
      then have "i < ?len + 2" by simp
      moreover have "cr_points cr = take ?len (points c1)" using G l by (simp add: cr_points_def)
      ultimately show "take (?len + 2) pt ! i = (0 # cr_points cr @ [0xffffffff]) ! i"
        using l by (auto simp: pt_def nth_list_update nth_blit nth_Cons' nth_append simp del: length_greater_0_conv)
    qed (use l assms(1) in \<open>simp add: pt_def\<close>)
    have ok: "cr_ok ?c2" using G l by (auto simp: cr_ok_def pt_def)
    have n: "sorted (cr_points cr)" "even (length (cr_points cr))" using assms by auto
    have m1: "(0xffffffff :: u32) = - 1" by simp
    have max: "x \<le> 0xffffffff" for x :: u32 unfolding m1 by (rule word_order.extremum)
    have "sorted (0 # cr_points cr @ [0xffffffff])" using n max by (simp add: sorted_append)
    then have "cr_normal (compress (0 # cr_points cr @ [0xffffffff]))"
      "\<forall>c. cr_mem (compress (0 # cr_points cr @ [0xffffffff])) c \<longleftrightarrow> \<not> (cr_mem (cr_points cr) c \<noteq> (0xffffffff \<le> c))"
      using compress_normal [of "0 # cr_points cr @ [0xffffffff]"] n by (auto simp: cr_mem_Cons cr_mem_append)
    moreover have "0xffffffff \<le> c \<longleftrightarrow> c = 0xffffffff" for c :: u32 using max by (metis order.antisym order.refl)
    moreover have "\<not> cr_mem (cr_points cr) 0xffffffff" using n max by (simp add: cr_mem_above)
    moreover have "cr_points ?c2 = 0 # cr_points cr @ [0xffffffff]" using tk by (simp add: cr_points_def)
    moreover have "cr_invert cr = (cr_compress ?c2, 0)"
      using True unfolding cr_invert_def Let_def g pt_def by simp
    moreover have "cr_len (cr_compress ?c2) \<le> ?len + 2" using cr_compress_len [OF ok] by simp
    ultimately show ?thesis using cr_compress_points [OF ok] G by auto
  qed
qed

section \<open>Properties\<close>

text \<open>The set of the codes that a list of points contains.\<close>

abbreviation cr_set :: "u32 list \<Rightarrow> u32 set" where
  "cr_set pts \<equiv> {c. cr_mem pts c}"

text \<open>
  Property C9. Union, intersection and symmetric difference of two sorted ranges, written into an empty range: when
  the operation succeeds, the result denotes exactly that combination of the two sets and consists of complete,
  non-empty intervals that do not touch; otherwise it returns -1, and only because the allocator refused
  a request of at most twice the points of the operands. There is no other outcome.
\<close>

theorem cr_op_correct:
  assumes "sorted a" "sorted b" "even (length a)" "even (length b)" "cr_ok cr" "cr_len cr = 0"
  shows "case cr_op cr a b op of (cr', r) \<Rightarrow> cr_ok cr' \<and>
    (r = -1 \<and> refused (cr_realloc_func cr) (2 * (length a + length b)) \<or>
     r = 0 \<and> cr_normal (cr_points cr') \<and>
       cr_set (cr_points cr') =
         (case op of
            CR_OP_UNION \<Rightarrow> cr_set a \<union> cr_set b
          | CR_OP_INTER \<Rightarrow> cr_set a \<inter> cr_set b
          | CR_OP_XOR \<Rightarrow> (cr_set a - cr_set b) \<union> (cr_set b - cr_set a)))"
proof -
  obtain cr' r where e: "cr_op cr a b op = (cr', r)" by (metis surj_pair)
  have "{c. cr_is_in op (cr_mem a c) (cr_mem b c)} = (case op of CR_OP_UNION \<Rightarrow> cr_set a \<union> cr_set b
      | CR_OP_INTER \<Rightarrow> cr_set a \<inter> cr_set b | CR_OP_XOR \<Rightarrow> (cr_set a - cr_set b) \<union> (cr_set b - cr_set a))"
    by (cases op) auto
  then show ?thesis using cr_op_cases [OF assms e] cr_op_refused [OF assms(5,6) e] e by auto
qed

theorem cr_op_correct_witness:
  "case cr_op (cr_init (\<lambda>_ _. True) 0 0 None) [1, 5] [3, 9] CR_OP_XOR of (cr', r) \<Rightarrow> cr_ok cr' \<and>
    r = 0 \<and> cr_normal (cr_points cr') \<and> cr_set (cr_points cr') = {c. 1 \<le> c \<and> c < 3 \<or> 5 \<le> c \<and> c < 9}"
proof -
  have "(cr_set [1, 5] - cr_set [3, 9]) \<union> (cr_set [3, 9] - cr_set [1, 5]) = {c. 1 \<le> c \<and> c < 3 \<or> 5 \<le> c \<and> c < (9 :: u32)}"
    by (auto simp: cr_mem_pair word_less_nat_alt word_le_nat_alt)
  then show ?thesis
    using cr_op_correct [of "[1, 5]" "[3, 9]" "cr_init (\<lambda>_ _. True) 0 0 None" CR_OP_XOR]
    by (simp add: cr_init_grants split: prod.splits)
qed

text \<open>
  Property C23. Inverting a finished range gives the complement, up to the code \<^verbatim>\<open>UINT32_MAX\<close> that no range
  can contain; it fails only when the allocator refuses the two extra points, and then keeps the range.
\<close>

theorem cr_invert_correct:
  assumes "cr_ok cr" "cr_normal (cr_points cr)"
  shows "case cr_invert cr of (cr', r) \<Rightarrow> cr_ok cr' \<and>
    (r = -1 \<and> cr_points cr' = cr_points cr \<and> refused (cr_realloc_func cr) (2 * (cr_len cr + 2)) \<or>
     r = 0 \<and> cr_normal (cr_points cr') \<and>
       (\<forall>c. cr_mem (cr_points cr') c \<longleftrightarrow> c \<noteq> 0xffffffff \<and> \<not> cr_mem (cr_points cr) c))"
  using cr_invert_cases [OF assms(1)] cr_normal_sorted [OF assms(2)] assms(1) by (auto split: prod.splits)

theorem cr_invert_correct_witness:
  "case cr_invert (cr_init (\<lambda>_ _. True) 0 0 None) of (cr', r) \<Rightarrow> cr_ok cr' \<and>
    r = 0 \<and> cr_normal (cr_points cr') \<and> (\<forall>c. cr_mem (cr_points cr') c \<longleftrightarrow> c \<noteq> 0xffffffff)"
  using cr_invert_correct [of "cr_init (\<lambda>_ _. True) 0 0 None"] by (auto simp: cr_normal_def cr_init_grants)

text \<open>
  Property C24. Adding the interval from \<open>c1\<close> to \<open>c2\<close> inclusive to a finished range gives a finished range
  with exactly these code points added.
\<close>

theorem cr_union_interval_correct:
  assumes "cr_ok cr" "cr_normal (cr_points cr)" "c1 \<le> c2" "c2 < 0xffffffff"
  shows "case cr_union_interval cr c1 c2 of (cr', r) \<Rightarrow> cr_ok cr' \<and>
    (r = -1 \<and> refused (cr_realloc_func cr) (2 * (cr_len cr + 2)) \<or>
     r = 0 \<and> cr_normal (cr_points cr') \<and>
       {c. cr_mem (cr_points cr') c} = {c. cr_mem (cr_points cr) c} \<union> {c1..c2})"
proof -
  obtain cr' r where e: "cr_union_interval cr c1 c2 = (cr', r)" by (metis surj_pair)
  have c2: "unat (c2 + 1) = unat c2 + 1"
    using assms(4) by (simp add: word_less_nat_alt unat_word_ariths)
  have le: "c1 \<le> c2 + 1" using assms(3) by (simp add: word_le_nat_alt c2)
  have "c < c2 + 1 \<longleftrightarrow> c \<le> c2" for c by (simp add: word_less_nat_alt word_le_nat_alt c2 less_Suc_eq_le)
  then have m: "cr_mem [c1, c2 + 1] c \<longleftrightarrow> c1 \<le> c \<and> c \<le> c2" for c using le by (simp add: cr_mem_pair)
  have "sorted (cr_points cr)" "even (cr_len cr)" using cr_normal_sorted [OF assms(2)] assms(1) by auto
  from cr_union1_cases [OF assms(1) this, of "[c1, c2 + 1]" cr' r] show ?thesis
    using e le m cr_union1_refused [OF assms(1), of "[c1, c2 + 1]" cr' r] by (auto simp: cr_union_interval_def)
qed

theorem cr_union_interval_correct_witness:
  "case cr_union_interval (cr_init (\<lambda>_ _. True) 0 0 None) 65 90 of (cr', r) \<Rightarrow> cr_ok cr' \<and>
    r = 0 \<and> cr_normal (cr_points cr') \<and> {c. cr_mem (cr_points cr') c} = {65..90}"
  using cr_union_interval_correct [of "cr_init (\<lambda>_ _. True) 0 0 None" 65 90]
  by (auto simp: cr_normal_def cr_init_grants)

end
