(* ===== verification/UnicodeIndex.thy ===== *)
theory UnicodeIndex
  imports UnicodeTables CharRange
begin

text \<open>
  Membership in the compressed property tables of \<^verbatim>\<open>quickjs/libunicode.c\<close>. A table is a sequence of
  runs of alternating status, packed into one to three bytes each; an index gives the position and
  the first code point of about every 32nd byte. \<open>lre_is_in_table\<close> looks a code point up through the
  index, \<open>unicode_prop1\<close> expands a whole table into a \<^verbatim>\<open>CharRange\<close>; the theory shows that they agree.
\<close>

section \<open>Lookup through the index\<close>

definition get_le24 :: "bytes \<Rightarrow> nat \<Rightarrow> u32" where
  "get_le24 ptr i =
     ucast (ptr ! i) OR push_bit 8 (ucast (ptr ! (i + 1))) OR push_bit 16 (ucast (ptr ! (i + 2)))"

definition UNICODE_INDEX_BLOCK_LEN :: nat where
  "UNICODE_INDEX_BLOCK_LEN = 32"

function index_search :: "bytes \<Rightarrow> u32 \<Rightarrow> nat \<Rightarrow> nat \<Rightarrow> nat" where
  "index_search index_table c idx_min idx_max =
     (if idx_max - idx_min > 1 then
        let idx = (idx_max + idx_min) div 2;
            v = get_le24 index_table (idx * 3);
            code = v AND (push_bit 21 1 - 1)
        in if c < code then index_search index_table c idx_min idx
           else index_search index_table c idx idx_max
      else idx_min)"
  by pat_completeness auto
termination by (relation "measure (\<lambda>(t, c, lo, hi). hi - lo)") auto

declare index_search.simps [simp del]

text \<open>The result is the position in the table and the code point there; \<open>None\<close> stands for -1.\<close>

definition get_index_pos :: "u32 \<Rightarrow> bytes \<Rightarrow> nat \<Rightarrow> (nat \<times> u32) option" where
  "get_index_pos c index_table index_table_len =
     (let v = get_le24 index_table 0; code = v AND (push_bit 21 1 - 1) in
      if c < code then Some (0, 0)
      else
        let idx_max = index_table_len - 1; code = get_le24 index_table (idx_max * 3) in
        if c \<ge> code then None
        else
          let idx_min = index_search index_table c 0 idx_max;
              v = get_le24 index_table (idx_min * 3)
          in Some ((idx_min + 1) * UNICODE_INDEX_BLOCK_LEN + unat (drop_bit 21 v),
                   v AND (push_bit 21 1 - 1)))"

text \<open>
  The loop of \<open>lre_is_in_table\<close> over the bytes from \<open>p\<close> on. A read beyond the end of the table is the
  value \<open>None\<close>.
\<close>

fun table_scan :: "bytes \<Rightarrow> u32 \<Rightarrow> u32 \<Rightarrow> bool \<Rightarrow> bool option" where
  "table_scan [] c code st = None"
| "table_scan (b # p) c code st =
     (if b < 64 then
        let code = code + (drop_bit 3 (ucast b) + 1) in
        if c < code then Some st
        else
          let st = (\<not> st); code = code + ((ucast b AND 7) + 1) in
          if c < code then Some st else table_scan p c code (\<not> st)
      else if b \<ge> 0x80 then
        let code = code + (ucast b - 0x80 + 1) in
        if c < code then Some st else table_scan p c code (\<not> st)
      else if b < 0x60 then
        (case p of
           p0 # p \<Rightarrow>
             let code = code + ((push_bit 8 (ucast b - 0x40) OR ucast p0) + 1) in
             if c < code then Some st else table_scan p c code (\<not> st)
         | _ \<Rightarrow> None)
      else
        (case p of
           p0 # p1 # p \<Rightarrow>
             let code = code + ((push_bit 16 (ucast b - 0x60) OR push_bit 8 (ucast p0) OR ucast p1) + 1) in
             if c < code then Some st else table_scan p c code (\<not> st)
         | _ \<Rightarrow> None))"

definition lre_is_in_table :: "u32 \<Rightarrow> bytes \<Rightarrow> bytes \<Rightarrow> nat \<Rightarrow> bool option" where
  "lre_is_in_table c table index_table index_table_len =
     (case get_index_pos c index_table index_table_len of
        None \<Rightarrow> Some False
      | Some (pos, code) \<Rightarrow> table_scan (drop pos table) c code False)"

definition lre_is_case_ignorable :: "u32 \<Rightarrow> bool option" where
  "lre_is_case_ignorable c =
     lre_is_in_table c unicode_prop_Case_Ignorable_table unicode_prop_Case_Ignorable_index
       (length unicode_prop_Case_Ignorable_index div 3)"

definition lre_is_id_start :: "u32 \<Rightarrow> bool option" where
  "lre_is_id_start c =
     lre_is_in_table c unicode_prop_ID_Start_table unicode_prop_ID_Start_index
       (length unicode_prop_ID_Start_index div 3)"

definition lre_is_id_continue :: "u32 \<Rightarrow> bool option" where
  "lre_is_id_continue c =
     (case lre_is_id_start c of
        None \<Rightarrow> None
      | Some True \<Rightarrow> Some True
      | Some False \<Rightarrow>
          lre_is_in_table c unicode_prop_ID_Continue1_table unicode_prop_ID_Continue1_index
            (length unicode_prop_ID_Continue1_index div 3))"

section \<open>Expansion into a range\<close>

text \<open>
  The loop of \<open>unicode_prop1\<close>. A truncated entry at the end of a table would be read beyond the end
  and is the outer \<open>None\<close>; the code -1 is a failed allocation.
\<close>

definition prop1_add :: "char_range \<Rightarrow> bool \<Rightarrow> u32 \<Rightarrow> u32 \<Rightarrow> char_range \<times> int" where
  "prop1_add cr st c0 c = (if st then cr_add_interval cr c0 c else (cr, 0))"

fun unicode_prop1_loop :: "char_range \<Rightarrow> bytes \<Rightarrow> u32 \<Rightarrow> bool \<Rightarrow> (char_range \<times> int) option" where
  "unicode_prop1_loop cr [] c st = Some (cr, 0)"
| "unicode_prop1_loop cr (b # p) c st =
     (if b < 64 then
        let c0 = c; c = c + (drop_bit 3 (ucast b) + 1) in
        case prop1_add cr st c0 c of (cr, r) \<Rightarrow>
          if r \<noteq> 0 then Some (cr, -1)
          else
            let st = (\<not> st); c0 = c; c = c + ((ucast b AND 7) + 1) in
            case prop1_add cr st c0 c of (cr, r) \<Rightarrow>
              if r \<noteq> 0 then Some (cr, -1) else unicode_prop1_loop cr p c (\<not> st)
      else if b \<ge> 0x80 then
        let c0 = c; c = c + (ucast b - 0x80 + 1) in
        case prop1_add cr st c0 c of (cr, r) \<Rightarrow>
          if r \<noteq> 0 then Some (cr, -1) else unicode_prop1_loop cr p c (\<not> st)
      else if b < 0x60 then
        (case p of
           p0 # p \<Rightarrow>
             let c0 = c; c = c + ((push_bit 8 (ucast b - 0x40) OR ucast p0) + 1) in
             (case prop1_add cr st c0 c of (cr, r) \<Rightarrow>
                if r \<noteq> 0 then Some (cr, -1) else unicode_prop1_loop cr p c (\<not> st))
         | _ \<Rightarrow> None)
      else
        (case p of
           p0 # p1 # p \<Rightarrow>
             let c0 = c; c = c + ((push_bit 16 (ucast b - 0x60) OR push_bit 8 (ucast p0) OR ucast p1) + 1) in
             (case prop1_add cr st c0 c of (cr, r) \<Rightarrow>
                if r \<noteq> 0 then Some (cr, -1) else unicode_prop1_loop cr p c (\<not> st))
         | _ \<Rightarrow> None))"

section \<open>The runs of a table\<close>

fun table_runs :: "bytes \<Rightarrow> nat list option" where
  "table_runs [] = Some []"
| "table_runs (b # p) =
     (let n = unat b in
      if n < 64 then map_option (\<lambda>rs. (n div 8 + 1) # (n mod 8 + 1) # rs) (table_runs p)
      else if n \<ge> 128 then map_option (Cons (n - 128 + 1)) (table_runs p)
      else if n < 96 then
        (case p of p0 # p \<Rightarrow> map_option (Cons ((n - 64) * 256 + unat p0 + 1)) (table_runs p) | _ \<Rightarrow> None)
      else
        (case p of
           p0 # p1 # p \<Rightarrow>
             map_option (Cons ((n - 96) * 65536 + unat p0 * 256 + unat p1 + 1)) (table_runs p)
         | _ \<Rightarrow> None))"

fun in_runs :: "nat list \<Rightarrow> nat \<Rightarrow> nat \<Rightarrow> bool \<Rightarrow> bool" where
  "in_runs [] base c st = st"
| "in_runs (r # rs) base c st = (if c < base + r then st else in_runs rs (base + r) c (\<not> st))"

fun run_ends :: "nat \<Rightarrow> nat list \<Rightarrow> nat list" where
  "run_ends base [] = []"
| "run_ends base (r # rs) = (base + r) # run_ends (base + r) rs"

lemma table_runs_append:
  "table_runs xs = Some rs \<Longrightarrow> table_runs ys = Some rs' \<Longrightarrow> table_runs (xs @ ys) = Some (rs @ rs')"
  by (induction xs arbitrary: rs rule: table_runs.induct) (auto simp: Let_def split: if_splits list.splits)

text \<open>The run lengths that the loops add, as numbers.\<close>

lemma unat_run_1: "unat (drop_bit 3 (ucast (b :: u8)) + 1 :: u32) = unat b div 8 + 1"
proof -
  have "unat (drop_bit 3 (ucast b :: u32)) = unat b div 8" by (simp add: unat_drop_bit)
  moreover have "unat b < 256" using unsigned_less [of b, where ?'a = nat] by simp
  ultimately show ?thesis by (simp add: unat_word_ariths)
qed

lemma unat_run_2: "unat ((ucast (b :: u8) AND 7) + 1 :: u32) = unat b mod 8 + 1"
proof -
  have "unat (ucast b AND 7 :: u32) = unat b mod 8"
    using unat_and_mask [of "ucast b :: u32" 3] by (simp add: mask_eq_exp_minus_1)
  moreover have "unat b mod 8 < 8" by simp
  ultimately show ?thesis by (simp add: unat_word_ariths)
qed

lemma unat_sub_byte: "n \<le> unat b \<Longrightarrow> n < 256 \<Longrightarrow> unat (ucast (b :: u8) - of_nat n :: u32) = unat b - n"
  by (subst unat_sub) (auto simp: word_le_nat_alt unat_of_nat)

lemma unat_byte: "unat (b :: u8) < 256"
  using unsigned_less [of b, where ?'a = nat] by simp

lemma unat_run_long: "128 \<le> unat b \<Longrightarrow> unat (ucast (b :: u8) - 127 :: u32) = unat b - 128 + 1"
  using unat_sub_byte [of 127 b] by simp

lemma unat_or_byte:
  "unat x * 256 < 2 ^ 32 \<Longrightarrow> unat (push_bit 8 (x :: u32) OR ucast (p :: u8)) = unat x * 256 + unat p"
proof -
  assume x: "unat x * 256 < 2 ^ 32"
  have p: "unat p < 256" using unsigned_less [of p, where ?'a = nat] by simp
  have "unat (ucast p OR push_bit 8 x) = unat (ucast p :: u32) + unat (push_bit 8 x)"
    using p x by (intro unat_or_push_bit) (auto simp: unat_push_bit_small)
  then show ?thesis using x by (simp add: or.commute unat_push_bit_small)
qed

lemma unat_run_3:
  assumes "64 \<le> unat b" "unat b < 96"
  shows "unat ((push_bit 8 (ucast (b :: u8) - 0x40) OR ucast (p0 :: u8)) + 1 :: u32) = (unat b - 64) * 256 + unat p0 + 1"
proof -
  have x: "unat (ucast b - 0x40 :: u32) = unat b - 64" using unat_sub_byte [of 64 b] assms by simp
  then have "unat (push_bit 8 (ucast b - 0x40) OR ucast p0 :: u32) = (unat b - 64) * 256 + unat p0"
    using assms by (subst unat_or_byte) auto
  then show ?thesis using assms unat_byte [of p0] by (simp add: unat_word_ariths)
qed

lemma unat_run_4:
  assumes "96 \<le> unat b" "unat b < 128"
  shows "unat ((push_bit 16 (ucast (b :: u8) - 0x60) OR push_bit 8 (ucast (p0 :: u8)) OR ucast (p1 :: u8)) + 1 :: u32) =
    (unat b - 96) * 65536 + unat p0 * 256 + unat p1 + 1"
proof -
  have x: "unat (ucast b - 0x60 :: u32) = unat b - 96" using unat_sub_byte [of 96 b] assms by simp
  then have y: "unat (push_bit 8 (ucast b - 0x60) OR ucast p0 :: u32) = (unat b - 96) * 256 + unat p0"
    using assms by (subst unat_or_byte) auto
  have "push_bit 16 (ucast b - 0x60) OR push_bit 8 (ucast p0) OR ucast p1 =
      (push_bit 8 (push_bit 8 (ucast b - 0x60) OR ucast p0) OR ucast p1 :: u32)"
    by (simp add: push_bit_or push_bit_push_bit or.assoc)
  also have "unat \<dots> = ((unat b - 96) * 256 + unat p0) * 256 + unat p1"
    using y assms unat_byte [of p0] by (subst unat_or_byte) auto
  finally show ?thesis using assms unat_byte [of p0] unat_byte [of p1] by (simp add: unat_word_ariths)
qed

lemmas unat_runs = unat_run_1 unat_run_2 unat_run_long unat_run_3 unat_run_4

lemma unat_add_run: "unat w = n \<Longrightarrow> unat code + n < 2 ^ 32 \<Longrightarrow> unat (code + w :: u32) = unat code + n"
  by (simp add: unat_word_ariths)

lemma u8_less_iff: "(b :: u8) < 64 \<longleftrightarrow> unat b < 64" "0x80 \<le> b \<longleftrightarrow> 128 \<le> unat b" "b < 0x60 \<longleftrightarrow> unat b < 96"
  by (simp_all add: word_less_nat_alt word_le_nat_alt)

text \<open>
  One entry of a table, seen once and for all: its runs, the bytes after it, and what the two
  loops do at it.
\<close>

lemma table_runs_cases:
  assumes "table_runs (b # p) = Some rs"
  obtains (two) rs' where "unat b < 64" "table_runs p = Some rs'" "rs = (unat b div 8 + 1) # (unat b mod 8 + 1) # rs'"
  | (long) rs' where "128 \<le> unat b" "table_runs p = Some rs'" "rs = (unat b - 128 + 1) # rs'"
  | (medium) p0 p' rs' where "64 \<le> unat b" "unat b < 96" "p = p0 # p'" "table_runs p' = Some rs'"
      "rs = ((unat b - 64) * 256 + unat p0 + 1) # rs'"
  | (wide) p0 p1 p' rs' where "96 \<le> unat b" "unat b < 128" "p = p0 # p1 # p'" "table_runs p' = Some rs'"
      "rs = ((unat b - 96) * 65536 + unat p0 * 256 + unat p1 + 1) # rs'"
proof -
  consider "unat b < 64" | "128 \<le> unat b" | "64 \<le> unat b" "unat b < 96" | "96 \<le> unat b" "unat b < 128"
    by linarith
  then show thesis
  proof cases
    case 1
    with assms show ?thesis by (auto simp: Let_def intro: two)
  next
    case 2
    with assms show ?thesis by (auto simp: Let_def intro: long)
  next
    case 3
    with assms show ?thesis by (cases p) (auto simp: Let_def intro: medium)
  next
    case 4
    with assms show ?thesis by (cases p; cases "tl p") (auto simp: Let_def intro: wide)
  qed
qed

lemma table_scan_runs:
  "table_runs bs = Some rs \<Longrightarrow> unat code + sum_list rs < 2 ^ 32 \<Longrightarrow> unat c < unat code + sum_list rs \<Longrightarrow>
   code \<le> c \<Longrightarrow> table_scan bs c code st = Some (in_runs rs (unat code) (unat c) st)"
proof (induction "length bs" arbitrary: bs code st rs rule: less_induct)
  case less
  show ?case
  proof (cases bs)
    case Nil
    then show ?thesis using less.prems by (simp add: word_le_nat_alt)
  next
    case (Cons b p)
    have one: ?thesis
      if r: "table_runs p' = Some rs'" "length p' < length bs" "rs = n # rs'" "unat w = n"
        and e: "table_scan bs c code st = (if c < code + w then Some st else table_scan p' c (code + w) (\<not> st))"
      for p' rs' n w
    proof -
      have u: "unat (code + w) = unat code + n" using less.prems(2) r by (intro unat_add_run) auto
      then have "\<not> c < code + w \<Longrightarrow>
          table_scan p' c (code + w) (\<not> st) = Some (in_runs rs' (unat code + n) (unat c) (\<not> st))"
        using less.hyps [OF r(2,1), of "code + w" "\<not> st"] less.prems r(3) by simp
      then show ?thesis using r(3) e u by (simp add: word_less_nat_alt)
    qed
    from less.prems(1) [unfolded Cons] show ?thesis
    proof (cases rule: table_runs_cases)
      case (two rs')
      let ?c1 = "code + (drop_bit 3 (ucast b) + 1)"
      let ?c2 = "?c1 + ((ucast b AND 7) + 1)"
      have u1: "unat ?c1 = unat code + (unat b div 8 + 1)"
        using less.prems(2) two by (intro unat_add_run unat_runs) simp
      moreover have u2: "unat ?c2 = unat ?c1 + (unat b mod 8 + 1)"
        using less.prems(2) two u1 by (intro unat_add_run unat_runs) simp
      moreover have "table_scan bs c code st = (if c < ?c1 then Some st else if c < ?c2 then Some (\<not> st)
          else table_scan p c ?c2 st)"
        using two Cons by (simp add: u8_less_iff Let_def)
      moreover have "\<not> c < ?c2 \<Longrightarrow>
          table_scan p c ?c2 st = Some (in_runs rs' (unat ?c2) (unat c) st)"
        using less.hyps [of p rs' ?c2 st] two less.prems u1 u2 Cons by simp
      ultimately show ?thesis using two(3) by (simp add: word_less_nat_alt)
    next
      case (long rs')
      then show ?thesis using Cons
        by (intro one [of p rs' _ "ucast b - 0x80 + 1"]) (auto simp: u8_less_iff Let_def unat_runs)
    next
      case (medium p0 p' rs')
      then show ?thesis using Cons
        by (intro one [of p' rs' _ "(push_bit 8 (ucast b - 0x40) OR ucast p0) + 1"])
          (auto simp: u8_less_iff Let_def unat_run_3)
    next
      case (wide p0 p1 p' rs')
      then show ?thesis using Cons
        by (intro one [of p' rs' _ "(push_bit 16 (ucast b - 0x60) OR push_bit 8 (ucast p0) OR ucast p1) + 1"])
          (auto simp: u8_less_iff Let_def unat_run_4)
    qed
  qed
qed

lemma in_runs_append:
  "base + sum_list xs \<le> c \<Longrightarrow>
   in_runs (xs @ ys) base c st = in_runs ys (base + sum_list xs) c (st \<noteq> odd (length xs))"
  by (induction xs base c st rule: in_runs.induct) (auto simp: add.assoc)

section \<open>Well-formed indexes\<close>

definition index_code :: "bytes \<Rightarrow> nat \<Rightarrow> nat" where
  "index_code index j = unat (get_le24 index (j * 3) AND (push_bit 21 1 - 1))"

lemma index_search_spec:
  "lo < hi \<Longrightarrow> index_code index lo \<le> unat c \<Longrightarrow> unat c < index_code index hi \<Longrightarrow>
   let k = index_search index c lo hi in lo \<le> k \<and> k < hi \<and> index_code index k \<le> unat c \<and> unat c < index_code index (k + 1)"
proof (induction index c lo hi rule: index_search.induct)
  case (1 index c lo hi)
  show ?case
  proof (cases "hi - lo > 1")
    case True
    let ?m = "(hi + lo) div 2"
    have m: "lo < ?m" "?m < hi" using True by auto
    have e: "index_search index c lo hi =
        (if unat c < index_code index ?m then index_search index c lo ?m else index_search index c ?m hi)"
      using True by (subst index_search.simps) (simp add: Let_def word_less_nat_alt index_code_def)
    show ?thesis
      using "1.IH"(1) [OF True refl refl refl] "1.IH"(2) [OF True refl refl refl] "1.prems" m e
      by (cases "unat c < index_code index ?m") (auto simp: Let_def word_less_nat_alt index_code_def)
  next
    case False
    then have "hi = lo + 1" using "1.prems"(1) by simp
    moreover have "index_search index c lo hi = lo" using False by (subst index_search.simps) simp
    ultimately show ?thesis using "1.prems" by simp
  qed
qed

text \<open>
  A well-formed index cuts the table into blocks of an even number of runs: each block starts with
  the status outside, at the code point the index says.
\<close>

fun blocks_ok :: "(bytes \<Rightarrow> nat list option) \<Rightarrow> (nat list \<Rightarrow> bool) \<Rightarrow> bytes \<Rightarrow> nat \<Rightarrow> nat \<Rightarrow> (nat \<times> nat) list \<Rightarrow> bool" where
  "blocks_ok runs good xs pos code [] = (xs = [])"
| "blocks_ok runs good xs pos code ((q, d) # bs) =
     (pos \<le> q \<and> q - pos \<le> length xs \<and>
      (case runs (take (q - pos) xs) of
         None \<Rightarrow> False
       | Some rs \<Rightarrow> good rs \<and> code + sum_list rs = d) \<and>
      blocks_ok runs good (drop (q - pos) xs) q d bs)"

definition index_bounds :: "bytes \<Rightarrow> bytes \<Rightarrow> (nat \<times> nat) list" where
  "index_bounds table index =
     (let m = length index div 3 in
      map (\<lambda>j. ((j + 1) * UNICODE_INDEX_BLOCK_LEN + unat (drop_bit 21 (get_le24 index (j * 3))), index_code index j))
        [0..<m - 1] @ [(length table, index_code index (m - 1))])"

definition index_ok :: "(bytes \<Rightarrow> nat list option) \<Rightarrow> (nat list \<Rightarrow> bool) \<Rightarrow> bytes \<Rightarrow> bytes \<Rightarrow> bool" where
  "index_ok runs good table index \<longleftrightarrow>
     (let m = length index div 3 in
      0 < m \<and> blocks_ok runs good table 0 0 (index_bounds table index) \<and>
      unat (get_le24 index ((m - 1) * 3)) = index_code index (m - 1))"

lemma index_bounds_simps:
  assumes "0 < length index div 3"
  shows "length (index_bounds table index) = length index div 3"
    "snd (last (index_bounds table index)) = index_code index (length index div 3 - 1)"
    "snd (index_bounds table index ! 0) = index_code index 0"
    "index_bounds table index ! (length index div 3 - 1) = (length table, index_code index (length index div 3 - 1))"
  using assms by (simp_all add: index_bounds_def Let_def nth_append)

text \<open>
  The property tables and the table of combining classes share the index. What the lookup needs of
  a table format: a decoding into run lengths that is local to a part of the table, and a
  condition on the runs of a block that whole blocks inherit.
\<close>

locale indexed_runs =
  fixes runs :: "bytes \<Rightarrow> nat list option" and good :: "nat list \<Rightarrow> bool"
  assumes runs_Nil: "runs [] = Some []"
    and runs_append: "runs xs = Some rs \<Longrightarrow> runs ys = Some rs' \<Longrightarrow> runs (xs @ ys) = Some (rs @ rs')"
    and good_Nil: "good []"
    and good_append: "good rs \<Longrightarrow> good rs' \<Longrightarrow> good (rs @ rs')"
begin

lemma blocks_ok_at:
  "blocks_ok runs good xs pos code bs \<Longrightarrow> k < length bs \<Longrightarrow> bs ! k = (q, d) \<Longrightarrow>
   \<exists>rs1 rs2. pos \<le> q \<and> q - pos \<le> length xs \<and>
     runs (take (q - pos) xs) = Some rs1 \<and> good rs1 \<and> d = code + sum_list rs1 \<and>
     runs (drop (q - pos) xs) = Some rs2 \<and> good rs2 \<and> d + sum_list rs2 = snd (last bs)"
proof (induction bs arbitrary: xs pos code k q d)
  case (Cons b0 bs)
  obtain q0 d0 where b0: "b0 = (q0, d0)" by (metis surj_pair)
  from Cons.prems(1) obtain rs0 where r: "pos \<le> q0" "q0 - pos \<le> length xs" "runs (take (q0 - pos) xs) = Some rs0"
    "good rs0" "code + sum_list rs0 = d0" "blocks_ok runs good (drop (q0 - pos) xs) q0 d0 bs"
    by (auto simp: b0 split: option.splits)
  have tail: "\<exists>rs2. runs (drop (q0 - pos) xs) = Some rs2 \<and> good rs2 \<and>
      d0 + sum_list rs2 = snd (last ((q0, d0) # bs))"
  proof (cases bs)
    case Nil
    then show ?thesis using r(6) by (simp add: runs_Nil good_Nil)
  next
    case (Cons b bs')
    then have b: "0 < length bs" "bs ! 0 = (fst b, snd b)" by simp_all
    from Cons.IH [OF r(6) b] obtain rs1 rs2 where i: "runs (take (fst b - q0) (drop (q0 - pos) xs)) = Some rs1"
      "good rs1" "snd b = d0 + sum_list rs1"
      "runs (drop (fst b - q0) (drop (q0 - pos) xs)) = Some rs2" "good rs2"
      "snd b + sum_list rs2 = snd (last bs)" by blast
    have "runs (drop (q0 - pos) xs) = Some (rs1 @ rs2)"
      using runs_append [OF i(1,4)] by (simp only: append_take_drop_id)
    then show ?thesis using i Cons by (intro exI [of _ "rs1 @ rs2"]) (simp add: good_append)
  qed
  show ?case
  proof (cases k)
    case 0
    then show ?thesis using Cons.prems(3) r tail by (auto simp: b0 intro!: exI [of _ rs0])
  next
    case (Suc k')
    then have k': "k' < length bs" "bs ! k' = (q, d)" using Cons.prems(2,3) by simp_all
    from Cons.IH [OF r(6) k'] obtain rs1 rs2 where i: "q0 \<le> q" "q - q0 \<le> length (drop (q0 - pos) xs)"
      "runs (take (q - q0) (drop (q0 - pos) xs)) = Some rs1" "good rs1"
      "d = d0 + sum_list rs1" "runs (drop (q - q0) (drop (q0 - pos) xs)) = Some rs2"
      "good rs2" "d + sum_list rs2 = snd (last bs)" by blast
    have s: "q - pos = (q0 - pos) + (q - q0)" using i(1) r(1) by simp
    have "take (q - pos) xs = take (q0 - pos) xs @ take (q - q0) (drop (q0 - pos) xs)"
      unfolding s by (rule take_add)
    then have "runs (take (q - pos) xs) = Some (rs0 @ rs1)"
      using runs_append [OF r(3) i(3)] by simp
    moreover have "drop (q - pos) xs = drop (q - q0) (drop (q0 - pos) xs)"
      unfolding s by (simp add: add.commute)
    moreover have "bs \<noteq> []" using k' by auto
    moreover have "pos \<le> q" "q - pos \<le> length xs" using i(1,2) r(1,2) by auto
    ultimately show ?thesis
      using i(4-8) r(4,5) by (intro exI [of _ "rs0 @ rs1"] exI [of _ rs2]) (simp add: good_append b0)
  qed
qed simp

lemma index_ok_runs:
  assumes "index_ok runs good table index"
  shows "\<exists>rs. runs table = Some rs \<and> good rs \<and> sum_list rs < 2 ^ 32 \<and>
    sum_list rs = index_code index (length index div 3 - 1)"
proof -
  have m: "0 < length index div 3" and bs: "blocks_ok runs good table 0 0 (index_bounds table index)"
    using assms(1) by (auto simp: index_ok_def Let_def)
  note B = index_bounds_simps [OF m, of table]
  have "length index div 3 - 1 < length (index_bounds table index)" using B(1) m by simp
  from blocks_ok_at [OF bs this B(4)] obtain rs1 rs2 where r: "runs table = Some rs1" "good rs1"
    "index_code index (length index div 3 - 1) = sum_list rs1" by auto
  moreover have "index_code index (length index div 3 - 1) < 2 ^ 32"
    unfolding index_code_def by (rule order_less_le_trans [OF unsigned_less]) simp
  ultimately show ?thesis by auto
qed

text \<open>What \<open>get_index_pos\<close> finds: the end of the table, or a cut of it at or before the code point.\<close>

lemma index_lookup:
  assumes ok: "index_ok runs good table index" and rs: "runs table = Some rs"
  shows "get_index_pos c index (length index div 3) = None \<and> sum_list rs \<le> unat c \<or>
    (\<exists>pos code rs1 rs2. get_index_pos c index (length index div 3) = Some (pos, code) \<and>
       good rs1 \<and> runs (drop pos table) = Some rs2 \<and> unat code = sum_list rs1 \<and> rs = rs1 @ rs2 \<and>
       code \<le> c \<and> unat c < sum_list rs)"
proof -
  define m where "m = length index div 3"
  let ?bs = "index_bounds table index"
  let ?code = "index_code index"
  have m: "0 < m" and bs: "blocks_ok runs good table 0 0 ?bs"
    and last: "unat (get_le24 index ((m - 1) * 3)) = ?code (m - 1)"
    using ok by (auto simp: index_ok_def m_def Let_def)
  note B = index_bounds_simps [OF m [unfolded m_def], folded m_def, of table]
  have total: "?code (m - 1) = sum_list rs" using index_ok_runs [OF ok] rs unfolding m_def by fastforce
  consider "unat c < ?code 0" | "?code 0 \<le> unat c" "?code (m - 1) \<le> unat c" | "?code 0 \<le> unat c" "unat c < ?code (m - 1)"
    by linarith
  then show ?thesis
  proof cases
    case 1
    then have "get_index_pos c index m = Some (0, 0)"
      by (simp add: get_index_pos_def index_code_def word_less_nat_alt)
    moreover have "?code 0 \<le> ?code (m - 1)"
    proof -
      have "?bs ! 0 = (fst (?bs ! 0), ?code 0)" using B(3) by (metis prod.collapse)
      from blocks_ok_at [OF bs _ this] show ?thesis using B(1,2) m by auto
    qed
    then have "unat c < sum_list rs" using 1 total by simp
    ultimately show ?thesis using rs good_Nil unfolding m_def [symmetric]
      by (intro disjI2 exI [of _ 0] exI [of _ "[]"] exI [of _ rs]) simp
  next
    case 2
    then have "get_index_pos c index m = None"
      using last by (simp add: get_index_pos_def index_code_def word_less_nat_alt word_le_nat_alt Let_def)
    then show ?thesis using total 2 unfolding m_def [symmetric] by simp
  next
    case 3
    let ?k = "index_search index c 0 (m - 1)"
    have "0 < m - 1" using 3 by (cases "m - 1") auto
    then have k: "?k < m - 1" "?code ?k \<le> unat c" "unat c < ?code (?k + 1)"
      using index_search_spec [of 0 "m - 1" index c] 3 by (auto simp: Let_def)
    let ?pos = "(?k + 1) * UNICODE_INDEX_BLOCK_LEN + unat (drop_bit 21 (get_le24 index (?k * 3)))"
    have "?bs ! ?k = (?pos, ?code ?k)"
      using k(1) by (simp add: index_bounds_def m_def [symmetric] Let_def nth_append)
    moreover have "?k < length ?bs" using k(1) B(1) by simp
    ultimately obtain rs1 rs2 where r: "runs (take ?pos table) = Some rs1" "good rs1"
      "?code ?k = sum_list rs1" "runs (drop ?pos table) = Some rs2" "?code ?k + sum_list rs2 = ?code (m - 1)"
      using blocks_ok_at [OF bs] unfolding B(2) diff_zero add_0 by blast
    have gi: "get_index_pos c index m = Some (?pos, get_le24 index (?k * 3) AND (push_bit 21 1 - 1))"
      using 3 last by (simp add: get_index_pos_def index_code_def word_less_nat_alt word_le_nat_alt Let_def)
    moreover have "rs = rs1 @ rs2" using runs_append [OF r(1,4)] rs by simp
    moreover have "unat (get_le24 index (?k * 3) AND (push_bit 21 1 - 1)) = sum_list rs1"
      "get_le24 index (?k * 3) AND (push_bit 21 1 - 1) \<le> c"
      using r(3) k(2) by (simp_all add: index_code_def word_le_nat_alt)
    ultimately show ?thesis using r(2,4) 3 total unfolding m_def [symmetric] by (simp only:) blast
  qed
qed

end

interpretation prop_runs: indexed_runs table_runs "\<lambda>rs. even (length rs)"
  by unfold_locales (auto intro: table_runs_append)

lemma lre_is_in_table_runs:
  assumes ok: "index_ok table_runs (\<lambda>rs. even (length rs)) table index" and rs: "table_runs table = Some rs"
  shows "lre_is_in_table c table index (length index div 3) = Some (in_runs rs 0 (unat c) False)"
proof -
  have even: "even (length rs)" and small: "sum_list rs < 2 ^ 32" using prop_runs.index_ok_runs [OF ok] rs by fastforce+
  from prop_runs.index_lookup [OF ok rs, of c] show ?thesis
  proof (elim disjE exE conjE)
    assume "get_index_pos c index (length index div 3) = None" "sum_list rs \<le> unat c"
    then show ?thesis using even in_runs_append [of 0 rs "unat c" "[]" False]
      by (simp add: lre_is_in_table_def)
  next
    fix pos code rs1 rs2
    assume l: "get_index_pos c index (length index div 3) = Some (pos, code)" "even (length rs1)"
      "table_runs (drop pos table) = Some rs2" "unat code = sum_list rs1" "rs = rs1 @ rs2" "code \<le> c"
      "unat c < sum_list rs"
    then have "table_scan (drop pos table) c code False = Some (in_runs rs2 (unat code) (unat c) False)"
      using small by (intro table_scan_runs) auto
    then show ?thesis using l by (simp add: lre_is_in_table_def in_runs_append word_le_nat_alt)
  qed
qed

section \<open>The tables of the library\<close>

definition prop_index_ok :: "bytes \<Rightarrow> bytes \<Rightarrow> bool" where
  "prop_index_ok table index \<longleftrightarrow> index_ok table_runs (\<lambda>rs. even (length rs)) table index"

lemmas index_eval =
  prop_index_ok_def index_ok_def index_bounds_def Let_def index_code_def get_le24_def
  UNICODE_INDEX_BLOCK_LEN_def upt_rec

lemma cased1_index_ok: "prop_index_ok unicode_prop_Cased1_table unicode_prop_Cased1_index"
  by (simp add: index_eval unicode_prop_Cased1_table_def unicode_prop_Cased1_index_def)

lemma case_ignorable_index_ok: "prop_index_ok unicode_prop_Case_Ignorable_table unicode_prop_Case_Ignorable_index"
  by (simp add: index_eval unicode_prop_Case_Ignorable_table_def unicode_prop_Case_Ignorable_index_def)

lemma id_start_index_ok: "prop_index_ok unicode_prop_ID_Start_table unicode_prop_ID_Start_index"
  by (simp add: index_eval unicode_prop_ID_Start_table_def unicode_prop_ID_Start_index_def)

lemma id_continue1_index_ok: "prop_index_ok unicode_prop_ID_Continue1_table unicode_prop_ID_Continue1_index"
  by (simp add: index_eval unicode_prop_ID_Continue1_table_def unicode_prop_ID_Continue1_index_def)

lemmas library_indexes_ok =
  cased1_index_ok case_ignorable_index_ok id_start_index_ok id_continue1_index_ok

section \<open>The expansion denotes the runs\<close>

fun run_points :: "nat \<Rightarrow> bool \<Rightarrow> nat list \<Rightarrow> nat list" where
  "run_points base st [] = []"
| "run_points base st (r # rs) = (if st then [base, base + r] else []) @ run_points (base + r) (\<not> st) rs"

lemma run_points_bounds: "x \<in> set (run_points base st rs) \<Longrightarrow> base \<le> x \<and> x \<le> base + sum_list rs"
  by (induction base st rs rule: run_points.induct) (fastforce split: if_splits)+

lemma run_points_mem:
  "base + sum_list rs < 2 ^ 32 \<Longrightarrow> base \<le> unat c \<Longrightarrow>
   cr_mem (map of_nat (run_points base st rs)) c \<longleftrightarrow> in_runs rs base (unat c) st \<and> unat c < base + sum_list rs"
proof (induction base st rs rule: run_points.induct)
  case (2 base st r rs)
  let ?rest = "map of_nat (run_points (base + r) (\<not> st) rs) :: u32 list"
  have le: "of_nat n \<le> c \<longleftrightarrow> n \<le> unat c" if "n < 2 ^ 32" for n
    using that by (simp add: word_le_nat_alt unat_of_nat)
  have hd: "of_nat base \<le> c" "of_nat (base + r) \<le> c \<longleftrightarrow> base + r \<le> unat c"
    using 2(2,3) le [of base] le [of "base + r"] by (simp_all del: of_nat_add)
  show ?case
  proof (cases "unat c < base + r")
    case True
    have "\<not> cr_mem ?rest c"
    proof (rule cr_mem_below, safe)
      fix x assume "x \<in> set ?rest"
      then obtain n where n: "x = of_nat n" "base + r \<le> n" "n \<le> base + r + sum_list rs"
        using run_points_bounds by fastforce
      then have "\<not> x \<le> c" using 2(2) True le [of n] by simp
      then show "c < x" by simp
    qed
    then show ?thesis using True hd by (simp add: cr_mem_Cons cr_mem_append del: of_nat_add)
  next
    case False
    then show ?thesis using 2 hd by (simp add: cr_mem_Cons cr_mem_append add.assoc del: of_nat_add)
  qed
qed simp

lemma prop1_add_cases:
  assumes "cr_ok cr" "prop1_add cr st c0 c = (cr', r)"
  shows "cr_ok cr' \<and> (r = 0 \<or> r = -1) \<and> cr_realloc_func cr' = cr_realloc_func cr \<and>
    (r = 0 \<longrightarrow> cr_points cr' = cr_points cr @ (if st then [c0, c] else []))"
  using assms cr_add_interval_cases [OF assms(1), of c0 c cr' r] by (auto simp: prop1_add_def split: if_splits)

lemma unicode_prop1_loop_runs:
  "table_runs bs = Some rs \<Longrightarrow> unat c + sum_list rs < 2 ^ 32 \<Longrightarrow> cr_ok cr \<Longrightarrow>
   \<exists>cr' r. unicode_prop1_loop cr bs c st = Some (cr', r) \<and> cr_ok cr' \<and> (r = 0 \<or> r = -1) \<and>
     cr_realloc_func cr' = cr_realloc_func cr \<and>
     (r = 0 \<longrightarrow> cr_points cr' = cr_points cr @ map of_nat (run_points (unat c) st rs))"
proof (induction "length bs" arbitrary: bs c st rs cr rule: less_induct)
  case less
  show ?case
  proof (cases bs)
    case Nil
    then show ?thesis using less.prems by simp
  next
    case (Cons b p)
    have one: ?thesis
      if r: "table_runs p' = Some rs'" "length p' < length bs" "rs = n # rs'" "unat w = n"
        and e: "unicode_prop1_loop cr bs c st = (case prop1_add cr st c (c + w) of (cr, r) \<Rightarrow>
            if r \<noteq> 0 then Some (cr, -1) else unicode_prop1_loop cr p' (c + w) (\<not> st))"
      for p' rs' n w
    proof -
      have u: "unat (c + w) = unat c + n" using less.prems(2) r by (intro unat_add_run) auto
      then have cw: "of_nat (unat c + n) = c + w" by (metis of_nat_unat ucast_id)
      obtain cr1 r1 where a: "prop1_add cr st c (c + w) = (cr1, r1)" by (metis surj_pair)
      note A = prop1_add_cases [OF less.prems(3) a]
      show ?thesis
      proof (cases "r1 = 0")
        case True
        then show ?thesis
          using less.hyps [OF r(2,1), of "c + w" cr1 "\<not> st"] less.prems(2) r(3) e a A u cw by (auto simp del: of_nat_add)
      qed (use a e A in auto)
    qed
    from less.prems(1) [unfolded Cons] show ?thesis
    proof (cases rule: table_runs_cases)
      case (two rs')
      let ?w1 = "drop_bit 3 (ucast b) + 1 :: u32"
      let ?w2 = "(ucast b AND 7) + 1 :: u32"
      have u1: "unat (c + ?w1) = unat c + (unat b div 8 + 1)"
        using less.prems(2) two by (intro unat_add_run unat_runs) simp
      have u2: "unat (c + ?w1 + ?w2) = unat (c + ?w1) + (unat b mod 8 + 1)"
        using less.prems(2) two u1 by (intro unat_add_run unat_runs) simp
      have cw: "of_nat (unat c + (unat b div 8 + 1)) = c + ?w1"
        "of_nat (unat c + (unat b div 8 + 1) + (unat b mod 8 + 1)) = c + ?w1 + ?w2"
        using u1 u2 by (metis of_nat_unat ucast_id)+
      obtain cr1 r1 where a1: "prop1_add cr st c (c + ?w1) = (cr1, r1)" by (metis surj_pair)
      note A1 = prop1_add_cases [OF less.prems(3) a1]
      obtain cr2 r2 where a2: "prop1_add cr1 (\<not> st) (c + ?w1) (c + ?w1 + ?w2) = (cr2, r2)" by (metis surj_pair)
      have A2: "cr_ok cr2 \<and> (r2 = 0 \<or> r2 = -1) \<and> cr_realloc_func cr2 = cr_realloc_func cr1 \<and>
          (r2 = 0 \<longrightarrow> cr_points cr2 = cr_points cr1 @ (if \<not> st then [c + ?w1, c + ?w1 + ?w2] else []))"
        using prop1_add_cases [OF _ a2] A1 by blast
      have e: "unicode_prop1_loop cr bs c st = (if r1 \<noteq> 0 then Some (cr1, -1)
          else if r2 \<noteq> 0 then Some (cr2, -1) else unicode_prop1_loop cr2 p (c + ?w1 + ?w2) st)"
        using two Cons a1 a2 by (simp add: u8_less_iff Let_def)
      show ?thesis
      proof (cases "r1 = 0 \<and> r2 = 0")
        case True
        then show ?thesis
          using less.hyps [of p rs' "c + ?w1 + ?w2" cr2 st] two less.prems(2) Cons e A1 A2 u1 u2 cw
          by (auto simp: add.assoc simp del: of_nat_add)
      qed (use e A1 A2 in auto)
    next
      case (long rs')
      then show ?thesis using Cons
        by (intro one [of p rs' _ "ucast b - 0x80 + 1"]) (auto simp: u8_less_iff Let_def unat_runs split: prod.split)
    next
      case (medium p0 p' rs')
      then show ?thesis using Cons
        by (intro one [of p' rs' _ "(push_bit 8 (ucast b - 0x40) OR ucast p0) + 1"])
          (auto simp: u8_less_iff Let_def unat_run_3)
    next
      case (wide p0 p1 p' rs')
      then show ?thesis using Cons
        by (intro one [of p' rs' _ "(push_bit 16 (ucast b - 0x60) OR push_bit 8 (ucast p0) OR ucast p1) + 1"])
          (auto simp: u8_less_iff Let_def unat_run_4)
    qed
  qed
qed

lemma prop_lookup_total: "prop_index_ok table index \<Longrightarrow> \<exists>b. lre_is_in_table c table index (length index div 3) = Some b"
  using lre_is_in_table_runs prop_runs.index_ok_runs unfolding prop_index_ok_def by metis

section \<open>Properties\<close>

text \<open>
  Property C25. For every table with a well-formed index, the indexed lookup never reads outside the
  table and gives, for every code point, the same answer as membership in the range that expanding
  the whole table yields.
\<close>

theorem lre_is_in_table_expansion:
  assumes "prop_index_ok table index" "cr_ok cr" "cr_len cr = 0"
    and "unicode_prop1_loop cr table 0 False = Some (cr', 0)"
  shows "lre_is_in_table c table index (length index div 3) = Some (cr_mem (cr_points cr') c)"
proof -
  have ok: "index_ok table_runs (\<lambda>rs. even (length rs)) table index" using assms(1) by (simp add: prop_index_ok_def)
  obtain rs where rs: "table_runs table = Some rs" "even (length rs)" "sum_list rs < 2 ^ 32"
    using prop_runs.index_ok_runs [OF ok] by blast
  have "cr_points cr = []" using assms(3) by (simp add: cr_points_def)
  then have "cr_points cr' = map of_nat (run_points 0 False rs)"
    using unicode_prop1_loop_runs [OF rs(1), of 0 cr False] rs(3) assms(2,4) by auto
  moreover have "in_runs rs 0 (unat c) False \<Longrightarrow> unat c < sum_list rs"
    using in_runs_append [of 0 rs "unat c" "[]" False] rs(2) by (auto simp: not_less [symmetric])
  ultimately show ?thesis
    using lre_is_in_table_runs [OF ok rs(1)] run_points_mem [of 0 rs c False] rs(3) by auto
qed

theorem lre_is_in_table_expansion_witness:
  "lre_is_in_table 0x42 [0xc0, 0x99] [0x5b, 0, 0] 1 = Some (cr_mem [0x41, 0x5b] 0x42)"
proof -
  let ?cr = "cr_init (\<lambda>_ _. True) 0 0 None"
  let ?cr' = "?cr\<lparr>cr_len := 2, cr_size := 2, points := [0x41, 0x5b], mem_opaque := 1\<rparr>"
  have i: "prop_index_ok [0xc0, 0x99] [0x5b, 0, 0]" by (simp add: index_eval)
  have e: "unicode_prop1_loop ?cr [0xc0, 0x99] 0 False = Some (?cr', 0)"
    by (simp add: prop1_add_def cr_add_interval_def cr_realloc_def cr_init_def cr_default_realloc_def
        libc_realloc_def)
  show ?thesis
    using lre_is_in_table_expansion [OF i _ _ e, of "0x42"] by (simp add: cr_points_def)
qed

text \<open>
  Property C26. The identifier tests of the lexer are total on all 32-bit codes: no lookup runs past
  the end of its table, and \<^verbatim>\<open>ID_Start\<close> characters are \<^verbatim>\<open>ID_Continue\<close> characters.
\<close>

theorem id_lookups_total:
  "\<exists>s k i. lre_is_id_start c = Some s \<and> lre_is_id_continue c = Some (s \<or> k) \<and> lre_is_case_ignorable c = Some i"
proof -
  note t = prop_lookup_total [of _ _ c]
  obtain s where s: "lre_is_id_start c = Some s"
    using t [OF id_start_index_ok] by (auto simp: lre_is_id_start_def)
  obtain k where "lre_is_in_table c unicode_prop_ID_Continue1_table unicode_prop_ID_Continue1_index
      (length unicode_prop_ID_Continue1_index div 3) = Some k"
    using t [OF id_continue1_index_ok] by auto
  then show ?thesis using s t [OF case_ignorable_index_ok]
    by (cases s) (fastforce simp: lre_is_id_continue_def lre_is_case_ignorable_def)+
qed

end
