(* ===== verification/UnicodeCase.thy ===== *)
theory UnicodeCase
  imports UnicodeIndex "HOL-Library.Monad_Syntax"
begin

text \<open>
  Case conversion of \<^verbatim>\<open>quickjs/libunicode.c\<close>: a binary search in the table of runs, and for the run found
  one of fourteen ways to compute the one to three code points of the result. Reads outside the
  tables are the value \<open>None\<close>; the main theorem is that there are none.
\<close>

section \<open>Searching the runs\<close>

text \<open>
  The tables of runs start every word with \<open>w\<close> bits of first code point and seven bits of length. The
  same search is in \<open>lre_case_conv\<close>, \<open>lre_is_cased\<close> and \<open>unicode_decomp_char\<close>.
\<close>

definition run_code :: "nat \<Rightarrow> u32 \<Rightarrow> u32" where
  "run_code w v = drop_bit (32 - w) v"

definition run_len :: "nat \<Rightarrow> u32 \<Rightarrow> u32" where
  "run_len w v = drop_bit (32 - w - 7) v AND 0x7f"

function run_search :: "nat \<Rightarrow> u32 list \<Rightarrow> u32 \<Rightarrow> int \<Rightarrow> int \<Rightarrow> nat option" where
  "run_search w tab c idx_min idx_max =
     (if idx_min \<le> idx_max then
        let idx = (idx_max + idx_min) div 2;
            v = tab ! nat idx;
            code = run_code w v;
            len = run_len w v
        in if c < code then run_search w tab c idx_min (idx - 1)
           else if c \<ge> code + len then run_search w tab c (idx + 1) idx_max
           else Some (nat idx)
      else None)"
  by pat_completeness auto
termination by (relation "measure (\<lambda>(w, tab, c, lo, hi). nat (hi - lo + 1))") auto

declare run_search.simps [simp del]

section \<open>Conversion\<close>

definition tab_get :: "'a list \<Rightarrow> nat \<Rightarrow> 'a option" where
  "tab_get tab i = (if i < length tab then Some (tab ! i) else None)"

datatype run_type =
  RUN_TYPE_U | RUN_TYPE_L | RUN_TYPE_UF | RUN_TYPE_LF | RUN_TYPE_UL | RUN_TYPE_LSU
| RUN_TYPE_U2L_399_EXT2 | RUN_TYPE_UF_D20 | RUN_TYPE_UF_D1_EXT | RUN_TYPE_U_EXT
| RUN_TYPE_LF_EXT | RUN_TYPE_U_EXT2 | RUN_TYPE_L_EXT2 | RUN_TYPE_U_EXT3

text \<open>The types in the order of the C enumeration; larger values fall into the \<^verbatim>\<open>default\<close> label.\<close>

definition run_types :: "run_type list" where
  "run_types =
     [RUN_TYPE_U, RUN_TYPE_L, RUN_TYPE_UF, RUN_TYPE_LF, RUN_TYPE_UL, RUN_TYPE_LSU,
      RUN_TYPE_U2L_399_EXT2, RUN_TYPE_UF_D20, RUN_TYPE_UF_D1_EXT, RUN_TYPE_U_EXT,
      RUN_TYPE_LF_EXT, RUN_TYPE_U_EXT2, RUN_TYPE_L_EXT2, RUN_TYPE_U_EXT3]"

definition run_type_of :: "u32 \<Rightarrow> run_type" where
  "run_type_of v =
     (let t = unat (drop_bit 4 v AND 0xf) in if t < 14 then run_types ! t else RUN_TYPE_U_EXT3)"

definition ext :: "u32 \<Rightarrow> u32 option" where
  "ext i = map_option ucast (tab_get case_conv_ext (unat i))"

definition case_conv_data :: "u32 \<Rightarrow> nat \<Rightarrow> u32" where
  "case_conv_data v idx = push_bit 8 (v AND 0xf) OR ucast (case_conv_table2 ! idx)"

text \<open>The simple runs: the whole run is mapped to the run at the index \<open>data\<close>.\<close>

definition conv_shift :: "u32 \<Rightarrow> u32 \<Rightarrow> u32 \<Rightarrow> u32 list option" where
  "conv_shift c code data =
     do { v <- tab_get case_conv_table1 (unat data); Some [c - code + run_code 17 v] }"

fun case_conv_run :: "run_type \<Rightarrow> u32 \<Rightarrow> nat \<Rightarrow> u32 \<Rightarrow> u32 \<Rightarrow> u32 list option" where
  "case_conv_run RUN_TYPE_U c conv_type code data =
     (if conv_type = 0 then conv_shift c code data else Some [c])"
| "case_conv_run RUN_TYPE_L c conv_type code data =
     (if conv_type = 1 then conv_shift c code data else Some [c])"
| "case_conv_run RUN_TYPE_UF c conv_type code data =
     (if conv_type = 0 \<or> conv_type = 2 then conv_shift c code data else Some [c])"
| "case_conv_run RUN_TYPE_LF c conv_type code data =
     (if conv_type = 1 \<or> conv_type = 2 then conv_shift c code data else Some [c])"
| "case_conv_run RUN_TYPE_UL c conv_type code data =
     (let is_lower = of_bool (conv_type \<noteq> 0); a = c - code in
      if a AND 1 \<noteq> 1 - is_lower then Some [c] else Some [(a XOR 1) + code])"
| "case_conv_run RUN_TYPE_LSU c conv_type code data =
     (let is_lower = of_bool (conv_type \<noteq> 0); a = c - code in
      if a = 1 then Some [c + (2 * is_lower - 1)]
      else if a = (1 - is_lower) * 2 then Some [c + (2 * is_lower - 1) * 2]
      else Some [c])"
| "case_conv_run RUN_TYPE_U2L_399_EXT2 c conv_type code data =
     (if conv_type = 0 then
        do { x <- ext (drop_bit 6 data); Some [c - code + x, 0x399] }
      else do { x <- ext (data AND 0x3f); Some [c - code + x] })"
| "case_conv_run RUN_TYPE_UF_D20 c conv_type code data =
     (if conv_type = 1 then Some [c] else Some [data + of_bool (conv_type = 2) * 0x20])"
| "case_conv_run RUN_TYPE_UF_D1_EXT c conv_type code data =
     (if conv_type = 1 then Some [c]
      else do { x <- ext data; Some [x + of_bool (conv_type = 2)] })"
| "case_conv_run RUN_TYPE_U_EXT c conv_type code data =
     (if conv_type \<noteq> 0 then Some [c] else do { x <- ext data; Some [x] })"
| "case_conv_run RUN_TYPE_LF_EXT c conv_type code data =
     (if conv_type = 0 then Some [c] else do { x <- ext data; Some [x] })"
| "case_conv_run RUN_TYPE_U_EXT2 c conv_type code data =
     (if conv_type \<noteq> 0 then Some [c]
      else do { x <- ext (drop_bit 6 data); y <- ext (data AND 0x3f); Some [c - code + x, y] })"
| "case_conv_run RUN_TYPE_L_EXT2 c conv_type code data =
     (if conv_type \<noteq> 1 then Some [c]
      else do { x <- ext (drop_bit 6 data); y <- ext (data AND 0x3f); Some [c - code + x, y] })"
| "case_conv_run RUN_TYPE_U_EXT3 c conv_type code data =
     (if conv_type \<noteq> 0 then Some [c]
      else do { x <- ext (drop_bit 8 data); y <- ext (drop_bit 4 data AND 0xf);
                z <- ext (data AND 0xf); Some [x, y, z] })"

definition case_conv_ascii :: "u32 \<Rightarrow> nat \<Rightarrow> u32" where
  "case_conv_ascii c conv_type =
     (if conv_type \<noteq> 0 then (if 0x41 \<le> c \<and> c \<le> 0x5a then c - 0x41 + 0x61 else c)
      else (if 0x61 \<le> c \<and> c \<le> 0x7a then c - 0x61 + 0x41 else c))"

definition lre_case_conv :: "u32 \<Rightarrow> nat \<Rightarrow> u32 list option" where
  "lre_case_conv c conv_type =
     (if c < 128 then Some [case_conv_ascii c conv_type]
      else case run_search 17 case_conv_table1 c 0 (int (length case_conv_table1) - 1) of
             None \<Rightarrow> Some [c]
           | Some idx \<Rightarrow>
               let v = case_conv_table1 ! idx in
               case_conv_run (run_type_of v) c conv_type (run_code 17 v) (case_conv_data v idx))"

definition lre_is_cased :: "u32 \<Rightarrow> bool option" where
  "lre_is_cased c =
     (case run_search 17 case_conv_table1 c 0 (int (length case_conv_table1) - 1) of
        Some _ \<Rightarrow> Some True
      | None \<Rightarrow>
          lre_is_in_table c unicode_prop_Cased1_table unicode_prop_Cased1_index
            (length unicode_prop_Cased1_index div 3))"

section \<open>The search is correct on sorted runs\<close>

definition in_run :: "nat \<Rightarrow> u32 list \<Rightarrow> u32 \<Rightarrow> nat \<Rightarrow> bool" where
  "in_run w tab c i \<longleftrightarrow> i < length tab \<and> run_code w (tab ! i) \<le> c \<and> c < run_code w (tab ! i) + run_len w (tab ! i)"

definition runs_sorted :: "nat \<Rightarrow> u32 list \<Rightarrow> bool" where
  "runs_sorted w tab \<longleftrightarrow>
     (\<forall>i j. i < j \<and> j < length tab \<longrightarrow> run_code w (tab ! i) + run_len w (tab ! i) \<le> run_code w (tab ! j)) \<and>
     (\<forall>i < length tab. run_code w (tab ! i) \<le> run_code w (tab ! i) + run_len w (tab ! i))"

lemma run_search_bound:
  "run_search w tab c lo hi = Some i \<Longrightarrow> 0 \<le> lo \<Longrightarrow> lo \<le> int i \<and> int i \<le> hi \<and>
     run_code w (tab ! i) \<le> c \<and> c < run_code w (tab ! i) + run_len w (tab ! i)"
proof (induction w tab c lo hi rule: run_search.induct)
  case (1 w tab c lo hi)
  show ?case
  proof (cases "lo \<le> hi")
    case True
    let ?idx = "(hi + lo) div 2"
    let ?v = "tab ! nat ?idx"
    have b: "lo \<le> ?idx" "?idx \<le> hi" using True by auto
    consider "c < run_code w ?v" | "\<not> c < run_code w ?v" "run_code w ?v + run_len w ?v \<le> c"
      | "\<not> c < run_code w ?v" "\<not> run_code w ?v + run_len w ?v \<le> c" by blast
    then show ?thesis
    proof cases
      case a: 1
      have "run_search w tab c lo (?idx - 1) = Some i"
        using "1.prems"(1) True a by (subst (asm) run_search.simps) (simp add: Let_def)
      then show ?thesis using "1.IH"(1) [OF True refl refl refl refl a] "1.prems"(2) b by simp
    next
      case a: 2
      have "run_search w tab c (?idx + 1) hi = Some i"
        using "1.prems"(1) True a by (subst (asm) run_search.simps) (simp add: Let_def)
      then show ?thesis using "1.IH"(2) [OF True refl refl refl refl a] "1.prems"(2) b by simp
    next
      case a: 3
      have "i = nat ?idx"
        using "1.prems"(1) True a by (subst (asm) run_search.simps) (simp add: Let_def)
      then show ?thesis using a b "1.prems"(2) by (auto simp: not_less not_le)
    qed
  next
    case False
    then show ?thesis using "1.prems"(1) by (subst (asm) run_search.simps) simp
  qed
qed

lemma run_search_finds:
  "runs_sorted w tab \<Longrightarrow> in_run w tab c i \<Longrightarrow> 0 \<le> lo \<Longrightarrow> lo \<le> int i \<Longrightarrow> int i \<le> hi \<Longrightarrow> hi < int (length tab) \<Longrightarrow>
   run_search w tab c lo hi = Some i"
proof (induction w tab c lo hi rule: run_search.induct)
  case (1 w tab c lo hi)
  let ?idx = "(hi + lo) div 2"
  let ?v = "tab ! nat ?idx"
  have lh: "lo \<le> hi" using "1.prems" by simp
  then have b: "lo \<le> ?idx" "?idx \<le> hi" "nat ?idx < length tab" using "1.prems" by auto
  have i: "run_code w (tab ! i) \<le> c" "c < run_code w (tab ! i) + run_len w (tab ! i)" "i < length tab"
    using "1.prems"(2) by (auto simp: in_run_def)
  have s: "j < k \<Longrightarrow> k < length tab \<Longrightarrow> run_code w (tab ! j) + run_len w (tab ! j) \<le> run_code w (tab ! k)"
    and nw: "j < length tab \<Longrightarrow> run_code w (tab ! j) \<le> run_code w (tab ! j) + run_len w (tab ! j)" for j k
    using "1.prems"(1) by (auto simp: runs_sorted_def)
  show ?case
  proof (cases i "nat ?idx" rule: linorder_cases)
    case less
    then have "c < run_code w ?v" using s [of i "nat ?idx"] b i(2) by (auto intro: less_le_trans)
    moreover have "int i \<le> ?idx - 1" using less by auto
    ultimately have "run_search w tab c lo (?idx - 1) = Some i"
      using "1.prems" b by (intro "1.IH"(1) [OF lh refl refl refl refl]) auto
    then show ?thesis using lh \<open>c < run_code w ?v\<close> by (subst run_search.simps) (simp add: Let_def)
  next
    case greater
    have le: "run_code w ?v + run_len w ?v \<le> c" using s [of "nat ?idx" i] greater i(1,3) by (auto intro: order.trans)
    moreover have nl: "\<not> c < run_code w ?v" using le nw [OF b(3)] by (auto intro: order.trans dest: leD)
    moreover have "?idx + 1 \<le> int i" using greater b "1.prems"(3) by auto
    ultimately have "run_search w tab c (?idx + 1) hi = Some i"
      using "1.prems" b by (intro "1.IH"(2) [OF lh refl refl refl refl]) auto
    then show ?thesis using lh le nl by (subst run_search.simps) (simp add: Let_def)
  next
    case equal
    then show ?thesis using lh i by (subst run_search.simps) (auto simp: Let_def not_le not_less)
  qed
qed

text \<open>The sorting check, entry by entry.\<close>

fun runs_ascending :: "nat \<Rightarrow> u32 list \<Rightarrow> bool" where
  "runs_ascending w (v # v' # vs) \<longleftrightarrow>
     unat (run_code w v) + unat (run_len w v) \<le> unat (run_code w v') \<and> runs_ascending w (v' # vs)"
| "runs_ascending w _ \<longleftrightarrow> True"

lemma run_end_unat:
  assumes "w = 17 \<or> w = 18"
  shows "unat (run_code w v + run_len w v) = unat (run_code w v) + unat (run_len w v)"
proof -
  have v: "unat v < 2 ^ 32" using unsigned_less [of v, where ?'a = nat] by simp
  have "unat (run_len w v) < 128"
    using unat_and_mask [of "drop_bit (32 - w - 7) v" 7] by (simp add: run_len_def mask_eq_exp_minus_1)
  moreover have "unat (run_code w v) < 2 ^ 18"
    using assms v by (auto simp: run_code_def unat_drop_bit less_mult_imp_div_less)
  ultimately show ?thesis by (simp add: unat_word_ariths)
qed

lemma runs_ascending_nth:
  "runs_ascending w tab \<Longrightarrow> i < j \<Longrightarrow> j < length tab \<Longrightarrow>
   unat (run_code w (tab ! i)) + unat (run_len w (tab ! i)) \<le> unat (run_code w (tab ! j))"
proof (induction w tab arbitrary: i j rule: runs_ascending.induct)
  case (1 w v v' vs)
  show ?case
  proof (cases i)
    case 0
    then obtain j' where j': "j = Suc j'" using 1(3) by (cases j) auto
    show ?thesis
    proof (cases j')
      case (Suc k)
      then have "unat (run_code w v') + unat (run_len w v') \<le> unat (run_code w ((v' # vs) ! j'))"
        using 1(1) [of 0 j'] 1(2-4) j' by simp
      then show ?thesis using 1(2) 0 j' by simp
    qed (use 1(2) 0 j' in simp)
  next
    case (Suc i')
    then show ?thesis using 1(1) [of i' "j - 1"] 1(2-4) by (cases j) auto
  qed
qed auto

lemma runs_ascending_sorted:
  assumes "w = 17 \<or> w = 18" "runs_ascending w tab"
  shows "runs_sorted w tab"
  using runs_ascending_nth [OF assms(2)] run_end_unat [OF assms(1)]
  by (auto simp: runs_sorted_def word_le_nat_alt)

section \<open>The case conversion table\<close>

definition case_entry_ok :: "u32 \<Rightarrow> u8 \<Rightarrow> bool" where
  "case_entry_ok v b =
     (let data = push_bit 8 (v AND 0xf) OR ucast b in
      case run_type_of v of
        RUN_TYPE_U \<Rightarrow> unat data < 361 | RUN_TYPE_L \<Rightarrow> unat data < 361
      | RUN_TYPE_UF \<Rightarrow> unat data < 361 | RUN_TYPE_LF \<Rightarrow> unat data < 361
      | RUN_TYPE_UL \<Rightarrow> True | RUN_TYPE_LSU \<Rightarrow> True | RUN_TYPE_UF_D20 \<Rightarrow> True
      | RUN_TYPE_UF_D1_EXT \<Rightarrow> unat data < 58 | RUN_TYPE_U_EXT \<Rightarrow> unat data < 58 | RUN_TYPE_LF_EXT \<Rightarrow> unat data < 58
      | RUN_TYPE_U2L_399_EXT2 \<Rightarrow> unat (drop_bit 6 data) < 58 \<and> unat (data AND 0x3f) < 58
      | RUN_TYPE_U_EXT2 \<Rightarrow> unat (drop_bit 6 data) < 58 \<and> unat (data AND 0x3f) < 58
      | RUN_TYPE_L_EXT2 \<Rightarrow> unat (drop_bit 6 data) < 58 \<and> unat (data AND 0x3f) < 58
      | RUN_TYPE_U_EXT3 \<Rightarrow> unat (drop_bit 8 data) < 58)"

lemmas case_table_eval =
  case_conv_table1_def case_conv_table2_def run_code_def run_len_def case_entry_ok_def run_type_of_def
  run_types_def Let_def

lemma case_table_ascending: "runs_ascending 17 case_conv_table1"
  by (simp add: case_table_eval)

lemma case_table_entries: "list_all2 case_entry_ok case_conv_table1 case_conv_table2"
  by (simp add: case_table_eval)

lemma case_ext_length: "length case_conv_ext = 58" "length case_conv_table1 = 361"
  by (simp_all add: case_conv_ext_def case_conv_table1_def)

lemma ext_defined: "unat i < 58 \<Longrightarrow> \<exists>x. ext i = Some x"
  by (simp add: ext_def tab_get_def case_ext_length)

lemma conv_shift_defined: "unat data < 361 \<Longrightarrow> \<exists>x. conv_shift c code data = Some [x]"
  by (simp add: conv_shift_def tab_get_def case_ext_length)

lemma unat_and_0xf: "unat (x AND 0xf :: u32) < 58"
  using unat_and_mask [of x 4] by (simp add: mask_eq_exp_minus_1 less_le_trans [of _ 16])

lemma case_conv_run_defined:
  assumes "case_entry_ok v b" "data = push_bit 8 (v AND 0xf) OR ucast b"
  shows "\<exists>rs. case_conv_run (run_type_of v) c conv_type code data = Some rs \<and> rs \<noteq> [] \<and> length rs \<le> 3"
proof -
  note e = assms(1) [unfolded case_entry_ok_def Let_def assms(2) [symmetric]]
  show ?thesis
  proof (cases "run_type_of v")
    case RUN_TYPE_U_EXT3
    then have "unat (drop_bit 8 data) < 58" using e by simp
    then obtain x y z where "ext (drop_bit 8 data) = Some x" "ext (drop_bit 4 data AND 0xf) = Some y"
      "ext (data AND 0xf) = Some z" using ext_defined unat_and_0xf by metis
    then show ?thesis using RUN_TYPE_U_EXT3 by simp
  qed (use e ext_defined [of data] ext_defined [of "drop_bit 6 data"] ext_defined [of "data AND 0x3f"]
    conv_shift_defined [of data c code] in \<open>auto simp: Let_def\<close>)
qed

lemma run_search_case_table:
  assumes "run_search 17 case_conv_table1 c 0 (int (length case_conv_table1) - 1) = Some i"
  shows "i < 361" "case_entry_ok (case_conv_table1 ! i) (case_conv_table2 ! i)" "in_run 17 case_conv_table1 c i"
proof -
  have b: "int i \<le> int (length case_conv_table1) - 1" "run_code 17 (case_conv_table1 ! i) \<le> c"
    "c < run_code 17 (case_conv_table1 ! i) + run_len 17 (case_conv_table1 ! i)"
    using run_search_bound [OF assms] by auto
  then show i: "i < 361" by (simp add: case_ext_length)
  then show "case_entry_ok (case_conv_table1 ! i) (case_conv_table2 ! i)"
    using case_table_entries by (simp add: list_all2_conv_all_nth case_ext_length)
  show "in_run 17 case_conv_table1 c i" using b i by (simp add: in_run_def case_ext_length)
qed

lemma cased_search:
  assumes "in_run 17 case_conv_table1 c i"
  shows "run_search 17 case_conv_table1 c 0 (int (length case_conv_table1) - 1) = Some i"
  using assms runs_ascending_sorted [OF _ case_table_ascending]
  by (intro run_search_finds) (auto simp: in_run_def)

lemma ascii_letters_in_table:
  "0x41 \<le> c \<Longrightarrow> c \<le> 0x5a \<Longrightarrow> in_run 17 case_conv_table1 c 0"
  "0x61 \<le> c \<Longrightarrow> c \<le> 0x7a \<Longrightarrow> in_run 17 case_conv_table1 c 1"
proof -
  have e: "case_conv_table1 ! 0 = 0x00209a30" "case_conv_table1 ! Suc 0 = 0x00309a00"
    by (simp_all add: case_conv_table1_def)
  show "0x41 \<le> c \<Longrightarrow> c \<le> 0x5a \<Longrightarrow> in_run 17 case_conv_table1 c 0"
    "0x61 \<le> c \<Longrightarrow> c \<le> 0x7a \<Longrightarrow> in_run 17 case_conv_table1 c 1"
    by (auto simp: in_run_def case_ext_length e run_code_def run_len_def word_le_nat_alt word_less_nat_alt)
qed

section \<open>Properties\<close>

lemma lre_case_conv_defined:
  "\<exists>rs. lre_case_conv c conv_type = Some rs \<and> 1 \<le> length rs \<and> length rs \<le> 3"
proof (cases "c < 128")
  case True
  then show ?thesis by (simp add: lre_case_conv_def)
next
  case False
  show ?thesis
  proof (cases "run_search 17 case_conv_table1 c 0 (int (length case_conv_table1) - 1)")
    case None
    then show ?thesis using False by (simp add: lre_case_conv_def)
  next
    case (Some i)
    then show ?thesis
      using False case_conv_run_defined [OF run_search_case_table(2) [OF Some] refl]
      by (fastforce simp: lre_case_conv_def Let_def case_conv_data_def Suc_le_eq)
  qed
qed

text \<open>
  Property C27. Case conversion never reads outside its three tables and writes between one and
  three code points, which is what its callers reserve (\<^verbatim>\<open>LRE_CC_RES_LEN_MAX\<close>), for every 32-bit code and
  every conversion type.
\<close>

theorem lre_case_conv_total:
  "\<exists>rs. lre_case_conv c conv_type = Some rs \<and> 1 \<le> length rs \<and> length rs \<le> 3"
  by (rule lre_case_conv_defined)

text \<open>
  Property C28. Every character that some conversion changes is reported as cased, and the test for
  cased characters is defined on all codes.
\<close>

theorem changed_is_cased:
  "(\<exists>b. lre_is_cased c = Some b) \<and> (lre_case_conv c conv_type \<noteq> Some [c] \<longrightarrow> lre_is_cased c = Some True)"
proof
  show "\<exists>b. lre_is_cased c = Some b"
    using prop_lookup_total [OF cased1_index_ok, of c]
    by (auto simp: lre_is_cased_def split: option.splits)
  show "lre_case_conv c conv_type \<noteq> Some [c] \<longrightarrow> lre_is_cased c = Some True"
  proof
    assume changed: "lre_case_conv c conv_type \<noteq> Some [c]"
    have "\<exists>i. in_run 17 case_conv_table1 c i"
    proof (cases "c < 128")
      case True
      then have "0x41 \<le> c \<and> c \<le> 0x5a \<or> 0x61 \<le> c \<and> c \<le> 0x7a"
        using changed by (auto simp: lre_case_conv_def case_conv_ascii_def split: if_splits)
      then show ?thesis using ascii_letters_in_table by blast
    next
      case False
      then show ?thesis using changed run_search_case_table(3)
        by (auto simp: lre_case_conv_def split: option.splits)
    qed
    then show "lre_is_cased c = Some True" using cased_search by (auto simp: lre_is_cased_def)
  qed
qed

theorem changed_is_cased_witness: "lre_is_cased 0x61 = Some True"
proof -
  have "lre_case_conv 0x61 0 = Some [0x41]" by (simp add: lre_case_conv_def case_conv_ascii_def)
  then show ?thesis using changed_is_cased [of "0x61" 0] by simp
qed

end
