(* ===== verification/UnicodeNorm.thy ===== *)
theory UnicodeNorm
  imports UnicodeCase UnicodeNormTables DynBuf
begin

text \<open>
  Normalization of \<^verbatim>\<open>quickjs/libunicode.c\<close>: decomposition of a code point by its run in the table, pair
  composition by binary search, combining classes, canonical ordering and \<open>unicode_normalize\<close>. A
  pointer into a table is the suffix of the table it points to; a read behind the end is \<open>None\<close>. Here are
  the definitions, the combining classes and the canonical ordering; \<open>UnicodeNormProofs\<close> checks the
  decomposition tables.
\<close>

section \<open>Decomposition of one code point\<close>

abbreviation UNICODE_DECOMP_LEN_MAX :: nat where "UNICODE_DECOMP_LEN_MAX \<equiv> 18"

text \<open>The enumeration \<^verbatim>\<open>DecompTypeEnum\<close>; the code computes with its numbers.\<close>

abbreviation DECOMP_TYPE_C1 :: nat where "DECOMP_TYPE_C1 \<equiv> 0"
abbreviation DECOMP_TYPE_L1 :: nat where "DECOMP_TYPE_L1 \<equiv> 1"
abbreviation DECOMP_TYPE_L7 :: nat where "DECOMP_TYPE_L7 \<equiv> 7"
abbreviation DECOMP_TYPE_LL1 :: nat where "DECOMP_TYPE_LL1 \<equiv> 8"
abbreviation DECOMP_TYPE_LL2 :: nat where "DECOMP_TYPE_LL2 \<equiv> 9"
abbreviation DECOMP_TYPE_S1 :: nat where "DECOMP_TYPE_S1 \<equiv> 10"
abbreviation DECOMP_TYPE_S5 :: nat where "DECOMP_TYPE_S5 \<equiv> 14"
abbreviation DECOMP_TYPE_I1 :: nat where "DECOMP_TYPE_I1 \<equiv> 15"
abbreviation DECOMP_TYPE_I2_0 :: nat where "DECOMP_TYPE_I2_0 \<equiv> 16"
abbreviation DECOMP_TYPE_I4_2 :: nat where "DECOMP_TYPE_I4_2 \<equiv> 21"
abbreviation DECOMP_TYPE_B1 :: nat where "DECOMP_TYPE_B1 \<equiv> 22"
abbreviation DECOMP_TYPE_B8 :: nat where "DECOMP_TYPE_B8 \<equiv> 29"
abbreviation DECOMP_TYPE_B18 :: nat where "DECOMP_TYPE_B18 \<equiv> 30"
abbreviation DECOMP_TYPE_LS2 :: nat where "DECOMP_TYPE_LS2 \<equiv> 31"
abbreviation DECOMP_TYPE_PAT3 :: nat where "DECOMP_TYPE_PAT3 \<equiv> 32"
abbreviation DECOMP_TYPE_S2_UL :: nat where "DECOMP_TYPE_S2_UL \<equiv> 33"
abbreviation DECOMP_TYPE_LS2_UL :: nat where "DECOMP_TYPE_LS2_UL \<equiv> 34"

definition unicode_short_table :: "u32 list" where
  "unicode_short_table = [0x2044, 0x2215]"

definition unicode_get_short_code :: "u32 \<Rightarrow> u32 option" where
  "unicode_get_short_code c =
     (if c < 0x80 then Some c
      else if c < 0x80 + 0x50 then Some (c - 0x80 + 0x300)
      else tab_get unicode_short_table (unat (c - 0x80 - 0x50)))"

definition unicode_get_lower_simple :: "u32 \<Rightarrow> u32" where
  "unicode_get_lower_simple c = (if c < 0x100 \<or> 0x410 \<le> c \<and> c \<le> 0x42f then c + 0x20 else c + 1)"

definition unicode_get16 :: "bytes \<Rightarrow> nat \<Rightarrow> u32 option" where
  "unicode_get16 d k =
     do { a <- tab_get d k; b <- tab_get d (k + 1); Some (ucast a OR push_bit 8 (ucast b)) }"

definition short_at :: "bytes \<Rightarrow> nat \<Rightarrow> u32 option" where
  "short_at d k = do { b <- tab_get d k; unicode_get_short_code (ucast b) }"

text \<open>The loops that stop with the answer 0, no decomposition, at a zero entry.\<close>

fun decomp_nonzero :: "(nat \<Rightarrow> u32 option) \<Rightarrow> nat list \<Rightarrow> u32 list \<Rightarrow> u32 list option" where
  "decomp_nonzero rd [] res = Some res"
| "decomp_nonzero rd (i # is) res =
     do { x <- rd i; if x = 0 then Some [] else decomp_nonzero rd is (res @ [x]) }"

definition decomp_L :: "bytes \<Rightarrow> nat \<Rightarrow> nat \<Rightarrow> u32 list option" where
  "decomp_L d off l = (let d = drop (off * l * 2) d in decomp_nonzero (\<lambda>i. unicode_get16 d (2 * i)) [0..<l] [])"

definition decomp_LL :: "bytes \<Rightarrow> nat \<Rightarrow> nat \<Rightarrow> nat \<Rightarrow> u32 list option" where
  "decomp_LL d off len l =
     (let k = off * l; p = len * l * 2 in
      decomp_nonzero
        (\<lambda>i. do { c1 <- unicode_get16 d (2 * (k + i));
                  h <- tab_get d (p + (k + i) div 4);
                  Some (c1 OR push_bit 16 (drop_bit ((k + i) mod 4 * 2) (ucast h) AND 3)) })
        [0..<l] [])"

definition decomp_S :: "bytes \<Rightarrow> nat \<Rightarrow> nat \<Rightarrow> u32 list option" where
  "decomp_S d off l = (let d = drop (off * l) d in decomp_nonzero (short_at d) [0..<l] [])"

definition decomp_I :: "bytes \<Rightarrow> u32 \<Rightarrow> nat \<Rightarrow> nat \<Rightarrow> u32 list option" where
  "decomp_I d off l p =
     those (map (\<lambda>i. do { c1 <- unicode_get16 d (2 * i); Some (if i = p then c1 + off else c1) }) [0..<l])"

definition decomp_B :: "bytes \<Rightarrow> nat \<Rightarrow> nat \<Rightarrow> u32 list option" where
  "decomp_B d off l =
     do { c_min <- unicode_get16 d 0;
          let d = drop (2 + off * l) d;
          those (map (\<lambda>i. do { c1 <- tab_get d i; Some (if c1 = 0xff then 0x20 else ucast c1 + c_min) }) [0..<l]) }"

definition decomp_LS2 :: "bytes \<Rightarrow> nat \<Rightarrow> u32 list option" where
  "decomp_LS2 d off =
     (let d = drop (off * 3) d in
      do { x <- unicode_get16 d 0;
           if x = 0 then Some [] else do { y <- short_at d 2; Some [x, y] } })"

definition decomp_PAT3 :: "bytes \<Rightarrow> nat \<Rightarrow> u32 list option" where
  "decomp_PAT3 d off =
     do { x <- unicode_get16 d 0; z <- unicode_get16 d 2; y <- unicode_get16 d (4 + off * 2); Some [x, y, z] }"

definition decomp_UL :: "bytes \<Rightarrow> nat \<Rightarrow> nat \<Rightarrow> u32 list option" where
  "decomp_UL d off type =
     do { (c, d) <-
            (if type = DECOMP_TYPE_S2_UL then
               let d = drop (off div 2 * 2) d in do { c <- short_at d 0; Some (c, drop 1 d) }
             else let d = drop (off div 2 * 3) d in do { c <- unicode_get16 d 0; Some (c, drop 2 d) });
          let c = (if odd off then unicode_get_lower_simple c else c);
          y <- short_at d 0;
          Some [c, y] }"

definition decomp_data_entry :: "bytes \<Rightarrow> u32 \<Rightarrow> u32 \<Rightarrow> nat \<Rightarrow> u32 list option" where
  "decomp_data_entry d off len type =
     (if DECOMP_TYPE_L1 \<le> type \<and> type \<le> DECOMP_TYPE_L7 then decomp_L d (unat off) (type - DECOMP_TYPE_L1 + 1)
      else if type = DECOMP_TYPE_LL1 \<or> type = DECOMP_TYPE_LL2 then
        decomp_LL d (unat off) (unat len) (type - DECOMP_TYPE_LL1 + 1)
      else if DECOMP_TYPE_S1 \<le> type \<and> type \<le> DECOMP_TYPE_S5 then decomp_S d (unat off) (type - DECOMP_TYPE_S1 + 1)
      else if type = DECOMP_TYPE_I1 then decomp_I d off 1 0
      else if DECOMP_TYPE_I2_0 \<le> type \<and> type \<le> DECOMP_TYPE_I4_2 then
        let l = 2 + (type - DECOMP_TYPE_I2_0) div 2;
            p = (type - DECOMP_TYPE_I2_0) mod 2 + (if l > 2 then 1 else 0)
        in decomp_I d off l p
      else if type = DECOMP_TYPE_B18 then decomp_B d (unat off) 18
      else if DECOMP_TYPE_B1 \<le> type \<and> type \<le> DECOMP_TYPE_B8 then decomp_B d (unat off) (type - DECOMP_TYPE_B1 + 1)
      else if type = DECOMP_TYPE_LS2 then decomp_LS2 d (unat off)
      else if type = DECOMP_TYPE_PAT3 then decomp_PAT3 d (unat off)
      else if type = DECOMP_TYPE_S2_UL \<or> type = DECOMP_TYPE_LS2_UL then decomp_UL d (unat off) type
      else Some [])"

definition unicode_decomp_entry :: "u32 \<Rightarrow> nat \<Rightarrow> u32 \<Rightarrow> u32 \<Rightarrow> nat \<Rightarrow> u32 list option" where
  "unicode_decomp_entry c idx code len type =
     do { t <- tab_get unicode_decomp_table2 idx;
          if type = DECOMP_TYPE_C1 then Some [ucast t]
          else decomp_data_entry (drop (unat t) unicode_decomp_data) (c - code) len type }"

definition decomp_type :: "u32 \<Rightarrow> nat" where
  "decomp_type v = unat (drop_bit (32 - 18 - 7 - 6) v AND 0x3f)"

definition unicode_decomp_char :: "u32 \<Rightarrow> bool \<Rightarrow> u32 list option" where
  "unicode_decomp_char c is_compat1 =
     (case run_search 18 unicode_decomp_table1 c 0 (int (length unicode_decomp_table1) - 1) of
        None \<Rightarrow> Some []
      | Some idx \<Rightarrow>
          let v = unicode_decomp_table1 ! idx in
          if \<not> is_compat1 \<and> v AND 1 = 1 then Some []
          else unicode_decomp_entry c idx (run_code 18 v) (run_len 18 v) (decomp_type v))"

section \<open>Composition of a pair\<close>

text \<open>The pair that an entry of the composition table stands for, with the composed code point.\<close>

definition comp_entry :: "u16 \<Rightarrow> (u32 \<times> u32 list) option" where
  "comp_entry idx1 =
     (let d_idx = unat (drop_bit 6 idx1); d_offset = ucast (idx1 AND 0x3f) in
      do { v <- tab_get unicode_decomp_table1 d_idx;
           let ch = run_code 18 v + d_offset;
           pair <- unicode_decomp_entry ch d_idx (run_code 18 v) (run_len 18 v) (decomp_type v);
           Some (ch, pair) })"

text \<open>The difference is computed in 32 bits and read as signed.\<close>

definition pair_diff :: "u32 \<Rightarrow> u32 \<Rightarrow> u32 \<Rightarrow> u32 \<Rightarrow> int" where
  "pair_diff c0 c1 p0 p1 = (let d = sint (c0 - p0) in if d = 0 then sint (c1 - p1) else d)"

function compose_search :: "u32 \<Rightarrow> u32 \<Rightarrow> int \<Rightarrow> int \<Rightarrow> u32 option" where
  "compose_search c0 c1 idx_min idx_max =
     (if idx_min \<le> idx_max then
        let idx = (idx_max + idx_min) div 2 in
        case comp_entry (unicode_comp_table ! nat idx) of
          Some (ch, [p0, p1]) \<Rightarrow>
            let d = pair_diff c0 c1 p0 p1 in
            if d < 0 then compose_search c0 c1 idx_min (idx - 1)
            else if d > 0 then compose_search c0 c1 (idx + 1) idx_max
            else Some ch
        | _ \<Rightarrow> None
      else Some 0)"
  by pat_completeness auto
termination by (relation "measure (\<lambda>(c0, c1, lo, hi). nat (hi - lo + 1))") auto

declare compose_search.simps [simp del]

definition unicode_compose_pair :: "u32 \<Rightarrow> u32 \<Rightarrow> u32 option" where
  "unicode_compose_pair c0 c1 = compose_search c0 c1 0 (int (length unicode_comp_table) - 1)"

definition compose_pair :: "u32 \<Rightarrow> u32 \<Rightarrow> u32 option" where
  "compose_pair c0 c1 =
     (if c0 \<ge> 0x1100 \<and> c0 < 0x1100 + 19 \<and> c1 \<ge> 0x1161 \<and> c1 < 0x1161 + 21 then
        Some (0xac00 + (c0 - 0x1100) * 588 + (c1 - 0x1161) * 28)
      else if c0 \<ge> 0xac00 \<and> c0 < 0xac00 + 11172 \<and> (c0 - 0xac00) mod 28 = 0 \<and> c1 \<ge> 0x11a7 \<and> c1 < 0x11a7 + 28 then
        Some (c0 + c1 - 0x11a7)
      else unicode_compose_pair c0 c1)"

section \<open>Combining classes\<close>

definition cc_run_len :: "u32 \<Rightarrow> bytes \<Rightarrow> (u32 \<times> bytes) option" where
  "cc_run_len n p =
     (if n < 48 then Some (n, p)
      else if n < 56 then
        (case p of x # p \<Rightarrow> Some ((push_bit 8 (n - 48) OR ucast x) + 48, p) | _ \<Rightarrow> None)
      else
        (case p of
           x # y # p \<Rightarrow> Some ((push_bit 8 (n - 56) OR push_bit 8 (ucast x) OR ucast y) + (48 + push_bit 11 1), p)
         | _ \<Rightarrow> None))"

definition cc_param :: "u32 \<Rightarrow> bytes \<Rightarrow> (u8 \<times> bytes) option" where
  "cc_param type p = (if type \<le> 1 then (case p of x # p \<Rightarrow> Some (x, p) | [] \<Rightarrow> None) else Some (0, p))"

definition cc_value :: "u32 \<Rightarrow> u8 \<Rightarrow> u32 \<Rightarrow> u32 \<Rightarrow> u32" where
  "cc_value type x c code =
     (if type = 0 then ucast x else if type = 1 then ucast x + c - code else if type = 2 then 0 else 230)"

lemma cc_run_len_decreases: "cc_run_len n p = Some (m, q) \<Longrightarrow> length q \<le> length p"
  by (auto simp: cc_run_len_def split: if_splits list.splits)

lemma cc_param_decreases: "cc_param ty p = Some (x, q) \<Longrightarrow> length q \<le> length p"
  by (auto simp: cc_param_def split: if_splits list.splits)

function cc_scan :: "bytes \<Rightarrow> u32 \<Rightarrow> u32 \<Rightarrow> u32 option" where
  "cc_scan [] c code = None"
| "cc_scan (b # p) c code =
     (let type = drop_bit 6 (ucast b); n = ucast b AND 0x3f in
      case cc_run_len n p of
        None \<Rightarrow> None
      | Some (n, p) \<Rightarrow>
          (case cc_param type p of
             None \<Rightarrow> None
           | Some (x, p) \<Rightarrow>
               let c1 = code + n + 1 in
               if c < c1 then Some (cc_value type x c code) else cc_scan p c c1))"
  by pat_completeness auto
termination
  by (relation "measure (\<lambda>(p, c, code). length p)")
    (auto dest!: cc_run_len_decreases cc_param_decreases)

definition unicode_get_cc :: "u32 \<Rightarrow> u32 option" where
  "unicode_get_cc c =
     (case get_index_pos c unicode_cc_index (length unicode_cc_index div 3) of
        None \<Rightarrow> Some 0
      | Some (pos, code) \<Rightarrow> cc_scan (drop pos unicode_cc_table) c code)"

section \<open>Canonical ordering\<close>

text \<open>
  The callers of \<open>unicode_get_cc\<close> use its value; \<open>get_cc_total\<close> below shows there always is one. The
  loops of \<open>sort_cc\<close> are, from the inside, \<open>sort_cc_shift\<close> (over \<open>k\<close>, kept one higher so that it stays
  a natural number), \<open>sort_cc_run\<close> (over \<open>j\<close>) and \<open>sort_cc_loop\<close> (over \<open>i\<close>).
\<close>

definition cc_class :: "u32 \<Rightarrow> u32" where
  "cc_class c = the (unicode_get_cc c)"

fun sort_cc_shift :: "u32 list \<Rightarrow> nat \<Rightarrow> nat \<Rightarrow> u32 \<Rightarrow> u32 list \<times> nat" where
  "sort_cc_shift arr start 0 cc1 = (arr, 0)"
| "sort_cc_shift arr start (Suc k) cc1 =
     (if k \<ge> start then
        if cc_class (arr ! k) \<le> cc1 then (arr, Suc k)
        else sort_cc_shift (arr[Suc k := arr ! k]) start k cc1
      else (arr, Suc k))"

function sort_cc_run :: "u32 list \<Rightarrow> nat \<Rightarrow> nat \<Rightarrow> nat \<Rightarrow> u32 list \<times> nat" where
  "sort_cc_run arr len start j =
     (if j < len then
        let ch1 = arr ! j; cc1 = cc_class ch1 in
        if cc1 = 0 then (arr, j)
        else case sort_cc_shift arr start j cc1 of
               (arr, k1) \<Rightarrow> sort_cc_run (arr[k1 := ch1]) len start (j + 1)
      else (arr, j))"
  by pat_completeness auto
termination by (relation "measure (\<lambda>(arr, len, start, j). len - j)") auto

declare sort_cc_run.simps [simp del]

lemma sort_cc_run_ge: "sort_cc_run arr len start j = (arr', j') \<Longrightarrow> j \<le> j'"
proof (induction arr len start j arbitrary: arr' j' rule: sort_cc_run.induct)
  case (1 arr len start j)
  show ?case
  proof (cases "j < len \<and> cc_class (arr ! j) \<noteq> 0")
    case True
    obtain b k where s: "sort_cc_shift arr start j (cc_class (arr ! j)) = (b, k)" by (metis surj_pair)
    then have "sort_cc_run (b[k := arr ! j]) len start (j + 1) = (arr', j')"
      using "1.prems" True by (subst (asm) sort_cc_run.simps) (simp add: Let_def)
    then show ?thesis using "1.IH" [OF _ refl refl _ s [symmetric]] True by fastforce
  next
    case False
    then show ?thesis using "1.prems" by (subst (asm) sort_cc_run.simps) (auto simp: Let_def split: if_splits)
  qed
qed

function sort_cc_loop :: "u32 list \<Rightarrow> nat \<Rightarrow> nat \<Rightarrow> u32 list" where
  "sort_cc_loop arr len i =
     (if i < len then
        if cc_class (arr ! i) \<noteq> 0 then
          case sort_cc_run arr len i (i + 1) of (arr, j) \<Rightarrow> sort_cc_loop arr len (j + 1)
        else sort_cc_loop arr len (i + 1)
      else arr)"
  by pat_completeness auto
termination
  by (relation "measure (\<lambda>(arr, len, i). len - i)") (auto dest!: sort_cc_run_ge [OF sym])

declare sort_cc_loop.simps [simp del]

definition sort_cc :: "u32 list \<Rightarrow> nat \<Rightarrow> u32 list" where
  "sort_cc arr len = sort_cc_loop arr len 0"

section \<open>Normalization\<close>

definition is_hangul_syllable :: "u32 \<Rightarrow> bool" where
  "is_hangul_syllable c \<longleftrightarrow> c \<ge> 0xac00 \<and> c < 0xd7a4"

definition hangul_decomp :: "u32 \<Rightarrow> u32 list" where
  "hangul_decomp c =
     (let c = c - 0xac00; v = c mod 28 in
      [0x1100 + c div 588, 0x1161 + c mod 588 div 28] @ (if v \<noteq> 0 then [0x11a7 + v] else []))"

definition dbuf_put_u32s :: "dynbuf \<Rightarrow> u32 list \<Rightarrow> dynbuf" where
  "dbuf_put_u32s s cs = foldl (\<lambda>s c. fst (dbuf_put_u32 s c)) s cs"

text \<open>
  The recursion of \<open>to_nfd_rec\<close> ends because of what is in the tables, not because of its shape; not to
  return is the value \<open>None\<close>, as is a read outside a table.
\<close>

partial_function (option) to_nfd_rec :: "dynbuf \<Rightarrow> u32 list \<Rightarrow> bool \<Rightarrow> dynbuf option" where
  "to_nfd_rec dbuf src is_compat =
     (case src of
        [] \<Rightarrow> Some dbuf
      | c # src \<Rightarrow>
          if is_hangul_syllable c then to_nfd_rec (dbuf_put_u32s dbuf (hangul_decomp c)) src is_compat
          else
            Option.bind (unicode_decomp_char c is_compat) (\<lambda>res.
              if res \<noteq> [] then
                Option.bind (to_nfd_rec dbuf res is_compat) (\<lambda>dbuf. to_nfd_rec dbuf src is_compat)
              else to_nfd_rec (fst (dbuf_put_u32 dbuf c)) src is_compat))"

datatype unicode_normalization = UNICODE_NFC | UNICODE_NFD | UNICODE_NFKC | UNICODE_NFKD

datatype starter = Starter nat | Blocked | No_Starter

fun find_starter :: "u32 list \<Rightarrow> nat \<Rightarrow> u32 \<Rightarrow> starter" where
  "find_starter arr 0 last_cc = No_Starter"
| "find_starter arr (Suc starter_pos) last_cc =
     (let cc = cc_class (arr ! starter_pos) in
      if cc = 0 then Starter starter_pos
      else if cc \<ge> last_cc then Blocked
      else find_starter arr starter_pos 256)"

function compose_loop :: "u32 list \<Rightarrow> nat \<Rightarrow> nat \<Rightarrow> nat \<Rightarrow> u32 list option" where
  "compose_loop arr buf_len i out_len =
     (if i < buf_len then
        case find_starter arr out_len (cc_class (arr ! i)) of
          Starter starter_pos \<Rightarrow>
            (case compose_pair (arr ! starter_pos) (arr ! i) of
               None \<Rightarrow> None
             | Some p \<Rightarrow>
                 if p \<noteq> 0 then compose_loop (arr[starter_pos := p]) buf_len (i + 1) out_len
                 else compose_loop (arr[out_len := arr ! i]) buf_len (i + 1) (out_len + 1))
        | _ \<Rightarrow> compose_loop (arr[out_len := arr ! i]) buf_len (i + 1) (out_len + 1)
      else Some (take out_len arr))"
  by pat_completeness auto
termination by (relation "measure (\<lambda>(arr, buf_len, i, out_len). buf_len - i)") auto

declare compose_loop.simps [simp del]

definition int_buf :: "bytes \<Rightarrow> nat \<Rightarrow> u32 list" where
  "int_buf bs n = map (\<lambda>i. get_u32 bs (4 * i)) [0..<n]"

text \<open>
  The result is \<open>None\<close> when the C function has no defined result, \<open>Some None\<close> for the return code -1
  and \<open>Some (Some dst)\<close> for the normalized string.
\<close>

definition unicode_normalize ::
  "u32 list \<Rightarrow> unicode_normalization \<Rightarrow> (nat \<Rightarrow> nat \<Rightarrow> bool) \<Rightarrow> u8 \<Rightarrow> nat \<Rightarrow> u8 realloc_fun option \<Rightarrow> u32 list option option" where
  "unicode_normalize src n_type grants fill op rf =
     (let is_compat = (n_type = UNICODE_NFKC \<or> n_type = UNICODE_NFKD);
          dbuf = dbuf_init2 grants fill op rf;
          (dbuf, r) = dbuf_realloc dbuf (4 * length src)
      in if r \<noteq> 0 then Some None
         else if n_type = UNICODE_NFC \<and> list_all (\<lambda>c. c < 0x100) src then Some (Some src)
         else
           case to_nfd_rec dbuf src is_compat of
             None \<Rightarrow> None
           | Some dbuf \<Rightarrow>
               if dbuf_error dbuf then Some None
               else
                 let buf_len = dbuf_size dbuf div 4;
                     arr = sort_cc (int_buf (buf dbuf) buf_len) buf_len
                 in if buf_len \<le> 1 \<or> n_type = UNICODE_NFD \<or> n_type = UNICODE_NFKD then Some (Some arr)
                    else map_option Some (compose_loop arr buf_len 1 1))"

end
