(* ===== verification/UnicodeNormOrder.thy ===== *)
theory UnicodeNormOrder
  imports UnicodeNorm
begin

text \<open>
  Combining classes and canonical ordering: the class of every code point is found inside the table and is
  a byte, and \<open>sort_cc\<close> computes the canonical ordering, a stable sort by class of each maximal run of
  non-starters.
\<close>

section \<open>Every code point has a combining class\<close>

text \<open>The run lengths of a part of the table; runs with ascending classes must stay below 256.\<close>

function cc_runs :: "bytes \<Rightarrow> nat list option" where
  "cc_runs [] = Some []"
| "cc_runs (b # p) =
     (let type = drop_bit 6 (ucast b) in
      case cc_run_len (ucast b AND 0x3f) p of
        None \<Rightarrow> None
      | Some (n, p) \<Rightarrow>
          (case cc_param type p of
             None \<Rightarrow> None
           | Some (x, p) \<Rightarrow>
               if type = 1 \<and> 256 \<le> unat x + unat n then None
               else map_option ((#) (unat n + 1)) (cc_runs p)))"
  by pat_completeness auto
termination
  by (relation "measure length") (auto dest!: cc_run_len_decreases cc_param_decreases)

lemma cc_run_len_append: "cc_run_len n p = Some (m, q) \<Longrightarrow> cc_run_len n (p @ ys) = Some (m, q @ ys)"
  by (auto simp: cc_run_len_def split: if_splits list.splits)

lemma cc_param_append: "cc_param ty p = Some (x, q) \<Longrightarrow> cc_param ty (p @ ys) = Some (x, q @ ys)"
  by (auto simp: cc_param_def split: if_splits list.splits)

lemma cc_runs_Cons:
  assumes "cc_runs (b # p) = Some rs"
  obtains n q x q' rs' where "cc_run_len (ucast b AND 0x3f) p = Some (n, q)"
    "cc_param (drop_bit 6 (ucast b)) q = Some (x, q')" "cc_runs q' = Some rs'" "rs = (unat n + 1) # rs'"
    "drop_bit 6 (ucast b :: u32) = 1 \<longrightarrow> unat x + unat n < 256"
  using assms by (auto simp: Let_def not_le split: option.splits if_splits)

lemma cc_runs_append:
  "cc_runs xs = Some rs \<Longrightarrow> cc_runs ys = Some rs' \<Longrightarrow> cc_runs (xs @ ys) = Some (rs @ rs')"
proof (induction xs arbitrary: rs rule: cc_runs.induct)
  case (2 b p)
  from 2(2) obtain n q x q' rs'' where r: "cc_run_len (ucast b AND 0x3f) p = Some (n, q)"
    "cc_param (drop_bit 6 (ucast b)) q = Some (x, q')" "cc_runs q' = Some rs''" "rs = (unat n + 1) # rs''"
    "drop_bit 6 (ucast b :: u32) = 1 \<longrightarrow> unat x + unat n < 256"
    by (rule cc_runs_Cons)
  have "cc_runs (q' @ ys) = Some (rs'' @ rs')" using r 2(3) by (intro 2(1)) auto
  then show ?case
    using r cc_run_len_append [OF r(1), of ys] cc_param_append [OF r(2), of ys] by (auto simp: Let_def)
qed auto

interpretation cc_index: indexed_runs cc_runs "\<lambda>_. True"
  by unfold_locales (auto intro: cc_runs_append)

lemma cc_value_bound:
  assumes "drop_bit 6 (ucast b :: u32) = 1 \<longrightarrow> unat x + unat n < 256" "unat code \<le> unat c" "unat c \<le> unat code + unat n"
  shows "unat (cc_value (drop_bit 6 (ucast (b :: u8))) x c code) < 256"
proof -
  have x: "unat x < 256" by (rule unat_byte)
  have "unat (ucast x + c - code :: u32) = unat x + (unat c - unat code)" if "unat x + unat n < 256"
  proof -
    have d: "unat (c - code) = unat c - unat code" using assms(2) by (simp add: unat_sub word_le_nat_alt)
    have "unat (ucast x + (c - code) :: u32) = unat x + (unat c - unat code)"
      using that assms(3) by (subst unat_word_ariths) (simp add: d unat_ucast_small)
    then show ?thesis by (simp add: algebra_simps)
  qed
  then show ?thesis using assms x by (auto simp: cc_value_def unat_ucast_small)
qed

lemma cc_scan_runs:
  "cc_runs xs = Some rs \<Longrightarrow> unat code \<le> unat c \<Longrightarrow> unat c < unat code + sum_list rs \<Longrightarrow>
   unat code + sum_list rs < 2 ^ 32 \<Longrightarrow> \<exists>v. cc_scan xs c code = Some v \<and> unat v < 256"
proof (induction xs c code arbitrary: rs rule: cc_scan.induct)
  case (2 b p c code)
  from 2(2) obtain n q x q' rs' where r: "cc_run_len (ucast b AND 0x3f) p = Some (n, q)"
    "cc_param (drop_bit 6 (ucast b)) q = Some (x, q')" "cc_runs q' = Some rs'" "rs = (unat n + 1) # rs'"
    "drop_bit 6 (ucast b :: u32) = 1 \<longrightarrow> unat x + unat n < 256"
    by (rule cc_runs_Cons)
  have c1: "unat (code + n + 1) = unat code + unat n + 1"
    using 2(5) r(4) by (simp add: unat_word_ariths)
  show ?case
  proof (cases "c < code + n + 1")
    case True
    then have "unat c \<le> unat code + unat n" using c1 by (simp add: word_less_nat_alt)
    then show ?thesis using True r cc_value_bound [OF r(5) 2(3)] by (simp add: Let_def)
  next
    case False
    then have "\<exists>v. cc_scan q' c (code + n + 1) = Some v \<and> unat v < 256"
      using r c1 2(3-5) by (intro 2(1) [OF refl refl r(1) refl r(2) refl refl]) (auto simp: word_less_nat_alt)
    then show ?thesis using False r by (simp add: Let_def)
  qed
qed simp

lemma two_bits: "\<not> (2 :: u32) \<le> 1" "\<not> (3 :: u32) \<le> 1"
  by (simp_all add: word_le_nat_alt)

lemma cc_index_ok: "index_ok cc_runs (\<lambda>_. True) unicode_cc_table unicode_cc_index"
  by (simp add: index_eval unicode_cc_table_def unicode_cc_index_def cc_run_len_def cc_param_def two_bits)

lemma get_cc_total: "\<exists>v. unicode_get_cc c = Some v \<and> unat v < 256"
proof -
  obtain rs where rs: "cc_runs unicode_cc_table = Some rs" "sum_list rs < 2 ^ 32"
    using cc_index.index_ok_runs [OF cc_index_ok] by blast
  from cc_index.index_lookup [OF cc_index_ok rs(1), of c] show ?thesis
  proof (elim disjE exE conjE)
    fix pos code rs1 rs2
    assume l: "get_index_pos c unicode_cc_index (length unicode_cc_index div 3) = Some (pos, code)"
      "cc_runs (drop pos unicode_cc_table) = Some rs2" "unat code = sum_list rs1" "rs = rs1 @ rs2" "code \<le> c"
      "unat c < sum_list rs"
    then show ?thesis
      using cc_scan_runs [OF l(2), of code c] rs(2) by (simp add: unicode_get_cc_def word_le_nat_alt)
  qed (simp add: unicode_get_cc_def)
qed

lemma cc_class_bound: "unat (cc_class c) < 256"
  using get_cc_total [of c] by (auto simp: cc_class_def)

section \<open>Canonical ordering\<close>

text \<open>The ordering that the Unicode standard defines: starters stay, runs of other characters are sorted.\<close>

abbreviation non_starter :: "u32 \<Rightarrow> bool" where
  "non_starter c \<equiv> cc_class c \<noteq> 0"

function canonical_order :: "u32 list \<Rightarrow> u32 list" where
  "canonical_order [] = []"
| "canonical_order (c # cs) =
     (if non_starter c then
        sort_key cc_class (takeWhile non_starter (c # cs)) @ canonical_order (dropWhile non_starter (c # cs))
      else c # canonical_order cs)"
  by pat_completeness auto
termination by (relation "measure length") (auto simp: le_imp_less_Suc length_dropWhile_le)

lemma sort_key_snoc:
  fixes f :: "'a \<Rightarrow> 'b :: linorder"
  shows "sort_key f (xs @ [x]) =
    takeWhile (\<lambda>y. f y \<le> f x) (sort_key f xs) @ x # dropWhile (\<lambda>y. f y \<le> f x) (sort_key f xs)"
    (is "_ = takeWhile ?P ?s @ x # dropWhile ?P ?s")
proof (rule properties_for_sort_key)
  have s: "takeWhile ?P ?s @ dropWhile ?P ?s = ?s" by (rule takeWhile_dropWhile_id)
  have "mset (takeWhile ?P ?s) + mset (dropWhile ?P ?s) = mset ?s" by (metis s mset_append)
  then show "mset (takeWhile ?P ?s @ x # dropWhile ?P ?s) = mset (xs @ [x])" by simp
  have sorted: "sorted (map f ?s)" by simp
  have gt: "f x < f y" if y: "y \<in> set (dropWhile ?P ?s)" for y
  proof -
    obtain z zs where z: "dropWhile ?P ?s = z # zs"
      using y by (cases rule: list.set_cases) blast+
    then have "f x < f z" using hd_dropWhile [of ?P ?s] by (auto simp: not_le)
    moreover have "sorted (map f (z # zs))" using sorted s z by (metis map_append sorted_append)
    ultimately show ?thesis using y z by auto
  qed
  have stable: "filter (\<lambda>y. f k = f y) ?s = filter (\<lambda>y. f k = f y) xs" for k
    using sort_key_stable [of f "f k" xs] by (simp add: eq_commute [of "f k"])
  show "filter (\<lambda>y. f k = f y) (takeWhile ?P ?s @ x # dropWhile ?P ?s) = filter (\<lambda>y. f k = f y) (xs @ [x])"
    if "k \<in> set (takeWhile ?P ?s @ x # dropWhile ?P ?s)" for k
  proof (cases "f k = f x")
    case True
    then have "filter (\<lambda>y. f k = f y) (dropWhile ?P ?s) = []" using gt by (fastforce simp: filter_empty_conv)
    moreover have "filter (\<lambda>y. f k = f y) ?s = filter (\<lambda>y. f k = f y) xs" by (rule stable)
    moreover have "filter (\<lambda>y. f k = f y) ?s = filter (\<lambda>y. f k = f y) (takeWhile ?P ?s) @ filter (\<lambda>y. f k = f y) (dropWhile ?P ?s)"
      by (metis filter_append s)
    ultimately show ?thesis using True by simp
  next
    case False
    have "filter (\<lambda>y. f k = f y) ?s = filter (\<lambda>y. f k = f y) (takeWhile ?P ?s) @ filter (\<lambda>y. f k = f y) (dropWhile ?P ?s)"
      by (metis filter_append s)
    then show ?thesis using False stable [of k] by simp
  qed
  have "sorted (map f (takeWhile ?P ?s))" "sorted (map f (dropWhile ?P ?s))"
    using sorted s by (metis map_append sorted_append)+
  moreover have "f y \<le> f x" if "y \<in> set (takeWhile ?P ?s)" for y using set_takeWhileD [OF that] by simp
  ultimately show "sorted (map f (takeWhile ?P ?s @ x # dropWhile ?P ?s))"
    using gt by (fastforce simp: sorted_append intro: order.trans less_imp_le)
qed

text \<open>The inner loop inserts behind the elements of lower or equal class.\<close>

lemma sort_cc_shift_inserts:
  "sorted (map cc_class run) \<Longrightarrow>
   sort_cc_shift (pre @ run @ x # post) (length pre) (length pre + length run) cc1 = (arr, k) \<Longrightarrow>
   arr[k := ch] = pre @ takeWhile (\<lambda>y. cc_class y \<le> cc1) run @ ch # dropWhile (\<lambda>y. cc_class y \<le> cc1) run @ post"
proof (induction run arbitrary: x post rule: rev_induct)
  case Nil
  then have "(arr, k) = (pre @ x # post, length pre)" by (cases "length pre") auto
  then show ?case by simp
next
  case (snoc y run)
  have upd: "(pre @ (run @ [y]) @ x # post)[Suc (length pre + length run) := y] = pre @ run @ y # y # post"
    by (simp add: list_update_append)
  show ?case
  proof (cases "cc_class y \<le> cc1")
    case True
    then have "\<forall>z \<in> set (run @ [y]). cc_class z \<le> cc1" using snoc.prems(1) by (auto simp: sorted_append intro: order.trans)
    then have "takeWhile (\<lambda>y. cc_class y \<le> cc1) (run @ [y]) = run @ [y]"
      "dropWhile (\<lambda>y. cc_class y \<le> cc1) (run @ [y]) = []" by (auto simp: takeWhile_eq_all_conv)
    moreover have "(arr, k) = (pre @ (run @ [y]) @ x # post, Suc (length pre + length run))"
      using snoc.prems(2) True by (simp add: nth_append)
    ultimately show ?thesis by (simp add: list_update_append)
  next
    case False
    then have "sort_cc_shift (pre @ run @ y # y # post) (length pre) (length pre + length run) cc1 = (arr, k)"
      using snoc.prems(2) upd by (simp add: nth_append)
    from snoc.IH [OF _ this] snoc.prems(1) False show ?thesis
      by (simp add: sorted_append takeWhile_tail dropWhile_append3)
  qed
qed

lemma sort_cc_run_sorts:
  assumes "len = length pre + length sfx + length rest"
  shows "sort_cc_run (pre @ sort_key cc_class sfx @ rest) len (length pre) (length pre + length sfx) =
    (pre @ sort_key cc_class (sfx @ takeWhile non_starter rest) @ dropWhile non_starter rest,
     length pre + length sfx + length (takeWhile non_starter rest))"
  using assms
proof (induction rest arbitrary: sfx)
  case Nil
  then show ?case by (subst sort_cc_run.simps) simp
next
  case (Cons ch rest)
  let ?arr = "pre @ sort_key cc_class sfx @ ch # rest" and ?j = "length pre + length sfx"
  have at: "?arr ! ?j = ch" using nth_append_length [of "pre @ sort_key cc_class sfx" ch rest] by simp
  show ?case
  proof (cases "non_starter ch")
    case False
    then show ?thesis using at by (subst sort_cc_run.simps) (simp add: Let_def)
  next
    case True
    obtain b k where s: "sort_cc_shift ?arr (length pre) ?j (cc_class ch) = (b, k)" by (metis surj_pair)
    have "b[k := ch] = pre @ sort_key cc_class (sfx @ [ch]) @ rest"
      using sort_cc_shift_inserts [of "sort_key cc_class sfx" pre ch rest "cc_class ch" b k ch] s
      by (simp add: sort_key_snoc)
    moreover have "sort_cc_run ?arr len (length pre) ?j = sort_cc_run (b[k := ch]) len (length pre) (?j + 1)"
      using True at s Cons.prems by (subst sort_cc_run.simps) (simp add: Let_def)
    ultimately show ?thesis using Cons.IH [of "sfx @ [ch]"] Cons.prems True by simp
  qed
qed

lemma sort_cc_loop_sorts:
  "len = length pre + length rest \<Longrightarrow> sort_cc_loop (pre @ rest) len (length pre) = pre @ canonical_order rest"
proof (induction rest arbitrary: pre rule: length_induct)
  case (1 rest)
  show ?case
  proof (cases rest)
    case Nil
    then show ?thesis using 1(2) by (subst sort_cc_loop.simps) simp
  next
    case (Cons c cs)
    show ?thesis
    proof (cases "non_starter c")
      case False
      then have "sort_cc_loop (pre @ rest) len (length pre) = sort_cc_loop ((pre @ [c]) @ cs) len (length (pre @ [c]))"
        using 1(2) Cons by (subst sort_cc_loop.simps) simp
      also have "\<dots> = (pre @ [c]) @ canonical_order cs" using 1 Cons by (intro 1(1) [rule_format]) auto
      finally show ?thesis using Cons False by simp
    next
      case True
      let ?t = "takeWhile non_starter cs" and ?d = "dropWhile non_starter cs"
      let ?p = "pre @ sort_key cc_class (c # ?t)"
      have "sort_cc_run (pre @ rest) len (length pre) (length pre + 1) = (?p @ ?d, length pre + 1 + length ?t)"
        using sort_cc_run_sorts [of len pre "[c]" cs] 1(2) Cons by simp
      then have e: "sort_cc_loop (pre @ rest) len (length pre) = sort_cc_loop (?p @ ?d) len (length pre + 1 + length ?t + 1)"
        using 1(2) Cons True by (subst sort_cc_loop.simps) simp
      have co: "canonical_order rest = sort_key cc_class (c # ?t) @ canonical_order ?d" using Cons True by simp
      have "length cs = length ?t + length ?d" by (metis takeWhile_dropWhile_id length_append)
      then have len: "len = length ?p + length ?d" using 1(2) Cons by simp
      show ?thesis
      proof (cases ?d)
        case Nil
        then have "sort_cc_loop (?p @ ?d) len (length pre + 1 + length ?t + 1) = ?p @ ?d"
          using len unfolding Nil by (subst sort_cc_loop.simps) simp
        then show ?thesis using e co Nil by simp
      next
        case d: (Cons d ds)
        then have "\<not> non_starter d" using hd_dropWhile [of non_starter cs] by auto
        moreover have "length ds < length rest"
          using d Cons length_dropWhile_le [of non_starter cs] by simp
        then have "sort_cc_loop ((?p @ [d]) @ ds) len (length (?p @ [d])) = (?p @ [d]) @ canonical_order ds"
          using len d by (intro 1(1) [rule_format]) auto
        ultimately show ?thesis using e co d by simp
      qed
    qed
  qed
qed

section \<open>Properties\<close>

text \<open>
  Property C33. The combining class of every 32-bit code is found without leaving the table, and is between
  0 and 255 as the comment of \<open>unicode_get_cc\<close> says.
\<close>

theorem unicode_get_cc_bounds: "\<exists>v. unicode_get_cc c = Some v \<and> unat v \<le> 255"
  using get_cc_total [of c] by (auto simp: less_Suc_eq_le)

text \<open>
  Property C32. \<open>sort_cc\<close>, three nested loops that move characters in place, computes the canonical
  ordering: starters keep their places and every maximal run of non-starters between them is sorted
  stably by combining class.
\<close>

theorem sort_cc_canonical: "sort_cc arr (length arr) = canonical_order arr"
  using sort_cc_loop_sorts [of "length arr" "[]" arr] by (simp add: sort_cc_def)

end
