(* ===== verification/UnicodeNormProofs.thy ===== *)
theory UnicodeNormProofs
  imports UnicodeNormOrder
begin

text \<open>
  The decomposition tables: every run of \<open>unicode_decomp_table1\<close> reads only its own slice of
  \<open>unicode_decomp_data\<close>, every decomposition has at most 18 code points and ends after finitely many steps,
  and the composition table is sorted and inverts the decompositions it names.
\<close>

section \<open>A slice of the data is enough\<close>

definition opt_le :: "'a option \<Rightarrow> 'a option \<Rightarrow> bool" where
  "opt_le a b \<longleftrightarrow> a = None \<or> a = b"

lemma opt_le_intros:
  "opt_le a a" "opt_le None b"
  "opt_le a b \<Longrightarrow> (\<And>x. opt_le (f x) (g x)) \<Longrightarrow> opt_le (Option.bind a f) (Option.bind b g)"
  "opt_le a b \<Longrightarrow> opt_le c d \<Longrightarrow> opt_le (if e then a else c) (if e then b else d)"
  unfolding opt_le_def by (simp, simp, (cases a; auto), auto)

lemma if_opt_le: "(e \<Longrightarrow> opt_le a c) \<Longrightarrow> (\<not> e \<Longrightarrow> opt_le b c) \<Longrightarrow> opt_le (if e then a else b) c"
  by simp

lemma opt_leD: "opt_le a b \<Longrightarrow> a = Some x \<Longrightarrow> b = Some x"
  by (auto simp: opt_le_def)

lemma tab_get_le: "opt_le (tab_get s k) (tab_get (s @ r) k)"
  by (simp add: opt_le_def tab_get_def nth_append)

lemma get16_le: "opt_le (unicode_get16 s k) (unicode_get16 (s @ r) k)"
  unfolding unicode_get16_def by (intro opt_le_intros tab_get_le)

lemma short_at_le: "opt_le (short_at s k) (short_at (s @ r) k)"
  unfolding short_at_def by (intro opt_le_intros tab_get_le)

lemma decomp_nonzero_le:
  assumes "\<And>i. i \<in> set is \<Longrightarrow> opt_le (rd i) (rd' i)"
  shows "opt_le (decomp_nonzero rd is res) (decomp_nonzero rd' is res)"
  using assms
proof (induction "is" arbitrary: res)
  case (Cons i "is")
  then show ?case by (auto intro!: opt_le_intros(3,4) intro: opt_le_intros(1))
qed (simp add: opt_le_def)

lemma those_le:
  assumes "\<And>i. opt_le (f i) (g i)"
  shows "opt_le (those (map f is)) (those (map g is))"
proof (induction "is")
  case (Cons i "is")
  then show ?case using assms [of i] by (auto simp: opt_le_def split: option.splits)
qed (simp add: opt_le_def)

lemmas read_le = tab_get_le get16_le short_at_le decomp_nonzero_le those_le

text \<open>The pointer of the upper/lower case pairs, written out.\<close>

lemma decomp_UL_eq:
  "decomp_UL d off type =
     (if type = DECOMP_TYPE_S2_UL then
        Option.bind (short_at (drop (off div 2 * 2) d) 0) (\<lambda>c.
        Option.bind (short_at (drop (1 + off div 2 * 2) d) 0) (\<lambda>y.
          Some [if odd off then unicode_get_lower_simple c else c, y]))
      else
        Option.bind (unicode_get16 (drop (off div 2 * 3) d) 0) (\<lambda>c.
        Option.bind (short_at (drop (2 + off div 2 * 3) d) 0) (\<lambda>y.
          Some [if odd off then unicode_get_lower_simple c else c, y])))"
  by (simp add: decomp_UL_def Let_def)

lemma decomp_L_le: "opt_le (decomp_L s n l) (decomp_L (s @ r) n l)"
  unfolding decomp_L_def Let_def drop_append by (intro read_le)

lemma decomp_LL_le: "opt_le (decomp_LL s n m l) (decomp_LL (s @ r) n m l)"
  unfolding decomp_LL_def Let_def by (intro read_le opt_le_intros)

lemma decomp_S_le: "opt_le (decomp_S s n l) (decomp_S (s @ r) n l)"
  unfolding decomp_S_def Let_def drop_append by (intro read_le)

lemma decomp_I_le: "opt_le (decomp_I s n l p) (decomp_I (s @ r) n l p)"
  unfolding decomp_I_def by (intro read_le opt_le_intros)

lemma decomp_B_le: "opt_le (decomp_B s n l) (decomp_B (s @ r) n l)"
  unfolding decomp_B_def Let_def drop_append by (intro read_le opt_le_intros)

lemma decomp_LS2_le: "opt_le (decomp_LS2 s n) (decomp_LS2 (s @ r) n)"
  unfolding decomp_LS2_def Let_def drop_append by (intro read_le opt_le_intros)

lemma decomp_PAT3_le: "opt_le (decomp_PAT3 s n) (decomp_PAT3 (s @ r) n)"
  unfolding decomp_PAT3_def by (intro read_le opt_le_intros)

lemma decomp_UL_le: "opt_le (decomp_UL s n ty) (decomp_UL (s @ r) n ty)"
  unfolding decomp_UL_eq drop_append by (intro read_le opt_le_intros)

lemmas decomp_le = decomp_L_le decomp_LL_le decomp_S_le decomp_I_le decomp_B_le decomp_LS2_le decomp_PAT3_le decomp_UL_le

lemma decomp_data_entry_le: "opt_le (decomp_data_entry s off len type) (decomp_data_entry (s @ r) off len type)"
  unfolding decomp_data_entry_def Let_def by (intro opt_le_intros(1,4) decomp_le)

section \<open>The walk over the runs\<close>

text \<open>
  \<open>decomp_walk\<close> goes over the runs with their slices and checks that each run's offset is where its slice
  starts, and the condition \<open>P\<close> on the run.
\<close>

fun decomp_walk :: "(u32 \<Rightarrow> u16 \<Rightarrow> bytes \<Rightarrow> bool) \<Rightarrow> u32 list \<Rightarrow> u16 list \<Rightarrow> bytes list \<Rightarrow> nat \<Rightarrow> nat option" where
  "decomp_walk P (v # vs) (t # ts) (s # ss) pos =
     (if (decomp_type v = 0 \<or> unat t = pos) \<and> P v t s then decomp_walk P vs ts ss (pos + length s) else None)"
| "decomp_walk P [] [] [] pos = Some pos"
| "decomp_walk P _ _ _ pos = None"

lemma decomp_walk_append:
  "decomp_walk P vs ts ss pos = Some q \<Longrightarrow>
   decomp_walk P (vs @ vs') (ts @ ts') (ss @ ss') pos = decomp_walk P vs' ts' ss' q"
  by (induction P vs ts ss pos rule: decomp_walk.induct) (auto split: if_splits)

lemma decomp_walk_nth:
  "decomp_walk P vs ts ss pos = Some q \<Longrightarrow> i < length vs \<Longrightarrow>
   i < length ts \<and> i < length ss \<and> P (vs ! i) (ts ! i) (ss ! i) \<and>
   (decomp_type (vs ! i) = 0 \<or> unat (ts ! i) = pos + length (concat (take i ss)))"
proof (induction P vs ts ss pos arbitrary: i rule: decomp_walk.induct)
  case (1 P v vs t ts s ss pos)
  then show ?case by (cases i) (simp_all add: add.assoc split: if_splits)
qed auto

text \<open>
  The rank that makes the recursion of \<open>to_nfd_rec\<close> end: code points in the \<open>inert\<close> intervals have no
  decomposition; otherwise a decomposition goes to lower code points, up to nine that a lower code point
  decomposes to.
\<close>

definition rank_of :: "nat \<Rightarrow> nat" where
  "rank_of c =
     (if c < 0xde0 then (if c < 0x656 then (if c < 0x3aa then (if c < 0x293 then (if c < 0x227 then
      (if c < 0x226 then 2 * c + 1 else 0x3c0) else (if c < 0x228 then 0x3c2 else (if c < 0x292 then 2
      * c + 1 else 0))) else (if c < 0x300 then (if c < 0x2bc then 2 * c + 1 else (if c < 0x2bd then 0
      else 2 * c + 1)) else (if c < 0x329 then 0 else (if c < 0x391 then 2 * c + 1 else 0)))) else (if
      c < 0x3cc then (if c < 0x3c6 then (if c < 0x3b1 then 2 * c + 1 else 0) else (if c < 0x3ca then 2
      * c + 1 else (if c < 0x3cb then 0x720 else 0x760))) else (if c < 0x41a then (if c < 0x413 then 2
      * c + 1 else (if c < 0x419 then 0 else 2 * c + 1)) else (if c < 0x424 then 0 else (if c < 0x627
      then 2 * c + 1 else 0))))) else (if c < 0xb56 then (if c < 0x93c then (if c < 0x6c8 then (if c <
      0x6c7 then 2 * c + 1 else 0) else (if c < 0x6d5 then 2 * c + 1 else (if c < 0x6d6 then 0 else 2
      * c + 1))) else (if c < 0x9d8 then (if c < 0x93d then 0 else (if c < 0x9d7 then 2 * c + 1 else
      0)) else (if c < 0xa38 then 2 * c + 1 else (if c < 0xa3d then 0 else 2 * c + 1)))) else (if c <
      0xc57 then (if c < 0xbd7 then (if c < 0xb58 then 0 else 2 * c + 1) else (if c < 0xbd8 then 0
      else (if c < 0xc56 then 2 * c + 1 else 0))) else (if c < 0xd57 then (if c < 0xcd5 then 2 * c + 1
      else (if c < 0xcd7 then 0 else 2 * c + 1)) else (if c < 0xd58 then 0 else (if c < 0xddf then 2 *
      c + 1 else 0)))))) else (if c < 0x21d5 then (if c < 0x102f then (if c < 0xf80 then (if c < 0xe4e
      then (if c < 0xe4d then 2 * c + 1 else 0) else (if c < 0xecd then 2 * c + 1 else (if c < 0xece
      then 0 else 2 * c + 1))) else (if c < 0xfb2 then (if c < 0xf81 then 0 else (if c < 0xf82 then
      0x1eee else 2 * c + 1)) else (if c < 0xfb8 then 0 else (if c < 0x102e then 2 * c + 1 else 0))))
      else (if c < 0x2002 then (if c < 0x1b36 then (if c < 0x1b35 then 2 * c + 1 else 0) else (if c <
      0x1ffe then 2 * c + 1 else (if c < 0x1fff then 0x3fba else 2 * c + 1))) else (if c < 0x2044 then
      (if c < 0x2003 then 0x4000 else (if c < 0x2004 then 0x4002 else 2 * c + 1)) else (if c < 0x2045
      then 0 else (if c < 0x21d0 then 2 * c + 1 else 0))))) else (if c < 0xfb49 then (if c < 0x3008
      then (if c < 0x2213 then (if c < 0x2211 then 2 * c + 1 else 0) else (if c < 0x2add then 2 * c +
      1 else (if c < 0x2ade then 0 else 2 * c + 1))) else (if c < 0x309b then (if c < 0x300a then 0
      else (if c < 0x3099 then 2 * c + 1 else 0)) else (if c < 0x4e00 then 2 * c + 1 else (if c <
      0x9fa1 then 0 else 2 * c + 1)))) else (if c < 0x11357 then (if c < 0x110bb then (if c < 0xfb4a
      then 0x1f658 else (if c < 0x110ba then 2 * c + 1 else 0)) else (if c < 0x11131 then 2 * c + 1
      else (if c < 0x11133 then 0 else 2 * c + 1))) else (if c < 0x1d173 then (if c < 0x11358 then 0
      else (if c < 0x1d165 then 2 * c + 1 else 0)) else (if c < 0x22844 then 2 * c + 1 else (if c <
      0x27ed4 then 0 else 2 * c + 1)))))))"

fun ranks_below :: "nat \<Rightarrow> u32 list \<Rightarrow> bool" where
  "ranks_below k [] = True"
| "ranks_below k (r # rs) = (rank_of (unat r) < k \<and> ranks_below k rs)"

fun entry_ok :: "nat \<Rightarrow> u32 list option \<Rightarrow> bool" where
  "entry_ok k None = False"
| "entry_ok k (Some rs) = (length rs \<le> 18 \<and> ranks_below k rs)"

lemma entry_okD: "entry_ok k x \<Longrightarrow> \<exists>rs. x = Some rs \<and> length rs \<le> 18 \<and> (\<forall>r \<in> set rs. rank_of (unat r) < k)"
proof -
  have "ranks_below k rs \<longleftrightarrow> (\<forall>r \<in> set rs. rank_of (unat r) < k)" for rs by (induction rs) auto
  then show "entry_ok k x \<Longrightarrow> ?thesis" by (cases x) auto
qed

text \<open>
  A decomposition reads only a few bytes of the slice. \<open>local_entry\<close> first takes these bytes and then
  decomposes from them, which keeps the evaluation of the tables linear.
\<close>

definition LL_window :: "bytes \<Rightarrow> nat \<Rightarrow> nat \<Rightarrow> nat \<Rightarrow> bytes" where
  "LL_window s len l g =
     (let lows = take (min 8 (2 * l * len - 8 * g)) (drop (8 * g) s) in
      lows @ take (8 - length lows) [0, 0, 0, 0, 0, 0, 0, 0] @ take 1 (drop (2 * l * len + g) s))"

definition local_entry :: "bytes \<Rightarrow> nat \<Rightarrow> nat \<Rightarrow> nat \<Rightarrow> u32 list option" where
  "local_entry s off len type =
     (if 1 \<le> type \<and> type \<le> 7 then decomp_L (take (2 * type) (drop (off * type * 2) s)) 0 type
      else if type = 8 then decomp_LL (LL_window s len 1 (off div 4)) (off mod 4) 4 1
      else if type = 9 then decomp_LL (LL_window s len 2 (off div 2)) (off mod 2) 2 2
      else if 10 \<le> type \<and> type \<le> 14 then decomp_S (take (type - 9) (drop (off * (type - 9)) s)) 0 (type - 9)
      else if 22 \<le> type \<and> type \<le> 29 then
        decomp_B (take 2 s @ take (type - 21) (drop (2 + off * (type - 21)) s)) 0 (type - 21)
      else if type = 30 then decomp_B (take 2 s @ take 18 (drop (2 + off * 18) s)) 0 18
      else if type = 31 then decomp_LS2 (take 3 (drop (off * 3) s)) 0
      else if type = 32 then decomp_PAT3 (take 4 s @ take 2 (drop (4 + off * 2) s)) 0
      else if type = 33 then decomp_UL (take 2 (drop (off div 2 * 2) s)) (off mod 2) 33
      else if type = 34 then decomp_UL (take 3 (drop (off div 2 * 3) s)) (off mod 2) 34
      else decomp_data_entry s (of_nat off) (of_nat len) type)"

lemma local_prefix:
  "opt_le (decomp_L (take n (drop (off * l * 2) s)) 0 l) (decomp_L s off l)"
  "opt_le (decomp_S (take n (drop (off * l) s)) 0 l) (decomp_S s off l)"
  "opt_le (decomp_LS2 (take n (drop (off * 3) s)) 0) (decomp_LS2 s off)"
  "opt_le (decomp_UL (take n (drop (off div 2 * 2) s)) (off mod 2) 33) (decomp_UL s off 33)"
  "opt_le (decomp_UL (take n (drop (off div 2 * 3) s)) (off mod 2) 34) (decomp_UL s off 34)"
proof -
  show "opt_le (decomp_L (take n (drop (off * l * 2) s)) 0 l) (decomp_L s off l)"
    using decomp_L_le [of "take n (drop (off * l * 2) s)" 0 l "drop n (drop (off * l * 2) s)"]
    by (simp only: append_take_drop_id) (simp add: decomp_L_def)
  show "opt_le (decomp_S (take n (drop (off * l) s)) 0 l) (decomp_S s off l)"
    using decomp_S_le [of "take n (drop (off * l) s)" 0 l "drop n (drop (off * l) s)"]
    by (simp only: append_take_drop_id) (simp add: decomp_S_def)
  show "opt_le (decomp_LS2 (take n (drop (off * 3) s)) 0) (decomp_LS2 s off)"
    using decomp_LS2_le [of "take n (drop (off * 3) s)" 0 "drop n (drop (off * 3) s)"]
    by (simp only: append_take_drop_id) (simp add: decomp_LS2_def)
  show "opt_le (decomp_UL (take n (drop (off div 2 * 2) s)) (off mod 2) 33) (decomp_UL s off 33)"
    using decomp_UL_le [of "take n (drop (off div 2 * 2) s)" "off mod 2" 33 "drop n (drop (off div 2 * 2) s)"]
    by (simp only: append_take_drop_id) (simp add: decomp_UL_eq odd_iff_mod_2_eq_one)
  show "opt_le (decomp_UL (take n (drop (off div 2 * 3) s)) (off mod 2) 34) (decomp_UL s off 34)"
    using decomp_UL_le [of "take n (drop (off div 2 * 3) s)" "off mod 2" 34 "drop n (drop (off div 2 * 3) s)"]
    by (simp only: append_take_drop_id) (simp add: decomp_UL_eq odd_iff_mod_2_eq_one)
qed

lemma tab_get_headed: "h \<le> length s \<Longrightarrow> k < h \<Longrightarrow> tab_get (take h s @ r) k = tab_get s k"
  by (simp add: tab_get_def nth_append)

lemma tab_get_window:
  "h \<le> length s \<Longrightarrow> opt_le (tab_get (take h s @ take n (drop (h + o') s)) (h + k)) (tab_get s (h + (o' + k)))"
  by (auto simp: tab_get_def opt_le_def nth_append add.assoc)

lemma local_headed:
  assumes "2 \<le> length s"
  shows "opt_le (decomp_B (take 2 s @ take n (drop (2 + off * l) s)) 0 l) (decomp_B s off l)"
proof -
  have "opt_le (tab_get (take 2 s @ take n (drop (2 + off * l) s)) (2 + i)) (tab_get s (2 + off * l + i))" for i
    using tab_get_window [OF assms, of n "off * l" i] by (simp add: add.assoc)
  moreover have "unicode_get16 (take 2 s @ take n (drop (2 + off * l) s)) 0 = unicode_get16 s 0"
    using assms by (simp add: unicode_get16_def tab_get_headed)
  moreover have "tab_get (drop a d) i = tab_get d (a + i)" for a i and d :: bytes
    by (auto simp: tab_get_def)
  ultimately show ?thesis
    unfolding decomp_B_def Let_def by (auto intro!: opt_le_intros(3) those_le intro: opt_le_intros(1) simp del: drop_append)
qed

lemma local_PAT3:
  assumes "4 \<le> length s"
  shows "opt_le (decomp_PAT3 (take 4 s @ take 2 (drop (4 + off * 2) s)) 0) (decomp_PAT3 s off)"
proof -
  let ?w = "take 4 s @ take 2 (drop (4 + off * 2) s)"
  have "opt_le (tab_get ?w (4 + i)) (tab_get s (4 + off * 2 + i))" for i
    using tab_get_window [OF assms, of 2 "off * 2" i] by (simp add: add.assoc)
  from this [of 0] this [of 1] have "opt_le (unicode_get16 ?w 4) (unicode_get16 s (4 + off * 2))"
    unfolding unicode_get16_def by (auto intro!: opt_le_intros(3) intro: opt_le_intros(1))
  moreover have "unicode_get16 ?w 0 = unicode_get16 s 0" "unicode_get16 ?w 2 = unicode_get16 s 2"
    using assms by (simp_all add: unicode_get16_def tab_get_headed)
  ultimately show ?thesis
    unfolding decomp_PAT3_def by (auto intro!: opt_le_intros(3) intro: opt_le_intros(1))
qed

lemma local_LL:
  assumes "l = 1 \<and> m = 4 \<or> l = 2 \<and> m = 2" "off < len" "2 * l * len \<le> length s"
  shows "opt_le (decomp_LL (LL_window s len l (off div m)) (off mod m) m l) (decomp_LL s off len l)"
proof -
  let ?g = "off div m" and ?w = "LL_window s len l (off div m)"
  have rd: "opt_le
     (Option.bind (unicode_get16 ?w (2 * (off mod m * l + i))) (\<lambda>c1.
      Option.bind (tab_get ?w (m * l * 2 + (off mod m * l + i) div 4)) (\<lambda>h.
        Some (c1 OR push_bit 16 (drop_bit ((off mod m * l + i) mod 4 * 2) (ucast h) AND 3)))))
     (Option.bind (unicode_get16 s (2 * (off * l + i))) (\<lambda>c1.
      Option.bind (tab_get s (len * l * 2 + (off * l + i) div 4)) (\<lambda>h.
        Some (c1 OR push_bit 16 (drop_bit ((off * l + i) mod 4 * 2) (ucast h) AND 3)))))" if i: "i < l" for i
  proof -
    define r where "r = off mod m * l + i"
    have e: "off * l + i = 4 * ?g + r" and r: "r < 4" and ml: "m * l * 2 = 8"
      using assms(1) i mod_less_divisor [of m off] div_mult_mod_eq [of off 2] div_mult_mod_eq [of off 4]
      unfolding r_def by (elim disjE conjE; hypsubst; linarith)+
    have k: "8 * ?g + 2 * r + 1 < 2 * l * len"
      using e i assms(1,2) by (auto simp: algebra_simps)
    have n: "length (take (min 8 (2 * l * len - 8 * ?g)) (drop (8 * ?g) s)) = min 8 (2 * l * len - 8 * ?g)"
      using assms(3) by auto
    have lo: "tab_get ?w j = tab_get s (8 * ?g + j)" if "j \<le> 2 * r + 1" for j
      using that k r assms(3) n by (auto simp: LL_window_def Let_def tab_get_def nth_append)
    have "opt_le (tab_get ?w 8) (tab_get s (2 * l * len + ?g))"
      using n by (auto simp: LL_window_def Let_def tab_get_def opt_le_def nth_append)
    moreover have "unicode_get16 ?w (2 * r) = unicode_get16 s (2 * (4 * ?g + r))"
      using lo [of "2 * r"] lo [of "2 * r + 1"] by (simp add: unicode_get16_def algebra_simps)
    moreover have "(4 * ?g + r) div 4 = ?g" "(4 * ?g + r) mod 4 = r" "r div 4 = 0" "r mod 4 = r" using r by auto
    ultimately show ?thesis
      unfolding e ml r_def [symmetric]
      by (auto intro!: opt_le_intros(3) intro: opt_le_intros(1) simp: algebra_simps)
  qed
  show ?thesis
    unfolding decomp_LL_def Let_def by (rule decomp_nonzero_le) (use rd in auto)
qed

definition local_ok :: "bytes \<Rightarrow> nat \<Rightarrow> nat \<Rightarrow> bool" where
  "local_ok s len type \<longleftrightarrow>
     (if type = 8 then 2 * len \<le> length s else if type = 9 then 4 * len \<le> length s
      else if 22 \<le> type \<and> type \<le> 30 then 2 \<le> length s else type = 32 \<longrightarrow> 4 \<le> length s)"

lemma local_entry_le:
  assumes "local_ok s (unat len) type" "off < unat len"
  shows "opt_le (local_entry s off (unat len) type) (decomp_data_entry s (of_nat off) len type)"
proof -
  have "off < 2 ^ 32" using assms(2) unsigned_less [of len, where ?'a = nat] by simp
  then have u: "unat (of_nat off :: u32) = off" by (simp add: unat_of_nat)
  have two: "Suc (Suc 0) = 2" "10 \<le> type \<Longrightarrow> Suc (type - 10) = type - 9" "22 \<le> type \<Longrightarrow> Suc (type - 22) = type - 21"
    by simp_all
  have D: "1 \<le> type \<Longrightarrow> type \<le> 7 \<Longrightarrow> decomp_data_entry s (of_nat off) len type = decomp_L s off type"
    "decomp_data_entry s (of_nat off) len 8 = decomp_LL s off (unat len) 1"
    "decomp_data_entry s (of_nat off) len 9 = decomp_LL s off (unat len) 2"
    "10 \<le> type \<Longrightarrow> type \<le> 14 \<Longrightarrow> decomp_data_entry s (of_nat off) len type = decomp_S s off (type - 9)"
    "22 \<le> type \<Longrightarrow> type \<le> 29 \<Longrightarrow> decomp_data_entry s (of_nat off) len type = decomp_B s off (type - 21)"
    "decomp_data_entry s (of_nat off) len 30 = decomp_B s off 18"
    "decomp_data_entry s (of_nat off) len 31 = decomp_LS2 s off"
    "decomp_data_entry s (of_nat off) len 32 = decomp_PAT3 s off"
    "decomp_data_entry s (of_nat off) len 33 = decomp_UL s off 33"
    "decomp_data_entry s (of_nat off) len 34 = decomp_UL s off 34"
    by (simp_all add: decomp_data_entry_def u two)
  have ok: "type = 8 \<Longrightarrow> 2 * 1 * unat len \<le> length s" "type = 9 \<Longrightarrow> 2 * 2 * unat len \<le> length s"
    "22 \<le> type \<Longrightarrow> type \<le> 30 \<Longrightarrow> 2 \<le> length s" "type = 32 \<Longrightarrow> 4 \<le> length s"
    using assms(1) by (auto simp: local_ok_def split: if_splits)
  have LL: "opt_le (decomp_LL (LL_window s (unat len) 1 (off div 4)) (off mod 4) 4 1) (decomp_LL s off (unat len) 1)" if "type = 8"
    using ok(1) that by (intro local_LL assms(2)) auto
  have LL': "opt_le (decomp_LL (LL_window s (unat len) 2 (off div 2)) (off mod 2) 2 2) (decomp_LL s off (unat len) 2)" if "type = 9"
    using ok(2) that by (intro local_LL assms(2)) auto
  show ?thesis
    unfolding local_entry_def
    by (intro if_opt_le) (auto simp: D ok local_prefix local_headed local_PAT3 opt_le_intros(1) intro: LL LL'
      simp del: add_2_eq_Suc add_2_eq_Suc' One_nat_def drop_drop)
qed

function entries_ok :: "bytes \<Rightarrow> u16 \<Rightarrow> nat \<Rightarrow> nat \<Rightarrow> nat \<Rightarrow> nat \<Rightarrow> bool" where
  "entries_ok s t len type code off =
     (if off < len then
        entry_ok (rank_of (code + off)) (if type = 0 then Some [ucast t] else local_entry s off len type) \<and>
        entries_ok s t len type code (off + 1)
      else True)"
  by pat_completeness auto
termination by (relation "measure (\<lambda>(s, t, len, type, code, off). len - off)") auto

declare entries_ok.simps [simp del]

definition run_ok :: "u32 \<Rightarrow> u16 \<Rightarrow> bytes \<Rightarrow> bool" where
  "run_ok v t s \<longleftrightarrow>
     local_ok s (unat (run_len 18 v)) (decomp_type v) \<and>
     entries_ok s t (unat (run_len 18 v)) (decomp_type v) (unat (run_code 18 v)) 0"

text \<open>Evaluation, one byte pattern per type of run.\<close>

fun until_zero :: "u32 option list \<Rightarrow> u32 list \<Rightarrow> u32 list option" where
  "until_zero [] res = Some res"
| "until_zero (None # xs) res = None"
| "until_zero (Some x # xs) res = (if x = 0 then Some [] else until_zero xs (res @ [x]))"

definition w16 :: "u8 \<Rightarrow> u8 \<Rightarrow> u32" where
  "w16 a b = ucast a OR push_bit 8 (ucast b)"

definition short8 :: "u8 \<Rightarrow> u32 option" where
  "short8 a = unicode_get_short_code (ucast a)"

definition w18 :: "u8 \<Rightarrow> u8 \<Rightarrow> u8 \<Rightarrow> nat \<Rightarrow> u32" where
  "w18 a b h n = w16 a b OR push_bit 16 (drop_bit n (ucast h) AND 3)"

definition based :: "u32 \<Rightarrow> u8 \<Rightarrow> u32" where
  "based c_min c1 = (if c1 = 0xff then 0x20 else ucast c1 + c_min)"

lemmas window_defs =
  decomp_L_def decomp_LL_def decomp_S_def decomp_I_def decomp_B_def decomp_LS2_def decomp_PAT3_def decomp_UL_eq
  unicode_get16_def short_at_def tab_get_def upt_rec w16_def w18_def short8_def based_def

lemma window_eval:
  "decomp_L [a, b] 0 (Suc 0) = until_zero [Some (w16 a b)] []"
  "decomp_L [a, b, c, d] 0 2 = until_zero [Some (w16 a b), Some (w16 c d)] []"
  "decomp_L [a, b, c, d, e, f] 0 3 = until_zero [Some (w16 a b), Some (w16 c d), Some (w16 e f)] []"
  "decomp_L [a, b, c, d, e, f, g, h] 0 4 = until_zero [Some (w16 a b), Some (w16 c d), Some (w16 e f), Some (w16 g h)] []"
  "decomp_L [a, b, c, d, e, f, g, h, i, j, k, l] 0 6 = until_zero [Some (w16 a b), Some (w16 c d), Some (w16 e f), Some (w16 g h), Some (w16 i j), Some (w16 k l)] []"
  "decomp_L [a, b, c, d, e, f, g, h, i, j, k, l, m, n] 0 7 = until_zero [Some (w16 a b), Some (w16 c d), Some (w16 e f), Some (w16 g h), Some (w16 i j), Some (w16 k l), Some (w16 m n)] []"
  "decomp_S [a] 0 (Suc 0) = until_zero [short8 a] []"
  "decomp_S [a, b] 0 2 = until_zero [short8 a, short8 b] []"
  "decomp_S [a, b, c] 0 3 = until_zero [short8 a, short8 b, short8 c] []"
  "decomp_S [a, b, c, d] 0 4 = until_zero [short8 a, short8 b, short8 c, short8 d] []"
  "decomp_S [a, b, c, d, e] 0 5 = until_zero [short8 a, short8 b, short8 c, short8 d, short8 e] []"
  "decomp_LL [a, b, c, d, e, f, g, h, z] 0 4 (Suc 0) = until_zero [Some (w18 a b z 0)] []"
  "decomp_LL [a, b, c, d, e, f, g, h, z] (Suc 0) 4 (Suc 0) = until_zero [Some (w18 c d z 2)] []"
  "decomp_LL [a, b, c, d, e, f, g, h, z] 2 4 (Suc 0) = until_zero [Some (w18 e f z 4)] []"
  "decomp_LL [a, b, c, d, e, f, g, h, z] 3 4 (Suc 0) = until_zero [Some (w18 g h z 6)] []"
  "decomp_LL [a, b, c, d, e, f, g, h, z] 0 2 2 = until_zero [Some (w18 a b z 0), Some (w18 c d z 2)] []"
  "decomp_LL [a, b, c, d, e, f, g, h, z] (Suc 0) 2 2 = until_zero [Some (w18 e f z 4), Some (w18 g h z 6)] []"
  "decomp_I [a, b] x (Suc 0) 0 = Some [w16 a b + x]"
  "decomp_I [a, b, c, d] x 2 0 = Some [w16 a b + x, w16 c d]"
  "decomp_I [a, b, c, d] x 2 (Suc 0) = Some [w16 a b, w16 c d + x]"
  "decomp_I [a, b, c, d, e, f] x 3 (Suc 0) = Some [w16 a b, w16 c d + x, w16 e f]"
  "decomp_I [a, b, c, d, e, f] x 3 2 = Some [w16 a b, w16 c d, w16 e f + x]"
  "decomp_I [a, b, c, d, e, f, g, h] x 4 (Suc 0) = Some [w16 a b, w16 c d + x, w16 e f, w16 g h]"
  "decomp_I [a, b, c, d, e, f, g, h] x 4 2 = Some [w16 a b, w16 c d, w16 e f + x, w16 g h]"
  "decomp_B [a, b, c0] 0 (Suc 0) = Some [based (w16 a b) c0]"
  "decomp_B [a, b, c0, c1] 0 2 = Some [based (w16 a b) c0, based (w16 a b) c1]"
  "decomp_B [a, b, c0, c1, c2] 0 3 = Some [based (w16 a b) c0, based (w16 a b) c1, based (w16 a b) c2]"
  "decomp_B [a, b, c0, c1, c2, c3] 0 4 = Some [based (w16 a b) c0, based (w16 a b) c1, based (w16 a b) c2, based (w16 a b) c3]"
  "decomp_B [a, b, c0, c1, c2, c3, c4] 0 5 = Some [based (w16 a b) c0, based (w16 a b) c1, based (w16 a b) c2, based (w16 a b) c3, based (w16 a b) c4]"
  "decomp_B [a, b, c0, c1, c2, c3, c4, c5] 0 6 = Some [based (w16 a b) c0, based (w16 a b) c1, based (w16 a b) c2, based (w16 a b) c3, based (w16 a b) c4, based (w16 a b) c5]"
  "decomp_B [a, b, c0, c1, c2, c3, c4, c5, c6, c7] 0 8 = Some [based (w16 a b) c0, based (w16 a b) c1, based (w16 a b) c2, based (w16 a b) c3, based (w16 a b) c4, based (w16 a b) c5, based (w16 a b) c6, based (w16 a b) c7]"
  "decomp_B [a, b, c0, c1, c2, c3, c4, c5, c6, c7, c8, c9, c10, c11, c12, c13, c14, c15, c16, c17] 0 18 = Some [based (w16 a b) c0, based (w16 a b) c1, based (w16 a b) c2, based (w16 a b) c3, based (w16 a b) c4, based (w16 a b) c5, based (w16 a b) c6, based (w16 a b) c7, based (w16 a b) c8, based (w16 a b) c9, based (w16 a b) c10, based (w16 a b) c11, based (w16 a b) c12, based (w16 a b) c13, based (w16 a b) c14, based (w16 a b) c15, based (w16 a b) c16, based (w16 a b) c17]"
  "decomp_LS2 [a, b, c] 0 = (if w16 a b = 0 then Some [] else map_option (\<lambda>y. [w16 a b, y]) (short8 c))"
  "decomp_PAT3 [a, b, c, d, e, f] 0 = Some [w16 a b, w16 e f, w16 c d]"
  "decomp_UL [a, b] 0 33 = Option.bind (short8 a) (\<lambda>x. map_option (\<lambda>y. [x, y]) (short8 b))"
  "decomp_UL [a, b] (Suc 0) 33 = Option.bind (short8 a) (\<lambda>x. map_option (\<lambda>y. [unicode_get_lower_simple x, y]) (short8 b))"
  "decomp_UL [a, b, c] 0 34 = map_option (\<lambda>y. [w16 a b, y]) (short8 c)"
  "decomp_UL [a, b, c] (Suc 0) 34 = map_option (\<lambda>y. [unicode_get_lower_simple (w16 a b), y]) (short8 c)"
  by (simp_all add: window_defs split: bind_splits)

lemma local_entry_eval:
  "local_entry s off len (Suc 0) = decomp_L (take 2 (drop (off * 2) s)) 0 1"
  "local_entry s off len 2 = decomp_L (take 4 (drop (off * 4) s)) 0 2"
  "local_entry s off len 3 = decomp_L (take 6 (drop (off * 6) s)) 0 3"
  "local_entry s off len 4 = decomp_L (take 8 (drop (off * 8) s)) 0 4"
  "local_entry s off len 6 = decomp_L (take 12 (drop (off * 12) s)) 0 6"
  "local_entry s off len 7 = decomp_L (take 14 (drop (off * 14) s)) 0 7"
  "local_entry s off len 8 = decomp_LL (LL_window s len 1 (off div 4)) (off mod 4) 4 1"
  "local_entry s off len 9 = decomp_LL (LL_window s len 2 (off div 2)) (off mod 2) 2 2"
  "local_entry s off len 10 = decomp_S (take 1 (drop (off * 1) s)) 0 1"
  "local_entry s off len 11 = decomp_S (take 2 (drop (off * 2) s)) 0 2"
  "local_entry s off len 12 = decomp_S (take 3 (drop (off * 3) s)) 0 3"
  "local_entry s off len 13 = decomp_S (take 4 (drop (off * 4) s)) 0 4"
  "local_entry s off len 14 = decomp_S (take 5 (drop (off * 5) s)) 0 5"
  "local_entry s off len 15 = decomp_I s (of_nat off) 1 0"
  "local_entry s off len 16 = decomp_I s (of_nat off) 2 0"
  "local_entry s off len 17 = decomp_I s (of_nat off) 2 1"
  "local_entry s off len 18 = decomp_I s (of_nat off) 3 1"
  "local_entry s off len 19 = decomp_I s (of_nat off) 3 2"
  "local_entry s off len 20 = decomp_I s (of_nat off) 4 1"
  "local_entry s off len 21 = decomp_I s (of_nat off) 4 2"
  "local_entry s off len 22 = decomp_B (take 2 s @ take 1 (drop (2 + off * 1) s)) 0 1"
  "local_entry s off len 23 = decomp_B (take 2 s @ take 2 (drop (2 + off * 2) s)) 0 2"
  "local_entry s off len 24 = decomp_B (take 2 s @ take 3 (drop (2 + off * 3) s)) 0 3"
  "local_entry s off len 25 = decomp_B (take 2 s @ take 4 (drop (2 + off * 4) s)) 0 4"
  "local_entry s off len 26 = decomp_B (take 2 s @ take 5 (drop (2 + off * 5) s)) 0 5"
  "local_entry s off len 27 = decomp_B (take 2 s @ take 6 (drop (2 + off * 6) s)) 0 6"
  "local_entry s off len 29 = decomp_B (take 2 s @ take 8 (drop (2 + off * 8) s)) 0 8"
  "local_entry s off len 30 = decomp_B (take 2 s @ take 18 (drop (2 + off * 18) s)) 0 18"
  "local_entry s off len 31 = decomp_LS2 (take 3 (drop (off * 3) s)) 0"
  "local_entry s off len 32 = decomp_PAT3 (take 4 s @ take 2 (drop (4 + off * 2) s)) 0"
  "local_entry s off len 33 = decomp_UL (take 2 (drop (off div 2 * 2) s)) (off mod 2) 33"
  "local_entry s off len 34 = decomp_UL (take 3 (drop (off div 2 * 3) s)) (off mod 2) 34"
  by (simp_all add: local_entry_def decomp_data_entry_def mult.assoc) (simp_all add: numeral_2_eq_2)

lemma entries_ok_eval:
  "entries_ok s t len type code 0 =
     (if 0 < len then entry_ok (rank_of code) (if type = 0 then Some [ucast t] else local_entry s 0 len type) \<and>
        entries_ok s t len type code (Suc 0) else True)"
  "entries_ok s t len type code (Suc 0) =
     (if 1 < len then entry_ok (rank_of (code + 1)) (if type = 0 then Some [ucast t] else local_entry s (Suc 0) len type) \<and>
        entries_ok s t len type code 2 else True)"
  "entries_ok s t len type code (numeral n) =
     (if numeral n < len then
        entry_ok (rank_of (code + numeral n)) (if type = 0 then Some [ucast t] else local_entry s (numeral n) len type) \<and>
        entries_ok s t len type code (numeral (n + num.One)) else True)"
  by (subst entries_ok.simps, simp add: numeral_plus_one numeral_2_eq_2)+

lemmas entry_eval =
  local_entry_eval window_eval LL_window_def w16_def w18_def short8_def based_def unicode_get_short_code_def
  unicode_get_lower_simple_def unicode_short_table_def tab_get_def decomp_type_def run_len_def run_code_def Let_def

lemmas table_eval = entry_eval entries_ok_eval run_ok_def local_ok_def rank_of_def

lemma decomp_group_0:
  "decomp_walk run_ok unicode_decomp_table1_0 unicode_decomp_table2_0 decomp_slices_0 0 = Some 620"
  by (simp add: table_eval unicode_decomp_table1_0_def unicode_decomp_table2_0_def decomp_slices_0_def)

lemma decomp_group_1:
  "decomp_walk run_ok unicode_decomp_table1_1 unicode_decomp_table2_1 decomp_slices_1 620 = Some 1177"
  by (simp add: table_eval unicode_decomp_table1_1_def unicode_decomp_table2_1_def decomp_slices_1_def)

lemma decomp_group_2:
  "decomp_walk run_ok unicode_decomp_table1_2 unicode_decomp_table2_2 decomp_slices_2 1177 = Some 1995"
  by (simp add: table_eval unicode_decomp_table1_2_def unicode_decomp_table2_2_def decomp_slices_2_def)

lemma decomp_group_3:
  "decomp_walk run_ok unicode_decomp_table1_3 unicode_decomp_table2_3 decomp_slices_3 1995 = Some 2258"
  by (simp add: table_eval unicode_decomp_table1_3_def unicode_decomp_table2_3_def decomp_slices_3_def)

lemma decomp_group_4:
  "decomp_walk run_ok unicode_decomp_table1_4 unicode_decomp_table2_4 decomp_slices_4 2258 = Some 3001"
  by (simp add: table_eval unicode_decomp_table1_4_def unicode_decomp_table2_4_def decomp_slices_4_def)

lemma decomp_group_5:
  "decomp_walk run_ok unicode_decomp_table1_5 unicode_decomp_table2_5 decomp_slices_5 3001 = Some 3832"
  by (simp add: table_eval unicode_decomp_table1_5_def unicode_decomp_table2_5_def decomp_slices_5_def)

lemma decomp_group_6:
  "decomp_walk run_ok unicode_decomp_table1_6 unicode_decomp_table2_6 decomp_slices_6 3832 = Some 4369"
  by (simp add: table_eval unicode_decomp_table1_6_def unicode_decomp_table2_6_def decomp_slices_6_def)

lemma decomp_group_7:
  "decomp_walk run_ok unicode_decomp_table1_7 unicode_decomp_table2_7 decomp_slices_7 4369 = Some 6882"
  by (simp add: table_eval unicode_decomp_table1_7_def unicode_decomp_table2_7_def decomp_slices_7_def)

lemma decomp_group_8:
  "decomp_walk run_ok unicode_decomp_table1_8 unicode_decomp_table2_8 decomp_slices_8 6882 = Some 7497"
  by (simp add: table_eval unicode_decomp_table1_8_def unicode_decomp_table2_8_def decomp_slices_8_def)

lemma decomp_group_9:
  "decomp_walk run_ok unicode_decomp_table1_9 unicode_decomp_table2_9 decomp_slices_9 7497 = Some 9165"
  by (simp add: table_eval unicode_decomp_table1_9_def unicode_decomp_table2_9_def decomp_slices_9_def)

lemmas decomp_groups =
  decomp_group_0 decomp_group_1 decomp_group_2 decomp_group_3 decomp_group_4
  decomp_group_5 decomp_group_6 decomp_group_7 decomp_group_8 decomp_group_9

lemma decomp_tables_ok:
  "decomp_walk run_ok unicode_decomp_table1 unicode_decomp_table2 decomp_slices 0 = Some 9165"
  unfolding unicode_decomp_table1_def unicode_decomp_table2_def decomp_slices_def concat.simps append_Nil2
  by (simp only: decomp_groups decomp_groups [THEN decomp_walk_append])

lemma decomp_run_ok:
  assumes "i < length unicode_decomp_table1"
  shows "i < length unicode_decomp_table2" "i < length decomp_slices"
    "run_ok (unicode_decomp_table1 ! i) (unicode_decomp_table2 ! i) (decomp_slices ! i)"
    "decomp_type (unicode_decomp_table1 ! i) = 0 \<or>
       drop (unat (unicode_decomp_table2 ! i)) unicode_decomp_data = decomp_slices ! i @ concat (drop (Suc i) decomp_slices)"
proof -
  note w = decomp_walk_nth [OF decomp_tables_ok assms]
  then show "i < length unicode_decomp_table2" "i < length decomp_slices"
    "run_ok (unicode_decomp_table1 ! i) (unicode_decomp_table2 ! i) (decomp_slices ! i)" by auto
  have e: "concat decomp_slices = concat (take i decomp_slices) @ decomp_slices ! i @ concat (drop (Suc i) decomp_slices)"
    using w by (metis concat.simps(2) concat_append id_take_nth_drop)
  have "drop (length (concat (take i decomp_slices))) unicode_decomp_data = decomp_slices ! i @ concat (drop (Suc i) decomp_slices)"
    unfolding unicode_decomp_data_def by (subst e) simp
  then show "decomp_type (unicode_decomp_table1 ! i) = 0 \<or>
       drop (unat (unicode_decomp_table2 ! i)) unicode_decomp_data = decomp_slices ! i @ concat (drop (Suc i) decomp_slices)"
    using w by auto
qed

lemma entries_ok_nth:
  "entries_ok s t len type code i \<Longrightarrow> i \<le> off \<Longrightarrow> off < len \<Longrightarrow>
   entry_ok (rank_of (code + off)) (if type = 0 then Some [ucast t] else local_entry s off len type)"
proof (induction s t len type code i rule: entries_ok.induct)
  case (1 s t len type code i)
  then have "i < len" by simp
  then have "entry_ok (rank_of (code + i)) (if type = 0 then Some [ucast t] else local_entry s i len type)"
    "entries_ok s t len type code (i + 1)" using "1.prems"(1) by (subst (asm) entries_ok.simps, simp)+
  then show ?case using "1.IH" [OF \<open>i < len\<close>] "1.prems"(2,3) by (cases "i = off") auto
qed

text \<open>What the table decomposes to: at most 18 code points, of lower rank.\<close>

lemma decomp_entry_defined:
  assumes i: "i < length unicode_decomp_table1" and v: "v = unicode_decomp_table1 ! i"
    and c: "run_code 18 v \<le> c" "c < run_code 18 v + run_len 18 v"
  shows "\<exists>rs. unicode_decomp_entry c i (run_code 18 v) (run_len 18 v) (decomp_type v) = Some rs \<and> length rs \<le> 18 \<and>
    (\<forall>r \<in> set rs. rank_of (unat r) < rank_of (unat c))"
proof -
  let ?s = "decomp_slices ! i" and ?t = "unicode_decomp_table2 ! i" and ?off = "c - run_code 18 v"
  have off: "unat ?off = unat c - unat (run_code 18 v)" using c(1) by (simp add: unat_sub word_le_nat_alt)
  then have lt: "unat ?off < unat (run_len 18 v)"
    using c run_end_unat [of 18 v] by (auto simp: word_less_nat_alt word_le_nat_alt)
  from decomp_run_ok(3) [OF i, folded v]
  have e: "entry_ok (rank_of (unat (run_code 18 v) + unat ?off))
      (if decomp_type v = 0 then Some [ucast ?t] else local_entry ?s (unat ?off) (unat (run_len 18 v)) (decomp_type v))"
    and ok: "local_ok ?s (unat (run_len 18 v)) (decomp_type v)" "unat ?off < unat (run_len 18 v)"
    unfolding run_ok_def using entries_ok_nth [OF _ _ lt] lt by blast+
  have r: "unat (run_code 18 v) + unat ?off = unat c" using off c(1) by (simp add: word_le_nat_alt)
  note le = local_entry_le [OF ok, simplified of_nat_unat ucast_id]
  obtain rs where rs: "(if decomp_type v = 0 then Some [ucast ?t] else decomp_data_entry ?s ?off (run_len 18 v) (decomp_type v)) = Some rs"
    "length rs \<le> 18" "\<forall>x \<in> set rs. rank_of (unat x) < rank_of (unat c)"
    using entry_okD [OF e [unfolded r]] opt_leD [OF le] by (auto split: if_splits)
  have "unicode_decomp_entry c i (run_code 18 v) (run_len 18 v) (decomp_type v) = Some rs"
  proof (cases "decomp_type v = 0")
    case True
    then show ?thesis using rs(1) decomp_run_ok(1) [OF i] by (simp add: unicode_decomp_entry_def tab_get_def)
  next
    case False
    then have "decomp_data_entry (drop (unat ?t) unicode_decomp_data) ?off (run_len 18 v) (decomp_type v) = Some rs"
      using rs(1) decomp_run_ok(4) [OF i, folded v] opt_leD [OF decomp_data_entry_le] by auto
    then show ?thesis using False decomp_run_ok(1) [OF i] by (simp add: unicode_decomp_entry_def tab_get_def)
  qed
  then show ?thesis using rs by auto
qed

lemma decomp_char_defined:
  "\<exists>rs. unicode_decomp_char c is_compat = Some rs \<and> length rs \<le> 18 \<and>
     (\<forall>r \<in> set rs. rank_of (unat r) < rank_of (unat c))"
proof (cases "run_search 18 unicode_decomp_table1 c 0 (int (length unicode_decomp_table1) - 1)")
  case None
  then show ?thesis by (simp add: unicode_decomp_char_def)
next
  case (Some i)
  note b = run_search_bound [OF Some]
  have "\<exists>rs. unicode_decomp_entry c i (run_code 18 (unicode_decomp_table1 ! i)) (run_len 18 (unicode_decomp_table1 ! i))
      (decomp_type (unicode_decomp_table1 ! i)) = Some rs \<and> length rs \<le> 18 \<and> (\<forall>r \<in> set rs. rank_of (unat r) < rank_of (unat c))"
    using b by (intro decomp_entry_defined [OF _ refl]) auto
  then show ?thesis using Some by (auto simp: unicode_decomp_char_def Let_def)
qed

section \<open>Full decomposition ends\<close>

lemma to_nfd_rec_defined:
  "(\<forall>c \<in> set src. rank_of (unat c) < n) \<Longrightarrow> \<exists>dbuf'. to_nfd_rec dbuf src is_compat = Some dbuf'"
proof (induction n arbitrary: src dbuf)
  case 0
  then have "src = []" by auto
  then show ?case by (subst to_nfd_rec.simps) simp
next
  case (Suc n)
  show ?case
    using Suc.prems
  proof (induction src arbitrary: dbuf)
    case Nil
    then show ?case by (subst to_nfd_rec.simps) simp
  next
    case (Cons c src)
    obtain rs where rs: "unicode_decomp_char c is_compat = Some rs" "\<forall>r \<in> set rs. rank_of (unat r) < rank_of (unat c)"
      using decomp_char_defined [of c is_compat] by blast
    have "\<forall>r \<in> set rs. rank_of (unat r) < n" using rs(2) Cons.prems by fastforce
    from Suc.IH [OF this] obtain d1 where d1: "to_nfd_rec dbuf rs is_compat = Some d1" by blast
    have "\<exists>dbuf'. to_nfd_rec d src is_compat = Some dbuf'" for d using Cons by simp
    then show ?case using rs d1 by (subst to_nfd_rec.simps) simp
  qed
qed

lemma to_nfd_rec_total: "\<exists>dbuf'. to_nfd_rec dbuf src is_compat = Some dbuf'"
proof -
  have "\<forall>c \<in> set src. rank_of (unat c) < Suc (sum_list (map (\<lambda>c. rank_of (unat c)) src))"
    by (simp add: less_Suc_eq_le member_le_sum_list)
  then show ?thesis by (rule to_nfd_rec_defined)
qed

section \<open>The composition table\<close>

text \<open>The pair of a canonical run at an offset, read from the run's slice.\<close>

definition run_pair :: "u32 \<Rightarrow> bytes \<Rightarrow> nat \<Rightarrow> u32 list option" where
  "run_pair v s off =
     (if v AND 1 = 0 \<and> off < unat (run_len 18 v) \<and> decomp_type v \<noteq> 0
      then local_entry s off (unat (run_len 18 v)) (decomp_type v) else None)"

text \<open>
  \<open>comp_walk\<close> checks that the pairs of the entries are pairs, ascend strictly and are small; it returns the
  last one.
\<close>

fun comp_step :: "nat \<times> nat \<Rightarrow> u32 list option \<Rightarrow> (nat \<times> nat) option" where
  "comp_step (q0, q1) (Some [p0, p1]) =
     (if (q0 < unat p0 \<or> q0 = unat p0 \<and> q1 < unat p1) \<and> unat p0 < 1000000 \<and> unat p1 < 1000000
      then Some (unat p0, unat p1) else None)"
| "comp_step _ _ = None"

definition comp_pair :: "u16 \<Rightarrow> u32 list option" where
  "comp_pair x =
     (if unat (drop_bit 6 x) < 690 then
        run_pair (unicode_decomp_table1 ! unat (drop_bit 6 x)) (decomp_slices ! unat (drop_bit 6 x)) (unat (x AND 0x3f))
      else None)"

fun comp_walk :: "u16 list \<Rightarrow> nat \<times> nat \<Rightarrow> (nat \<times> nat) option" where
  "comp_walk [] q = Some q"
| "comp_walk (x # xs) q = Option.bind (comp_step q (comp_pair x)) (comp_walk xs)"

lemma nth_concat_group:
  "list_all (\<lambda>g. length g = n) gs \<Longrightarrow> k < length gs \<Longrightarrow> n * k \<le> i \<Longrightarrow> i < n * k + n \<Longrightarrow>
   concat gs ! i = gs ! k ! (i - n * k)"
proof (induction gs arbitrary: k i)
  case (Cons g gs)
  show ?case
  proof (cases k)
    case 0
    then show ?thesis using Cons.prems by (simp add: nth_append)
  next
    case (Suc k')
    then show ?thesis using Cons.prems Cons.IH [of k' "i - n"] by (simp add: nth_append)
  qed
qed simp

lemma decomp_group_lengths:
  "length unicode_decomp_table1_0 = 69" "length decomp_slices_0 = 69"
  "length unicode_decomp_table1_1 = 69" "length decomp_slices_1 = 69"
  "length unicode_decomp_table1_2 = 69" "length decomp_slices_2 = 69"
  "length unicode_decomp_table1_3 = 69" "length decomp_slices_3 = 69"
  "length unicode_decomp_table1_4 = 69" "length decomp_slices_4 = 69"
  "length unicode_decomp_table1_5 = 69" "length decomp_slices_5 = 69"
  "length unicode_decomp_table1_6 = 69" "length decomp_slices_6 = 69"
  "length unicode_decomp_table1_7 = 69" "length decomp_slices_7 = 69"
  "length unicode_decomp_table1_8 = 69" "length decomp_slices_8 = 69"
  "length unicode_decomp_table1_9 = 69" "length decomp_slices_9 = 69"
  by (simp_all add: unicode_decomp_table1_0_def unicode_decomp_table1_1_def unicode_decomp_table1_2_def unicode_decomp_table1_3_def
    unicode_decomp_table1_4_def unicode_decomp_table1_5_def unicode_decomp_table1_6_def unicode_decomp_table1_7_def
    unicode_decomp_table1_8_def unicode_decomp_table1_9_def
    decomp_slices_0_def decomp_slices_1_def decomp_slices_2_def decomp_slices_3_def decomp_slices_4_def
    decomp_slices_5_def decomp_slices_6_def decomp_slices_7_def decomp_slices_8_def decomp_slices_9_def)

lemma table1_at_group:
  assumes "k < 10" "69 * k \<le> i" "i < 69 * k + 69"
  shows "unicode_decomp_table1 ! i = [unicode_decomp_table1_0, unicode_decomp_table1_1, unicode_decomp_table1_2, unicode_decomp_table1_3,
    unicode_decomp_table1_4, unicode_decomp_table1_5, unicode_decomp_table1_6, unicode_decomp_table1_7,
    unicode_decomp_table1_8, unicode_decomp_table1_9] ! k ! (i - 69 * k)"
  unfolding unicode_decomp_table1_def by (rule nth_concat_group) (use assms in \<open>simp_all add: decomp_group_lengths\<close>)

lemma table1_at:
  "0 \<le> i \<Longrightarrow> i < 69 \<Longrightarrow> unicode_decomp_table1 ! i = unicode_decomp_table1_0 ! (i - 0)"
  "69 \<le> i \<Longrightarrow> i < 138 \<Longrightarrow> unicode_decomp_table1 ! i = unicode_decomp_table1_1 ! (i - 69)"
  "138 \<le> i \<Longrightarrow> i < 207 \<Longrightarrow> unicode_decomp_table1 ! i = unicode_decomp_table1_2 ! (i - 138)"
  "207 \<le> i \<Longrightarrow> i < 276 \<Longrightarrow> unicode_decomp_table1 ! i = unicode_decomp_table1_3 ! (i - 207)"
  "276 \<le> i \<Longrightarrow> i < 345 \<Longrightarrow> unicode_decomp_table1 ! i = unicode_decomp_table1_4 ! (i - 276)"
  "345 \<le> i \<Longrightarrow> i < 414 \<Longrightarrow> unicode_decomp_table1 ! i = unicode_decomp_table1_5 ! (i - 345)"
  "414 \<le> i \<Longrightarrow> i < 483 \<Longrightarrow> unicode_decomp_table1 ! i = unicode_decomp_table1_6 ! (i - 414)"
  "483 \<le> i \<Longrightarrow> i < 552 \<Longrightarrow> unicode_decomp_table1 ! i = unicode_decomp_table1_7 ! (i - 483)"
  "552 \<le> i \<Longrightarrow> i < 621 \<Longrightarrow> unicode_decomp_table1 ! i = unicode_decomp_table1_8 ! (i - 552)"
  "621 \<le> i \<Longrightarrow> i < 690 \<Longrightarrow> unicode_decomp_table1 ! i = unicode_decomp_table1_9 ! (i - 621)"
  using table1_at_group [of 0 i] table1_at_group [of 1 i] table1_at_group [of 2 i] table1_at_group [of 3 i] table1_at_group [of 4 i]
    table1_at_group [of 5 i] table1_at_group [of 6 i] table1_at_group [of 7 i] table1_at_group [of 8 i] table1_at_group [of 9 i]
  by simp_all

lemma slices_at_group:
  assumes "k < 10" "69 * k \<le> i" "i < 69 * k + 69"
  shows "decomp_slices ! i = [decomp_slices_0, decomp_slices_1, decomp_slices_2, decomp_slices_3,
    decomp_slices_4, decomp_slices_5, decomp_slices_6, decomp_slices_7,
    decomp_slices_8, decomp_slices_9] ! k ! (i - 69 * k)"
  unfolding decomp_slices_def by (rule nth_concat_group) (use assms in \<open>simp_all add: decomp_group_lengths\<close>)

lemma slices_at:
  "0 \<le> i \<Longrightarrow> i < 69 \<Longrightarrow> decomp_slices ! i = decomp_slices_0 ! (i - 0)"
  "69 \<le> i \<Longrightarrow> i < 138 \<Longrightarrow> decomp_slices ! i = decomp_slices_1 ! (i - 69)"
  "138 \<le> i \<Longrightarrow> i < 207 \<Longrightarrow> decomp_slices ! i = decomp_slices_2 ! (i - 138)"
  "207 \<le> i \<Longrightarrow> i < 276 \<Longrightarrow> decomp_slices ! i = decomp_slices_3 ! (i - 207)"
  "276 \<le> i \<Longrightarrow> i < 345 \<Longrightarrow> decomp_slices ! i = decomp_slices_4 ! (i - 276)"
  "345 \<le> i \<Longrightarrow> i < 414 \<Longrightarrow> decomp_slices ! i = decomp_slices_5 ! (i - 345)"
  "414 \<le> i \<Longrightarrow> i < 483 \<Longrightarrow> decomp_slices ! i = decomp_slices_6 ! (i - 414)"
  "483 \<le> i \<Longrightarrow> i < 552 \<Longrightarrow> decomp_slices ! i = decomp_slices_7 ! (i - 483)"
  "552 \<le> i \<Longrightarrow> i < 621 \<Longrightarrow> decomp_slices ! i = decomp_slices_8 ! (i - 552)"
  "621 \<le> i \<Longrightarrow> i < 690 \<Longrightarrow> decomp_slices ! i = decomp_slices_9 ! (i - 621)"
  using slices_at_group [of 0 i] slices_at_group [of 1 i] slices_at_group [of 2 i] slices_at_group [of 3 i] slices_at_group [of 4 i]
    slices_at_group [of 5 i] slices_at_group [of 6 i] slices_at_group [of 7 i] slices_at_group [of 8 i] slices_at_group [of 9 i]
  by simp_all

lemmas comp_eval = table1_at slices_at comp_pair_def run_pair_def
  unicode_decomp_table1_0_def unicode_decomp_table1_1_def unicode_decomp_table1_2_def unicode_decomp_table1_3_def
  unicode_decomp_table1_4_def unicode_decomp_table1_5_def unicode_decomp_table1_6_def unicode_decomp_table1_7_def
  unicode_decomp_table1_8_def unicode_decomp_table1_9_def
  decomp_slices_0_def decomp_slices_1_def decomp_slices_2_def decomp_slices_3_def decomp_slices_4_def
  decomp_slices_5_def decomp_slices_6_def decomp_slices_7_def decomp_slices_8_def decomp_slices_9_def

lemma comp_group_0: "comp_walk unicode_comp_table_0 (0, 0) = Some (79, 768)"
  by (simp add: table_eval comp_eval unicode_comp_table_0_def)

lemma comp_group_1: "comp_walk unicode_comp_table_1 (79, 768) = Some (99, 775)"
  by (simp add: table_eval comp_eval unicode_comp_table_1_def)

lemma comp_group_2: "comp_walk unicode_comp_table_2 (99, 775) = Some (114, 807)"
  by (simp add: table_eval comp_eval unicode_comp_table_2_def)

lemma comp_group_3: "comp_walk unicode_comp_table_3 (114, 807) = Some (234, 777)"
  by (simp add: table_eval comp_eval unicode_comp_table_3_def)

lemma comp_group_4: "comp_walk unicode_comp_table_4 (234, 777) = Some (937, 768)"
  by (simp add: table_eval comp_eval unicode_comp_table_4_def)

lemma comp_group_5: "comp_walk unicode_comp_table_5 (937, 768) = Some (1099, 776)"
  by (simp add: table_eval comp_eval unicode_comp_table_5_def)

lemma comp_group_6: "comp_walk unicode_comp_table_6 (1099, 776) = Some (7961, 768)"
  by (simp add: table_eval comp_eval unicode_comp_table_6_def)

lemma comp_group_7: "comp_walk unicode_comp_table_7 (7961, 768) = Some (8707, 824)"
  by (simp add: table_eval comp_eval unicode_comp_table_7_def)

lemma comp_group_8: "comp_walk unicode_comp_table_8 (8707, 824) = Some (71989, 71984)"
  by (simp add: table_eval comp_eval unicode_comp_table_8_def)

lemmas comp_groups =
  comp_group_0 comp_group_1 comp_group_2 comp_group_3 comp_group_4 comp_group_5 comp_group_6 comp_group_7 comp_group_8

lemma comp_walk_append: "comp_walk xs q = Some e \<Longrightarrow> comp_walk (xs @ ys) q = comp_walk ys e"
  by (induction xs q rule: comp_walk.induct) (auto split: bind_splits)

lemma comp_table_ok: "comp_walk unicode_comp_table (0, 0) = Some (71989, 71984)"
  unfolding unicode_comp_table_def concat.simps append_Nil2
  by (simp only: comp_groups comp_groups [THEN comp_walk_append])

text \<open>The order of the pairs.\<close>

definition pair_less :: "nat \<times> nat \<Rightarrow> nat \<times> nat \<Rightarrow> bool" where
  "pair_less p q \<longleftrightarrow> fst p < fst q \<or> fst p = fst q \<and> snd p < snd q"

lemma comp_step_Some:
  assumes "comp_step q x = Some e"
  obtains p0 p1 where "x = Some [p0, p1]" "e = (unat p0, unat p1)" "pair_less q e" "unat p0 < 1000000" "unat p1 < 1000000"
  using assms
  by (cases "(q, x)" rule: comp_step.cases) (auto simp: pair_less_def split: if_splits)

lemma comp_walk_ascends:
  "comp_walk xs q = Some e \<Longrightarrow> \<exists>ps. length ps = length xs \<and> sorted_wrt pair_less (q # map (\<lambda>(a, b). (unat a, unat b)) ps) \<and>
     (\<forall>i < length xs. comp_pair (xs ! i) = Some [fst (ps ! i), snd (ps ! i)] \<and>
        unat (fst (ps ! i)) < 1000000 \<and> unat (snd (ps ! i)) < 1000000)"
proof (induction xs q rule: comp_walk.induct)
  case (2 x xs q)
  from 2(2) obtain e1 where s: "comp_step q (comp_pair x) = Some e1" "comp_walk xs e1 = Some e" by (auto split: bind_splits)
  from s(1) obtain p0 p1 where p: "comp_pair x = Some [p0, p1]" "e1 = (unat p0, unat p1)" "pair_less q e1"
    "unat p0 < 1000000" "unat p1 < 1000000" by (rule comp_step_Some)
  from 2(1) [OF s] obtain ps where ps: "length ps = length xs"
    "sorted_wrt pair_less (e1 # map (\<lambda>(a, b). (unat a, unat b)) ps)"
    "\<forall>i < length xs. comp_pair (xs ! i) = Some [fst (ps ! i), snd (ps ! i)] \<and>
        unat (fst (ps ! i)) < 1000000 \<and> unat (snd (ps ! i)) < 1000000" by blast
  have "sorted_wrt pair_less (q # e1 # map (\<lambda>(a, b). (unat a, unat b)) ps)"
    using ps(2) p(3) by (auto simp: pair_less_def)
  then show ?case
    using ps p by (intro exI [of _ "(p0, p1) # ps"]) (auto simp: nth_Cons' less_Suc_eq_0_disj)
qed simp

lemma decomp_table1_length: "length unicode_decomp_table1 = 690"
  by (simp add: unicode_decomp_table1_def decomp_group_lengths)

lemma decomp_table_ascending: "runs_ascending 18 unicode_decomp_table1"
  by (simp add: run_code_def run_len_def unicode_decomp_table1_def
    unicode_decomp_table1_0_def unicode_decomp_table1_1_def unicode_decomp_table1_2_def
    unicode_decomp_table1_3_def unicode_decomp_table1_4_def unicode_decomp_table1_5_def
    unicode_decomp_table1_6_def unicode_decomp_table1_7_def unicode_decomp_table1_8_def
    unicode_decomp_table1_9_def)

lemma first_run_positive:
  assumes "i < length unicode_decomp_table1"
  shows "0 < unat (run_code 18 (unicode_decomp_table1 ! i))"
proof (cases i)
  case 0
  have "unicode_decomp_table1 ! 0 = 0x00280081" by (simp add: table1_at unicode_decomp_table1_0_def)
  then show ?thesis using 0 by (simp add: run_code_def)
next
  case (Suc j)
  then show ?thesis
    using runs_ascending_nth [OF decomp_table_ascending, of 0 i] assms
    by (auto simp: table1_at unicode_decomp_table1_0_def run_code_def)
qed

text \<open>An entry of the composition table names a code point whose canonical decomposition is the pair.\<close>

lemma comp_pair_entry:
  assumes "comp_pair x = Some [p0, p1]"
  shows "\<exists>ch. comp_entry x = Some (ch, [p0, p1]) \<and> unicode_decomp_char ch False = Some [p0, p1] \<and> ch \<noteq> 0"
proof -
  define i where "i = unat (drop_bit 6 x)"
  define off where "off = unat (x AND 0x3f)"
  define v where "v = unicode_decomp_table1 ! i"
  have i: "i < length unicode_decomp_table1" using assms by (auto simp: comp_pair_def i_def decomp_table1_length split: if_splits)
  have p: "v AND 1 = 0" "off < unat (run_len 18 v)" "decomp_type v \<noteq> 0"
    "local_entry (decomp_slices ! i) off (unat (run_len 18 v)) (decomp_type v) = Some [p0, p1]"
    using assms by (auto simp: comp_pair_def run_pair_def i_def off_def v_def split: if_splits)
  have "local_ok (decomp_slices ! i) (unat (run_len 18 v)) (decomp_type v)"
    using decomp_run_ok(3) [OF i, folded v_def] by (simp add: run_ok_def)
  then have r: "v AND 1 = 0" "off < unat (run_len 18 v)" "decomp_type v \<noteq> 0"
    "decomp_data_entry (decomp_slices ! i) (of_nat off) (run_len 18 v) (decomp_type v) = Some [p0, p1]"
    using p opt_leD [OF local_entry_le] by auto
  have o: "ucast (x AND 0x3f) = (of_nat off :: u32)" by (simp add: off_def)
  define ch where "ch = run_code 18 v + of_nat off"
  have "off < 2 ^ 32" using r(2) unsigned_less [of "run_len 18 v", where ?'a = nat] by simp
  then have uo: "unat (of_nat off :: u32) = off" by (simp add: unat_of_nat)
  have e: "unicode_decomp_entry ch i (run_code 18 v) (run_len 18 v) (decomp_type v) = Some [p0, p1]"
    using r(3,4) decomp_run_ok(1) [OF i] decomp_run_ok(4) [OF i, folded v_def] opt_leD [OF decomp_data_entry_le r(4)]
    by (simp add: unicode_decomp_entry_def tab_get_def ch_def)
  have b: "unat (run_code 18 v + run_len 18 v) = unat (run_code 18 v) + unat (run_len 18 v)"
    by (rule run_end_unat) simp
  then have "unat (run_code 18 v) + unat (run_len 18 v) < 2 ^ 32"
    using unsigned_less [of "run_code 18 v + run_len 18 v", where ?'a = nat] by simp
  then have uch: "unat ch = unat (run_code 18 v) + off" using r(2) by (simp add: ch_def unat_word_ariths uo)
  then have "in_run 18 unicode_decomp_table1 ch i"
    using r(2) b i by (simp add: in_run_def v_def [symmetric] word_le_nat_alt word_less_nat_alt)
  then have "run_search 18 unicode_decomp_table1 ch 0 (int (length unicode_decomp_table1) - 1) = Some i"
    using i by (intro run_search_finds runs_ascending_sorted decomp_table_ascending) auto
  then have "unicode_decomp_char ch False = Some [p0, p1]"
    using e r(1) by (simp add: unicode_decomp_char_def v_def [symmetric])
  moreover have "ch \<noteq> 0"
    using first_run_positive i uch by (fastforce simp: v_def)
  moreover have "comp_entry x = Some (ch, [p0, p1])"
    using i e unfolding comp_entry_def i_def [symmetric] v_def [symmetric]
    by (simp add: tab_get_def Let_def o ch_def v_def)
  ultimately show ?thesis by blast
qed

section \<open>Composition\<close>

lemma sint_diff:
  assumes "unat c < 1000000" "unat p < 1000000"
  shows "sint (c - p :: u32) = int (unat c) - int (unat p)"
proof -
  have "c - p = word_of_int (int (unat c) - int (unat p))" by simp
  then have "sint (c - p) = (int (unat c) - int (unat p) + 2 ^ 31) mod 2 ^ 32 - 2 ^ 31"
    by (simp only: int_word_sint) simp
  also have "(int (unat c) - int (unat p) + 2 ^ 31) mod 2 ^ 32 = int (unat c) - int (unat p) + 2 ^ 31"
    using assms by (intro mod_pos_pos_trivial) (simp_all del: of_nat_unat)
  finally show ?thesis by simp
qed

lemma pair_diff_eq0: "pair_diff c0 c1 p0 p1 = 0 \<longleftrightarrow> c0 = p0 \<and> c1 = p1"
  by (auto simp: pair_diff_def Let_def signed_eq_0_iff)

lemma pair_diff_less:
  assumes "unat c0 < 1000000" "unat c1 < 1000000" "unat p0 < 1000000" "unat p1 < 1000000"
  shows "pair_diff c0 c1 p0 p1 < 0 \<longleftrightarrow> pair_less (unat c0, unat c1) (unat p0, unat p1)"
  using assms by (auto simp: pair_diff_def Let_def sint_diff pair_less_def simp del: of_nat_unat)

lemma comp_table_entries:
  obtains ps where "length ps = length unicode_comp_table"
    "\<And>i. i < length unicode_comp_table \<Longrightarrow> \<exists>ch. comp_entry (unicode_comp_table ! i) = Some (ch, [fst (ps ! i), snd (ps ! i)]) \<and>
       unicode_decomp_char ch False = Some [fst (ps ! i), snd (ps ! i)] \<and> ch \<noteq> 0"
    "\<And>i. i < length unicode_comp_table \<Longrightarrow> unat (fst (ps ! i)) < 1000000 \<and> unat (snd (ps ! i)) < 1000000"
    "\<And>i j. i < j \<Longrightarrow> j < length unicode_comp_table \<Longrightarrow>
       pair_less (unat (fst (ps ! i)), unat (snd (ps ! i))) (unat (fst (ps ! j)), unat (snd (ps ! j)))"
proof -
  from comp_walk_ascends [OF comp_table_ok] obtain ps where ps: "length ps = length unicode_comp_table"
    "sorted_wrt pair_less (map (\<lambda>(a, b). (unat a, unat b)) ps)"
    "\<forall>i < length unicode_comp_table. comp_pair (unicode_comp_table ! i) = Some [fst (ps ! i), snd (ps ! i)] \<and>
        unat (fst (ps ! i)) < 1000000 \<and> unat (snd (ps ! i)) < 1000000" by auto
  have "pair_less (unat (fst (ps ! i)), unat (snd (ps ! i))) (unat (fst (ps ! j)), unat (snd (ps ! j)))"
    if "i < j" "j < length unicode_comp_table" for i j
    using sorted_wrt_nth_less [OF ps(2) that(1)] that ps(1) by (simp add: case_prod_beta)
  then show thesis using that [of ps] ps comp_pair_entry by blast
qed

lemma compose_search_step:
  assumes "lo \<le> hi" "comp_entry (unicode_comp_table ! nat ((hi + lo) div 2)) = Some (ch, [p0, p1])"
  shows "compose_search c0 c1 lo hi =
    (if pair_diff c0 c1 p0 p1 < 0 then compose_search c0 c1 lo ((hi + lo) div 2 - 1)
     else if pair_diff c0 c1 p0 p1 > 0 then compose_search c0 c1 ((hi + lo) div 2 + 1) hi else Some ch)"
  using assms by (subst compose_search.simps) (simp add: Let_def)

text \<open>A search returns, and what it returns is an entry for the pair.\<close>

lemma compose_search_sound:
  "0 \<le> lo \<Longrightarrow> hi < int (length unicode_comp_table) \<Longrightarrow>
   \<exists>ch. compose_search c0 c1 lo hi = Some ch \<and> (ch = 0 \<or> unicode_decomp_char ch False = Some [c0, c1])"
proof (induction "nat (hi - lo + 1)" arbitrary: lo hi rule: less_induct)
  case less
  show ?case
  proof (cases "lo \<le> hi")
    case False
    then show ?thesis by (subst compose_search.simps) simp
  next
    case True
    let ?m = "(hi + lo) div 2"
    have m: "lo \<le> ?m" "?m \<le> hi" using True by auto
    have "nat ?m < length unicode_comp_table" using m less.prems by linarith
    then obtain ch p0 p1 where e: "comp_entry (unicode_comp_table ! nat ?m) = Some (ch, [p0, p1])"
      "unicode_decomp_char ch False = Some [p0, p1]" by (metis comp_table_entries)
    note s = compose_search_step [OF True e(1), of c0 c1]
    consider "pair_diff c0 c1 p0 p1 < 0" | "pair_diff c0 c1 p0 p1 > 0" | "pair_diff c0 c1 p0 p1 = 0" by linarith
    then show ?thesis
    proof cases
      case 1
      then show ?thesis using less.hyps [of "?m - 1" lo] less.prems m s by simp
    next
      case 2
      then show ?thesis using less.hyps [of hi "?m + 1"] less.prems m s by simp
    next
      case 3
      moreover have "c0 = p0" "c1 = p1" using 3 by (simp_all add: pair_diff_eq0)
      ultimately show ?thesis using s e(2) by simp
    qed
  qed
qed

lemma compose_search_complete:
  assumes ps: "\<And>i. i < length unicode_comp_table \<Longrightarrow> \<exists>ch. comp_entry (unicode_comp_table ! i) = Some (ch, [fst (ps ! i), snd (ps ! i)])"
    "\<And>i. i < length unicode_comp_table \<Longrightarrow> unat (fst (ps ! i)) < 1000000 \<and> unat (snd (ps ! i)) < 1000000"
    "\<And>i j. i < j \<Longrightarrow> j < length unicode_comp_table \<Longrightarrow>
       pair_less (unat (fst (ps ! i)), unat (snd (ps ! i))) (unat (fst (ps ! j)), unat (snd (ps ! j)))"
    and i: "i < length unicode_comp_table" "comp_entry (unicode_comp_table ! i) = Some (ch, [c0, c1])"
  shows "0 \<le> lo \<Longrightarrow> lo \<le> int i \<Longrightarrow> int i \<le> hi \<Longrightarrow> hi < int (length unicode_comp_table) \<Longrightarrow>
    compose_search c0 c1 lo hi = Some ch"
proof (induction "nat (hi - lo + 1)" arbitrary: lo hi rule: less_induct)
  case less
  let ?m = "(hi + lo) div 2"
  have lh: "lo \<le> hi" using less.prems by simp
  then have m: "lo \<le> ?m" "?m \<le> hi" "nat ?m < length unicode_comp_table" using less.prems by auto
  obtain ch' where e: "comp_entry (unicode_comp_table ! nat ?m) = Some (ch', [fst (ps ! nat ?m), snd (ps ! nat ?m)])"
    using ps(1) [OF m(3)] by blast
  note s = compose_search_step [OF lh e, of c0 c1]
  have c: "c0 = fst (ps ! i)" "c1 = snd (ps ! i)" using ps(1) [OF i(1)] i(2) by auto
  note d = pair_diff_less [of c0 c1 "fst (ps ! nat ?m)" "snd (ps ! nat ?m)"]
  have small: "unat c0 < 1000000" "unat c1 < 1000000" "unat (fst (ps ! nat ?m)) < 1000000" "unat (snd (ps ! nat ?m)) < 1000000"
    using ps(2) [OF i(1)] ps(2) [OF m(3)] c by auto
  show ?case
  proof (cases i "nat ?m" rule: linorder_cases)
    case less': less
    then have "pair_diff c0 c1 (fst (ps ! nat ?m)) (snd (ps ! nat ?m)) < 0"
      using d [OF small] ps(3) [OF less' m(3)] c by simp
    moreover have "int i \<le> ?m - 1" using less' by linarith
    ultimately show ?thesis using s less.hyps [of "?m - 1" lo] less.prems m by simp
  next
    case equal
    then have "pair_diff c0 c1 (fst (ps ! nat ?m)) (snd (ps ! nat ?m)) = 0" using c by (simp add: pair_diff_eq0)
    then show ?thesis using s e i(2) equal by simp
  next
    case greater
    have g: "pair_less (unat (fst (ps ! nat ?m)), unat (snd (ps ! nat ?m))) (unat c0, unat c1)"
      using ps(3) [OF greater i(1)] c by simp
    then have "\<not> pair_diff c0 c1 (fst (ps ! nat ?m)) (snd (ps ! nat ?m)) < 0"
      using d [OF small] by (auto simp: pair_less_def)
    moreover have "pair_diff c0 c1 (fst (ps ! nat ?m)) (snd (ps ! nat ?m)) \<noteq> 0"
      using g by (auto simp: pair_diff_eq0 pair_less_def)
    moreover have "?m + 1 \<le> int i" using greater m less.prems(1) by linarith
    ultimately show ?thesis using s less.hyps [of hi "?m + 1"] less.prems m by auto
  qed
qed

section \<open>Hangul\<close>

lemma hangul_bounds:
  assumes "is_hangul_syllable c"
  shows "unat c = 0xac00 + unat (c - 0xac00)" "unat (c - 0xac00) < 11172"
proof -
  have "0xac00 \<le> unat c" "unat c < 0xd7a4"
    using assms by (auto simp: is_hangul_syllable_def word_le_nat_alt word_less_nat_alt)
  moreover have "unat (c - 0xac00) = unat c - 0xac00"
    using assms by (simp add: is_hangul_syllable_def unat_sub)
  ultimately show "unat c = 0xac00 + unat (c - 0xac00)" "unat (c - 0xac00) < 11172" by auto
qed

lemma hangul_lv:
  fixes s :: u32
  assumes "unat s < 11172"
  shows "compose_pair (0x1100 + s div 588) (0x1161 + s mod 588 div 28) = Some (0xac00 + (s - s mod 28))"
proof -
  let ?l = "unat s div 588" and ?v = "unat s mod 588 div 28"
  have l: "?l < 19" and v: "?v < 21" using assms by (auto simp: less_mult_imp_div_less)
  have ul: "unat (s div 588) = ?l" and uv: "unat (s mod 588 div 28) = ?v" by (simp_all add: unat_div unat_mod)
  have a: "unat (0x1100 + s div 588) = 0x1100 + ?l" "unat (0x1161 + s mod 588 div 28) = 0x1161 + ?v"
    using l v ul uv by (simp_all add: unat_word_ariths)
  have "0x1100 \<le> 0x1100 + s div 588" "0x1100 + s div 588 < 0x1100 + 19"
    "0x1161 \<le> 0x1161 + s mod 588 div 28" "0x1161 + s mod 588 div 28 < 0x1161 + 21"
    unfolding word_le_nat_alt word_less_nat_alt a using l v by simp_all
  moreover have "(s div 588) * 588 + (s mod 588 div 28) * 28 = s - s mod 28"
  proof -
    have "unat s div 588 * 588 + unat s mod 588 div 28 * 28 = unat s - unat s mod 28"
    proof -
      have "unat s mod 588 mod 28 = unat s mod 28" by (simp add: mod_mod_cancel)
      then show ?thesis
        using div_mult_mod_eq [of "unat s" 588] div_mult_mod_eq [of "unat s mod 588" 28] by linarith
    qed
    moreover have "unat ((s div 588) * 588 + (s mod 588 div 28) * 28) = unat s div 588 * 588 + unat s mod 588 div 28 * 28"
      using l v ul uv by (simp add: unat_word_ariths)
    moreover have "unat (s - s mod 28) = unat s - unat s mod 28"
      by (subst unat_sub) (simp_all add: word_le_nat_alt unat_mod)
    ultimately show ?thesis by (metis word_unat_eq_iff)
  qed
  ultimately show ?thesis by (simp add: compose_pair_def add.assoc)
qed

lemma hangul_lvt:
  fixes s :: u32
  assumes "unat s < 11172" "s mod 28 = t" "t \<noteq> 0"
  shows "compose_pair (0xac00 + (s - s mod 28)) (0x11a7 + t) = Some (0xac00 + s)"
proof -
  let ?b = "s - s mod 28"
  have t: "unat t = unat s mod 28" using assms(2) by (auto simp: unat_mod)
  have b: "unat ?b = unat s - unat s mod 28" by (subst unat_sub) (simp_all add: word_le_nat_alt unat_mod)
  have ab: "unat (0xac00 + ?b) = 0xac00 + unat ?b" "unat (0x11a7 + t) = 0x11a7 + unat t"
    using assms(1) b t by (simp_all add: unat_word_ariths)
  have c: "0xac00 \<le> 0xac00 + ?b" "0xac00 + ?b < 0xac00 + 11172" "0x11a7 \<le> 0x11a7 + t" "0x11a7 + t < 0x11a7 + 28"
    unfolding word_le_nat_alt word_less_nat_alt ab using assms(1) b t by simp_all
  have "unat (?b mod 28) = 0" unfolding unat_mod b by (simp add: minus_mod_eq_mult_div)
  then have "?b mod 28 = 0" by (simp add: unat_eq_zero)
  moreover have "\<not> (0x1100 \<le> 0xac00 + ?b \<and> 0xac00 + ?b < 0x1100 + 19)"
    unfolding word_le_nat_alt word_less_nat_alt ab by simp
  moreover have "0xac00 + ?b + (0x11a7 + t) - 0x11a7 = 0xac00 + s" using assms(2) by simp
  ultimately show ?thesis using c by (auto simp: compose_pair_def)
qed

section \<open>Properties\<close>

text \<open>
  Property C29. Decomposition is safe and ends: for every 32-bit code and either mode,
  \<open>unicode_decomp_char\<close> reads only inside its tables and yields at most \<^verbatim>\<open>UNICODE_DECOMP_LEN_MAX\<close> code points,
  and the recursion of \<open>to_nfd_rec\<close>, which decomposes what a decomposition yields, returns for every
  input string.
\<close>

theorem to_nfd_terminates:
  "(\<exists>rs. unicode_decomp_char c is_compat = Some rs \<and> length rs \<le> UNICODE_DECOMP_LEN_MAX) \<and>
   (\<exists>dbuf'. to_nfd_rec dbuf src is_compat = Some dbuf')"
  using decomp_char_defined [of c is_compat] to_nfd_rec_total by blast

text \<open>
  Property C30. Composition by the table inverts canonical decomposition: the search returns for every
  two 32-bit codes; a result other than 0 has exactly the pair as its canonical decomposition, and
  every entry of the composition table is found by its pair.
\<close>

theorem compose_pair_inverts:
  "(\<exists>ch. unicode_compose_pair c0 c1 = Some ch \<and> (ch \<noteq> 0 \<longrightarrow> unicode_decomp_char ch False = Some [c0, c1])) \<and>
   (i < length unicode_comp_table \<longrightarrow>
     (\<exists>ch p0 p1. comp_entry (unicode_comp_table ! i) = Some (ch, [p0, p1]) \<and> ch \<noteq> 0 \<and> unicode_compose_pair p0 p1 = Some ch))"
proof
  show "\<exists>ch. unicode_compose_pair c0 c1 = Some ch \<and> (ch \<noteq> 0 \<longrightarrow> unicode_decomp_char ch False = Some [c0, c1])"
    using compose_search_sound [of 0 "int (length unicode_comp_table) - 1" c0 c1] by (auto simp: unicode_compose_pair_def)
  show "i < length unicode_comp_table \<longrightarrow>
     (\<exists>ch p0 p1. comp_entry (unicode_comp_table ! i) = Some (ch, [p0, p1]) \<and> ch \<noteq> 0 \<and> unicode_compose_pair p0 p1 = Some ch)"
  proof
    assume i: "i < length unicode_comp_table"
    obtain ps where ps: "\<And>i. i < length unicode_comp_table \<Longrightarrow> \<exists>ch. comp_entry (unicode_comp_table ! i) = Some (ch, [fst (ps ! i), snd (ps ! i)]) \<and>
       unicode_decomp_char ch False = Some [fst (ps ! i), snd (ps ! i)] \<and> ch \<noteq> 0"
      "\<And>i. i < length unicode_comp_table \<Longrightarrow> unat (fst (ps ! i)) < 1000000 \<and> unat (snd (ps ! i)) < 1000000"
      "\<And>i j. i < j \<Longrightarrow> j < length unicode_comp_table \<Longrightarrow>
       pair_less (unat (fst (ps ! i)), unat (snd (ps ! i))) (unat (fst (ps ! j)), unat (snd (ps ! j)))"
      using comp_table_entries by metis
    obtain ch where ch: "comp_entry (unicode_comp_table ! i) = Some (ch, [fst (ps ! i), snd (ps ! i)])" "ch \<noteq> 0"
      using ps(1) [OF i] by blast
    have "compose_search (fst (ps ! i)) (snd (ps ! i)) 0 (int (length unicode_comp_table) - 1) = Some ch"
      using ps(1) i by (intro compose_search_complete [OF _ ps(2,3) i ch(1)]) (blast, auto)
    then show "\<exists>ch p0 p1. comp_entry (unicode_comp_table ! i) = Some (ch, [p0, p1]) \<and> ch \<noteq> 0 \<and> unicode_compose_pair p0 p1 = Some ch"
      using ch by (auto simp: unicode_compose_pair_def)
  qed
qed

theorem compose_pair_inverts_witness:
  "\<exists>ch p0 p1. comp_entry (unicode_comp_table ! 0) = Some (ch, [p0, p1]) \<and> ch \<noteq> 0 \<and> unicode_compose_pair p0 p1 = Some ch"
  using compose_pair_inverts [of 0 0 0] by (simp add: unicode_comp_table_def unicode_comp_table_0_def)

text \<open>
  Property C31. Hangul: composing the two or three jamo that the arithmetic decomposition of a syllable
  yields, from left to right, gives the syllable back.
\<close>

theorem hangul_roundtrip:
  assumes "is_hangul_syllable c"
  shows "case hangul_decomp c of
      l # v # ts \<Rightarrow> \<exists>lv. compose_pair l v = Some lv \<and>
        (case ts of [] \<Rightarrow> lv = c | [t] \<Rightarrow> compose_pair lv t = Some c | _ \<Rightarrow> False)
    | _ \<Rightarrow> False"
proof -
  let ?s = "c - 0xac00"
  note b = hangul_bounds [OF assms]
  show ?thesis
  proof (cases "?s mod 28 = 0")
    case True
    then show ?thesis using hangul_lv [OF b(2)] by (simp add: hangul_decomp_def Let_def)
  next
    case False
    then show ?thesis using hangul_lv [OF b(2)] hangul_lvt [OF b(2) refl False] by (simp add: hangul_decomp_def Let_def)
  qed
qed

theorem hangul_roundtrip_witness:
  "hangul_decomp 0xac01 = [0x1100, 0x1161, 0x11a8] \<and> (\<exists>lv. compose_pair 0x1100 0x1161 = Some lv \<and> compose_pair lv 0x11a8 = Some 0xac01)"
proof -
  have d: "hangul_decomp 0xac01 = [0x1100, 0x1161, 0x11a8]" by (simp add: hangul_decomp_def Let_def)
  show ?thesis using hangul_roundtrip [of "0xac01"] by (simp add: d is_hangul_syllable_def)
qed

text \<open>
  The range test of the trailing consonant starts at \<^verbatim>\<open>0x11a7\<close>, one below the first trailing consonant:
  the vowel jamo U+11A7 after a syllable without a trailing consonant is dropped.
\<close>

lemma hangul_drops_11a7: "compose_pair 0xac00 0x11a7 = Some 0xac00"
  by (simp add: compose_pair_def)

end
