(* ===== verification/UnicodeProp.thy ===== *)
theory UnicodeProp
  imports UnicodeCase UnicodePropTables
begin

text \<open>
  The character sets of \<^verbatim>\<open>quickjs/libunicode.c\<close> that regular expressions name: general categories, scripts
  and their extensions, binary properties, the sets of characters that a case conversion changes, and
  the small stack machine \<open>unicode_prop_ops\<close> that combines them. Reads outside a table, failed
  assertions and the endless error loop of \<open>unicode_script\<close> are the value \<open>None\<close>; return codes are those of the C
  functions (0, -1 for a failed allocation, -2 for an unknown name).
\<close>

section \<open>Enumerations\<close>

text \<open>The enumerations of the table header; a value's number is its position.\<close>

datatype (plugins only: size code) unicode_gc =
  UNICODE_GC_Cn | UNICODE_GC_Lu | UNICODE_GC_Ll | UNICODE_GC_Lt | UNICODE_GC_Lm | UNICODE_GC_Lo
| UNICODE_GC_Mn | UNICODE_GC_Mc | UNICODE_GC_Me | UNICODE_GC_Nd | UNICODE_GC_Nl | UNICODE_GC_No
| UNICODE_GC_Sm | UNICODE_GC_Sc | UNICODE_GC_Sk | UNICODE_GC_So | UNICODE_GC_Pc | UNICODE_GC_Pd
| UNICODE_GC_Ps | UNICODE_GC_Pe | UNICODE_GC_Pi | UNICODE_GC_Pf | UNICODE_GC_Po | UNICODE_GC_Zs
| UNICODE_GC_Zl | UNICODE_GC_Zp | UNICODE_GC_Cc | UNICODE_GC_Cf | UNICODE_GC_Cs | UNICODE_GC_Co
| UNICODE_GC_LC | UNICODE_GC_L | UNICODE_GC_M | UNICODE_GC_N | UNICODE_GC_S | UNICODE_GC_P
| UNICODE_GC_Z | UNICODE_GC_C

definition unicode_gcs :: "unicode_gc list" where
  "unicode_gcs = [
    UNICODE_GC_Cn, UNICODE_GC_Lu, UNICODE_GC_Ll, UNICODE_GC_Lt, UNICODE_GC_Lm, UNICODE_GC_Lo,
    UNICODE_GC_Mn, UNICODE_GC_Mc, UNICODE_GC_Me, UNICODE_GC_Nd, UNICODE_GC_Nl, UNICODE_GC_No,
    UNICODE_GC_Sm, UNICODE_GC_Sc, UNICODE_GC_Sk, UNICODE_GC_So, UNICODE_GC_Pc, UNICODE_GC_Pd,
    UNICODE_GC_Ps, UNICODE_GC_Pe, UNICODE_GC_Pi, UNICODE_GC_Pf, UNICODE_GC_Po, UNICODE_GC_Zs,
    UNICODE_GC_Zl, UNICODE_GC_Zp, UNICODE_GC_Cc, UNICODE_GC_Cf, UNICODE_GC_Cs, UNICODE_GC_Co,
    UNICODE_GC_LC, UNICODE_GC_L, UNICODE_GC_M, UNICODE_GC_N, UNICODE_GC_S, UNICODE_GC_P,
    UNICODE_GC_Z, UNICODE_GC_C]"

datatype (plugins only: size code) unicode_prop_id =
  UNICODE_PROP_Hyphen | UNICODE_PROP_Other_Math | UNICODE_PROP_Other_Alphabetic
| UNICODE_PROP_Other_Lowercase | UNICODE_PROP_Other_Uppercase | UNICODE_PROP_Other_Grapheme_Extend
| UNICODE_PROP_Other_Default_Ignorable_Code_Point | UNICODE_PROP_Other_ID_Start
| UNICODE_PROP_Other_ID_Continue | UNICODE_PROP_Prepended_Concatenation_Mark
| UNICODE_PROP_ID_Continue1 | UNICODE_PROP_XID_Start1 | UNICODE_PROP_XID_Continue1
| UNICODE_PROP_Changes_When_Titlecased1 | UNICODE_PROP_Changes_When_Casefolded1
| UNICODE_PROP_Changes_When_NFKC_Casefolded1 | UNICODE_PROP_ASCII_Hex_Digit
| UNICODE_PROP_Bidi_Control | UNICODE_PROP_Dash | UNICODE_PROP_Deprecated | UNICODE_PROP_Diacritic
| UNICODE_PROP_Extender | UNICODE_PROP_Hex_Digit | UNICODE_PROP_IDS_Binary_Operator
| UNICODE_PROP_IDS_Trinary_Operator | UNICODE_PROP_Ideographic | UNICODE_PROP_Join_Control
| UNICODE_PROP_Logical_Order_Exception | UNICODE_PROP_Noncharacter_Code_Point
| UNICODE_PROP_Pattern_Syntax | UNICODE_PROP_Pattern_White_Space | UNICODE_PROP_Quotation_Mark
| UNICODE_PROP_Radical | UNICODE_PROP_Regional_Indicator | UNICODE_PROP_Sentence_Terminal
| UNICODE_PROP_Soft_Dotted | UNICODE_PROP_Terminal_Punctuation | UNICODE_PROP_Unified_Ideograph
| UNICODE_PROP_Variation_Selector | UNICODE_PROP_White_Space | UNICODE_PROP_Bidi_Mirrored
| UNICODE_PROP_Emoji | UNICODE_PROP_Emoji_Component | UNICODE_PROP_Emoji_Modifier
| UNICODE_PROP_Emoji_Modifier_Base | UNICODE_PROP_Emoji_Presentation
| UNICODE_PROP_Extended_Pictographic | UNICODE_PROP_Default_Ignorable_Code_Point
| UNICODE_PROP_ID_Start | UNICODE_PROP_Case_Ignorable | UNICODE_PROP_ASCII
| UNICODE_PROP_Alphabetic | UNICODE_PROP_Any | UNICODE_PROP_Assigned | UNICODE_PROP_Cased
| UNICODE_PROP_Changes_When_Casefolded | UNICODE_PROP_Changes_When_Casemapped
| UNICODE_PROP_Changes_When_Lowercased | UNICODE_PROP_Changes_When_NFKC_Casefolded
| UNICODE_PROP_Changes_When_Titlecased | UNICODE_PROP_Changes_When_Uppercased
| UNICODE_PROP_Grapheme_Base | UNICODE_PROP_Grapheme_Extend | UNICODE_PROP_ID_Continue
| UNICODE_PROP_Lowercase | UNICODE_PROP_Math | UNICODE_PROP_Uppercase | UNICODE_PROP_XID_Continue
| UNICODE_PROP_XID_Start | UNICODE_PROP_Cased1

definition unicode_prop_ids :: "unicode_prop_id list" where
  "unicode_prop_ids = [
    UNICODE_PROP_Hyphen, UNICODE_PROP_Other_Math, UNICODE_PROP_Other_Alphabetic,
    UNICODE_PROP_Other_Lowercase, UNICODE_PROP_Other_Uppercase,
    UNICODE_PROP_Other_Grapheme_Extend, UNICODE_PROP_Other_Default_Ignorable_Code_Point,
    UNICODE_PROP_Other_ID_Start, UNICODE_PROP_Other_ID_Continue,
    UNICODE_PROP_Prepended_Concatenation_Mark, UNICODE_PROP_ID_Continue1,
    UNICODE_PROP_XID_Start1, UNICODE_PROP_XID_Continue1, UNICODE_PROP_Changes_When_Titlecased1,
    UNICODE_PROP_Changes_When_Casefolded1, UNICODE_PROP_Changes_When_NFKC_Casefolded1,
    UNICODE_PROP_ASCII_Hex_Digit, UNICODE_PROP_Bidi_Control, UNICODE_PROP_Dash,
    UNICODE_PROP_Deprecated, UNICODE_PROP_Diacritic, UNICODE_PROP_Extender,
    UNICODE_PROP_Hex_Digit, UNICODE_PROP_IDS_Binary_Operator,
    UNICODE_PROP_IDS_Trinary_Operator, UNICODE_PROP_Ideographic, UNICODE_PROP_Join_Control,
    UNICODE_PROP_Logical_Order_Exception, UNICODE_PROP_Noncharacter_Code_Point,
    UNICODE_PROP_Pattern_Syntax, UNICODE_PROP_Pattern_White_Space, UNICODE_PROP_Quotation_Mark,
    UNICODE_PROP_Radical, UNICODE_PROP_Regional_Indicator, UNICODE_PROP_Sentence_Terminal,
    UNICODE_PROP_Soft_Dotted, UNICODE_PROP_Terminal_Punctuation,
    UNICODE_PROP_Unified_Ideograph, UNICODE_PROP_Variation_Selector, UNICODE_PROP_White_Space,
    UNICODE_PROP_Bidi_Mirrored, UNICODE_PROP_Emoji, UNICODE_PROP_Emoji_Component,
    UNICODE_PROP_Emoji_Modifier, UNICODE_PROP_Emoji_Modifier_Base,
    UNICODE_PROP_Emoji_Presentation, UNICODE_PROP_Extended_Pictographic,
    UNICODE_PROP_Default_Ignorable_Code_Point, UNICODE_PROP_ID_Start,
    UNICODE_PROP_Case_Ignorable, UNICODE_PROP_ASCII, UNICODE_PROP_Alphabetic, UNICODE_PROP_Any,
    UNICODE_PROP_Assigned, UNICODE_PROP_Cased, UNICODE_PROP_Changes_When_Casefolded,
    UNICODE_PROP_Changes_When_Casemapped, UNICODE_PROP_Changes_When_Lowercased,
    UNICODE_PROP_Changes_When_NFKC_Casefolded, UNICODE_PROP_Changes_When_Titlecased,
    UNICODE_PROP_Changes_When_Uppercased, UNICODE_PROP_Grapheme_Base,
    UNICODE_PROP_Grapheme_Extend, UNICODE_PROP_ID_Continue, UNICODE_PROP_Lowercase,
    UNICODE_PROP_Math, UNICODE_PROP_Uppercase, UNICODE_PROP_XID_Continue,
    UNICODE_PROP_XID_Start, UNICODE_PROP_Cased1]"

definition enum_num :: "'a list \<Rightarrow> 'a \<Rightarrow> nat" where
  "enum_num es x = length (takeWhile (\<lambda>y. y \<noteq> x) es)"

abbreviation gc_num :: "unicode_gc \<Rightarrow> nat" where "gc_num \<equiv> enum_num unicode_gcs"
abbreviation prop_num :: "unicode_prop_id \<Rightarrow> nat" where "prop_num \<equiv> enum_num unicode_prop_ids"

definition UNICODE_SCRIPT_Unknown :: u32 where "UNICODE_SCRIPT_Unknown = 0"
definition UNICODE_SCRIPT_Common :: u32 where "UNICODE_SCRIPT_Common = 25"
definition UNICODE_SCRIPT_Inherited :: u32 where "UNICODE_SCRIPT_Inherited = 55"

section \<open>Name lookup\<close>

text \<open>
  \<open>find_name\<close> is both loops of \<open>unicode_find_name\<close>: \<open>start\<close> says that \<open>p\<close> is at the start of an entry (where the
  outer loop tests for the end of the table), otherwise \<open>p\<close> is behind a comma. \<^verbatim>\<open>strchr\<close> and \<^verbatim>\<open>strlen\<close> look
  at the bytes before the next NUL. The name is the bytes before its NUL.
\<close>

definition alias_len :: "bytes \<Rightarrow> nat" where
  "alias_len p = length (takeWhile (\<lambda>b. b \<noteq> 0 \<and> b \<noteq> 0x2c) p)"

definition has_comma :: "bytes \<Rightarrow> bool" where
  "has_comma p \<longleftrightarrow> 0x2c \<in> set (takeWhile (\<lambda>b. b \<noteq> 0) p)"

function find_name :: "bytes \<Rightarrow> bytes \<Rightarrow> int \<Rightarrow> bool \<Rightarrow> int option" where
  "find_name p name pos start =
     (if p = [] then None
      else if start \<and> hd p = 0 then Some (-1)
      else
        let len = alias_len p in
        if len = length name \<and> take len p = name then Some pos
        else if has_comma p then find_name (drop (len + 1) p) name pos False
        else find_name (drop (len + 1) p) name (pos + 1) True)"
  by pat_completeness auto
termination by (relation "measure (\<lambda>(p, name, pos, start). length p)") (auto simp: Let_def)

declare find_name.simps [simp del]

definition unicode_find_name :: "bytes \<Rightarrow> bytes \<Rightarrow> int option" where
  "unicode_find_name name_table name = find_name name_table name 0 True"

section \<open>Scripts\<close>

definition script_run_len :: "u32 \<Rightarrow> bytes \<Rightarrow> (u32 \<times> bytes) option" where
  "script_run_len n p =
     (if n < 96 then Some (n, p)
      else if n < 112 then
        (case p of x # p \<Rightarrow> Some ((push_bit 8 (n - 96) OR ucast x) + 96, p) | _ \<Rightarrow> None)
      else
        (case p of
           x # y # p \<Rightarrow> Some ((push_bit 16 (n - 112) OR push_bit 8 (ucast x) OR ucast y) + (96 + push_bit 12 1), p)
         | _ \<Rightarrow> None))"

definition script_value :: "u32 \<Rightarrow> bytes \<Rightarrow> (u32 \<times> bytes) option" where
  "script_value type p = (if type = 0 then Some (0, p) else (case p of x # p \<Rightarrow> Some (ucast x, p) | [] \<Rightarrow> None))"

lemma script_run_len_decreases: "script_run_len n p = Some (m, q) \<Longrightarrow> length q \<le> length p"
  by (auto simp: script_run_len_def split: if_splits list.splits)

lemma script_value_decreases: "script_value ty p = Some (v, q) \<Longrightarrow> length q \<le> length p"
  by (auto simp: script_value_def split: if_splits list.splits)

function script_loop :: "char_range \<Rightarrow> bytes \<Rightarrow> u32 \<Rightarrow> u32 \<Rightarrow> (char_range \<times> int) option" where
  "script_loop cr [] c script_idx = Some (cr, 0)"
| "script_loop cr (b # p) c script_idx =
     (case script_run_len (ucast b AND 0x7f) p of
        None \<Rightarrow> None
      | Some (n, p) \<Rightarrow>
          (case script_value (drop_bit 7 (ucast b)) p of
             None \<Rightarrow> None
           | Some (v, p) \<Rightarrow>
               let c1 = c + n + 1 in
               case (if v = script_idx then cr_add_interval cr c c1 else (cr, 0)) of
                 (cr, r) \<Rightarrow> if r \<noteq> 0 then Some (cr, -1) else script_loop cr p c1 script_idx))"
  by pat_completeness auto
termination
  by (relation "measure (\<lambda>(cr, p, c, i). length p)") (auto dest!: script_run_len_decreases script_value_decreases)

definition ext_run_len :: "u32 \<Rightarrow> bytes \<Rightarrow> (u32 \<times> bytes) option" where
  "ext_run_len b p =
     (if b < 128 then Some (b, p)
      else if b < 128 + 64 then
        (case p of x # p \<Rightarrow> Some ((push_bit 8 (b - 128) OR ucast x) + 128, p) | _ \<Rightarrow> None)
      else
        (case p of
           x # y # p \<Rightarrow> Some ((push_bit 16 (b - 128 - 64) OR push_bit 8 (ucast x) OR ucast y) + (128 + push_bit 14 1), p)
         | _ \<Rightarrow> None))"

lemma ext_run_len_decreases: "ext_run_len n p = Some (m, q) \<Longrightarrow> length q \<le> length p"
  by (auto simp: ext_run_len_def split: if_splits list.splits)

text \<open>The scripts of a run of the extension table: \<open>v_len\<close> bytes. Common and Inherited are left out of them.\<close>

definition ext_match :: "bool \<Rightarrow> u32 \<Rightarrow> bytes \<Rightarrow> bool" where
  "ext_match is_common script_idx vs \<longleftrightarrow>
     (if is_common then vs \<noteq> [] else list_ex (\<lambda>x. ucast x = script_idx) vs)"

function script_ext_loop :: "char_range \<Rightarrow> bytes \<Rightarrow> u32 \<Rightarrow> bool \<Rightarrow> u32 \<Rightarrow> (char_range \<times> int) option" where
  "script_ext_loop cr [] c is_common script_idx = Some (cr, 0)"
| "script_ext_loop cr (b # p) c is_common script_idx =
     (case ext_run_len (ucast b) p of
        Some (n, v_len # p) \<Rightarrow>
          if unat v_len \<le> length p then
            let c1 = c + n + 1 in
            case (if ext_match is_common script_idx (take (unat v_len) p) then cr_add_interval cr c c1 else (cr, 0)) of
              (cr, r) \<Rightarrow>
                if r \<noteq> 0 then Some (cr, -1)
                else script_ext_loop cr (drop (unat v_len) p) c1 is_common script_idx
          else None
      | _ \<Rightarrow> None)"
  by pat_completeness auto
termination
  by (relation "measure (\<lambda>(cr, p, c, k, i). length p)") (auto dest!: ext_run_len_decreases)

text \<open>
  Several ranges share one allocator. Its clock \<open>t\<close> (the number of requests so far) is passed from one to
  the next: \<open>cr_new\<close> is \<^verbatim>\<open>cr_init\<close> with the callback of \<open>cr\<close> at that time and \<open>cr_at\<close> resumes work on a range. A
  call of \<^verbatim>\<open>cr_free\<close> is one tick.
\<close>

definition cr_new :: "char_range \<Rightarrow> nat \<Rightarrow> char_range" where
  "cr_new cr t = cr_init (\<lambda>_ _. True) 0 t (Some (cr_realloc_func cr))"

definition cr_at :: "nat \<Rightarrow> char_range \<Rightarrow> char_range" where
  "cr_at t cr = cr\<lparr>mem_opaque := t\<rparr>"

text \<open>The last part of \<open>unicode_script\<close>, which combines the script with its extensions.\<close>

definition script_combine :: "char_range \<Rightarrow> char_range \<Rightarrow> char_range \<Rightarrow> bool \<Rightarrow> (char_range \<times> int) option" where
  "script_combine cr cr1 cr2 is_common =
     (case (if is_common then cr_invert cr2 else (cr2, 0)) of (cr2, r) \<Rightarrow>
        if r \<noteq> 0 then None
        else
          case cr_op (cr_at (mem_opaque cr2) cr) (cr_points cr1) (cr_points cr2)
                 (if is_common then CR_OP_INTER else CR_OP_UNION) of (cr, r) \<Rightarrow>
            if r \<noteq> 0 then None else Some (cr_at (mem_opaque cr + 2) cr, 0))"

text \<open>At the label \<^verbatim>\<open>fail\<close> the function jumps to \<^verbatim>\<open>fail\<close> again: it does not return.\<close>

definition unicode_script :: "char_range \<Rightarrow> bytes \<Rightarrow> bool \<Rightarrow> (char_range \<times> int) option" where
  "unicode_script cr script_name is_ext =
     (case unicode_find_name unicode_script_name_table script_name of
        None \<Rightarrow> None
      | Some idx \<Rightarrow>
          if idx < 0 then Some (cr, -2)
          else
            let script_idx = of_int idx + (UNICODE_SCRIPT_Unknown + 1);
                is_common = (script_idx = UNICODE_SCRIPT_Common \<or> script_idx = UNICODE_SCRIPT_Inherited)
            in case script_loop (if is_ext then cr_new cr (mem_opaque cr) else cr) unicode_script_table 0 script_idx of
                 None \<Rightarrow> None
               | Some (cr1, r) \<Rightarrow>
                   if r \<noteq> 0 then None
                   else if \<not> is_ext then Some (cr1, 0)
                   else
                     case script_ext_loop (cr_new cr (mem_opaque cr1)) unicode_script_ext_table 0 is_common script_idx of
                       None \<Rightarrow> None
                     | Some (cr2, r) \<Rightarrow> if r \<noteq> 0 then None else script_combine cr cr1 cr2 is_common)"

section \<open>General categories\<close>

definition M :: "unicode_gc \<Rightarrow> u32" where
  "M g = push_bit (gc_num g) 1"

definition gc_run_len :: "u32 \<Rightarrow> bytes \<Rightarrow> (u32 \<times> bytes) option" where
  "gc_run_len n p =
     (if n = 7 then
        (case p of
           [] \<Rightarrow> None
         | x # p \<Rightarrow>
             let n = ucast x in
             if n < 128 then Some (n + 7, p)
             else if n < 128 + 64 then
               (case p of x # p \<Rightarrow> Some ((push_bit 8 (n - 128) OR ucast x) + (7 + 128), p) | _ \<Rightarrow> None)
             else
               (case p of
                  x # y # p \<Rightarrow>
                    Some ((push_bit 16 (n - 128 - 64) OR push_bit 8 (ucast x) OR ucast y) + (7 + 128 + push_bit 14 1), p)
                | _ \<Rightarrow> None))
      else Some (n, p))"

lemma gc_run_len_decreases: "gc_run_len n p = Some (m, q) \<Longrightarrow> length q \<le> length p"
  by (auto simp: gc_run_len_def Let_def split: if_splits list.splits)

text \<open>A run of alternating upper and lower case letters, of which every second one is added.\<close>

partial_function (option) gc_alternate :: "char_range \<Rightarrow> u32 \<Rightarrow> u32 \<Rightarrow> (char_range \<times> int) option" where
  "gc_alternate cr c0 c =
     (if c0 < c then
        case cr_add_interval cr c0 (c0 + 1) of (cr, r) \<Rightarrow>
          if r \<noteq> 0 then Some (cr, -1) else gc_alternate cr (c0 + 2) c
      else Some (cr, 0))"

definition gc_add :: "char_range \<Rightarrow> u32 \<Rightarrow> u32 \<Rightarrow> u32 \<Rightarrow> u32 \<Rightarrow> (char_range \<times> int) option" where
  "gc_add cr gc_mask v c0 c =
     (if v = 31 then
        let b = gc_mask AND (M UNICODE_GC_Lu OR M UNICODE_GC_Ll) in
        if b \<noteq> 0 then
          if b = M UNICODE_GC_Lu OR M UNICODE_GC_Ll then Some (cr_add_interval cr c0 c)
          else gc_alternate cr (c0 + of_bool (gc_mask AND M UNICODE_GC_Ll \<noteq> 0)) c
        else Some (cr, 0)
      else if drop_bit (unat v) gc_mask AND 1 = 1 then Some (cr_add_interval cr c0 c)
      else Some (cr, 0))"

function gc_loop :: "char_range \<Rightarrow> bytes \<Rightarrow> u32 \<Rightarrow> u32 \<Rightarrow> (char_range \<times> int) option" where
  "gc_loop cr [] c gc_mask = Some (cr, 0)"
| "gc_loop cr (b # p) c gc_mask =
     (case gc_run_len (drop_bit 5 (ucast b)) p of
        None \<Rightarrow> None
      | Some (n, p) \<Rightarrow>
          let c0 = c; c = c + (n + 1) in
          case gc_add cr gc_mask (ucast b AND 0x1f) c0 c of
            None \<Rightarrow> None
          | Some (cr, r) \<Rightarrow> if r \<noteq> 0 then Some (cr, -1) else gc_loop cr p c gc_mask)"
  by pat_completeness auto
termination by (relation "measure (\<lambda>(cr, p, c, m). length p)") (auto dest!: gc_run_len_decreases)

definition unicode_general_category1 :: "char_range \<Rightarrow> u32 \<Rightarrow> (char_range \<times> int) option" where
  "unicode_general_category1 cr gc_mask = gc_loop cr unicode_gc_table 0 gc_mask"

definition unicode_gc_mask_table :: "u32 list" where
  "unicode_gc_mask_table = [
     M UNICODE_GC_Lu OR M UNICODE_GC_Ll OR M UNICODE_GC_Lt,
     M UNICODE_GC_Lu OR M UNICODE_GC_Ll OR M UNICODE_GC_Lt OR M UNICODE_GC_Lm OR M UNICODE_GC_Lo,
     M UNICODE_GC_Mn OR M UNICODE_GC_Mc OR M UNICODE_GC_Me,
     M UNICODE_GC_Nd OR M UNICODE_GC_Nl OR M UNICODE_GC_No,
     M UNICODE_GC_Sm OR M UNICODE_GC_Sc OR M UNICODE_GC_Sk OR M UNICODE_GC_So,
     M UNICODE_GC_Pc OR M UNICODE_GC_Pd OR M UNICODE_GC_Ps OR M UNICODE_GC_Pe OR M UNICODE_GC_Pi
       OR M UNICODE_GC_Pf OR M UNICODE_GC_Po,
     M UNICODE_GC_Zs OR M UNICODE_GC_Zl OR M UNICODE_GC_Zp,
     M UNICODE_GC_Cc OR M UNICODE_GC_Cf OR M UNICODE_GC_Cs OR M UNICODE_GC_Co OR M UNICODE_GC_Cn]"

definition unicode_general_category :: "char_range \<Rightarrow> bytes \<Rightarrow> (char_range \<times> int) option" where
  "unicode_general_category cr gc_name =
     (case unicode_find_name unicode_gc_name_table gc_name of
        None \<Rightarrow> None
      | Some gc_idx \<Rightarrow>
          if gc_idx < 0 then Some (cr, -2)
          else if nat gc_idx \<le> gc_num UNICODE_GC_Co then unicode_general_category1 cr (push_bit (nat gc_idx) 1)
          else
            (case tab_get unicode_gc_mask_table (nat gc_idx - gc_num UNICODE_GC_LC) of
               None \<Rightarrow> None
             | Some gc_mask \<Rightarrow> unicode_general_category1 cr gc_mask))"

section \<open>Binary properties and case conversions\<close>

definition unicode_prop1 :: "char_range \<Rightarrow> nat \<Rightarrow> (char_range \<times> int) option" where
  "unicode_prop1 cr prop_idx =
     (case tab_get unicode_prop_table prop_idx of
        None \<Rightarrow> None
      | Some table \<Rightarrow> unicode_prop1_loop cr table 0 False)"

abbreviation CASE_U :: u32 where "CASE_U \<equiv> 1"
abbreviation CASE_L :: u32 where "CASE_L \<equiv> 2"
abbreviation CASE_F :: u32 where "CASE_F \<equiv> 4"

text \<open>The types of runs that each conversion may change, and the union for a mask of conversions.\<close>

definition tab_run_mask :: "run_type list list" where
  "tab_run_mask = [
     [RUN_TYPE_U, RUN_TYPE_UF, RUN_TYPE_UL, RUN_TYPE_LSU, RUN_TYPE_U2L_399_EXT2, RUN_TYPE_UF_D20,
      RUN_TYPE_UF_D1_EXT, RUN_TYPE_U_EXT, RUN_TYPE_U_EXT2, RUN_TYPE_U_EXT3],
     [RUN_TYPE_L, RUN_TYPE_LF, RUN_TYPE_UL, RUN_TYPE_LSU, RUN_TYPE_U2L_399_EXT2, RUN_TYPE_LF_EXT, RUN_TYPE_L_EXT2],
     [RUN_TYPE_UF, RUN_TYPE_LF, RUN_TYPE_UL, RUN_TYPE_LSU, RUN_TYPE_U2L_399_EXT2, RUN_TYPE_LF_EXT,
      RUN_TYPE_UF_D20, RUN_TYPE_UF_D1_EXT, RUN_TYPE_LF_EXT]]"

definition case1_types :: "u32 \<Rightarrow> run_type list" where
  "case1_types case_mask =
     concat (map (\<lambda>i. if drop_bit i case_mask AND 1 = 1 then tab_run_mask ! i else []) [0..<3])"

text \<open>The loop over every second character of a run, and the body for one run.\<close>

function case1_alternate :: "char_range \<Rightarrow> u32 \<Rightarrow> nat \<Rightarrow> nat \<Rightarrow> char_range \<times> int" where
  "case1_alternate cr code i len =
     (if i < len then
        case cr_add_interval cr (code + of_nat i) (code + of_nat i + 1) of (cr, r) \<Rightarrow>
          if r \<noteq> 0 then (cr, -1) else case1_alternate cr code (i + 2) len
      else (cr, 0))"
  by pat_completeness auto
termination by (relation "measure (\<lambda>(cr, code, i, len). len - i)") auto

declare case1_alternate.simps [simp del]

definition add_if :: "bool \<Rightarrow> char_range \<times> int \<Rightarrow> u32 \<Rightarrow> u32 \<Rightarrow> char_range \<times> int" where
  "add_if b s c0 c = (case s of (cr, r) \<Rightarrow> if r \<noteq> 0 then (cr, -1) else if b then cr_add_interval cr c0 c else (cr, 0))"

definition case1_run :: "char_range \<Rightarrow> u32 \<Rightarrow> run_type \<Rightarrow> u32 \<Rightarrow> u32 \<Rightarrow> char_range \<times> int" where
  "case1_run cr case_mask type code len =
     (let both = (case_mask AND CASE_U \<noteq> 0 \<and> case_mask AND (CASE_L OR CASE_F) \<noteq> 0) in
      if type = RUN_TYPE_UL \<and> \<not> both then
        case1_alternate cr (code + of_bool (case_mask AND CASE_U \<noteq> 0)) 0 (unat len)
      else if type = RUN_TYPE_LSU \<and> \<not> both then
        let s = add_if (case_mask AND CASE_U = 0) (cr, 0) code (code + 1);
            s = add_if True s (code + 1) (code + 2)
        in add_if (case_mask AND CASE_U \<noteq> 0) s (code + 2) (code + 3)
      else cr_add_interval cr code (code + len))"

fun case1_loop :: "char_range \<Rightarrow> u32 \<Rightarrow> run_type list \<Rightarrow> u32 list \<Rightarrow> char_range \<times> int" where
  "case1_loop cr case_mask types [] = (cr, 0)"
| "case1_loop cr case_mask types (v # vs) =
     (if run_type_of v \<in> set types then
        case case1_run cr case_mask (run_type_of v) (run_code 17 v) (run_len 17 v) of (cr, r) \<Rightarrow>
          if r \<noteq> 0 then (cr, -1) else case1_loop cr case_mask types vs
      else case1_loop cr case_mask types vs)"

definition unicode_case1 :: "char_range \<Rightarrow> u32 \<Rightarrow> char_range \<times> int" where
  "unicode_case1 cr case_mask =
     (if case_mask = 0 then (cr, 0) else case1_loop cr case_mask (case1_types case_mask) case_conv_table1)"

section \<open>The stack machine\<close>

datatype prop_op =
  POP_GC u32 | POP_PROP nat | POP_CASE u32 | POP_UNION | POP_INTER | POP_XOR | POP_INVERT | POP_END

abbreviation POP_STACK_LEN_MAX :: nat where "POP_STACK_LEN_MAX \<equiv> 4"

fun pop_cr_op :: "prop_op \<Rightarrow> char_range_op option" where
  "pop_cr_op POP_UNION = Some CR_OP_UNION"
| "pop_cr_op POP_INTER = Some CR_OP_INTER"
| "pop_cr_op POP_XOR = Some CR_OP_XOR"
| "pop_cr_op _ = None"

text \<open>
  The operand of the three operations that push, built in a fresh range; the top of the stack is the
  head of the list, and \<open>t\<close> is the allocator's clock.
\<close>

fun pop_leaf :: "char_range \<Rightarrow> prop_op \<Rightarrow> (char_range \<times> int) option" where
  "pop_leaf cr (POP_GC a) = unicode_general_category1 cr a"
| "pop_leaf cr (POP_PROP a) = unicode_prop1 cr a"
| "pop_leaf cr (POP_CASE a) = Some (unicode_case1 cr a)"
| "pop_leaf cr _ = None"

definition prop_step :: "char_range \<Rightarrow> prop_op \<Rightarrow> char_range list \<Rightarrow> nat \<Rightarrow> (char_range list \<times> nat \<times> int) option" where
  "prop_step cr op stack t =
     (case op of
        POP_INVERT \<Rightarrow>
          (case stack of
             [] \<Rightarrow> None
           | cr1 # stack \<Rightarrow> (case cr_invert (cr_at t cr1) of (cr1, r) \<Rightarrow> Some (cr1 # stack, mem_opaque cr1, r)))
      | POP_END \<Rightarrow> None
      | _ \<Rightarrow>
          if length stack < POP_STACK_LEN_MAX then
            (case pop_cr_op op of
               Some cop \<Rightarrow>
                 (case stack of
                    cr2 # cr1 # stack \<Rightarrow>
                      (case cr_op (cr_new cr t) (cr_points cr1) (cr_points cr2) cop of
                         (cr3, r) \<Rightarrow> Some (cr3 # stack, mem_opaque cr3 + 2, r))
                  | _ \<Rightarrow> None)
             | None \<Rightarrow>
                 (case pop_leaf (cr_new cr t) op of
                    None \<Rightarrow> None
                  | Some (cr1, r) \<Rightarrow> Some (cr1 # stack, mem_opaque cr1, r)))
          else None)"

fun prop_run :: "char_range \<Rightarrow> prop_op list \<Rightarrow> char_range list \<Rightarrow> nat \<Rightarrow> (char_range \<times> int) option" where
  "prop_run cr [] stack t = None"
| "prop_run cr (op # ops) stack t =
     (if op = POP_END then
        case stack of
          [cr1] \<Rightarrow> (case cr_copy (cr_at t cr) cr1 of (cr, r) \<Rightarrow> Some (cr_at (mem_opaque cr + 1) cr, r))
        | _ \<Rightarrow> None
      else
        case prop_step cr op stack t of
          None \<Rightarrow> None
        | Some (stack, t, r) \<Rightarrow>
            if r \<noteq> 0 then Some (cr_at (t + length stack) cr, -1) else prop_run cr ops stack t)"

definition unicode_prop_ops :: "char_range \<Rightarrow> prop_op list \<Rightarrow> (char_range \<times> int) option" where
  "unicode_prop_ops cr ops = prop_run cr ops [] (mem_opaque cr)"

text \<open>The programs of \<open>unicode_prop\<close>; the other properties are tables, ranges or case conversions.\<close>

definition prop_programs :: "(unicode_prop_id \<times> prop_op list) list" where
  "prop_programs = [
     (UNICODE_PROP_Assigned, [
       POP_GC (M UNICODE_GC_Cn), POP_INVERT, POP_END]),
     (UNICODE_PROP_Math, [
       POP_GC (M UNICODE_GC_Sm), POP_PROP (prop_num UNICODE_PROP_Other_Math), POP_UNION, POP_END]),
     (UNICODE_PROP_Lowercase, [
       POP_GC (M UNICODE_GC_Ll), POP_PROP (prop_num UNICODE_PROP_Other_Lowercase), POP_UNION,
       POP_END]),
     (UNICODE_PROP_Uppercase, [
       POP_GC (M UNICODE_GC_Lu), POP_PROP (prop_num UNICODE_PROP_Other_Uppercase), POP_UNION,
       POP_END]),
     (UNICODE_PROP_Cased, [
       POP_GC (M UNICODE_GC_Lu OR M UNICODE_GC_Ll OR M UNICODE_GC_Lt),
       POP_PROP (prop_num UNICODE_PROP_Other_Uppercase), POP_UNION,
       POP_PROP (prop_num UNICODE_PROP_Other_Lowercase), POP_UNION, POP_END]),
     (UNICODE_PROP_Alphabetic, [
       POP_GC (M UNICODE_GC_Lu OR M UNICODE_GC_Ll OR M UNICODE_GC_Lt OR M UNICODE_GC_Lm OR M UNICODE_GC_Lo OR M UNICODE_GC_Nl),
       POP_PROP (prop_num UNICODE_PROP_Other_Uppercase), POP_UNION,
       POP_PROP (prop_num UNICODE_PROP_Other_Lowercase), POP_UNION,
       POP_PROP (prop_num UNICODE_PROP_Other_Alphabetic), POP_UNION, POP_END]),
     (UNICODE_PROP_Grapheme_Base, [
       POP_GC (M UNICODE_GC_Cc OR M UNICODE_GC_Cf OR M UNICODE_GC_Cs OR M UNICODE_GC_Co OR M UNICODE_GC_Cn OR M UNICODE_GC_Zl OR M UNICODE_GC_Zp OR M UNICODE_GC_Me OR M UNICODE_GC_Mn),
       POP_PROP (prop_num UNICODE_PROP_Other_Grapheme_Extend), POP_UNION, POP_INVERT, POP_END]),
     (UNICODE_PROP_Grapheme_Extend, [
       POP_GC (M UNICODE_GC_Me OR M UNICODE_GC_Mn),
       POP_PROP (prop_num UNICODE_PROP_Other_Grapheme_Extend), POP_UNION, POP_END]),
     (UNICODE_PROP_XID_Start, [
       POP_GC (M UNICODE_GC_Lu OR M UNICODE_GC_Ll OR M UNICODE_GC_Lt OR M UNICODE_GC_Lm OR M UNICODE_GC_Lo OR M UNICODE_GC_Nl),
       POP_PROP (prop_num UNICODE_PROP_Other_ID_Start), POP_UNION,
       POP_PROP (prop_num UNICODE_PROP_Pattern_Syntax),
       POP_PROP (prop_num UNICODE_PROP_Pattern_White_Space), POP_UNION,
       POP_PROP (prop_num UNICODE_PROP_XID_Start1), POP_UNION, POP_INVERT, POP_INTER, POP_END]),
     (UNICODE_PROP_XID_Continue, [
       POP_GC (M UNICODE_GC_Lu OR M UNICODE_GC_Ll OR M UNICODE_GC_Lt OR M UNICODE_GC_Lm OR M UNICODE_GC_Lo OR M UNICODE_GC_Nl OR M UNICODE_GC_Mn OR M UNICODE_GC_Mc OR M UNICODE_GC_Nd OR M UNICODE_GC_Pc),
       POP_PROP (prop_num UNICODE_PROP_Other_ID_Start), POP_UNION,
       POP_PROP (prop_num UNICODE_PROP_Other_ID_Continue), POP_UNION,
       POP_PROP (prop_num UNICODE_PROP_Pattern_Syntax),
       POP_PROP (prop_num UNICODE_PROP_Pattern_White_Space), POP_UNION,
       POP_PROP (prop_num UNICODE_PROP_XID_Continue1), POP_UNION, POP_INVERT, POP_INTER, POP_END]),
     (UNICODE_PROP_Changes_When_Titlecased, [
       POP_CASE CASE_U, POP_PROP (prop_num UNICODE_PROP_Changes_When_Titlecased1), POP_XOR, POP_END]),
     (UNICODE_PROP_Changes_When_Casefolded, [
       POP_CASE CASE_F, POP_PROP (prop_num UNICODE_PROP_Changes_When_Casefolded1), POP_XOR, POP_END]),
     (UNICODE_PROP_Changes_When_NFKC_Casefolded, [
       POP_CASE CASE_F, POP_PROP (prop_num UNICODE_PROP_Changes_When_NFKC_Casefolded1), POP_XOR,
       POP_END]),
     (UNICODE_PROP_ID_Continue, [
       POP_PROP (prop_num UNICODE_PROP_ID_Start), POP_PROP (prop_num UNICODE_PROP_ID_Continue1),
       POP_XOR, POP_END])]"

definition prop_program :: "unicode_prop_id \<Rightarrow> prop_op list option" where
  "prop_program pid = map_of prop_programs pid"

definition unicode_prop :: "char_range \<Rightarrow> bytes \<Rightarrow> (char_range \<times> int) option" where
  "unicode_prop cr prop_name =
     (case unicode_find_name unicode_prop_name_table prop_name of
        None \<Rightarrow> None
      | Some idx \<Rightarrow>
          if idx < 0 then Some (cr, -2)
          else
            let prop_idx = nat idx + prop_num UNICODE_PROP_ASCII_Hex_Digit;
                pid = unicode_prop_ids ! prop_idx
            in if pid = UNICODE_PROP_ASCII then Some (cr_add_interval cr 0x00 (0x7f + 1))
               else if pid = UNICODE_PROP_Any then Some (cr_add_interval cr 0x00000 (0x10ffff + 1))
               else if pid = UNICODE_PROP_Changes_When_Uppercased then Some (unicode_case1 cr CASE_U)
               else if pid = UNICODE_PROP_Changes_When_Lowercased then Some (unicode_case1 cr CASE_L)
               else if pid = UNICODE_PROP_Changes_When_Casemapped then Some (unicode_case1 cr (CASE_U OR CASE_L OR CASE_F))
               else
                 case prop_program pid of
                   Some ops \<Rightarrow> unicode_prop_ops cr ops
                 | None \<Rightarrow>
                     if prop_idx \<ge> length unicode_prop_table then Some (cr, -2)
                     else unicode_prop1 cr prop_idx)"

end
