(* ===== verification/TableEval.thy ===== *)
theory TableEval
  imports CharRange
begin

text \<open>
  Evaluation of byte tables in the kernel. The checks of the Unicode tables fold a decoder over some
  thousand bytes; with the values of bytes and their quotients as unconditional equations the
  simplifier does a step in a few rewrites, where the general procedures for words and division would
  need hundreds.
\<close>

lemma unat_u8:
  "unat (0x00 :: u8) = 0" "unat (0x01 :: u8) = 1" "unat (0x02 :: u8) = 2" "unat (0x03 :: u8) = 3"
  "unat (0x04 :: u8) = 4" "unat (0x05 :: u8) = 5" "unat (0x06 :: u8) = 6" "unat (0x07 :: u8) = 7"
  "unat (0x08 :: u8) = 8" "unat (0x09 :: u8) = 9" "unat (0x0a :: u8) = 10" "unat (0x0b :: u8) = 11"
  "unat (0x0c :: u8) = 12" "unat (0x0d :: u8) = 13" "unat (0x0e :: u8) = 14" "unat (0x0f :: u8) = 15"
  "unat (0x10 :: u8) = 16" "unat (0x11 :: u8) = 17" "unat (0x12 :: u8) = 18" "unat (0x13 :: u8) = 19"
  "unat (0x14 :: u8) = 20" "unat (0x15 :: u8) = 21" "unat (0x16 :: u8) = 22" "unat (0x17 :: u8) = 23"
  "unat (0x18 :: u8) = 24" "unat (0x19 :: u8) = 25" "unat (0x1a :: u8) = 26" "unat (0x1b :: u8) = 27"
  "unat (0x1c :: u8) = 28" "unat (0x1d :: u8) = 29" "unat (0x1e :: u8) = 30" "unat (0x1f :: u8) = 31"
  "unat (0x20 :: u8) = 32" "unat (0x21 :: u8) = 33" "unat (0x22 :: u8) = 34" "unat (0x23 :: u8) = 35"
  "unat (0x24 :: u8) = 36" "unat (0x25 :: u8) = 37" "unat (0x26 :: u8) = 38" "unat (0x27 :: u8) = 39"
  "unat (0x28 :: u8) = 40" "unat (0x29 :: u8) = 41" "unat (0x2a :: u8) = 42" "unat (0x2b :: u8) = 43"
  "unat (0x2c :: u8) = 44" "unat (0x2d :: u8) = 45" "unat (0x2e :: u8) = 46" "unat (0x2f :: u8) = 47"
  "unat (0x30 :: u8) = 48" "unat (0x31 :: u8) = 49" "unat (0x32 :: u8) = 50" "unat (0x33 :: u8) = 51"
  "unat (0x34 :: u8) = 52" "unat (0x35 :: u8) = 53" "unat (0x36 :: u8) = 54" "unat (0x37 :: u8) = 55"
  "unat (0x38 :: u8) = 56" "unat (0x39 :: u8) = 57" "unat (0x3a :: u8) = 58" "unat (0x3b :: u8) = 59"
  "unat (0x3c :: u8) = 60" "unat (0x3d :: u8) = 61" "unat (0x3e :: u8) = 62" "unat (0x3f :: u8) = 63"
  "unat (0x40 :: u8) = 64" "unat (0x41 :: u8) = 65" "unat (0x42 :: u8) = 66" "unat (0x43 :: u8) = 67"
  "unat (0x44 :: u8) = 68" "unat (0x45 :: u8) = 69" "unat (0x46 :: u8) = 70" "unat (0x47 :: u8) = 71"
  "unat (0x48 :: u8) = 72" "unat (0x49 :: u8) = 73" "unat (0x4a :: u8) = 74" "unat (0x4b :: u8) = 75"
  "unat (0x4c :: u8) = 76" "unat (0x4d :: u8) = 77" "unat (0x4e :: u8) = 78" "unat (0x4f :: u8) = 79"
  "unat (0x50 :: u8) = 80" "unat (0x51 :: u8) = 81" "unat (0x52 :: u8) = 82" "unat (0x53 :: u8) = 83"
  "unat (0x54 :: u8) = 84" "unat (0x55 :: u8) = 85" "unat (0x56 :: u8) = 86" "unat (0x57 :: u8) = 87"
  "unat (0x58 :: u8) = 88" "unat (0x59 :: u8) = 89" "unat (0x5a :: u8) = 90" "unat (0x5b :: u8) = 91"
  "unat (0x5c :: u8) = 92" "unat (0x5d :: u8) = 93" "unat (0x5e :: u8) = 94" "unat (0x5f :: u8) = 95"
  "unat (0x60 :: u8) = 96" "unat (0x61 :: u8) = 97" "unat (0x62 :: u8) = 98" "unat (0x63 :: u8) = 99"
  "unat (0x64 :: u8) = 100" "unat (0x65 :: u8) = 101" "unat (0x66 :: u8) = 102" "unat (0x67 :: u8) = 103"
  "unat (0x68 :: u8) = 104" "unat (0x69 :: u8) = 105" "unat (0x6a :: u8) = 106" "unat (0x6b :: u8) = 107"
  "unat (0x6c :: u8) = 108" "unat (0x6d :: u8) = 109" "unat (0x6e :: u8) = 110" "unat (0x6f :: u8) = 111"
  "unat (0x70 :: u8) = 112" "unat (0x71 :: u8) = 113" "unat (0x72 :: u8) = 114" "unat (0x73 :: u8) = 115"
  "unat (0x74 :: u8) = 116" "unat (0x75 :: u8) = 117" "unat (0x76 :: u8) = 118" "unat (0x77 :: u8) = 119"
  "unat (0x78 :: u8) = 120" "unat (0x79 :: u8) = 121" "unat (0x7a :: u8) = 122" "unat (0x7b :: u8) = 123"
  "unat (0x7c :: u8) = 124" "unat (0x7d :: u8) = 125" "unat (0x7e :: u8) = 126" "unat (0x7f :: u8) = 127"
  "unat (0x80 :: u8) = 128" "unat (0x81 :: u8) = 129" "unat (0x82 :: u8) = 130" "unat (0x83 :: u8) = 131"
  "unat (0x84 :: u8) = 132" "unat (0x85 :: u8) = 133" "unat (0x86 :: u8) = 134" "unat (0x87 :: u8) = 135"
  "unat (0x88 :: u8) = 136" "unat (0x89 :: u8) = 137" "unat (0x8a :: u8) = 138" "unat (0x8b :: u8) = 139"
  "unat (0x8c :: u8) = 140" "unat (0x8d :: u8) = 141" "unat (0x8e :: u8) = 142" "unat (0x8f :: u8) = 143"
  "unat (0x90 :: u8) = 144" "unat (0x91 :: u8) = 145" "unat (0x92 :: u8) = 146" "unat (0x93 :: u8) = 147"
  "unat (0x94 :: u8) = 148" "unat (0x95 :: u8) = 149" "unat (0x96 :: u8) = 150" "unat (0x97 :: u8) = 151"
  "unat (0x98 :: u8) = 152" "unat (0x99 :: u8) = 153" "unat (0x9a :: u8) = 154" "unat (0x9b :: u8) = 155"
  "unat (0x9c :: u8) = 156" "unat (0x9d :: u8) = 157" "unat (0x9e :: u8) = 158" "unat (0x9f :: u8) = 159"
  "unat (0xa0 :: u8) = 160" "unat (0xa1 :: u8) = 161" "unat (0xa2 :: u8) = 162" "unat (0xa3 :: u8) = 163"
  "unat (0xa4 :: u8) = 164" "unat (0xa5 :: u8) = 165" "unat (0xa6 :: u8) = 166" "unat (0xa7 :: u8) = 167"
  "unat (0xa8 :: u8) = 168" "unat (0xa9 :: u8) = 169" "unat (0xaa :: u8) = 170" "unat (0xab :: u8) = 171"
  "unat (0xac :: u8) = 172" "unat (0xad :: u8) = 173" "unat (0xae :: u8) = 174" "unat (0xaf :: u8) = 175"
  "unat (0xb0 :: u8) = 176" "unat (0xb1 :: u8) = 177" "unat (0xb2 :: u8) = 178" "unat (0xb3 :: u8) = 179"
  "unat (0xb4 :: u8) = 180" "unat (0xb5 :: u8) = 181" "unat (0xb6 :: u8) = 182" "unat (0xb7 :: u8) = 183"
  "unat (0xb8 :: u8) = 184" "unat (0xb9 :: u8) = 185" "unat (0xba :: u8) = 186" "unat (0xbb :: u8) = 187"
  "unat (0xbc :: u8) = 188" "unat (0xbd :: u8) = 189" "unat (0xbe :: u8) = 190" "unat (0xbf :: u8) = 191"
  "unat (0xc0 :: u8) = 192" "unat (0xc1 :: u8) = 193" "unat (0xc2 :: u8) = 194" "unat (0xc3 :: u8) = 195"
  "unat (0xc4 :: u8) = 196" "unat (0xc5 :: u8) = 197" "unat (0xc6 :: u8) = 198" "unat (0xc7 :: u8) = 199"
  "unat (0xc8 :: u8) = 200" "unat (0xc9 :: u8) = 201" "unat (0xca :: u8) = 202" "unat (0xcb :: u8) = 203"
  "unat (0xcc :: u8) = 204" "unat (0xcd :: u8) = 205" "unat (0xce :: u8) = 206" "unat (0xcf :: u8) = 207"
  "unat (0xd0 :: u8) = 208" "unat (0xd1 :: u8) = 209" "unat (0xd2 :: u8) = 210" "unat (0xd3 :: u8) = 211"
  "unat (0xd4 :: u8) = 212" "unat (0xd5 :: u8) = 213" "unat (0xd6 :: u8) = 214" "unat (0xd7 :: u8) = 215"
  "unat (0xd8 :: u8) = 216" "unat (0xd9 :: u8) = 217" "unat (0xda :: u8) = 218" "unat (0xdb :: u8) = 219"
  "unat (0xdc :: u8) = 220" "unat (0xdd :: u8) = 221" "unat (0xde :: u8) = 222" "unat (0xdf :: u8) = 223"
  "unat (0xe0 :: u8) = 224" "unat (0xe1 :: u8) = 225" "unat (0xe2 :: u8) = 226" "unat (0xe3 :: u8) = 227"
  "unat (0xe4 :: u8) = 228" "unat (0xe5 :: u8) = 229" "unat (0xe6 :: u8) = 230" "unat (0xe7 :: u8) = 231"
  "unat (0xe8 :: u8) = 232" "unat (0xe9 :: u8) = 233" "unat (0xea :: u8) = 234" "unat (0xeb :: u8) = 235"
  "unat (0xec :: u8) = 236" "unat (0xed :: u8) = 237" "unat (0xee :: u8) = 238" "unat (0xef :: u8) = 239"
  "unat (0xf0 :: u8) = 240" "unat (0xf1 :: u8) = 241" "unat (0xf2 :: u8) = 242" "unat (0xf3 :: u8) = 243"
  "unat (0xf4 :: u8) = 244" "unat (0xf5 :: u8) = 245" "unat (0xf6 :: u8) = 246" "unat (0xf7 :: u8) = 247"
  "unat (0xf8 :: u8) = 248" "unat (0xf9 :: u8) = 249" "unat (0xfa :: u8) = 250" "unat (0xfb :: u8) = 251"
  "unat (0xfc :: u8) = 252" "unat (0xfd :: u8) = 253" "unat (0xfe :: u8) = 254" "unat (0xff :: u8) = 255"
  by simp_all

lemma byte_div_8:
  "0 div 8 = (0 :: nat)" "1 div 8 = (0 :: nat)" "2 div 8 = (0 :: nat)" "3 div 8 = (0 :: nat)" "4 div 8 = (0 :: nat)"
  "5 div 8 = (0 :: nat)" "6 div 8 = (0 :: nat)" "7 div 8 = (0 :: nat)" "8 div 8 = (1 :: nat)" "9 div 8 = (1 :: nat)"
  "10 div 8 = (1 :: nat)" "11 div 8 = (1 :: nat)" "12 div 8 = (1 :: nat)" "13 div 8 = (1 :: nat)" "14 div 8 = (1 :: nat)"
  "15 div 8 = (1 :: nat)" "16 div 8 = (2 :: nat)" "17 div 8 = (2 :: nat)" "18 div 8 = (2 :: nat)" "19 div 8 = (2 :: nat)"
  "20 div 8 = (2 :: nat)" "21 div 8 = (2 :: nat)" "22 div 8 = (2 :: nat)" "23 div 8 = (2 :: nat)" "24 div 8 = (3 :: nat)"
  "25 div 8 = (3 :: nat)" "26 div 8 = (3 :: nat)" "27 div 8 = (3 :: nat)" "28 div 8 = (3 :: nat)" "29 div 8 = (3 :: nat)"
  "30 div 8 = (3 :: nat)" "31 div 8 = (3 :: nat)" "32 div 8 = (4 :: nat)" "33 div 8 = (4 :: nat)" "34 div 8 = (4 :: nat)"
  "35 div 8 = (4 :: nat)" "36 div 8 = (4 :: nat)" "37 div 8 = (4 :: nat)" "38 div 8 = (4 :: nat)" "39 div 8 = (4 :: nat)"
  "40 div 8 = (5 :: nat)" "41 div 8 = (5 :: nat)" "42 div 8 = (5 :: nat)" "43 div 8 = (5 :: nat)" "44 div 8 = (5 :: nat)"
  "45 div 8 = (5 :: nat)" "46 div 8 = (5 :: nat)" "47 div 8 = (5 :: nat)" "48 div 8 = (6 :: nat)" "49 div 8 = (6 :: nat)"
  "50 div 8 = (6 :: nat)" "51 div 8 = (6 :: nat)" "52 div 8 = (6 :: nat)" "53 div 8 = (6 :: nat)" "54 div 8 = (6 :: nat)"
  "55 div 8 = (6 :: nat)" "56 div 8 = (7 :: nat)" "57 div 8 = (7 :: nat)" "58 div 8 = (7 :: nat)" "59 div 8 = (7 :: nat)"
  "60 div 8 = (7 :: nat)" "61 div 8 = (7 :: nat)" "62 div 8 = (7 :: nat)" "63 div 8 = (7 :: nat)"
  by simp_all

lemma byte_mod_8:
  "0 mod 8 = (0 :: nat)" "1 mod 8 = (1 :: nat)" "2 mod 8 = (2 :: nat)" "3 mod 8 = (3 :: nat)" "4 mod 8 = (4 :: nat)"
  "5 mod 8 = (5 :: nat)" "6 mod 8 = (6 :: nat)" "7 mod 8 = (7 :: nat)" "8 mod 8 = (0 :: nat)" "9 mod 8 = (1 :: nat)"
  "10 mod 8 = (2 :: nat)" "11 mod 8 = (3 :: nat)" "12 mod 8 = (4 :: nat)" "13 mod 8 = (5 :: nat)" "14 mod 8 = (6 :: nat)"
  "15 mod 8 = (7 :: nat)" "16 mod 8 = (0 :: nat)" "17 mod 8 = (1 :: nat)" "18 mod 8 = (2 :: nat)" "19 mod 8 = (3 :: nat)"
  "20 mod 8 = (4 :: nat)" "21 mod 8 = (5 :: nat)" "22 mod 8 = (6 :: nat)" "23 mod 8 = (7 :: nat)" "24 mod 8 = (0 :: nat)"
  "25 mod 8 = (1 :: nat)" "26 mod 8 = (2 :: nat)" "27 mod 8 = (3 :: nat)" "28 mod 8 = (4 :: nat)" "29 mod 8 = (5 :: nat)"
  "30 mod 8 = (6 :: nat)" "31 mod 8 = (7 :: nat)" "32 mod 8 = (0 :: nat)" "33 mod 8 = (1 :: nat)" "34 mod 8 = (2 :: nat)"
  "35 mod 8 = (3 :: nat)" "36 mod 8 = (4 :: nat)" "37 mod 8 = (5 :: nat)" "38 mod 8 = (6 :: nat)" "39 mod 8 = (7 :: nat)"
  "40 mod 8 = (0 :: nat)" "41 mod 8 = (1 :: nat)" "42 mod 8 = (2 :: nat)" "43 mod 8 = (3 :: nat)" "44 mod 8 = (4 :: nat)"
  "45 mod 8 = (5 :: nat)" "46 mod 8 = (6 :: nat)" "47 mod 8 = (7 :: nat)" "48 mod 8 = (0 :: nat)" "49 mod 8 = (1 :: nat)"
  "50 mod 8 = (2 :: nat)" "51 mod 8 = (3 :: nat)" "52 mod 8 = (4 :: nat)" "53 mod 8 = (5 :: nat)" "54 mod 8 = (6 :: nat)"
  "55 mod 8 = (7 :: nat)" "56 mod 8 = (0 :: nat)" "57 mod 8 = (1 :: nat)" "58 mod 8 = (2 :: nat)" "59 mod 8 = (3 :: nat)"
  "60 mod 8 = (4 :: nat)" "61 mod 8 = (5 :: nat)" "62 mod 8 = (6 :: nat)" "63 mod 8 = (7 :: nat)"
  by simp_all

lemma byte_div_32:
  "0 div 32 = (0 :: nat)" "1 div 32 = (0 :: nat)" "2 div 32 = (0 :: nat)" "3 div 32 = (0 :: nat)" "4 div 32 = (0 :: nat)"
  "5 div 32 = (0 :: nat)" "6 div 32 = (0 :: nat)" "7 div 32 = (0 :: nat)" "8 div 32 = (0 :: nat)" "9 div 32 = (0 :: nat)"
  "10 div 32 = (0 :: nat)" "11 div 32 = (0 :: nat)" "12 div 32 = (0 :: nat)" "13 div 32 = (0 :: nat)" "14 div 32 = (0 :: nat)"
  "15 div 32 = (0 :: nat)" "16 div 32 = (0 :: nat)" "17 div 32 = (0 :: nat)" "18 div 32 = (0 :: nat)" "19 div 32 = (0 :: nat)"
  "20 div 32 = (0 :: nat)" "21 div 32 = (0 :: nat)" "22 div 32 = (0 :: nat)" "23 div 32 = (0 :: nat)" "24 div 32 = (0 :: nat)"
  "25 div 32 = (0 :: nat)" "26 div 32 = (0 :: nat)" "27 div 32 = (0 :: nat)" "28 div 32 = (0 :: nat)" "29 div 32 = (0 :: nat)"
  "30 div 32 = (0 :: nat)" "31 div 32 = (0 :: nat)" "32 div 32 = (1 :: nat)" "33 div 32 = (1 :: nat)" "34 div 32 = (1 :: nat)"
  "35 div 32 = (1 :: nat)" "36 div 32 = (1 :: nat)" "37 div 32 = (1 :: nat)" "38 div 32 = (1 :: nat)" "39 div 32 = (1 :: nat)"
  "40 div 32 = (1 :: nat)" "41 div 32 = (1 :: nat)" "42 div 32 = (1 :: nat)" "43 div 32 = (1 :: nat)" "44 div 32 = (1 :: nat)"
  "45 div 32 = (1 :: nat)" "46 div 32 = (1 :: nat)" "47 div 32 = (1 :: nat)" "48 div 32 = (1 :: nat)" "49 div 32 = (1 :: nat)"
  "50 div 32 = (1 :: nat)" "51 div 32 = (1 :: nat)" "52 div 32 = (1 :: nat)" "53 div 32 = (1 :: nat)" "54 div 32 = (1 :: nat)"
  "55 div 32 = (1 :: nat)" "56 div 32 = (1 :: nat)" "57 div 32 = (1 :: nat)" "58 div 32 = (1 :: nat)" "59 div 32 = (1 :: nat)"
  "60 div 32 = (1 :: nat)" "61 div 32 = (1 :: nat)" "62 div 32 = (1 :: nat)" "63 div 32 = (1 :: nat)" "64 div 32 = (2 :: nat)"
  "65 div 32 = (2 :: nat)" "66 div 32 = (2 :: nat)" "67 div 32 = (2 :: nat)" "68 div 32 = (2 :: nat)" "69 div 32 = (2 :: nat)"
  "70 div 32 = (2 :: nat)" "71 div 32 = (2 :: nat)" "72 div 32 = (2 :: nat)" "73 div 32 = (2 :: nat)" "74 div 32 = (2 :: nat)"
  "75 div 32 = (2 :: nat)" "76 div 32 = (2 :: nat)" "77 div 32 = (2 :: nat)" "78 div 32 = (2 :: nat)" "79 div 32 = (2 :: nat)"
  "80 div 32 = (2 :: nat)" "81 div 32 = (2 :: nat)" "82 div 32 = (2 :: nat)" "83 div 32 = (2 :: nat)" "84 div 32 = (2 :: nat)"
  "85 div 32 = (2 :: nat)" "86 div 32 = (2 :: nat)" "87 div 32 = (2 :: nat)" "88 div 32 = (2 :: nat)" "89 div 32 = (2 :: nat)"
  "90 div 32 = (2 :: nat)" "91 div 32 = (2 :: nat)" "92 div 32 = (2 :: nat)" "93 div 32 = (2 :: nat)" "94 div 32 = (2 :: nat)"
  "95 div 32 = (2 :: nat)" "96 div 32 = (3 :: nat)" "97 div 32 = (3 :: nat)" "98 div 32 = (3 :: nat)" "99 div 32 = (3 :: nat)"
  "100 div 32 = (3 :: nat)" "101 div 32 = (3 :: nat)" "102 div 32 = (3 :: nat)" "103 div 32 = (3 :: nat)" "104 div 32 = (3 :: nat)"
  "105 div 32 = (3 :: nat)" "106 div 32 = (3 :: nat)" "107 div 32 = (3 :: nat)" "108 div 32 = (3 :: nat)" "109 div 32 = (3 :: nat)"
  "110 div 32 = (3 :: nat)" "111 div 32 = (3 :: nat)" "112 div 32 = (3 :: nat)" "113 div 32 = (3 :: nat)" "114 div 32 = (3 :: nat)"
  "115 div 32 = (3 :: nat)" "116 div 32 = (3 :: nat)" "117 div 32 = (3 :: nat)" "118 div 32 = (3 :: nat)" "119 div 32 = (3 :: nat)"
  "120 div 32 = (3 :: nat)" "121 div 32 = (3 :: nat)" "122 div 32 = (3 :: nat)" "123 div 32 = (3 :: nat)" "124 div 32 = (3 :: nat)"
  "125 div 32 = (3 :: nat)" "126 div 32 = (3 :: nat)" "127 div 32 = (3 :: nat)" "128 div 32 = (4 :: nat)" "129 div 32 = (4 :: nat)"
  "130 div 32 = (4 :: nat)" "131 div 32 = (4 :: nat)" "132 div 32 = (4 :: nat)" "133 div 32 = (4 :: nat)" "134 div 32 = (4 :: nat)"
  "135 div 32 = (4 :: nat)" "136 div 32 = (4 :: nat)" "137 div 32 = (4 :: nat)" "138 div 32 = (4 :: nat)" "139 div 32 = (4 :: nat)"
  "140 div 32 = (4 :: nat)" "141 div 32 = (4 :: nat)" "142 div 32 = (4 :: nat)" "143 div 32 = (4 :: nat)" "144 div 32 = (4 :: nat)"
  "145 div 32 = (4 :: nat)" "146 div 32 = (4 :: nat)" "147 div 32 = (4 :: nat)" "148 div 32 = (4 :: nat)" "149 div 32 = (4 :: nat)"
  "150 div 32 = (4 :: nat)" "151 div 32 = (4 :: nat)" "152 div 32 = (4 :: nat)" "153 div 32 = (4 :: nat)" "154 div 32 = (4 :: nat)"
  "155 div 32 = (4 :: nat)" "156 div 32 = (4 :: nat)" "157 div 32 = (4 :: nat)" "158 div 32 = (4 :: nat)" "159 div 32 = (4 :: nat)"
  "160 div 32 = (5 :: nat)" "161 div 32 = (5 :: nat)" "162 div 32 = (5 :: nat)" "163 div 32 = (5 :: nat)" "164 div 32 = (5 :: nat)"
  "165 div 32 = (5 :: nat)" "166 div 32 = (5 :: nat)" "167 div 32 = (5 :: nat)" "168 div 32 = (5 :: nat)" "169 div 32 = (5 :: nat)"
  "170 div 32 = (5 :: nat)" "171 div 32 = (5 :: nat)" "172 div 32 = (5 :: nat)" "173 div 32 = (5 :: nat)" "174 div 32 = (5 :: nat)"
  "175 div 32 = (5 :: nat)" "176 div 32 = (5 :: nat)" "177 div 32 = (5 :: nat)" "178 div 32 = (5 :: nat)" "179 div 32 = (5 :: nat)"
  "180 div 32 = (5 :: nat)" "181 div 32 = (5 :: nat)" "182 div 32 = (5 :: nat)" "183 div 32 = (5 :: nat)" "184 div 32 = (5 :: nat)"
  "185 div 32 = (5 :: nat)" "186 div 32 = (5 :: nat)" "187 div 32 = (5 :: nat)" "188 div 32 = (5 :: nat)" "189 div 32 = (5 :: nat)"
  "190 div 32 = (5 :: nat)" "191 div 32 = (5 :: nat)" "192 div 32 = (6 :: nat)" "193 div 32 = (6 :: nat)" "194 div 32 = (6 :: nat)"
  "195 div 32 = (6 :: nat)" "196 div 32 = (6 :: nat)" "197 div 32 = (6 :: nat)" "198 div 32 = (6 :: nat)" "199 div 32 = (6 :: nat)"
  "200 div 32 = (6 :: nat)" "201 div 32 = (6 :: nat)" "202 div 32 = (6 :: nat)" "203 div 32 = (6 :: nat)" "204 div 32 = (6 :: nat)"
  "205 div 32 = (6 :: nat)" "206 div 32 = (6 :: nat)" "207 div 32 = (6 :: nat)" "208 div 32 = (6 :: nat)" "209 div 32 = (6 :: nat)"
  "210 div 32 = (6 :: nat)" "211 div 32 = (6 :: nat)" "212 div 32 = (6 :: nat)" "213 div 32 = (6 :: nat)" "214 div 32 = (6 :: nat)"
  "215 div 32 = (6 :: nat)" "216 div 32 = (6 :: nat)" "217 div 32 = (6 :: nat)" "218 div 32 = (6 :: nat)" "219 div 32 = (6 :: nat)"
  "220 div 32 = (6 :: nat)" "221 div 32 = (6 :: nat)" "222 div 32 = (6 :: nat)" "223 div 32 = (6 :: nat)" "224 div 32 = (7 :: nat)"
  "225 div 32 = (7 :: nat)" "226 div 32 = (7 :: nat)" "227 div 32 = (7 :: nat)" "228 div 32 = (7 :: nat)" "229 div 32 = (7 :: nat)"
  "230 div 32 = (7 :: nat)" "231 div 32 = (7 :: nat)" "232 div 32 = (7 :: nat)" "233 div 32 = (7 :: nat)" "234 div 32 = (7 :: nat)"
  "235 div 32 = (7 :: nat)" "236 div 32 = (7 :: nat)" "237 div 32 = (7 :: nat)" "238 div 32 = (7 :: nat)" "239 div 32 = (7 :: nat)"
  "240 div 32 = (7 :: nat)" "241 div 32 = (7 :: nat)" "242 div 32 = (7 :: nat)" "243 div 32 = (7 :: nat)" "244 div 32 = (7 :: nat)"
  "245 div 32 = (7 :: nat)" "246 div 32 = (7 :: nat)" "247 div 32 = (7 :: nat)" "248 div 32 = (7 :: nat)" "249 div 32 = (7 :: nat)"
  "250 div 32 = (7 :: nat)" "251 div 32 = (7 :: nat)" "252 div 32 = (7 :: nat)" "253 div 32 = (7 :: nat)" "254 div 32 = (7 :: nat)"
  "255 div 32 = (7 :: nat)"
  by simp_all

lemma byte_mod_32:
  "0 mod 32 = (0 :: nat)" "1 mod 32 = (1 :: nat)" "2 mod 32 = (2 :: nat)" "3 mod 32 = (3 :: nat)" "4 mod 32 = (4 :: nat)"
  "5 mod 32 = (5 :: nat)" "6 mod 32 = (6 :: nat)" "7 mod 32 = (7 :: nat)" "8 mod 32 = (8 :: nat)" "9 mod 32 = (9 :: nat)"
  "10 mod 32 = (10 :: nat)" "11 mod 32 = (11 :: nat)" "12 mod 32 = (12 :: nat)" "13 mod 32 = (13 :: nat)" "14 mod 32 = (14 :: nat)"
  "15 mod 32 = (15 :: nat)" "16 mod 32 = (16 :: nat)" "17 mod 32 = (17 :: nat)" "18 mod 32 = (18 :: nat)" "19 mod 32 = (19 :: nat)"
  "20 mod 32 = (20 :: nat)" "21 mod 32 = (21 :: nat)" "22 mod 32 = (22 :: nat)" "23 mod 32 = (23 :: nat)" "24 mod 32 = (24 :: nat)"
  "25 mod 32 = (25 :: nat)" "26 mod 32 = (26 :: nat)" "27 mod 32 = (27 :: nat)" "28 mod 32 = (28 :: nat)" "29 mod 32 = (29 :: nat)"
  "30 mod 32 = (30 :: nat)" "31 mod 32 = (31 :: nat)" "32 mod 32 = (0 :: nat)" "33 mod 32 = (1 :: nat)" "34 mod 32 = (2 :: nat)"
  "35 mod 32 = (3 :: nat)" "36 mod 32 = (4 :: nat)" "37 mod 32 = (5 :: nat)" "38 mod 32 = (6 :: nat)" "39 mod 32 = (7 :: nat)"
  "40 mod 32 = (8 :: nat)" "41 mod 32 = (9 :: nat)" "42 mod 32 = (10 :: nat)" "43 mod 32 = (11 :: nat)" "44 mod 32 = (12 :: nat)"
  "45 mod 32 = (13 :: nat)" "46 mod 32 = (14 :: nat)" "47 mod 32 = (15 :: nat)" "48 mod 32 = (16 :: nat)" "49 mod 32 = (17 :: nat)"
  "50 mod 32 = (18 :: nat)" "51 mod 32 = (19 :: nat)" "52 mod 32 = (20 :: nat)" "53 mod 32 = (21 :: nat)" "54 mod 32 = (22 :: nat)"
  "55 mod 32 = (23 :: nat)" "56 mod 32 = (24 :: nat)" "57 mod 32 = (25 :: nat)" "58 mod 32 = (26 :: nat)" "59 mod 32 = (27 :: nat)"
  "60 mod 32 = (28 :: nat)" "61 mod 32 = (29 :: nat)" "62 mod 32 = (30 :: nat)" "63 mod 32 = (31 :: nat)" "64 mod 32 = (0 :: nat)"
  "65 mod 32 = (1 :: nat)" "66 mod 32 = (2 :: nat)" "67 mod 32 = (3 :: nat)" "68 mod 32 = (4 :: nat)" "69 mod 32 = (5 :: nat)"
  "70 mod 32 = (6 :: nat)" "71 mod 32 = (7 :: nat)" "72 mod 32 = (8 :: nat)" "73 mod 32 = (9 :: nat)" "74 mod 32 = (10 :: nat)"
  "75 mod 32 = (11 :: nat)" "76 mod 32 = (12 :: nat)" "77 mod 32 = (13 :: nat)" "78 mod 32 = (14 :: nat)" "79 mod 32 = (15 :: nat)"
  "80 mod 32 = (16 :: nat)" "81 mod 32 = (17 :: nat)" "82 mod 32 = (18 :: nat)" "83 mod 32 = (19 :: nat)" "84 mod 32 = (20 :: nat)"
  "85 mod 32 = (21 :: nat)" "86 mod 32 = (22 :: nat)" "87 mod 32 = (23 :: nat)" "88 mod 32 = (24 :: nat)" "89 mod 32 = (25 :: nat)"
  "90 mod 32 = (26 :: nat)" "91 mod 32 = (27 :: nat)" "92 mod 32 = (28 :: nat)" "93 mod 32 = (29 :: nat)" "94 mod 32 = (30 :: nat)"
  "95 mod 32 = (31 :: nat)" "96 mod 32 = (0 :: nat)" "97 mod 32 = (1 :: nat)" "98 mod 32 = (2 :: nat)" "99 mod 32 = (3 :: nat)"
  "100 mod 32 = (4 :: nat)" "101 mod 32 = (5 :: nat)" "102 mod 32 = (6 :: nat)" "103 mod 32 = (7 :: nat)" "104 mod 32 = (8 :: nat)"
  "105 mod 32 = (9 :: nat)" "106 mod 32 = (10 :: nat)" "107 mod 32 = (11 :: nat)" "108 mod 32 = (12 :: nat)" "109 mod 32 = (13 :: nat)"
  "110 mod 32 = (14 :: nat)" "111 mod 32 = (15 :: nat)" "112 mod 32 = (16 :: nat)" "113 mod 32 = (17 :: nat)" "114 mod 32 = (18 :: nat)"
  "115 mod 32 = (19 :: nat)" "116 mod 32 = (20 :: nat)" "117 mod 32 = (21 :: nat)" "118 mod 32 = (22 :: nat)" "119 mod 32 = (23 :: nat)"
  "120 mod 32 = (24 :: nat)" "121 mod 32 = (25 :: nat)" "122 mod 32 = (26 :: nat)" "123 mod 32 = (27 :: nat)" "124 mod 32 = (28 :: nat)"
  "125 mod 32 = (29 :: nat)" "126 mod 32 = (30 :: nat)" "127 mod 32 = (31 :: nat)" "128 mod 32 = (0 :: nat)" "129 mod 32 = (1 :: nat)"
  "130 mod 32 = (2 :: nat)" "131 mod 32 = (3 :: nat)" "132 mod 32 = (4 :: nat)" "133 mod 32 = (5 :: nat)" "134 mod 32 = (6 :: nat)"
  "135 mod 32 = (7 :: nat)" "136 mod 32 = (8 :: nat)" "137 mod 32 = (9 :: nat)" "138 mod 32 = (10 :: nat)" "139 mod 32 = (11 :: nat)"
  "140 mod 32 = (12 :: nat)" "141 mod 32 = (13 :: nat)" "142 mod 32 = (14 :: nat)" "143 mod 32 = (15 :: nat)" "144 mod 32 = (16 :: nat)"
  "145 mod 32 = (17 :: nat)" "146 mod 32 = (18 :: nat)" "147 mod 32 = (19 :: nat)" "148 mod 32 = (20 :: nat)" "149 mod 32 = (21 :: nat)"
  "150 mod 32 = (22 :: nat)" "151 mod 32 = (23 :: nat)" "152 mod 32 = (24 :: nat)" "153 mod 32 = (25 :: nat)" "154 mod 32 = (26 :: nat)"
  "155 mod 32 = (27 :: nat)" "156 mod 32 = (28 :: nat)" "157 mod 32 = (29 :: nat)" "158 mod 32 = (30 :: nat)" "159 mod 32 = (31 :: nat)"
  "160 mod 32 = (0 :: nat)" "161 mod 32 = (1 :: nat)" "162 mod 32 = (2 :: nat)" "163 mod 32 = (3 :: nat)" "164 mod 32 = (4 :: nat)"
  "165 mod 32 = (5 :: nat)" "166 mod 32 = (6 :: nat)" "167 mod 32 = (7 :: nat)" "168 mod 32 = (8 :: nat)" "169 mod 32 = (9 :: nat)"
  "170 mod 32 = (10 :: nat)" "171 mod 32 = (11 :: nat)" "172 mod 32 = (12 :: nat)" "173 mod 32 = (13 :: nat)" "174 mod 32 = (14 :: nat)"
  "175 mod 32 = (15 :: nat)" "176 mod 32 = (16 :: nat)" "177 mod 32 = (17 :: nat)" "178 mod 32 = (18 :: nat)" "179 mod 32 = (19 :: nat)"
  "180 mod 32 = (20 :: nat)" "181 mod 32 = (21 :: nat)" "182 mod 32 = (22 :: nat)" "183 mod 32 = (23 :: nat)" "184 mod 32 = (24 :: nat)"
  "185 mod 32 = (25 :: nat)" "186 mod 32 = (26 :: nat)" "187 mod 32 = (27 :: nat)" "188 mod 32 = (28 :: nat)" "189 mod 32 = (29 :: nat)"
  "190 mod 32 = (30 :: nat)" "191 mod 32 = (31 :: nat)" "192 mod 32 = (0 :: nat)" "193 mod 32 = (1 :: nat)" "194 mod 32 = (2 :: nat)"
  "195 mod 32 = (3 :: nat)" "196 mod 32 = (4 :: nat)" "197 mod 32 = (5 :: nat)" "198 mod 32 = (6 :: nat)" "199 mod 32 = (7 :: nat)"
  "200 mod 32 = (8 :: nat)" "201 mod 32 = (9 :: nat)" "202 mod 32 = (10 :: nat)" "203 mod 32 = (11 :: nat)" "204 mod 32 = (12 :: nat)"
  "205 mod 32 = (13 :: nat)" "206 mod 32 = (14 :: nat)" "207 mod 32 = (15 :: nat)" "208 mod 32 = (16 :: nat)" "209 mod 32 = (17 :: nat)"
  "210 mod 32 = (18 :: nat)" "211 mod 32 = (19 :: nat)" "212 mod 32 = (20 :: nat)" "213 mod 32 = (21 :: nat)" "214 mod 32 = (22 :: nat)"
  "215 mod 32 = (23 :: nat)" "216 mod 32 = (24 :: nat)" "217 mod 32 = (25 :: nat)" "218 mod 32 = (26 :: nat)" "219 mod 32 = (27 :: nat)"
  "220 mod 32 = (28 :: nat)" "221 mod 32 = (29 :: nat)" "222 mod 32 = (30 :: nat)" "223 mod 32 = (31 :: nat)" "224 mod 32 = (0 :: nat)"
  "225 mod 32 = (1 :: nat)" "226 mod 32 = (2 :: nat)" "227 mod 32 = (3 :: nat)" "228 mod 32 = (4 :: nat)" "229 mod 32 = (5 :: nat)"
  "230 mod 32 = (6 :: nat)" "231 mod 32 = (7 :: nat)" "232 mod 32 = (8 :: nat)" "233 mod 32 = (9 :: nat)" "234 mod 32 = (10 :: nat)"
  "235 mod 32 = (11 :: nat)" "236 mod 32 = (12 :: nat)" "237 mod 32 = (13 :: nat)" "238 mod 32 = (14 :: nat)" "239 mod 32 = (15 :: nat)"
  "240 mod 32 = (16 :: nat)" "241 mod 32 = (17 :: nat)" "242 mod 32 = (18 :: nat)" "243 mod 32 = (19 :: nat)" "244 mod 32 = (20 :: nat)"
  "245 mod 32 = (21 :: nat)" "246 mod 32 = (22 :: nat)" "247 mod 32 = (23 :: nat)" "248 mod 32 = (24 :: nat)" "249 mod 32 = (25 :: nat)"
  "250 mod 32 = (26 :: nat)" "251 mod 32 = (27 :: nat)" "252 mod 32 = (28 :: nat)" "253 mod 32 = (29 :: nat)" "254 mod 32 = (30 :: nat)"
  "255 mod 32 = (31 :: nat)"
  by simp_all

lemma byte_div_128:
  "0 div 128 = (0 :: nat)" "1 div 128 = (0 :: nat)" "2 div 128 = (0 :: nat)" "3 div 128 = (0 :: nat)" "4 div 128 = (0 :: nat)"
  "5 div 128 = (0 :: nat)" "6 div 128 = (0 :: nat)" "7 div 128 = (0 :: nat)" "8 div 128 = (0 :: nat)" "9 div 128 = (0 :: nat)"
  "10 div 128 = (0 :: nat)" "11 div 128 = (0 :: nat)" "12 div 128 = (0 :: nat)" "13 div 128 = (0 :: nat)" "14 div 128 = (0 :: nat)"
  "15 div 128 = (0 :: nat)" "16 div 128 = (0 :: nat)" "17 div 128 = (0 :: nat)" "18 div 128 = (0 :: nat)" "19 div 128 = (0 :: nat)"
  "20 div 128 = (0 :: nat)" "21 div 128 = (0 :: nat)" "22 div 128 = (0 :: nat)" "23 div 128 = (0 :: nat)" "24 div 128 = (0 :: nat)"
  "25 div 128 = (0 :: nat)" "26 div 128 = (0 :: nat)" "27 div 128 = (0 :: nat)" "28 div 128 = (0 :: nat)" "29 div 128 = (0 :: nat)"
  "30 div 128 = (0 :: nat)" "31 div 128 = (0 :: nat)" "32 div 128 = (0 :: nat)" "33 div 128 = (0 :: nat)" "34 div 128 = (0 :: nat)"
  "35 div 128 = (0 :: nat)" "36 div 128 = (0 :: nat)" "37 div 128 = (0 :: nat)" "38 div 128 = (0 :: nat)" "39 div 128 = (0 :: nat)"
  "40 div 128 = (0 :: nat)" "41 div 128 = (0 :: nat)" "42 div 128 = (0 :: nat)" "43 div 128 = (0 :: nat)" "44 div 128 = (0 :: nat)"
  "45 div 128 = (0 :: nat)" "46 div 128 = (0 :: nat)" "47 div 128 = (0 :: nat)" "48 div 128 = (0 :: nat)" "49 div 128 = (0 :: nat)"
  "50 div 128 = (0 :: nat)" "51 div 128 = (0 :: nat)" "52 div 128 = (0 :: nat)" "53 div 128 = (0 :: nat)" "54 div 128 = (0 :: nat)"
  "55 div 128 = (0 :: nat)" "56 div 128 = (0 :: nat)" "57 div 128 = (0 :: nat)" "58 div 128 = (0 :: nat)" "59 div 128 = (0 :: nat)"
  "60 div 128 = (0 :: nat)" "61 div 128 = (0 :: nat)" "62 div 128 = (0 :: nat)" "63 div 128 = (0 :: nat)" "64 div 128 = (0 :: nat)"
  "65 div 128 = (0 :: nat)" "66 div 128 = (0 :: nat)" "67 div 128 = (0 :: nat)" "68 div 128 = (0 :: nat)" "69 div 128 = (0 :: nat)"
  "70 div 128 = (0 :: nat)" "71 div 128 = (0 :: nat)" "72 div 128 = (0 :: nat)" "73 div 128 = (0 :: nat)" "74 div 128 = (0 :: nat)"
  "75 div 128 = (0 :: nat)" "76 div 128 = (0 :: nat)" "77 div 128 = (0 :: nat)" "78 div 128 = (0 :: nat)" "79 div 128 = (0 :: nat)"
  "80 div 128 = (0 :: nat)" "81 div 128 = (0 :: nat)" "82 div 128 = (0 :: nat)" "83 div 128 = (0 :: nat)" "84 div 128 = (0 :: nat)"
  "85 div 128 = (0 :: nat)" "86 div 128 = (0 :: nat)" "87 div 128 = (0 :: nat)" "88 div 128 = (0 :: nat)" "89 div 128 = (0 :: nat)"
  "90 div 128 = (0 :: nat)" "91 div 128 = (0 :: nat)" "92 div 128 = (0 :: nat)" "93 div 128 = (0 :: nat)" "94 div 128 = (0 :: nat)"
  "95 div 128 = (0 :: nat)" "96 div 128 = (0 :: nat)" "97 div 128 = (0 :: nat)" "98 div 128 = (0 :: nat)" "99 div 128 = (0 :: nat)"
  "100 div 128 = (0 :: nat)" "101 div 128 = (0 :: nat)" "102 div 128 = (0 :: nat)" "103 div 128 = (0 :: nat)" "104 div 128 = (0 :: nat)"
  "105 div 128 = (0 :: nat)" "106 div 128 = (0 :: nat)" "107 div 128 = (0 :: nat)" "108 div 128 = (0 :: nat)" "109 div 128 = (0 :: nat)"
  "110 div 128 = (0 :: nat)" "111 div 128 = (0 :: nat)" "112 div 128 = (0 :: nat)" "113 div 128 = (0 :: nat)" "114 div 128 = (0 :: nat)"
  "115 div 128 = (0 :: nat)" "116 div 128 = (0 :: nat)" "117 div 128 = (0 :: nat)" "118 div 128 = (0 :: nat)" "119 div 128 = (0 :: nat)"
  "120 div 128 = (0 :: nat)" "121 div 128 = (0 :: nat)" "122 div 128 = (0 :: nat)" "123 div 128 = (0 :: nat)" "124 div 128 = (0 :: nat)"
  "125 div 128 = (0 :: nat)" "126 div 128 = (0 :: nat)" "127 div 128 = (0 :: nat)" "128 div 128 = (1 :: nat)" "129 div 128 = (1 :: nat)"
  "130 div 128 = (1 :: nat)" "131 div 128 = (1 :: nat)" "132 div 128 = (1 :: nat)" "133 div 128 = (1 :: nat)" "134 div 128 = (1 :: nat)"
  "135 div 128 = (1 :: nat)" "136 div 128 = (1 :: nat)" "137 div 128 = (1 :: nat)" "138 div 128 = (1 :: nat)" "139 div 128 = (1 :: nat)"
  "140 div 128 = (1 :: nat)" "141 div 128 = (1 :: nat)" "142 div 128 = (1 :: nat)" "143 div 128 = (1 :: nat)" "144 div 128 = (1 :: nat)"
  "145 div 128 = (1 :: nat)" "146 div 128 = (1 :: nat)" "147 div 128 = (1 :: nat)" "148 div 128 = (1 :: nat)" "149 div 128 = (1 :: nat)"
  "150 div 128 = (1 :: nat)" "151 div 128 = (1 :: nat)" "152 div 128 = (1 :: nat)" "153 div 128 = (1 :: nat)" "154 div 128 = (1 :: nat)"
  "155 div 128 = (1 :: nat)" "156 div 128 = (1 :: nat)" "157 div 128 = (1 :: nat)" "158 div 128 = (1 :: nat)" "159 div 128 = (1 :: nat)"
  "160 div 128 = (1 :: nat)" "161 div 128 = (1 :: nat)" "162 div 128 = (1 :: nat)" "163 div 128 = (1 :: nat)" "164 div 128 = (1 :: nat)"
  "165 div 128 = (1 :: nat)" "166 div 128 = (1 :: nat)" "167 div 128 = (1 :: nat)" "168 div 128 = (1 :: nat)" "169 div 128 = (1 :: nat)"
  "170 div 128 = (1 :: nat)" "171 div 128 = (1 :: nat)" "172 div 128 = (1 :: nat)" "173 div 128 = (1 :: nat)" "174 div 128 = (1 :: nat)"
  "175 div 128 = (1 :: nat)" "176 div 128 = (1 :: nat)" "177 div 128 = (1 :: nat)" "178 div 128 = (1 :: nat)" "179 div 128 = (1 :: nat)"
  "180 div 128 = (1 :: nat)" "181 div 128 = (1 :: nat)" "182 div 128 = (1 :: nat)" "183 div 128 = (1 :: nat)" "184 div 128 = (1 :: nat)"
  "185 div 128 = (1 :: nat)" "186 div 128 = (1 :: nat)" "187 div 128 = (1 :: nat)" "188 div 128 = (1 :: nat)" "189 div 128 = (1 :: nat)"
  "190 div 128 = (1 :: nat)" "191 div 128 = (1 :: nat)" "192 div 128 = (1 :: nat)" "193 div 128 = (1 :: nat)" "194 div 128 = (1 :: nat)"
  "195 div 128 = (1 :: nat)" "196 div 128 = (1 :: nat)" "197 div 128 = (1 :: nat)" "198 div 128 = (1 :: nat)" "199 div 128 = (1 :: nat)"
  "200 div 128 = (1 :: nat)" "201 div 128 = (1 :: nat)" "202 div 128 = (1 :: nat)" "203 div 128 = (1 :: nat)" "204 div 128 = (1 :: nat)"
  "205 div 128 = (1 :: nat)" "206 div 128 = (1 :: nat)" "207 div 128 = (1 :: nat)" "208 div 128 = (1 :: nat)" "209 div 128 = (1 :: nat)"
  "210 div 128 = (1 :: nat)" "211 div 128 = (1 :: nat)" "212 div 128 = (1 :: nat)" "213 div 128 = (1 :: nat)" "214 div 128 = (1 :: nat)"
  "215 div 128 = (1 :: nat)" "216 div 128 = (1 :: nat)" "217 div 128 = (1 :: nat)" "218 div 128 = (1 :: nat)" "219 div 128 = (1 :: nat)"
  "220 div 128 = (1 :: nat)" "221 div 128 = (1 :: nat)" "222 div 128 = (1 :: nat)" "223 div 128 = (1 :: nat)" "224 div 128 = (1 :: nat)"
  "225 div 128 = (1 :: nat)" "226 div 128 = (1 :: nat)" "227 div 128 = (1 :: nat)" "228 div 128 = (1 :: nat)" "229 div 128 = (1 :: nat)"
  "230 div 128 = (1 :: nat)" "231 div 128 = (1 :: nat)" "232 div 128 = (1 :: nat)" "233 div 128 = (1 :: nat)" "234 div 128 = (1 :: nat)"
  "235 div 128 = (1 :: nat)" "236 div 128 = (1 :: nat)" "237 div 128 = (1 :: nat)" "238 div 128 = (1 :: nat)" "239 div 128 = (1 :: nat)"
  "240 div 128 = (1 :: nat)" "241 div 128 = (1 :: nat)" "242 div 128 = (1 :: nat)" "243 div 128 = (1 :: nat)" "244 div 128 = (1 :: nat)"
  "245 div 128 = (1 :: nat)" "246 div 128 = (1 :: nat)" "247 div 128 = (1 :: nat)" "248 div 128 = (1 :: nat)" "249 div 128 = (1 :: nat)"
  "250 div 128 = (1 :: nat)" "251 div 128 = (1 :: nat)" "252 div 128 = (1 :: nat)" "253 div 128 = (1 :: nat)" "254 div 128 = (1 :: nat)"
  "255 div 128 = (1 :: nat)"
  by simp_all

lemma byte_mod_128:
  "0 mod 128 = (0 :: nat)" "1 mod 128 = (1 :: nat)" "2 mod 128 = (2 :: nat)" "3 mod 128 = (3 :: nat)" "4 mod 128 = (4 :: nat)"
  "5 mod 128 = (5 :: nat)" "6 mod 128 = (6 :: nat)" "7 mod 128 = (7 :: nat)" "8 mod 128 = (8 :: nat)" "9 mod 128 = (9 :: nat)"
  "10 mod 128 = (10 :: nat)" "11 mod 128 = (11 :: nat)" "12 mod 128 = (12 :: nat)" "13 mod 128 = (13 :: nat)" "14 mod 128 = (14 :: nat)"
  "15 mod 128 = (15 :: nat)" "16 mod 128 = (16 :: nat)" "17 mod 128 = (17 :: nat)" "18 mod 128 = (18 :: nat)" "19 mod 128 = (19 :: nat)"
  "20 mod 128 = (20 :: nat)" "21 mod 128 = (21 :: nat)" "22 mod 128 = (22 :: nat)" "23 mod 128 = (23 :: nat)" "24 mod 128 = (24 :: nat)"
  "25 mod 128 = (25 :: nat)" "26 mod 128 = (26 :: nat)" "27 mod 128 = (27 :: nat)" "28 mod 128 = (28 :: nat)" "29 mod 128 = (29 :: nat)"
  "30 mod 128 = (30 :: nat)" "31 mod 128 = (31 :: nat)" "32 mod 128 = (32 :: nat)" "33 mod 128 = (33 :: nat)" "34 mod 128 = (34 :: nat)"
  "35 mod 128 = (35 :: nat)" "36 mod 128 = (36 :: nat)" "37 mod 128 = (37 :: nat)" "38 mod 128 = (38 :: nat)" "39 mod 128 = (39 :: nat)"
  "40 mod 128 = (40 :: nat)" "41 mod 128 = (41 :: nat)" "42 mod 128 = (42 :: nat)" "43 mod 128 = (43 :: nat)" "44 mod 128 = (44 :: nat)"
  "45 mod 128 = (45 :: nat)" "46 mod 128 = (46 :: nat)" "47 mod 128 = (47 :: nat)" "48 mod 128 = (48 :: nat)" "49 mod 128 = (49 :: nat)"
  "50 mod 128 = (50 :: nat)" "51 mod 128 = (51 :: nat)" "52 mod 128 = (52 :: nat)" "53 mod 128 = (53 :: nat)" "54 mod 128 = (54 :: nat)"
  "55 mod 128 = (55 :: nat)" "56 mod 128 = (56 :: nat)" "57 mod 128 = (57 :: nat)" "58 mod 128 = (58 :: nat)" "59 mod 128 = (59 :: nat)"
  "60 mod 128 = (60 :: nat)" "61 mod 128 = (61 :: nat)" "62 mod 128 = (62 :: nat)" "63 mod 128 = (63 :: nat)" "64 mod 128 = (64 :: nat)"
  "65 mod 128 = (65 :: nat)" "66 mod 128 = (66 :: nat)" "67 mod 128 = (67 :: nat)" "68 mod 128 = (68 :: nat)" "69 mod 128 = (69 :: nat)"
  "70 mod 128 = (70 :: nat)" "71 mod 128 = (71 :: nat)" "72 mod 128 = (72 :: nat)" "73 mod 128 = (73 :: nat)" "74 mod 128 = (74 :: nat)"
  "75 mod 128 = (75 :: nat)" "76 mod 128 = (76 :: nat)" "77 mod 128 = (77 :: nat)" "78 mod 128 = (78 :: nat)" "79 mod 128 = (79 :: nat)"
  "80 mod 128 = (80 :: nat)" "81 mod 128 = (81 :: nat)" "82 mod 128 = (82 :: nat)" "83 mod 128 = (83 :: nat)" "84 mod 128 = (84 :: nat)"
  "85 mod 128 = (85 :: nat)" "86 mod 128 = (86 :: nat)" "87 mod 128 = (87 :: nat)" "88 mod 128 = (88 :: nat)" "89 mod 128 = (89 :: nat)"
  "90 mod 128 = (90 :: nat)" "91 mod 128 = (91 :: nat)" "92 mod 128 = (92 :: nat)" "93 mod 128 = (93 :: nat)" "94 mod 128 = (94 :: nat)"
  "95 mod 128 = (95 :: nat)" "96 mod 128 = (96 :: nat)" "97 mod 128 = (97 :: nat)" "98 mod 128 = (98 :: nat)" "99 mod 128 = (99 :: nat)"
  "100 mod 128 = (100 :: nat)" "101 mod 128 = (101 :: nat)" "102 mod 128 = (102 :: nat)" "103 mod 128 = (103 :: nat)" "104 mod 128 = (104 :: nat)"
  "105 mod 128 = (105 :: nat)" "106 mod 128 = (106 :: nat)" "107 mod 128 = (107 :: nat)" "108 mod 128 = (108 :: nat)" "109 mod 128 = (109 :: nat)"
  "110 mod 128 = (110 :: nat)" "111 mod 128 = (111 :: nat)" "112 mod 128 = (112 :: nat)" "113 mod 128 = (113 :: nat)" "114 mod 128 = (114 :: nat)"
  "115 mod 128 = (115 :: nat)" "116 mod 128 = (116 :: nat)" "117 mod 128 = (117 :: nat)" "118 mod 128 = (118 :: nat)" "119 mod 128 = (119 :: nat)"
  "120 mod 128 = (120 :: nat)" "121 mod 128 = (121 :: nat)" "122 mod 128 = (122 :: nat)" "123 mod 128 = (123 :: nat)" "124 mod 128 = (124 :: nat)"
  "125 mod 128 = (125 :: nat)" "126 mod 128 = (126 :: nat)" "127 mod 128 = (127 :: nat)" "128 mod 128 = (0 :: nat)" "129 mod 128 = (1 :: nat)"
  "130 mod 128 = (2 :: nat)" "131 mod 128 = (3 :: nat)" "132 mod 128 = (4 :: nat)" "133 mod 128 = (5 :: nat)" "134 mod 128 = (6 :: nat)"
  "135 mod 128 = (7 :: nat)" "136 mod 128 = (8 :: nat)" "137 mod 128 = (9 :: nat)" "138 mod 128 = (10 :: nat)" "139 mod 128 = (11 :: nat)"
  "140 mod 128 = (12 :: nat)" "141 mod 128 = (13 :: nat)" "142 mod 128 = (14 :: nat)" "143 mod 128 = (15 :: nat)" "144 mod 128 = (16 :: nat)"
  "145 mod 128 = (17 :: nat)" "146 mod 128 = (18 :: nat)" "147 mod 128 = (19 :: nat)" "148 mod 128 = (20 :: nat)" "149 mod 128 = (21 :: nat)"
  "150 mod 128 = (22 :: nat)" "151 mod 128 = (23 :: nat)" "152 mod 128 = (24 :: nat)" "153 mod 128 = (25 :: nat)" "154 mod 128 = (26 :: nat)"
  "155 mod 128 = (27 :: nat)" "156 mod 128 = (28 :: nat)" "157 mod 128 = (29 :: nat)" "158 mod 128 = (30 :: nat)" "159 mod 128 = (31 :: nat)"
  "160 mod 128 = (32 :: nat)" "161 mod 128 = (33 :: nat)" "162 mod 128 = (34 :: nat)" "163 mod 128 = (35 :: nat)" "164 mod 128 = (36 :: nat)"
  "165 mod 128 = (37 :: nat)" "166 mod 128 = (38 :: nat)" "167 mod 128 = (39 :: nat)" "168 mod 128 = (40 :: nat)" "169 mod 128 = (41 :: nat)"
  "170 mod 128 = (42 :: nat)" "171 mod 128 = (43 :: nat)" "172 mod 128 = (44 :: nat)" "173 mod 128 = (45 :: nat)" "174 mod 128 = (46 :: nat)"
  "175 mod 128 = (47 :: nat)" "176 mod 128 = (48 :: nat)" "177 mod 128 = (49 :: nat)" "178 mod 128 = (50 :: nat)" "179 mod 128 = (51 :: nat)"
  "180 mod 128 = (52 :: nat)" "181 mod 128 = (53 :: nat)" "182 mod 128 = (54 :: nat)" "183 mod 128 = (55 :: nat)" "184 mod 128 = (56 :: nat)"
  "185 mod 128 = (57 :: nat)" "186 mod 128 = (58 :: nat)" "187 mod 128 = (59 :: nat)" "188 mod 128 = (60 :: nat)" "189 mod 128 = (61 :: nat)"
  "190 mod 128 = (62 :: nat)" "191 mod 128 = (63 :: nat)" "192 mod 128 = (64 :: nat)" "193 mod 128 = (65 :: nat)" "194 mod 128 = (66 :: nat)"
  "195 mod 128 = (67 :: nat)" "196 mod 128 = (68 :: nat)" "197 mod 128 = (69 :: nat)" "198 mod 128 = (70 :: nat)" "199 mod 128 = (71 :: nat)"
  "200 mod 128 = (72 :: nat)" "201 mod 128 = (73 :: nat)" "202 mod 128 = (74 :: nat)" "203 mod 128 = (75 :: nat)" "204 mod 128 = (76 :: nat)"
  "205 mod 128 = (77 :: nat)" "206 mod 128 = (78 :: nat)" "207 mod 128 = (79 :: nat)" "208 mod 128 = (80 :: nat)" "209 mod 128 = (81 :: nat)"
  "210 mod 128 = (82 :: nat)" "211 mod 128 = (83 :: nat)" "212 mod 128 = (84 :: nat)" "213 mod 128 = (85 :: nat)" "214 mod 128 = (86 :: nat)"
  "215 mod 128 = (87 :: nat)" "216 mod 128 = (88 :: nat)" "217 mod 128 = (89 :: nat)" "218 mod 128 = (90 :: nat)" "219 mod 128 = (91 :: nat)"
  "220 mod 128 = (92 :: nat)" "221 mod 128 = (93 :: nat)" "222 mod 128 = (94 :: nat)" "223 mod 128 = (95 :: nat)" "224 mod 128 = (96 :: nat)"
  "225 mod 128 = (97 :: nat)" "226 mod 128 = (98 :: nat)" "227 mod 128 = (99 :: nat)" "228 mod 128 = (100 :: nat)" "229 mod 128 = (101 :: nat)"
  "230 mod 128 = (102 :: nat)" "231 mod 128 = (103 :: nat)" "232 mod 128 = (104 :: nat)" "233 mod 128 = (105 :: nat)" "234 mod 128 = (106 :: nat)"
  "235 mod 128 = (107 :: nat)" "236 mod 128 = (108 :: nat)" "237 mod 128 = (109 :: nat)" "238 mod 128 = (110 :: nat)" "239 mod 128 = (111 :: nat)"
  "240 mod 128 = (112 :: nat)" "241 mod 128 = (113 :: nat)" "242 mod 128 = (114 :: nat)" "243 mod 128 = (115 :: nat)" "244 mod 128 = (116 :: nat)"
  "245 mod 128 = (117 :: nat)" "246 mod 128 = (118 :: nat)" "247 mod 128 = (119 :: nat)" "248 mod 128 = (120 :: nat)" "249 mod 128 = (121 :: nat)"
  "250 mod 128 = (122 :: nat)" "251 mod 128 = (123 :: nat)" "252 mod 128 = (124 :: nat)" "253 mod 128 = (125 :: nat)" "254 mod 128 = (126 :: nat)"
  "255 mod 128 = (127 :: nat)"
  by simp_all

lemma foldl_concat: "foldl f s (concat xss) = foldl (foldl f) s xss"
  by (induction xss arbitrary: s) simp_all

lemmas scan_eval =
  foldl_concat foldl.simps append.simps Let_numeral Let_0 Let_1 if_True if_False
  list.case option.case prod.case list.size One_nat_def [symmetric]
  rel_simps arith_simps one_add_one one_plus_numeral numeral_plus_one add_0_right add_0_left
  mult_zero_left mult_1_left diff_nat_numeral nat_numeral nat_0 nat_1 diff_0_right simp_thms refl

end
