(* ===== verification/UnicodeRuns.thy ===== *)
theory UnicodeRuns
  imports UnicodeProp TableEval
begin

text \<open>
  What every generator of a character set promises (\<open>builds\<close>), and the interface \<open>run_table\<close> of the
  run-length encoded tables: a loop that decodes one run after the other and appends the intervals of
  each run builds exactly the characters whose run has a selected value. The tables of general
  categories, scripts and script extensions are its instances.
\<close>

section \<open>Appending intervals\<close>

fun add_intervals :: "char_range \<Rightarrow> (u32 \<times> u32) list \<Rightarrow> char_range \<times> int" where
  "add_intervals cr [] = (cr, 0)"
| "add_intervals cr ((c1, c2) # ivs) =
     (case cr_add_interval cr c1 c2 of (cr, r) \<Rightarrow> if r \<noteq> 0 then (cr, -1) else add_intervals cr ivs)"

definition iv_points :: "(u32 \<times> u32) list \<Rightarrow> u32 list" where
  "iv_points ivs = concat (map (\<lambda>(a, b). [a, b]) ivs)"

definition iv_mem :: "(u32 \<times> u32) list \<Rightarrow> u32 \<Rightarrow> bool" where
  "iv_mem ivs c \<longleftrightarrow> (\<exists>(a, b) \<in> set ivs. a \<le> c \<and> c < b)"

text \<open>Ascending intervals between two bounds.\<close>

fun ivs_ok :: "nat \<Rightarrow> nat \<Rightarrow> (u32 \<times> u32) list \<Rightarrow> bool" where
  "ivs_ok lo hi [] \<longleftrightarrow> lo \<le> hi"
| "ivs_ok lo hi ((a, b) # ivs) \<longleftrightarrow> lo \<le> unat a \<and> unat a \<le> unat b \<and> ivs_ok (unat b) hi ivs"

lemma iv_points_simps [simp]:
  "iv_points [] = []" "iv_points ((a, b) # ivs) = a # b # iv_points ivs"
  "iv_points (xs @ ys) = iv_points xs @ iv_points ys" "length (iv_points xs) = 2 * length xs"
  by (simp_all add: iv_points_def length_concat comp_def case_prod_beta sum_list_triv)

lemma iv_mem_simps [simp]:
  "\<not> iv_mem [] c" "iv_mem ((a, b) # ivs) c \<longleftrightarrow> a \<le> c \<and> c < b \<or> iv_mem ivs c"
  "iv_mem (xs @ ys) c \<longleftrightarrow> iv_mem xs c \<or> iv_mem ys c"
  by (auto simp: iv_mem_def)

lemma add_intervals_append:
  "add_intervals cr (xs @ ys) = (case add_intervals cr xs of (cr, r) \<Rightarrow> if r \<noteq> 0 then (cr, -1) else add_intervals cr ys)"
  by (induction cr xs rule: add_intervals.induct) (auto split: prod.splits)

lemma add_intervals_result: "add_intervals cr ivs = (cr', r) \<Longrightarrow> r = 0 \<or> r = -1"
  by (induction cr ivs rule: add_intervals.induct) (auto split: prod.splits if_splits)

lemma add_intervals_one: "add_intervals cr [(a, b)] = cr_add_interval cr a b"
  by (auto simp: cr_add_interval_def cr_realloc_def Let_def split: prod.splits option.splits)

lemma add_intervals_cases:
  "cr_ok cr \<Longrightarrow> add_intervals cr ivs = (cr', r) \<Longrightarrow>
   cr_ok cr' \<and> cr_realloc_func cr' = cr_realloc_func cr \<and>
   (r = 0 \<and> cr_points cr' = cr_points cr @ iv_points ivs \<or>
    r = -1 \<and> refused (cr_realloc_func cr) (2 * (cr_len cr + 2 * length ivs)))"
proof (induction cr ivs rule: add_intervals.induct)
  case (2 cr a b ivs)
  obtain c1 r1 where e: "cr_add_interval cr a b = (c1, r1)" by (metis surj_pair)
  note C = cr_add_interval_cases [OF 2(2) e]
  show ?case
  proof (cases "r1 = 0")
    case True
    then show ?thesis using 2(1) [OF e [symmetric]] C 2(3) e by auto
  next
    case False
    then show ?thesis using refused_mono [OF cr_add_interval_refused [OF e False]] C 2(3) e by auto
  qed
qed auto

lemma ivs_ok_mono: "ivs_ok lo hi ivs \<Longrightarrow> lo' \<le> lo \<Longrightarrow> ivs_ok lo' hi ivs"
  by (cases "(lo, hi, ivs)" rule: ivs_ok.cases) auto

lemma ivs_ok_append: "ivs_ok lo mid xs \<Longrightarrow> ivs_ok mid hi ys \<Longrightarrow> ivs_ok lo hi (xs @ ys)"
proof (induction lo mid xs rule: ivs_ok.induct)
  case (1 lo mid)
  then show ?case using ivs_ok_mono by simp
qed auto

lemma ivs_ok_le: "ivs_ok lo hi ivs \<Longrightarrow> lo \<le> hi"
  by (induction lo hi ivs rule: ivs_ok.induct) auto

lemma ivs_ok_points:
  "ivs_ok lo hi ivs \<Longrightarrow> sorted (iv_points ivs) \<and> (\<forall>x \<in> set (iv_points ivs). lo \<le> unat x \<and> unat x \<le> hi)"
proof (induction lo hi ivs rule: ivs_ok.induct)
  case (2 lo hi a b ivs)
  then have "\<forall>x \<in> set (iv_points ivs). unat b \<le> unat x \<and> unat x \<le> hi" "sorted (iv_points ivs)"
    "lo \<le> unat a" "unat a \<le> unat b" "unat b \<le> hi" using ivs_ok_le by auto
  moreover from this have "a \<le> b" "\<forall>x \<in> set (iv_points ivs). b \<le> x" by (auto simp: word_le_nat_alt)
  ultimately show ?case by (auto intro: order.trans)
qed simp

lemma ivs_ok_mem: "ivs_ok lo hi ivs \<Longrightarrow> cr_mem (iv_points ivs) c \<longleftrightarrow> iv_mem ivs c"
proof (induction lo hi ivs rule: ivs_ok.induct)
  case (2 lo hi a b ivs)
  then have ih: "cr_mem (iv_points ivs) c \<longleftrightarrow> iv_mem ivs c" and ab: "a \<le> b"
    and up: "\<forall>x \<in> set (iv_points ivs). b \<le> x" using ivs_ok_points by (auto simp: word_le_nat_alt)
  show ?case
  proof (cases "b \<le> c")
    case True
    then show ?thesis using ih ab by (auto simp: cr_mem_Cons)
  next
    case False
    then have "\<forall>x \<in> set (iv_points ivs). c < x" using up by (auto simp: not_le intro: less_le_trans)
    then show ?thesis using cr_mem_below ih ab False by (auto simp: cr_mem_Cons)
  qed
qed simp

section \<open>The contract of the generators\<close>

text \<open>
  \<open>denotes\<close> says that a range is a well-formed list of intervals for a set of Unicode code points.
  \<open>builds\<close> is the outcome of a generator: 0 with a range of at most \<open>k\<close> points for the set, or -1 because the
  allocator refused a request of at most twice as many points; nothing else.
\<close>

definition denotes :: "char_range \<Rightarrow> (u32 \<Rightarrow> bool) \<Rightarrow> bool" where
  "denotes cr P \<longleftrightarrow> cr_ok cr \<and> sorted (cr_points cr) \<and> even (cr_len cr) \<and>
     (\<forall>c. c \<le> 0x10ffff \<longrightarrow> (cr_mem (cr_points cr) c \<longleftrightarrow> P c))"

definition builds :: "(char_range \<times> int) option \<Rightarrow> u32 realloc_fun \<Rightarrow> nat \<Rightarrow> (u32 \<Rightarrow> bool) \<Rightarrow> bool" where
  "builds res rf k P \<longleftrightarrow>
     (\<exists>cr r. res = Some (cr, r) \<and> cr_ok cr \<and> cr_realloc_func cr = rf \<and>
        (r = 0 \<and> cr_len cr \<le> k \<and> denotes cr P \<or> r = -1 \<and> refused rf (2 * k)))"

lemma buildsE:
  assumes "builds res rf k P"
  obtains (ok) cr where "res = Some (cr, 0)" "cr_ok cr" "cr_realloc_func cr = rf" "cr_len cr \<le> k" "denotes cr P"
  | (fail) cr where "res = Some (cr, -1)" "cr_ok cr" "cr_realloc_func cr = rf" "refused rf (2 * k)"
  using assms by (auto simp: builds_def)

lemma builds_mono: "builds res rf k P \<Longrightarrow> k \<le> k' \<Longrightarrow> builds res rf k' P"
  using refused_mono [of rf "2 * k" "2 * k'"] by (auto simp: builds_def)

lemma builds_cong: "builds res rf k P \<Longrightarrow> (\<And>c. c \<le> 0x10ffff \<Longrightarrow> P c \<longleftrightarrow> Q c) \<Longrightarrow> builds res rf k Q"
  by (auto simp: builds_def denotes_def)

lemma builds_intervals:
  assumes "ivs_ok lo hi ivs" "cr_ok cr" "cr_len cr = 0"
  shows "builds (Some (add_intervals cr ivs)) (cr_realloc_func cr) (2 * length ivs) (iv_mem ivs)"
proof -
  obtain cr' r where e: "add_intervals cr ivs = (cr', r)" by (metis surj_pair)
  have n: "cr_points cr = []" using assms(3) by (simp add: cr_points_def)
  note C = add_intervals_cases [OF assms(2) e]
  have "denotes cr' (iv_mem ivs) \<and> cr_len cr' = 2 * length ivs" if "cr_points cr' = iv_points ivs"
    using that C ivs_ok_points [OF assms(1)] ivs_ok_mem [OF assms(1)] length_cr_points [of cr']
    by (simp add: denotes_def) (metis dvd_triv_left)
  then show ?thesis using C e n assms(3) by (auto simp: builds_def)
qed

text \<open>Ranges combine as the sets they denote.\<close>

lemma builds_op:
  assumes "denotes a P" "denotes b Q" "cr_len a \<le> j" "cr_len b \<le> k" "cr_ok cr" "cr_len cr = 0"
  shows "builds (Some (cr_op cr (cr_points a) (cr_points b) op)) (cr_realloc_func cr) (j + k)
    (\<lambda>c. cr_is_in op (P c) (Q c))"
proof -
  obtain cr' r where e: "cr_op cr (cr_points a) (cr_points b) op = (cr', r)" by (metis surj_pair)
  have s: "sorted (cr_points a)" "sorted (cr_points b)" "even (length (cr_points a))" "even (length (cr_points b))"
    and l: "length (cr_points a) \<le> j" "length (cr_points b) \<le> k"
    using assms(1-4) by (auto simp: denotes_def)
  note C = cr_op_cases [OF s assms(5,6) e]
  have "r \<noteq> 0 \<Longrightarrow> refused (cr_realloc_func cr) (2 * (j + k))"
    using refused_mono [OF cr_op_refused [OF assms(5,6) e]] l by simp
  moreover have "r = 0 \<Longrightarrow> cr_len cr' \<le> j + k" using cr_op_len [OF s(1,2) assms(5,6)] e l by fastforce
  moreover have "r = 0 \<Longrightarrow> denotes cr' (\<lambda>c. cr_is_in op (P c) (Q c))"
    using C assms(1,2) cr_normal_sorted [of "cr_points cr'"] by (auto simp: denotes_def)
  ultimately show ?thesis using C e by (auto simp: builds_def)
qed

lemma builds_invert:
  assumes "denotes a P" "cr_len a \<le> k"
  shows "builds (Some (cr_invert a)) (cr_realloc_func a) (k + 2) (\<lambda>c. \<not> P c)"
proof -
  obtain cr' r where e: "cr_invert a = (cr', r)" by (metis surj_pair)
  have a: "cr_ok a" "sorted (cr_points a)" "even (cr_len a)" using assms(1) by (auto simp: denotes_def)
  note C = cr_invert_cases [OF a, unfolded e split]
  have "c \<noteq> 0xffffffff" if "c \<le> 0x10ffff" for c :: u32 using that by (auto simp: word_le_nat_alt)
  then have d: "denotes cr' (\<lambda>c. \<not> P c) \<and> cr_len cr' \<le> k + 2" if "r = 0"
    using C assms cr_normal_sorted [of "cr_points cr'"] that by (auto simp: denotes_def)
  have f: "refused (cr_realloc_func a) (2 * (k + 2))" if "r = -1"
    using C refused_mono [of "cr_realloc_func a" "2 * (cr_len a + 2)" "2 * (k + 2)"] assms(2) that by auto
  have "cr_ok cr'" "cr_realloc_func cr' = cr_realloc_func a" "r = 0 \<or> r = -1" using C by auto
  then show ?thesis unfolding builds_def e using d f by blast
qed

lemma builds_copy:
  assumes "denotes a P" "cr_len a \<le> k" "cr_ok cr" "cr_len cr = 0"
  shows "builds (Some (cr_copy cr a)) (cr_realloc_func cr) k P"
proof -
  obtain c1 r1 where g: "cr_realloc cr (cr_len a) = (c1, r1)" by (metis surj_pair)
  note G = cr_realloc_cases [OF assms(3) g]
  have a: "cr_ok a" "length (cr_points a) = cr_len a" using assms(1) by (auto simp: denotes_def)
  show ?thesis
  proof (cases "r1 = 0")
    case False
    then show ?thesis using G refused_mono [OF cr_realloc_refused [OF g False]] assms(2) g
      by (auto simp: builds_def cr_copy_def)
  next
    case True
    let ?c = "c1\<lparr>points := blit (points c1) 0 (take (cr_len a) (points a)), cr_len := cr_len a\<rparr>"
    have l: "cr_len a \<le> length (points c1)" using G True by (auto simp: cr_ok_def)
    have "cr_points ?c = cr_points a" "cr_ok ?c"
      using G l a True by (auto simp: cr_points_def cr_ok_def blit_def)
    then have "denotes ?c P" using assms(1) by (auto simp: denotes_def)
    then show ?thesis using G g True assms(2) \<open>cr_ok ?c\<close> by (auto simp: builds_def cr_copy_def)
  qed
qed

lemma cr_new_simps [simp]:
  "cr_ok cr \<Longrightarrow> cr_ok (cr_new cr t)" "cr_len (cr_new cr t) = 0" "cr_realloc_func (cr_new cr t) = cr_realloc_func cr"
  "cr_ok (cr_at t cr) \<longleftrightarrow> cr_ok cr" "cr_len (cr_at t cr) = cr_len cr" "cr_points (cr_at t cr) = cr_points cr"
  "cr_realloc_func (cr_at t cr) = cr_realloc_func cr" "denotes (cr_at t cr) P \<longleftrightarrow> denotes cr P"
  by (auto simp: cr_new_def cr_at_def cr_ok_def cr_init_def cr_points_def denotes_def)

section \<open>Run-length encoded tables\<close>

text \<open>
  The reference reading of a table: the value of the run that covers \<open>x\<close> and the offset in that run. The
  check adds up the lengths and the intervals a run may need; it is evaluated on the tables. The first
  argument bounds the number of runs by the number of bytes.
\<close>

primrec run_value :: "('b list \<Rightarrow> ('v \<times> nat \<times> 'b list) option) \<Rightarrow> nat \<Rightarrow> 'b list \<Rightarrow> nat \<Rightarrow> nat \<Rightarrow> ('v \<times> nat) option" where
  "run_value decode 0 p c x = None"
| "run_value decode (Suc k) p c x =
     (case decode p of
        None \<Rightarrow> None
      | Some (v, n, q) \<Rightarrow> if x < c + n then Some (v, x - c) else run_value decode k q (c + n) x)"

inductive runs_to :: "('b list \<Rightarrow> ('v \<times> nat \<times> 'b list) option) \<Rightarrow> ('v \<Rightarrow> nat \<Rightarrow> nat) \<Rightarrow> 'b list \<Rightarrow> nat \<Rightarrow> nat \<Rightarrow> bool"
  for decode cost where
  Nil: "runs_to decode cost [] 0 0"
| Cons: "p \<noteq> [] \<Longrightarrow> decode p = Some (v, n, q) \<Longrightarrow> length q < length p \<Longrightarrow> runs_to decode cost q s k \<Longrightarrow>
    runs_to decode cost p (n + s) (cost v n + k)"

text \<open>
  The tables are checked byte by byte: \<open>scan_step\<close> collects the bytes of an entry until they decode.
\<close>

fun scan_step :: "('b list \<Rightarrow> ('v \<times> nat \<times> 'b list) option) \<Rightarrow> ('v \<Rightarrow> nat \<Rightarrow> nat) \<Rightarrow> 'b list \<times> nat \<times> nat \<Rightarrow> 'b \<Rightarrow> 'b list \<times> nat \<times> nat" where
  "scan_step decode cost (pend, s, k) b =
     (case decode (pend @ [b]) of
        Some (v, n, []) \<Rightarrow> ([], s + n, k + cost v n)
      | _ \<Rightarrow> (pend @ [b], s, k))"

lemma scan_runs:
  assumes app: "\<And>p v n q r. decode p = Some (v, n, q) \<Longrightarrow> decode (p @ r) = Some (v, n, q @ r)"
    and ne: "\<And>v n q. decode [] \<noteq> Some (v, n, q)"
  shows "foldl (scan_step decode cost) (pend, s, k) p = ([], s', k') \<Longrightarrow>
    s \<le> s' \<and> k \<le> k' \<and> runs_to decode cost (pend @ p) (s' - s) (k' - k)"
proof (induction p arbitrary: pend s k)
  case Nil
  then show ?case by (simp add: runs_to.Nil)
next
  case (Cons b p)
  show ?case
  proof (cases "\<exists>v n. decode (pend @ [b]) = Some (v, n, [])")
    case True
    then obtain v n where d: "decode (pend @ [b]) = Some (v, n, [])" by blast
    have "s + n \<le> s' \<and> k + cost v n \<le> k' \<and> runs_to decode cost p (s' - (s + n)) (k' - (k + cost v n))"
      using Cons.IH [of "[]" "s + n" "k + cost v n"] Cons.prems d by simp
    then show ?thesis
      using runs_to.Cons [of "pend @ b # p" decode v n p cost "s' - (s + n)" "k' - (k + cost v n)"]
        app [OF d, of p] by simp
  next
    case False
    then have "scan_step decode cost (pend, s, k) b = (pend @ [b], s, k)"
      by (auto split: option.splits list.splits)
    then show ?thesis using Cons.IH [of "pend @ [b]" s k] Cons.prems by simp
  qed
qed

locale run_table =
  fixes decode :: "u8 list \<Rightarrow> ('v \<times> nat \<times> u8 list) option"
    and loop :: "char_range \<Rightarrow> u8 list \<Rightarrow> u32 \<Rightarrow> (char_range \<times> int) option"
    and sel :: "'v \<Rightarrow> u32 \<Rightarrow> u32 \<Rightarrow> (u32 \<times> u32) list"
    and picks :: "'v \<Rightarrow> nat \<Rightarrow> bool"
    and cost :: "'v \<Rightarrow> nat \<Rightarrow> nat"
  assumes loop_Nil: "loop cr [] c = Some (cr, 0)"
    and loop_step: "decode p = Some (v, n, q) \<Longrightarrow> unat c + n \<le> 0x110000 \<Longrightarrow> cr_ok cr \<Longrightarrow>
      loop cr p c = (case add_intervals cr (sel v c (c + of_nat n)) of
        (cr, r) \<Rightarrow> if r \<noteq> 0 then Some (cr, -1) else loop cr q (c + of_nat n))"
    and sel_ok: "unat c + n = unat d \<Longrightarrow> unat d \<le> 0x110000 \<Longrightarrow> ivs_ok (unat c) (unat d) (sel v c d)"
    and sel_mem: "unat c + n = unat d \<Longrightarrow> unat d \<le> 0x110000 \<Longrightarrow>
      iv_mem (sel v c d) x \<longleftrightarrow> unat c \<le> unat x \<and> unat x < unat d \<and> picks v (unat x - unat c)"
    and sel_cost: "unat c + n = unat d \<Longrightarrow> unat d \<le> 0x110000 \<Longrightarrow> length (sel v c d) \<le> cost v n"
begin

lemma unat_run_end: "unat c + n \<le> 0x110000 \<Longrightarrow> unat (c + of_nat n :: u32) = unat c + n"
  by (simp add: unat_word_ariths unat_of_nat)

lemma loop_intervals:
  "runs_to decode cost p s k \<Longrightarrow> unat c + s \<le> 0x110000 \<Longrightarrow> length p \<le> m \<Longrightarrow>
   \<exists>ivs. (\<forall>cr. cr_ok cr \<longrightarrow> loop cr p c = Some (add_intervals cr ivs)) \<and> ivs_ok (unat c) (unat c + s) ivs \<and>
     length ivs \<le> k \<and>
     (\<forall>x. iv_mem ivs x \<longleftrightarrow> unat c \<le> unat x \<and> unat x < unat c + s \<and>
       (\<exists>v i. run_value decode m p (unat c) (unat x) = Some (v, i) \<and> picks v i))"
proof (induction arbitrary: c m rule: runs_to.induct)
  case Nil
  show ?case by (rule exI [of _ "[]"]) (auto simp: loop_Nil)
next
  case (Cons p v n q s k)
  let ?d = "c + of_nat n :: u32"
  have d: "unat ?d = unat c + n" using unat_run_end Cons.prems(1) by simp
  obtain m' where m': "m = Suc m'" "length q \<le> m'" using Cons.prems(2) Cons.hyps(1,3) by (cases m) auto
  obtain ivs where ivs: "\<And>cr. cr_ok cr \<Longrightarrow> loop cr q ?d = Some (add_intervals cr ivs)"
      "ivs_ok (unat ?d) (unat ?d + s) ivs" "length ivs \<le> k"
      "\<And>x. iv_mem ivs x \<longleftrightarrow> unat ?d \<le> unat x \<and> unat x < unat ?d + s \<and>
        (\<exists>v i. run_value decode m' q (unat ?d) (unat x) = Some (v, i) \<and> picks v i)"
    using Cons.IH [of ?d m'] Cons.prems(1) d m' by auto
  have sel: "ivs_ok (unat c) (unat ?d) (sel v c ?d)" "length (sel v c ?d) \<le> cost v n"
    "\<And>x. iv_mem (sel v c ?d) x \<longleftrightarrow> unat c \<le> unat x \<and> unat x < unat ?d \<and> picks v (unat x - unat c)"
    using sel_ok [of c n ?d v] sel_cost [of c n ?d v] sel_mem [of c n ?d v] d Cons.prems(1) by auto
  have "loop cr p c = Some (add_intervals cr (sel v c ?d @ ivs))" if "cr_ok cr" for cr
    using loop_step [OF Cons.hyps(2) _ that, of c] Cons.prems(1) add_intervals_cases [OF that] ivs(1)
    by (auto simp: add_intervals_append split: prod.splits)
  moreover have "ivs_ok (unat c) (unat c + (n + s)) (sel v c ?d @ ivs)"
    using ivs_ok_append [OF sel(1)] ivs(2) d by (simp add: add.assoc)
  moreover have "iv_mem (sel v c ?d @ ivs) x \<longleftrightarrow> unat c \<le> unat x \<and> unat x < unat c + (n + s) \<and>
      (\<exists>w i. run_value decode m p (unat c) (unat x) = Some (w, i) \<and> picks w i)" for x
    using sel(3) [of x] ivs(4) [of x] Cons.hyps(2) d m'(1) by (auto simp: not_less)
  ultimately show ?case using sel(2) ivs(3) by (intro exI [of _ "sel v c ?d @ ivs"]) auto
qed

lemma loop_builds:
  assumes "runs_to decode cost p s k" "s \<le> 0x110000" "cr_ok cr" "cr_len cr = 0"
  shows "builds (loop cr p 0) (cr_realloc_func cr) (2 * k)
    (\<lambda>x. unat x < s \<and> (\<exists>v i. run_value decode (length p) p 0 (unat x) = Some (v, i) \<and> picks v i))"
proof -
  obtain ivs where ivs: "\<And>cr. cr_ok cr \<Longrightarrow> loop cr p 0 = Some (add_intervals cr ivs)" "ivs_ok 0 s ivs"
      "length ivs \<le> k"
      "\<And>x. iv_mem ivs x \<longleftrightarrow> unat x < s \<and> (\<exists>v i. run_value decode (length p) p 0 (unat x) = Some (v, i) \<and> picks v i)"
    using loop_intervals [OF assms(1), of 0 "length p"] assms(2) by auto
  show ?thesis
    using builds_mono [OF builds_intervals [OF ivs(2) assms(3,4)], of "2 * k"] ivs(1) [OF assms(3)] ivs(3)
    by (simp add: ivs(4) [abs_def])
qed

end

text \<open>The simpler tables, where a run is taken or left as a whole.\<close>

definition add_run :: "bool \<Rightarrow> char_range \<Rightarrow> u32 \<Rightarrow> u32 \<Rightarrow> char_range \<times> int" where
  "add_run b cr c d = (if b then cr_add_interval cr c d else (cr, 0))"

definition run_count :: "'v \<Rightarrow> nat \<Rightarrow> nat" where
  "run_count v n = 1"

locale whole_run_table =
  fixes decode :: "u8 list \<Rightarrow> ('v \<times> nat \<times> u8 list) option"
    and loop :: "char_range \<Rightarrow> u8 list \<Rightarrow> u32 \<Rightarrow> (char_range \<times> int) option"
    and wanted :: "'v \<Rightarrow> bool"
  assumes whole_Nil: "loop cr [] c = Some (cr, 0)"
    and whole_step: "decode p = Some (v, n, q) \<Longrightarrow>
      loop cr p c = (case add_run (wanted v) cr c (c + of_nat n) of
        (cr, r) \<Rightarrow> if r \<noteq> 0 then Some (cr, -1) else loop cr q (c + of_nat n))"

sublocale whole_run_table \<subseteq> run_table decode loop "\<lambda>v c d. if wanted v then [(c, d)] else []" "\<lambda>v i. wanted v" run_count
proof (unfold_locales, goal_cases)
  case (2 p v n q c cr)
  then show ?case using whole_step [OF 2(1), of cr c] add_intervals_one [of cr c "c + of_nat n"] by (simp add: add_run_def)
qed (auto simp: run_count_def whole_Nil word_le_nat_alt word_less_nat_alt)

end
