(* ===== verification/UnicodeNames.thy ===== *)
theory UnicodeNames
  imports UnicodeProp
begin

text \<open>
  Name lookup in the tables of Unicode names: each entry is a string of alternatives separated by
  commas, and the tables are the entries in a row, each with its NUL, and a last NUL.
\<close>

function aliases :: "bytes \<Rightarrow> bytes list" where
  "aliases s =
     (if 0x2c \<in> set s then takeWhile (\<lambda>b. b \<noteq> 0x2c) s # aliases (tl (dropWhile (\<lambda>b. b \<noteq> 0x2c) s)) else [s])"
  by pat_completeness auto
termination
proof (relation "measure length", goal_cases)
  case (2 s)
  have "length (dropWhile (\<lambda>b. b \<noteq> 0x2c) s) \<le> length s" by (rule length_dropWhile_le)
  moreover have "dropWhile (\<lambda>b. b \<noteq> 0x2c) s \<noteq> []" using 2 by (auto simp: dropWhile_eq_Nil_conv)
  ultimately show ?case by (cases "dropWhile (\<lambda>b. b \<noteq> 0x2c) s") auto
qed simp

declare aliases.simps [simp del]

text \<open>The reference: the number of the first entry that has the name among its alternatives, or -1.\<close>

fun alias_index :: "bytes list \<Rightarrow> bytes \<Rightarrow> int \<Rightarrow> int" where
  "alias_index [] name pos = -1"
| "alias_index (s # ss) name pos = (if name \<in> set (aliases s) then pos else alias_index ss name (pos + 1))"

lemma take_c_string_alias:
  assumes "0 \<notin> set s"
  shows "alias_len (s @ 0 # rest) = length (takeWhile (\<lambda>b. b \<noteq> 0x2c) s)"
    "has_comma (s @ 0 # rest) \<longleftrightarrow> 0x2c \<in> set s"
    "take (alias_len (s @ 0 # rest)) (s @ 0 # rest) = takeWhile (\<lambda>b. b \<noteq> 0x2c) s"
proof -
  have z: "takeWhile (\<lambda>b. b \<noteq> 0) (s @ 0 # rest) = s"
    using assms by (subst takeWhile_append2) auto
  have "takeWhile (\<lambda>b. b \<noteq> 0 \<and> b \<noteq> 0x2c) (s @ 0 # rest) = takeWhile (\<lambda>b. b \<noteq> 0x2c) s"
    using assms by (induction s) auto
  then show l: "alias_len (s @ 0 # rest) = length (takeWhile (\<lambda>b. b \<noteq> 0x2c) s)" by (simp add: alias_len_def)
  show "has_comma (s @ 0 # rest) \<longleftrightarrow> 0x2c \<in> set s" by (simp add: has_comma_def z)
  have "length (takeWhile (\<lambda>b. b \<noteq> 0x2c) s) \<le> length s" by (rule length_takeWhile_le)
  then show "take (alias_len (s @ 0 # rest)) (s @ 0 # rest) = takeWhile (\<lambda>b. b \<noteq> 0x2c) s"
    unfolding l by (simp add: takeWhile_eq_take [symmetric])
qed

lemma drop_alias:
  assumes "0x2c \<in> set s"
  shows "drop (length (takeWhile (\<lambda>b. b \<noteq> 0x2c) s) + 1) (s @ t) = tl (dropWhile (\<lambda>b. b \<noteq> 0x2c) s) @ t"
proof -
  have "dropWhile (\<lambda>b. b \<noteq> 0x2c) s \<noteq> []" using assms by (auto simp: dropWhile_eq_Nil_conv)
  moreover have "drop (length (takeWhile (\<lambda>b. b \<noteq> 0x2c) s)) s = dropWhile (\<lambda>b. b \<noteq> 0x2c) s"
    by (metis dropWhile_eq_drop)
  moreover have "length (takeWhile (\<lambda>b. b \<noteq> 0x2c) s) < length s" 
    using assms by (metis (mono_tags) le_neq_implies_less length_takeWhile_le set_takeWhileD takeWhile_eq_take take_all order.refl)
  ultimately show ?thesis by (simp add: drop_Suc tl_drop [symmetric] tl_append2)
qed

lemma find_name_entry:
  "0 \<notin> set s \<Longrightarrow> (start \<longrightarrow> s \<noteq> []) \<Longrightarrow>
   find_name (s @ 0 # rest) name pos start =
     (if name \<in> set (aliases s) then Some pos else find_name rest name (pos + 1) True)"
proof (induction s arbitrary: start rule: aliases.induct)
  case (1 s)
  let ?a = "takeWhile (\<lambda>b. b \<noteq> 0x2c) s"
  note A = take_c_string_alias [OF "1.prems"(1), of rest]
  have st: "\<not> (start \<and> hd (s @ 0 # rest) = 0)" using "1.prems" by (cases s) auto
  have e: "find_name (s @ 0 # rest) name pos start =
      (if ?a = name then Some pos
       else if 0x2c \<in> set s then find_name (drop (length ?a + 1) (s @ 0 # rest)) name pos False
       else find_name (drop (length ?a + 1) (s @ 0 # rest)) name (pos + 1) True)"
    using st A by (subst find_name.simps) (auto simp: Let_def)
  show ?case
  proof (cases "0x2c \<in> set s")
    case True
    have "0 \<notin> set (tl (dropWhile (\<lambda>b. b \<noteq> 0x2c) s))"
      using "1.prems"(1) by (metis list.sel(2) list.set_sel(2) set_dropWhileD)
    then show ?thesis
      using e 1(1) [OF True, of False] True drop_alias [OF True, of "0 # rest"] by (subst aliases.simps) auto
  next
    case False
    then have a: "?a = s" by (auto simp only: takeWhile_eq_all_conv)
    from e [unfolded a] False have "find_name (s @ 0 # rest) name pos start =
        (if s = name then Some pos else find_name rest name (pos + 1) True)" by simp
    then show ?thesis using False by (subst aliases.simps) auto
  qed
qed

lemma find_name_names:
  "\<forall>s \<in> set ss. s \<noteq> [] \<and> 0 \<notin> set s \<Longrightarrow>
   find_name (concat (map (\<lambda>s. s @ [0]) ss) @ [0]) name pos True = Some (alias_index ss name pos)"
proof (induction ss arbitrary: pos)
  case Nil
  show ?case by (subst find_name.simps) simp
next
  case (Cons s ss)
  then show ?case using find_name_entry [of s True "concat (map (\<lambda>s. s @ [0]) ss) @ [0]" name pos] by simp
qed

definition names_ok :: "string list \<Rightarrow> bool" where
  "names_ok es = list_all (\<lambda>e. e \<noteq> [] \<and> list_all (\<lambda>c. c \<noteq> CHR 0x00) e) es"

lemma of_char_zero: "(of_char c :: u8) = 0 \<longleftrightarrow> c = CHR 0x00"
proof -
  have "unat (of_nat (of_char c) :: u8) = (of_char c :: nat) mod 256" by (subst unat_of_nat) simp
  then have "unat (of_char c :: u8) = (of_char c :: nat)" by (simp add: of_nat_of_char)
  moreover have "(of_char c :: nat) = of_char (CHR 0x00) \<longleftrightarrow> c = CHR 0x00" by (rule of_char_eq_iff)
  ultimately show ?thesis by (simp add: word_unat_eq_iff)
qed

lemma find_name_entries:
  assumes "names_ok es"
  shows "unicode_find_name (c_names es) name = Some (alias_index (map (map of_char) es) name 0)"
proof -
  have "\<forall>s \<in> set (map (map of_char) es :: bytes list). s \<noteq> [] \<and> 0 \<notin> set s"
    using assms by (auto simp: names_ok_def list_all_iff of_char_zero [symmetric])
  from find_name_names [OF this, of name 0] show ?thesis
    by (simp add: unicode_find_name_def c_names_def comp_def del: alias_index.simps)
qed

text \<open>
  Property C39. Looking up a name in a table of names finds the first entry that has the name among its
  comma-separated alternatives, and reports -1 when there is none; it never reads past the table.
\<close>

theorem find_name_first_alias:
  assumes "names_ok es"
  shows "unicode_find_name (c_names es) name = Some (alias_index (map (map of_char) es) name 0)"
  using assms by (rule find_name_entries)

theorem find_name_first_alias_witness:
  "unicode_find_name (c_names [''Cn,Unassigned'', ''Lu'']) [0x4c, 0x75] = Some 1"
  using find_name_first_alias [of "[''Cn,Unassigned'', ''Lu'']" "[0x4c, 0x75]"]
  by (simp add: names_ok_def aliases.simps)

lemma alias_index_bound: "alias_index ss name pos = -1 \<or> pos \<le> alias_index ss name pos \<and> alias_index ss name pos < pos + int (length ss)"
  by (induction ss name pos rule: alias_index.induct) auto

lemma find_name_bound:
  assumes "names_ok es" "length es = n"
  shows "\<exists>i. unicode_find_name (c_names es) name = Some i \<and> (i = -1 \<or> 0 \<le> i \<and> i < int n)"
  using find_name_entries [OF assms(1)] alias_index_bound [of "map (map of_char) es" name 0] assms(2) by auto

text \<open>The three tables of the program.\<close>

lemma name_tables:
  "\<exists>i. unicode_find_name unicode_gc_name_table name = Some i \<and> (i = -1 \<or> 0 \<le> i \<and> i < int 38)"
  "\<exists>i. unicode_find_name unicode_script_name_table name = Some i \<and> (i = -1 \<or> 0 \<le> i \<and> i < int 156)"
  "\<exists>i. unicode_find_name unicode_prop_name_table name = Some i \<and> (i = -1 \<or> 0 \<le> i \<and> i < int 53)"
  unfolding unicode_gc_name_table_def unicode_script_name_table_def unicode_prop_name_table_def
  by (rule find_name_bound; simp add: names_ok_def)+

end
