(* ===== verification/UnicodeSets.thy ===== *)
theory UnicodeSets
  imports UnicodeRuns UnicodeNames
begin

text \<open>
  What the generators of \<^verbatim>\<open>quickjs/libunicode.c\<close> build: general categories, scripts, script extensions, binary
  properties and changes under case conversion, each against a reference reading of its table.
\<close>

section \<open>General categories\<close>

fun gc_decode :: "u8 list \<Rightarrow> (nat \<times> nat \<times> u8 list) option" where
  "gc_decode (b # p) =
     (let v = unat b mod 32; n = unat b div 32 in
      if n < 7 then Some (v, n + 1, p)
      else case p of
             [] \<Rightarrow> None
           | x # p \<Rightarrow>
               if unat x < 128 then Some (v, unat x + 8, p)
               else if unat x < 192 then
                 (case p of y # p \<Rightarrow> Some (v, (unat x - 128) * 256 + unat y + 136, p) | _ \<Rightarrow> None)
               else
                 (case p of
                    y # z # p \<Rightarrow> Some (v, (unat x - 192) * 65536 + unat y * 256 + unat z + 16520, p)
                  | _ \<Rightarrow> None))"
| "gc_decode [] = None"

definition gc_cost :: "nat \<Rightarrow> nat \<Rightarrow> nat" where
  "gc_cost v n = (if v = 31 then n + 1 else 1)"

primrec alt_ivs :: "nat \<Rightarrow> u32 \<Rightarrow> (u32 \<times> u32) list" where
  "alt_ivs 0 c = []"
| "alt_ivs (Suc k) c = (c, c + 1) # alt_ivs k (c + 2)"

definition gc_sel :: "u32 \<Rightarrow> nat \<Rightarrow> u32 \<Rightarrow> u32 \<Rightarrow> (u32 \<times> u32) list" where
  "gc_sel gm v c d =
     (if v = 31 then
        if bit gm 1 \<and> bit gm 2 then [(c, d)]
        else if bit gm 1 then alt_ivs ((unat d - unat c + 1) div 2) c
        else if bit gm 2 then alt_ivs ((unat d - unat c) div 2) (c + 1)
        else []
      else if bit gm v then [(c, d)] else [])"

definition gc_picks :: "u32 \<Rightarrow> nat \<Rightarrow> nat \<Rightarrow> bool" where
  "gc_picks gm v i = bit gm (if v = 31 then (if even i then 1 else 2) else v)"

lemma gc_nums [simp]: "M UNICODE_GC_Lu = 2" "M UNICODE_GC_Ll = 4"
  by (simp_all add: M_def enum_num_def unicode_gcs_def)

lemma mask_bits: "bit (6 :: u32) n \<longleftrightarrow> n = 1 \<or> n = 2" "bit (4 :: u32) n \<longleftrightarrow> n = 2"
proof -
  have e: "(6 :: u32) = push_bit 1 1 OR push_bit 2 1" "(4 :: u32) = push_bit 2 1" by simp_all
  show "bit (6 :: u32) n \<longleftrightarrow> n = 1 \<or> n = 2"
    unfolding e(1) bit_or_iff bit_push_bit_iff bit_1_iff by (cases "n = 1"; cases "n = 2") auto
  show "bit (4 :: u32) n \<longleftrightarrow> n = 2" unfolding e(2) bit_push_bit_iff bit_1_iff by (cases "n = 2") auto
qed

lemma and_eq_iff: "a AND b = c \<longleftrightarrow> (\<forall>n. (bit a n \<and> bit b n) = bit c n)" for a b c :: u32
  by (auto simp: bit_and_iff intro!: bit_eqI)

lemma mask_Lu_Ll:
  "gm AND 6 = 0 \<longleftrightarrow> \<not> bit gm 1 \<and> \<not> bit gm 2" "gm AND 6 = 6 \<longleftrightarrow> bit gm 1 \<and> bit gm 2"
  "gm AND 4 = 0 \<longleftrightarrow> \<not> bit gm 2" for gm :: u32
  unfolding and_eq_iff mask_bits by auto

lemma unat_small_add: "unat c + n < 2 ^ 32 \<Longrightarrow> unat (c + of_nat n :: u32) = unat c + n"
  by (simp add: unat_word_ariths unat_of_nat)

lemmas unat_small_add' = unat_small_add [where n = 1, simplified] unat_small_add [where n = 2, simplified]

lemma gc_alternate_ivs:
  "unat c0 + m = unat c \<Longrightarrow> unat c \<le> 0x110000 \<Longrightarrow>
   gc_alternate cr c0 c = Some (add_intervals cr (alt_ivs ((m + 1) div 2) c0))"
proof (induction m arbitrary: cr c0 rule: less_induct)
  case (less m)
  consider "m = 0" | "m = 1" | k where "m = Suc (Suc k)" by (metis One_nat_def nat.exhaust)
  then show ?case
  proof cases
    case 1
    then show ?thesis using less.prems by (subst gc_alternate.simps) (simp add: word_less_nat_alt)
  next
    case 2
    have "gc_alternate cr' (c0 + 2) c = Some (cr', 0)" for cr'
      using 2 less.prems by (subst gc_alternate.simps) (simp add: word_less_nat_alt unat_small_add')
    then show ?thesis
      using 2 less.prems by (subst gc_alternate.simps) (simp add: word_less_nat_alt split: prod.splits)
  next
    case (3 k)
    have "gc_alternate cr' (c0 + 2) c = Some (add_intervals cr' (alt_ivs ((k + 1) div 2) (c0 + 2)))" for cr'
      using 3 less.prems by (intro less.IH) (simp_all add: unat_small_add')
    then show ?thesis
      using 3 less.prems by (subst gc_alternate.simps) (simp add: word_less_nat_alt split: prod.splits)
  qed
qed

lemma alt_ivs_props:
  "unat c + 2 * k \<le> hi + 1 \<Longrightarrow> hi \<le> 0x110000 \<Longrightarrow> unat c \<le> hi \<Longrightarrow> ivs_ok (unat c) hi (alt_ivs k c)"
  "unat c + 2 * k \<le> 0x110001 \<Longrightarrow>
     iv_mem (alt_ivs k c) x \<longleftrightarrow> unat c \<le> unat x \<and> unat x < unat c + 2 * k \<and> even (unat x - unat c)"
  "length (alt_ivs k c) = k"
proof (induction k arbitrary: c)
  case (Suc k)
  {
    case 1
    then show ?case using Suc.IH(1) [of "c + 2"] ivs_ok_mono by (cases k) (fastforce simp: unat_small_add')+
  next
    case 2
    have "unat (c + 1) = unat c + 1" "unat (c + 2) = unat c + 2" using 2 by (simp_all add: unat_small_add')
    then show ?case using Suc.IH(2) [of "c + 2"] 2
      by (auto simp: word_le_nat_alt word_less_nat_alt) presburger+
  next
    case 3
    then show ?case using Suc.IH(3) by simp
  }
qed auto


lemma unat_wide:
  assumes "unat (w :: u32) < 256"
  shows "unat (push_bit 8 w OR ucast (y :: u8)) = unat w * 256 + unat y"
    "unat (push_bit 16 w OR push_bit 8 (ucast y) OR ucast (z :: u8)) = unat w * 65536 + unat y * 256 + unat z"
proof -
  show 1: "unat (push_bit 8 w OR ucast y) = unat w * 256 + unat y"
    using assms by (intro unat_or_byte) simp
  have "push_bit 16 w OR push_bit 8 (ucast y) OR ucast z = push_bit 8 (push_bit 8 w OR ucast y :: u32) OR ucast z"
    by (simp add: push_bit_or push_bit_push_bit or.assoc)
  also have "unat \<dots> = (unat w * 256 + unat y) * 256 + unat z"
    using assms 1 unat_byte [of y] by (subst unat_or_byte) auto
  finally show "unat (push_bit 16 w OR push_bit 8 (ucast y) OR ucast z) = unat w * 65536 + unat y * 256 + unat z"
    by simp
qed

lemma word_eq_of_nat: "unat (w :: u32) = n \<Longrightarrow> w = of_nat n"
  by (metis of_nat_unat ucast_id)

lemma run_wide:
  fixes x y z :: u8
  assumes "k \<le> unat x" "k < 256"
  shows "push_bit 8 (ucast x - of_nat k) OR ucast y = (of_nat ((unat x - k) * 256 + unat y) :: u32)"
    "push_bit 16 (ucast x - of_nat k) OR push_bit 8 (ucast y) OR ucast z =
       (of_nat ((unat x - k) * 65536 + unat y * 256 + unat z) :: u32)"
proof -
  have "unat (ucast x - of_nat k :: u32) = unat x - k" using unat_sub_byte [OF assms] .
  then show "push_bit 8 (ucast x - of_nat k) OR ucast y = (of_nat ((unat x - k) * 256 + unat y) :: u32)"
    "push_bit 16 (ucast x - of_nat k) OR push_bit 8 (ucast y) OR ucast z =
       (of_nat ((unat x - k) * 65536 + unat y * 256 + unat z) :: u32)"
    using unat_wide [of "ucast x - of_nat k"] unat_byte [of x] by (intro word_eq_of_nat, simp)+
qed

lemmas run_wide_128 = run_wide [of 128, simplified] and run_wide_192 = run_wide [of 192, simplified]

lemma ucast_less_iff: "ucast x < (128 :: u32) \<longleftrightarrow> unat x < 128" "ucast x < (192 :: u32) \<longleftrightarrow> unat x < 192" for x :: u8
  by (simp_all add: word_less_nat_alt)

lemma gc_decode_run:
  assumes "gc_decode (b # p) = Some (v, n, q)"
  shows "\<exists>w. gc_run_len (drop_bit 5 (ucast b)) p = Some (w, q) \<and> w + 1 = of_nat n" "0 < n"
    "unat (ucast b AND 0x1f :: u32) = v"
proof -
  have v: "v = unat b mod 32" "0 < n" using assms by (auto simp: Let_def split: if_splits list.splits)
  then show "unat (ucast b AND 0x1f :: u32) = v" "0 < n"
    using unat_and_mask [of "ucast b :: u32" 5] by (simp_all add: mask_eq_exp_minus_1)
  have d: "drop_bit 5 (ucast b) = (of_nat (unat b div 32) :: u32)" by (rule word_eq_of_nat) (simp add: unat_drop_bit)
  have seven: "(of_nat (unat b div 32) :: u32) = 7 \<longleftrightarrow> \<not> unat b div 32 < 7"
    using unat_byte [of b] by (auto simp: word_unat_eq_iff [of _ "7 :: u32"] unat_of_nat)
  show "\<exists>w. gc_run_len (drop_bit 5 (ucast b)) p = Some (w, q) \<and> w + 1 = of_nat n"
    using assms unfolding d gc_run_len_def Let_def seven gc_decode.simps
    by (auto simp: ucast_less_iff run_wide_128 run_wide_192 not_less diff_diff_left
      split: if_splits list.splits simp del: of_nat_diff)
qed

lemma gc_add_ivs:
  assumes "unat v < 32" "unat c < unat d" "unat d \<le> 0x110000" "cr_ok cr"
  shows "gc_add cr gm v c d = Some (add_intervals cr (gc_sel gm (unat v) c d))"
proof -
  have b: "drop_bit (unat v) gm AND 1 = 1 \<longleftrightarrow> bit gm (unat v)"
    by (simp add: and_one_eq bit_iff_odd_drop_bit mod_2_eq_odd)
  have v31: "v = 31 \<longleftrightarrow> unat v = 31" by (simp add: word_unat_eq_iff)
  have e: "unat d - unat (c + 1) + 1 = unat d - unat c" using assms by (simp add: unat_small_add')
  show ?thesis
    using assms gc_alternate_ivs [of c "unat d - unat c" d cr] gc_alternate_ivs [of "c + 1" "unat d - unat (c + 1)" d cr]
      add_intervals_one [of cr c d] e
    by (auto simp: gc_add_def gc_sel_def v31 b Let_def mask_Lu_Ll mask_Lu_Ll [unfolded One_nat_def] unat_small_add')
qed

lemma alternate_nat:
  "c \<le> x \<and> x < c + 2 * ((n + 1) div 2) \<and> even (x - c) \<longleftrightarrow> c \<le> x \<and> x < c + n \<and> even (x - c)"
  "c + 1 \<le> x \<and> x < c + 1 + 2 * (n div 2) \<and> even (x - (c + 1)) \<longleftrightarrow> c \<le> x \<and> x < c + n \<and> odd (x - c)"
  for c x n :: nat
  by presburger+

lemma gc_decode_shorter: "gc_decode p = Some (v, n, q) \<Longrightarrow> length q < length p"
  by (cases p) (auto simp: Let_def split: if_splits list.splits)

interpretation gc: run_table gc_decode "\<lambda>cr p c. gc_loop cr p c gm" "gc_sel gm" "gc_picks gm" gc_cost for gm
proof (unfold_locales, goal_cases)
  case (2 p v n q c cr)
  then obtain b p' where p: "p = b # p'" by (cases p) auto
  obtain w where w: "gc_run_len (drop_bit 5 (ucast b)) p' = Some (w, q)" "w + 1 = of_nat n"
    "unat (ucast b AND 0x1f :: u32) = v" "0 < n"
    using gc_decode_run [OF 2(1) [unfolded p]] by auto
  have "unat (ucast b AND 0x1f :: u32) < 32" using unat_and_mask [of "ucast b :: u32" 5] by (simp add: mask_eq_exp_minus_1)
  moreover have "unat (c + of_nat n) = unat c + n" using 2(2) by (intro unat_small_add) simp
  ultimately show ?case
    using gc_add_ivs [of "ucast b AND 0x1f" c "c + of_nat n" cr gm] w(1,3,4) 2(2,3) by (simp add: p Let_def w(2) split: prod.splits)
next
  case (3 c n d v)
  then show ?case
    using alt_ivs_props(1) [of c "(unat d - unat c + 1) div 2" "unat d"]
      alt_ivs_props(1) [of "c + 1" "(unat d - unat c) div 2" "unat d"]
      ivs_ok_mono [of "unat c + 1" "unat d" "alt_ivs ((unat d - unat c) div 2) (c + 1)" "unat c"]
    by (cases "n = 0") (auto simp: gc_sel_def unat_small_add')
next
  case (4 c n d v x)
  then have nd: "unat d - unat c = n" by simp
  have one: "iv_mem [(c, d)] x \<longleftrightarrow> unat c \<le> unat x \<and> unat x < unat d"
    by (simp add: word_le_nat_alt word_less_nat_alt)
  have lu: "iv_mem (alt_ivs ((n + 1) div 2) c) x \<longleftrightarrow>
      unat c \<le> unat x \<and> unat x < unat d \<and> even (unat x - unat c)"
    using alt_ivs_props(2) [of c "(n + 1) div 2" x] 4 alternate_nat(1) [of "unat c" "unat x" n] by simp
  have ll: "iv_mem (alt_ivs (n div 2) (c + 1)) x \<longleftrightarrow>
      unat c \<le> unat x \<and> unat x < unat d \<and> odd (unat x - unat c)"
    using alt_ivs_props(2) [of "c + 1" "n div 2" x] 4 alternate_nat(2) [of "unat c" "unat x" n]
      unat_small_add' [of c] by (cases "n = 0") auto
  show ?case using one lu ll by (auto simp: gc_sel_def gc_picks_def nd)
next
  case (5 c n d v)
  then show ?case by (auto simp: gc_sel_def gc_cost_def alt_ivs_props)
qed simp

lemma gc_decode_append: "gc_decode p = Some (v, n, q) \<Longrightarrow> gc_decode (p @ r) = Some (v, n, q @ r)"
  by (cases p) (auto simp: Let_def split: if_splits list.splits)

lemmas table_eval = scan_eval scan_step.simps unat_u8

lemma gc_scan_0: "foldl (scan_step gc_decode gc_cost) ([], 0, 0) unicode_gc_table_0 = ([], 6150, 1358)"
  by (simp only: table_eval gc_decode.simps gc_cost_def byte_div_32 byte_mod_32 unicode_gc_table_0_def)

lemma gc_scan_1: "foldl (scan_step gc_decode gc_cost) ([], 6150, 1358) unicode_gc_table_1 = ([], 43644, 2743)"
  by (simp only: table_eval gc_decode.simps gc_cost_def byte_div_32 byte_mod_32 unicode_gc_table_1_def)

lemma gc_scan_2: "foldl (scan_step gc_decode gc_cost) ([], 43644, 2743) unicode_gc_table_2 = ([0xe0], 73465, 3517)"
  by (simp only: table_eval gc_decode.simps gc_cost_def byte_div_32 byte_mod_32 unicode_gc_table_2_def)

lemma gc_scan_3: "foldl (scan_step gc_decode gc_cost) ([0xe0], 73465, 3517) unicode_gc_table_3 = ([], 1114112, 3971)"
  by (simp only: table_eval gc_decode.simps gc_cost_def byte_div_32 byte_mod_32 unicode_gc_table_3_def)

lemma gc_runs: "runs_to gc_decode gc_cost unicode_gc_table 0x110000 3971"
  using scan_runs [of gc_decode gc_cost "[]" 0 0 unicode_gc_table, OF gc_decode_append]
  by (simp add: unicode_gc_table_def gc_scan_0 gc_scan_1 gc_scan_2 gc_scan_3)

text \<open>The category of a code point, read off the table; codes outside it would be unassigned.\<close>

definition general_category :: "u32 \<Rightarrow> nat" where
  "general_category c =
     (case run_value gc_decode (length unicode_gc_table) unicode_gc_table 0 (unat c) of
        None \<Rightarrow> gc_num UNICODE_GC_Cn
      | Some (v, i) \<Rightarrow> if v = 31 then gc_num (if even i then UNICODE_GC_Lu else UNICODE_GC_Ll) else v)"

lemma run_value_runs:
  "runs_to decode cost p s k \<Longrightarrow> length p \<le> m \<Longrightarrow> c \<le> x \<Longrightarrow> x < c + s \<Longrightarrow> \<exists>v i. run_value decode m p c x = Some (v, i)"
proof (induction arbitrary: c m rule: runs_to.induct)
  case (Cons p v n q s k)
  then obtain m' where "m = Suc m'" "length q \<le> m'" by (cases m) auto
  then show ?case using Cons.IH [of m' "c + n"] Cons.prems Cons.hyps(2) by auto
qed simp

lemma unicode_general_category1_builds:
  assumes "cr_ok cr" "cr_len cr = 0"
  shows "builds (unicode_general_category1 cr gm) (cr_realloc_func cr) 7942 (\<lambda>c. bit gm (general_category c))"
  unfolding unicode_general_category1_def
proof (rule builds_cong)
  show "builds (gc_loop cr unicode_gc_table 0 gm) (cr_realloc_func cr) 7942
      (\<lambda>x. unat x < 0x110000 \<and>
        (\<exists>v i. run_value gc_decode (length unicode_gc_table) unicode_gc_table 0 (unat x) = Some (v, i) \<and> gc_picks gm v i))"
    using gc.loop_builds [OF gc_runs _ assms, of gm] by simp
next
  fix c :: u32 assume "c \<le> 0x10ffff"
  then have c: "unat c < 0x110000" by (simp add: word_le_nat_alt)
  obtain v i where "run_value gc_decode (length unicode_gc_table) unicode_gc_table 0 (unat c) = Some (v, i)"
    using run_value_runs [OF gc_runs order.refl, of 0 "unat c"] c by auto
  then show "(unat c < 0x110000 \<and>
      (\<exists>v i. run_value gc_decode (length unicode_gc_table) unicode_gc_table 0 (unat c) = Some (v, i) \<and> gc_picks gm v i)) =
      bit gm (general_category c)"
    using c by (simp add: general_category_def gc_picks_def enum_num_def unicode_gcs_def numeral_2_eq_2)
qed

section \<open>Scripts\<close>

definition script_val :: "nat \<Rightarrow> nat \<Rightarrow> u8 list \<Rightarrow> (u8 \<times> nat \<times> u8 list) option" where
  "script_val t n p = (if t = 0 then Some (0, n, p) else (case p of v # p \<Rightarrow> Some (v, n, p) | [] \<Rightarrow> None))"

fun script_decode :: "u8 list \<Rightarrow> (u8 \<times> nat \<times> u8 list) option" where
  "script_decode (b # p) =
     (let t = unat b div 128; n = unat b mod 128 in
      if n < 96 then script_val t (n + 1) p
      else if n < 112 then
        (case p of x # p \<Rightarrow> script_val t ((n - 96) * 256 + unat x + 97) p | _ \<Rightarrow> None)
      else
        (case p of x # y # p \<Rightarrow> script_val t ((n - 112) * 65536 + unat x * 256 + unat y + 4193) p | _ \<Rightarrow> None))"
| "script_decode [] = None"

fun ext_decode :: "u8 list \<Rightarrow> (u8 list \<times> nat \<times> u8 list) option" where
  "ext_decode (b # p) =
     (let values = (\<lambda>n p. case p of
            [] \<Rightarrow> None
          | l # p \<Rightarrow> if unat l \<le> length p then Some (take (unat l) p, n, drop (unat l) p) else None) in
      if unat b < 128 then values (unat b + 1) p
      else if unat b < 192 then
        (case p of x # p \<Rightarrow> values ((unat b - 128) * 256 + unat x + 129) p | _ \<Rightarrow> None)
      else
        (case p of x # y # p \<Rightarrow> values ((unat b - 192) * 65536 + unat x * 256 + unat y + 16513) p | _ \<Rightarrow> None))"
| "ext_decode [] = None"

lemma script_decode_append: "script_decode p = Some (v, n, q) \<Longrightarrow> script_decode (p @ r) = Some (v, n, q @ r)"
  by (cases p) (auto simp: Let_def script_val_def split: if_splits list.splits)

lemma ext_decode_append: "ext_decode p = Some (v, n, q) \<Longrightarrow> ext_decode (p @ r) = Some (v, n, q @ r)"
  by (cases p) (auto simp: Let_def split: if_splits list.splits)

lemma script_scan_0: "foldl (scan_step script_decode run_count) ([], 0, 0) unicode_script_table_0 = ([], 11124, 631)"
  by (simp only: table_eval script_decode.simps script_val_def run_count_def byte_div_128 byte_mod_128 unicode_script_table_0_def)

lemma script_scan_1: "foldl (scan_step script_decode run_count) ([], 11124, 631) unicode_script_table_1 = ([], 92736, 1254)"
  by (simp only: table_eval script_decode.simps script_val_def run_count_def byte_div_128 byte_mod_128 unicode_script_table_1_def)

lemma script_scan_2: "foldl (scan_step script_decode run_count) ([], 92736, 1254) unicode_script_table_2 = ([], 918000, 1586)"
  by (simp only: table_eval script_decode.simps script_val_def run_count_def byte_div_128 byte_mod_128 unicode_script_table_2_def)

lemma script_runs: "runs_to script_decode run_count unicode_script_table 918000 1586"
  using scan_runs [of script_decode run_count "[]" 0 0 unicode_script_table, OF script_decode_append]
  by (simp add: unicode_script_table_def script_scan_0 script_scan_1 script_scan_2)

lemma ext_scan_0: "foldl (scan_step ext_decode run_count) ([], 0, 0) unicode_script_ext_table = ([], 1114112, 193)"
  by (simp add: foldl_concat run_count_def Let_def unicode_script_ext_table_def)

lemma ext_runs: "runs_to ext_decode run_count unicode_script_ext_table 1114112 193"
  using scan_runs [of ext_decode run_count "[]" 0 0 unicode_script_ext_table, OF ext_decode_append]
  by (simp add: ext_scan_0)

lemma script_decode_run:
  assumes "script_decode (b # p) = Some (v, n, q)"
  shows "\<exists>w p'. script_run_len (ucast b AND 0x7f) p = Some (w, p') \<and> w + 1 = of_nat n \<and>
    script_value (drop_bit 7 (ucast b)) p' = Some (ucast v, q)"
proof -
  define k where "k = unat b mod 128"
  have m: "(ucast b AND 0x7f :: u32) = of_nat k"
    using unat_and_mask [of "ucast b :: u32" 7] by (intro word_eq_of_nat) (simp add: mask_eq_exp_minus_1 k_def)
  have t: "drop_bit 7 (ucast b) = (of_nat (unat b div 128) :: u32)" by (rule word_eq_of_nat) (simp add: unat_drop_bit)
  have z: "(of_nat (unat b div 128) :: u32) = 0 \<longleftrightarrow> unat b div 128 = 0"
    using unat_byte [of b] by (auto simp: word_unat_eq_iff [of _ "0 :: u32"] unat_of_nat)
  have k: "k < 128" by (simp add: k_def)
  have lt: "(of_nat (k) :: u32) < 96 \<longleftrightarrow> k < 96"
    "(of_nat (k) :: u32) < 112 \<longleftrightarrow> k < 112"
    using k by (simp_all add: word_less_nat_alt unat_of_nat)
  let ?w = "of_nat (k) :: u32"
  have s: "unat (?w - 96) = k - 96" if "96 \<le> k"
    using that k by (subst unat_sub) (simp_all add: word_le_nat_alt unat_of_nat)
  have s': "unat (?w - 112) = k - 112" if "112 \<le> k"
    using that k by (subst unat_sub) (simp_all add: word_le_nat_alt unat_of_nat)
  have w: "push_bit 8 (?w - 96) OR ucast x = of_nat ((k - 96) * 256 + unat x)"
    if "96 \<le> k" for x :: u8
    using unat_wide(1) [of "?w - 96" x] s [OF that] k by (intro word_eq_of_nat) simp
  have w': "push_bit 16 (?w - 112) OR push_bit 8 (ucast x) OR ucast y =
      of_nat ((k - 112) * 65536 + unat x * 256 + unat y)"
    if "112 \<le> k" for x y :: u8
    using unat_wide(2) [of "?w - 112" x y] s' [OF that] k by (intro word_eq_of_nat) simp
  show ?thesis
    using assms unfolding m t script_run_len_def script_value_def lt z script_decode.simps k_def [symmetric]
    by (auto simp: script_val_def Let_def not_less w w' split: if_splits list.splits simp del: of_nat_diff)
qed

interpretation script: whole_run_table script_decode "\<lambda>cr p c. script_loop cr p c idx" "\<lambda>v. ucast v = idx" for idx :: u32
proof (unfold_locales, goal_cases)
  case (2 p v n q cr c)
  then obtain b p' where p: "p = b # p'" by (cases p) auto
  obtain w p2 where w: "script_run_len (ucast b AND 0x7f) p' = Some (w, p2)" "w + 1 = of_nat n"
    "script_value (drop_bit 7 (ucast b)) p2 = Some (ucast v, q)"
    using script_decode_run [OF 2 [unfolded p]] by auto
  show ?case using w(1,3) by (simp add: p Let_def add_run_def w(2) add.assoc split: prod.splits)
qed simp


lemma ext_decode_run:
  assumes "ext_decode (b # p) = Some (vs, n, q)"
  shows "\<exists>w l p'. ext_run_len (ucast b) p = Some (w, l # p') \<and> w + 1 = of_nat n \<and>
    unat l \<le> length p' \<and> vs = take (unat l) p' \<and> q = drop (unat l) p'"
  using assms unfolding ext_run_len_def
  by (auto simp: ucast_less_iff run_wide_128 run_wide_192 not_less diff_diff_left Let_def
    split: if_splits list.splits simp del: of_nat_diff)

interpretation script_ext: whole_run_table ext_decode "\<lambda>cr p c. script_ext_loop cr p c is_common idx" "ext_match is_common idx"
  for is_common idx
proof (unfold_locales, goal_cases)
  case (2 p v n q cr c)
  then obtain b p' where p: "p = b # p'" by (cases p) auto
  obtain w l p2 where w: "ext_run_len (ucast b) p' = Some (w, l # p2)" "w + 1 = of_nat n"
    "unat l \<le> length p2" "v = take (unat l) p2" "q = drop (unat l) p2"
    using ext_decode_run [OF 2 [unfolded p]] by auto
  show ?case using w(1,3-) by (simp add: p Let_def add_run_def w(2) add.assoc split: prod.splits)
qed simp

text \<open>The script of a code point and the scripts of its extension entry.\<close>

definition script_of :: "u32 \<Rightarrow> u32" where
  "script_of c =
     (case run_value script_decode (length unicode_script_table) unicode_script_table 0 (unat c) of
        None \<Rightarrow> UNICODE_SCRIPT_Unknown
      | Some (v, i) \<Rightarrow> ucast v)"

definition script_extensions :: "u32 \<Rightarrow> u8 list" where
  "script_extensions c =
     (case run_value ext_decode (length unicode_script_ext_table) unicode_script_ext_table 0 (unat c) of
        None \<Rightarrow> [] | Some (vs, i) \<Rightarrow> vs)"

lemma run_value_beyond: "runs_to decode cost p s k \<Longrightarrow> c + s \<le> x \<Longrightarrow> decode [] = None \<Longrightarrow> run_value decode m p c x = None"
proof (induction arbitrary: c m rule: runs_to.induct)
  case (Cons p v n q s k)
  then show ?case by (cases m) auto
next
  case Nil
  then show ?case by (cases m) auto
qed

lemma script_loop_builds:
  assumes "cr_ok cr" "cr_len cr = 0" "idx \<noteq> UNICODE_SCRIPT_Unknown"
  shows "builds (script_loop cr unicode_script_table 0 idx) (cr_realloc_func cr) 3172 (\<lambda>c. script_of c = idx)"
proof (rule builds_cong)
  show "builds (script_loop cr unicode_script_table 0 idx) (cr_realloc_func cr) 3172
      (\<lambda>x. unat x < 918000 \<and> (\<exists>v i. run_value script_decode (length unicode_script_table) unicode_script_table 0 (unat x) =
        Some (v, i) \<and> ucast v = idx))"
    using script.loop_builds [OF script_runs _ assms(1,2), of idx] by simp
  show "(unat c < 918000 \<and> (\<exists>v i. run_value script_decode (length unicode_script_table) unicode_script_table 0 (unat c) =
        Some (v, i) \<and> ucast v = idx)) = (script_of c = idx)" for c
    using run_value_beyond [OF script_runs, of 0 "unat c" "length unicode_script_table"] assms(3)
    by (cases "unat c < 918000") (auto simp: script_of_def split: option.splits)
qed

lemma script_ext_loop_builds:
  assumes "cr_ok cr" "cr_len cr = 0"
  shows "builds (script_ext_loop cr unicode_script_ext_table 0 is_common idx) (cr_realloc_func cr) 386
    (\<lambda>c. ext_match is_common idx (script_extensions c))"
proof (rule builds_cong)
  show "builds (script_ext_loop cr unicode_script_ext_table 0 is_common idx) (cr_realloc_func cr) 386
      (\<lambda>x. unat x < 0x110000 \<and> (\<exists>v i. run_value ext_decode (length unicode_script_ext_table) unicode_script_ext_table 0 (unat x) =
        Some (v, i) \<and> ext_match is_common idx v))"
    using script_ext.loop_builds [OF ext_runs _ assms, of is_common idx] by simp
next
  fix c :: u32 assume "c \<le> 0x10ffff"
  then have c: "unat c < 0x110000" by (simp add: word_le_nat_alt)
  then obtain v i where "run_value ext_decode (length unicode_script_ext_table) unicode_script_ext_table 0 (unat c) = Some (v, i)"
    using run_value_runs [OF ext_runs order.refl, of 0 "unat c"] by auto
  then show "(unat c < 0x110000 \<and> (\<exists>v i. run_value ext_decode (length unicode_script_ext_table) unicode_script_ext_table 0 (unat c) =
        Some (v, i) \<and> ext_match is_common idx v)) = ext_match is_common idx (script_extensions c)"
    using c by (simp add: script_extensions_def)
qed


text \<open>What a script name stands for, without and with extensions.\<close>

definition in_script :: "u32 \<Rightarrow> bool \<Rightarrow> u32 \<Rightarrow> bool" where
  "in_script idx is_ext c =
     (if \<not> is_ext then script_of c = idx
      else if idx = UNICODE_SCRIPT_Common \<or> idx = UNICODE_SCRIPT_Inherited then
        script_of c = idx \<and> script_extensions c = []
      else script_of c = idx \<or> (\<exists>v \<in> set (script_extensions c). ucast v = idx))"

lemma in_script_ext:
  "in_script idx True c =
     cr_is_in (if idx = UNICODE_SCRIPT_Common \<or> idx = UNICODE_SCRIPT_Inherited then CR_OP_INTER else CR_OP_UNION)
       (script_of c = idx)
       (ext_match (idx = UNICODE_SCRIPT_Common \<or> idx = UNICODE_SCRIPT_Inherited) idx (script_extensions c) \<noteq>
         (idx = UNICODE_SCRIPT_Common \<or> idx = UNICODE_SCRIPT_Inherited))"
  by (auto simp: in_script_def ext_match_def list_ex_iff)

lemma script_combine_sound:
  assumes "denotes cr1 P" "denotes cr2 Q" "cr_len cr1 \<le> j" "cr_len cr2 \<le> k" "cr_ok cr" "cr_len cr = 0"
    and "cr_realloc_func cr2 = cr_realloc_func cr"
  shows "script_combine cr cr1 cr2 common = None \<and> refused (cr_realloc_func cr) (2 * (j + (k + 2))) \<or>
    (\<exists>cr'. script_combine cr cr1 cr2 common = Some (cr', 0) \<and>
       denotes cr' (\<lambda>c. cr_is_in (if common then CR_OP_INTER else CR_OP_UNION) (P c) (Q c \<noteq> common)))"
proof -
  have "builds (Some (if common then cr_invert cr2 else (cr2, 0))) (cr_realloc_func cr) (k + 2) (\<lambda>c. Q c \<noteq> common)"
    using builds_invert [OF assms(2,4)] assms(2,4,7) by (auto simp: builds_def denotes_def)
  then show ?thesis
  proof (cases rule: buildsE)
    case (ok cr3)
    from builds_op [OF assms(1) ok(5) assms(3) ok(4), of "cr_at (mem_opaque cr3) cr" "if common then CR_OP_INTER else CR_OP_UNION"]
    have "builds (Some (cr_op (cr_at (mem_opaque cr3) cr) (cr_points cr1) (cr_points cr3)
        (if common then CR_OP_INTER else CR_OP_UNION))) (cr_realloc_func cr) (j + (k + 2))
        (\<lambda>c. cr_is_in (if common then CR_OP_INTER else CR_OP_UNION) (P c) (Q c \<noteq> common))"
      using assms(5,6) by simp
    then show ?thesis by (cases rule: buildsE) (use ok(1) in \<open>auto simp: script_combine_def\<close>)
  next
    case (fail cr3)
    then have "refused (cr_realloc_func cr) (2 * (j + (k + 2)))" by (auto elim: refused_mono)
    then show ?thesis using fail by (auto simp: script_combine_def)
  qed
qed

lemma unicode_script_plain:
  assumes "cr_ok cr" "cr_len cr = 0" "idx \<noteq> UNICODE_SCRIPT_Unknown"
    and "unicode_find_name unicode_script_name_table name = Some i" "0 \<le> i" "idx = of_int i + 1"
  shows "case unicode_script cr name False of
      None \<Rightarrow> refused (cr_realloc_func cr) 7120
    | Some (cr', r) \<Rightarrow> r = 0 \<and> denotes cr' (in_script idx False)"
proof -
  have u: "UNICODE_SCRIPT_Unknown + 1 = 1" by (simp add: UNICODE_SCRIPT_Unknown_def)
  from script_loop_builds [OF assms(1-3)] show ?thesis
  proof (cases rule: buildsE)
    case (fail cr')
    then show ?thesis using assms(4-6) u by (auto simp: unicode_script_def Let_def elim: refused_mono)
  qed (use assms(4-6) u in \<open>auto simp: unicode_script_def Let_def in_script_def [abs_def]\<close>)
qed

lemma unicode_script_ext:
  assumes "cr_ok cr" "cr_len cr = 0" "idx \<noteq> UNICODE_SCRIPT_Unknown"
    and "unicode_find_name unicode_script_name_table name = Some i" "0 \<le> i" "idx = of_int i + 1"
  shows "case unicode_script cr name True of
      None \<Rightarrow> refused (cr_realloc_func cr) 7120
    | Some (cr', r) \<Rightarrow> r = 0 \<and> denotes cr' (in_script idx True)"
proof -
  define common where "common = (idx = UNICODE_SCRIPT_Common \<or> idx = UNICODE_SCRIPT_Inherited)"
  have u: "UNICODE_SCRIPT_Unknown + 1 = 1" by (simp add: UNICODE_SCRIPT_Unknown_def)
  have e: "unicode_script cr name True =
      (case script_loop (cr_new cr (mem_opaque cr)) unicode_script_table 0 idx of
         None \<Rightarrow> None
       | Some (cr1, r) \<Rightarrow>
           if r \<noteq> 0 then None
           else case script_ext_loop (cr_new cr (mem_opaque cr1)) unicode_script_ext_table 0 common idx of
                  None \<Rightarrow> None
                | Some (cr2, r) \<Rightarrow> if r \<noteq> 0 then None else script_combine cr cr1 cr2 common)"
    using assms(4,5) u unfolding common_def assms(6) by (simp add: unicode_script_def Let_def split: option.split)
  have "builds (script_loop (cr_new cr (mem_opaque cr)) unicode_script_table 0 idx) (cr_realloc_func cr) 3172 (\<lambda>c. script_of c = idx)"
    using script_loop_builds [of "cr_new cr (mem_opaque cr)" idx] assms(1,3) by simp
  then show ?thesis
  proof (cases rule: buildsE)
    case (fail cr1)
    then show ?thesis unfolding e by (auto elim: refused_mono)
  next
    case cr1: (ok cr1)
    have "builds (script_ext_loop (cr_new cr (mem_opaque cr1)) unicode_script_ext_table 0 common idx) (cr_realloc_func cr) 386
        (\<lambda>c. ext_match common idx (script_extensions c))"
      using script_ext_loop_builds [of "cr_new cr (mem_opaque cr1)" common idx] assms(1) by simp
    then show ?thesis
    proof (cases rule: buildsE)
      case (fail cr2)
      then show ?thesis unfolding e using cr1 by (auto elim: refused_mono)
    next
      case cr2: (ok cr2)
      show ?thesis
        using script_combine_sound [OF cr1(5) cr2(5) cr1(4) cr2(4) assms(1,2) cr2(3), of common] cr1(1) cr2(1)
        unfolding e by (auto simp: in_script_ext [abs_def] common_def)
    qed
  qed
qed

section \<open>Properties\<close>

text \<open>
  Property C37. The set built for a mask of general categories holds exactly the code points whose
  category, read off the table, is in the mask, for every mask. The expansion never reads past the
  table; it can only fail with -1, when the allocator refuses a request of at most 15884 points.
\<close>

theorem general_category_set:
  assumes "cr_ok cr" "cr_len cr = 0"
  shows "case unicode_general_category1 cr gm of
      None \<Rightarrow> False
    | Some (cr', r) \<Rightarrow>
        r = 0 \<and> denotes cr' (\<lambda>c. bit gm (general_category c)) \<or>
        r = -1 \<and> refused (cr_realloc_func cr) 15884"
  using unicode_general_category1_builds [OF assms, of gm] by (auto simp: builds_def)

theorem general_category_set_witness:
  "case unicode_general_category1 (cr_init (\<lambda>_ _. True) 0 0 None) 2 of
      None \<Rightarrow> False
    | Some (cr', r) \<Rightarrow> r = 0 \<and> denotes cr' (\<lambda>c. bit (2 :: u32) (general_category c))"
proof -
  have "\<not> refused (cr_realloc_func (cr_init (\<lambda>_ _. True) 0 0 None)) 15884"
    by (simp add: cr_init_def cr_default_realloc_def [abs_def] libc_realloc_refused)
  then show ?thesis
    using general_category_set [of "cr_init (\<lambda>_ _. True) 0 0 None" 2] by (auto split: option.splits)
qed

text \<open>
  Property C38. \<^verbatim>\<open>unicode_script\<close> builds exactly the code points of the script, with its extensions when they
  are asked for (for Common and Inherited, the code points with extensions are left out), and returns
  -2 for an unknown name. If the allocator refuses a request, the function does not return: this
  is its only other outcome.
\<close>

theorem unicode_script_set:
  assumes "cr_ok cr" "cr_len cr = 0"
  shows "\<exists>idx. unicode_find_name unicode_script_name_table name = Some idx \<and>
    (case unicode_script cr name is_ext of
       None \<Rightarrow> 0 \<le> idx \<and> refused (cr_realloc_func cr) 7120
     | Some (cr', r) \<Rightarrow>
         if idx < 0 then cr' = cr \<and> r = -2
         else r = 0 \<and> denotes cr' (in_script (of_int idx + 1) is_ext))"
proof -
  obtain i where i: "unicode_find_name unicode_script_name_table name = Some i" "i = -1 \<or> 0 \<le> i \<and> i < 156"
    using name_tables(2) [of name] by auto
  show ?thesis
  proof (cases "i < 0")
    case True
    then show ?thesis using i by (simp add: unicode_script_def)
  next
    case False
    then have "nat i < 156" "i = int (nat i)" using i(2) by auto
    then have "(of_int i + 1 :: u32) = of_nat (nat i + 1)" by (metis of_int_of_nat_eq of_nat_1 of_nat_add)
    then have "unat (of_int i + 1 :: u32) = nat i + 1" using \<open>nat i < 156\<close> by (simp add: unat_of_nat del: of_nat_Suc of_nat_add)
    then have "(of_int i + 1 :: u32) \<noteq> UNICODE_SCRIPT_Unknown" by (auto simp: UNICODE_SCRIPT_Unknown_def)
    then show ?thesis
      using unicode_script_plain [OF assms _ i(1)] unicode_script_ext [OF assms _ i(1)] i(1) False
      by (cases is_ext) (auto split: option.splits)
  qed
qed

theorem unicode_script_set_witness:
  "case unicode_script (cr_init (\<lambda>_ _. True) 0 0 None) (map of_char ''Latin'') True of
     None \<Rightarrow> False
   | Some (cr', r) \<Rightarrow> r = 0 \<and> denotes cr' (in_script 69 True)"
proof -
  let ?cr = "cr_init (\<lambda>_ _. True) 0 0 None"
  have "\<not> refused (cr_realloc_func ?cr) 7120"
    by (simp add: cr_init_def cr_default_realloc_def [abs_def] libc_realloc_refused)
  moreover have "unicode_find_name unicode_script_name_table (map of_char ''Latin'') = Some 68"
    unfolding unicode_script_name_table_def
    by (subst find_name_entries) (simp_all add: names_ok_def aliases.simps)
  ultimately show ?thesis
    using unicode_script_set [of ?cr "map of_char ''Latin''" True] by (auto split: option.splits)
qed

end
