(* ===== verification/UnicodeCaseSets.thy ===== *)
theory UnicodeCaseSets
  imports UnicodeSets
begin

text \<open>
  The sets of characters that case conversions change (\<^verbatim>\<open>unicode_case1\<close>) agree with the conversion itself
  (\<^verbatim>\<open>lre_case_conv\<close>): the two functions read the same table of runs in different ways.
\<close>

section \<open>The intervals of a run\<close>

definition case1_sel :: "u32 \<Rightarrow> u32 \<Rightarrow> (u32 \<times> u32) list" where
  "case1_sel cm v =
     (let ty = run_type_of v; code = run_code 17 v; len = run_len 17 v;
          both = bit cm 0 \<and> (bit cm 1 \<or> bit cm 2) in
      if ty \<notin> set (case1_types cm) then []
      else if ty = RUN_TYPE_UL \<and> \<not> both then alt_ivs ((unat len + 1) div 2) (code + of_bool (bit cm 0))
      else if ty = RUN_TYPE_LSU \<and> \<not> both then
        (if bit cm 0 then [] else [(code, code + 1)]) @ [(code + 1, code + 2)] @
        (if bit cm 0 then [(code + 2, code + 3)] else [])
      else [(code, code + len)])"

lemma mask_bit: "cm AND 1 = 0 \<longleftrightarrow> \<not> bit cm 0" "cm AND 2 = 0 \<longleftrightarrow> \<not> bit cm 1" "drop_bit i cm AND 1 = 1 \<longleftrightarrow> bit cm i"
  for cm :: u32
proof -
  have b: "bit (1 :: u32) n \<longleftrightarrow> n = 0" "bit (2 :: u32) n \<longleftrightarrow> n = 1" for n
  proof -
    have e: "(2 :: u32) = push_bit 1 1" by simp
    show "bit (1 :: u32) n \<longleftrightarrow> n = 0" by (simp add: bit_1_iff)
    show "bit (2 :: u32) n \<longleftrightarrow> n = 1" unfolding e bit_push_bit_iff bit_1_iff by (cases "n = 1") auto
  qed
  show "cm AND 1 = 0 \<longleftrightarrow> \<not> bit cm 0" "cm AND 2 = 0 \<longleftrightarrow> \<not> bit cm 1"
    unfolding and_eq_iff b by (auto simp del: bit_0) (metis gr0I)
  show "drop_bit i cm AND 1 = 1 \<longleftrightarrow> bit cm i"
    by (simp add: and_one_eq bit_iff_odd_drop_bit mod_2_eq_odd)
qed

lemma case1_alternate_ivs:
  "case1_alternate cr code i len = add_intervals cr (alt_ivs ((len - i + 1) div 2) (code + of_nat i))"
proof (induction "len - i" arbitrary: cr i rule: less_induct)
  case less
  show ?case
  proof (cases "i < len")
    case True
    have n: "(len - i + 1) div 2 = Suc ((len - (i + 2) + 1) div 2)" using True by presburger
    have "case1_alternate cr' code (i + 2) len =
        add_intervals cr' (alt_ivs ((len - (i + 2) + 1) div 2) (code + of_nat i + 2))" for cr'
      using less [of "i + 2" cr'] True by (simp add: ac_simps)
    then show ?thesis using True unfolding n by (subst case1_alternate.simps) (simp split: prod.splits)
  next
    case False
    then show ?thesis by (subst case1_alternate.simps) simp
  qed
qed

lemma add_if_ivs: "add_if b (add_intervals cr xs) c d = add_intervals cr (xs @ (if b then [(c, d)] else []))"
  using add_intervals_result [of cr xs] add_intervals_one
  by (auto simp: add_if_def add_intervals_append split: prod.splits simp del: add_intervals.simps(2))

lemma case1_run_ivs:
  assumes "run_type_of v \<in> set (case1_types cm)"
  shows "case1_run cr cm (run_type_of v) (run_code 17 v) (run_len 17 v) = add_intervals cr (case1_sel cm v)"
proof -
  have b: "cm AND 6 = 0 \<longleftrightarrow> \<not> (bit cm 1 \<or> bit cm 2)" using mask_Lu_Ll(1) [of cm] by blast
  have "add_if c (cr, 0) x y = add_if c (add_intervals cr []) x y" for c x y by simp
  then show ?thesis
    using assms case1_alternate_ivs [of cr _ 0 "unat (run_len 17 v)"] add_intervals_one [of cr]
    by (auto simp: case1_run_def case1_sel_def Let_def mask_bit b add_if_ivs
        simp del: add_intervals.simps bit_0 split: if_splits)
qed

lemma case1_loop_ivs:
  "case1_loop cr cm (case1_types cm) vs = add_intervals cr (concat (map (case1_sel cm) vs))"
proof (induction vs arbitrary: cr)
  case (Cons v vs)
  show ?case
  proof (cases "run_type_of v \<in> set (case1_types cm)")
    case True
    then show ?thesis using Cons case1_run_ivs [OF True, of cr] by (auto simp: add_intervals_append split: prod.splits)
  next
    case False
    then have "case1_sel cm v = []" by (simp add: case1_sel_def)
    then show ?thesis using False Cons by simp
  qed
qed simp

section \<open>What a run changes\<close>

text \<open>Whether conversion \<open>t\<close> (0 upper case, 1 lower case, 2 case folding) changes the character at offset \<open>a\<close> of a run.\<close>

fun run_changes :: "run_type \<Rightarrow> nat \<Rightarrow> nat \<Rightarrow> bool" where
  "run_changes RUN_TYPE_U t a = (t = 0)"
| "run_changes RUN_TYPE_L t a = (t = 1)"
| "run_changes RUN_TYPE_UF t a = (t = 0 \<or> t = 2)"
| "run_changes RUN_TYPE_LF t a = (t = 1 \<or> t = 2)"
| "run_changes RUN_TYPE_UL t a = (if t = 0 then odd a else even a)"
| "run_changes RUN_TYPE_LSU t a = (a = 1 \<or> (if t = 0 then a = 2 else a = 0))"
| "run_changes RUN_TYPE_U2L_399_EXT2 t a = True"
| "run_changes RUN_TYPE_UF_D20 t a = (t \<noteq> 1)"
| "run_changes RUN_TYPE_UF_D1_EXT t a = (t \<noteq> 1)"
| "run_changes RUN_TYPE_U_EXT t a = (t = 0)"
| "run_changes RUN_TYPE_LF_EXT t a = (t \<noteq> 0)"
| "run_changes RUN_TYPE_U_EXT2 t a = (t = 0)"
| "run_changes RUN_TYPE_L_EXT2 t a = (t = 1)"
| "run_changes RUN_TYPE_U_EXT3 t a = (t = 0)"

text \<open>
  The conditions on entry \<open>i\<close> of the tables under which both readings agree: a run is not mapped to
  itself, alternating runs have an even length, the other special runs their fixed length.
\<close>

definition case_run_ok :: "nat \<Rightarrow> u32 \<Rightarrow> u8 \<Rightarrow> bool" where
  "case_run_ok i v b =
     (let data = push_bit 8 (v AND 0xf) OR ucast b; code = run_code 17 v; len = unat (run_len 17 v) in
      0 < len \<and>
      (case run_type_of v of
         RUN_TYPE_U \<Rightarrow> unat data \<noteq> i | RUN_TYPE_L \<Rightarrow> unat data \<noteq> i
       | RUN_TYPE_UF \<Rightarrow> unat data \<noteq> i | RUN_TYPE_LF \<Rightarrow> unat data \<noteq> i
       | RUN_TYPE_UL \<Rightarrow> len mod 2 = 0 | RUN_TYPE_LSU \<Rightarrow> len = 3
       | RUN_TYPE_U2L_399_EXT2 \<Rightarrow> ext (data AND 0x3f) \<noteq> Some code
       | RUN_TYPE_UF_D20 \<Rightarrow> len = 1 \<and> data \<noteq> code \<and> data + 0x20 \<noteq> code
       | RUN_TYPE_UF_D1_EXT \<Rightarrow> len = 1 \<and> ext data \<noteq> Some code \<and> ext data \<noteq> Some (code - 1)
       | RUN_TYPE_U_EXT \<Rightarrow> len = 1 \<and> ext data \<noteq> Some code
       | RUN_TYPE_LF_EXT \<Rightarrow> len = 1 \<and> ext data \<noteq> Some code
       | _ \<Rightarrow> True))"

fun case_runs_ok :: "nat \<Rightarrow> u32 list \<Rightarrow> u8 list \<Rightarrow> bool" where
  "case_runs_ok i (v # vs) (b # bs) \<longleftrightarrow> case_run_ok i v b \<and> case_runs_ok (Suc i) vs bs"
| "case_runs_ok i _ _ \<longleftrightarrow> True"

lemma case_runs_ok_nth:
  "case_runs_ok i vs bs \<Longrightarrow> j < length vs \<Longrightarrow> j < length bs \<Longrightarrow> case_run_ok (i + j) (vs ! j) (bs ! j)"
proof (induction i vs bs arbitrary: j rule: case_runs_ok.induct)
  case (1 i v vs b bs)
  then show ?case by (cases j) auto
qed auto

lemma case_table_runs_ok: "case_runs_ok 0 case_conv_table1 case_conv_table2"
  by (simp add: case_table_eval case_run_ok_def ext_def tab_get_def case_conv_ext_def)


lemma word_diff_offset:
  fixes c code len :: u32
  assumes "code \<le> c" "c < code + len" "unat (code + len) = unat code + unat len"
  shows "c - code = of_nat (unat c - unat code)" "unat (c - code) = unat c - unat code"
    "unat c - unat code < unat len"
proof -
  show u: "unat (c - code) = unat c - unat code" using assms(1) by (simp add: unat_sub)
  show "c - code = of_nat (unat c - unat code)" using word_eq_of_nat [OF u] .
  show "unat c - unat code < unat len" using assms by (simp add: word_le_nat_alt word_less_nat_alt)
qed

lemma xor_one_ne:
  fixes a c code :: u32
  assumes "a = c - code"
  shows "(a XOR 1) + code \<noteq> c"
proof
  assume "(a XOR 1) + code = c"
  then have "a XOR 1 = a" using assms by (metis add_diff_cancel)
  then have "bit (a XOR 1) 0 = bit a 0" by simp
  then show False by (simp add: bit_xor_iff)
qed

lemma and_one_odd: "a AND 1 = 1 \<longleftrightarrow> odd (unat a)" "a AND 1 = 0 \<longleftrightarrow> even (unat a)" for a :: u32
proof -
  have "a AND 1 = of_bool (odd a)" by (simp add: and_one_eq mod_2_eq_odd)
  moreover have "odd a \<longleftrightarrow> odd (unat a)" by (simp add: bit_0 [symmetric] bit_unsigned_iff)
  ultimately show "a AND 1 = 1 \<longleftrightarrow> odd (unat a)" "a AND 1 = 0 \<longleftrightarrow> even (unat a)" by auto
qed

lemma case_conv_run_changes:
  assumes e: "case_entry_ok v b" and ok: "case_run_ok i v b" and d: "data = push_bit 8 (v AND 0xf) OR ucast b"
    and c: "run_code 17 v \<le> c" "c < run_code 17 v + run_len 17 v" and t: "t < 3"
    and distinct: "\<And>j. j < 361 \<Longrightarrow> j \<noteq> i \<Longrightarrow> run_code 17 (case_conv_table1 ! j) \<noteq> run_code 17 v"
  shows "case_conv_run (run_type_of v) c t (run_code 17 v) data \<noteq> Some [c] \<longleftrightarrow>
    run_changes (run_type_of v) t (unat c - unat (run_code 17 v))"
proof -
  let ?code = "run_code 17 v"
  note E = e [unfolded case_entry_ok_def Let_def d [symmetric]] and K = ok [unfolded case_run_ok_def Let_def d [symmetric]]
  note O = word_diff_offset [OF c run_end_unat [of 17 v, simplified]]
  have sh: "conv_shift c ?code data \<noteq> Some [c]" if "unat data < 361" "unat data \<noteq> i"
    using distinct [OF that] that(1) by (auto simp: conv_shift_def tab_get_def case_ext_length)
  have one: "c = ?code" if "unat (run_len 17 v) = 1" using O(3) c(1) that by (simp add: word_le_nat_alt word_unat_eq_iff)
  show ?thesis
  proof (cases "run_type_of v")
    case RUN_TYPE_UL
    then show ?thesis using xor_one_ne [OF refl, of c ?code] and_one_odd [of "c - ?code"] O(2)
      by (auto simp: Let_def)
  next
    case RUN_TYPE_LSU
    have a: "unat (c - ?code) < 3" using K RUN_TYPE_LSU O by simp
    then have w: "c - ?code = 0 \<longleftrightarrow> unat c - unat ?code = 0" "c - ?code = 1 \<longleftrightarrow> unat c - unat ?code = 1"
      "c - ?code = 2 \<longleftrightarrow> unat c - unat ?code = 2"
      using O(2) by (auto simp: word_unat_eq_iff)
    show ?thesis using RUN_TYPE_LSU w by (auto simp: Let_def)
  next
    case RUN_TYPE_U_EXT3
    then have "unat (drop_bit 8 data) < 58" using E by simp
    then obtain x y z where "ext (drop_bit 8 data) = Some x" "ext (drop_bit 4 data AND 0xf) = Some y"
      "ext (data AND 0xf) = Some z" using ext_defined unat_and_0xf by metis
    then show ?thesis using RUN_TYPE_U_EXT3 by simp
  qed (use E K sh one ext_defined [of data] ext_defined [of "drop_bit 6 data"] ext_defined [of "data AND 0x3f"] in
    \<open>auto simp: eq_diff_eq\<close>)
qed

section \<open>Agreement\<close>

lemma case_table_nth:
  assumes "i < 361"
  shows "case_entry_ok (case_conv_table1 ! i) (case_conv_table2 ! i)" "case_run_ok i (case_conv_table1 ! i) (case_conv_table2 ! i)"
  using assms case_table_entries case_runs_ok_nth [OF case_table_runs_ok, of i] list_all2_lengthD [OF case_table_entries]
  by (auto simp: list_all2_conv_all_nth case_ext_length)

lemma case_table_distinct:
  assumes "i < 361" "j < 361" "j \<noteq> i"
  shows "run_code 17 (case_conv_table1 ! j) \<noteq> run_code 17 (case_conv_table1 ! i)"
proof -
  have l: "0 < unat (run_len 17 (case_conv_table1 ! k))" if "k < 361" for k
    using case_table_nth(2) [OF that] by (simp add: case_run_ok_def Let_def)
  show ?thesis
    using runs_ascending_nth [OF case_table_ascending, of i j] runs_ascending_nth [OF case_table_ascending, of j i] l [OF assms(1)] l [OF assms(2)] assms
    by (cases "i < j") (auto simp: case_ext_length)
qed

lemma ascii_runs:
  assumes "in_run 17 case_conv_table1 c i" "c < 128"
  shows "i = 0 \<and> 0x41 \<le> c \<and> c \<le> 0x5a \<or> i = 1 \<and> 0x61 \<le> c \<and> c \<le> 0x7a"
proof -
  have e: "case_conv_table1 ! 0 = 0x00209a30" "case_conv_table1 ! Suc 0 = 0x00309a00" "unat (run_code 17 (case_conv_table1 ! 2)) = 181"
    by (simp_all add: case_conv_table1_def run_code_def)
  have i: "i < 361" using assms(1) by (simp add: in_run_def case_ext_length)
  have "unat (run_code 17 (case_conv_table1 ! 2)) \<le> unat (run_code 17 (case_conv_table1 ! i))" if "2 \<le> i"
    using runs_ascending_nth [OF case_table_ascending, of 2 i] that i by (cases "i = 2") (auto simp: case_ext_length)
  then have "i < 2" using assms e(3) by (auto simp: in_run_def word_le_nat_alt word_less_nat_alt intro: leI)
  then have "i = 0 \<or> i = 1" by auto
  then show ?thesis using assms(1) e(1,2)
    by (auto simp: in_run_def run_code_def run_len_def word_le_nat_alt word_less_nat_alt)
qed

lemma run_types_ascii: "run_type_of (case_conv_table1 ! 0) = RUN_TYPE_LF" "run_type_of (case_conv_table1 ! 1) = RUN_TYPE_U"
proof -
  have "case_conv_table1 ! 0 = 0x00209a30" "case_conv_table1 ! 1 = 0x00309a00" by (simp_all add: case_conv_table1_def)
  then show "run_type_of (case_conv_table1 ! 0) = RUN_TYPE_LF" "run_type_of (case_conv_table1 ! 1) = RUN_TYPE_U"
    by (simp_all add: run_type_of_def run_types_def)
qed

lemma case_conv_ascii_changes:
  "case_conv_ascii c t \<noteq> c \<longleftrightarrow> (if t \<noteq> 0 then 0x41 \<le> c \<and> c \<le> 0x5a else 0x61 \<le> c \<and> c \<le> 0x7a)"
  by (auto simp: case_conv_ascii_def)

lemma lre_case_conv_in_run:
  assumes "in_run 17 case_conv_table1 c i" "t < 3"
  shows "lre_case_conv c t \<noteq> Some [c] \<longleftrightarrow>
    run_changes (run_type_of (case_conv_table1 ! i)) t (unat c - unat (run_code 17 (case_conv_table1 ! i)))"
proof (cases "c < 128")
  case True
  have "\<not> (c \<le> 0x5a \<and> 0x61 \<le> c)" by (auto simp: word_le_nat_alt)
  then show ?thesis using ascii_runs [OF assms(1) True] True assms(2) case_conv_ascii_changes [of c t]
    by (auto simp: lre_case_conv_def run_types_ascii run_types_ascii [unfolded One_nat_def])
next
  case False
  have i: "i < 361" using assms(1) by (simp add: in_run_def case_ext_length)
  show ?thesis
    using case_conv_run_changes [OF case_table_nth [OF i] refl _ _ assms(2), of c] case_table_distinct [OF i]
      cased_search [OF assms(1)] False assms(1)
    by (simp add: lre_case_conv_def Let_def case_conv_data_def in_run_def)
qed

lemma lre_case_conv_outside:
  assumes "\<not> (\<exists>i. in_run 17 case_conv_table1 c i)"
  shows "lre_case_conv c t = Some [c]"
proof (cases "c < 128")
  case True
  then show ?thesis using assms ascii_letters_in_table [of c] case_conv_ascii_changes [of c t]
    by (auto simp: lre_case_conv_def split: if_splits)
next
  case False
  then show ?thesis using assms run_search_case_table(3) by (auto simp: lre_case_conv_def split: option.splits)
qed

lemma ex_less_3: "(\<exists>t < 3. P t) \<longleftrightarrow> P 0 \<or> P 1 \<or> P (2 :: nat)"
  by (auto simp: less_Suc_eq numeral_3_eq_3 numeral_2_eq_2)

lemma case1_types_iff:
  "ty \<in> set (case1_types cm) \<longleftrightarrow>
     bit cm 0 \<and> ty \<in> set (tab_run_mask ! 0) \<or> bit cm 1 \<and> ty \<in> set (tab_run_mask ! 1) \<or>
     bit cm 2 \<and> ty \<in> set (tab_run_mask ! 2)"
  by (auto simp: case1_types_def mask_bit upt_rec numeral_2_eq_2 numeral_3_eq_3 simp del: bit_0 drop_bit_0 split: if_splits)

lemma run_facts:
  "unat (run_code 17 v) < 2 ^ 17" "unat (run_len 17 v) < 128"
  "unat (run_code 17 v + run_len 17 v) = unat (run_code 17 v) + unat (run_len 17 v)"
proof -
  have v: "unat v < 2 ^ 32" using unsigned_less [of v, where ?'a = nat] by simp
  show "unat (run_len 17 v) < 128"
    using unat_and_mask [of "drop_bit (32 - 17 - 7) v" 7] by (simp add: run_len_def mask_eq_exp_minus_1)
  show "unat (run_code 17 v) < 2 ^ 17" using v by (simp add: run_code_def unat_drop_bit less_mult_imp_div_less)
  show "unat (run_code 17 v + run_len 17 v) = unat (run_code 17 v) + unat (run_len 17 v)" by (rule run_end_unat) simp
qed

lemma case1_sel_props:
  assumes "case_run_ok i v b"
  shows "ivs_ok (unat (run_code 17 v)) (unat (run_code 17 v) + unat (run_len 17 v)) (case1_sel cm v) \<and>
    length (case1_sel cm v) \<le> 128 \<and>
    (iv_mem (case1_sel cm v) c \<longleftrightarrow> unat (run_code 17 v) \<le> unat c \<and> unat c < unat (run_code 17 v) + unat (run_len 17 v) \<and>
       (\<exists>t < 3. bit cm t \<and> run_changes (run_type_of v) t (unat c - unat (run_code 17 v))))"
proof -
  define code len ty where d: "code = run_code 17 v" "len = unat (run_len 17 v)" "ty = run_type_of v"
  have b: "unat code < 2 ^ 17" "len < 128" "unat (code + run_len 17 v) = unat code + len"
    using run_facts [of v] by (auto simp: d)
  have u: "unat (code + of_nat k) = unat code + k" if "k < 200" for k
    using that b by (intro unat_small_add) simp
  note u' = u [of 1, simplified] u [of 2, simplified] u [of 3, simplified]
  have K: "0 < len" "ty = RUN_TYPE_UL \<Longrightarrow> even len" "ty = RUN_TYPE_LSU \<Longrightarrow> len = 3"
    using assms by (auto simp: case_run_ok_def Let_def d split: run_type.splits)
  show ?thesis
  proof (cases "ty = RUN_TYPE_UL \<or> ty = RUN_TYPE_LSU")
    case False
    then show ?thesis using K(1) b u'
      by (cases ty) (auto simp: case1_sel_def Let_def d [symmetric] case1_types_iff tab_run_mask_def ex_less_3
        word_le_nat_alt word_less_nat_alt simp del: bit_0)
  next
    case True
    then show ?thesis
    proof
      assume ul: "ty = RUN_TYPE_UL"
      have h: "(len + 1) div 2 = len div 2" "2 * (len div 2) = len" using K(2) [OF ul] by auto
      have lower: "ivs_ok (unat code) (unat code + len) (alt_ivs (len div 2) code)"
        "iv_mem (alt_ivs (len div 2) code) c \<longleftrightarrow> unat code \<le> unat c \<and> unat c < unat code + len \<and> even (unat c - unat code)"
        using alt_ivs_props(1) [of code "len div 2" "unat code + len"] alt_ivs_props(2) [of code "len div 2" c] b h by simp_all
      have upper: "ivs_ok (unat code) (unat code + len) (alt_ivs (len div 2) (code + 1))"
        "iv_mem (alt_ivs (len div 2) (code + 1)) c \<longleftrightarrow> unat code \<le> unat c \<and> unat c < unat code + len \<and> odd (unat c - unat code)"
        using alt_ivs_props(1) [of "code + 1" "len div 2" "unat code + len"] alt_ivs_props(2) [of "code + 1" "len div 2" c] b h K(1)
          ivs_ok_mono [of "unat code + 1" "unat code + len" "alt_ivs (len div 2) (code + 1)" "unat code"]
          alternate_nat(2) [of "unat code" "unat c" len] u' by simp_all
      show ?thesis using ul b lower upper h K(1)
        by (auto simp: case1_sel_def Let_def d [symmetric] case1_types_iff tab_run_mask_def ex_less_3 alt_ivs_props(3)
          word_le_nat_alt word_less_nat_alt simp del: bit_0)
    next
      assume lsu: "ty = RUN_TYPE_LSU"
      then have len: "len = 3" by (rule K(3))
      show ?thesis using lsu b u' len
        by (auto simp: case1_sel_def Let_def d [symmetric] case1_types_iff tab_run_mask_def ex_less_3
          word_le_nat_alt word_less_nat_alt simp del: bit_0)
    qed
  qed
qed

text \<open>The intervals of all runs, in ascending order.\<close>

lemma case1_table_ivs:
  "runs_ascending 17 vs \<Longrightarrow> (\<forall>v \<in> set vs. \<exists>i b. case_run_ok i v b) \<Longrightarrow>
   (\<forall>v \<in> set vs. lo \<le> unat (run_code 17 v)) \<Longrightarrow> lo \<le> 0x110000 \<Longrightarrow>
   ivs_ok lo 0x110000 (concat (map (case1_sel cm) vs)) \<and> length (concat (map (case1_sel cm) vs)) \<le> 128 * length vs"
proof (induction vs arbitrary: lo)
  case (Cons v vs)
  have s: "ivs_ok (unat (run_code 17 v)) (unat (run_code 17 v) + unat (run_len 17 v)) (case1_sel cm v)" "length (case1_sel cm v) \<le> 128"
    using case1_sel_props [of _ v _ cm 0] Cons.prems(2) by auto
  have up: "\<forall>w \<in> set vs. unat (run_code 17 v) + unat (run_len 17 v) \<le> unat (run_code 17 w)"
    using runs_ascending_nth [OF Cons.prems(1), of 0] by (fastforce simp: in_set_conv_nth)
  have "runs_ascending 17 vs" using Cons.prems(1) by (cases vs) auto
  then have "ivs_ok (unat (run_code 17 v) + unat (run_len 17 v)) 0x110000 (concat (map (case1_sel cm) vs)) \<and>
      length (concat (map (case1_sel cm) vs)) \<le> 128 * length vs"
    using Cons.IH [OF _ _ up] Cons.prems(2) run_facts(1,2) [of v] by simp
  then show ?case using ivs_ok_append [OF ivs_ok_mono [OF s(1), of lo]] Cons.prems(3) s(2) by auto
qed simp

text \<open>The characters that some conversion of the mask changes.\<close>

definition case_changed :: "u32 \<Rightarrow> u32 \<Rightarrow> bool" where
  "case_changed cm c \<longleftrightarrow> (\<exists>t < 3. bit cm t \<and> lre_case_conv c t \<noteq> Some [c])"

lemma iv_mem_concat: "iv_mem (concat xss) c \<longleftrightarrow> (\<exists>xs \<in> set xss. iv_mem xs c)"
  by (auto simp: iv_mem_def)

lemma case1_ivs_mem: "iv_mem (concat (map (case1_sel cm) case_conv_table1)) c \<longleftrightarrow> case_changed cm c"
proof -
  have m: "iv_mem (case1_sel cm (case_conv_table1 ! i)) c \<longleftrightarrow>
      in_run 17 case_conv_table1 c i \<and> case_changed cm c" if i: "i < 361" for i
  proof -
    have r: "in_run 17 case_conv_table1 c i \<longleftrightarrow> unat (run_code 17 (case_conv_table1 ! i)) \<le> unat c \<and>
        unat c < unat (run_code 17 (case_conv_table1 ! i)) + unat (run_len 17 (case_conv_table1 ! i))"
      using i by (simp add: in_run_def case_ext_length word_le_nat_alt word_less_nat_alt run_facts(3))
    have "iv_mem (case1_sel cm (case_conv_table1 ! i)) c \<longleftrightarrow> in_run 17 case_conv_table1 c i \<and>
        (\<exists>t < 3. bit cm t \<and> run_changes (run_type_of (case_conv_table1 ! i)) t
          (unat c - unat (run_code 17 (case_conv_table1 ! i))))"
      using case1_sel_props [OF case_table_nth(2) [OF i], of cm c] r by blast
    then show ?thesis using lre_case_conv_in_run [of c i] unfolding case_changed_def by blast
  qed
  have "iv_mem (concat (map (case1_sel cm) case_conv_table1)) c \<longleftrightarrow> (\<exists>i < 361. iv_mem (case1_sel cm (case_conv_table1 ! i)) c)"
    unfolding iv_mem_concat by (auto simp: set_conv_nth case_ext_length)
  also have "\<dots> \<longleftrightarrow> case_changed cm c"
    using m lre_case_conv_outside [of c] by (auto simp: case_changed_def in_run_def case_ext_length) blast
  finally show ?thesis .
qed

lemma unicode_case1_builds:
  assumes "cr_ok cr" "cr_len cr = 0"
  shows "builds (Some (unicode_case1 cr cm)) (cr_realloc_func cr) 92416 (case_changed cm)"
proof -
  let ?ivs = "concat (map (case1_sel cm) case_conv_table1)"
  have "\<forall>v \<in> set case_conv_table1. \<exists>i b. case_run_ok i v b"
    using case_table_nth(2) by (metis case_ext_length(2) in_set_conv_nth)
  then have I: "ivs_ok 0 0x110000 ?ivs" "length ?ivs \<le> 128 * 361"
    using case1_table_ivs [OF case_table_ascending, of 0 cm] by (simp_all add: case_ext_length)
  have e: "unicode_case1 cr cm = add_intervals cr ?ivs"
  proof (cases "cm = 0")
    case True
    then have "case1_sel cm v = []" for v by (simp add: case1_sel_def case1_types_iff Let_def)
    then have e: "?ivs = []" by auto
    show ?thesis unfolding e using True by (simp add: unicode_case1_def)
  qed (simp add: unicode_case1_def case1_loop_ivs)
  have "builds (Some (add_intervals cr ?ivs)) (cr_realloc_func cr) (2 * length ?ivs) (case_changed cm)"
    using builds_intervals [OF I(1) assms] by (simp add: case1_ivs_mem [abs_def])
  then show ?thesis unfolding e using builds_mono I(2) by fastforce
qed

section \<open>Properties\<close>

text \<open>
  Property C36. For every mask of conversions, \<^verbatim>\<open>unicode_case1\<close> builds exactly the set of the characters that one
  of these conversions, as \<^verbatim>\<open>lre_case_conv\<close> computes it, changes; it fails only when the allocator refuses
  a request.
\<close>

theorem case1_matches_conversion:
  assumes "cr_ok cr" "cr_len cr = 0"
  shows "case unicode_case1 cr cm of (cr', r) \<Rightarrow>
    r = 0 \<and> denotes cr' (\<lambda>c. \<exists>t < 3. bit cm t \<and> lre_case_conv c t \<noteq> Some [c]) \<or>
    r = -1 \<and> refused (cr_realloc_func cr) 184832"
  using unicode_case1_builds [OF assms, of cm] by (auto simp: builds_def case_changed_def [abs_def] split: prod.splits)

theorem case1_matches_conversion_witness:
  "case unicode_case1 (cr_init (\<lambda>_ _. True) 0 0 None) 1 of (cr', r) \<Rightarrow>
    r = 0 \<and> denotes cr' (\<lambda>c. \<exists>t < 3. bit (1 :: u32) t \<and> lre_case_conv c t \<noteq> Some [c])"
proof -
  have "\<not> refused (cr_realloc_func (cr_init (\<lambda>_ _. True) 0 0 None)) 184832"
    by (simp add: cr_init_def cr_default_realloc_def [abs_def] libc_realloc_refused)
  then show ?thesis
    using case1_matches_conversion [of "cr_init (\<lambda>_ _. True) 0 0 None" 1] by (auto split: prod.splits)
qed

end
