(* ===== verification/UnicodePropMachine.thy ===== *)
theory UnicodePropMachine
  imports UnicodeCaseSets
begin

text \<open>
  The binary properties of \<^verbatim>\<open>quickjs/libunicode.c\<close>, the characters changed by case conversions, and the stack
  machine that combines them: every program of \<open>unicode_prop\<close> respects the stack bound and builds the set
  that its operations denote.
\<close>

section \<open>Binary property tables\<close>

fun prop_decode :: "u8 list \<Rightarrow> (nat list \<times> nat \<times> u8 list) option" where
  "prop_decode (b # p) =
     (let n = unat b in
      if n < 64 then Some ([n div 8 + 1, n mod 8 + 1], n div 8 + n mod 8 + 2, p)
      else if n \<ge> 128 then Some ([n - 127], n - 127, p)
      else if n < 96 then
        (case p of
           p0 # p \<Rightarrow> Some ([(n - 64) * 256 + unat p0 + 1], (n - 64) * 256 + unat p0 + 1, p)
         | _ \<Rightarrow> None)
      else
        (case p of
           p0 # p1 # p \<Rightarrow>
             Some ([(n - 96) * 65536 + unat p0 * 256 + unat p1 + 1], (n - 96) * 65536 + unat p0 * 256 + unat p1 + 1, p)
         | _ \<Rightarrow> None))"
| "prop_decode [] = None"

definition prop_cost :: "nat list \<Rightarrow> nat \<Rightarrow> nat" where
  "prop_cost v n = length v"

lemma prop_decode_append: "prop_decode p = Some (v, n, q) \<Longrightarrow> prop_decode (p @ r) = Some (v, n, q @ r)"
  by (cases p) (auto simp: Let_def split: if_splits list.splits)

lemma prop_decode_table:
  "prop_decode p = Some (v, n, q) \<Longrightarrow> table_runs q = Some rs \<Longrightarrow> table_runs p = Some (v @ rs) \<and> sum_list v = n"
  by (cases p) (auto simp: Let_def split: if_splits list.splits)

lemma prop_runs_table: "runs_to prop_decode prop_cost p s k \<Longrightarrow> \<exists>rs. table_runs p = Some rs \<and> sum_list rs = s \<and> length rs = k"
proof (induction rule: runs_to.induct)
  case (Cons p v n q s k)
  then show ?case using prop_decode_table by (fastforce simp: prop_cost_def)
qed simp

definition prop_scan_ok :: "u8 list \<Rightarrow> bool" where
  "prop_scan_ok p = (case foldl (scan_step prop_decode prop_cost) ([], 0, 0) p of
     (pend, s, k) \<Rightarrow> pend = [] \<and> s \<le> 0x110000 \<and> k \<le> 1250)"

lemma prop_scan_runs:
  assumes "prop_scan_ok p"
  shows "\<exists>rs. table_runs p = Some rs \<and> sum_list rs \<le> 0x110000 \<and> length rs \<le> 1250"
proof -
  obtain s k where e: "foldl (scan_step prop_decode prop_cost) ([], 0, 0) p = ([], s, k)" "s \<le> 0x110000" "k \<le> 1250"
    using assms by (auto simp: prop_scan_ok_def split: prod.splits)
  then have "runs_to prop_decode prop_cost p s k"
    using scan_runs [of prop_decode prop_cost "[]" 0 0 p s k, OF prop_decode_append] by simp
  then show ?thesis using prop_runs_table e(2,3) by blast
qed

fun run_ivs :: "u32 \<Rightarrow> bool \<Rightarrow> nat list \<Rightarrow> (u32 \<times> u32) list" where
  "run_ivs c st [] = []"
| "run_ivs c st (n # rs) = (if st then [(c, c + of_nat n)] else []) @ run_ivs (c + of_nat n) (\<not> st) rs"

lemma run_ivs_props:
  "unat c + sum_list rs \<le> 0x110000 \<Longrightarrow> ivs_ok (unat c) (unat c + sum_list rs) (run_ivs c st rs) \<and>
     (iv_mem (run_ivs c st rs) x \<longleftrightarrow> unat c \<le> unat x \<and> unat x < unat c + sum_list rs \<and> in_runs rs (unat c) (unat x) st) \<and>
     length (run_ivs c st rs) \<le> length rs"
proof (induction c st rs rule: run_ivs.induct)
  case (2 c st n rs)
  have d: "unat (c + of_nat n) = unat c + n" using 2(2) by (intro unat_small_add) simp
  then show ?case using 2 ivs_ok_mono [of "unat c + n" "unat c + n + sum_list rs" "run_ivs (c + of_nat n) (\<not> st) rs" "unat c"]
    by (auto simp: word_le_nat_alt word_less_nat_alt add.assoc)
qed auto

lemma prop1_add_ivs: "prop1_add cr st c d = add_intervals cr (if st then [(c, d)] else [])"
  by (simp add: prop1_add_def add_intervals_one del: add_intervals.simps(2))

lemma unicode_prop1_loop_ivs:
  "table_runs bs = Some rs \<Longrightarrow> unicode_prop1_loop cr bs c st = Some (add_intervals cr (run_ivs c st rs))"
proof (induction "length bs" arbitrary: bs cr c st rs rule: less_induct)
  case less
  show ?case
  proof (cases bs)
    case Nil
    then show ?thesis using less.prems by simp
  next
    case (Cons b p)
    note ih = less.hyps
    have one: ?thesis if "table_runs p' = Some rs'" "length p' < length bs" "rs = n # rs'" "w = of_nat n"
      and e: "unicode_prop1_loop cr bs c st = (case prop1_add cr st c (c + w) of (cr, r) \<Rightarrow>
          if r \<noteq> 0 then Some (cr, -1) else unicode_prop1_loop cr p' (c + w) (\<not> st))"
      for p' rs' n w
      using ih [OF that(2,1)] that(3,4) e by (auto simp: add_intervals_append prop1_add_ivs split: prod.splits)
    from less.prems [unfolded Cons] show ?thesis
    proof (cases rule: table_runs_cases)
      case (two rs')
      obtain n1 n2 where n: "rs = n1 # n2 # rs'" "of_nat n1 = (drop_bit 3 (ucast b) + 1 :: u32)"
          "of_nat n2 = ((ucast b AND 7) + 1 :: u32)"
        using two(3) word_eq_of_nat [OF unat_run_1, of b] word_eq_of_nat [OF unat_run_2, of b] by metis
      show ?thesis using two(1,2) Cons ih [of p rs'] n
        by (simp add: u8_less_iff Let_def add_intervals_append prop1_add_ivs split: prod.splits)
    next
      case (long rs')
      then show ?thesis using Cons word_eq_of_nat [OF unat_run_long]
        by (intro one [of p rs' _ "ucast b - 0x80 + 1"]) (auto simp: u8_less_iff Let_def split: prod.split)
    next
      case (medium p0 p' rs')
      then show ?thesis using Cons word_eq_of_nat [OF unat_run_3 [of b p0]]
        by (intro one [of p' rs' _ "(push_bit 8 (ucast b - 0x40) OR ucast p0) + 1"]) (auto simp: u8_less_iff Let_def)
    next
      case (wide p0 p1 p' rs')
      then show ?thesis using Cons word_eq_of_nat [OF unat_run_4 [of b p0 p1]]
        by (intro one [of p' rs' _ "(push_bit 16 (ucast b - 0x60) OR push_bit 8 (ucast p0) OR ucast p1) + 1"])
          (auto simp: u8_less_iff Let_def)
    qed
  qed
qed

lemma prop_scan_0: "prop_scan_ok unicode_prop_Hyphen_table"
  by (simp only: prop_scan_ok_def table_eval prop_decode.simps prop_cost_def byte_div_8 byte_mod_8 unicode_prop_Hyphen_table_def)

lemma prop_scan_1: "prop_scan_ok unicode_prop_Other_Math_table"
  by (simp only: prop_scan_ok_def table_eval prop_decode.simps prop_cost_def byte_div_8 byte_mod_8 unicode_prop_Other_Math_table_def)

lemma prop_scan_2: "prop_scan_ok unicode_prop_Other_Alphabetic_table"
  by (simp only: prop_scan_ok_def table_eval prop_decode.simps prop_cost_def byte_div_8 byte_mod_8 unicode_prop_Other_Alphabetic_table_def)

lemma prop_scan_3: "prop_scan_ok unicode_prop_Other_Lowercase_table"
  by (simp only: prop_scan_ok_def table_eval prop_decode.simps prop_cost_def byte_div_8 byte_mod_8 unicode_prop_Other_Lowercase_table_def)

lemma prop_scan_4: "prop_scan_ok unicode_prop_Other_Uppercase_table"
  by (simp only: prop_scan_ok_def table_eval prop_decode.simps prop_cost_def byte_div_8 byte_mod_8 unicode_prop_Other_Uppercase_table_def)

lemma prop_scan_5: "prop_scan_ok unicode_prop_Other_Grapheme_Extend_table"
  by (simp only: prop_scan_ok_def table_eval prop_decode.simps prop_cost_def byte_div_8 byte_mod_8 unicode_prop_Other_Grapheme_Extend_table_def)

lemma prop_scan_6: "prop_scan_ok unicode_prop_Other_Default_Ignorable_Code_Point_table"
  by (simp only: prop_scan_ok_def table_eval prop_decode.simps prop_cost_def byte_div_8 byte_mod_8 unicode_prop_Other_Default_Ignorable_Code_Point_table_def)

lemma prop_scan_7: "prop_scan_ok unicode_prop_Other_ID_Start_table"
  by (simp only: prop_scan_ok_def table_eval prop_decode.simps prop_cost_def byte_div_8 byte_mod_8 unicode_prop_Other_ID_Start_table_def)

lemma prop_scan_8: "prop_scan_ok unicode_prop_Other_ID_Continue_table"
  by (simp only: prop_scan_ok_def table_eval prop_decode.simps prop_cost_def byte_div_8 byte_mod_8 unicode_prop_Other_ID_Continue_table_def)

lemma prop_scan_9: "prop_scan_ok unicode_prop_Prepended_Concatenation_Mark_table"
  by (simp only: prop_scan_ok_def table_eval prop_decode.simps prop_cost_def byte_div_8 byte_mod_8 unicode_prop_Prepended_Concatenation_Mark_table_def)

lemma prop_scan_10: "prop_scan_ok unicode_prop_ID_Continue1_table"
  by (simp only: prop_scan_ok_def table_eval prop_decode.simps prop_cost_def byte_div_8 byte_mod_8 unicode_prop_ID_Continue1_table_def)

lemma prop_scan_11: "prop_scan_ok unicode_prop_XID_Start1_table"
  by (simp only: prop_scan_ok_def table_eval prop_decode.simps prop_cost_def byte_div_8 byte_mod_8 unicode_prop_XID_Start1_table_def)

lemma prop_scan_12: "prop_scan_ok unicode_prop_XID_Continue1_table"
  by (simp only: prop_scan_ok_def table_eval prop_decode.simps prop_cost_def byte_div_8 byte_mod_8 unicode_prop_XID_Continue1_table_def)

lemma prop_scan_13: "prop_scan_ok unicode_prop_Changes_When_Titlecased1_table"
  by (simp only: prop_scan_ok_def table_eval prop_decode.simps prop_cost_def byte_div_8 byte_mod_8 unicode_prop_Changes_When_Titlecased1_table_def)

lemma prop_scan_14: "prop_scan_ok unicode_prop_Changes_When_Casefolded1_table"
  by (simp only: prop_scan_ok_def table_eval prop_decode.simps prop_cost_def byte_div_8 byte_mod_8 unicode_prop_Changes_When_Casefolded1_table_def)

lemma prop_scan_15: "prop_scan_ok unicode_prop_Changes_When_NFKC_Casefolded1_table"
  by (simp only: prop_scan_ok_def table_eval prop_decode.simps prop_cost_def byte_div_8 byte_mod_8 unicode_prop_Changes_When_NFKC_Casefolded1_table_def)

lemma prop_scan_16: "prop_scan_ok unicode_prop_ASCII_Hex_Digit_table"
  by (simp only: prop_scan_ok_def table_eval prop_decode.simps prop_cost_def byte_div_8 byte_mod_8 unicode_prop_ASCII_Hex_Digit_table_def)

lemma prop_scan_17: "prop_scan_ok unicode_prop_Bidi_Control_table"
  by (simp only: prop_scan_ok_def table_eval prop_decode.simps prop_cost_def byte_div_8 byte_mod_8 unicode_prop_Bidi_Control_table_def)

lemma prop_scan_18: "prop_scan_ok unicode_prop_Dash_table"
  by (simp only: prop_scan_ok_def table_eval prop_decode.simps prop_cost_def byte_div_8 byte_mod_8 unicode_prop_Dash_table_def)

lemma prop_scan_19: "prop_scan_ok unicode_prop_Deprecated_table"
  by (simp only: prop_scan_ok_def table_eval prop_decode.simps prop_cost_def byte_div_8 byte_mod_8 unicode_prop_Deprecated_table_def)

lemma prop_scan_20: "prop_scan_ok unicode_prop_Diacritic_table"
  by (simp only: prop_scan_ok_def table_eval prop_decode.simps prop_cost_def byte_div_8 byte_mod_8 unicode_prop_Diacritic_table_def)

lemma prop_scan_21: "prop_scan_ok unicode_prop_Extender_table"
  by (simp only: prop_scan_ok_def table_eval prop_decode.simps prop_cost_def byte_div_8 byte_mod_8 unicode_prop_Extender_table_def)

lemma prop_scan_22: "prop_scan_ok unicode_prop_Hex_Digit_table"
  by (simp only: prop_scan_ok_def table_eval prop_decode.simps prop_cost_def byte_div_8 byte_mod_8 unicode_prop_Hex_Digit_table_def)

lemma prop_scan_23: "prop_scan_ok unicode_prop_IDS_Binary_Operator_table"
  by (simp only: prop_scan_ok_def table_eval prop_decode.simps prop_cost_def byte_div_8 byte_mod_8 unicode_prop_IDS_Binary_Operator_table_def)

lemma prop_scan_24: "prop_scan_ok unicode_prop_IDS_Trinary_Operator_table"
  by (simp only: prop_scan_ok_def table_eval prop_decode.simps prop_cost_def byte_div_8 byte_mod_8 unicode_prop_IDS_Trinary_Operator_table_def)

lemma prop_scan_25: "prop_scan_ok unicode_prop_Ideographic_table"
  by (simp only: prop_scan_ok_def table_eval prop_decode.simps prop_cost_def byte_div_8 byte_mod_8 unicode_prop_Ideographic_table_def)

lemma prop_scan_26: "prop_scan_ok unicode_prop_Join_Control_table"
  by (simp only: prop_scan_ok_def table_eval prop_decode.simps prop_cost_def byte_div_8 byte_mod_8 unicode_prop_Join_Control_table_def)

lemma prop_scan_27: "prop_scan_ok unicode_prop_Logical_Order_Exception_table"
  by (simp only: prop_scan_ok_def table_eval prop_decode.simps prop_cost_def byte_div_8 byte_mod_8 unicode_prop_Logical_Order_Exception_table_def)

lemma prop_scan_28: "prop_scan_ok unicode_prop_Noncharacter_Code_Point_table"
  by (simp only: prop_scan_ok_def table_eval prop_decode.simps prop_cost_def byte_div_8 byte_mod_8 unicode_prop_Noncharacter_Code_Point_table_def)

lemma prop_scan_29: "prop_scan_ok unicode_prop_Pattern_Syntax_table"
  by (simp only: prop_scan_ok_def table_eval prop_decode.simps prop_cost_def byte_div_8 byte_mod_8 unicode_prop_Pattern_Syntax_table_def)

lemma prop_scan_30: "prop_scan_ok unicode_prop_Pattern_White_Space_table"
  by (simp only: prop_scan_ok_def table_eval prop_decode.simps prop_cost_def byte_div_8 byte_mod_8 unicode_prop_Pattern_White_Space_table_def)

lemma prop_scan_31: "prop_scan_ok unicode_prop_Quotation_Mark_table"
  by (simp only: prop_scan_ok_def table_eval prop_decode.simps prop_cost_def byte_div_8 byte_mod_8 unicode_prop_Quotation_Mark_table_def)

lemma prop_scan_32: "prop_scan_ok unicode_prop_Radical_table"
  by (simp only: prop_scan_ok_def table_eval prop_decode.simps prop_cost_def byte_div_8 byte_mod_8 unicode_prop_Radical_table_def)

lemma prop_scan_33: "prop_scan_ok unicode_prop_Regional_Indicator_table"
  by (simp only: prop_scan_ok_def table_eval prop_decode.simps prop_cost_def byte_div_8 byte_mod_8 unicode_prop_Regional_Indicator_table_def)

lemma prop_scan_34: "prop_scan_ok unicode_prop_Sentence_Terminal_table"
  by (simp only: prop_scan_ok_def table_eval prop_decode.simps prop_cost_def byte_div_8 byte_mod_8 unicode_prop_Sentence_Terminal_table_def)

lemma prop_scan_35: "prop_scan_ok unicode_prop_Soft_Dotted_table"
  by (simp only: prop_scan_ok_def table_eval prop_decode.simps prop_cost_def byte_div_8 byte_mod_8 unicode_prop_Soft_Dotted_table_def)

lemma prop_scan_36: "prop_scan_ok unicode_prop_Terminal_Punctuation_table"
  by (simp only: prop_scan_ok_def table_eval prop_decode.simps prop_cost_def byte_div_8 byte_mod_8 unicode_prop_Terminal_Punctuation_table_def)

lemma prop_scan_37: "prop_scan_ok unicode_prop_Unified_Ideograph_table"
  by (simp only: prop_scan_ok_def table_eval prop_decode.simps prop_cost_def byte_div_8 byte_mod_8 unicode_prop_Unified_Ideograph_table_def)

lemma prop_scan_38: "prop_scan_ok unicode_prop_Variation_Selector_table"
  by (simp only: prop_scan_ok_def table_eval prop_decode.simps prop_cost_def byte_div_8 byte_mod_8 unicode_prop_Variation_Selector_table_def)

lemma prop_scan_39: "prop_scan_ok unicode_prop_White_Space_table"
  by (simp only: prop_scan_ok_def table_eval prop_decode.simps prop_cost_def byte_div_8 byte_mod_8 unicode_prop_White_Space_table_def)

lemma prop_scan_40: "prop_scan_ok unicode_prop_Bidi_Mirrored_table"
  by (simp only: prop_scan_ok_def table_eval prop_decode.simps prop_cost_def byte_div_8 byte_mod_8 unicode_prop_Bidi_Mirrored_table_def)

lemma prop_scan_41: "prop_scan_ok unicode_prop_Emoji_table"
  by (simp only: prop_scan_ok_def table_eval prop_decode.simps prop_cost_def byte_div_8 byte_mod_8 unicode_prop_Emoji_table_def)

lemma prop_scan_42: "prop_scan_ok unicode_prop_Emoji_Component_table"
  by (simp only: prop_scan_ok_def table_eval prop_decode.simps prop_cost_def byte_div_8 byte_mod_8 unicode_prop_Emoji_Component_table_def)

lemma prop_scan_43: "prop_scan_ok unicode_prop_Emoji_Modifier_table"
  by (simp only: prop_scan_ok_def table_eval prop_decode.simps prop_cost_def byte_div_8 byte_mod_8 unicode_prop_Emoji_Modifier_table_def)

lemma prop_scan_44: "prop_scan_ok unicode_prop_Emoji_Modifier_Base_table"
  by (simp only: prop_scan_ok_def table_eval prop_decode.simps prop_cost_def byte_div_8 byte_mod_8 unicode_prop_Emoji_Modifier_Base_table_def)

lemma prop_scan_45: "prop_scan_ok unicode_prop_Emoji_Presentation_table"
  by (simp only: prop_scan_ok_def table_eval prop_decode.simps prop_cost_def byte_div_8 byte_mod_8 unicode_prop_Emoji_Presentation_table_def)

lemma prop_scan_46: "prop_scan_ok unicode_prop_Extended_Pictographic_table"
  by (simp only: prop_scan_ok_def table_eval prop_decode.simps prop_cost_def byte_div_8 byte_mod_8 unicode_prop_Extended_Pictographic_table_def)

lemma prop_scan_47: "prop_scan_ok unicode_prop_Default_Ignorable_Code_Point_table"
  by (simp only: prop_scan_ok_def table_eval prop_decode.simps prop_cost_def byte_div_8 byte_mod_8 unicode_prop_Default_Ignorable_Code_Point_table_def)

lemma prop_scan_48: "prop_scan_ok unicode_prop_ID_Start_table"
  by (simp only: prop_scan_ok_def table_eval prop_decode.simps prop_cost_def byte_div_8 byte_mod_8 unicode_prop_ID_Start_table_def)

lemma prop_scan_49: "prop_scan_ok unicode_prop_Case_Ignorable_table"
  by (simp only: prop_scan_ok_def table_eval prop_decode.simps prop_cost_def byte_div_8 byte_mod_8 unicode_prop_Case_Ignorable_table_def)

lemma prop_tables_ok: "list_all prop_scan_ok unicode_prop_table"
  by (simp add: unicode_prop_table_def prop_scan_0 prop_scan_1 prop_scan_2 prop_scan_3 prop_scan_4 prop_scan_5 prop_scan_6 prop_scan_7 prop_scan_8 prop_scan_9 prop_scan_10 prop_scan_11 prop_scan_12 prop_scan_13 prop_scan_14 prop_scan_15 prop_scan_16 prop_scan_17 prop_scan_18 prop_scan_19 prop_scan_20 prop_scan_21 prop_scan_22 prop_scan_23 prop_scan_24 prop_scan_25 prop_scan_26 prop_scan_27 prop_scan_28 prop_scan_29 prop_scan_30 prop_scan_31 prop_scan_32 prop_scan_33 prop_scan_34 prop_scan_35 prop_scan_36 prop_scan_37 prop_scan_38 prop_scan_39 prop_scan_40 prop_scan_41 prop_scan_42 prop_scan_43 prop_scan_44 prop_scan_45 prop_scan_46 prop_scan_47 prop_scan_48 prop_scan_49)

text \<open>The property with a given number, read off its table.\<close>

definition has_prop :: "nat \<Rightarrow> u32 \<Rightarrow> bool" where
  "has_prop i c = (case table_runs (unicode_prop_table ! i) of
     None \<Rightarrow> False
   | Some rs \<Rightarrow> unat c < sum_list rs \<and> in_runs rs 0 (unat c) False)"

lemma unicode_prop1_builds:
  assumes "i < length unicode_prop_table" "cr_ok cr" "cr_len cr = 0"
  shows "builds (unicode_prop1 cr i) (cr_realloc_func cr) 2500 (has_prop i)"
proof -
  let ?t = "unicode_prop_table ! i"
  obtain rs where rs: "table_runs ?t = Some rs" "sum_list rs \<le> 0x110000" "length rs \<le> 1250"
    using prop_tables_ok assms(1) prop_scan_runs by (auto simp: list_all_length)
  have P: "ivs_ok 0 (sum_list rs) (run_ivs 0 False rs)" "length (run_ivs 0 False rs) \<le> 1250"
    using run_ivs_props [of 0 rs False 0] rs(2,3) by auto
  have M: "\<And>x. iv_mem (run_ivs 0 False rs) x \<longleftrightarrow> unat x < sum_list rs \<and> in_runs rs 0 (unat x) False"
    using run_ivs_props [of 0 rs False] rs(2) by auto
  have "builds (Some (add_intervals cr (run_ivs 0 False rs))) (cr_realloc_func cr) 2500 (has_prop i)"
    using builds_mono [OF builds_intervals [OF P(1) assms(2,3)], of 2500] P(2) rs(1)
    by (auto simp: has_prop_def [abs_def] M [abs_def])
  then show ?thesis
    using unicode_prop1_loop_ivs [OF rs(1)] assms(1) by (simp add: unicode_prop1_def tab_get_def)
qed

section \<open>The stack machine\<close>

text \<open>
  The static discipline of the programs: the depth of the stack at each operation, with the bound the
  assertions of the machine check; and their meaning on sets.
\<close>

fun leaf_ok :: "prop_op \<Rightarrow> bool" where
  "leaf_ok (POP_PROP i) \<longleftrightarrow> i < length unicode_prop_table"
| "leaf_ok op \<longleftrightarrow> True"

fun well_typed :: "prop_op list \<Rightarrow> nat \<Rightarrow> bool" where
  "well_typed [] n \<longleftrightarrow> False"
| "well_typed (op # ops) n \<longleftrightarrow>
     (if op = POP_END then n = 1
      else if op = POP_INVERT then 1 \<le> n \<and> well_typed ops n
      else if pop_cr_op op \<noteq> None then 2 \<le> n \<and> n < POP_STACK_LEN_MAX \<and> well_typed ops (n - 1)
      else n < POP_STACK_LEN_MAX \<and> leaf_ok op \<and> well_typed ops (n + 1))"

fun leaf_sem :: "prop_op \<Rightarrow> u32 \<Rightarrow> bool" where
  "leaf_sem (POP_GC a) = (\<lambda>c. bit a (general_category c))"
| "leaf_sem (POP_PROP i) = has_prop i"
| "leaf_sem (POP_CASE a) = case_changed a"
| "leaf_sem _ = (\<lambda>c. False)"

fun prog_sem :: "prop_op list \<Rightarrow> (u32 \<Rightarrow> bool) list \<Rightarrow> u32 \<Rightarrow> bool" where
  "prog_sem [] st c = False"
| "prog_sem (op # ops) st c =
     (case op of
        POP_END \<Rightarrow> hd st c
      | POP_INVERT \<Rightarrow> prog_sem ops ((\<lambda>c. \<not> hd st c) # tl st) c
      | POP_UNION \<Rightarrow> prog_sem ops ((\<lambda>c. hd (tl st) c \<or> hd st c) # tl (tl st)) c
      | POP_INTER \<Rightarrow> prog_sem ops ((\<lambda>c. hd (tl st) c \<and> hd st c) # tl (tl st)) c
      | POP_XOR \<Rightarrow> prog_sem ops ((\<lambda>c. hd (tl st) c \<noteq> hd st c) # tl (tl st)) c
      | _ \<Rightarrow> prog_sem ops (leaf_sem op # st) c)"

lemma prog_sem_binary:
  "pop_cr_op op = Some cop \<Longrightarrow>
   prog_sem (op # ops) (Q # P # st) c = prog_sem ops ((\<lambda>c. cr_is_in cop (P c) (Q c)) # st) c"
  by (cases op) auto

lemma prog_sem_leaf:
  "pop_cr_op op = None \<Longrightarrow> op \<noteq> POP_END \<Longrightarrow> op \<noteq> POP_INVERT \<Longrightarrow>
   prog_sem (op # ops) st c = prog_sem ops (leaf_sem op # st) c"
  by (cases op) auto

lemma prog_sem_ops [simp]:
  "prog_sem (POP_END # ops) st c = hd st c"
  "prog_sem (POP_INVERT # ops) st c = prog_sem ops ((\<lambda>c. \<not> hd st c) # tl st) c"
  "prog_sem (POP_UNION # ops) st c = prog_sem ops ((\<lambda>c. hd (tl st) c \<or> hd st c) # tl (tl st)) c"
  "prog_sem (POP_INTER # ops) st c = prog_sem ops ((\<lambda>c. hd (tl st) c \<and> hd st c) # tl (tl st)) c"
  "prog_sem (POP_XOR # ops) st c = prog_sem ops ((\<lambda>c. hd (tl st) c \<noteq> hd st c) # tl (tl st)) c"
  "prog_sem (POP_GC m # ops) st c = prog_sem ops (leaf_sem (POP_GC m) # st) c"
  "prog_sem (POP_PROP i # ops) st c = prog_sem ops (leaf_sem (POP_PROP i) # st) c"
  "prog_sem (POP_CASE m # ops) st c = prog_sem ops (leaf_sem (POP_CASE m) # st) c"
  by simp_all

declare prog_sem.simps(2) [simp del]

text \<open>A bound on the points that a program may need.\<close>

fun op_cost :: "prop_op \<Rightarrow> nat" where
  "op_cost (POP_GC a) = 7942"
| "op_cost (POP_PROP i) = 2500"
| "op_cost (POP_CASE a) = 92416"
| "op_cost POP_INVERT = 2"
| "op_cost _ = 0"

abbreviation prog_cost :: "prop_op list \<Rightarrow> nat" where
  "prog_cost ops \<equiv> sum_list (map op_cost ops)"

lemma pop_leaf_builds:
  assumes "leaf_ok op" "pop_cr_op op = None" "op \<noteq> POP_END" "op \<noteq> POP_INVERT" "cr_ok cr" "cr_len cr = 0"
  shows "builds (pop_leaf cr op) (cr_realloc_func cr) (op_cost op) (leaf_sem op)"
  using assms unicode_general_category1_builds [OF assms(5,6)] unicode_prop1_builds [OF _ assms(5,6)]
    unicode_case1_builds [OF assms(5,6)]
  by (cases op) auto

text \<open>The stack of the machine holds ranges that denote the sets of the abstract stack.\<close>

definition stack_rel :: "u32 realloc_fun \<Rightarrow> char_range list \<Rightarrow> (u32 \<Rightarrow> bool) list \<Rightarrow> bool" where
  "stack_rel rf stack sems \<longleftrightarrow> list_all2 (\<lambda>a P. denotes a P \<and> cr_realloc_func a = rf) stack sems"

lemma stack_rel_simps:
  "stack_rel rf [] sems \<longleftrightarrow> sems = []"
  "stack_rel rf (a # stack) sems \<longleftrightarrow>
     (\<exists>P sm. sems = P # sm \<and> denotes a P \<and> cr_realloc_func a = rf \<and> stack_rel rf stack sm)"
  by (auto simp: stack_rel_def list_all2_Cons1)

definition step_sound :: "u32 realloc_fun \<Rightarrow> prop_op \<Rightarrow> prop_op list \<Rightarrow> (u32 \<Rightarrow> bool) list \<Rightarrow> nat \<Rightarrow> nat \<Rightarrow>
    (char_range list \<times> nat \<times> int) option \<Rightarrow> bool" where
  "step_sound rf op ops sems n k res \<longleftrightarrow> (\<exists>stack t r. res = Some (stack, t, r) \<and>
     (r = -1 \<and> refused rf (2 * k) \<or>
      r = 0 \<and> (\<exists>sems'. stack_rel rf stack sems' \<and> well_typed ops (length stack) \<and>
        sum_list (map cr_len stack) \<le> n \<and> (\<forall>c. prog_sem (op # ops) sems c = prog_sem ops sems' c))))"

lemma step_soundI:
  assumes "builds (Some (a, r)) rf j P" "stack_rel rf st sm" "well_typed ops (Suc (length st))"
    and "j + sum_list (map cr_len st) \<le> n" "n \<le> k" "\<And>c. prog_sem (op # ops) sems c = prog_sem ops (P # sm) c"
  shows "step_sound rf op ops sems n k (Some (a # st, t, r))"
proof -
  from assms(1) have "r = 0 \<and> denotes a P \<and> cr_realloc_func a = rf \<and> cr_len a \<le> j \<or> r = -1 \<and> refused rf (2 * j)"
    by (auto simp: builds_def)
  then show ?thesis
  proof
    assume "r = -1 \<and> refused rf (2 * j)"
    then show ?thesis using refused_mono [of rf "2 * j" "2 * k"] assms(4,5) by (auto simp: step_sound_def)
  next
    assume "r = 0 \<and> denotes a P \<and> cr_realloc_func a = rf \<and> cr_len a \<le> j"
    then have "stack_rel rf (a # st) (P # sm)" "well_typed ops (length (a # st))"
      "sum_list (map cr_len (a # st)) \<le> n" "r = 0"
      using assms(2-4) by (auto simp: stack_rel_simps)
    then show ?thesis using assms(6) unfolding step_sound_def by blast
  qed
qed

lemma prop_step_sound:
  assumes wt: "well_typed (op # ops) (length stack)" and ne: "op \<noteq> POP_END" and st: "stack_rel rf stack sems"
    and k: "sum_list (map cr_len stack) + op_cost op \<le> k" and cr: "cr_ok cr" "cr_realloc_func cr = rf"
  shows "step_sound rf op ops sems (sum_list (map cr_len stack) + op_cost op) k (prop_step cr op stack t)"
proof -
  consider "op = POP_INVERT" | cop where "pop_cr_op op = Some cop" "op \<noteq> POP_INVERT"
    | "pop_cr_op op = None" "op \<noteq> POP_INVERT" by fastforce
  then show ?thesis
  proof cases
    case 1
    obtain a s P sm where s: "stack = a # s" "sems = P # sm" "denotes a P" "cr_realloc_func a = rf" "stack_rel rf s sm"
      using 1 wt st by (cases stack) (auto simp: stack_rel_simps)
    obtain a' r where e: "cr_invert (cr_at t a) = (a', r)" by (metis surj_pair)
    have "builds (Some (a', r)) rf (cr_len a + 2) (\<lambda>c. \<not> P c)"
      using builds_invert [of "cr_at t a" P "cr_len a"] s e by simp
    then show ?thesis using 1 wt s e k by (simp add: prop_step_def) (rule step_soundI, auto)
  next
    case (2 cop)
    obtain b a s Q P sm where s: "stack = b # a # s" "sems = Q # P # sm" "denotes b Q" "denotes a P" "stack_rel rf s sm"
      using 2 wt st ne by (cases stack; cases "tl stack") (auto simp: stack_rel_simps)
    obtain a' r where e: "cr_op (cr_new cr t) (cr_points a) (cr_points b) cop = (a', r)" by (metis surj_pair)
    have "builds (Some (a', r)) rf (cr_len a + cr_len b) (\<lambda>c. cr_is_in cop (P c) (Q c))"
      using builds_op [OF s(4,3) order.refl order.refl, of "cr_new cr t" cop] cr e by simp
    moreover have "prop_step cr op stack t = Some (a' # s, mem_opaque a' + 2, r)"
      using 2 wt s e ne by (cases op) (auto simp: prop_step_def)
    ultimately show ?thesis using 2 wt s k ne by (simp only:) (rule step_soundI, auto simp: prog_sem_binary)
  next
    case 3
    have b: "builds (pop_leaf (cr_new cr t) op) rf (op_cost op) (leaf_sem op)"
      using pop_leaf_builds [of op "cr_new cr t"] 3 wt ne cr by simp
    then obtain a' r where e: "pop_leaf (cr_new cr t) op = Some (a', r)" by (auto simp: builds_def)
    moreover have "prop_step cr op stack t = Some (a' # stack, mem_opaque a', r)"
      using 3 wt e ne by (cases op) (auto simp: prop_step_def)
    ultimately show ?thesis using 3 wt st k ne b by (simp only:) (rule step_soundI, auto simp: prog_sem_leaf)
  qed
qed

lemma prop_run_sound:
  assumes "cr_ok cr" "cr_len cr = 0" "cr_realloc_func cr = rf"
  shows "well_typed ops (length stack) \<Longrightarrow> stack_rel rf stack sems \<Longrightarrow> sum_list (map cr_len stack) + prog_cost ops \<le> k \<Longrightarrow>
    builds (prop_run cr ops stack t) rf k (prog_sem ops sems)"
proof (induction ops arbitrary: stack sems t)
  case (Cons op ops)
  show ?case
  proof (cases "op = POP_END")
    case True
    then obtain a P where s: "stack = [a]" "sems = [P]" "denotes a P"
      using Cons.prems(1,2) by (cases stack) (auto simp: stack_rel_simps)
    have "builds (Some (cr_copy (cr_at t cr) a)) rf k P"
      using builds_copy [of a P k "cr_at t cr"] assms s Cons.prems(3) by simp
    then show ?thesis using True s
      by (auto simp: builds_def cr_at_def cr_ok_def denotes_def cr_points_def split: prod.splits)
  next
    case False
    have "step_sound rf op ops sems (sum_list (map cr_len stack) + op_cost op) k (prop_step cr op stack t)"
      using prop_step_sound [OF Cons.prems(1) False Cons.prems(2) _ assms(1,3)] Cons.prems(3) by simp
    then obtain stack' t' r where e: "prop_step cr op stack t = Some (stack', t', r)"
      and r: "r = -1 \<and> refused rf (2 * k) \<or> r = 0 \<and> (\<exists>sems'. stack_rel rf stack' sems' \<and> well_typed ops (length stack') \<and>
        sum_list (map cr_len stack') \<le> sum_list (map cr_len stack) + op_cost op \<and>
        (\<forall>c. prog_sem (op # ops) sems c = prog_sem ops sems' c))"
      by (auto simp: step_sound_def)
    from r show ?thesis
    proof
      assume "r = -1 \<and> refused rf (2 * k)"
      then show ?thesis using e False assms by (auto simp: builds_def)
    next
      assume "r = 0 \<and> (\<exists>sems'. stack_rel rf stack' sems' \<and> well_typed ops (length stack') \<and>
        sum_list (map cr_len stack') \<le> sum_list (map cr_len stack) + op_cost op \<and>
        (\<forall>c. prog_sem (op # ops) sems c = prog_sem ops sems' c))"
      then obtain sems' where r0: "r = 0" and s': "stack_rel rf stack' sems'" "well_typed ops (length stack')"
        "sum_list (map cr_len stack') \<le> sum_list (map cr_len stack) + op_cost op"
        "\<And>c. prog_sem (op # ops) sems c = prog_sem ops sems' c" by auto
      have "builds (prop_run cr ops stack' t') rf k (prog_sem ops sems')"
        using Cons.IH [OF s'(2,1)] s'(3) Cons.prems(3) by simp
      then show ?thesis using e r0 False builds_cong [OF _ s'(4) [symmetric]] by simp
    qed
  qed
qed simp

section \<open>The properties by name\<close>

text \<open>
  What the properties mean, in terms of the general category of a character, the tables of contributory properties
  and the case conversions, after the list of derived properties of the Unicode standard (UAX 44, DerivedCoreProperties). The
  tables whose names end in 1 hold the exceptions to a definition by categories, as differences.
\<close>

definition in_gc :: "unicode_gc list \<Rightarrow> u32 \<Rightarrow> bool" where
  "in_gc gs c \<longleftrightarrow> (\<exists>g \<in> set gs. general_category c = gc_num g)"

abbreviation in_prop :: "unicode_prop_id \<Rightarrow> u32 \<Rightarrow> bool" where
  "in_prop pid \<equiv> has_prop (prop_num pid)"

definition is_lowercase :: "u32 \<Rightarrow> bool" where
  "is_lowercase c \<longleftrightarrow> in_gc [UNICODE_GC_Ll] c \<or> in_prop UNICODE_PROP_Other_Lowercase c"

definition is_uppercase :: "u32 \<Rightarrow> bool" where
  "is_uppercase c \<longleftrightarrow> in_gc [UNICODE_GC_Lu] c \<or> in_prop UNICODE_PROP_Other_Uppercase c"

definition is_cased :: "u32 \<Rightarrow> bool" where
  "is_cased c \<longleftrightarrow> is_lowercase c \<or> is_uppercase c \<or> in_gc [UNICODE_GC_Lt] c"

definition is_alphabetic :: "u32 \<Rightarrow> bool" where
  "is_alphabetic c \<longleftrightarrow> is_cased c \<or> in_gc [UNICODE_GC_Lm, UNICODE_GC_Lo, UNICODE_GC_Nl] c \<or>
     in_prop UNICODE_PROP_Other_Alphabetic c"

definition is_grapheme_extend :: "u32 \<Rightarrow> bool" where
  "is_grapheme_extend c \<longleftrightarrow> in_gc [UNICODE_GC_Me, UNICODE_GC_Mn] c \<or> in_prop UNICODE_PROP_Other_Grapheme_Extend c"

definition is_pattern_char :: "u32 \<Rightarrow> bool" where
  "is_pattern_char c \<longleftrightarrow> in_prop UNICODE_PROP_Pattern_Syntax c \<or> in_prop UNICODE_PROP_Pattern_White_Space c"

text \<open>The identifier characters before the exceptions: letters and letter numbers, and what may continue them.\<close>

definition id_start_base :: "u32 \<Rightarrow> bool" where
  "id_start_base c \<longleftrightarrow> in_gc [UNICODE_GC_Lu, UNICODE_GC_Ll, UNICODE_GC_Lt, UNICODE_GC_Lm, UNICODE_GC_Lo, UNICODE_GC_Nl] c \<or>
     in_prop UNICODE_PROP_Other_ID_Start c"

definition id_continue_base :: "u32 \<Rightarrow> bool" where
  "id_continue_base c \<longleftrightarrow> id_start_base c \<or> in_gc [UNICODE_GC_Mn, UNICODE_GC_Mc, UNICODE_GC_Nd, UNICODE_GC_Pc] c \<or>
     in_prop UNICODE_PROP_Other_ID_Continue c"

definition derived_sets :: "(unicode_prop_id \<times> (u32 \<Rightarrow> bool)) list" where
  "derived_sets = [
     (UNICODE_PROP_Assigned, \<lambda>c. \<not> in_gc [UNICODE_GC_Cn] c),
     (UNICODE_PROP_Math, \<lambda>c. in_gc [UNICODE_GC_Sm] c \<or> in_prop UNICODE_PROP_Other_Math c),
     (UNICODE_PROP_Lowercase, is_lowercase),
     (UNICODE_PROP_Uppercase, is_uppercase),
     (UNICODE_PROP_Cased, is_cased),
     (UNICODE_PROP_Alphabetic, is_alphabetic),
     (UNICODE_PROP_Grapheme_Base, \<lambda>c. \<not> is_grapheme_extend c \<and> \<not> in_gc [UNICODE_GC_Cc, UNICODE_GC_Cf, UNICODE_GC_Cs,
        UNICODE_GC_Co, UNICODE_GC_Cn, UNICODE_GC_Zl, UNICODE_GC_Zp] c),
     (UNICODE_PROP_Grapheme_Extend, is_grapheme_extend),
     (UNICODE_PROP_XID_Start, \<lambda>c. id_start_base c \<and> \<not> is_pattern_char c \<and> \<not> in_prop UNICODE_PROP_XID_Start1 c),
     (UNICODE_PROP_XID_Continue, \<lambda>c. id_continue_base c \<and> \<not> is_pattern_char c \<and> \<not> in_prop UNICODE_PROP_XID_Continue1 c),
     (UNICODE_PROP_Changes_When_Titlecased,
        \<lambda>c. case_changed CASE_U c \<noteq> in_prop UNICODE_PROP_Changes_When_Titlecased1 c),
     (UNICODE_PROP_Changes_When_Casefolded,
        \<lambda>c. case_changed CASE_F c \<noteq> in_prop UNICODE_PROP_Changes_When_Casefolded1 c),
     (UNICODE_PROP_Changes_When_NFKC_Casefolded,
        \<lambda>c. case_changed CASE_F c \<noteq> in_prop UNICODE_PROP_Changes_When_NFKC_Casefolded1 c),
     (UNICODE_PROP_ID_Continue, \<lambda>c. in_prop UNICODE_PROP_ID_Start c \<noteq> in_prop UNICODE_PROP_ID_Continue1 c),
     (UNICODE_PROP_ASCII, \<lambda>c. c \<le> 0x7f),
     (UNICODE_PROP_Any, \<lambda>c. c \<le> 0x10ffff),
     (UNICODE_PROP_Changes_When_Uppercased, case_changed CASE_U),
     (UNICODE_PROP_Changes_When_Lowercased, case_changed CASE_L),
     (UNICODE_PROP_Changes_When_Casemapped, case_changed (CASE_U OR CASE_L OR CASE_F))]"

text \<open>Every other property is its own table.\<close>

definition prop_set :: "unicode_prop_id \<Rightarrow> u32 \<Rightarrow> bool" where
  "prop_set pid = (case map_of derived_sets pid of Some P \<Rightarrow> P | None \<Rightarrow> in_prop pid)"

text \<open>Masks of categories.\<close>

lemma bit_M: "gc_num g < 32 \<Longrightarrow> bit (M g) k \<longleftrightarrow> k = gc_num g"
  unfolding M_def bit_push_bit_iff bit_1_iff by auto

lemma in_gc_simps: "in_gc [] c \<longleftrightarrow> False" "in_gc (g # gs) c \<longleftrightarrow> general_category c = gc_num g \<or> in_gc gs c"
  by (auto simp: in_gc_def)

lemma gc_nums_small:
  "gc_num UNICODE_GC_Cn < 32" "gc_num UNICODE_GC_Lu < 32" "gc_num UNICODE_GC_Ll < 32" "gc_num UNICODE_GC_Lt < 32"
  "gc_num UNICODE_GC_Lm < 32" "gc_num UNICODE_GC_Lo < 32" "gc_num UNICODE_GC_Mn < 32" "gc_num UNICODE_GC_Mc < 32"
  "gc_num UNICODE_GC_Me < 32" "gc_num UNICODE_GC_Nd < 32" "gc_num UNICODE_GC_Nl < 32" "gc_num UNICODE_GC_Sm < 32"
  "gc_num UNICODE_GC_Pc < 32" "gc_num UNICODE_GC_Zl < 32" "gc_num UNICODE_GC_Zp < 32" "gc_num UNICODE_GC_Cc < 32"
  "gc_num UNICODE_GC_Cf < 32" "gc_num UNICODE_GC_Cs < 32" "gc_num UNICODE_GC_Co < 32"
  by (simp_all add: enum_num_def unicode_gcs_def)

text \<open>The programs denote these sets.\<close>

lemmas set_defs = is_lowercase_def is_uppercase_def is_cased_def is_alphabetic_def is_grapheme_extend_def
  is_pattern_char_def id_start_base_def id_continue_base_def

lemma programs_denote:
  "list_all2 (\<lambda>(pid, ops) (pid', P). pid = pid' \<and> (\<forall>c. prog_sem ops [] c = P c)) prop_programs (take 14 derived_sets)"
  unfolding prop_programs_def derived_sets_def
  by (simp add: bit_or_iff bit_M gc_nums_small set_defs in_gc_simps del: gc_nums) blast

lemma prop_table_length: "length unicode_prop_table = 50"
  by (simp add: unicode_prop_table_def)

lemma map_of_related:
  assumes "list_all2 (\<lambda>(i, x) (j, y). i = j \<and> R x y) xs ys" "map_of xs i = Some x"
  shows "\<exists>y. map_of ys i = Some y \<and> R x y"
  using assms by (induction rule: list_all2_induct) (auto split: if_splits)

lemma program_denotes:
  assumes "prop_program pid = Some ops"
  shows "prog_sem ops [] c \<longleftrightarrow> prop_set pid c"
proof -
  obtain P where P: "map_of (take 14 derived_sets) pid = Some P" "\<forall>c. prog_sem ops [] c = P c"
    using map_of_related [OF programs_denote assms [unfolded prop_program_def]] by blast
  have "map_of derived_sets pid = Some P"
    using P(1) map_of_append [of "take 14 derived_sets" "drop 14 derived_sets"] by (simp add: map_add_Some_iff)
  then show ?thesis using P(2) by (simp add: prop_set_def)
qed

lemma prop_programs_typed: "list_all (\<lambda>(pid, ops). well_typed ops 0 \<and> prog_cost ops \<le> 100000) prop_programs"
  by (simp add: prop_programs_def enum_num_def unicode_prop_ids_def prop_table_length)

lemma prop_program_typed: "prop_program pid = Some ops \<Longrightarrow> well_typed ops 0 \<and> prog_cost ops \<le> 100000"
  using prop_programs_typed by (auto simp: prop_program_def list_all_iff dest!: map_of_SomeD)

lemma builds_range:
  assumes "cr_ok cr" "cr_len cr = 0" "b < 0xffffffff"
  shows "builds (Some (cr_add_interval cr 0 (b + 1))) (cr_realloc_func cr) 2 (\<lambda>c. c \<le> b)"
proof -
  have u: "unat (b + 1) = unat b + 1" using assms(3) unat_small_add [of b 1] by (simp add: word_less_nat_alt)
  have i: "ivs_ok 0 (unat (b + 1)) [(0, b + 1)]" by simp
  have m: "iv_mem [(0, b + 1)] c \<longleftrightarrow> c \<le> b" for c
    by (simp add: word_le_nat_alt word_less_nat_alt u less_Suc_eq_le)
  show ?thesis using builds_cong [OF builds_intervals [OF i assms(1,2)] m] by (simp add: add_intervals_one [symmetric] del: add_intervals.simps)
qed

text \<open>The numbers below 50 are tables; the 19 after them are derived properties.\<close>

definition derived_props :: "unicode_prop_id list" where
  "derived_props = [UNICODE_PROP_ASCII, UNICODE_PROP_Any, UNICODE_PROP_Changes_When_Uppercased,
     UNICODE_PROP_Changes_When_Lowercased, UNICODE_PROP_Changes_When_Casemapped] @ map fst prop_programs"

lemma derived_props_simp:
  "derived_props = [UNICODE_PROP_ASCII, UNICODE_PROP_Any, UNICODE_PROP_Changes_When_Uppercased,
     UNICODE_PROP_Changes_When_Lowercased, UNICODE_PROP_Changes_When_Casemapped,
     UNICODE_PROP_Assigned, UNICODE_PROP_Math, UNICODE_PROP_Lowercase, UNICODE_PROP_Uppercase,
     UNICODE_PROP_Cased, UNICODE_PROP_Alphabetic, UNICODE_PROP_Grapheme_Base, UNICODE_PROP_Grapheme_Extend,
     UNICODE_PROP_XID_Start, UNICODE_PROP_XID_Continue, UNICODE_PROP_Changes_When_Titlecased,
     UNICODE_PROP_Changes_When_Casefolded, UNICODE_PROP_Changes_When_NFKC_Casefolded,
     UNICODE_PROP_ID_Continue]"
  by (simp add: derived_props_def prop_programs_def)

lemma prop_ids_split:
  "list_all (\<lambda>pid. pid \<notin> set derived_props) (take 50 unicode_prop_ids)"
  "list_all (\<lambda>pid. pid \<in> set derived_props) (take 19 (drop 50 unicode_prop_ids))"
  "length unicode_prop_ids = 70" "distinct unicode_prop_ids"
  by (simp_all add: derived_props_simp unicode_prop_ids_def)

lemma enum_num_nth: "distinct es \<Longrightarrow> i < length es \<Longrightarrow> enum_num es (es ! i) = i"
proof (induction es arbitrary: i)
  case (Cons e es)
  then show ?case by (cases i) (auto simp: enum_num_def)
qed simp

lemma unicode_prop_derived:
  assumes "pid \<in> set derived_props" "cr_ok cr" "cr_len cr = 0"
    and "unicode_find_name unicode_prop_name_table name = Some i" "0 \<le> i" "unicode_prop_ids ! (nat i + 16) = pid"
  shows "builds (unicode_prop cr name) (cr_realloc_func cr) 100000 (prop_set pid)"
proof -
  have n: "prop_num UNICODE_PROP_ASCII_Hex_Digit = 16" by (simp add: enum_num_def unicode_prop_ids_def)
  have p: "pid \<in> {UNICODE_PROP_ASCII, UNICODE_PROP_Any, UNICODE_PROP_Changes_When_Uppercased,
      UNICODE_PROP_Changes_When_Lowercased, UNICODE_PROP_Changes_When_Casemapped} \<or> (\<exists>ops. prop_program pid = Some ops)"
    using assms(1) by (auto simp: derived_props_def prop_program_def intro: weak_map_of_SomeI)
  have C: "builds (Some (unicode_case1 cr m)) (cr_realloc_func cr) 100000 (case_changed m)" for m
    using builds_mono [OF unicode_case1_builds [OF assms(2,3)]] by simp
  have R: "builds (Some (cr_add_interval cr 0 (b + 1))) (cr_realloc_func cr) 100000 (\<lambda>c. c \<le> b)" if "b < 0xffffffff" for b
    using builds_mono [OF builds_range [OF assms(2,3) that]] by simp
  have P: "builds (unicode_prop_ops cr ops) (cr_realloc_func cr) 100000 (prop_set pid)" if "prop_program pid = Some ops" for ops
    using prop_run_sound [OF assms(2,3) refl, of ops "[]" "[]" 100000 "mem_opaque cr"] prop_program_typed [OF that]
      builds_cong [OF _ program_denotes [OF that]]
    by (simp add: unicode_prop_ops_def stack_rel_simps)
  have D: "prop_set UNICODE_PROP_ASCII = (\<lambda>c. c \<le> 0x7f)" "prop_set UNICODE_PROP_Any = (\<lambda>c. c \<le> 0x10ffff)"
    "prop_set UNICODE_PROP_Changes_When_Uppercased = case_changed CASE_U"
    "prop_set UNICODE_PROP_Changes_When_Lowercased = case_changed CASE_L"
    "prop_set UNICODE_PROP_Changes_When_Casemapped = case_changed (CASE_U OR CASE_L OR CASE_F)"
    by (simp_all add: prop_set_def derived_sets_def)
  show ?thesis
    using p assms(4-6) C R [of "0x7f"] R [of "0x10ffff"] P
    by (auto simp: unicode_prop_def Let_def n D)
qed

lemma unicode_prop_table:
  assumes "cr_ok cr" "cr_len cr = 0" "unicode_find_name unicode_prop_name_table name = Some i" "0 \<le> i" "nat i + 16 < 50"
  shows "builds (unicode_prop cr name) (cr_realloc_func cr) 100000 (prop_set (unicode_prop_ids ! (nat i + 16)))"
proof -
  let ?pid = "unicode_prop_ids ! (nat i + 16)"
  have n: "prop_num UNICODE_PROP_ASCII_Hex_Digit = 16" by (simp add: enum_num_def unicode_prop_ids_def)
  have num: "prop_num ?pid = nat i + 16" using enum_num_nth [OF prop_ids_split(4)] prop_ids_split(3) assms(5) by simp
  have "?pid \<in> set (take 50 unicode_prop_ids)" using assms(5) prop_ids_split(3) by (auto simp: in_set_conv_nth intro!: exI [of _ "nat i + 16"])
  then have d: "?pid \<notin> set derived_props" using prop_ids_split(1) by (auto simp: list_all_iff)
  then have np: "prop_program ?pid = None" by (auto simp: derived_props_def prop_program_def map_of_eq_None_iff)
  have "builds (unicode_prop1 cr (nat i + 16)) (cr_realloc_func cr) 100000 (has_prop (nat i + 16))"
    using builds_mono [OF unicode_prop1_builds [OF _ assms(1,2)], of "nat i + 16" 100000] assms(5) by (simp add: prop_table_length)
  moreover have "map_of derived_sets ?pid = None"
    using d by (auto simp: map_of_eq_None_iff derived_props_simp derived_sets_def)
  ultimately show ?thesis
    using d np num assms(3-5) by (auto simp: unicode_prop_def Let_def n prop_set_def derived_props_def prop_table_length)
qed

section \<open>Properties\<close>

text \<open>
  Property C34. A program that respects the depth discipline never violates an assertion of the stack
  machine and never leaves its stack of four ranges: it ends with the set its operations denote, or
  with -1 when the allocator refuses a request.
\<close>

theorem prop_ops_type_sound:
  assumes "well_typed ops 0" "cr_ok cr" "cr_len cr = 0"
  shows "case unicode_prop_ops cr ops of
      None \<Rightarrow> False
    | Some (cr', r) \<Rightarrow> r = 0 \<and> denotes cr' (prog_sem ops []) \<or>
        r = -1 \<and> refused (cr_realloc_func cr) (2 * prog_cost ops)"
  using prop_run_sound [OF assms(2,3) refl, of ops "[]" "[]" "prog_cost ops" "mem_opaque cr"] assms(1)
  by (auto simp: unicode_prop_ops_def stack_rel_simps builds_def)

theorem prop_ops_type_sound_witness:
  "case unicode_prop_ops (cr_init (\<lambda>_ _. True) 0 0 None) [POP_GC 2, POP_PROP 4, POP_UNION, POP_END] of
      None \<Rightarrow> False
    | Some (cr', r) \<Rightarrow> r = 0 \<and> denotes cr' (\<lambda>c. bit (2 :: u32) (general_category c) \<or> has_prop 4 c)"
proof -
  let ?ops = "[POP_GC 2, POP_PROP 4, POP_UNION, POP_END]"
  have "well_typed ?ops 0" by (simp add: prop_table_length)
  moreover have "\<not> refused (cr_realloc_func (cr_init (\<lambda>_ _. True) 0 0 None)) (2 * prog_cost ?ops)"
    by (simp add: cr_init_def cr_default_realloc_def [abs_def] libc_realloc_refused)
  moreover have "prog_sem ?ops [] = (\<lambda>c. bit (2 :: u32) (general_category c) \<or> has_prop 4 c)" by auto
  ultimately show ?thesis
    using prop_ops_type_sound [of ?ops "cr_init (\<lambda>_ _. True) 0 0 None"] by (auto split: option.splits)
qed

text \<open>
  Property C35. \<^verbatim>\<open>unicode_prop\<close> is total: for every name it returns -2 exactly when no entry has that name, and
  otherwise builds the set of the property with that name (\<open>prop_set\<close>: categories, property tables and case
  conversions combined after the Unicode standard), failing with -1 only when the allocator refuses a request.
\<close>

theorem unicode_prop_set:
  assumes "cr_ok cr" "cr_len cr = 0"
  shows "\<exists>i cr' r. unicode_find_name unicode_prop_name_table name = Some i \<and> unicode_prop cr name = Some (cr', r) \<and>
    (if i < 0 then cr' = cr \<and> r = -2
     else r = 0 \<and> denotes cr' (prop_set (unicode_prop_ids ! (nat i + 16))) \<or>
          r = -1 \<and> refused (cr_realloc_func cr) 200000)"
proof -
  obtain i where i: "unicode_find_name unicode_prop_name_table name = Some i" "i = -1 \<or> 0 \<le> i \<and> i < 53"
    using name_tables(3) [of name] by auto
  show ?thesis
  proof (cases "i < 0")
    case True
    then show ?thesis using i by (simp add: unicode_prop_def)
  next
    case False
    have "unicode_prop_ids ! (nat i + 16) \<in> set derived_props" if "50 \<le> nat i + 16"
    proof -
      have "take 19 (drop 50 unicode_prop_ids) ! (nat i - 34) = unicode_prop_ids ! (nat i + 16)"
        using that i(2) False prop_ids_split(3) by (simp add: add.commute)
      moreover have "nat i - 34 < 19" using i(2) False by auto
      ultimately show ?thesis using prop_ids_split(2,3) by (auto simp: list_all_length)
    qed
    then have "builds (unicode_prop cr name) (cr_realloc_func cr) 100000 (prop_set (unicode_prop_ids ! (nat i + 16)))"
      using unicode_prop_derived [OF _ assms i(1) _ refl] unicode_prop_table [OF assms i(1)] False by (cases "nat i + 16 < 50") auto
    then show ?thesis using i(1) False by (auto simp: builds_def)
  qed
qed

theorem unicode_prop_set_witness:
  "\<exists>cr'. unicode_prop (cr_init (\<lambda>_ _. True) 0 0 None) (map of_char ''Math'') = Some (cr', 0) \<and>
    denotes cr' (\<lambda>c. general_category c = 12 \<or> has_prop 1 c)"
proof -
  let ?cr = "cr_init (\<lambda>_ _. True) 0 0 None"
  have "unicode_find_name unicode_prop_name_table (map of_char ''Math'') = Some 49"
    unfolding unicode_prop_name_table_def
    by (subst find_name_entries) (simp_all add: names_ok_def aliases.simps)
  moreover have "\<not> refused (cr_realloc_func ?cr) 200000"
    by (simp add: cr_init_def cr_default_realloc_def [abs_def] libc_realloc_refused)
  moreover have "unicode_prop_ids ! (nat 49 + 16) = UNICODE_PROP_Math" by (simp add: unicode_prop_ids_def)
  moreover have "prop_set UNICODE_PROP_Math = (\<lambda>c. general_category c = 12 \<or> has_prop 1 c)"
    by (simp add: prop_set_def derived_sets_def in_gc_def enum_num_def unicode_gcs_def unicode_prop_ids_def eval_nat_numeral)
  ultimately show ?thesis
    using unicode_prop_set [of ?cr "map of_char ''Math''"] by auto
qed

end
