(* ===== verification/RegexpChars.thy ===== *)
theory RegexpChars
  imports CUtils UnicodeCase "HOL-Library.Monad_Syntax"
begin

text \<open>
  The vocabulary of the regular expression engine (\<^verbatim>\<open>libregexp.c\<close>): the opcodes of its byte code
  (\<^verbatim>\<open>libregexp-opcode.h\<close>), guarded reads of byte code and subject, and the macros that move a character
  pointer through the subject. The subject is a block of bytes; a character pointer is a byte offset into
  it; with 16-bit characters the pointer moves by two bytes, and by four over a surrogate pair when
  \<^verbatim>\<open>cbuf_type\<close> is 2. A read outside the block is \<open>None\<close>, and so is a step below its start.
\<close>

section \<open>Opcodes\<close>

datatype (plugins only: size code) reop =
    REOP_invalid | REOP_char | REOP_char32 | REOP_dot | REOP_any | REOP_line_start | REOP_line_end
  | REOP_goto | REOP_split_goto_first | REOP_split_next_first | REOP_match | REOP_save_start
  | REOP_save_end | REOP_save_reset | REOP_loop | REOP_push_i32 | REOP_drop | REOP_word_boundary
  | REOP_not_word_boundary | REOP_back_reference | REOP_backward_back_reference | REOP_range
  | REOP_range32 | REOP_lookahead | REOP_negative_lookahead | REOP_push_char_pos | REOP_bne_char_pos
  | REOP_prev | REOP_simple_greedy_quant

definition reops :: "reop list" where
  "reops =
    [REOP_invalid, REOP_char, REOP_char32, REOP_dot, REOP_any, REOP_line_start, REOP_line_end,
     REOP_goto, REOP_split_goto_first, REOP_split_next_first, REOP_match, REOP_save_start,
     REOP_save_end, REOP_save_reset, REOP_loop, REOP_push_i32, REOP_drop, REOP_word_boundary,
     REOP_not_word_boundary, REOP_back_reference, REOP_backward_back_reference, REOP_range,
     REOP_range32, REOP_lookahead, REOP_negative_lookahead, REOP_push_char_pos, REOP_bne_char_pos,
     REOP_prev, REOP_simple_greedy_quant]"

definition REOP_COUNT :: nat where
  "REOP_COUNT = length reops"

text \<open>The size column of the opcode list; the two range opcodes are followed by their table.\<close>

fun reop_size :: "reop \<Rightarrow> nat" where
  "reop_size REOP_invalid = 1"
| "reop_size REOP_char = 3"
| "reop_size REOP_char32 = 5"
| "reop_size REOP_dot = 1"
| "reop_size REOP_any = 1"
| "reop_size REOP_line_start = 1"
| "reop_size REOP_line_end = 1"
| "reop_size REOP_goto = 5"
| "reop_size REOP_split_goto_first = 5"
| "reop_size REOP_split_next_first = 5"
| "reop_size REOP_match = 1"
| "reop_size REOP_save_start = 2"
| "reop_size REOP_save_end = 2"
| "reop_size REOP_save_reset = 3"
| "reop_size REOP_loop = 5"
| "reop_size REOP_push_i32 = 5"
| "reop_size REOP_drop = 1"
| "reop_size REOP_word_boundary = 1"
| "reop_size REOP_not_word_boundary = 1"
| "reop_size REOP_back_reference = 2"
| "reop_size REOP_backward_back_reference = 2"
| "reop_size REOP_range = 3"
| "reop_size REOP_range32 = 3"
| "reop_size REOP_lookahead = 5"
| "reop_size REOP_negative_lookahead = 5"
| "reop_size REOP_push_char_pos = 1"
| "reop_size REOP_bne_char_pos = 5"
| "reop_size REOP_prev = 1"
| "reop_size REOP_simple_greedy_quant = 17"

definition reop_of_byte :: "u8 \<Rightarrow> reop option" where
  "reop_of_byte b = (if unat b < REOP_COUNT then Some (reops ! unat b) else None)"

text \<open>The position of an opcode in the enumeration, as the compiler emits it.\<close>

fun reop_index :: "reop list \<Rightarrow> reop \<Rightarrow> nat" where
  "reop_index [] op = 0"
| "reop_index (x # xs) op = (if x = op then 0 else Suc (reop_index xs op))"

definition reop_code :: "reop \<Rightarrow> u8" where
  "reop_code op = of_nat (reop_index reops op)"

section \<open>Guarded reads\<close>

definition rd8 :: "bytes \<Rightarrow> nat \<Rightarrow> u32 option" where
  "rd8 b i = (if i + 1 \<le> length b then Some (get_u8 b i) else None)"

definition rd16 :: "bytes \<Rightarrow> nat \<Rightarrow> u32 option" where
  "rd16 b i = (if i + 2 \<le> length b then Some (get_u16 b i) else None)"

definition rd32 :: "bytes \<Rightarrow> nat \<Rightarrow> u32 option" where
  "rd32 b i = (if i + 4 \<le> length b then Some (get_u32 b i) else None)"

section \<open>Characters\<close>

definition is_line_terminator :: "u32 \<Rightarrow> bool" where
  "is_line_terminator c \<longleftrightarrow> c = 0x0a \<or> c = 0x0d \<or> c = 0x2028 \<or> c = 0x2029"

definition is_word_char :: "u32 \<Rightarrow> bool" where
  "is_word_char c \<longleftrightarrow> (0x30 \<le> c \<and> c \<le> 0x39) \<or> (0x61 \<le> c \<and> c \<le> 0x7a) \<or> (0x41 \<le> c \<and> c \<le> 0x5a) \<or> c = 0x5f"

definition lre_canonicalize :: "u32 \<Rightarrow> bool \<Rightarrow> u32 option" where
  "lre_canonicalize c is_utf16 =
     (if is_utf16 then
        if c < 128 then Some (if 0x41 \<le> c \<and> c \<le> 0x5a then c - 0x41 + 0x61 else c)
        else do { res \<leftarrow> lre_case_conv c 2; Some (res ! 0) }
      else
        if c < 128 then Some (if 0x61 \<le> c \<and> c \<le> 0x7a then c - 0x61 + 0x41 else c)
        else do { res \<leftarrow> lre_case_conv c 0;
                  Some (if length res = 1 \<and> res ! 0 \<ge> 128 then res ! 0 else c) })"

definition is_hi_surrogate :: "u32 \<Rightarrow> bool" where
  "is_hi_surrogate c \<longleftrightarrow> 0xd800 \<le> c \<and> c < 0xdc00"

definition is_lo_surrogate :: "u32 \<Rightarrow> bool" where
  "is_lo_surrogate c \<longleftrightarrow> 0xdc00 \<le> c \<and> c < 0xe000"

definition from_surrogate :: "u32 \<Rightarrow> u32 \<Rightarrow> u32" where
  "from_surrogate hi lo = (push_bit 10 (hi AND 0x3ff) OR (lo AND 0x3ff)) + 0x10000"

section \<open>Moving a character pointer\<close>

definition GET_CHAR :: "nat \<Rightarrow> bytes \<Rightarrow> nat \<Rightarrow> nat \<Rightarrow> (u32 \<times> nat) option" where
  "GET_CHAR cbuf_type cbuf cptr cbuf_end =
     (if cbuf_type = 0 then do { c \<leftarrow> rd8 cbuf cptr; Some (c, cptr + 1) }
      else do {
        c \<leftarrow> rd16 cbuf cptr;
        let cptr = cptr + 2;
        if is_hi_surrogate c \<and> cbuf_type = 2 \<and> cptr < cbuf_end then do {
          c1 \<leftarrow> rd16 cbuf cptr;
          Some (if is_lo_surrogate c1 then (from_surrogate c c1, cptr + 2) else (c, cptr))
        } else Some (c, cptr) })"

definition PEEK_CHAR :: "nat \<Rightarrow> bytes \<Rightarrow> nat \<Rightarrow> nat \<Rightarrow> u32 option" where
  "PEEK_CHAR cbuf_type cbuf cptr cbuf_end =
     (if cbuf_type = 0 then rd8 cbuf cptr
      else do {
        c \<leftarrow> rd16 cbuf cptr;
        if is_hi_surrogate c \<and> cbuf_type = 2 \<and> cptr + 2 < cbuf_end then do {
          c1 \<leftarrow> rd16 cbuf (cptr + 2);
          Some (if is_lo_surrogate c1 then from_surrogate c c1 else c)
        } else Some c })"

text \<open>A pointer that would leave the block at its start is not defined.\<close>

definition step_back :: "nat \<Rightarrow> nat \<Rightarrow> nat option" where
  "step_back n cptr = (if n \<le> cptr then Some (cptr - n) else None)"

definition PEEK_PREV_CHAR :: "nat \<Rightarrow> bytes \<Rightarrow> nat \<Rightarrow> nat \<Rightarrow> u32 option" where
  "PEEK_PREV_CHAR cbuf_type cbuf cptr cbuf_start =
     (if cbuf_type = 0 then do { p \<leftarrow> step_back 1 cptr; rd8 cbuf p }
      else do {
        p \<leftarrow> step_back 2 cptr;
        c \<leftarrow> rd16 cbuf p;
        if is_lo_surrogate c \<and> cbuf_type = 2 \<and> cptr \<ge> cbuf_start + 4 then do {
          p1 \<leftarrow> step_back 2 p;
          c1 \<leftarrow> rd16 cbuf p1;
          Some (if is_hi_surrogate c1 then from_surrogate c1 c else c)
        } else Some c })"

definition GET_PREV_CHAR :: "nat \<Rightarrow> bytes \<Rightarrow> nat \<Rightarrow> nat \<Rightarrow> (u32 \<times> nat) option" where
  "GET_PREV_CHAR cbuf_type cbuf cptr cbuf_start =
     (if cbuf_type = 0 then do { p \<leftarrow> step_back 1 cptr; c \<leftarrow> rd8 cbuf p; Some (c, p) }
      else do {
        p \<leftarrow> step_back 2 cptr;
        c \<leftarrow> rd16 cbuf p;
        if is_lo_surrogate c \<and> cbuf_type = 2 \<and> p > cbuf_start then do {
          p1 \<leftarrow> step_back 2 p;
          c1 \<leftarrow> rd16 cbuf p1;
          Some (if is_hi_surrogate c1 then (from_surrogate c1 c, p1) else (c, p))
        } else Some (c, p) })"

definition PREV_CHAR :: "nat \<Rightarrow> bytes \<Rightarrow> nat \<Rightarrow> nat \<Rightarrow> nat option" where
  "PREV_CHAR cbuf_type cbuf cptr cbuf_start =
     (if cbuf_type = 0 then step_back 1 cptr
      else do {
        p \<leftarrow> step_back 2 cptr;
        if cbuf_type = 2 then do {
          c \<leftarrow> rd16 cbuf p;
          if is_lo_surrogate c \<and> p > cbuf_start then do {
            p1 \<leftarrow> step_back 2 p;
            c1 \<leftarrow> rd16 cbuf p1;
            Some (if is_hi_surrogate c1 then p1 else p)
          } else Some p
        } else Some p })"

section \<open>Facts\<close>

lemma reop_of_code [simp]: "reop_of_byte (reop_code op) = Some op"
  by (cases op) (simp_all add: reop_of_byte_def REOP_COUNT_def reop_code_def reops_def)

lemma reop_size_pos [simp]: "0 < reop_size op"
  by (cases op) simp_all

lemma lre_canonicalize_defined: "\<exists>c'. lre_canonicalize c u = Some c'"
  using lre_case_conv_defined [of c 2] lre_case_conv_defined [of c 0]
  by (auto simp: lre_canonicalize_def)

text \<open>
  A position is well placed when it is inside the subject and, with 16-bit characters, on a character
  boundary. The subject's end is such a position.
\<close>

definition at_char :: "nat \<Rightarrow> nat \<Rightarrow> nat \<Rightarrow> bool" where
  "at_char cbuf_type cbuf_end p \<longleftrightarrow> p \<le> cbuf_end \<and> (cbuf_type \<noteq> 0 \<longrightarrow> even p)"

definition unit_size :: "nat \<Rightarrow> nat" where
  "unit_size cbuf_type = (if cbuf_type = 0 then 1 else 2)"

lemma unit_room:
  assumes "at_char t e p" "at_char t e e" "p < e"
  shows "p + unit_size t \<le> e"
  using assms by (auto simp: at_char_def unit_size_def) presburger

lemma even_room: "even p \<Longrightarrow> even (e :: nat) \<Longrightarrow> p < e \<Longrightarrow> p + 2 \<le> e"
  by presburger

lemma GET_CHAR_ok:
  assumes "at_char t e p" "at_char t e e" "p < e" "e \<le> length b"
  shows "\<exists>c p'. GET_CHAR t b p e = Some (c, p') \<and> p < p' \<and> at_char t e p'"
proof (cases "t = 0")
  case True
  then show ?thesis using assms by (simp add: GET_CHAR_def rd8_def at_char_def)
next
  case False
  then have ev: "even p" "even e" using assms by (auto simp: at_char_def)
  have r: "p + 2 \<le> e" using even_room [OF ev assms(3)] .
  have r2: "p + 4 \<le> e" if "p + 2 < e" using even_room [of "p + 2" e] ev that by simp
  have u: "rd16 b p = Some (get_u16 b p)" "p + 2 < e \<Longrightarrow> rd16 b (p + 2) = Some (get_u16 b (p + 2))"
    using r r2 assms(4) by (auto simp: rd16_def)
  show ?thesis using False ev r r2 u
    by (cases "is_hi_surrogate (get_u16 b p) \<and> t = 2 \<and> p + 2 < e"; cases "is_lo_surrogate (get_u16 b (p + 2))")
      (auto simp: GET_CHAR_def at_char_def Let_def)
qed

lemma PEEK_CHAR_GET_CHAR: "PEEK_CHAR t b p e = map_option fst (GET_CHAR t b p e)"
  by (auto simp: PEEK_CHAR_def GET_CHAR_def Let_def numeral_2_eq_2 split: Option.bind_splits)

lemma GET_PREV_CHAR_ok:
  assumes "at_char t e p" "at_char t e lo" "lo < p" "e \<le> length b"
  shows "\<exists>c p'. GET_PREV_CHAR t b p lo = Some (c, p') \<and> p' < p \<and> lo \<le> p' \<and> at_char t e p'"
proof (cases "t = 0")
  case True
  then show ?thesis using assms by (auto simp: GET_PREV_CHAR_def rd8_def at_char_def step_back_def)
next
  case False
  then have ev: "even p" "even lo" "p \<le> e" using assms by (auto simp: at_char_def)
  have r: "lo + 2 \<le> p" using even_room [OF ev(2,1) assms(3)] .
  have r2: "lo + 4 \<le> p" if "lo < p - 2" using ev that by presburger
  have u: "rd16 b (p - 2) = Some (get_u16 b (p - 2))"
    "lo < p - 2 \<Longrightarrow> rd16 b (p - 2 - 2) = Some (get_u16 b (p - 2 - 2))"
    using r r2 assms(4) ev by (auto simp: rd16_def)
  show ?thesis using False ev r r2 u
    by (cases "is_lo_surrogate (get_u16 b (p - 2)) \<and> t = 2 \<and> lo < p - 2";
        cases "is_hi_surrogate (get_u16 b (p - 2 - 2))")
      (auto simp: GET_PREV_CHAR_def at_char_def step_back_def)
qed

lemma PREV_CHAR_GET_PREV_CHAR:
  assumes "cptr \<le> length b"
  shows "PREV_CHAR t b cptr lo = map_option snd (GET_PREV_CHAR t b cptr lo)"
  using assms
  by (auto simp: PREV_CHAR_def GET_PREV_CHAR_def step_back_def rd8_def rd16_def split: Option.bind_splits)

lemma PEEK_PREV_CHAR_GET_PREV_CHAR:
  "PEEK_PREV_CHAR t b (cptr :: nat) lo = map_option fst (GET_PREV_CHAR t b cptr lo)" if "t \<noteq> 0 \<Longrightarrow> even cptr \<and> even lo"
proof (cases "t = 0")
  case True
  then show ?thesis by (auto simp: PEEK_PREV_CHAR_def GET_PREV_CHAR_def split: Option.bind_splits)
next
  case False
  with that have "cptr \<ge> lo + 4 \<longleftrightarrow> cptr - 2 > lo" by presburger
  with False show ?thesis
    by (auto simp: PEEK_PREV_CHAR_def GET_PREV_CHAR_def step_back_def split: Option.bind_splits)
qed

end
