(* ===== verification/RegexpEmit.thy ===== *)
theory RegexpEmit
  imports RegexpChars DynBuf CharRange
begin

text \<open>
  The code generator of the regular expression compiler (\<^verbatim>\<open>libregexp.c\<close>): the parser's state, the
  functions that append, insert and patch byte code, the class tables, the emission of character ranges and the
  three linear scans over emitted code. The byte code and the group names are dynamic buffers, so every append can
  fail and sets the buffer's sticky error. The scans and the direct writes into the buffer are \<open>None\<close>
  when they leave the block or an assertion fails.
\<close>

section \<open>State\<close>

abbreviation (input) CAPTURE_COUNT_MAX :: nat where "CAPTURE_COUNT_MAX \<equiv> 255"
abbreviation (input) STACK_SIZE_MAX :: nat where "STACK_SIZE_MAX \<equiv> 255"
abbreviation (input) TMP_BUF_SIZE :: nat where "TMP_BUF_SIZE \<equiv> 128"

text \<open>
  \<open>re_src\<close> is the pattern between \<^verbatim>\<open>buf_start\<close> and \<^verbatim>\<open>buf_end\<close>; pointers into it are offsets.
  \<open>re_u\<close> is the union of the error message and the temporary name, as a C string. The host's part is
  \<open>re_cr_realloc\<close>, which serves the character ranges (\<open>re_clock\<close> counts its requests), and
  \<open>re_overflow\<close>, the answers of \<^verbatim>\<open>lre_check_stack_overflow\<close> by number of the call.
\<close>

record re_parse_state =
  byte_code :: dynbuf
  re_src :: bytes
  buf_ptr :: nat
  re_is_utf16 :: bool
  re_ignore_case :: bool
  re_dotall :: bool
  re_capture_count :: nat
  re_total_capture_count :: int
  re_has_named_captures :: int
  re_group_names :: dynbuf
  re_u :: bytes
  re_cr_realloc :: "u32 realloc_fun"
  re_clock :: nat
  re_overflow :: "nat \<Rightarrow> bool"
  re_checks :: nat

section \<open>Appending, inserting, patching\<close>

text \<open>\<^verbatim>\<open>re_parse_error\<close> formats into the union and returns -1; all its messages are shorter than the buffer.\<close>

definition message :: "string \<Rightarrow> bytes" where
  "message txt = take (TMP_BUF_SIZE - 1) (map of_char txt)"

definition re_parse_error :: "re_parse_state \<Rightarrow> string \<Rightarrow> re_parse_state \<times> int" where
  "re_parse_error s txt = (s\<lparr>re_u := message txt\<rparr>, -1)"

definition re_parse_out_of_memory :: "re_parse_state \<Rightarrow> re_parse_state \<times> int" where
  "re_parse_out_of_memory s = re_parse_error s ''out of memory''"

definition dbuf_insert :: "dynbuf \<Rightarrow> nat \<Rightarrow> nat \<Rightarrow> dynbuf \<times> int" where
  "dbuf_insert s pos len =
     (case dbuf_realloc s (dbuf_size s + len) of
        (s, r) \<Rightarrow>
          if r \<noteq> 0 then (s, -1)
          else (s\<lparr>buf := blit (buf s) (pos + len) (take (dbuf_size s - pos) (drop pos (buf s))),
                  dbuf_size := dbuf_size s + len\<rparr>, 0))"

text \<open>Assignments to \<^verbatim>\<open>byte_code.buf[pos]\<close> and \<^verbatim>\<open>put_u32(byte_code.buf + pos, val)\<close>.\<close>

definition poke :: "re_parse_state \<Rightarrow> nat \<Rightarrow> u8 \<Rightarrow> re_parse_state option" where
  "poke s pos v =
     (if pos < length (buf (byte_code s))
      then Some (s\<lparr>byte_code := byte_code s\<lparr>buf := (buf (byte_code s))[pos := v]\<rparr>\<rparr>) else None)"

definition poke_u32 :: "re_parse_state \<Rightarrow> nat \<Rightarrow> u32 \<Rightarrow> re_parse_state option" where
  "poke_u32 s pos v =
     (if pos + 4 \<le> length (buf (byte_code s))
      then Some (s\<lparr>byte_code := byte_code s\<lparr>buf := put_u32 (buf (byte_code s)) pos v\<rparr>\<rparr>) else None)"

definition re_emit_op :: "re_parse_state \<Rightarrow> reop \<Rightarrow> re_parse_state" where
  "re_emit_op s opc = s\<lparr>byte_code := fst (dbuf_putc (byte_code s) (reop_code opc))\<rparr>"

text \<open>The result is the position of the operand.\<close>

definition re_emit_op_u32 :: "re_parse_state \<Rightarrow> reop \<Rightarrow> u32 \<Rightarrow> re_parse_state \<times> nat" where
  "re_emit_op_u32 s opc val =
     (let s = re_emit_op s opc; pos = dbuf_size (byte_code s)
      in (s\<lparr>byte_code := fst (dbuf_put_u32 (byte_code s) val)\<rparr>, pos))"

definition re_emit_goto :: "re_parse_state \<Rightarrow> reop \<Rightarrow> u32 \<Rightarrow> re_parse_state \<times> nat" where
  "re_emit_goto s opc val =
     (let s = re_emit_op s opc; pos = dbuf_size (byte_code s)
      in (s\<lparr>byte_code := fst (dbuf_put_u32 (byte_code s) (val - of_nat (pos + 4)))\<rparr>, pos))"

definition re_emit_op_u8 :: "re_parse_state \<Rightarrow> reop \<Rightarrow> u32 \<Rightarrow> re_parse_state" where
  "re_emit_op_u8 s opc val =
     (let s = re_emit_op s opc in s\<lparr>byte_code := fst (dbuf_putc (byte_code s) (ucast val))\<rparr>)"

definition re_emit_op_u16 :: "re_parse_state \<Rightarrow> reop \<Rightarrow> u32 \<Rightarrow> re_parse_state" where
  "re_emit_op_u16 s opc val =
     (let s = re_emit_op s opc in s\<lparr>byte_code := fst (dbuf_put_u16 (byte_code s) (ucast val))\<rparr>)"

section \<open>Character classes\<close>

definition char_range_d :: "u32 list" where
  "char_range_d = [1, 0x0030, 0x0039 + 1]"

definition char_range_s :: "u32 list" where
  "char_range_s =
    [10, 0x0009, 0x000D + 1, 0x0020, 0x0020 + 1, 0x00A0, 0x00A0 + 1, 0x1680, 0x1680 + 1, 0x2000, 0x200A + 1,
     0x2028, 0x2029 + 1, 0x202F, 0x202F + 1, 0x205F, 0x205F + 1, 0x3000, 0x3000 + 1, 0xFEFF, 0xFEFF + 1]"

definition char_range_w :: "u32 list" where
  "char_range_w = [4, 0x0030, 0x0039 + 1, 0x0041, 0x005A + 1, 0x005F, 0x005F + 1, 0x0061, 0x007A + 1]"

datatype char_range_enum =
  CHAR_RANGE_d | CHAR_RANGE_D | CHAR_RANGE_s | CHAR_RANGE_S | CHAR_RANGE_w | CHAR_RANGE_W

text \<open>The table and the inversion flag that \<^verbatim>\<open>c >> 1\<close> and \<^verbatim>\<open>c & 1\<close> select.\<close>

fun char_range_table :: "char_range_enum \<Rightarrow> u32 list \<times> bool" where
  "char_range_table CHAR_RANGE_d = (char_range_d, False)"
| "char_range_table CHAR_RANGE_D = (char_range_d, True)"
| "char_range_table CHAR_RANGE_s = (char_range_s, False)"
| "char_range_table CHAR_RANGE_S = (char_range_s, True)"
| "char_range_table CHAR_RANGE_w = (char_range_w, False)"
| "char_range_table CHAR_RANGE_W = (char_range_w, True)"

fun lre_is_space_loop :: "int \<Rightarrow> u32 list \<Rightarrow> bool" where
  "lre_is_space_loop c (low # high # rest) =
     (if c < uint low then False else if c < uint high then True else lre_is_space_loop c rest)"
| "lre_is_space_loop c _ = False"

definition lre_is_space :: "int \<Rightarrow> bool" where
  "lre_is_space c = lre_is_space_loop c (tl char_range_s)"

text \<open>A range of the host's allocator, at the current request; releasing it takes the count back.\<close>

definition new_range :: "re_parse_state \<Rightarrow> char_range" where
  "new_range s = cr_init (\<lambda>_ _. True) 0 (re_clock s) (Some (re_cr_realloc s))"

definition release :: "re_parse_state \<Rightarrow> char_range \<Rightarrow> re_parse_state" where
  "release s cr = s\<lparr>re_clock := mem_opaque (cr_free cr)\<rparr>"

definition clock_to :: "re_parse_state \<Rightarrow> char_range \<Rightarrow> re_parse_state" where
  "clock_to s cr = s\<lparr>re_clock := mem_opaque cr\<rparr>"

fun cr_add_points :: "char_range \<Rightarrow> u32 list \<Rightarrow> char_range \<times> int" where
  "cr_add_points cr [] = (cr, 0)"
| "cr_add_points cr (x # xs) =
     (case cr_add_point cr x of (cr, r) \<Rightarrow> if r \<noteq> 0 then (cr, -1) else cr_add_points cr xs)"

definition cr_init_char_range :: "re_parse_state \<Rightarrow> char_range_enum \<Rightarrow> re_parse_state \<times> char_range option" where
  "cr_init_char_range s c =
     (case char_range_table c of
        (tab, invert) \<Rightarrow>
          let len = unat (hd tab) in
          case cr_add_points (new_range s) (take (len * 2) (tl tab)) of
            (cr, r) \<Rightarrow>
              if r \<noteq> 0 then (release s cr, None)
              else case (if invert then cr_invert cr else (cr, 0)) of
                (cr, r) \<Rightarrow> if r \<noteq> 0 then (release s cr, None) else (clock_to s cr, Some cr))"

text \<open>
  Upper-case copies of the ASCII letters in the range are added. The scratch range \<open>a\<close> uses the same
  allocator, one after the other.
\<close>

definition cr_canonicalize :: "char_range \<Rightarrow> char_range \<times> int" where
  "cr_canonicalize cr =
     (let a = cr_init (\<lambda>_ _. True) 0 (mem_opaque cr) (Some (cr_realloc_func cr));
          (a, ret) = cr_op a (take (cr_len cr) (points cr)) [0x61, 0x7a + 1] CR_OP_INTER
      in if ret \<noteq> 0 then (cr\<lparr>mem_opaque := mem_opaque (cr_free a)\<rparr>, ret)
         else let pts = map (\<lambda>p. p + (0x41 - 0x61)) (take (cr_len a) (points a));
                  (cr, ret) = cr_union1 (cr\<lparr>mem_opaque := mem_opaque a\<rparr>) pts
              in (cr\<lparr>mem_opaque := mem_opaque cr + 1\<rparr>, ret))"

section \<open>Ranges as byte code\<close>

fun emit_range16 :: "re_parse_state \<Rightarrow> u32 list \<Rightarrow> re_parse_state" where
  "emit_range16 s (p # q # rest) =
     (let s = s\<lparr>byte_code := fst (dbuf_put_u16 (byte_code s) (ucast p))\<rparr>;
          high = q - 1;
          high = (if high = 0xffffffff - 1 then 0xffff else high);
          s = s\<lparr>byte_code := fst (dbuf_put_u16 (byte_code s) (ucast high))\<rparr>
      in emit_range16 s rest)"
| "emit_range16 s _ = s"

fun emit_range32 :: "re_parse_state \<Rightarrow> u32 list \<Rightarrow> re_parse_state" where
  "emit_range32 s (p # q # rest) =
     (let s = s\<lparr>byte_code := fst (dbuf_put_u32 (byte_code s) p)\<rparr>;
          s = s\<lparr>byte_code := fst (dbuf_put_u32 (byte_code s) (q - 1))\<rparr>
      in emit_range32 s rest)"
| "emit_range32 s _ = s"

text \<open>The bounds are read in pairs from the array of the range, which has to hold all of them.\<close>

definition re_emit_range :: "re_parse_state \<Rightarrow> char_range \<Rightarrow> (re_parse_state \<times> int) option" where
  "re_emit_range s cr =
     (let len = cr_len cr div 2; pts = take (cr_len cr) (points cr) in
      if len \<ge> 65535 then Some (re_parse_error s ''too many ranges'')
      else if len = 0 then Some (fst (re_emit_op_u32 s REOP_char32 (-1)), 0)
      else if length (points cr) < cr_len cr \<or> odd (cr_len cr) then None
      else
        let high = pts ! (cr_len cr - 1);
            high = (if high = 0xffffffff then pts ! (cr_len cr - 2) else high)
        in if high \<le> 0xffff
           then Some (emit_range16 (re_emit_op_u16 s REOP_range (of_nat len)) pts, 0)
           else Some (emit_range32 (re_emit_op_u16 s REOP_range32 (of_nat len)) pts, 0))"

section \<open>Scans over emitted code\<close>

text \<open>The code scanned is \<open>bc\<close> from its start to \<open>n\<close>. \<open>insn_len\<close> is the size with the table of a range.\<close>

definition op_at :: "bytes \<Rightarrow> nat \<Rightarrow> reop option" where
  "op_at bc pos = (if pos < length bc then reop_of_byte (bc ! pos) else None)"

definition insn_len :: "bytes \<Rightarrow> nat \<Rightarrow> reop \<Rightarrow> nat option" where
  "insn_len bc pos opc =
     (if opc = REOP_range then do { val \<leftarrow> rd16 bc (pos + 1); Some (3 + unat val * 4) }
      else if opc = REOP_range32 then do { val \<leftarrow> rd16 bc (pos + 1); Some (3 + unat val * 8) }
      else Some (reop_size opc))"

lemma insn_len_pos: "insn_len bc pos opc = Some len \<Longrightarrow> 0 < len"
  by (auto simp: insn_len_def split: if_splits Option.bind_splits)

definition simple_chars :: "reop list" where
  "simple_chars = [REOP_range, REOP_range32, REOP_char, REOP_char32, REOP_dot, REOP_any]"

text \<open>
  \<^verbatim>\<open>re_check_advance\<close>: \<open>ret\<close> is -2 while nothing is known, \<open>bm\<close> the bitmap with bit 0 for
  captures made and bit 1 for captures referenced.
\<close>

definition bitmap_or :: "nat list \<Rightarrow> nat \<Rightarrow> nat \<Rightarrow> nat list option" where
  "bitmap_or bm i v = (if i < length bm then Some (bm[i := bm ! i OR v]) else None)"

function bitmap_range :: "nat list \<Rightarrow> nat \<Rightarrow> nat \<Rightarrow> nat list option" where
  "bitmap_range bm val lim =
     (if val < lim then do { bm \<leftarrow> bitmap_or bm val 1; bitmap_range bm (val + 1) lim } else Some bm)"
  by pat_completeness auto
termination by (relation "measure (\<lambda>(bm, val, lim). lim - val)") auto

declare bitmap_range.simps [simp del]

definition advance_step ::
  "bytes \<Rightarrow> nat \<Rightarrow> reop \<Rightarrow> int \<times> nat list \<times> bool \<Rightarrow> (int \<times> nat list \<times> bool) option" where
  "advance_step bc pos opc st =
     (case st of (ret, bm, has_ref) \<Rightarrow>
        if opc \<in> set simple_chars then Some (if ret = -2 then 1 else ret, bm, has_ref)
        else if opc \<in> {REOP_line_start, REOP_line_end, REOP_push_i32, REOP_push_char_pos, REOP_drop,
                      REOP_word_boundary, REOP_not_word_boundary, REOP_prev} then Some st
        else if opc \<in> {REOP_save_start, REOP_save_end} then do {
          val \<leftarrow> rd8 bc (pos + 1); bm \<leftarrow> bitmap_or bm (unat val) 1; Some (ret, bm, has_ref) }
        else if opc = REOP_save_reset then do {
          val \<leftarrow> rd8 bc (pos + 1); lim \<leftarrow> rd8 bc (pos + 2);
          bm \<leftarrow> bitmap_range bm (unat val) (unat lim); Some (ret, bm, has_ref) }
        else if opc \<in> {REOP_back_reference, REOP_backward_back_reference} then do {
          val \<leftarrow> rd8 bc (pos + 1); bm \<leftarrow> bitmap_or bm (unat val) 2; Some (ret, bm, True) }
        else Some (if ret = -2 then 0 else ret, bm, has_ref))"

function advance_loop ::
  "bytes \<Rightarrow> nat \<Rightarrow> nat \<Rightarrow> int \<times> nat list \<times> bool \<Rightarrow> (int \<times> nat list \<times> bool) option" where
  "advance_loop bc n pos st =
     (if pos < n then
        case op_at bc pos of None \<Rightarrow> None
        | Some opc \<Rightarrow>
            (case insn_len bc pos opc of None \<Rightarrow> None
             | Some len \<Rightarrow>
                 (case advance_step bc pos opc st of None \<Rightarrow> None
                  | Some st \<Rightarrow> advance_loop bc n (pos + len) st))
      else Some st)"
  by pat_completeness auto
termination by (relation "measure (\<lambda>(bc, n, pos, st). n - pos)") (auto dest: insn_len_pos)

declare advance_loop.simps [simp del]

definition re_check_advance :: "bytes \<Rightarrow> nat \<Rightarrow> int option" where
  "re_check_advance bc n = do {
     (ret, bm, has_ref) \<leftarrow> advance_loop bc n 0 (-2, replicate CAPTURE_COUNT_MAX 0, False);
     Some (if has_ref \<and> 3 \<in> set bm then -1 else if ret = -2 then 0 else ret) }"

text \<open>\<^verbatim>\<open>re_is_simple_quantifier\<close>\<close>

function simple_loop :: "bytes \<Rightarrow> nat \<Rightarrow> nat \<Rightarrow> int \<Rightarrow> int option" where
  "simple_loop bc n pos cnt =
     (if pos < n then
        case op_at bc pos of None \<Rightarrow> None
        | Some opc \<Rightarrow>
            (case insn_len bc pos opc of None \<Rightarrow> None
             | Some len \<Rightarrow>
                 if opc \<in> set simple_chars then simple_loop bc n (pos + len) (cnt + 1)
                 else if opc \<in> {REOP_line_start, REOP_line_end, REOP_word_boundary, REOP_not_word_boundary}
                 then simple_loop bc n (pos + len) cnt
                 else Some (-1))
      else Some cnt)"
  by pat_completeness auto
termination by (relation "measure (\<lambda>(bc, n, pos, cnt). n - pos)") (auto dest: insn_len_pos)

declare simple_loop.simps [simp del]

definition re_is_simple_quantifier :: "bytes \<Rightarrow> nat \<Rightarrow> int option" where
  "re_is_simple_quantifier bc n = simple_loop bc n 0 0"

text \<open>\<^verbatim>\<open>compute_stack_size\<close>; the caller passes the code after the header.\<close>

function stack_loop :: "bytes \<Rightarrow> nat \<Rightarrow> nat \<Rightarrow> nat \<Rightarrow> nat \<Rightarrow> int option" where
  "stack_loop bc n pos stack_size stack_max =
     (if pos < n then
        case op_at bc pos of None \<Rightarrow> None
        | Some opc \<Rightarrow>
            if pos + reop_size opc > n then None
            else (case insn_len bc pos opc of None \<Rightarrow> None
             | Some len \<Rightarrow>
                 if opc = REOP_push_i32 \<or> opc = REOP_push_char_pos then
                   if stack_size + 1 > stack_max \<and> stack_size + 1 > STACK_SIZE_MAX then Some (-1)
                   else stack_loop bc n (pos + len) (stack_size + 1) (max stack_max (stack_size + 1))
                 else if opc = REOP_drop \<or> opc = REOP_bne_char_pos then
                   if stack_size = 0 then None else stack_loop bc n (pos + len) (stack_size - 1) stack_max
                 else stack_loop bc n (pos + len) stack_size stack_max)
      else Some (int stack_max))"
  by pat_completeness auto
termination by (relation "measure (\<lambda>(bc, n, pos, a, b). n - pos)") (auto dest: insn_len_pos)

declare stack_loop.simps [simp del]

definition compute_stack_size :: "bytes \<Rightarrow> nat \<Rightarrow> int option" where
  "compute_stack_size bc n = stack_loop (drop 7 bc) (n - 7) 0 0 0"

end
