(* ===== verification/RegexpLex.thy ===== *)
theory RegexpLex
  imports RegexpEmit UTF8 UnicodeIndex UnicodeProp
begin

text \<open>
  The lexical level of the regular expression compiler: numbers, escape sequences, Unicode properties, class atoms,
  character classes and group names. Every function takes an offset into the pattern. A read behind the
  terminating NUL is \<open>None\<close>; otherwise the result is the state with \<open>None\<close> for the C result -1, or with the
  value and the offset after what was read.
\<close>

section \<open>Characters of the pattern\<close>

definition asc :: "char \<Rightarrow> u32" where
  "asc c = of_char c"

definition str :: "string \<Rightarrow> bytes" where
  "str s = map of_char s"

definition src_at :: "bytes \<Rightarrow> nat \<Rightarrow> u32 option" where
  "src_at src p = (if p \<le> length src then Some (ucast (c_at src p)) else None)"

definition is_digit :: "u32 \<Rightarrow> bool" where
  "is_digit c \<longleftrightarrow> asc CHR ''0'' \<le> c \<and> c \<le> asc CHR ''9''"

lemma src_at_bound: "src_at src p = Some c \<Longrightarrow> p \<le> length src"
  by (auto simp: src_at_def split: if_splits)

section \<open>Numbers\<close>

text \<open>The value is clamped to \<^verbatim>\<open>INT32_MAX\<close>, or is -1 when it does not fit and overflow is not allowed.\<close>

function parse_digits_loop :: "bytes \<Rightarrow> nat \<Rightarrow> nat \<Rightarrow> bool \<Rightarrow> (int \<times> nat) option" where
  "parse_digits_loop src p v allow_overflow =
     (case src_at src p of None \<Rightarrow> None
      | Some c \<Rightarrow>
          if \<not> is_digit c then Some (int v, p)
          else let v = v * 10 + unat c - 48 in
            if v \<ge> INT32_MAX then
              if allow_overflow then parse_digits_loop src (p + 1) INT32_MAX allow_overflow else Some (-1, p)
            else parse_digits_loop src (p + 1) v allow_overflow)"
  by pat_completeness auto
termination
  by (relation "measure (\<lambda>(src, p, v, a). Suc (length src) - p)") (auto dest: src_at_bound)

declare parse_digits_loop.simps [simp del]

definition parse_digits :: "bytes \<Rightarrow> nat \<Rightarrow> bool \<Rightarrow> (int \<times> nat) option" where
  "parse_digits src p allow_overflow = do {
     (v, q) \<leftarrow> parse_digits_loop src p 0 allow_overflow;
     Some (v, if v = -1 then p else q) }"

definition re_parse_expect :: "re_parse_state \<Rightarrow> nat \<Rightarrow> char \<Rightarrow> (re_parse_state \<times> nat option) option" where
  "re_parse_expect s p c = do {
     d \<leftarrow> src_at (re_src s) p;
     Some (if d \<noteq> asc c then (fst (re_parse_error s (''expecting '' @ [CHR 0x27, c, CHR 0x27])), None)
           else (s, Some (p + 1))) }"

section \<open>Escape sequences\<close>

text \<open>
  \<open>hex_digits\<close> reads \<open>n\<close> hexadecimal digits, \<open>hex_braces\<close> the digits of \<^verbatim>\<open>\u{...}\<close> up to the brace;
  the inner \<open>None\<close> is a malformed escape.
\<close>

fun hex_digits :: "bytes \<Rightarrow> nat \<Rightarrow> nat \<Rightarrow> u32 \<Rightarrow> (u32 \<times> nat) option option" where
  "hex_digits src p 0 c = Some (Some (c, p))"
| "hex_digits src p (Suc n) c = do {
     d \<leftarrow> src_at src p;
     let h = from_hex (uint d);
     if h < 0 then Some None else hex_digits src (p + 1) n (push_bit 4 c OR of_int h) }"

function hex_braces :: "bytes \<Rightarrow> nat \<Rightarrow> u32 \<Rightarrow> (u32 \<times> nat) option option" where
  "hex_braces src p c =
     (case src_at src p of None \<Rightarrow> None
      | Some d \<Rightarrow>
          let h = from_hex (uint d) in
          if h < 0 then Some None
          else let c = push_bit 4 c OR of_int h in
            if c > 0x10FFFF then Some None
            else (case src_at src (p + 1) of None \<Rightarrow> None
              | Some e \<Rightarrow> if e = asc CHR ''}'' then Some (Some (c, p + 2)) else hex_braces src (p + 1) c))"
  by pat_completeness auto
termination
  by (relation "measure (\<lambda>(src, p, c). Suc (length src) - p)") (auto dest: src_at_bound)

declare hex_braces.simps [simp del]

text \<open>A second escape \<^verbatim>\<open>\uXXXX\<close> that completes a surrogate pair.\<close>

definition low_surrogate_escape :: "bytes \<Rightarrow> nat \<Rightarrow> u32 option option" where
  "low_surrogate_escape src p = do {
     a \<leftarrow> src_at src p;
     if a \<noteq> asc CHR 0x5c then Some None
     else do {
       b \<leftarrow> src_at src (p + 1);
       if b \<noteq> asc CHR ''u'' then Some None
       else do {
         r \<leftarrow> hex_digits src (p + 2) 4 0;
         Some (case r of None \<Rightarrow> None | Some (c1, _) \<Rightarrow> if 0xdc00 \<le> c1 \<and> c1 < 0xe000 then Some c1 else None) } } }"

definition parse_hex_escape :: "bytes \<Rightarrow> nat \<Rightarrow> u32 \<Rightarrow> nat \<Rightarrow> (u32 \<times> nat) option option" where
  "parse_hex_escape src p c allow_utf16 = do {
     d \<leftarrow> src_at src p;
     if d = asc CHR ''{'' \<and> allow_utf16 \<noteq> 0 then hex_braces src (p + 1) 0
     else do {
       r \<leftarrow> hex_digits src p (if c = asc CHR ''x'' then 2 else 4) 0;
       case r of None \<Rightarrow> Some None
       | Some (c, p) \<Rightarrow>
           if is_hi_surrogate c \<and> allow_utf16 = 2 then do {
             lo \<leftarrow> low_surrogate_escape src p;
             Some (Some (case lo of None \<Rightarrow> (c, p) | Some c1 \<Rightarrow> (from_surrogate c c1, p + 6))) }
           else Some (Some (c, p)) } }"

definition parse_octal_escape :: "bytes \<Rightarrow> nat \<Rightarrow> u32 \<Rightarrow> nat \<Rightarrow> (u32 \<times> nat) option option" where
  "parse_octal_escape src p c allow_utf16 = do {
     d \<leftarrow> src_at src p;
     if allow_utf16 = 2 then Some (if c \<noteq> 0 \<or> is_digit d then None else Some (c, p))
     else if d - asc CHR ''0'' > 7 then Some (Some (c, p))
     else do {
       let c = push_bit 3 c OR (d - asc CHR ''0'');
       if c \<ge> 32 then Some (Some (c, p + 1))
       else do {
         e \<leftarrow> src_at src (p + 1);
         Some (Some (if e - asc CHR ''0'' > 7 then (c, p + 1)
                     else (push_bit 3 c OR (e - asc CHR ''0''), p + 2))) } } }"

text \<open>The result is the character, -1 for a malformed escape, -2 for none; only a character moves the pointer.\<close>

definition escape_result :: "nat \<Rightarrow> (u32 \<times> nat) option \<Rightarrow> int \<times> nat" where
  "escape_result p r = (case r of None \<Rightarrow> (-1, p) | Some (c, q) \<Rightarrow> (uint c, q))"

definition lre_parse_escape :: "bytes \<Rightarrow> nat \<Rightarrow> nat \<Rightarrow> (int \<times> nat) option" where
  "lre_parse_escape src p allow_utf16 = do {
     c \<leftarrow> src_at src p;
     let q = p + 1;
     if c = asc CHR ''b'' then Some (8, q)
     else if c = asc CHR ''f'' then Some (12, q)
     else if c = asc CHR ''n'' then Some (10, q)
     else if c = asc CHR ''r'' then Some (13, q)
     else if c = asc CHR ''t'' then Some (9, q)
     else if c = asc CHR ''v'' then Some (11, q)
     else if c = asc CHR ''x'' \<or> c = asc CHR ''u'' then do {
       r \<leftarrow> parse_hex_escape src q c allow_utf16; Some (escape_result p r) }
     else if asc CHR ''0'' \<le> c \<and> c \<le> asc CHR ''7'' then do {
       r \<leftarrow> parse_octal_escape src q (c - asc CHR ''0'') allow_utf16; Some (escape_result p r) }
     else Some (-2, p) }"

section \<open>Unicode properties\<close>

definition is_unicode_char :: "u32 \<Rightarrow> bool" where
  "is_unicode_char c \<longleftrightarrow> asc CHR ''0'' \<le> c \<and> c \<le> asc CHR ''9'' \<or> asc CHR ''A'' \<le> c \<and> c \<le> asc CHR ''Z'' \<or>
     asc CHR ''a'' \<le> c \<and> c \<le> asc CHR ''z'' \<or> c = asc CHR ''_''"

text \<open>A name of at most 63 characters; a longer one is \<open>None\<close>.\<close>

function property_name :: "bytes \<Rightarrow> nat \<Rightarrow> bytes \<Rightarrow> (bytes \<times> nat) option option" where
  "property_name src p q =
     (case src_at src p of None \<Rightarrow> None
      | Some c \<Rightarrow>
          if \<not> is_unicode_char c then Some (Some (q, p))
          else if length q \<ge> 63 then Some None
          else property_name src (p + 1) (q @ [ucast c]))"
  by pat_completeness auto
termination
  by (relation "measure (\<lambda>(src, p, q). Suc (length src) - p)") (auto dest: src_at_bound)

declare property_name.simps [simp del]

text \<open>The set for a name and value. The \<open>Inl\<close> results are the messages; \<open>''''\<close> leaves the message as it is.\<close>

definition property_set :: "re_parse_state \<Rightarrow> bytes \<Rightarrow> bytes \<Rightarrow> (char_range \<times> string option) option" where
  "property_set s name val =
     (let cr = new_range s in
      if name = str ''Script'' \<or> name = str ''sc'' \<or> name = str ''Script_Extensions'' \<or> name = str ''scx'' then do {
        (cr, ret) \<leftarrow> unicode_script cr val (name = str ''Script_Extensions'' \<or> name = str ''scx'');
        Some (cr, if ret = 0 then None
                  else Some (if ret = -2 then ''unknown unicode script'' else ''out of memory'')) }
      else if name = str ''General_Category'' \<or> name = str ''gc'' then do {
        (cr, ret) \<leftarrow> unicode_general_category cr val;
        Some (cr, if ret = 0 then None
                  else Some (if ret = -2 then ''unknown unicode general category'' else ''out of memory'')) }
      else if val = [] then do {
        (cr, ret) \<leftarrow> unicode_general_category cr name;
        if ret = -1 then Some (cr, Some ''out of memory'')
        else if ret < 0 then do {
          (cr, ret) \<leftarrow> unicode_prop cr name;
          Some (cr, if ret = 0 then None
                    else Some (if ret = -2 then ''unknown unicode property name'' else ''out of memory'')) }
        else Some (cr, None) }
      else Some (cr, Some ''unknown unicode property name''))"

definition parse_unicode_property ::
  "re_parse_state \<Rightarrow> nat \<Rightarrow> bool \<Rightarrow> (re_parse_state \<times> (nat \<times> char_range) option) option" where
  "parse_unicode_property s p is_inv =
     (let fail = (\<lambda>s txt. Some (fst (re_parse_error s txt), None)) in do {
      c \<leftarrow> src_at (re_src s) p;
      if c \<noteq> asc CHR ''{'' then fail s (''expecting '' @ [CHR 0x27, CHR ''{'', CHR 0x27] @ '' after '' @ [CHR 0x5c, CHR ''p''])
      else do {
        r \<leftarrow> property_name (re_src s) (p + 1) [];
        case r of None \<Rightarrow> fail s ''unknown unicode property name''
        | Some (name, p) \<Rightarrow> do {
            c \<leftarrow> src_at (re_src s) p;
            r \<leftarrow> (if c = asc CHR ''='' then property_name (re_src s) (p + 1) [] else Some (Some ([], p)));
            case r of None \<Rightarrow> fail s ''unknown unicode property value''
            | Some (val, p) \<Rightarrow> do {
                c \<leftarrow> src_at (re_src s) p;
                if c \<noteq> asc CHR ''}'' then fail s (''expecting '' @ [CHR 0x27, CHR ''}'', CHR 0x27])
                else do {
                  (cr, err) \<leftarrow> property_set s name val;
                  case err of Some txt \<Rightarrow> fail (release s cr) txt
                  | None \<Rightarrow>
                      (case (if is_inv then cr_invert cr else (cr, 0)) of
                         (cr, r) \<Rightarrow> if r \<noteq> 0 then Some (release s cr, None)
                                    else Some (clock_to s cr, Some (p + 1, cr))) } } } } })"

section \<open>Class atoms\<close>

definition CLASS_RANGE_BASE :: u32 where
  "CLASS_RANGE_BASE = 0x40000000"

text \<open>
  The value of a class atom: the character or \<open>CLASS_RANGE_BASE\<close>, the new offset, and the range when one was
  built. A sequence that is not UTF-8 gives -1, which the callers take for an error without a message.
\<close>

type_synonym class_atom = "u32 \<times> nat \<times> char_range option"

definition atom_normal_char :: "re_parse_state \<Rightarrow> nat \<Rightarrow> u32 \<Rightarrow> re_parse_state \<times> class_atom option" where
  "atom_normal_char s p c =
     (if c \<ge> 128 then
        case unicode_from_utf8 (re_src s) p 6 of
          None \<Rightarrow> if \<not> re_is_utf16 s then (fst (re_parse_error s ''malformed unicode char''), None) else (s, None)
        | Some (c, p) \<Rightarrow>
            if c > 0xffff \<and> \<not> re_is_utf16 s then (fst (re_parse_error s ''malformed unicode char''), None)
            else (s, Some (c, p, None))
      else (s, Some (c, p + 1, None)))"

definition class_escape :: "u32 \<Rightarrow> char_range_enum option" where
  "class_escape c =
     (if c = asc CHR ''d'' then Some CHAR_RANGE_d else if c = asc CHR ''D'' then Some CHAR_RANGE_D
      else if c = asc CHR ''s'' then Some CHAR_RANGE_s else if c = asc CHR ''S'' then Some CHAR_RANGE_S
      else if c = asc CHR ''w'' then Some CHAR_RANGE_w else if c = asc CHR ''W'' then Some CHAR_RANGE_W
      else None)"

definition is_letter :: "u32 \<Rightarrow> bool" where
  "is_letter c \<longleftrightarrow> asc CHR ''a'' \<le> c \<and> c \<le> asc CHR ''z'' \<or> asc CHR ''A'' \<le> c \<and> c \<le> asc CHR ''Z''"

definition syntax_chars :: "u32 list" where
  "syntax_chars = map asc (''^$'' @ [CHR 0x5c] @ ''.*+?()[]{}|/'')"

text \<open>An escape in a class or pattern; \<open>p\<close> is the offset after the backslash, \<open>c\<close> the character there.\<close>

definition get_class_escape ::
  "re_parse_state \<Rightarrow> nat \<Rightarrow> u32 \<Rightarrow> bool \<Rightarrow> (re_parse_state \<times> class_atom option) option" where
  "get_class_escape s p c inclass =
     (case class_escape c of
        Some e \<Rightarrow>
          (case cr_init_char_range s e of
             (s, None) \<Rightarrow> Some (s, None)
           | (s, Some cr) \<Rightarrow> Some (s, Some (CLASS_RANGE_BASE, p + 1, Some cr)))
      | None \<Rightarrow>
          if c = asc CHR ''c'' then do {
            d \<leftarrow> src_at (re_src s) (p + 1);
            if is_letter d \<or> (is_digit d \<or> d = asc CHR ''_'') \<and> inclass \<and> \<not> re_is_utf16 s
            then Some (s, Some (d AND 0x1f, p + 2, None))
            else if re_is_utf16 s
            then Some (fst (re_parse_error s ''invalid escape sequence in regular expression''), None)
            else Some (s, Some (asc CHR 0x5c, p, None)) }
          else if (c = asc CHR ''p'' \<or> c = asc CHR ''P'') \<and> re_is_utf16 s then do {
            (s, r) \<leftarrow> parse_unicode_property s (p + 1) (c = asc CHR ''P'');
            Some (s, case r of None \<Rightarrow> None | Some (p, cr) \<Rightarrow> Some (CLASS_RANGE_BASE, p, Some cr)) }
          else do {
            (ret, q) \<leftarrow> lre_parse_escape (re_src s) p (if re_is_utf16 s then 2 else 0);
            if ret \<ge> 0 then Some (s, Some (of_int ret, q, None))
            else if ret = -2 \<and> c \<noteq> 0 \<and> c \<in> set syntax_chars then Some (atom_normal_char s p c)
            else if re_is_utf16 s
            then Some (fst (re_parse_error s ''invalid escape sequence in regular expression''), None)
            else Some (atom_normal_char s p c) })"

definition get_class_atom ::
  "re_parse_state \<Rightarrow> nat \<Rightarrow> bool \<Rightarrow> (re_parse_state \<times> class_atom option) option" where
  "get_class_atom s p inclass = do {
     c \<leftarrow> src_at (re_src s) p;
     if c = asc CHR 0x5c then
       if p + 1 \<ge> length (re_src s) then Some (fst (re_parse_error s ''unexpected end''), None)
       else do { d \<leftarrow> src_at (re_src s) (p + 1); get_class_escape s (p + 1) d inclass }
     else if c = 0 \<and> p \<ge> length (re_src s) then Some (fst (re_parse_error s ''unexpected end''), None)
     else Some (atom_normal_char s p c) }"

end
