(* ===== verification/RegexpParse.thy ===== *)
theory RegexpParse
  imports RegexpLex
begin

text \<open>
  The parser and code generator of the regular expression compiler: character classes, group names, terms with their
  quantifiers, alternatives and disjunctions. The mutually recursive functions take fuel for their depth; \<open>None\<close>
  is a step without a defined result or used-up fuel.
\<close>

section \<open>Character classes\<close>

lemma unicode_from_utf8_advances: "unicode_from_utf8 src p k = Some (c, q) \<Longrightarrow> p < q"
  by (auto simp: unicode_from_utf8_def Let_def split: if_splits option.splits)

lemma hex_digits_advances: "hex_digits src p n c = Some (Some (c', q)) \<Longrightarrow> p \<le> q"
  by (induction n arbitrary: p c) (fastforce simp: Let_def split: Option.bind_splits if_splits)+

lemma hex_braces_advances: "hex_braces src p c = Some (Some (c', q)) \<Longrightarrow> p \<le> q"
proof (induction src p c rule: hex_braces.induct)
  case (1 src p c)
  then show ?case
    by (subst (asm) (2) hex_braces.simps) (fastforce simp: Let_def split: option.splits if_splits)
qed

lemma parse_hex_escape_advances:
  assumes "parse_hex_escape src p c a = Some (Some (c', q))"
  shows "p \<le> q"
proof -
  obtain d where d: "src_at src p = Some d" using assms by (auto simp: parse_hex_escape_def split: Option.bind_splits)
  show ?thesis
  proof (cases "d = asc CHR ''{'' \<and> a \<noteq> 0")
    case True
    then have "hex_braces src (p + 1) 0 = Some (Some (c', q))" using assms d by (simp add: parse_hex_escape_def)
    then show ?thesis using hex_braces_advances by fastforce
  next
    case False
    then obtain c1 p1 where h: "hex_digits src p (if c = asc CHR ''x'' then 2 else 4) 0 = Some (Some (c1, p1))"
        "q = p1 \<or> q = p1 + 6"
      using assms d by (auto simp: parse_hex_escape_def split: Option.bind_splits option.splits if_splits)
    then show ?thesis using hex_digits_advances [OF h(1)] by auto
  qed
qed

lemma parse_octal_escape_advances: "parse_octal_escape src p c a = Some (Some (c', q)) \<Longrightarrow> p \<le> q"
  by (auto simp: parse_octal_escape_def Let_def split: Option.bind_splits if_splits)

lemma lre_parse_escape_advances:
  assumes "lre_parse_escape src p a = Some (v, q)" "0 \<le> v"
  shows "p < q"
proof -
  obtain c where c: "src_at src p = Some c" using assms(1) by (auto simp: lre_parse_escape_def split: Option.bind_splits)
  from assms c consider "q = p + 1"
    | c' r where "escape_result p r = (v, q)"
      "parse_hex_escape src (p + 1) c' a = Some r \<or> parse_octal_escape src (p + 1) c' a = Some r"
    by (auto simp: lre_parse_escape_def Let_def bind_eq_Some_conv split: if_splits)
  then show ?thesis
  proof cases
    case 2
    then obtain c1 where "r = Some (c1, q)" using assms(2) by (cases r) (auto simp: escape_result_def)
    then show ?thesis using 2(2) parse_hex_escape_advances [of src "p + 1" c' a c1 q]
        parse_octal_escape_advances [of src "p + 1" c' a c1 q] by auto
  qed simp
qed

lemma property_name_advances: "property_name src p q = Some (Some (name, p')) \<Longrightarrow> p \<le> p'"
proof (induction src p q rule: property_name.induct)
  case (1 src p q)
  then show ?case by (subst (asm) (2) property_name.simps) (fastforce split: option.splits if_splits)
qed

lemma parse_unicode_property_advances:
  "parse_unicode_property s p neg = Some (s', Some (q, cr)) \<Longrightarrow> p < q"
  by (auto simp: parse_unicode_property_def Let_def dest!: property_name_advances
      split: Option.bind_splits if_splits option.splits prod.splits)

lemma atom_normal_char_advances: "atom_normal_char s p c = (s', Some (c', q, cr)) \<Longrightarrow> p < q"
  by (auto simp: atom_normal_char_def dest: unicode_from_utf8_advances split: if_splits option.splits)

lemma get_class_atom_advances: "get_class_atom s p inclass = Some (s', Some (c, q, cr)) \<Longrightarrow> p < q"
  by (auto simp: get_class_atom_def get_class_escape_def Let_def
      dest!: atom_normal_char_advances lre_parse_escape_advances parse_unicode_property_advances
      split: Option.bind_splits if_splits option.splits prod.splits)

text \<open>
  One item of a class: an interval or an atom. \<open>cr\<close> is the class so far; its requests continue the
  host's count. Using or freeing the range of an atom that never built one is undefined: an atom of five or six
  bytes of UTF-8 may decode to a value above \<^verbatim>\<open>CLASS_RANGE_BASE\<close>, which \<^verbatim>\<open>re_parse_char_class\<close> takes for a class.
\<close>

definition with_clock :: "re_parse_state \<Rightarrow> char_range \<Rightarrow> char_range" where
  "with_clock s cr = cr\<lparr>mem_opaque := re_clock s\<rparr>"

definition class_add ::
  "re_parse_state \<Rightarrow> char_range \<Rightarrow> u32 \<Rightarrow> char_range option \<Rightarrow> ((re_parse_state \<times> char_range) \<times> int) option" where
  "class_add s cr c1 cr1 =
     (if c1 \<ge> CLASS_RANGE_BASE then
        case cr1 of None \<Rightarrow> None
        | Some cr1 \<Rightarrow>
            (case cr_union1 (with_clock s cr) (take (cr_len cr1) (points cr1)) of
               (cr, r) \<Rightarrow> Some ((release s cr, cr), r))
      else case cr_union_interval (with_clock s cr) c1 c1 of (cr, r) \<Rightarrow> Some ((clock_to s cr, cr), r))"

definition out_of_memory :: "re_parse_state \<Rightarrow> re_parse_state" where
  "out_of_memory s = fst (re_parse_out_of_memory s)"

definition class_single ::
  "re_parse_state \<Rightarrow> char_range \<Rightarrow> u32 \<Rightarrow> nat \<Rightarrow> char_range option \<Rightarrow>
   ((re_parse_state \<times> char_range) \<times> nat option) option" where
  "class_single s cr c1 p cr1 = do {
     ((s, cr), r) \<leftarrow> class_add s cr c1 cr1;
     Some (if r \<noteq> 0 then ((out_of_memory s, cr), None) else ((s, cr), Some p)) }"

text \<open>The second end of an interval; \<open>p\<close> is the offset of the dash.\<close>

definition class_interval ::
  "re_parse_state \<Rightarrow> char_range \<Rightarrow> u32 \<Rightarrow> nat \<Rightarrow> ((re_parse_state \<times> char_range) \<times> nat option) option" where
  "class_interval s cr c1 p = do {
     (s, b) \<leftarrow> get_class_atom s (p + 1) True;
     case b of None \<Rightarrow> Some ((s, cr), None)
     | Some (c2, p2, cr2) \<Rightarrow>
         if c2 \<ge> CLASS_RANGE_BASE then
           if Option.is_none cr2 then None
           else if re_is_utf16 s
           then Some ((fst (re_parse_error (s\<lparr>re_clock := re_clock s + 1\<rparr>) ''invalid class range''), cr), None)
           else class_single (s\<lparr>re_clock := re_clock s + 1\<rparr>) cr c1 p None
         else if c2 < c1 then Some ((fst (re_parse_error s ''invalid class range''), cr), None)
         else (case cr_union_interval (with_clock s cr) c1 c2 of
           (cr, r) \<Rightarrow>
             Some (if r \<noteq> 0 then ((out_of_memory (clock_to s cr), cr), None)
                   else ((clock_to s cr, cr), Some p2))) }"

definition class_item ::
  "re_parse_state \<Rightarrow> char_range \<Rightarrow> nat \<Rightarrow> ((re_parse_state \<times> char_range) \<times> nat option) option" where
  "class_item s cr p = do {
     (s, a) \<leftarrow> get_class_atom s p True;
     case a of None \<Rightarrow> Some ((s, cr), None)
     | Some (c1, p, cr1) \<Rightarrow> do {
         d \<leftarrow> src_at (re_src s) p;
         e \<leftarrow> (if d = asc CHR ''-'' then src_at (re_src s) (p + 1) else Some 0);
         if d = asc CHR ''-'' \<and> e \<noteq> asc CHR '']'' then
           if c1 \<ge> CLASS_RANGE_BASE then
             if Option.is_none cr1 then None
             else if re_is_utf16 s
             then Some ((fst (re_parse_error (s\<lparr>re_clock := re_clock s + 1\<rparr>) ''invalid class range''), cr), None)
             else class_single s cr c1 p cr1
           else class_interval s cr c1 p
         else class_single s cr c1 p cr1 } }"

lemma class_single_advances: "class_single s cr c1 p cr1 = Some (sc, Some q) \<Longrightarrow> q = p"
  by (auto simp: class_single_def bind_eq_Some_conv split: prod.splits if_splits)

lemma class_interval_advances:
  assumes "class_interval s cr c1 p = Some (sc, Some q)"
  shows "p \<le> q"
proof -
  from assms obtain s1 c2 p2 cr2 where a: "get_class_atom s (p + 1) True = Some (s1, Some (c2, p2, cr2))"
    by (auto simp: class_interval_def bind_eq_Some_conv split: option.splits)
  have "q = p \<or> q = p2" using assms a
    by (auto simp: class_interval_def dest: class_single_advances split: if_splits prod.splits)
  then show ?thesis using get_class_atom_advances [OF a] by auto
qed

lemma class_item_advances:
  assumes "class_item s cr p = Some (sc, Some q)"
  shows "p < q"
proof -
  from assms obtain s1 c1 p1 cr1 where a: "get_class_atom s p True = Some (s1, Some (c1, p1, cr1))"
    by (auto simp: class_item_def bind_eq_Some_conv split: option.splits)
  have "p1 \<le> q" using assms a
    by (auto simp: class_item_def bind_eq_Some_conv dest: class_single_advances class_interval_advances
        split: if_splits)
  then show ?thesis using get_class_atom_advances [OF a] by simp
qed

text \<open>The items up to the closing bracket; the offset returned is that of the bracket.\<close>

function class_loop ::
  "re_parse_state \<Rightarrow> char_range \<Rightarrow> nat \<Rightarrow> nat \<Rightarrow> ((re_parse_state \<times> char_range) \<times> nat option) option" where
  "class_loop s cr n p =
     (if p > n then None
      else case src_at (re_src s) p of None \<Rightarrow> None
      | Some c \<Rightarrow>
          if c = asc CHR '']'' then Some ((s, cr), Some p)
          else case class_item s cr p of None \<Rightarrow> None
          | Some (sc, None) \<Rightarrow> Some (sc, None)
          | Some ((s, cr), Some q) \<Rightarrow> class_loop s cr n q)"
  by pat_completeness auto
termination
  by (relation "measure (\<lambda>(s, cr, n, p). Suc n - p)") (auto dest: class_item_advances)

declare class_loop.simps [simp del]

text \<open>\<open>n\<close> is the length of the pattern, which parsing does not change.\<close>

definition re_parse_char_class :: "re_parse_state \<Rightarrow> nat \<Rightarrow> (re_parse_state \<times> nat option) option" where
  "re_parse_char_class s p =
     (let cr = new_range s; p = p + 1 in do {
      c \<leftarrow> src_at (re_src s) p;
      let invert = (c = asc CHR ''^'');
      ((s, cr), r) \<leftarrow> class_loop s cr (length (re_src s)) (if invert then p + 1 else p);
      case r of None \<Rightarrow> Some (release s cr, None)
      | Some p \<Rightarrow>
          (case (if re_ignore_case s then cr_canonicalize (with_clock s cr) else (with_clock s cr, 0)) of
             (cr, r) \<Rightarrow>
               if r \<noteq> 0 then Some (release (out_of_memory s) cr, None)
               else (case (if invert then cr_invert cr else (cr, 0)) of
                 (cr, r) \<Rightarrow>
                   if r \<noteq> 0 then Some (release (out_of_memory s) cr, None)
                   else do {
                     (s, r) \<leftarrow> re_emit_range s cr;
                     Some (release s cr, if r \<noteq> 0 then None else Some (p + 1)) })) })"

section \<open>Group names\<close>

definition lre_id_start_table_ascii :: "u32 list" where
  "lre_id_start_table_ascii = [0x00000000, 0x00000010, 0x87FFFFFE, 0x07FFFFFE]"

definition lre_id_continue_table_ascii :: "u32 list" where
  "lre_id_continue_table_ascii = [0x00000000, 0x03FF0010, 0x87FFFFFE, 0x07FFFFFE]"

definition lre_js_is_ident_first :: "u32 \<Rightarrow> bool option" where
  "lre_js_is_ident_first c =
     (if c < 128 then Some (bit (lre_id_start_table_ascii ! unat (drop_bit 5 c)) (unat (c AND 31)))
      else lre_is_id_start c)"

definition lre_js_is_ident_next :: "u32 \<Rightarrow> bool option" where
  "lre_js_is_ident_next c =
     (if c < 128 then Some (bit (lre_id_continue_table_ascii ! unat (drop_bit 5 c)) (unat (c AND 31)))
      else do { b \<leftarrow> lre_is_id_continue c; Some (b \<or> c = 0x200C \<or> c = 0x200D) })"

text \<open>One character of a name, written plainly or as an escape; a malformed one is the code 0xffffffff.\<close>

definition group_name_char :: "bytes \<Rightarrow> nat \<Rightarrow> bool \<Rightarrow> u32 \<Rightarrow> (u32 \<times> nat) option option" where
  "group_name_char src p is_utf16 c =
     (if c = asc CHR 0x5c then do {
        d \<leftarrow> src_at src (p + 1);
        if d \<noteq> asc CHR ''u'' then Some None
        else do {
          (v, q) \<leftarrow> lre_parse_escape src (p + 1) (if is_utf16 then 2 else 0);
          Some (Some (of_int v, q)) } }
      else if c \<ge> 128 then
        Some (Some (case unicode_from_utf8 src p 6 of None \<Rightarrow> (-1, p) | Some cq \<Rightarrow> cq))
      else Some (Some (c, p + 1)))"

lemma minus_codes: "\<not> (-1 :: u32) \<le> 0x10FFFF" "\<not> (-2 :: u32) \<le> 0x10FFFF"
  by (simp_all add: not_le word_less_nat_alt unsigned_minus_1_eq_mask mask_eq_exp_minus_1)

lemma group_name_char_advances:
  assumes "group_name_char src p u c = Some (Some (v, q))" "v \<le> 0x10FFFF"
  shows "p < q"
proof (cases "c = asc CHR 0x5c")
  case True
  with assms(1) obtain w where w: "lre_parse_escape src (p + 1) (if u then 2 else 0) = Some (w, q)" "v = of_int w"
    by (auto simp: group_name_char_def bind_eq_Some_conv split: if_splits)
  show ?thesis
  proof (cases "0 \<le> w")
    case True
    then show ?thesis using lre_parse_escape_advances [OF w(1)] by simp
  next
    case False
    from w(1) have "0 \<le> w \<or> w = -1 \<or> w = -2"
      by (auto simp: lre_parse_escape_def escape_result_def Let_def bind_eq_Some_conv split: if_splits option.splits)
    then show ?thesis using False w(2) assms(2) minus_codes by auto
  qed
next
  case False
  then show ?thesis using assms minus_codes
    by (auto simp: group_name_char_def dest: unicode_from_utf8_advances split: if_splits option.splits)
qed

function group_name_loop :: "bytes \<Rightarrow> nat \<Rightarrow> nat \<Rightarrow> bool \<Rightarrow> bytes \<Rightarrow> (bytes \<times> nat) option option" where
  "group_name_loop src buf_size p is_utf16 q =
     (case src_at src p of None \<Rightarrow> None
      | Some c \<Rightarrow>
          if c = asc CHR ''>'' then Some (if q = [] then None else Some (q, p + 1))
          else (case group_name_char src p is_utf16 c of None \<Rightarrow> None
          | Some None \<Rightarrow> Some None
          | Some (Some (c, p')) \<Rightarrow>
              if c > 0x10FFFF then Some None
              else (case (if q = [] then lre_js_is_ident_first c else lre_js_is_ident_next c) of
                None \<Rightarrow> None
              | Some ok \<Rightarrow>
                  if \<not> ok then Some None
                  else if length q + 6 + 1 > buf_size then Some None
                  else group_name_loop src buf_size p' is_utf16
                         (q @ (if c < 128 then [ucast c] else unicode_to_utf8 c)))))"
  by pat_completeness auto
termination
proof (relation "measure (\<lambda>(src, n, p, u, q). Suc (length src) - p)", goal_cases)
  case (2 src n p u q c x c' p')
  then show ?case using group_name_char_advances [of src p u c] src_at_bound [of src p c]
    by (auto simp: not_less)
qed simp

declare group_name_loop.simps [simp del]

text \<open>The name as a C string and the offset behind the closing bracket.\<close>

definition re_parse_group_name :: "bytes \<Rightarrow> nat \<Rightarrow> nat \<Rightarrow> bool \<Rightarrow> (bytes \<times> nat) option option" where
  "re_parse_group_name src buf_size p is_utf16 = group_name_loop src buf_size p is_utf16 []"

text \<open>
  \<open>re_parse_captures\<close> scans the whole pattern. Without a name it counts the groups; with a name it
  returns the index of the group of that name or -1. The second result says whether a named group was seen.
\<close>

function skip_class :: "bytes \<Rightarrow> nat \<Rightarrow> nat option" where
  "skip_class src p =
     (if p < length src then
        case src_at src p of None \<Rightarrow> None
        | Some c \<Rightarrow>
            if c = asc CHR '']'' then Some p
            else skip_class src (if c = asc CHR 0x5c then p + 2 else p + 1)
      else Some p)"
  by pat_completeness auto
termination by (relation "measure (\<lambda>(src, p). length src - p)") auto

declare skip_class.simps [simp del]

lemma skip_class_ge: "skip_class src p = Some q \<Longrightarrow> p \<le> q"
proof (induction src p rule: skip_class.induct)
  case (1 src p)
  then show ?case by (subst (asm) (2) skip_class.simps) (fastforce split: if_splits option.splits)
qed

text \<open>An opening parenthesis at \<open>p\<close>: is it a group, is it a named one, and where the scan goes on.\<close>

definition capture_open :: "bytes \<Rightarrow> nat \<Rightarrow> (bool \<times> bool) option" where
  "capture_open src p = do {
     a \<leftarrow> src_at src (p + 1);
     if a \<noteq> asc CHR ''?'' then Some (True, False)
     else do {
       b \<leftarrow> src_at src (p + 2);
       if b \<noteq> asc CHR ''<'' then Some (False, False)
       else do {
         c \<leftarrow> src_at src (p + 3);
         Some (if c \<noteq> asc CHR ''='' \<and> c \<noteq> asc CHR ''!'' then (True, True) else (False, False)) } } }"

lemma group_name_loop_ge: "group_name_loop src n p u acc = Some (Some (name, q)) \<Longrightarrow> p \<le> q"
proof (induction src n p u acc rule: group_name_loop.induct)
  case (1 src n p u acc)
  from "1.prems" obtain c where c: "src_at src p = Some c"
    by (subst (asm) group_name_loop.simps) (auto split: option.splits)
  show ?case
  proof (cases "c = asc CHR ''>''")
    case True
    then show ?thesis using "1.prems" c by (subst (asm) group_name_loop.simps) (auto split: if_splits)
  next
    case False
    obtain c' p' where g: "group_name_char src p u c = Some (Some (c', p'))" "\<not> c' > 0x10FFFF"
      using "1.prems" c False by (subst (asm) group_name_loop.simps) (auto split: option.splits if_splits)
    obtain ok where ok: "(if acc = [] then lre_js_is_ident_first c' else lre_js_is_ident_next c') = Some ok"
        "ok" "\<not> length acc + 6 + 1 > n"
      using "1.prems" c False g by (subst (asm) group_name_loop.simps) (auto split: option.splits if_splits)
    have "group_name_loop src n p' u (acc @ (if c' < 128 then [ucast c'] else unicode_to_utf8 c')) = Some (Some (name, q))"
      using "1.prems" c False g ok by (subst (asm) group_name_loop.simps) (simp split: if_splits)
    then have "p' \<le> q" using "1.IH" [OF c False g(1) refl refl g(2) ok(1)] ok(2,3) by blast
    moreover have "p < p'" using group_name_char_advances [OF g(1)] g(2) by (simp add: not_less)
    ultimately show ?thesis by simp
  qed
qed

lemma re_parse_group_name_ge: "re_parse_group_name src n p u = Some (Some (name, q)) \<Longrightarrow> p \<le> q"
  by (simp add: re_parse_group_name_def group_name_loop_ge)

function captures_loop ::
  "bytes \<Rightarrow> bool \<Rightarrow> bytes option \<Rightarrow> nat \<Rightarrow> nat \<Rightarrow> int \<Rightarrow> (int \<times> int) option" where
  "captures_loop src is_utf16 capture_name p capture_index named =
     (if p < length src then
        case src_at src p of None \<Rightarrow> None
        | Some c \<Rightarrow>
          if c = asc CHR ''('' then
            (case capture_open src p of None \<Rightarrow> None
             | Some (is_group, is_named) \<Rightarrow>
                 if \<not> is_group then captures_loop src is_utf16 capture_name (p + 1) capture_index named
                 else
                   (let named = (if is_named then 1 else named) in
                    case (case capture_name of
                            Some name \<Rightarrow> if is_named then re_parse_group_name src TMP_BUF_SIZE (p + 3) is_utf16 else Some None
                          | None \<Rightarrow> Some None) of
                      None \<Rightarrow> None
                    | Some (Some (name, q)) \<Rightarrow>
                        if Some name = capture_name then Some (int capture_index, named)
                        else if capture_index + 1 \<ge> CAPTURE_COUNT_MAX then Some (-1, named)
                        else captures_loop src is_utf16 capture_name (q + 1) (capture_index + 1) named
                    | Some None \<Rightarrow>
                        if capture_index + 1 \<ge> CAPTURE_COUNT_MAX
                        then Some (if capture_name = None then int (capture_index + 1) else -1, named)
                        else captures_loop src is_utf16 capture_name
                               ((if is_named \<and> capture_name \<noteq> None then p + 3 else p) + 1) (capture_index + 1) named))
          else if c = asc CHR 0x5c then captures_loop src is_utf16 capture_name (p + 2) capture_index named
          else if c = asc CHR ''['' then
            (case skip_class src (p + 1 + (if c = asc CHR '']'' then 1 else 0)) of None \<Rightarrow> None
             | Some q \<Rightarrow> captures_loop src is_utf16 capture_name (q + 1) capture_index named)
          else captures_loop src is_utf16 capture_name (p + 1) capture_index named
      else Some (if capture_name = None then int capture_index else -1, named))"
  by pat_completeness auto
termination
  by (relation "measure (\<lambda>(src, u, name, p, i, b). length src - p)")
    (auto dest!: skip_class_ge re_parse_group_name_ge split: option.splits if_splits)

declare captures_loop.simps [simp del]

definition re_parse_captures :: "re_parse_state \<Rightarrow> bytes option \<Rightarrow> (int \<times> int) option" where
  "re_parse_captures s capture_name = captures_loop (re_src s) (re_is_utf16 s) capture_name 0 1 0"

definition re_count_captures :: "re_parse_state \<Rightarrow> (re_parse_state \<times> int) option" where
  "re_count_captures s =
     (if re_total_capture_count s < 0 then do {
        (n, named) \<leftarrow> re_parse_captures s None;
        let s = s\<lparr>re_total_capture_count := n, re_has_named_captures := named\<rparr>;
        Some (s, n) }
      else Some (s, re_total_capture_count s))"

definition has_named_captures :: "re_parse_state \<Rightarrow> (re_parse_state \<times> bool) option" where
  "has_named_captures s = do {
     (s, _) \<leftarrow> (if re_has_named_captures s < 0 then re_count_captures s else Some (s, 0));
     Some (s, re_has_named_captures s \<noteq> 0) }"

text \<open>The names parsed so far are zero terminated strings, one for each group.\<close>

function find_name_loop :: "bytes \<Rightarrow> bytes \<Rightarrow> nat \<Rightarrow> int \<Rightarrow> int option" where
  "find_name_loop names name p capture_index =
     (if p < length names then
        let len = strlen (drop p names) in
        if p + len \<ge> length names then None
        else if len = strlen name \<and> take len (drop p names) = take len name then Some capture_index
        else find_name_loop names name (p + len + 1) (capture_index + 1)
      else Some (-1))"
  by pat_completeness auto
termination by (relation "measure (\<lambda>(names, name, p, i). length names - p)") auto

declare find_name_loop.simps [simp del]

definition find_group_name :: "re_parse_state \<Rightarrow> bytes \<Rightarrow> int option" where
  "find_group_name s name = find_name_loop (contents (re_group_names s)) name 0 1"

end
