(* ===== verification/RegexpExec.thy ===== *)
theory RegexpExec
  imports RegexpChars
begin

text \<open>
  The backtracking matcher of \<^verbatim>\<open>libregexp.c\<close> (\<^verbatim>\<open>push_state\<close>, \<^verbatim>\<open>lre_exec_backtrack\<close>, \<^verbatim>\<open>lre_exec\<close> and the
  accessors of the byte code's header). \<open>re_exec_context\<close> holds the fields of \<^verbatim>\<open>REExecContext\<close> that a run
  does not change, \<open>re_memory\<close> the memory it writes: the captures, the operand stack (an array of
  \<^verbatim>\<open>stack_size_max\<close> words) and the growable stack of saved states. \<open>re_regs\<close> are the local
  variables \<^verbatim>\<open>pc\<close>, \<^verbatim>\<open>cptr\<close> and \<^verbatim>\<open>stack_len\<close>. A null capture is \<open>None\<close>. Every read or write outside its
  block, every failed \<^verbatim>\<open>assert\<close> and the \<^verbatim>\<open>abort\<close> of an unknown opcode is \<open>None\<close>.
\<close>

section \<open>State\<close>

datatype (plugins only: size code) re_exec_state_type =
    RE_EXEC_STATE_SPLIT | RE_EXEC_STATE_LOOKAHEAD | RE_EXEC_STATE_NEGATIVE_LOOKAHEAD
  | RE_EXEC_STATE_GREEDY_QUANT

record re_exec_state =
  rs_type :: re_exec_state_type
  rs_stack_len :: nat
  rs_count :: nat
  rs_cptr :: nat
  rs_pc :: nat
  rs_capture :: "nat option list"
  rs_stack :: "u64 list"

text \<open>
  \<open>cbuf_addr\<close> is the address of the subject, which the byte code can push on the operand stack as
  an integer. The blocks of saved states come from \<open>lre_realloc\<close>, counted in states: a state's size is a
  constant of the run, at most 255 * 16 + 255 * 8 + 32 bytes.
\<close>

record re_exec_context =
  bc_buf :: bytes
  cbuf :: bytes
  cbuf_end :: nat
  cbuf_type :: nat
  capture_count :: nat
  stack_size_max :: nat
  multi_line :: bool
  ignore_case :: bool
  is_utf16 :: bool
  cbuf_addr :: nat
  lre_realloc :: "re_exec_state realloc_fun"

record re_memory =
  capture :: "nat option list"
  re_stack :: "u64 list"
  state_stack :: "re_exec_state list"
  state_stack_size :: nat
  state_stack_len :: nat
  re_requests :: nat

record re_regs =
  re_pc :: nat
  re_cptr :: nat
  re_stack_len :: int

section \<open>Saved states\<close>

definition grow_states :: "re_exec_context \<Rightarrow> re_memory \<Rightarrow> re_memory \<times> int" where
  "grow_states s m =
     (if state_stack_len m + 1 > state_stack_size m then
        let new_size = state_stack_size m * 3 div 2;
            new_size = (if new_size < 8 then 8 else new_size)
        in case lre_realloc s (re_requests m) (state_stack m) new_size of
             None \<Rightarrow> (m\<lparr>re_requests := re_requests m + 1\<rparr>, -1)
           | Some new_stack \<Rightarrow>
               (m\<lparr>state_stack := new_stack, state_stack_size := new_size,
                  re_requests := re_requests m + 1\<rparr>, 0)
      else (m, 0))"

text \<open>
  The state keeps the low eight bits of the stack length. \<^verbatim>\<open>stack_len\<close> words are copied, so the length
  has to be within the stack; a negative length would be a huge unsigned count.
\<close>

definition push_state ::
  "re_exec_context \<Rightarrow> re_memory \<Rightarrow> int \<Rightarrow> nat \<Rightarrow> nat \<Rightarrow> re_exec_state_type \<Rightarrow> nat \<Rightarrow> (re_memory \<times> int) option" where
  "push_state s m stack_len pc cptr ty cnt =
     (case grow_states s m of
        (m, r) \<Rightarrow>
          if r \<noteq> 0 then Some (m, -1)
          else if 0 \<le> stack_len \<and> nat stack_len \<le> length (re_stack m) \<and> nat stack_len \<le> stack_size_max s \<and>
                  2 * capture_count s \<le> length (capture m) then
            Some (m\<lparr>state_stack := (state_stack m)
                     [state_stack_len m :=
                        \<lparr>rs_type = ty, rs_stack_len = nat stack_len mod 256, rs_count = cnt,
                         rs_cptr = cptr, rs_pc = pc,
                         rs_capture = take (2 * capture_count s) (capture m),
                         rs_stack = take (nat stack_len) (re_stack m)\<rparr>],
                    state_stack_len := state_stack_len m + 1\<rparr>, 0)
          else None)"

definition restore_capture :: "re_exec_state \<Rightarrow> re_memory \<Rightarrow> re_memory" where
  "restore_capture rs m = m\<lparr>capture := blit (capture m) 0 (rs_capture rs)\<rparr>"

definition restore_stack :: "re_exec_state \<Rightarrow> re_memory \<Rightarrow> re_memory" where
  "restore_stack rs m = m\<lparr>re_stack := blit (re_stack m) 0 (take (rs_stack_len rs) (rs_stack rs))\<rparr>"

definition saved_regs :: "re_exec_state \<Rightarrow> re_regs" where
  "saved_regs rs = \<lparr>re_pc = rs_pc rs, re_cptr = rs_cptr rs, re_stack_len = int (rs_stack_len rs)\<rparr>"

text \<open>A jump adds a signed 32-bit offset to a pointer into the byte code.\<close>

definition jump :: "nat \<Rightarrow> u32 \<Rightarrow> nat option" where
  "jump pc val = (let q = int pc + sint val in if 0 \<le> q then Some (nat q) else None)"

fun prev_chars :: "re_exec_context \<Rightarrow> nat \<Rightarrow> nat \<Rightarrow> nat option" where
  "prev_chars s 0 cptr = Some cptr"
| "prev_chars s (Suc n) cptr = do { p \<leftarrow> PREV_CHAR (cbuf_type s) (cbuf s) cptr 0; prev_chars s n p }"

text \<open>
  \<open>re_recurse\<close> is the loop at label \<^verbatim>\<open>recurse\<close>: it discards saved states until one takes over.
  \<open>n\<close> is \<^verbatim>\<open>state_stack_len\<close> at the head of the loop.
\<close>

datatype re_step =
    Step re_memory re_regs
  | No_match re_memory
  | Matched re_memory nat
  | Return re_memory int

fun re_recurse :: "re_exec_context \<Rightarrow> re_memory \<Rightarrow> bool \<Rightarrow> nat \<Rightarrow> re_step option" where
  "re_recurse s m ret 0 = Some (Return (m\<lparr>state_stack_len := 0\<rparr>) (if ret then 1 else 0))"
| "re_recurse s m ret (Suc n) =
     (if n \<ge> length (state_stack m) then None
      else let rs = state_stack m ! n in
        case rs_type rs of
          RE_EXEC_STATE_SPLIT \<Rightarrow>
            if \<not> ret then
              Some (Step (restore_stack rs (restore_capture rs m)\<lparr>state_stack_len := n\<rparr>) (saved_regs rs))
            else re_recurse s m ret n
        | RE_EXEC_STATE_GREEDY_QUANT \<Rightarrow>
            if \<not> ret then do {
              char_count \<leftarrow> rd32 (bc_buf s) (rs_pc rs + 12);
              cptr \<leftarrow> prev_chars s (unat char_count) (rs_cptr rs);
              val \<leftarrow> rd32 (bc_buf s) (rs_pc rs);
              pc \<leftarrow> jump (rs_pc rs + 16) val;
              let cnt = (rs_count rs + SIZE_MOD - 1) mod SIZE_MOD;
              let m = restore_stack rs (restore_capture rs m);
              Some (Step
                (m\<lparr>state_stack := (state_stack m)[n := rs\<lparr>rs_cptr := cptr, rs_count := cnt\<rparr>],
                   state_stack_len := if cnt = 0 then n else Suc n\<rparr>)
                \<lparr>re_pc = pc, re_cptr = cptr, re_stack_len = int (rs_stack_len rs)\<rparr>)
            } else re_recurse s m ret n
        | RE_EXEC_STATE_LOOKAHEAD \<Rightarrow>
            if ret then Some (Step (restore_stack rs m\<lparr>state_stack_len := n\<rparr>) (saved_regs rs))
            else re_recurse s m False n
        | RE_EXEC_STATE_NEGATIVE_LOOKAHEAD \<Rightarrow>
            if \<not> ret then
              Some (Step (restore_stack rs (restore_capture rs m)\<lparr>state_stack_len := n\<rparr>) (saved_regs rs))
            else re_recurse s m False n)"

section \<open>Single instructions\<close>

definition canon :: "re_exec_context \<Rightarrow> u32 \<Rightarrow> u32 option" where
  "canon s c = (if ignore_case s then lre_canonicalize c (is_utf16 s) else Some c)"

definition get_char :: "re_exec_context \<Rightarrow> nat \<Rightarrow> (u32 \<times> nat) option" where
  "get_char s cptr = GET_CHAR (cbuf_type s) (cbuf s) cptr (cbuf_end s)"

definition test_char :: "re_exec_context \<Rightarrow> re_memory \<Rightarrow> re_regs \<Rightarrow> u32 \<Rightarrow> re_step option" where
  "test_char s m r val =
     (if re_cptr r \<ge> cbuf_end s then Some (No_match m)
      else do {
        (c, cptr) \<leftarrow> get_char s (re_cptr r);
        c \<leftarrow> canon s c;
        Some (if val \<noteq> c then No_match m else Step m (r\<lparr>re_cptr := cptr\<rparr>)) })"

definition push_and_go ::
  "re_exec_context \<Rightarrow> re_memory \<Rightarrow> re_regs \<Rightarrow> nat \<Rightarrow> re_exec_state_type \<Rightarrow> nat \<Rightarrow> re_step option" where
  "push_and_go s m r saved_pc ty pc = do {
     (m, ret) \<leftarrow> push_state s m (re_stack_len r) saved_pc (re_cptr r) ty 0;
     Some (if ret < 0 then Return m (-1) else Step m (r\<lparr>re_pc := pc\<rparr>)) }"

definition exec_split :: "re_exec_context \<Rightarrow> reop \<Rightarrow> re_memory \<Rightarrow> re_regs \<Rightarrow> re_step option" where
  "exec_split s opc m r = do {
     val \<leftarrow> rd32 (bc_buf s) (re_pc r);
     let pc = re_pc r + 4;
     tgt \<leftarrow> jump pc val;
     if opc = REOP_split_next_first then push_and_go s m r tgt RE_EXEC_STATE_SPLIT pc
     else push_and_go s m r pc RE_EXEC_STATE_SPLIT tgt }"

definition exec_lookahead :: "re_exec_context \<Rightarrow> reop \<Rightarrow> re_memory \<Rightarrow> re_regs \<Rightarrow> re_step option" where
  "exec_lookahead s opc m r = do {
     val \<leftarrow> rd32 (bc_buf s) (re_pc r);
     let pc = re_pc r + 4;
     tgt \<leftarrow> jump pc val;
     push_and_go s m r tgt
       (if opc = REOP_lookahead then RE_EXEC_STATE_LOOKAHEAD else RE_EXEC_STATE_NEGATIVE_LOOKAHEAD) pc }"

definition exec_goto :: "re_exec_context \<Rightarrow> re_memory \<Rightarrow> re_regs \<Rightarrow> re_step option" where
  "exec_goto s m r = do {
     val \<leftarrow> rd32 (bc_buf s) (re_pc r);
     pc \<leftarrow> jump (re_pc r + 4) val;
     Some (Step m (r\<lparr>re_pc := pc\<rparr>)) }"

definition exec_line_start :: "re_exec_context \<Rightarrow> re_memory \<Rightarrow> re_regs \<Rightarrow> re_step option" where
  "exec_line_start s m r =
     (if re_cptr r = 0 then Some (Step m r)
      else if \<not> multi_line s then Some (No_match m)
      else do {
        c \<leftarrow> PEEK_PREV_CHAR (cbuf_type s) (cbuf s) (re_cptr r) 0;
        Some (if \<not> is_line_terminator c then No_match m else Step m r) })"

definition exec_line_end :: "re_exec_context \<Rightarrow> re_memory \<Rightarrow> re_regs \<Rightarrow> re_step option" where
  "exec_line_end s m r =
     (if re_cptr r = cbuf_end s then Some (Step m r)
      else if \<not> multi_line s then Some (No_match m)
      else do {
        c \<leftarrow> PEEK_CHAR (cbuf_type s) (cbuf s) (re_cptr r) (cbuf_end s);
        Some (if \<not> is_line_terminator c then No_match m else Step m r) })"

definition exec_any :: "re_exec_context \<Rightarrow> reop \<Rightarrow> re_memory \<Rightarrow> re_regs \<Rightarrow> re_step option" where
  "exec_any s opc m r =
     (if re_cptr r = cbuf_end s then Some (No_match m)
      else do {
        (c, cptr) \<leftarrow> get_char s (re_cptr r);
        Some (if opc = REOP_dot \<and> is_line_terminator c then No_match m else Step m (r\<lparr>re_cptr := cptr\<rparr>)) })"

definition exec_save :: "re_exec_context \<Rightarrow> nat \<Rightarrow> re_memory \<Rightarrow> re_regs \<Rightarrow> re_step option" where
  "exec_save s off m r = do {
     val \<leftarrow> rd8 (bc_buf s) (re_pc r);
     if unat val < capture_count s \<and> 2 * unat val + off < length (capture m)
     then Some (Step (m\<lparr>capture := (capture m)[2 * unat val + off := Some (re_cptr r)]\<rparr>)
                  (r\<lparr>re_pc := re_pc r + 1\<rparr>))
     else None }"

text \<open>The captures \<open>val\<close> to \<open>val2\<close> are forgotten.\<close>

function reset_captures :: "nat option list \<Rightarrow> nat \<Rightarrow> nat \<Rightarrow> nat option list" where
  "reset_captures cap val val2 =
     (if val \<le> val2 then reset_captures (cap[2 * val := None, 2 * val + 1 := None]) (val + 1) val2 else cap)"
  by pat_completeness auto
termination by (relation "measure (\<lambda>(cap, val, val2). Suc val2 - val)") auto

declare reset_captures.simps [simp del]

definition exec_save_reset :: "re_exec_context \<Rightarrow> re_memory \<Rightarrow> re_regs \<Rightarrow> re_step option" where
  "exec_save_reset s m r = do {
     val \<leftarrow> rd8 (bc_buf s) (re_pc r);
     val2 \<leftarrow> rd8 (bc_buf s) (re_pc r + 1);
     if unat val2 < capture_count s \<and> 2 * unat val2 + 1 < length (capture m)
     then Some (Step (m\<lparr>capture := reset_captures (capture m) (unat val) (unat val2)\<rparr>)
                  (r\<lparr>re_pc := re_pc r + 2\<rparr>))
     else None }"

text \<open>The operand stack grows upwards; every access is checked against the array.\<close>

definition stack_put :: "re_memory \<Rightarrow> int \<Rightarrow> u64 \<Rightarrow> re_memory option" where
  "stack_put m i v =
     (if 0 \<le> i \<and> nat i < length (re_stack m) then Some (m\<lparr>re_stack := (re_stack m)[nat i := v]\<rparr>) else None)"

definition stack_get :: "re_memory \<Rightarrow> int \<Rightarrow> u64 option" where
  "stack_get m i = (if 0 \<le> i \<and> nat i < length (re_stack m) then Some (re_stack m ! nat i) else None)"

definition exec_push_i32 :: "re_exec_context \<Rightarrow> re_memory \<Rightarrow> re_regs \<Rightarrow> re_step option" where
  "exec_push_i32 s m r = do {
     val \<leftarrow> rd32 (bc_buf s) (re_pc r);
     m \<leftarrow> stack_put m (re_stack_len r) (ucast val);
     Some (Step m (r\<lparr>re_pc := re_pc r + 4, re_stack_len := re_stack_len r + 1\<rparr>)) }"

definition exec_drop :: "re_memory \<Rightarrow> re_regs \<Rightarrow> re_step option" where
  "exec_drop m r = Some (Step m (r\<lparr>re_stack_len := re_stack_len r - 1\<rparr>))"

definition exec_loop :: "re_exec_context \<Rightarrow> re_memory \<Rightarrow> re_regs \<Rightarrow> re_step option" where
  "exec_loop s m r = do {
     val \<leftarrow> rd32 (bc_buf s) (re_pc r);
     let pc = re_pc r + 4;
     top \<leftarrow> stack_get m (re_stack_len r - 1);
     m \<leftarrow> stack_put m (re_stack_len r - 1) (top - 1);
     if top - 1 \<noteq> 0 then do { pc \<leftarrow> jump pc val; Some (Step m (r\<lparr>re_pc := pc\<rparr>)) }
     else Some (Step m (r\<lparr>re_pc := pc\<rparr>)) }"

definition char_addr :: "re_exec_context \<Rightarrow> nat \<Rightarrow> u64" where
  "char_addr s cptr = of_nat (cbuf_addr s + cptr)"

definition exec_push_char_pos :: "re_exec_context \<Rightarrow> re_memory \<Rightarrow> re_regs \<Rightarrow> re_step option" where
  "exec_push_char_pos s m r = do {
     m \<leftarrow> stack_put m (re_stack_len r) (char_addr s (re_cptr r));
     Some (Step m (r\<lparr>re_stack_len := re_stack_len r + 1\<rparr>)) }"

definition exec_bne_char_pos :: "re_exec_context \<Rightarrow> re_memory \<Rightarrow> re_regs \<Rightarrow> re_step option" where
  "exec_bne_char_pos s m r = do {
     val \<leftarrow> rd32 (bc_buf s) (re_pc r);
     let pc = re_pc r + 4;
     top \<leftarrow> stack_get m (re_stack_len r - 1);
     let r = r\<lparr>re_stack_len := re_stack_len r - 1\<rparr>;
     if top \<noteq> char_addr s (re_cptr r) then do { pc \<leftarrow> jump pc val; Some (Step m (r\<lparr>re_pc := pc\<rparr>)) }
     else Some (Step m (r\<lparr>re_pc := pc\<rparr>)) }"

definition exec_word_boundary :: "re_exec_context \<Rightarrow> reop \<Rightarrow> re_memory \<Rightarrow> re_regs \<Rightarrow> re_step option" where
  "exec_word_boundary s opc m r = do {
     v1 \<leftarrow> (if re_cptr r = 0 then Some False
            else do { c \<leftarrow> PEEK_PREV_CHAR (cbuf_type s) (cbuf s) (re_cptr r) 0; Some (is_word_char c) });
     v2 \<leftarrow> (if re_cptr r \<ge> cbuf_end s then Some False
            else do { c \<leftarrow> PEEK_CHAR (cbuf_type s) (cbuf s) (re_cptr r) (cbuf_end s); Some (is_word_char c) });
     Some (if (v1 \<noteq> v2) \<noteq> (opc = REOP_word_boundary) then No_match m else Step m r) }"

text \<open>
  A back reference compares the captured text with the text at the pointer, forwards or (inside a
  lookbehind) backwards. The loops stop at the first difference; \<open>None\<close> inside is a read outside the
  subject, \<open>Some None\<close> a mismatch.
\<close>

lemma get_char_advances: "GET_CHAR t b p e = Some (c, p') \<Longrightarrow> p < p'"
  by (auto simp: GET_CHAR_def Let_def split: Option.bind_splits if_splits)

lemma get_prev_char_recedes: "GET_PREV_CHAR t b p lo = Some (c, p') \<Longrightarrow> p' < p"
  by (auto simp: GET_PREV_CHAR_def step_back_def split: Option.bind_splits if_splits)

function compare_forward :: "re_exec_context \<Rightarrow> nat \<Rightarrow> nat \<Rightarrow> nat \<Rightarrow> nat option option" where
  "compare_forward s cptr1 cptr1_end cptr =
     (if cptr1 < cptr1_end then
        if cptr \<ge> cbuf_end s then Some None
        else case GET_CHAR (cbuf_type s) (cbuf s) cptr1 cptr1_end of
          None \<Rightarrow> None
        | Some (c1, cptr1') \<Rightarrow>
          (case get_char s cptr of
             None \<Rightarrow> None
           | Some (c2, cptr') \<Rightarrow>
             (case (canon s c1, canon s c2) of
                (Some c1, Some c2) \<Rightarrow>
                  if c1 \<noteq> c2 then Some None else compare_forward s cptr1' cptr1_end cptr'
              | _ \<Rightarrow> None))
      else Some (Some cptr))"
  by pat_completeness auto
termination
  by (relation "measure (\<lambda>(s, p, e, q). e - p)") (auto dest!: get_char_advances)

declare compare_forward.simps [simp del]

function compare_backward :: "re_exec_context \<Rightarrow> nat \<Rightarrow> nat \<Rightarrow> nat \<Rightarrow> nat option option" where
  "compare_backward s cptr1 cptr1_start cptr =
     (if cptr1 > cptr1_start then
        if cptr = 0 then Some None
        else case GET_PREV_CHAR (cbuf_type s) (cbuf s) cptr1 cptr1_start of
          None \<Rightarrow> None
        | Some (c1, cptr1') \<Rightarrow>
          (case GET_PREV_CHAR (cbuf_type s) (cbuf s) cptr 0 of
             None \<Rightarrow> None
           | Some (c2, cptr') \<Rightarrow>
             (case (canon s c1, canon s c2) of
                (Some c1, Some c2) \<Rightarrow>
                  if c1 \<noteq> c2 then Some None else compare_backward s cptr1' cptr1_start cptr'
              | _ \<Rightarrow> None))
      else Some (Some cptr))"
  by pat_completeness auto
termination
  by (relation "measure (\<lambda>(s, p, e, q). p)") (auto dest!: get_prev_char_recedes)

declare compare_backward.simps [simp del]

definition exec_back_reference :: "re_exec_context \<Rightarrow> reop \<Rightarrow> re_memory \<Rightarrow> re_regs \<Rightarrow> re_step option" where
  "exec_back_reference s opc m r = do {
     val \<leftarrow> rd8 (bc_buf s) (re_pc r);
     let r = r\<lparr>re_pc := re_pc r + 1\<rparr>;
     if unat val \<ge> capture_count s then Some (No_match m)
     else if 2 * unat val + 1 \<ge> length (capture m) then None
     else case (capture m ! (2 * unat val), capture m ! (2 * unat val + 1)) of
       (Some cptr1_start, Some cptr1_end) \<Rightarrow> do {
         res \<leftarrow> (if opc = REOP_back_reference
                then compare_forward s cptr1_start cptr1_end (re_cptr r)
                else compare_backward s cptr1_end cptr1_start (re_cptr r));
         Some (case res of None \<Rightarrow> No_match m | Some cptr \<Rightarrow> Step m (r\<lparr>re_cptr := cptr\<rparr>)) }
     | _ \<Rightarrow> Some (Step m r) }"

text \<open>
  The binary search of \<^verbatim>\<open>REOP_range\<close> and \<^verbatim>\<open>REOP_range32\<close>. \<open>rd\<close> reads a bound, \<open>w\<close> is its width in
  bytes; the indices are 32-bit and wrap.
\<close>

partial_function (option) range_search ::
  "(nat \<Rightarrow> u32 option) \<Rightarrow> nat \<Rightarrow> nat \<Rightarrow> u32 \<Rightarrow> u32 \<Rightarrow> u32 \<Rightarrow> bool option" where
  "range_search rd w pc c idx_min idx_max =
     (if idx_min \<le> idx_max then
        let idx = (idx_min + idx_max) div 2 in
        case rd (pc + unat (idx * of_nat (2 * w))) of
          None \<Rightarrow> None
        | Some low \<Rightarrow>
          (case rd (pc + unat (idx * of_nat (2 * w)) + w) of
             None \<Rightarrow> None
           | Some high \<Rightarrow>
               if c < low then range_search rd w pc c idx_min (idx - 1)
               else if c > high then range_search rd w pc c (idx + 1) idx_max
               else Some True)
      else Some False)"

text \<open>\<open>infinity\<close> is the test for a last bound 0xffff, which only the 16-bit form has.\<close>

definition range_test :: "(nat \<Rightarrow> u32 option) \<Rightarrow> nat \<Rightarrow> bool \<Rightarrow> nat \<Rightarrow> u32 \<Rightarrow> u32 \<Rightarrow> bool option" where
  "range_test rd w infinity pc n c = do {
     low \<leftarrow> rd pc;
     if c < low then Some False
     else do {
       let idx_max = n - 1;
       high \<leftarrow> rd (pc + unat (idx_max * of_nat (2 * w)) + w);
       if infinity \<and> c \<ge> 0xffff \<and> high = 0xffff then Some True
       else if c > high then Some False
       else range_search rd w pc c 0 idx_max } }"

definition exec_range_char ::
  "(nat \<Rightarrow> u32 option) \<Rightarrow> nat \<Rightarrow> bool \<Rightarrow> re_exec_context \<Rightarrow> re_memory \<Rightarrow> re_regs \<Rightarrow> re_step option" where
  "exec_range_char rd w infinity s m r = do {
     n \<leftarrow> rd16 (bc_buf s) (re_pc r);
     let pc = re_pc r + 2;
     if re_cptr r \<ge> cbuf_end s then Some (No_match m)
     else do {
       (c, cptr) \<leftarrow> get_char s (re_cptr r);
       c \<leftarrow> canon s c;
       found \<leftarrow> range_test rd w infinity pc n c;
       Some (if found then Step m (r\<lparr>re_pc := pc + 2 * w * unat n, re_cptr := cptr\<rparr>) else No_match m) } }"

definition exec_range :: "re_exec_context \<Rightarrow> re_memory \<Rightarrow> re_regs \<Rightarrow> re_step option" where
  "exec_range s = exec_range_char (rd16 (bc_buf s)) 2 True s"

definition exec_range32 :: "re_exec_context \<Rightarrow> re_memory \<Rightarrow> re_regs \<Rightarrow> re_step option" where
  "exec_range32 s = exec_range_char (rd32 (bc_buf s)) 4 False s"

definition exec_prev :: "re_exec_context \<Rightarrow> re_memory \<Rightarrow> re_regs \<Rightarrow> re_step option" where
  "exec_prev s m r =
     (if re_cptr r = 0 then Some (No_match m)
      else do { p \<leftarrow> PREV_CHAR (cbuf_type s) (cbuf s) (re_cptr r) 0; Some (Step m (r\<lparr>re_cptr := p\<rparr>)) })"

section \<open>The interpreter\<close>

text \<open>All opcodes but \<^verbatim>\<open>REOP_simple_greedy_quant\<close>, which calls the interpreter.\<close>

fun exec_op :: "re_exec_context \<Rightarrow> reop \<Rightarrow> re_memory \<Rightarrow> re_regs \<Rightarrow> re_step option" where
  "exec_op s REOP_match m r = Some (Matched m (re_cptr r))"
| "exec_op s REOP_char32 m r = do {
     val \<leftarrow> rd32 (bc_buf s) (re_pc r); test_char s m (r\<lparr>re_pc := re_pc r + 4\<rparr>) val }"
| "exec_op s REOP_char m r = do {
     val \<leftarrow> rd16 (bc_buf s) (re_pc r); test_char s m (r\<lparr>re_pc := re_pc r + 2\<rparr>) val }"
| "exec_op s REOP_split_goto_first m r = exec_split s REOP_split_goto_first m r"
| "exec_op s REOP_split_next_first m r = exec_split s REOP_split_next_first m r"
| "exec_op s REOP_lookahead m r = exec_lookahead s REOP_lookahead m r"
| "exec_op s REOP_negative_lookahead m r = exec_lookahead s REOP_negative_lookahead m r"
| "exec_op s REOP_goto m r = exec_goto s m r"
| "exec_op s REOP_line_start m r = exec_line_start s m r"
| "exec_op s REOP_line_end m r = exec_line_end s m r"
| "exec_op s REOP_dot m r = exec_any s REOP_dot m r"
| "exec_op s REOP_any m r = exec_any s REOP_any m r"
| "exec_op s REOP_save_start m r = exec_save s 0 m r"
| "exec_op s REOP_save_end m r = exec_save s 1 m r"
| "exec_op s REOP_save_reset m r = exec_save_reset s m r"
| "exec_op s REOP_push_i32 m r = exec_push_i32 s m r"
| "exec_op s REOP_drop m r = exec_drop m r"
| "exec_op s REOP_loop m r = exec_loop s m r"
| "exec_op s REOP_push_char_pos m r = exec_push_char_pos s m r"
| "exec_op s REOP_bne_char_pos m r = exec_bne_char_pos s m r"
| "exec_op s REOP_word_boundary m r = exec_word_boundary s REOP_word_boundary m r"
| "exec_op s REOP_not_word_boundary m r = exec_word_boundary s REOP_not_word_boundary m r"
| "exec_op s REOP_back_reference m r = exec_back_reference s REOP_back_reference m r"
| "exec_op s REOP_backward_back_reference m r = exec_back_reference s REOP_backward_back_reference m r"
| "exec_op s REOP_range m r = exec_range s m r"
| "exec_op s REOP_range32 m r = exec_range32 s m r"
| "exec_op s REOP_prev m r = exec_prev s m r"
| "exec_op s REOP_invalid m r = None"
| "exec_op s REOP_simple_greedy_quant m r = None"

definition fetch :: "re_exec_context \<Rightarrow> nat \<Rightarrow> reop option" where
  "fetch s pc = (if pc < length (bc_buf s) then reop_of_byte (bc_buf s ! pc) else None)"

text \<open>
  The interpreter, with fuel counted in instructions: \<open>RE_timeout\<close> is a run that has not returned when the
  fuel is used up, \<open>RE_undef\<close> an undefined one. In the mode \<^verbatim>\<open>no_recurse\<close> the C function returns
  the pointer after a match (\<open>RE_ptr\<close>), 0 or -1; an address is never one of these two.
\<close>

datatype re_value = RE_int int | RE_ptr nat

datatype re_outcome = RE_timeout | RE_undef | RE_ret re_memory re_value

datatype quant_outcome = Quant_timeout | Quant_undef | Quant_error re_memory | Quant_done re_memory nat nat

definition greedy_operands :: "re_exec_context \<Rightarrow> nat \<Rightarrow> (nat \<times> u32 \<times> u32) option" where
  "greedy_operands s pc = do {
     next_pos \<leftarrow> rd32 (bc_buf s) pc;
     quant_min \<leftarrow> rd32 (bc_buf s) (pc + 4);
     quant_max \<leftarrow> rd32 (bc_buf s) (pc + 8);
     pc' \<leftarrow> jump (pc + 16) next_pos;
     Some (pc', quant_min, quant_max) }"

fun lre_exec_backtrack :: "nat \<Rightarrow> re_exec_context \<Rightarrow> re_memory \<Rightarrow> re_regs \<Rightarrow> bool \<Rightarrow> re_outcome"
and quant_loop :: "nat \<Rightarrow> re_exec_context \<Rightarrow> re_memory \<Rightarrow> re_regs \<Rightarrow> u32 \<Rightarrow> nat \<Rightarrow> quant_outcome"
where
  "lre_exec_backtrack 0 s m r no_recurse = RE_timeout"
| "lre_exec_backtrack (Suc fuel) s m r no_recurse =
     (let resume = (\<lambda>st. case st of
          None \<Rightarrow> RE_undef
        | Some (Step m r) \<Rightarrow> lre_exec_backtrack fuel s m r no_recurse
        | Some (Return m v) \<Rightarrow> RE_ret m (RE_int v)
        | Some _ \<Rightarrow> RE_undef);
          no_match = (\<lambda>m. if no_recurse then RE_ret m (RE_int 0)
                          else resume (re_recurse s m False (state_stack_len m)))
      in case fetch s (re_pc r) of
        None \<Rightarrow> RE_undef
      | Some opc \<Rightarrow>
          let r = r\<lparr>re_pc := re_pc r + 1\<rparr> in
          if opc = REOP_simple_greedy_quant then
            (case greedy_operands s (re_pc r) of
               None \<Rightarrow> RE_undef
             | Some (pc', quant_min, quant_max) \<Rightarrow>
                 (case quant_loop fuel s m (r\<lparr>re_pc := re_pc r + 16\<rparr>) quant_max 0 of
                    Quant_timeout \<Rightarrow> RE_timeout
                  | Quant_undef \<Rightarrow> RE_undef
                  | Quant_error m \<Rightarrow> RE_ret m (RE_int (-1))
                  | Quant_done m cptr q \<Rightarrow>
                      if q < unat quant_min then no_match m
                      else if q > unat quant_min then
                        (case push_state s m (re_stack_len r) (re_pc r) cptr
                                RE_EXEC_STATE_GREEDY_QUANT (q - unat quant_min) of
                           None \<Rightarrow> RE_undef
                         | Some (m, ret) \<Rightarrow>
                             if ret < 0 then RE_ret m (RE_int (-1))
                             else lre_exec_backtrack fuel s m (r\<lparr>re_pc := pc', re_cptr := cptr\<rparr>) no_recurse)
                      else lre_exec_backtrack fuel s m (r\<lparr>re_pc := pc', re_cptr := cptr\<rparr>) no_recurse))
          else
            (case exec_op s opc m r of
               None \<Rightarrow> RE_undef
             | Some (Step m r) \<Rightarrow> lre_exec_backtrack fuel s m r no_recurse
             | Some (Return m v) \<Rightarrow> RE_ret m (RE_int v)
             | Some (No_match m) \<Rightarrow> no_match m
             | Some (Matched m cptr) \<Rightarrow>
                 if no_recurse then RE_ret m (RE_ptr cptr)
                 else resume (re_recurse s m True (state_stack_len m))))"
| "quant_loop 0 s m r quant_max q = Quant_timeout"
| "quant_loop (Suc fuel) s m r quant_max q =
     (case lre_exec_backtrack fuel s m r True of
        RE_timeout \<Rightarrow> Quant_timeout
      | RE_undef \<Rightarrow> Quant_undef
      | RE_ret m (RE_int v) \<Rightarrow>
          if v = -1 then Quant_error m
          else if v = 0 then Quant_done m (re_cptr r) q
          else Quant_undef
      | RE_ret m (RE_ptr p) \<Rightarrow>
          let q = (q + 1) mod SIZE_MOD in
          if q \<ge> unat quant_max \<and> quant_max \<noteq> 0x7fffffff then Quant_done m p q
          else quant_loop fuel s m (r\<lparr>re_cptr := p\<rparr>) quant_max q)"

section \<open>Entry points\<close>

abbreviation (input) RE_HEADER_FLAGS :: nat where "RE_HEADER_FLAGS \<equiv> 0"
abbreviation (input) RE_HEADER_CAPTURE_COUNT :: nat where "RE_HEADER_CAPTURE_COUNT \<equiv> 1"
abbreviation (input) RE_HEADER_STACK_SIZE :: nat where "RE_HEADER_STACK_SIZE \<equiv> 2"
abbreviation (input) RE_HEADER_LEN :: nat where "RE_HEADER_LEN \<equiv> 7"

abbreviation (input) LRE_FLAG_GLOBAL :: u8 where "LRE_FLAG_GLOBAL \<equiv> 1"
abbreviation (input) LRE_FLAG_IGNORECASE :: u8 where "LRE_FLAG_IGNORECASE \<equiv> 2"
abbreviation (input) LRE_FLAG_MULTILINE :: u8 where "LRE_FLAG_MULTILINE \<equiv> 4"
abbreviation (input) LRE_FLAG_DOTALL :: u8 where "LRE_FLAG_DOTALL \<equiv> 8"
abbreviation (input) LRE_FLAG_UTF16 :: u8 where "LRE_FLAG_UTF16 \<equiv> 16"
abbreviation (input) LRE_FLAG_STICKY :: u8 where "LRE_FLAG_STICKY \<equiv> 32"
abbreviation (input) LRE_FLAG_NAMED_GROUPS :: u8 where "LRE_FLAG_NAMED_GROUPS \<equiv> 128"

definition exec_context :: "bytes \<Rightarrow> bytes \<Rightarrow> nat \<Rightarrow> nat \<Rightarrow> nat \<Rightarrow> re_exec_state realloc_fun \<Rightarrow> re_exec_context" where
  "exec_context bc subject clen type addr rf =
     (let re_flags = bc ! RE_HEADER_FLAGS; u = (re_flags AND LRE_FLAG_UTF16 \<noteq> 0) in
      \<lparr>bc_buf = bc, cbuf = subject, cbuf_end = clen * 2 ^ type,
       cbuf_type = (if type = 1 \<and> u then 2 else type),
       capture_count = unat (bc ! RE_HEADER_CAPTURE_COUNT),
       stack_size_max = unat (bc ! RE_HEADER_STACK_SIZE),
       multi_line = (re_flags AND LRE_FLAG_MULTILINE \<noteq> 0),
       ignore_case = (re_flags AND LRE_FLAG_IGNORECASE \<noteq> 0),
       is_utf16 = u, cbuf_addr = addr, lre_realloc = rf\<rparr>)"

text \<open>
  \<open>cap\<close> is the caller's array of captures and \<open>garbage\<close> the initial contents of the stack array that
  \<^verbatim>\<open>alloca\<close> returns. The lengths are shifted as values of type \<^verbatim>\<open>int\<close>, which must not overflow. The result is that of \<^verbatim>\<open>lre_exec_backtrack\<close>; the states are freed.
\<close>

definition clear_captures :: "nat \<Rightarrow> nat option list \<Rightarrow> nat option list" where
  "clear_captures n cap = blit cap 0 (replicate n None)"

definition lre_exec ::
  "nat \<Rightarrow> nat option list \<Rightarrow> (nat \<Rightarrow> u64) \<Rightarrow> bytes \<Rightarrow> bytes \<Rightarrow> nat \<Rightarrow> nat \<Rightarrow> nat \<Rightarrow> nat \<Rightarrow>
   re_exec_state realloc_fun \<Rightarrow> re_outcome" where
  "lre_exec fuel cap garbage bc subject cindex clen type addr rf =
     (let s = exec_context bc subject clen type addr rf in
      if clen * 2 ^ type \<ge> 2 ^ 31 \<or> cindex * 2 ^ type \<ge> 2 ^ 31 \<or> length cap < 2 * capture_count s then RE_undef
      else lre_exec_backtrack fuel s
        \<lparr>capture = clear_captures (2 * capture_count s) cap,
         re_stack = map garbage [0 ..< stack_size_max s],
         state_stack = [], state_stack_size = 0, state_stack_len = 0, re_requests = 0\<rparr>
        \<lparr>re_pc = RE_HEADER_LEN, re_cptr = cindex * 2 ^ type, re_stack_len = 0\<rparr> False)"

definition lre_get_capture_count :: "bytes \<Rightarrow> nat" where
  "lre_get_capture_count bc = unat (bc ! RE_HEADER_CAPTURE_COUNT)"

definition lre_get_flags :: "bytes \<Rightarrow> u8" where
  "lre_get_flags bc = bc ! RE_HEADER_FLAGS"

definition lre_get_groupnames :: "bytes \<Rightarrow> nat option" where
  "lre_get_groupnames bc =
     (if lre_get_flags bc AND LRE_FLAG_NAMED_GROUPS = 0 then None
      else Some (7 + unat (get_u32 bc 3)))"

end
