(* ===== verification/RegexpCompile.thy ===== *)
theory RegexpCompile
  imports RegexpParse RegexpExec
begin

text \<open>
  The parser and code generator of the regular expression compiler: terms, quantifiers, alternatives, disjunctions and
  \<^verbatim>\<open>lre_compile\<close>. A function of the C source that returns an \<^verbatim>\<open>int\<close> status returns it here with the new
  state. \<open>None\<close> is a step without a defined result (a read or write outside its block, a failed assertion) or
  used-up fuel; the mutually recursive functions take fuel for their depth.
\<close>

definition bsize :: "re_parse_state \<Rightarrow> nat" where
  "bsize s = dbuf_size (byte_code s)"

definition fail :: "re_parse_state \<Rightarrow> string \<Rightarrow> (re_parse_state \<times> 'a option) option" where
  "fail s txt = Some (fst (re_parse_error s txt), None)"

section \<open>Quantifiers\<close>

text \<open>The quantifier at \<open>p\<close>, if there is one: offset behind it, minimum, maximum.\<close>

definition parse_braces :: "re_parse_state \<Rightarrow> nat \<Rightarrow> (re_parse_state \<times> (nat \<times> int \<times> int) option option) option" where
  "parse_braces s p1 = do {
     d \<leftarrow> src_at (re_src s) (p1 + 1);
     if \<not> is_digit d then
       if re_is_utf16 s then fail s ''invalid repetition count'' else Some (s, Some None)
     else do {
       (quant_min, p) \<leftarrow> parse_digits (re_src s) (p1 + 1) True;
       c \<leftarrow> src_at (re_src s) p;
       (quant_max, p) \<leftarrow>
         (if c = asc CHR '','' then do {
            d \<leftarrow> src_at (re_src s) (p + 1);
            if is_digit d then parse_digits (re_src s) (p + 1) True else Some (int INT32_MAX, p + 1) }
          else Some (quant_min, p));
       if quant_max < quant_min then fail s ''invalid repetition count''
       else do {
         c \<leftarrow> src_at (re_src s) p;
         if c \<noteq> asc CHR ''}'' \<and> \<not> re_is_utf16 s then Some (s, Some None)
         else do {
           (s, r) \<leftarrow> re_parse_expect s p CHR ''}'';
           Some (s, case r of None \<Rightarrow> None | Some p \<Rightarrow> Some (Some (p, quant_min, quant_max))) } } } }"

definition parse_quantifier :: "re_parse_state \<Rightarrow> nat \<Rightarrow> (re_parse_state \<times> (nat \<times> int \<times> int) option option) option" where
  "parse_quantifier s p = do {
     c \<leftarrow> src_at (re_src s) p;
     if c = asc CHR ''*'' then Some (s, Some (Some (p + 1, 0, int INT32_MAX)))
     else if c = asc CHR ''+'' then Some (s, Some (Some (p + 1, 1, int INT32_MAX)))
     else if c = asc CHR ''?'' then Some (s, Some (Some (p + 1, 0, 1)))
     else if c = asc CHR ''{'' then parse_braces s p
     else Some (s, Some None) }"

text \<open>Insertion into the byte code; -1 with the message when the buffer cannot grow.\<close>

definition insert_code :: "re_parse_state \<Rightarrow> nat \<Rightarrow> nat \<Rightarrow> re_parse_state \<times> int" where
  "insert_code s pos len =
     (case dbuf_insert (byte_code s) pos len of
        (bc, r) \<Rightarrow>
          let s = s\<lparr>byte_code := bc\<rparr> in if r \<noteq> 0 then re_parse_out_of_memory s else (s, 0))"

definition copy_atom :: "re_parse_state \<Rightarrow> nat \<Rightarrow> nat \<Rightarrow> re_parse_state" where
  "copy_atom s pos len = s\<lparr>byte_code := fst (dbuf_put_self (byte_code s) pos len)\<rparr>"

text \<open>An atom that is a straight line of \<open>len > 0\<close> characters: a greedy loop in one instruction.\<close>

definition emit_greedy ::
  "re_parse_state \<Rightarrow> nat \<Rightarrow> u32 \<Rightarrow> u32 \<Rightarrow> u32 \<Rightarrow> (re_parse_state \<times> int) option" where
  "emit_greedy s pos quant_min quant_max len =
     (case insert_code (re_emit_op s REOP_match) pos 17 of
        (s, r) \<Rightarrow>
          if r \<noteq> 0 then Some (s, r)
          else do {
            s \<leftarrow> poke s pos (reop_code REOP_simple_greedy_quant);
            s \<leftarrow> poke_u32 s (pos + 1) (of_nat (bsize s - pos - 17));
            s \<leftarrow> poke_u32 s (pos + 5) quant_min;
            s \<leftarrow> poke_u32 s (pos + 9) quant_max;
            s \<leftarrow> poke_u32 s (pos + 13) len;
            Some (s, 0) })"

definition split_op :: "bool \<Rightarrow> reop" where
  "split_op greedy = (if greedy then REOP_split_next_first else REOP_split_goto_first)"

text \<open>
  \<open>quant_min\<close> is 0. Captures of the atom are reset first, in case it is not executed; \<open>pos\<close> is then its start,
  \<open>len\<close> its length.
\<close>

definition emit_reset ::
  "re_parse_state \<Rightarrow> nat \<Rightarrow> nat \<Rightarrow> ((re_parse_state \<times> nat) \<times> int) option" where
  "emit_reset s pos last_capture_count =
     (if last_capture_count \<noteq> re_capture_count s then
        (case insert_code s pos 3 of
           (s, r) \<Rightarrow>
             if r \<noteq> 0 then Some ((s, pos), r)
             else do {
               s \<leftarrow> poke s pos (reop_code REOP_save_reset);
               s \<leftarrow> poke s (pos + 1) (of_nat last_capture_count);
               s \<leftarrow> poke s (pos + 2) (of_nat (re_capture_count s - 1));
               Some ((s, pos + 3), 0) })
      else Some ((s, pos), 0))"

definition emit_optional ::
  "re_parse_state \<Rightarrow> nat \<Rightarrow> nat \<Rightarrow> bool \<Rightarrow> (re_parse_state \<times> int) option" where
  "emit_optional s pos len greedy =
     (case insert_code s pos 5 of
        (s, r) \<Rightarrow>
          if r \<noteq> 0 then Some (s, r)
          else do {
            s \<leftarrow> poke s pos (reop_code (split_op greedy));
            s \<leftarrow> poke_u32 s (pos + 1) (of_nat len);
            Some (s, 0) })"

definition emit_star ::
  "re_parse_state \<Rightarrow> nat \<Rightarrow> nat \<Rightarrow> bool \<Rightarrow> bool \<Rightarrow> (re_parse_state \<times> int) option" where
  "emit_star s pos len greedy add_check =
     (let k = (if add_check then 1 else 0) in
      case insert_code s pos (5 + k) of
        (s, r) \<Rightarrow>
          if r \<noteq> 0 then Some (s, r)
          else do {
            s \<leftarrow> poke s pos (reop_code (split_op greedy));
            s \<leftarrow> poke_u32 s (pos + 1) (of_nat (len + 5 + k));
            if add_check then do {
              s \<leftarrow> poke s (pos + 1 + 4) (reop_code REOP_push_char_pos);
              Some (fst (re_emit_goto s REOP_bne_char_pos (of_nat pos)), 0) }
            else Some (fst (re_emit_goto s REOP_goto (of_nat pos)), 0) })"

definition emit_at_most ::
  "re_parse_state \<Rightarrow> nat \<Rightarrow> nat \<Rightarrow> u32 \<Rightarrow> bool \<Rightarrow> (re_parse_state \<times> int) option" where
  "emit_at_most s pos len quant_max greedy =
     (case insert_code s pos 10 of
        (s, r) \<Rightarrow>
          if r \<noteq> 0 then Some (s, r)
          else do {
            s \<leftarrow> poke s pos (reop_code REOP_push_i32);
            s \<leftarrow> poke_u32 s (pos + 1) quant_max;
            s \<leftarrow> poke s (pos + 5) (reop_code (split_op greedy));
            s \<leftarrow> poke_u32 s (pos + 6) (of_nat (len + 5));
            let s = fst (re_emit_goto s REOP_loop (of_nat (pos + 5)));
            Some (re_emit_op s REOP_drop, 0) })"

text \<open>\<open>quant_min\<close> is at least 1: the required repetitions, then a copy of the atom for the optional ones.\<close>

definition emit_at_least ::
  "re_parse_state \<Rightarrow> nat \<Rightarrow> nat \<Rightarrow> u32 \<Rightarrow> ((re_parse_state \<times> nat) \<times> int) option" where
  "emit_at_least s pos len quant_min =
     (if quant_min = 1 then Some ((s, pos), 0)
      else case insert_code s pos 5 of
        (s, r) \<Rightarrow>
          if r \<noteq> 0 then Some ((s, pos), r)
          else do {
            s \<leftarrow> poke s pos (reop_code REOP_push_i32);
            s \<leftarrow> poke_u32 s (pos + 1) quant_min;
            let s = fst (re_emit_goto s REOP_loop (of_nat (pos + 5)));
            Some ((re_emit_op s REOP_drop, pos + 5), 0) })"

definition emit_more ::
  "re_parse_state \<Rightarrow> nat \<Rightarrow> nat \<Rightarrow> int \<Rightarrow> int \<Rightarrow> bool \<Rightarrow> bool \<Rightarrow> re_parse_state" where
  "emit_more s atom len quant_min quant_max greedy add_check =
     (if quant_max = int INT32_MAX then
        let pos = bsize s;
            k = (if add_check then 1 else 0);
            s = fst (re_emit_op_u32 s (split_op greedy) (of_nat (len + 5 + k)));
            s = (if add_check then re_emit_op s REOP_push_char_pos else s);
            s = copy_atom s atom len
        in fst (re_emit_goto s (if add_check then REOP_bne_char_pos else REOP_goto) (of_nat pos))
      else if quant_max > quant_min then
        let s = fst (re_emit_op_u32 s REOP_push_i32 (of_int (quant_max - quant_min)));
            pos = bsize s;
            s = fst (re_emit_op_u32 s (split_op greedy) (of_nat (len + 5)));
            s = copy_atom s atom len;
            s = fst (re_emit_goto s REOP_loop (of_nat pos))
        in re_emit_op s REOP_drop
      else s)"

definition emit_loops ::
  "re_parse_state \<Rightarrow> nat \<Rightarrow> nat \<Rightarrow> int \<Rightarrow> int \<Rightarrow> bool \<Rightarrow> bool \<Rightarrow> (re_parse_state \<times> int) option" where
  "emit_loops s pos last_capture_count quant_min quant_max greedy add_check =
     (let len = bsize s - pos in
      if quant_min = 0 then do {
        ((s, pos), r) \<leftarrow> emit_reset s pos last_capture_count;
        if r \<noteq> 0 then Some (s, r)
        else if quant_max = 0 then Some (s\<lparr>byte_code := byte_code s\<lparr>dbuf_size := pos\<rparr>\<rparr>, 0)
        else if quant_max = 1 then emit_optional s pos len greedy
        else if quant_max = int INT32_MAX then emit_star s pos len greedy add_check
        else emit_at_most s pos len (of_int quant_max) greedy }
      else if quant_min = 1 \<and> quant_max = int INT32_MAX \<and> \<not> add_check then
        Some (fst (re_emit_goto s (split_op (\<not> greedy)) (of_nat pos)), 0)
      else do {
        ((s, atom), r) \<leftarrow> emit_at_least s pos len (of_int quant_min);
        if r \<noteq> 0 then Some (s, r)
        else Some (emit_more s atom len quant_min quant_max greedy add_check, 0) })"

text \<open>\<open>pos\<close> is the start of the atom in the byte code, which reaches to its end.\<close>

definition emit_quantifier ::
  "re_parse_state \<Rightarrow> nat \<Rightarrow> nat \<Rightarrow> int \<Rightarrow> int \<Rightarrow> bool \<Rightarrow> (re_parse_state \<times> int) option" where
  "emit_quantifier s pos last_capture_count quant_min quant_max greedy =
     (let atom = drop pos (buf (byte_code s)); len = bsize s - pos in
      if greedy then
        if dbuf_error (byte_code s) then Some (re_parse_out_of_memory s)
        else do {
          n \<leftarrow> (if quant_max > 0 then re_is_simple_quantifier atom len else Some (-1));
          if n > 0 then emit_greedy s pos (of_int quant_min) (of_int quant_max) (of_int n)
          else do {
            adv \<leftarrow> re_check_advance atom len;
            emit_loops s pos last_capture_count quant_min quant_max True (adv = 0) } }
      else emit_loops s pos last_capture_count quant_min quant_max False False)"

text \<open>
  The end of \<^verbatim>\<open>re_parse_term\<close>: \<open>last\<close> is the start of the atom and the captures before it, when the term
  can be repeated. On success the parse pointer is set.
\<close>

definition finish_term ::
  "re_parse_state \<Rightarrow> nat \<Rightarrow> (nat \<times> nat) option \<Rightarrow> (re_parse_state \<times> int) option" where
  "finish_term s p lst =
     (case lst of None \<Rightarrow> Some (s\<lparr>buf_ptr := p\<rparr>, 0)
      | Some (pos, last_capture_count) \<Rightarrow> do {
          (s, q) \<leftarrow> parse_quantifier s p;
          case q of None \<Rightarrow> Some (s, -1)
          | Some None \<Rightarrow> Some (s\<lparr>buf_ptr := p\<rparr>, 0)
          | Some (Some (p, quant_min, quant_max)) \<Rightarrow> do {
              c \<leftarrow> src_at (re_src s) p;
              let lazy = (c = asc CHR ''?'');
              (s, r) \<leftarrow> emit_quantifier s pos last_capture_count quant_min quant_max (\<not> lazy);
              Some (if r \<noteq> 0 then (s, -1) else (s\<lparr>buf_ptr := if lazy then p + 1 else p\<rparr>, 0)) } })"

section \<open>Atoms\<close>

text \<open>
  An atom gives the offset behind it and, when it can be repeated, where its code starts and how many
  captures there were before it.
\<close>

type_synonym atom_end = "nat \<times> (nat \<times> nat) option"

definition emit_prev :: "re_parse_state \<Rightarrow> bool \<Rightarrow> re_parse_state" where
  "emit_prev s is_backward_dir = (if is_backward_dir then re_emit_op s REOP_prev else s)"

text \<open>The code at label \<^verbatim>\<open>normal_char\<close>, for a character or a class range.\<close>

definition emit_char :: "re_parse_state \<Rightarrow> u32 \<Rightarrow> re_parse_state option" where
  "emit_char s c = do {
     c \<leftarrow> (if re_ignore_case s then lre_canonicalize c (re_is_utf16 s) else Some c);
     Some (if c \<le> 0xffff then re_emit_op_u16 s REOP_char c else fst (re_emit_op_u32 s REOP_char32 c)) }"

definition normal_char ::
  "re_parse_state \<Rightarrow> nat \<Rightarrow> u32 \<Rightarrow> char_range option \<Rightarrow> bool \<Rightarrow> (re_parse_state \<times> atom_end option) option" where
  "normal_char s p c cr is_backward_dir =
     (let lst = Some (bsize s, re_capture_count s); s = emit_prev s is_backward_dir in
      if c \<ge> CLASS_RANGE_BASE then
        case cr of None \<Rightarrow> None
        | Some cr \<Rightarrow> do {
            (s, r) \<leftarrow> re_emit_range s cr;
            let s = release s cr;
            Some (if r \<noteq> 0 then (s, None) else (emit_prev s is_backward_dir, Some (p, lst))) }
      else do {
        s \<leftarrow> emit_char s c;
        Some (emit_prev s is_backward_dir, Some (p, lst)) })"

definition parse_class_atom ::
  "re_parse_state \<Rightarrow> nat \<Rightarrow> bool \<Rightarrow> (re_parse_state \<times> atom_end option) option" where
  "parse_class_atom s p is_backward_dir = do {
     (s, a) \<leftarrow> get_class_atom s p False;
     case a of None \<Rightarrow> Some (s, None) | Some (c, p, cr) \<Rightarrow> normal_char s p c cr is_backward_dir }"

definition emit_back_reference ::
  "re_parse_state \<Rightarrow> nat \<Rightarrow> int \<Rightarrow> bool \<Rightarrow> (re_parse_state \<times> atom_end option) option" where
  "emit_back_reference s p c is_backward_dir =
     (let lst = Some (bsize s, re_capture_count s) in
      Some (re_emit_op_u8 s (if is_backward_dir then REOP_backward_back_reference else REOP_back_reference) (of_int c),
            Some (p, lst)))"

text \<open>\<^verbatim>\<open>\k<name>\<close>; \<open>p\<close> is the offset of the backslash. Without unicode mode a malformed one is an ordinary atom.\<close>

definition named_or_atom ::
  "re_parse_state \<Rightarrow> nat \<Rightarrow> string \<Rightarrow> bool \<Rightarrow> (re_parse_state \<times> atom_end option) option" where
  "named_or_atom s p txt is_backward_dir =
     (if re_is_utf16 s then fail s txt
      else do {
        (s, named) \<leftarrow> has_named_captures s;
        if named then fail s txt else parse_class_atom s p is_backward_dir })"

definition parse_named_reference ::
  "re_parse_state \<Rightarrow> nat \<Rightarrow> bool \<Rightarrow> (re_parse_state \<times> atom_end option) option" where
  "parse_named_reference s p is_backward_dir = do {
     d \<leftarrow> src_at (re_src s) (p + 2);
     if d \<noteq> asc CHR ''<'' then named_or_atom s p ''expecting group name'' is_backward_dir
     else do {
       g \<leftarrow> re_parse_group_name (re_src s) TMP_BUF_SIZE (p + 3) (re_is_utf16 s);
       case g of None \<Rightarrow> named_or_atom s p ''invalid group name'' is_backward_dir
       | Some (name, q) \<Rightarrow> do {
           let s = s\<lparr>re_u := name\<rparr>;
           c \<leftarrow> find_group_name s name;
           if c \<ge> 0 then emit_back_reference s q c is_backward_dir
           else do {
             (c, _) \<leftarrow> re_parse_captures s (Some name);
             if c \<ge> 0 then emit_back_reference s q c is_backward_dir
             else named_or_atom s p ''group name not defined'' is_backward_dir } } } }"

text \<open>Legacy octal digits at \<open>p\<close>, at most \<open>n\<close>; \<open>c\<close> is the value so far.\<close>

fun octal_digits :: "bytes \<Rightarrow> nat \<Rightarrow> nat \<Rightarrow> u32 \<Rightarrow> (u32 \<times> nat) option" where
  "octal_digits src p 0 c = Some (c, p)"
| "octal_digits src p (Suc n) c = do {
     d \<leftarrow> src_at src p;
     if asc CHR ''0'' \<le> d \<and> d \<le> asc CHR ''7'' then octal_digits src (p + 1) n (push_bit 3 c + (d - asc CHR ''0''))
     else Some (c, p) }"

definition parse_nul_escape ::
  "re_parse_state \<Rightarrow> nat \<Rightarrow> bool \<Rightarrow> (re_parse_state \<times> atom_end option) option" where
  "parse_nul_escape s p is_backward_dir =
     (if re_is_utf16 s then do {
        d \<leftarrow> src_at (re_src s) (p + 2);
        if is_digit d then fail s ''invalid decimal escape in regular expression''
        else normal_char s (p + 2) 0 None is_backward_dir }
      else do {
        (c, q) \<leftarrow> octal_digits (re_src s) (p + 2) 2 0;
        normal_char s q c None is_backward_dir })"

definition legacy_octal :: "bytes \<Rightarrow> nat \<Rightarrow> (u32 \<times> nat) option" where
  "legacy_octal src q = do {
     d \<leftarrow> src_at src q;
     if d \<le> asc CHR ''7'' then
       if d \<le> asc CHR ''3'' then octal_digits src (q + 1) 2 (d - asc CHR ''0'') else octal_digits src q 2 0
     else Some (d, q + 1) }"

definition parse_numeric_reference ::
  "re_parse_state \<Rightarrow> nat \<Rightarrow> bool \<Rightarrow> (re_parse_state \<times> atom_end option) option" where
  "parse_numeric_reference s p is_backward_dir = do {
     (c, q) \<leftarrow> parse_digits (re_src s) (p + 1) False;
     (s, bad) \<leftarrow>
       (if c < 0 then Some (s, True)
        else if c \<ge> int (re_capture_count s) then do { (s, n) \<leftarrow> re_count_captures s; Some (s, c \<ge> n) }
        else Some (s, False));
     if \<not> bad then emit_back_reference s q c is_backward_dir
     else if \<not> re_is_utf16 s then do {
       (c, q) \<leftarrow> legacy_octal (re_src s) (p + 1);
       normal_char s q c None is_backward_dir }
     else fail s ''back reference out of range in regular expression'' }"

definition parse_escape_atom ::
  "re_parse_state \<Rightarrow> nat \<Rightarrow> bool \<Rightarrow> (re_parse_state \<times> atom_end option) option" where
  "parse_escape_atom s p is_backward_dir = do {
     d \<leftarrow> src_at (re_src s) (p + 1);
     if d = asc CHR ''b'' then Some (re_emit_op s REOP_word_boundary, Some (p + 2, None))
     else if d = asc CHR ''B'' then Some (re_emit_op s REOP_not_word_boundary, Some (p + 2, None))
     else if d = asc CHR ''k'' then parse_named_reference s p is_backward_dir
     else if d = asc CHR ''0'' then parse_nul_escape s p is_backward_dir
     else if asc CHR ''1'' \<le> d \<and> d \<le> asc CHR ''9'' then parse_numeric_reference s p is_backward_dir
     else parse_class_atom s p is_backward_dir }"

text \<open>A \<^verbatim>\<open>{\<close> that starts a term is an atom unless it looks like a repetition count.\<close>

definition parse_open_brace ::
  "re_parse_state \<Rightarrow> nat \<Rightarrow> bool \<Rightarrow> (re_parse_state \<times> atom_end option) option" where
  "parse_open_brace s p is_backward_dir =
     (if re_is_utf16 s then fail s ''syntax error''
      else do {
        d \<leftarrow> src_at (re_src s) (p + 1);
        if \<not> is_digit d then parse_class_atom s p is_backward_dir
        else do {
          (_, p1) \<leftarrow> parse_digits (re_src s) (p + 1) True;
          c \<leftarrow> src_at (re_src s) p1;
          p1 \<leftarrow>
            (if c = asc CHR '','' then do {
               d \<leftarrow> src_at (re_src s) (p1 + 1);
               if is_digit d then map_option snd (parse_digits (re_src s) (p1 + 1) True) else Some (p1 + 1) }
             else Some p1);
          c \<leftarrow> src_at (re_src s) p1;
          if c \<noteq> asc CHR ''}'' then parse_class_atom s p is_backward_dir
          else fail s ''nothing to repeat'' } })"

text \<open>Every term that does not start with a parenthesis.\<close>

definition parse_atom ::
  "re_parse_state \<Rightarrow> nat \<Rightarrow> u32 \<Rightarrow> bool \<Rightarrow> (re_parse_state \<times> atom_end option) option" where
  "parse_atom s p c is_backward_dir =
     (let lst = Some (bsize s, re_capture_count s) in
      if c = asc CHR ''^'' then Some (re_emit_op s REOP_line_start, Some (p + 1, None))
      else if c = asc CHR ''$'' then Some (re_emit_op s REOP_line_end, Some (p + 1, None))
      else if c = asc CHR ''.'' then
        Some (emit_prev (re_emit_op (emit_prev s is_backward_dir) (if re_dotall s then REOP_any else REOP_dot))
                is_backward_dir, Some (p + 1, lst))
      else if c = asc CHR ''{'' then parse_open_brace s p is_backward_dir
      else if c = asc CHR ''*'' \<or> c = asc CHR ''+'' \<or> c = asc CHR ''?'' then fail s ''nothing to repeat''
      else if c = asc CHR 0x5c then parse_escape_atom s p is_backward_dir
      else if c = asc CHR ''['' then do {
        (s, r) \<leftarrow> re_parse_char_class (emit_prev s is_backward_dir) p;
        case r of None \<Rightarrow> Some (s, None) | Some p \<Rightarrow> Some (emit_prev s is_backward_dir, Some (p, lst)) }
      else if (c = asc CHR '']'' \<or> c = asc CHR ''}'') \<and> re_is_utf16 s then fail s ''syntax error''
      else parse_class_atom s p is_backward_dir)"

text \<open>
  What a parenthesis opens: a plain group, a lookaround (negated?, backward?), a capture, and the offset of its body.
  A group name is entered into the list of names.
\<close>

datatype group_kind = Plain_group | Lookaround bool bool | Capture_group

definition parse_group_open :: "re_parse_state \<Rightarrow> nat \<Rightarrow> (re_parse_state \<times> (group_kind \<times> nat) option) option" where
  "parse_group_open s p = do {
     a \<leftarrow> src_at (re_src s) (p + 1);
     if a \<noteq> asc CHR ''?'' then
       Some (s\<lparr>re_group_names := fst (dbuf_putc (re_group_names s) 0)\<rparr>, Some (Capture_group, p + 1))
     else do {
       b \<leftarrow> src_at (re_src s) (p + 2);
       if b = asc CHR '':'' then Some (s, Some (Plain_group, p + 3))
       else if b = asc CHR ''='' \<or> b = asc CHR ''!'' then Some (s, Some (Lookaround (b = asc CHR ''!'') False, p + 3))
       else if b = asc CHR ''<'' then do {
         c \<leftarrow> src_at (re_src s) (p + 3);
         if c = asc CHR ''='' \<or> c = asc CHR ''!'' then Some (s, Some (Lookaround (c = asc CHR ''!'') True, p + 4))
         else do {
           g \<leftarrow> re_parse_group_name (re_src s) TMP_BUF_SIZE (p + 3) (re_is_utf16 s);
           case g of None \<Rightarrow> fail s ''invalid group name''
           | Some (name, q) \<Rightarrow> do {
               let s = s\<lparr>re_u := name\<rparr>;
               i \<leftarrow> find_group_name s name;
               if i > 0 then fail s ''duplicate group name''
               else Some (s\<lparr>re_group_names := fst (dbuf_put (re_group_names s) (take (strlen name) name @ [0])),
                            re_has_named_captures := 1\<rparr>, Some (Capture_group, q)) } } }
       else fail s ''invalid group'' } }"

section \<open>The recursive parser\<close>

text \<open>The last term is moved to the front of the alternative: terms of a lookbehind run from right to left.\<close>

definition rotate_term :: "re_parse_state \<Rightarrow> nat \<Rightarrow> nat \<Rightarrow> (re_parse_state \<times> int) option" where
  "rotate_term s start term_start =
     (let fin = bsize s; term_size = fin - term_start in
      case dbuf_realloc (byte_code s) (fin + term_size) of
        (bc, r) \<Rightarrow>
          let s = s\<lparr>byte_code := bc\<rparr> in
          if r \<noteq> 0 then Some (s, -1)
          else if fin + term_size \<le> length (buf bc) then
            let b = blit (buf bc) (start + term_size) (take (fin - start) (drop start (buf bc)));
                b = blit b start (take term_size (drop fin b))
            in Some (s\<lparr>byte_code := bc\<lparr>buf := b\<rparr>\<rparr>, 0)
          else None)"

fun re_parse_term :: "nat \<Rightarrow> re_parse_state \<Rightarrow> bool \<Rightarrow> (re_parse_state \<times> int) option"
and re_parse_group :: "nat \<Rightarrow> re_parse_state \<Rightarrow> nat \<Rightarrow> bool \<Rightarrow> (re_parse_state \<times> atom_end option) option"
and re_parse_alternative :: "nat \<Rightarrow> re_parse_state \<Rightarrow> bool \<Rightarrow> nat \<Rightarrow> (re_parse_state \<times> int) option"
and re_parse_disjunction :: "nat \<Rightarrow> re_parse_state \<Rightarrow> bool \<Rightarrow> (re_parse_state \<times> int) option"
and disjunction_loop :: "nat \<Rightarrow> re_parse_state \<Rightarrow> bool \<Rightarrow> nat \<Rightarrow> (re_parse_state \<times> int) option"
where
  "re_parse_term 0 s is_backward_dir = None"
| "re_parse_term (Suc fuel) s is_backward_dir = do {
     c \<leftarrow> src_at (re_src s) (buf_ptr s);
     (s, a) \<leftarrow> (if c = asc CHR ''('' then re_parse_group fuel s (buf_ptr s) is_backward_dir
               else parse_atom s (buf_ptr s) c is_backward_dir);
     case a of None \<Rightarrow> Some (s, -1) | Some (p, lst) \<Rightarrow> finish_term s p lst }"
| "re_parse_group 0 s p is_backward_dir = None"
| "re_parse_group (Suc fuel) s p is_backward_dir = do {
     (s, g) \<leftarrow> parse_group_open s p;
     case g of None \<Rightarrow> Some (s, None)
     | Some (Plain_group, p) \<Rightarrow> do {
         let lst = Some (bsize s, re_capture_count s);
         (s, r) \<leftarrow> re_parse_disjunction fuel (s\<lparr>buf_ptr := p\<rparr>) is_backward_dir;
         if r \<noteq> 0 then Some (s, None)
         else do {
           (s, e) \<leftarrow> re_parse_expect s (buf_ptr s) CHR '')'';
           Some (s, case e of None \<Rightarrow> None | Some p \<Rightarrow> Some (p, lst)) } }
     | Some (Lookaround is_neg is_backward_lookahead, p) \<Rightarrow> do {
         let lst = (if \<not> re_is_utf16 s \<and> \<not> is_backward_lookahead then Some (bsize s, re_capture_count s) else None);
         let (s, pos) = re_emit_op_u32 s (if is_neg then REOP_negative_lookahead else REOP_lookahead) 0;
         (s, r) \<leftarrow> re_parse_disjunction fuel (s\<lparr>buf_ptr := p\<rparr>) is_backward_lookahead;
         if r \<noteq> 0 then Some (s, None)
         else do {
           (s, e) \<leftarrow> re_parse_expect s (buf_ptr s) CHR '')'';
           case e of None \<Rightarrow> Some (s, None)
           | Some p \<Rightarrow> do {
               let s = re_emit_op s REOP_match;
               if dbuf_error (byte_code s) then Some (s, None)
               else do {
                 s \<leftarrow> poke_u32 s pos (of_int (int (bsize s) - int (pos + 4)));
                 Some (s, Some (p, lst)) } } } }
     | Some (Capture_group, p) \<Rightarrow>
         if re_capture_count s \<ge> CAPTURE_COUNT_MAX then fail s ''too many captures''
         else do {
           let lst = Some (bsize s, re_capture_count s);
           let capture_index = re_capture_count s;
           let s = re_emit_op_u8 (s\<lparr>re_capture_count := capture_index + 1\<rparr>)
                     (if is_backward_dir then REOP_save_end else REOP_save_start) (of_nat capture_index);
           (s, r) \<leftarrow> re_parse_disjunction fuel (s\<lparr>buf_ptr := p\<rparr>) is_backward_dir;
           if r \<noteq> 0 then Some (s, None)
           else do {
             let p = buf_ptr s;
             let s = re_emit_op_u8 s (if is_backward_dir then REOP_save_start else REOP_save_end) (of_nat capture_index);
             (s, e) \<leftarrow> re_parse_expect s p CHR '')'';
             Some (s, case e of None \<Rightarrow> None | Some p \<Rightarrow> Some (p, lst)) } } }"
| "re_parse_alternative 0 s is_backward_dir start = None"
| "re_parse_alternative (Suc fuel) s is_backward_dir start =
     (if buf_ptr s \<ge> length (re_src s) then Some (s, 0)
      else do {
        c \<leftarrow> src_at (re_src s) (buf_ptr s);
        if c = asc CHR ''|'' \<or> c = asc CHR '')'' then Some (s, 0)
        else do {
          let term_start = bsize s;
          (s, r) \<leftarrow> re_parse_term fuel s is_backward_dir;
          if r \<noteq> 0 then Some (s, r)
          else do {
            (s, r) \<leftarrow> (if is_backward_dir then rotate_term s start term_start else Some (s, 0));
            if r \<noteq> 0 then Some (s, r) else re_parse_alternative fuel s is_backward_dir start } } })"
| "re_parse_disjunction 0 s is_backward_dir = None"
| "re_parse_disjunction (Suc fuel) s is_backward_dir =
     (let over = re_overflow s (re_checks s); s = s\<lparr>re_checks := re_checks s + 1\<rparr> in
      if over then Some (re_parse_error s ''stack overflow'')
      else do {
        let start = bsize s;
        (s, r) \<leftarrow> re_parse_alternative fuel s is_backward_dir start;
        if r \<noteq> 0 then Some (s, -1) else disjunction_loop fuel s is_backward_dir start })"
| "disjunction_loop 0 s is_backward_dir start = None"
| "disjunction_loop (Suc fuel) s is_backward_dir start = do {
     c \<leftarrow> src_at (re_src s) (buf_ptr s);
     if c \<noteq> asc CHR ''|'' then Some (s, 0)
     else do {
       let s = s\<lparr>buf_ptr := buf_ptr s + 1\<rparr>;
       let len = bsize s - start;
       let (s, r) = insert_code s start 5;
       if r \<noteq> 0 then Some (s, r)
       else do {
         s \<leftarrow> poke s start (reop_code REOP_split_next_first);
         s \<leftarrow> poke_u32 s (start + 1) (of_nat (len + 5));
         let (s, pos) = re_emit_op_u32 s REOP_goto 0;
         (s, r) \<leftarrow> re_parse_alternative fuel s is_backward_dir (bsize s);
         if r \<noteq> 0 then Some (s, -1)
         else do {
           s \<leftarrow> poke_u32 s pos (of_int (int (bsize s) - int (pos + 4)));
           disjunction_loop fuel s is_backward_dir start } } } }"

section \<open>The compiler\<close>

text \<open>
  \<open>host_bc\<close>, \<open>host_names\<close> and \<open>host_cr\<close> are the host's \<^verbatim>\<open>lre_realloc\<close>, seen by the byte code, the group
  names and the character ranges; \<open>overflow\<close> is the host's stack check.
\<close>

definition initial_state ::
  "bytes \<Rightarrow> u32 \<Rightarrow> u8 realloc_fun \<Rightarrow> u8 realloc_fun \<Rightarrow> u32 realloc_fun \<Rightarrow> (nat \<Rightarrow> bool) \<Rightarrow> re_parse_state" where
  "initial_state src re_flags host_bc host_names host_cr overflow =
     \<lparr>byte_code = dbuf_init2 (\<lambda>_ _. True) 0 0 (Some host_bc), re_src = src, buf_ptr = 0,
      re_is_utf16 = (re_flags AND 16 \<noteq> 0), re_ignore_case = (re_flags AND 2 \<noteq> 0),
      re_dotall = (re_flags AND 8 \<noteq> 0), re_capture_count = 1, re_total_capture_count = -1,
      re_has_named_captures = -1, re_group_names = dbuf_init2 (\<lambda>_ _. True) 0 0 (Some host_names),
      re_u = [], re_cr_realloc = host_cr, re_clock = 0, re_overflow = overflow, re_checks = 0\<rparr>"

definition emit_header :: "re_parse_state \<Rightarrow> u32 \<Rightarrow> re_parse_state" where
  "emit_header s re_flags =
     (let put = (\<lambda>s c. s\<lparr>byte_code := fst (dbuf_putc (byte_code s) c)\<rparr>);
          s = put (put (put s (ucast re_flags)) 0) 0
      in s\<lparr>byte_code := fst (dbuf_put_u32 (byte_code s) 0)\<rparr>)"

definition emit_prefix :: "re_parse_state \<Rightarrow> u32 \<Rightarrow> re_parse_state" where
  "emit_prefix s re_flags =
     (let s = emit_header s re_flags;
          s = (if re_flags AND 32 = 0 then
                 let s = fst (re_emit_op_u32 s REOP_split_goto_first (1 + 5));
                     s = re_emit_op s REOP_any
                 in fst (re_emit_op_u32 s REOP_goto (- (5 + 1 + 5)))
               else s)
      in re_emit_op_u8 s REOP_save_start 0)"

text \<open>The result is the error message or the byte code.\<close>

definition finish_compile :: "re_parse_state \<Rightarrow> (bytes + bytes) option" where
  "finish_compile s =
     (let s = re_emit_op (re_emit_op_u8 s REOP_save_end 0) REOP_match;
          error = (\<lambda>s txt. Some (Inl (re_u (fst (re_parse_error s txt))))) in do {
      c \<leftarrow> src_at (re_src s) (buf_ptr s);
      if c \<noteq> 0 then error s ''extraneous characters at the end''
      else if dbuf_error (byte_code s) then error s ''out of memory''
      else do {
        stack_size \<leftarrow> compute_stack_size (buf (byte_code s)) (bsize s);
        if stack_size < 0 then error s ''too many imbricated quantifiers''
        else do {
          s \<leftarrow> poke s RE_HEADER_CAPTURE_COUNT (of_nat (re_capture_count s));
          s \<leftarrow> poke s RE_HEADER_STACK_SIZE (of_int stack_size);
          s \<leftarrow> poke_u32 s 3 (of_nat (bsize s - RE_HEADER_LEN));
          s \<leftarrow> (if dbuf_size (re_group_names s) > re_capture_count s - 1 then
                 poke (s\<lparr>byte_code := fst (dbuf_put (byte_code s) (contents (re_group_names s)))\<rparr>)
                   RE_HEADER_FLAGS (buf (byte_code s) ! RE_HEADER_FLAGS OR LRE_FLAG_NAMED_GROUPS)
               else Some s);
          Some (Inr (contents (byte_code s))) } } })"

definition lre_compile ::
  "nat \<Rightarrow> bytes \<Rightarrow> u32 \<Rightarrow> u8 realloc_fun \<Rightarrow> u8 realloc_fun \<Rightarrow> u32 realloc_fun \<Rightarrow> (nat \<Rightarrow> bool) \<Rightarrow>
   (bytes + bytes) option" where
  "lre_compile fuel src re_flags host_bc host_names host_cr overflow = do {
     (s, r) \<leftarrow> re_parse_disjunction fuel
       (emit_prefix (initial_state src re_flags host_bc host_names host_cr overflow) re_flags) False;
     if r \<noteq> 0 then Some (Inl (re_u s)) else finish_compile s }"

end
