(* ===== verification/RegexpTyping.thy ===== *)
theory RegexpTyping
  imports RegexpExec
begin

text \<open>
  A type discipline for byte code in the manner of a bytecode verifier: a typing relates reachable code
  positions to the depth of the operand stack there. Well-typed code never runs into an undefined step:
  every access to byte code, subject, captures and operand stack is inside its block.
\<close>

section \<open>Stepping back over what was read\<close>

locale char_cursor =
  fixes nxt :: "nat \<Rightarrow> nat option" and prv :: "nat \<Rightarrow> nat option" and inside :: "nat \<Rightarrow> bool"
  assumes nxt_outside: "nxt p = Some q \<Longrightarrow> \<not> inside q"
    and prv_nxt: "nxt p = Some q \<Longrightarrow> \<not> inside p \<Longrightarrow> prv q = Some p"
    and prv_defined: "nxt p = Some q \<Longrightarrow> \<exists>p'. prv q = Some p'"
begin

fun nxts :: "nat \<Rightarrow> nat \<Rightarrow> nat option" where
  "nxts 0 p = Some p"
| "nxts (Suc n) p = do { q \<leftarrow> nxt p; nxts n q }"

fun prvs :: "nat \<Rightarrow> nat \<Rightarrow> nat option" where
  "prvs 0 p = Some p"
| "prvs (Suc n) p = do { q \<leftarrow> prv p; prvs n q }"

lemma prvs_add: "prvs (a + b) p = do { q \<leftarrow> prvs a p; prvs b q }"
  by (induction a arbitrary: p) (auto split: Option.bind_splits)

lemma nxts_add: "nxts (a + b) p = do { q \<leftarrow> nxts a p; nxts b q }"
  by (induction a arbitrary: p) (auto split: Option.bind_splits)

lemma prvs_nxts: "nxts n p = Some q \<Longrightarrow> \<not> inside p \<Longrightarrow> prvs n q = Some p"
proof (induction n arbitrary: p)
  case (Suc n)
  from Suc.prems obtain p1 where p1: "nxt p = Some p1" "nxts n p1 = Some q"
    by (auto split: Option.bind_splits)
  have "prvs n q = Some p1" using Suc.IH [OF p1(2)] nxt_outside [OF p1(1)] .
  then show ?case using prvs_add [of n 1 q] prv_nxt [OF p1(1) Suc.prems(2)] by simp
qed simp

lemma prvs_nxts_defined:
  assumes "nxts n p = Some q"
  shows "\<exists>p'. prvs n q = Some p'"
proof (cases n)
  case (Suc k)
  with assms obtain p1 where p1: "nxt p = Some p1" "nxts k p1 = Some q"
    by (auto split: Option.bind_splits)
  have "prvs k q = Some p1" using prvs_nxts [OF p1(2) nxt_outside [OF p1(1)]] .
  then show ?thesis using prvs_add [of k 1 q] prv_defined [OF p1(1)] Suc by auto
qed simp

end

text \<open>
  The provider: forward steps of the matcher from well placed positions, backward steps by \<^verbatim>\<open>PREV_CHAR\<close>.
  A position is inside a character when it is between the two halves of a surrogate pair; a match that
  starts there is the only one that steps back too far, by one unit.
\<close>

definition text_ok :: "nat \<Rightarrow> bytes \<Rightarrow> nat \<Rightarrow> bool" where
  "text_ok t b e \<longleftrightarrow> at_char t e e \<and> e \<le> length b"

definition fwd :: "nat \<Rightarrow> bytes \<Rightarrow> nat \<Rightarrow> nat \<Rightarrow> nat option" where
  "fwd t b e p = (if text_ok t b e \<and> at_char t e p \<and> p < e then map_option snd (GET_CHAR t b p e) else None)"

definition bwd :: "nat \<Rightarrow> bytes \<Rightarrow> nat \<Rightarrow> nat option" where
  "bwd t b p = PREV_CHAR t b p 0"

definition in_pair :: "nat \<Rightarrow> bytes \<Rightarrow> nat \<Rightarrow> nat \<Rightarrow> bool" where
  "in_pair t b e p \<longleftrightarrow> t = 2 \<and> 2 \<le> p \<and> p < e \<and> is_hi_surrogate (get_u16 b (p - 2)) \<and> is_lo_surrogate (get_u16 b p)"

lemma surrogates_disjoint: "is_hi_surrogate c \<Longrightarrow> \<not> is_lo_surrogate c"
  by (auto simp: is_hi_surrogate_def is_lo_surrogate_def)

lemma fwd_cases:
  assumes "fwd t b e p = Some q"
  obtains "t = 0" "q = p + 1" "q \<le> e" "e \<le> length b"
  | "t \<noteq> 0" "q = p + 2" "even p" "q \<le> e" "e \<le> length b"
    "\<not> (t = 2 \<and> is_hi_surrogate (get_u16 b p) \<and> p + 2 < e \<and> is_lo_surrogate (get_u16 b (p + 2)))"
  | "t = 2" "q = p + 4" "even p" "q \<le> e" "e \<le> length b"
    "is_hi_surrogate (get_u16 b p)" "is_lo_surrogate (get_u16 b (p + 2))"
proof -
  from assms obtain c where a: "GET_CHAR t b p e = Some (c, q)" "text_ok t b e" "at_char t e p" "p < e"
    by (auto simp: fwd_def split: if_splits)
  have q: "at_char t e q" using GET_CHAR_ok [of t e p b] a by (auto simp: text_ok_def)
  show ?thesis
  proof (cases "t = 0")
    case True
    then show ?thesis using a q that(1) by (auto simp: GET_CHAR_def rd8_def at_char_def text_ok_def)
  next
    case False
    then show ?thesis using a q that(2,3)
      by (auto simp: GET_CHAR_def rd16_def at_char_def text_ok_def Let_def split: if_splits)
  qed
qed

lemma bwd_char:
  assumes "t \<noteq> 0" "2 \<le> p" "p \<le> length b" "even p"
  shows "bwd t b p =
    Some (if t = 2 \<and> is_lo_surrogate (get_u16 b (p - 2)) \<and> 4 \<le> p \<and> is_hi_surrogate (get_u16 b (p - 4))
          then p - 4 else p - 2)"
proof -
  have "p > 2 \<longleftrightarrow> 4 \<le> p" using assms(4) by presburger
  then show ?thesis using assms
    by (auto simp: bwd_def PREV_CHAR_def step_back_def rd16_def diff_diff_left)
qed

interpretation cursor: char_cursor "fwd t b e" "bwd t b" "in_pair t b e" for t b e
proof
  fix p q
  assume f: "fwd t b e p = Some q"
  then show "\<not> in_pair t b e q"
    by (cases rule: fwd_cases) (auto simp: in_pair_def dest: surrogates_disjoint)
  show "bwd t b q = Some p" if "\<not> in_pair t b e p"
    using f
  proof (cases rule: fwd_cases)
    case 1
    then show ?thesis by (simp add: bwd_def PREV_CHAR_def step_back_def)
  next
    case 2
    then show ?thesis using that by (auto simp: bwd_char in_pair_def)
  next
    case 3
    then show ?thesis by (simp add: bwd_char)
  qed
  show "\<exists>p'. bwd t b q = Some p'"
    using f
  proof (cases rule: fwd_cases)
    case 1
    then show ?thesis by (simp add: bwd_def PREV_CHAR_def step_back_def)
  qed (simp_all add: bwd_char)
qed

lemma fwd_at_char: "fwd t b e p = Some q \<Longrightarrow> at_char t e q \<and> p < q"
  using GET_CHAR_ok [of t e p b] by (auto simp: fwd_def text_ok_def split: if_splits)

lemma bwd_at_char:
  assumes "bwd t b p = Some q" "at_char t e p"
  shows "at_char t e q"
  using assms
  by (auto simp: bwd_def PREV_CHAR_def at_char_def step_back_def split: Option.bind_splits if_splits)

lemma prev_chars_prvs: "prev_chars s n p = cursor.prvs (cbuf_type s) (cbuf s) n p"
  by (induction n arbitrary: p) (auto simp: bwd_def split: Option.bind_splits)

lemma prvs_at_char: "cursor.prvs t b n p = Some q \<Longrightarrow> at_char t e p \<Longrightarrow> at_char t e q"
  by (induction n arbitrary: p) (auto dest: bwd_at_char split: Option.bind_splits)

lemma nxts_at_char: "cursor.nxts t b e n p = Some q \<Longrightarrow> at_char t e p \<Longrightarrow> at_char t e q \<and> p + n \<le> q"
  by (induction n arbitrary: p) (fastforce dest: fwd_at_char split: Option.bind_splits)+

section \<open>The type discipline\<close>

type_synonym typing = "nat \<Rightarrow> nat \<Rightarrow> bool"

definition operand_at :: "(nat \<Rightarrow> u32 option) \<Rightarrow> nat \<Rightarrow> (u32 \<Rightarrow> bool) \<Rightarrow> bool" where
  "operand_at rd pc P = (case rd pc of None \<Rightarrow> False | Some v \<Rightarrow> P v)"

definition jump_ok :: "re_exec_context \<Rightarrow> typing \<Rightarrow> nat \<Rightarrow> nat \<Rightarrow> bool" where
  "jump_ok s D pc d = operand_at (rd32 (bc_buf s)) pc
     (\<lambda>v. case jump (pc + 4) v of None \<Rightarrow> False | Some tgt \<Rightarrow> D tgt d)"

text \<open>
  The number of characters that the body of a greedy loop takes: a straight line of character
  and boundary tests up to \<^verbatim>\<open>match\<close>. The first argument bounds the number of instructions.
\<close>

fun atom_chars :: "nat \<Rightarrow> re_exec_context \<Rightarrow> nat \<Rightarrow> nat option" where
  "atom_chars 0 s pc = None"
| "atom_chars (Suc k) s pc =
     (case fetch s pc of
        Some REOP_match \<Rightarrow> Some 0
      | Some REOP_char \<Rightarrow> if pc + 3 \<le> length (bc_buf s) then map_option Suc (atom_chars k s (pc + 3)) else None
      | Some REOP_char32 \<Rightarrow> if pc + 5 \<le> length (bc_buf s) then map_option Suc (atom_chars k s (pc + 5)) else None
      | Some REOP_dot \<Rightarrow> map_option Suc (atom_chars k s (pc + 1))
      | Some REOP_any \<Rightarrow> map_option Suc (atom_chars k s (pc + 1))
      | Some REOP_range \<Rightarrow>
          (case rd16 (bc_buf s) (pc + 1) of
             None \<Rightarrow> None
           | Some n \<Rightarrow> if n \<noteq> 0 \<and> pc + 3 + 4 * unat n \<le> length (bc_buf s)
                       then map_option Suc (atom_chars k s (pc + 3 + 4 * unat n)) else None)
      | Some REOP_range32 \<Rightarrow>
          (case rd16 (bc_buf s) (pc + 1) of
             None \<Rightarrow> None
           | Some n \<Rightarrow> if n \<noteq> 0 \<and> pc + 3 + 8 * unat n \<le> length (bc_buf s)
                       then map_option Suc (atom_chars k s (pc + 3 + 8 * unat n)) else None)
      | Some REOP_line_start \<Rightarrow> atom_chars k s (pc + 1)
      | Some REOP_line_end \<Rightarrow> atom_chars k s (pc + 1)
      | Some REOP_word_boundary \<Rightarrow> atom_chars k s (pc + 1)
      | Some REOP_not_word_boundary \<Rightarrow> atom_chars k s (pc + 1)
      | _ \<Rightarrow> None)"

text \<open>\<open>pc\<close> is the position after the opcode, \<open>d\<close> the depth there.\<close>

definition quant_ok :: "re_exec_context \<Rightarrow> typing \<Rightarrow> nat \<Rightarrow> nat \<Rightarrow> bool" where
  "quant_ok s D pc d \<longleftrightarrow> pc + 16 \<le> length (bc_buf s) \<and> 0 < get_u32 (bc_buf s) (pc + 12) \<and>
     atom_chars (length (bc_buf s)) s (pc + 16) = Some (unat (get_u32 (bc_buf s) (pc + 12))) \<and>
     (case jump (pc + 16) (get_u32 (bc_buf s) pc) of None \<Rightarrow> False | Some tgt \<Rightarrow> D tgt d)"

fun op_ok :: "re_exec_context \<Rightarrow> typing \<Rightarrow> nat \<Rightarrow> nat \<Rightarrow> reop \<Rightarrow> bool" where
  "op_ok s D pc d REOP_invalid \<longleftrightarrow> False"
| "op_ok s D pc d REOP_char \<longleftrightarrow> pc + 2 \<le> length (bc_buf s) \<and> D (pc + 2) d"
| "op_ok s D pc d REOP_char32 \<longleftrightarrow> pc + 4 \<le> length (bc_buf s) \<and> D (pc + 4) d"
| "op_ok s D pc d REOP_dot \<longleftrightarrow> D pc d"
| "op_ok s D pc d REOP_any \<longleftrightarrow> D pc d"
| "op_ok s D pc d REOP_line_start \<longleftrightarrow> D pc d"
| "op_ok s D pc d REOP_line_end \<longleftrightarrow> D pc d"
| "op_ok s D pc d REOP_goto \<longleftrightarrow> jump_ok s D pc d"
| "op_ok s D pc d REOP_split_goto_first \<longleftrightarrow> jump_ok s D pc d \<and> D (pc + 4) d"
| "op_ok s D pc d REOP_split_next_first \<longleftrightarrow> jump_ok s D pc d \<and> D (pc + 4) d"
| "op_ok s D pc d REOP_match \<longleftrightarrow> True"
| "op_ok s D pc d REOP_save_start \<longleftrightarrow>
     operand_at (rd8 (bc_buf s)) pc (\<lambda>v. unat v < capture_count s) \<and> D (pc + 1) d"
| "op_ok s D pc d REOP_save_end \<longleftrightarrow>
     operand_at (rd8 (bc_buf s)) pc (\<lambda>v. unat v < capture_count s) \<and> D (pc + 1) d"
| "op_ok s D pc d REOP_save_reset \<longleftrightarrow>
     operand_at (rd8 (bc_buf s)) (pc + 1) (\<lambda>v. unat v < capture_count s) \<and> D (pc + 2) d"
| "op_ok s D pc d REOP_loop \<longleftrightarrow> 0 < d \<and> jump_ok s D pc d \<and> D (pc + 4) d"
| "op_ok s D pc d REOP_push_i32 \<longleftrightarrow> d < stack_size_max s \<and> pc + 4 \<le> length (bc_buf s) \<and> D (pc + 4) (d + 1)"
| "op_ok s D pc d REOP_drop \<longleftrightarrow> 0 < d \<and> D pc (d - 1)"
| "op_ok s D pc d REOP_word_boundary \<longleftrightarrow> D pc d"
| "op_ok s D pc d REOP_not_word_boundary \<longleftrightarrow> D pc d"
| "op_ok s D pc d REOP_back_reference \<longleftrightarrow> pc + 1 \<le> length (bc_buf s) \<and> D (pc + 1) d"
| "op_ok s D pc d REOP_backward_back_reference \<longleftrightarrow> pc + 1 \<le> length (bc_buf s) \<and> D (pc + 1) d"
| "op_ok s D pc d REOP_range \<longleftrightarrow> operand_at (rd16 (bc_buf s)) pc
     (\<lambda>n. n \<noteq> 0 \<and> pc + 2 + 4 * unat n \<le> length (bc_buf s) \<and> D (pc + 2 + 4 * unat n) d)"
| "op_ok s D pc d REOP_range32 \<longleftrightarrow> operand_at (rd16 (bc_buf s)) pc
     (\<lambda>n. n \<noteq> 0 \<and> pc + 2 + 8 * unat n \<le> length (bc_buf s) \<and> D (pc + 2 + 8 * unat n) d)"
| "op_ok s D pc d REOP_lookahead \<longleftrightarrow> jump_ok s D pc d \<and> D (pc + 4) d"
| "op_ok s D pc d REOP_negative_lookahead \<longleftrightarrow> jump_ok s D pc d \<and> D (pc + 4) d"
| "op_ok s D pc d REOP_push_char_pos \<longleftrightarrow> d < stack_size_max s \<and> D pc (d + 1)"
| "op_ok s D pc d REOP_bne_char_pos \<longleftrightarrow> 0 < d \<and> jump_ok s D pc (d - 1) \<and> D (pc + 4) (d - 1)"
| "op_ok s D pc d REOP_prev \<longleftrightarrow> D pc d"
| "op_ok s D pc d REOP_simple_greedy_quant \<longleftrightarrow> quant_ok s D pc d"

definition typed_at :: "re_exec_context \<Rightarrow> typing \<Rightarrow> nat \<Rightarrow> nat \<Rightarrow> bool" where
  "typed_at s D pc d \<longleftrightarrow> d \<le> stack_size_max s \<and>
     (case fetch s pc of None \<Rightarrow> False | Some opc \<Rightarrow> op_ok s D (pc + 1) d opc)"

definition well_typed :: "re_exec_context \<Rightarrow> typing \<Rightarrow> bool" where
  "well_typed s D \<longleftrightarrow> (\<forall>pc d. D pc d \<longrightarrow> typed_at s D pc d)"

section \<open>The run-time invariant\<close>

definition context_ok :: "re_exec_context \<Rightarrow> bool" where
  "context_ok s \<longleftrightarrow> text_ok (cbuf_type s) (cbuf s) (cbuf_end s) \<and> cbuf_end s < SIZE_MOD \<and>
     stack_size_max s < 256 \<and> realloc_contract (lre_realloc s)"

definition position_ok :: "re_exec_context \<Rightarrow> nat \<Rightarrow> bool" where
  "position_ok s p \<longleftrightarrow> at_char (cbuf_type s) (cbuf_end s) p"

definition capture_ok :: "re_exec_context \<Rightarrow> nat option list \<Rightarrow> bool" where
  "capture_ok s cap \<longleftrightarrow> 2 * capture_count s \<le> length cap \<and>
     (\<forall>i < 2 * capture_count s. \<forall>p. cap ! i = Some p \<longrightarrow> position_ok s p)"

definition saved_ok :: "re_exec_context \<Rightarrow> typing \<Rightarrow> re_exec_state \<Rightarrow> bool" where
  "saved_ok s D rs \<longleftrightarrow> position_ok s (rs_cptr rs) \<and>
     length (rs_capture rs) = 2 * capture_count s \<and> capture_ok s (rs_capture rs) \<and>
     length (rs_stack rs) = rs_stack_len rs \<and> rs_stack_len rs \<le> stack_size_max s \<and>
     (if rs_type rs = RE_EXEC_STATE_GREEDY_QUANT then
        quant_ok s D (rs_pc rs) (rs_stack_len rs) \<and> 0 < rs_count rs \<and> rs_count rs < SIZE_MOD \<and>
        prev_chars s (rs_count rs * unat (get_u32 (bc_buf s) (rs_pc rs + 12))) (rs_cptr rs) \<noteq> None
      else D (rs_pc rs) (rs_stack_len rs))"

definition memory_ok :: "re_exec_context \<Rightarrow> typing \<Rightarrow> re_memory \<Rightarrow> bool" where
  "memory_ok s D m \<longleftrightarrow> capture_ok s (capture m) \<and> length (re_stack m) = stack_size_max s \<and>
     length (state_stack m) = state_stack_size m \<and> state_stack_len m \<le> state_stack_size m \<and>
     (\<forall>i < state_stack_len m. saved_ok s D (state_stack m ! i))"

definition regs_ok :: "re_exec_context \<Rightarrow> typing \<Rightarrow> re_regs \<Rightarrow> bool" where
  "regs_ok s D r \<longleftrightarrow> position_ok s (re_cptr r) \<and>
     (\<exists>d. D (re_pc r) d \<and> d \<le> stack_size_max s \<and> re_stack_len r = int d)"

fun step_ok :: "re_exec_context \<Rightarrow> typing \<Rightarrow> re_step option \<Rightarrow> bool" where
  "step_ok s D None \<longleftrightarrow> False"
| "step_ok s D (Some (Step m r)) \<longleftrightarrow> memory_ok s D m \<and> regs_ok s D r"
| "step_ok s D (Some (No_match m)) \<longleftrightarrow> memory_ok s D m"
| "step_ok s D (Some (Matched m p)) \<longleftrightarrow> memory_ok s D m \<and> position_ok s p"
| "step_ok s D (Some (Return m v)) \<longleftrightarrow> memory_ok s D m \<and> v \<in> {-1, 0, 1}"

end
