(* ===== verification/RegexpCode.thy ===== *)
theory RegexpCode
  imports RegexpTyping RegexpEmit
begin

text \<open>
  The pieces of byte code that the compiler puts together. A fragment is code that is entered at its start with any
  operand stack and left at its end with the same depth, whose jumps stay inside, and whose instructions
  respect the type discipline wherever it is placed. Every construct of the compiler makes a fragment of
  fragments; the linear scans of the compiler step over fragments.
\<close>

section \<open>Code at a position\<close>

definition code_at :: "bytes \<Rightarrow> nat \<Rightarrow> bytes \<Rightarrow> bool" where
  "code_at bc p c \<longleftrightarrow> p + length c \<le> length bc \<and> take (length c) (drop p bc) = c"

lemma code_at_iff: "code_at bc p c \<longleftrightarrow> (\<exists>pre post. bc = pre @ c @ post \<and> length pre = p)"
proof
  assume "code_at bc p c"
  then have "bc = take p bc @ c @ drop (p + length c) bc" "length (take p bc) = p"
    unfolding code_at_def by (metis append_assoc append_take_drop_id drop_drop add.commute, simp)
  then show "\<exists>pre post. bc = pre @ c @ post \<and> length pre = p" by blast
qed (auto simp: code_at_def)

lemma code_at_Nil [simp]: "code_at bc p [] \<longleftrightarrow> p \<le> length bc"
  by (simp add: code_at_def)

lemma code_at_append: "code_at bc p (c1 @ c2) \<longleftrightarrow> code_at bc p c1 \<and> code_at bc (p + length c1) c2"
  by (auto simp: code_at_def take_add add.commute append_eq_append_conv)

lemma code_at_Cons: "code_at bc p (x # c) \<longleftrightarrow> code_at bc p [x] \<and> code_at bc (p + 1) c"
  using code_at_append [of bc p "[x]" c] by simp

lemma code_at_tail: "code_at bc p (x # c) \<Longrightarrow> code_at bc (p + 1) c"
  using code_at_append [of bc p "[x]" c] by simp

lemma code_at_single: "code_at bc p [x] \<longleftrightarrow> p < length bc \<and> bc ! p = x"
  by (auto simp: code_at_def take_Suc_conv_app_nth take_Suc hd_drop_conv_nth)

lemma code_at_sub: "code_at bc p c \<Longrightarrow> code_at c i x \<Longrightarrow> code_at bc (p + i) x"
  unfolding code_at_iff by (metis append_assoc length_append)

lemma code_at_nth: "code_at bc p c \<Longrightarrow> i < length c \<Longrightarrow> p + i < length bc \<and> bc ! (p + i) = c ! i"
  by (auto simp: code_at_iff nth_append)

lemma code_at_self [simp]: "code_at c 0 c"
  by (simp add: code_at_def)

lemma code_at_middle: "code_at (pre @ c @ post) (length pre) c"
  by (simp add: code_at_def)

lemma code_at_length: "code_at bc p c \<Longrightarrow> p + length c \<le> length bc"
  by (simp add: code_at_def)

lemma rd8_code: "code_at bc p [x] \<Longrightarrow> rd8 bc p = Some (ucast x)"
  by (simp add: rd8_def code_at_single get_u8_def Suc_le_eq)

lemma blit_code: "code_at bc p c \<Longrightarrow> blit bc p c = bc"
  by (auto simp: code_at_iff blit_def)

lemma rd16_code: "code_at bc p (le16 v) \<Longrightarrow> rd16 bc p = Some (ucast v)"
  using get_put_u16 [of p bc v] code_at_length [of bc p "le16 v"]
  by (simp add: rd16_def put_u16_def blit_code)

lemma rd32_code: "code_at bc p (le32 v) \<Longrightarrow> rd32 bc p = Some v"
  using get_put_u32 [of p bc v] code_at_length [of bc p "le32 v"]
  by (simp add: rd32_def put_u32_def blit_code)

section \<open>Instructions and the depth they leave\<close>

definition insn_op :: "bytes \<Rightarrow> reop" where
  "insn_op i = the (op_at i 0)"

text \<open>
  A complete instruction: its bytes are its opcode's size with the table of a range, which is not empty; a
  capture index is below \<open>cc\<close>.
\<close>

definition insn :: "nat \<Rightarrow> bytes \<Rightarrow> bool" where
  "insn cc i \<longleftrightarrow> op_at i 0 \<noteq> None \<and> insn_len i 0 (insn_op i) = Some (length i) \<and>
     (insn_op i \<in> {REOP_range, REOP_range32} \<longrightarrow> operand_at (rd16 i) 1 (\<lambda>n. n \<noteq> 0)) \<and>
     (insn_op i \<in> {REOP_save_start, REOP_save_end} \<longrightarrow> operand_at (rd8 i) 1 (\<lambda>v. unat v < cc)) \<and>
     (insn_op i = REOP_save_reset \<longrightarrow> operand_at (rd8 i) 2 (\<lambda>v. unat v < cc))"

definition pushes :: "reop \<Rightarrow> bool" where
  "pushes opc \<longleftrightarrow> opc = REOP_push_i32 \<or> opc = REOP_push_char_pos"

definition pops :: "reop \<Rightarrow> bool" where
  "pops opc \<longleftrightarrow> opc = REOP_drop \<or> opc = REOP_bne_char_pos"

definition depth_step :: "reop \<Rightarrow> nat \<Rightarrow> nat option" where
  "depth_step opc d =
     (if pushes opc then Some (d + 1) else if pops opc then if d = 0 then None else Some (d - 1) else Some d)"

text \<open>Depth after a sequence of instructions, and the positions and depths on the way.\<close>

fun depth_run :: "bytes list \<Rightarrow> nat \<Rightarrow> nat option" where
  "depth_run [] d = Some d"
| "depth_run (i # xs) d = do { d \<leftarrow> depth_step (insn_op i) d; depth_run xs d }"

fun lin :: "bytes list \<Rightarrow> nat \<Rightarrow> nat \<Rightarrow> nat \<Rightarrow> bool" where
  "lin [] d p d' \<longleftrightarrow> p = 0 \<and> d' = d"
| "lin (i # xs) d p d' \<longleftrightarrow> p = 0 \<and> d' = d \<or>
     length i \<le> p \<and> (\<exists>d1. depth_step (insn_op i) d = Some d1 \<and> lin xs d1 (p - length i) d')"

definition code :: "bytes list \<Rightarrow> bytes" where
  "code xs = concat xs"

lemma code_simps [simp]: "code [] = []" "code (i # xs) = i @ code xs" "code (xs @ ys) = code xs @ code ys"
  by (simp_all add: code_def)

lemma depth_run_append: "depth_run (xs @ ys) d = do { d \<leftarrow> depth_run xs d; depth_run ys d }"
  by (induction xs arbitrary: d) (auto split: Option.bind_splits)

lemma lin_start [simp]: "lin xs d 0 d"
  by (cases xs) simp_all

lemma lin_end: "depth_run xs d = Some d' \<Longrightarrow> lin xs d (length (code xs)) d'"
  by (induction xs arbitrary: d) (auto simp: bind_eq_Some_conv)

lemma lin_append:
  assumes "depth_run xs d = Some d1"
  shows "lin (xs @ ys) d p d' \<longleftrightarrow>
    lin xs d p d' \<or> length (code xs) \<le> p \<and> lin ys d1 (p - length (code xs)) d'"
  using assms
proof (induction xs arbitrary: d p)
  case Nil
  then show ?case by (cases ys) auto
next
  case (Cons i xs)
  from Cons.prems obtain d2 where d2: "depth_step (insn_op i) d = Some d2" "depth_run xs d2 = Some d1"
    by (auto simp: bind_eq_Some_conv)
  have "lin ((i # xs) @ ys) d p d' \<longleftrightarrow> p = 0 \<and> d' = d \<or> length i \<le> p \<and> lin (xs @ ys) d2 (p - length i) d'"
    using d2(1) by simp
  also have "\<dots> \<longleftrightarrow> p = 0 \<and> d' = d \<or> length i \<le> p \<and> (lin xs d2 (p - length i) d' \<or>
      length (code xs) \<le> p - length i \<and> lin ys d1 (p - length i - length (code xs)) d')"
    using Cons.IH [OF d2(2), of "p - length i"] by simp
  also have "\<dots> \<longleftrightarrow> (p = 0 \<and> d' = d \<or> length i \<le> p \<and> lin xs d2 (p - length i) d') \<or>
      length i + length (code xs) \<le> p \<and> lin ys d1 (p - (length i + length (code xs))) d'"
    by (cases "length i \<le> p") (simp_all add: le_diff_conv2 add.commute)
  also have "\<dots> \<longleftrightarrow> lin (i # xs) d p d' \<or> length (code (i # xs)) \<le> p \<and> lin ys d1 (p - length (code (i # xs))) d'"
    using d2(1) by simp
  finally show ?case .
qed

lemma lin_le: "lin xs d p d' \<Longrightarrow> p \<le> length (code xs)"
proof (induction xs arbitrary: d p)
  case (Cons i xs)
  show ?case
  proof (cases "p = 0")
    case False
    then obtain d1 where "length i \<le> p" "lin xs d1 (p - length i) d'" using Cons.prems by auto
    then show ?thesis using Cons.IH [of d1 "p - length i"] by simp
  qed simp
qed simp

lemma depth_step_shift: "depth_step opc d = Some d1 \<Longrightarrow> depth_step opc (d + e) = Some (d1 + e)"
  by (auto simp: depth_step_def split: if_splits)

lemma depth_run_shift: "depth_run xs d = Some d1 \<Longrightarrow> depth_run xs (d + e) = Some (d1 + e)"
proof (induction xs arbitrary: d)
  case (Cons i xs)
  then obtain d2 where d2: "depth_step (insn_op i) d = Some d2" "depth_run xs d2 = Some d1"
    by (auto simp: bind_eq_Some_conv)
  then show ?case using Cons.IH [OF d2(2)] depth_step_shift [OF d2(1), of e] by simp
qed simp

lemma lin_shift: "lin xs d p d1 \<Longrightarrow> lin xs (d + e) p (d1 + e)"
proof (induction xs arbitrary: d p)
  case (Cons i xs)
  then consider "p = 0" "d1 = d"
    | d2 where "length i \<le> p" "depth_step (insn_op i) d = Some d2" "lin xs d2 (p - length i) d1" by auto
  then show ?case
    by cases (use Cons.IH depth_step_shift [of "insn_op i" d _ e] in auto)
qed simp

lemma insn_nonempty: "insn cc i \<Longrightarrow> i \<noteq> []"
  by (auto simp: insn_def op_at_def)

lemma lin_end_unique:
  "\<forall>i \<in> set xs. i \<noteq> [] \<Longrightarrow> lin xs d (length (code xs)) d' \<Longrightarrow> depth_run xs d = Some d'"
  by (induction xs arbitrary: d) auto

lemma lin_unshift:
  "depth_run xs d = Some d' \<Longrightarrow> lin xs (d + e) p d2 \<Longrightarrow> \<exists>d1. d2 = d1 + e \<and> lin xs d p d1"
proof (induction xs arbitrary: d p)
  case (Cons i xs)
  from Cons.prems(1) obtain d3 where d3: "depth_step (insn_op i) d = Some d3" "depth_run xs d3 = Some d'"
    by (auto simp: bind_eq_Some_conv)
  show ?case using Cons.IH [OF d3(2), of "p - length i"] Cons.prems(2) depth_step_shift [OF d3(1), of e] d3(1) by auto
qed simp

section \<open>Fragments\<close>

text \<open>
  \<open>placed\<close> says that the code of the instructions is at \<open>b\<close> and that the typing allows the linear depths
  above \<open>e\<close> there; \<open>typed_code\<close> that all its instructions are then well typed.
\<close>

definition placed :: "nat \<Rightarrow> bytes list \<Rightarrow> re_exec_context \<Rightarrow> typing \<Rightarrow> nat \<Rightarrow> nat \<Rightarrow> bool" where
  "placed cc xs s D b e \<longleftrightarrow> code_at (bc_buf s) b (code xs) \<and> cc \<le> capture_count s \<and>
     (\<forall>p d. lin xs e p d \<longrightarrow> D (b + p) d \<and> d \<le> stack_size_max s)"

definition typed_code :: "bytes list \<Rightarrow> re_exec_context \<Rightarrow> typing \<Rightarrow> nat \<Rightarrow> nat \<Rightarrow> bool" where
  "typed_code xs s D b e \<longleftrightarrow> (\<forall>p d. lin xs e p d \<longrightarrow> p < length (code xs) \<longrightarrow> typed_at s D (b + p) d)"

definition frag :: "nat \<Rightarrow> bytes list \<Rightarrow> bool" where
  "frag cc xs \<longleftrightarrow> (\<forall>i \<in> set xs. insn cc i) \<and> depth_run xs 0 = Some 0 \<and>
     (\<forall>s D b e. placed cc xs s D b e \<longrightarrow> typed_code xs s D b e)"

lemma insn_mono: "insn cc i \<Longrightarrow> cc \<le> cc' \<Longrightarrow> insn cc' i"
  by (auto simp: insn_def operand_at_def split: option.splits)

lemma frag_mono: "frag cc xs \<Longrightarrow> cc \<le> cc' \<Longrightarrow> frag cc' xs"
  by (auto simp: frag_def placed_def intro: insn_mono)

lemma frag_run: "frag cc xs \<Longrightarrow> depth_run xs e = Some e"
  using depth_run_shift [of xs 0 0 e] by (simp add: frag_def)

lemma frag_insns: "frag cc xs \<Longrightarrow> i \<in> set xs \<Longrightarrow> insn cc i"
  by (simp add: frag_def)

lemma frag_typed: "frag cc xs \<Longrightarrow> placed cc xs s D b e \<Longrightarrow> typed_code xs s D b e"
  by (simp add: frag_def)

lemma placed_append:
  assumes "depth_run xs e = Some e'" "placed cc (xs @ ys) s D b e"
  shows "placed cc xs s D b e" "placed cc ys s D (b + length (code xs)) e'"
proof -
  show "placed cc xs s D b e"
    using assms(2) lin_append [OF assms(1), of ys] by (auto simp: placed_def code_at_append)
  have "D (b + length (code xs) + p) d \<and> d \<le> stack_size_max s" if "lin ys e' p d" for p d
    using assms(2) lin_append [OF assms(1), of ys "length (code xs) + p" d] that
    by (auto simp: placed_def add.assoc)
  then show "placed cc ys s D (b + length (code xs)) e'"
    using assms(2) by (auto simp: placed_def code_at_append)
qed

lemma typed_code_append:
  assumes "depth_run xs e = Some e'" and ne: "\<forall>i \<in> set xs. i \<noteq> []"
    and "typed_code xs s D b e" "typed_code ys s D (b + length (code xs)) e'"
  shows "typed_code (xs @ ys) s D b e"
  unfolding typed_code_def
proof (intro allI impI)
  fix p d assume p: "lin (xs @ ys) e p d" "p < length (code (xs @ ys))"
  show "typed_at s D (b + p) d"
  proof (cases "lin xs e p d \<and> p < length (code xs)")
    case True
    then show ?thesis using assms(3) by (simp add: typed_code_def)
  next
    case False
    have "length (code xs) \<le> p \<and> lin ys e' (p - length (code xs)) d"
    proof (cases "lin xs e p d")
      case True
      then have "p = length (code xs)" using False lin_le by fastforce
      moreover have "d = e'" using lin_end_unique [OF ne, of e d] True assms(1) calculation by simp
      ultimately show ?thesis by simp
    qed (use p(1) lin_append [OF assms(1)] in auto)
    then have "length (code xs) \<le> p" "lin ys e' (p - length (code xs)) d" "p - length (code xs) < length (code ys)"
      using p(2) by auto
    then show ?thesis
      using assms(4) [unfolded typed_code_def, rule_format, of "p - length (code xs)" d] by (simp add: add.assoc)
  qed
qed

lemma frag_append:
  assumes "frag cc xs" "frag cc ys"
  shows "frag cc (xs @ ys)"
proof -
  have run: "depth_run xs e = Some e" for e using frag_run [OF assms(1)] .
  have "typed_code (xs @ ys) s D b e" if "placed cc (xs @ ys) s D b e" for s D b e
    using typed_code_append [OF run] frag_typed [OF assms(1)] frag_typed [OF assms(2)] placed_append [OF run that]
      frag_insns [OF assms(1)] insn_nonempty by blast
  then show ?thesis using assms run frag_run [OF assms(2)]
    by (auto simp: frag_def depth_run_append)
qed

section \<open>Single instructions\<close>

lemma insn_op_code [simp]: "insn_op (reop_code opc # xs) = opc"
  by (simp add: insn_op_def op_at_def)

lemma fetch_code: "code_at (bc_buf s) p (reop_code opc # xs) \<Longrightarrow> fetch s p = Some opc"
  using code_at_nth [of "bc_buf s" p "reop_code opc # xs" 0] by (simp add: fetch_def)

lemma fetch_insn: "code_at (bc_buf s) p i \<Longrightarrow> insn cc i \<Longrightarrow> fetch s p = Some (insn_op i)"
  using code_at_nth [of "bc_buf s" p i 0] by (auto simp: fetch_def insn_def insn_op_def op_at_def split: if_splits)

lemma get_code:
  assumes "code_at bc b i"
  shows "k < length i \<Longrightarrow> get_u8 bc (b + k) = get_u8 i k"
    "k + 1 < length i \<Longrightarrow> get_u16 bc (b + k) = get_u16 i k"
    "k + 3 < length i \<Longrightarrow> get_u32 bc (b + k) = get_u32 i k"
  using code_at_nth [OF assms, of k] code_at_nth [OF assms, of "k + 1"] code_at_nth [OF assms, of "k + 2"]
    code_at_nth [OF assms, of "k + 3"]
  by (simp_all add: get_u8_def get_u16_def get_u32_def add.assoc)

lemma rd_code:
  assumes "code_at bc b i"
  shows "rd8 i k = Some v \<Longrightarrow> rd8 bc (b + k) = Some v" "rd16 i k = Some v \<Longrightarrow> rd16 bc (b + k) = Some v"
    "rd32 i k = Some v \<Longrightarrow> rd32 bc (b + k) = Some v"
  using get_code [OF assms, of k] code_at_length [OF assms]
  by (auto simp: rd8_def rd16_def rd32_def split: if_splits)

definition straight_ops :: "reop list" where
  "straight_ops =
    [REOP_char, REOP_char32, REOP_dot, REOP_any, REOP_line_start, REOP_line_end, REOP_save_start, REOP_save_end,
     REOP_save_reset, REOP_word_boundary, REOP_not_word_boundary, REOP_back_reference,
     REOP_backward_back_reference, REOP_range, REOP_range32, REOP_prev]"

lemma insn_length:
  assumes "insn cc i" "insn_op i \<noteq> REOP_range" "insn_op i \<noteq> REOP_range32"
  shows "length i = reop_size (insn_op i)"
  using assms by (auto simp: insn_def insn_len_def)

lemma straight_typed:
  assumes i: "insn cc i" "insn_op i \<in> set straight_ops" and at: "code_at (bc_buf s) b i" "cc \<le> capture_count s"
    and D: "D (b + length i) d" "d \<le> stack_size_max s"
  shows "typed_at s D b d"
proof -
  note f = fetch_insn [OF at(1) i(1)]
  note len = insn_length [OF i(1)] and room = code_at_length [OF at(1)]
  have "op_ok s D (b + 1) d (insn_op i)"
  proof (cases "insn_op i = REOP_range \<or> insn_op i = REOP_range32")
    case True
    then obtain n where n: "rd16 i 1 = Some n" "n \<noteq> 0" "length i = 3 + unat n * (if insn_op i = REOP_range then 4 else 8)"
      using i(1) by (auto simp: insn_def insn_len_def operand_at_def bind_eq_Some_conv split: option.splits if_splits)
    from rd_code(2) [OF at(1) n(1)] show ?thesis
      using True n(2,3) D(1) room by (auto simp: operand_at_def ac_simps numeral_3_eq_3)
  next
    case False
    have u: "operand_at (rd8 (bc_buf s)) (b + k) (\<lambda>v. unat v < capture_count s)"
      if "operand_at (rd8 i) k (\<lambda>v. unat v < cc)" for k
      using that rd_code(1) [OF at(1), of k] at(2) by (auto simp: operand_at_def split: option.splits)
    have l: "length i = reop_size (insn_op i)" using False len by simp
    have D': "D (b + reop_size (insn_op i)) d" "b + reop_size (insn_op i) \<le> length (bc_buf s)"
      using l D(1) room by simp_all
    show ?thesis
      using False i(2) D' i(1) u [of 1] u [of 2]
      unfolding insn_def by (cases "insn_op i") (simp_all add: straight_ops_def numeral_2_eq_2 numeral_3_eq_3 eval_nat_numeral)
  qed
  then show ?thesis using f D(2) by (simp add: typed_at_def)
qed

lemma typed_code_single: "i \<noteq> [] \<Longrightarrow> typed_code [i] s D b e \<longleftrightarrow> typed_at s D b e"
  by (auto simp: typed_code_def)

text \<open>What a placement says about the boundary after its first instructions.\<close>

lemma placed_boundary:
  assumes "placed cc (xs @ ys) s D b e" "depth_run xs e = Some d"
  shows "D (b + length (code xs)) d" "d \<le> stack_size_max s"
  using assms(1) lin_append [OF assms(2), of ys "length (code xs)" d] by (auto simp: placed_def)

lemma placed_start: "placed cc xs s D b e \<Longrightarrow> D b e \<and> e \<le> stack_size_max s"
  using placed_boundary [of cc "[]" xs s D b e e] by simp

lemma frag_straight:
  assumes "insn cc i" "insn_op i \<in> set straight_ops"
  shows "frag cc [i]"
proof -
  have run: "depth_run [i] e = Some e" for e
    using assms(2) by (auto simp: straight_ops_def depth_step_def pushes_def pops_def)
  have "typed_code [i] s D b e" if p: "placed cc [i] s D b e" for s D b e
  proof -
    have "placed cc ([i] @ []) s D b e" using p by simp
    from placed_boundary(1) [OF this run] have "D (b + length i) e" by simp
    then have "typed_at s D b e"
      using straight_typed [OF assms] p placed_start [OF p] by (simp add: placed_def)
    then show ?thesis using typed_code_single insn_nonempty [OF assms(1)] by blast
  qed
  then show ?thesis using assms(1) run by (simp add: frag_def)
qed

lemma frag_Nil [simp]: "frag cc []"
  by (simp add: frag_def typed_code_def)

section \<open>Jumps\<close>

lemma sint_of_int: "- (2 ^ 31) \<le> k \<Longrightarrow> k < 2 ^ 31 \<Longrightarrow> sint (of_int k :: u32) = k"
  by (simp add: sint_sbintrunc' signed_take_bit_int_eq_self)

lemma jump_of_int:
  "- (2 ^ 31) \<le> k \<Longrightarrow> k < 2 ^ 31 \<Longrightarrow> 0 \<le> int pc + k \<Longrightarrow> jump pc (of_int k) = Some (nat (int pc + k))"
  using sint_of_int [of k] by (simp add: jump_def Let_def)

text \<open>An instruction with a jump to \<open>t\<close>: the operand is the distance from the end of the instruction.\<close>

definition jump_insn :: "reop \<Rightarrow> int \<Rightarrow> bytes" where
  "jump_insn opc k = reop_code opc # le32 (of_int k)"

definition near :: "int \<Rightarrow> bool" where
  "near k \<longleftrightarrow> - (2 ^ 31) \<le> k \<and> k < 2 ^ 31"

lemma length_jump_insn [simp]: "length (jump_insn opc k) = 5" "jump_insn opc k \<noteq> []" "insn_op (jump_insn opc k) = opc"
  by (simp_all add: jump_insn_def)

lemma jump_insn_ok:
  assumes "code_at (bc_buf s) b (jump_insn opc k)" "near k" "D t d" "int t = int b + 5 + k"
  shows "jump_ok s D (b + 1) d"
proof -
  have "code_at (bc_buf s) (b + 1) (le32 (of_int k))"
    using assms(1) unfolding jump_insn_def by (rule code_at_tail)
  then have "rd32 (bc_buf s) (b + 1) = Some (of_int k)" by (rule rd32_code)
  moreover have "jump (b + 1 + 4) (of_int k) = Some (nat (int (b + 1 + 4) + k))"
    by (rule jump_of_int) (use assms(2,4) in \<open>auto simp: near_def\<close>)
  moreover have "nat (int (b + 1 + 4) + k) = t" using assms(4) by simp
  ultimately show ?thesis using assms(3) by (simp add: jump_ok_def operand_at_def)
qed

lemma fetch_jump_insn: "code_at (bc_buf s) b (jump_insn opc k) \<Longrightarrow> fetch s b = Some opc"
  unfolding jump_insn_def by (rule fetch_code)

text \<open>Splits, lookarounds and loops need the jump target and the next instruction.\<close>

definition branch_ops :: "reop list" where
  "branch_ops = [REOP_split_goto_first, REOP_split_next_first, REOP_lookahead, REOP_negative_lookahead]"

lemma branch_typed:
  assumes "code_at (bc_buf s) b (jump_insn opc k)" "opc \<in> set branch_ops" "near k" "D t d" "int t = int b + 5 + k"
    "D (b + 5) d" "d \<le> stack_size_max s"
  shows "typed_at s D b d"
  using jump_insn_ok [where D = D and t = t and d = d, OF assms(1,3-5)] fetch_jump_insn [OF assms(1)] assms(2,6,7)
  by (auto simp: typed_at_def branch_ops_def add.commute)

lemma goto_typed:
  assumes "code_at (bc_buf s) b (jump_insn REOP_goto k)" "near k" "D t d" "int t = int b + 5 + k" "d \<le> stack_size_max s"
  shows "typed_at s D b d"
  using jump_insn_ok [where D = D and t = t and d = d, OF assms(1-4)] fetch_jump_insn [OF assms(1)] assms(5) by (simp add: typed_at_def)

lemma loop_typed:
  assumes "code_at (bc_buf s) b (jump_insn REOP_loop k)" "near k" "D t (Suc d)" "int t = int b + 5 + k"
    "D (b + 5) (Suc d)" "Suc d \<le> stack_size_max s"
  shows "typed_at s D b (Suc d)"
  using jump_insn_ok [where D = D and t = t and d = "Suc d", OF assms(1-4)] fetch_jump_insn [OF assms(1)] assms(5,6) by (simp add: typed_at_def add.commute)

lemma bne_typed:
  assumes "code_at (bc_buf s) b (jump_insn REOP_bne_char_pos k)" "near k" "D t d" "int t = int b + 5 + k"
    "D (b + 5) d" "Suc d \<le> stack_size_max s"
  shows "typed_at s D b (Suc d)"
  using jump_insn_ok [where D = D and t = t and d = d, OF assms(1-4)] fetch_jump_insn [OF assms(1)] assms(5,6) by (simp add: typed_at_def add.commute)

lemma stack_op_typed:
  "code_at (bc_buf s) b (reop_code REOP_push_i32 # le32 v) \<Longrightarrow> D (b + 5) (Suc d) \<Longrightarrow> Suc d \<le> stack_size_max s \<Longrightarrow>
     typed_at s D b d"
  "code_at (bc_buf s) b [reop_code REOP_push_char_pos] \<Longrightarrow> D (b + 1) (Suc d) \<Longrightarrow> Suc d \<le> stack_size_max s \<Longrightarrow>
     typed_at s D b d"
  "code_at (bc_buf s) b [reop_code REOP_drop] \<Longrightarrow> D (b + 1) d \<Longrightarrow> Suc d \<le> stack_size_max s \<Longrightarrow>
     typed_at s D b (Suc d)"
  "code_at (bc_buf s) b [reop_code REOP_match] \<Longrightarrow> d \<le> stack_size_max s \<Longrightarrow> typed_at s D b d"
  by (frule fetch_code, drule code_at_length, simp add: typed_at_def add.commute)+

section \<open>Constructs of the compiler\<close>

lemma placed_Cons:
  assumes "placed cc (i # xs) s D b e" "depth_step (insn_op i) e = Some e'"
  shows "placed cc xs s D (b + length i) e'" "code_at (bc_buf s) b i" "D b e" "e \<le> stack_size_max s"
  using placed_append(2) [of "[i]" e e' cc xs s D b] placed_start [OF assms(1)] assms
  by (auto simp: placed_def code_at_append)

lemma placed_end: "placed cc xs s D b e \<Longrightarrow> depth_run xs e = Some d \<Longrightarrow> D (b + length (code xs)) d \<and> d \<le> stack_size_max s"
  using lin_end [of xs e d] by (simp add: placed_def)

lemma placed_Nil: "placed cc [] s D b e \<Longrightarrow> D b e \<and> e \<le> stack_size_max s"
  by (rule placed_start)

lemma typed_code_Cons:
  assumes "i \<noteq> []" "\<forall>i \<in> set xs. i \<noteq> []" "depth_step (insn_op i) e = Some e'" "typed_at s D b e"
    "typed_code xs s D (b + length i) e'"
  shows "typed_code (i # xs) s D b e"
  using typed_code_append [of "[i]" e e' s D b xs] assms by (simp add: typed_code_single)

lemma typed_code_Nil [simp]: "typed_code [] s D b e"
  by (simp add: typed_code_def)

lemma depth_step_simps [simp]:
  "depth_step REOP_goto d = Some d" "depth_step REOP_loop d = Some d" "depth_step REOP_match d = Some d"
  "depth_step REOP_push_i32 d = Some (Suc d)" "depth_step REOP_push_char_pos d = Some (Suc d)"
  "depth_step REOP_drop (Suc d) = Some d" "depth_step REOP_bne_char_pos (Suc d) = Some d"
  "depth_step REOP_simple_greedy_quant d = Some d"
  by (simp_all add: depth_step_def pushes_def pops_def)

lemma depth_step_branch [simp]: "opc \<in> set branch_ops \<Longrightarrow> depth_step opc d = Some d"
  by (auto simp: depth_step_def pushes_def pops_def branch_ops_def)

text \<open>\<open>fragI\<close> reduces a construct to its instructions, stated on the list as the compiler has it.\<close>

lemma fragI:
  assumes "\<And>i. i \<in> set xs \<Longrightarrow> insn cc i" "depth_run xs 0 = Some 0"
    "\<And>s D b e. placed cc xs s D b e \<Longrightarrow> typed_code xs s D b e"
  shows "frag cc xs"
  using assms by (simp add: frag_def)

lemma insn_plain:
  assumes "opc \<in> {REOP_goto, REOP_split_goto_first, REOP_split_next_first, REOP_match, REOP_loop, REOP_push_i32, REOP_drop,
      REOP_lookahead, REOP_negative_lookahead, REOP_push_char_pos, REOP_bne_char_pos, REOP_simple_greedy_quant}"
    and "Suc (length xs) = reop_size opc"
  shows "insn cc (reop_code opc # xs)"
proof -
  have "insn_op (reop_code opc # xs) = opc" "op_at (reop_code opc # xs) 0 = Some opc"
    by (simp_all add: op_at_def)
  then show ?thesis using assms by (auto simp: insn_def insn_len_def)
qed

lemma insn_jump:
  "opc \<in> set branch_ops \<or> opc \<in> {REOP_goto, REOP_loop, REOP_bne_char_pos} \<Longrightarrow> insn cc (jump_insn opc k)"
  unfolding jump_insn_def by (rule insn_plain) (auto simp: branch_ops_def)

lemma frag_nonempty: "frag cc xs \<Longrightarrow> \<forall>i \<in> set xs. i \<noteq> []"
  using frag_insns insn_nonempty by blast

definition split_ops :: "reop list" where
  "split_ops = [REOP_split_goto_first, REOP_split_next_first]"

lemma split_branch: "opc \<in> set split_ops \<Longrightarrow> opc \<in> set branch_ops"
  by (auto simp: split_ops_def branch_ops_def)

text \<open>An optional fragment, and a lookaround.\<close>

lemma frag_optional:
  assumes "frag cc xs" "opc \<in> set split_ops" "near (int (length (code xs)))"
  shows "frag cc (jump_insn opc (int (length (code xs))) # xs)"
proof (rule fragI)
  note opc = split_branch [OF assms(2)]
  let ?j = "jump_insn opc (int (length (code xs)))"
  show "insn cc i" if "i \<in> set (?j # xs)" for i
    using that frag_insns [OF assms(1)] insn_jump opc by auto
  show "depth_run (?j # xs) 0 = Some 0" using frag_run [OF assms(1)] opc by simp
  fix s D b e assume p: "placed cc (?j # xs) s D b e"
  have step: "depth_step (insn_op ?j) e = Some e" using opc by simp
  note p' = placed_Cons [OF p step]
  have nxt: "D (b + 5 + length (code xs)) e"
    using placed_end [OF p'(1) frag_run [OF assms(1)]] by simp
  show "typed_code (?j # xs) s D b e"
  proof (rule typed_code_Cons [OF _ frag_nonempty [OF assms(1)] step])
    show "typed_at s D b e"
      by (rule branch_typed [where D = D and t = "b + 5 + length (code xs)" and d = e, OF p'(2) opc assms(3) nxt])
        (use placed_start [OF p'(1)] in auto)
  qed (use frag_typed [OF assms(1) p'(1)] in auto)
qed

text \<open>
  A fragment in the middle: what a placement of \<open>xs @ ys\<close> says, and what is left to show. The shapes below
  are instances: a head, a fragment and a tail.
\<close>

lemma placed_frag:
  assumes "placed cc (xs @ ys) s D b e" "frag cc xs"
  shows "typed_code xs s D b e" "placed cc ys s D (b + length (code xs)) e" "D b e" "D (b + length (code xs)) e"
  using placed_append [OF frag_run [OF assms(2)] assms(1)] frag_typed [OF assms(2)] placed_start by blast+

lemma typed_frag_then:
  "frag cc xs \<Longrightarrow> typed_code xs s D b e \<Longrightarrow> typed_code ys s D (b + length (code xs)) e \<Longrightarrow> typed_code (xs @ ys) s D b e"
  using typed_code_append [OF frag_run frag_nonempty] by blast

lemma frag_lookaround:
  assumes "frag cc xs" "opc = REOP_lookahead \<or> opc = REOP_negative_lookahead" "near (int (length (code xs)) + 1)"
  shows "frag cc (jump_insn opc (int (length (code xs)) + 1) # xs @ [[reop_code REOP_match]])"
proof (rule fragI)
  have opc: "opc \<in> set branch_ops" using assms(2) by (auto simp: branch_ops_def)
  let ?j = "jump_insn opc (int (length (code xs)) + 1)" and ?m = "[reop_code REOP_match]"
  show "insn cc i" if "i \<in> set (?j # xs @ [?m])" for i
    using that frag_insns [OF assms(1)] insn_jump opc by (auto intro: insn_plain)
  show "depth_run (?j # xs @ [?m]) 0 = Some 0"
    using frag_run [OF assms(1)] opc by (simp add: depth_run_append)
  fix s D b e assume p: "placed cc (?j # xs @ [?m]) s D b e"
  have step: "depth_step (insn_op ?j) e = Some e" using opc by simp
  note p0 = placed_Cons [OF p step]
  note p1 = placed_frag [OF p0(1) assms(1)]
  note p2 = placed_Cons [OF p1(2), of e, simplified]
  have ne: "\<forall>i \<in> set (xs @ [?m]). i \<noteq> []" using frag_nonempty [OF assms(1)] by auto
  have "typed_at s D b e"
    by (rule branch_typed [where D = D and t = "b + 5 + length (code xs) + 1" and d = e, OF p0(2) opc assms(3)])
      (use p1 p2(1) placed_start [OF p2(1)] p0(4) in auto)
  moreover have "typed_code (xs @ [?m]) s D (b + 5) e"
  proof (rule typed_frag_then [OF assms(1)])
    have "typed_at s D (b + 5 + length (code xs)) e" by (rule stack_op_typed(4)) (use p2 in auto)
    then show "typed_code [?m] s D (b + 5 + length (code xs)) e" by (simp add: typed_code_single)
  qed (use p1(1) in simp)
  ultimately show "typed_code (?j # xs @ [?m]) s D b e"
    using typed_code_Cons [OF _ ne step] by simp
qed

lemma frag_plus:
  assumes "frag cc xs" "opc \<in> set split_ops" "near (- int (length (code xs)) - 5)"
  shows "frag cc (xs @ [jump_insn opc (- int (length (code xs)) - 5)])"
proof (rule fragI)
  note opc = split_branch [OF assms(2)]
  let ?j = "jump_insn opc (- int (length (code xs)) - 5)"
  show "insn cc i" if "i \<in> set (xs @ [?j])" for i
    using that frag_insns [OF assms(1)] insn_jump opc by auto
  show "depth_run (xs @ [?j]) 0 = Some 0" using frag_run [OF assms(1)] opc by (simp add: depth_run_append)
  fix s D b e assume p: "placed cc (xs @ [?j]) s D b e"
  have step: "depth_step (insn_op ?j) e = Some e" using opc by simp
  note p1 = placed_frag [OF p assms(1)]
  note p2 = placed_Cons [OF p1(2) step]
  have "typed_at s D (b + length (code xs)) e"
    by (rule branch_typed [where D = D and t = b and d = e, OF p2(2) opc assms(3) p1(3)])
      (use placed_start [OF p2(1)] in auto)
  then show "typed_code (xs @ [?j]) s D b e"
    using typed_frag_then [OF assms(1) p1(1)] by (simp add: typed_code_single)
qed

lemma frag_star:
  assumes "frag cc xs" "opc \<in> set split_ops" "near (int (length (code xs)) + 10)"
  shows "frag cc (jump_insn opc (int (length (code xs)) + 5) # xs @
    [jump_insn REOP_goto (- int (length (code xs)) - 10)])"
proof (rule fragI)
  note opc = split_branch [OF assms(2)]
  let ?j = "jump_insn opc (int (length (code xs)) + 5)" and ?g = "jump_insn REOP_goto (- int (length (code xs)) - 10)"
  have near: "near (int (length (code xs)) + 5)" "near (- int (length (code xs)) - 10)"
    using assms(3) by (auto simp: near_def)
  show "insn cc i" if "i \<in> set (?j # xs @ [?g])" for i
    using that frag_insns [OF assms(1)] insn_jump opc by auto
  show "depth_run (?j # xs @ [?g]) 0 = Some 0"
    using frag_run [OF assms(1)] opc by (simp add: depth_run_append)
  fix s D b e assume p: "placed cc (?j # xs @ [?g]) s D b e"
  have step: "depth_step (insn_op ?j) e = Some e" using opc by simp
  note p0 = placed_Cons [OF p step]
  note p1 = placed_frag [OF p0(1) assms(1)]
  note p2 = placed_Cons [OF p1(2), of e, simplified]
  have ne: "\<forall>i \<in> set (xs @ [?g]). i \<noteq> []" using frag_nonempty [OF assms(1)] by auto
  have "typed_at s D b e"
    by (rule branch_typed [where D = D and t = "b + 5 + length (code xs) + 5" and d = e, OF p0(2) opc near(1)])
      (use p1 p2(1) placed_start [OF p2(1)] p0(4) in auto)
  moreover have "typed_code (xs @ [?g]) s D (b + 5) e"
  proof (rule typed_frag_then [OF assms(1)])
    have "typed_at s D (b + 5 + length (code xs)) e"
      by (rule goto_typed [where D = D and t = b and d = e, OF _ near(2)]) (use p2 p0 in auto)
    then show "typed_code [?g] s D (b + 5 + length (code xs)) e" by (simp add: typed_code_single)
  qed (use p1(1) in simp)
  ultimately show "typed_code (?j # xs @ [?g]) s D b e"
    using typed_code_Cons [OF _ ne step] by simp
qed

lemma frag_star_check:
  assumes "frag cc xs" "opc \<in> set split_ops" "near (int (length (code xs)) + 11)"
  shows "frag cc (jump_insn opc (int (length (code xs)) + 6) # [reop_code REOP_push_char_pos] # xs @
    [jump_insn REOP_bne_char_pos (- int (length (code xs)) - 11)])"
proof (rule fragI)
  note opc = split_branch [OF assms(2)]
  let ?j = "jump_insn opc (int (length (code xs)) + 6)" and ?c = "[reop_code REOP_push_char_pos]"
  let ?g = "jump_insn REOP_bne_char_pos (- int (length (code xs)) - 11)"
  have near: "near (int (length (code xs)) + 6)" "near (- int (length (code xs)) - 11)"
    using assms(3) by (auto simp: near_def)
  show "insn cc i" if "i \<in> set (?j # ?c # xs @ [?g])" for i
    using that frag_insns [OF assms(1)] insn_jump opc by (auto intro: insn_plain)
  show "depth_run (?j # ?c # xs @ [?g]) 0 = Some 0"
    using frag_run [OF assms(1)] opc by (simp add: depth_run_append)
  fix s D b e assume p: "placed cc (?j # ?c # xs @ [?g]) s D b e"
  have step: "depth_step (insn_op ?j) e = Some e" using opc by simp
  note p0 = placed_Cons [OF p step]
  note pc = placed_Cons [OF p0(1), of "Suc e", simplified]
  note p1 = placed_frag [OF pc(1) assms(1)]
  note p2 = placed_Cons [OF p1(2), of e, simplified]
  have ne: "\<forall>i \<in> set (xs @ [?g]). i \<noteq> []" using frag_nonempty [OF assms(1)] by auto
  have "typed_at s D b e"
    by (rule branch_typed [where D = D and t = "b + 6 + length (code xs) + 5" and d = e, OF p0(2) opc near(1)])
      (use p1 p2(1) placed_start [OF p2(1)] pc p0(4) in \<open>auto simp: add.commute\<close>)
  moreover have "typed_at s D (b + 5) e"
    by (rule stack_op_typed(2)) (use pc p2(4) placed_start [OF pc(1)] in auto)
  moreover have "typed_code (xs @ [?g]) s D (Suc (b + 5)) (Suc e)"
  proof (rule typed_frag_then [OF assms(1)])
    have "typed_at s D (Suc (b + 5) + length (code xs)) (Suc e)"
      by (rule bne_typed [where D = D and t = b and d = e, OF _ near(2)])
        (use p2 p0 placed_start [OF p2(1)] in \<open>auto simp: add.commute\<close>)
    then show "typed_code [?g] s D (Suc (b + 5) + length (code xs)) (Suc e)" by (simp add: typed_code_single)
  qed (use p1(1) in simp)
  ultimately show "typed_code (?j # ?c # xs @ [?g]) s D b e"
    using typed_code_Cons [of ?j "?c # xs @ [?g]"] typed_code_Cons [of ?c "xs @ [?g]"] step ne by simp
qed

definition push_insn :: "u32 \<Rightarrow> bytes" where
  "push_insn v = reop_code REOP_push_i32 # le32 v"

lemma push_insn_simps [simp]: "length (push_insn v) = 5" "push_insn v \<noteq> []" "insn_op (push_insn v) = REOP_push_i32"
  by (simp_all add: push_insn_def)

lemma insn_push: "insn cc (push_insn v)"
  unfolding push_insn_def by (rule insn_plain) simp_all

text \<open>The tail of the counted loops: the jump back to \<open>t\<close>, one element above the depth \<open>e\<close>, and the drop.\<close>

lemma loop_tail:
  assumes p: "placed cc [jump_insn REOP_loop k, [reop_code REOP_drop]] s D b (Suc e)"
    and k: "near k" "int t = int b + 5 + k" and t: "D t (Suc e)"
  shows "typed_code [jump_insn REOP_loop k, [reop_code REOP_drop]] s D b (Suc e)" "D (b + 5) (Suc e)" "D (b + 6) e"
proof -
  note p1 = placed_Cons [OF p, of "Suc e", simplified]
  note p2 = placed_Cons [OF p1(1), of e, simplified]
  show D: "D (b + 5) (Suc e)" "D (b + 6) e" using p2(3) placed_start [OF p2(1)] by (simp_all add: add.commute)
  have "typed_at s D b (Suc e)"
    by (rule loop_typed [where D = D and t = t, OF p1(2) k(1) t k(2) D(1)]) (use p1(4) in simp)
  moreover have "typed_at s D (b + 5) (Suc e)" by (rule stack_op_typed(3)) (use p2 D p1(4) in \<open>auto simp: add.commute\<close>)
  ultimately show "typed_code [jump_insn REOP_loop k, [reop_code REOP_drop]] s D b (Suc e)"
    using typed_code_Cons [of "jump_insn REOP_loop k" "[[reop_code REOP_drop]]" "Suc e" "Suc e" s D b]
    by (simp add: typed_code_single)
qed

lemma insn_tail: "insn cc (jump_insn REOP_loop k)" "insn cc [reop_code REOP_drop]"
  by (rule insn_jump, simp) (rule insn_plain, simp_all)

lemma frag_repeat:
  assumes "frag cc xs" "near (- int (length (code xs)) - 5)"
  shows "frag cc (push_insn v # xs @ [jump_insn REOP_loop (- int (length (code xs)) - 5), [reop_code REOP_drop]])"
proof (rule fragI)
  let ?tl = "[jump_insn REOP_loop (- int (length (code xs)) - 5), [reop_code REOP_drop]]"
  show "insn cc i" if "i \<in> set (push_insn v # xs @ ?tl)" for i
    using that frag_insns [OF assms(1)] insn_push insn_tail by auto
  show "depth_run (push_insn v # xs @ ?tl) 0 = Some 0"
    using frag_run [OF assms(1)] by (simp add: depth_run_append)
  fix s D b e assume p: "placed cc (push_insn v # xs @ ?tl) s D b e"
  note p0 = placed_Cons [OF p, of "Suc e", simplified]
  note p1 = placed_frag [OF p0(1) assms(1)]
  have tl: "typed_code ?tl s D (b + 5 + length (code xs)) (Suc e)"
    by (rule loop_tail(1) [where t = "b + 5", OF p1(2) assms(2)]) (use p1 in auto)
  have "typed_at s D b e"
    by (rule stack_op_typed(1)) (use p0 p1 placed_start [OF p0(1)] in \<open>auto simp: push_insn_def\<close>)
  then show "typed_code (push_insn v # xs @ ?tl) s D b e"
    using typed_code_Cons [of "push_insn v" "xs @ ?tl" e "Suc e" s D b] typed_frag_then [OF assms(1) p1(1) tl]
      frag_nonempty [OF assms(1)] by auto
qed

lemma frag_at_most:
  assumes "frag cc xs" "opc \<in> set split_ops" "near (int (length (code xs)) + 10)"
  shows "frag cc (push_insn v # jump_insn opc (int (length (code xs)) + 5) # xs @
    [jump_insn REOP_loop (- int (length (code xs)) - 10), [reop_code REOP_drop]])"
proof (rule fragI)
  note opc = split_branch [OF assms(2)]
  let ?j = "jump_insn opc (int (length (code xs)) + 5)"
  let ?tl = "[jump_insn REOP_loop (- int (length (code xs)) - 10), [reop_code REOP_drop]]"
  have near: "near (int (length (code xs)) + 5)" "near (- int (length (code xs)) - 10)"
    using assms(3) by (auto simp: near_def)
  show "insn cc i" if "i \<in> set (push_insn v # ?j # xs @ ?tl)" for i
    using that frag_insns [OF assms(1)] insn_push insn_tail insn_jump opc by auto
  show "depth_run (push_insn v # ?j # xs @ ?tl) 0 = Some 0"
    using frag_run [OF assms(1)] opc by (simp add: depth_run_append)
  fix s D b e assume p: "placed cc (push_insn v # ?j # xs @ ?tl) s D b e"
  have step: "depth_step (insn_op ?j) (Suc e) = Some (Suc e)" using opc by simp
  note p0 = placed_Cons [OF p, of "Suc e", simplified]
  note pj = placed_Cons [OF p0(1) step]
  note p1 = placed_frag [OF pj(1) assms(1)]
  have at: "b + 5 + 5 + length (code xs) = b + 10 + length (code xs)" by simp
  have ptl: "placed cc ?tl s D (b + 10 + length (code xs)) (Suc e)" using p1(2) by (simp add: add.commute)
  have tl: "typed_code ?tl s D (b + 10 + length (code xs)) (Suc e)" "D (b + 10 + length (code xs) + 5) (Suc e)"
    using loop_tail(1,2) [where t = "b + 5", OF ptl near(2) _ pj(3)] by simp_all
  have "typed_at s D (b + 5) (Suc e)"
    by (rule branch_typed [where D = D and t = "b + 10 + length (code xs) + 5" and d = "Suc e", OF pj(2) opc near(1)])
      (use p1(3) pj(4) tl(2) in \<open>auto simp: add.commute\<close>)
  moreover have "typed_at s D b e"
    by (rule stack_op_typed(1)) (use p0 pj in \<open>auto simp: push_insn_def\<close>)
  moreover have "typed_code (xs @ ?tl) s D (b + 10) (Suc e)"
    using typed_frag_then [OF assms(1), of s D "b + 10" "Suc e" ?tl] p1(1) tl(1) by (simp add: add.commute)
  ultimately show "typed_code (push_insn v # ?j # xs @ ?tl) s D b e"
    using typed_code_Cons [of "push_insn v" "?j # xs @ ?tl" e "Suc e" s D b]
      typed_code_Cons [of ?j "xs @ ?tl" "Suc e" "Suc e" s D "b + 5"] step frag_nonempty [OF assms(1)] by (auto simp: add.commute)
qed

lemma frag_alternative:
  assumes "frag cc xs" "frag cc ys" "near (int (length (code xs)) + 5)" "near (int (length (code ys)))"
  shows "frag cc (jump_insn REOP_split_next_first (int (length (code xs)) + 5) # xs @
    jump_insn REOP_goto (int (length (code ys))) # ys)"
proof (rule fragI)
  let ?j = "jump_insn REOP_split_next_first (int (length (code xs)) + 5)" and ?g = "jump_insn REOP_goto (int (length (code ys)))"
  have opc: "REOP_split_next_first \<in> set branch_ops" by (simp add: branch_ops_def)
  show "insn cc i" if "i \<in> set (?j # xs @ ?g # ys)" for i
    using that frag_insns [OF assms(1)] frag_insns [OF assms(2)] insn_jump opc by auto
  show "depth_run (?j # xs @ ?g # ys) 0 = Some 0"
    using frag_run [OF assms(1)] frag_run [OF assms(2)] opc by (simp add: depth_run_append)
  fix s D b e assume p: "placed cc (?j # xs @ ?g # ys) s D b e"
  have step: "depth_step (insn_op ?j) e = Some e" using opc by simp
  note p0 = placed_Cons [OF p step]
  note p1 = placed_frag [OF p0(1) assms(1)]
  note p2 = placed_Cons [OF p1(2), of e, simplified]
  note fin = placed_end [OF p2(1) frag_run [OF assms(2)]]
  have "typed_at s D b e"
    by (rule branch_typed [where D = D and t = "b + 5 + length (code xs) + 5" and d = e, OF p0(2) opc assms(3)])
      (use p1 placed_start [OF p2(1)] p0(4) in auto)
  moreover have "typed_at s D (b + 5 + length (code xs)) e"
    by (rule goto_typed [where D = D and t = "b + 5 + length (code xs) + 5 + length (code ys)" and d = e, OF _ assms(4)])
      (use p2 fin in auto)
  moreover note frag_typed [OF assms(2) p2(1)] p1(1)
  ultimately show "typed_code (?j # xs @ ?g # ys) s D b e"
    using typed_code_Cons [of ?j "xs @ ?g # ys" e e s D b] typed_code_Cons [of ?g ys e e s D "b + 5 + length (code xs)"]
      typed_frag_then [OF assms(1), of s D "b + 5" e "?g # ys"] step frag_nonempty [OF assms(1)] frag_nonempty [OF assms(2)]
    by auto
qed

end
