(* ===== verification/RegexpScan.thy ===== *)
theory RegexpScan
  imports RegexpCode
begin

text \<open>
  The linear scans of the compiler over a sequence of instructions: what \<^verbatim>\<open>re_is_simple_quantifier\<close> counts is
  what the body of a greedy loop takes at run time, and \<^verbatim>\<open>compute_stack_size\<close> bounds the operand stack at every
  instruction. With the first, a greedy loop is a fragment.
\<close>

section \<open>Stepping over an instruction\<close>

lemma op_at_code:
  assumes "code_at bc b i" "insn cc i"
  shows "op_at bc b = Some (insn_op i)" "insn_len bc b (insn_op i) = Some (length i)"
proof -
  have ne: "i \<noteq> []" using insn_nonempty [OF assms(2)] .
  have op: "op_at i 0 = Some (insn_op i)" using assms(2) by (auto simp: insn_def insn_op_def)
  show "op_at bc b = Some (insn_op i)"
    using code_at_nth [OF assms(1), of 0] ne op by (simp add: op_at_def)
  have len: "insn_len i 0 (insn_op i) = Some (length i)" using assms(2) by (simp add: insn_def)
  show "insn_len bc b (insn_op i) = Some (length i)"
    using len rd_code(2) [OF assms(1), of 1]
    by (auto simp: insn_len_def bind_eq_Some_conv split: if_splits)
qed

lemma code_at_Cons_insn: "code_at bc b (code (i # xs)) \<longleftrightarrow> code_at bc b i \<and> code_at bc (b + length i) (code xs)"
  by (simp add: code_at_append)

section \<open>Simple quantifiers\<close>

definition simple_tests :: "reop list" where
  "simple_tests = [REOP_line_start, REOP_line_end, REOP_word_boundary, REOP_not_word_boundary]"

definition char_insns :: "bytes list \<Rightarrow> nat" where
  "char_insns xs = length (filter (\<lambda>i. insn_op i \<in> set simple_chars) xs)"

lemma char_insns_simps [simp]:
  "char_insns [] = 0"
  "char_insns (i # xs) = (if insn_op i \<in> set simple_chars then Suc (char_insns xs) else char_insns xs)"
  by (simp_all add: char_insns_def)

lemma char_insns_le: "char_insns xs \<le> length xs"
  by (simp add: char_insns_def)

lemma simple_loop_code:
  "\<forall>i \<in> set xs. insn cc i \<Longrightarrow> code_at bc pos (code xs) \<Longrightarrow> 0 \<le> c \<Longrightarrow>
   simple_loop bc (pos + length (code xs)) pos c = Some k \<Longrightarrow> 0 \<le> k \<Longrightarrow>
   (\<forall>i \<in> set xs. insn_op i \<in> set simple_chars \<union> set simple_tests) \<and> k = c + int (char_insns xs)"
proof (induction xs arbitrary: pos c)
  case Nil
  then show ?case by (subst (asm) simple_loop.simps) simp
next
  case (Cons i xs)
  have i: "insn cc i" and at: "code_at bc pos i" "code_at bc (pos + length i) (code xs)"
    using Cons.prems by (auto simp: code_at_append)
  note o = op_at_code [OF at(1) i]
  have ne: "0 < length i" using insn_nonempty [OF i] by simp
  have IH: "(\<forall>i \<in> set xs. insn_op i \<in> set simple_chars \<union> set simple_tests) \<and> k = c' + int (char_insns xs)"
    if "simple_loop bc (pos + length i + length (code xs)) (pos + length i) c' = Some k" "0 \<le> c'" for c'
    using Cons.IH [OF _ at(2) that(2,1) Cons.prems(5)] Cons.prems(1) by simp
  show ?case
  proof (cases "insn_op i \<in> set simple_chars")
    case True
    then have "simple_loop bc (pos + length i + length (code xs)) (pos + length i) (c + 1) = Some k"
      using Cons.prems(4) o ne by (subst (asm) simple_loop.simps) (simp add: add.assoc)
    from IH [OF this] show ?thesis using True Cons.prems(3) by simp
  next
    case False
    have t: "insn_op i \<in> set simple_tests"
      using Cons.prems(4,5) o ne False
      by (subst (asm) simple_loop.simps) (auto simp: simple_tests_def split: if_splits)
    then have "simple_loop bc (pos + length i + length (code xs)) (pos + length i) c = Some k"
      using Cons.prems(4) o ne False
      by (subst (asm) simple_loop.simps) (auto simp: simple_tests_def add.assoc)
    from IH [OF this Cons.prems(3)] show ?thesis using False t by simp
  qed
qed

lemma atom_chars_code:
  "\<forall>i \<in> set xs. insn cc i \<and> insn_op i \<in> set simple_chars \<union> set simple_tests \<Longrightarrow>
   code_at (bc_buf s) b (code xs @ [reop_code REOP_match]) \<Longrightarrow> length xs < k \<Longrightarrow>
   atom_chars k s b = Some (char_insns xs)"
proof (induction xs arbitrary: b k)
  case Nil
  then obtain j where "k = Suc j" by (cases k) auto
  then show ?case using fetch_code [of s b REOP_match "[]"] Nil by simp
next
  case (Cons i xs)
  then obtain j where k: "k = Suc j" "length xs < j" by (cases k) auto
  have i: "insn cc i" and at: "code_at (bc_buf s) b i" "code_at (bc_buf s) (b + length i) (code xs @ [reop_code REOP_match])"
    using Cons.prems by (auto simp: code_at_append add.assoc)
  have IH: "atom_chars j s (b + length i) = Some (char_insns xs)"
    by (rule Cons.IH [OF _ at(2) k(2)]) (use Cons.prems(1) in simp)
  have f: "fetch s b = Some (insn_op i)" using fetch_insn [OF at(1) i] .
  have room: "b + length i \<le> length (bc_buf s)" using code_at_length [OF at(1)] .
  show ?case
  proof (cases "insn_op i = REOP_range \<or> insn_op i = REOP_range32")
    case True
    then obtain n where n: "rd16 i 1 = Some n" "n \<noteq> 0" "length i = 3 + unat n * (if insn_op i = REOP_range then 4 else 8)"
      using i by (auto simp: insn_def insn_len_def operand_at_def bind_eq_Some_conv split: option.splits if_splits)
    note n' = rd_code(2) [OF at(1) n(1)]
    show ?thesis
    proof (cases "insn_op i = REOP_range")
      case True
      then have l: "b + length i = b + 3 + 4 * unat n" using n(3) by simp
      show ?thesis using True f n' n(2) IH room unfolding l by (simp add: k(1) simple_chars_def)
    next
      case False
      then have o: "insn_op i = REOP_range32" using True by simp
      then have l: "b + length i = b + 3 + 8 * unat n" using n(3) by simp
      show ?thesis using o f n' n(2) IH room unfolding l by (simp add: k(1) simple_chars_def)
    qed
  next
    case False
    then have l: "length i = reop_size (insn_op i)" using insn_length [OF i] by simp
    have o: "insn_op i \<in> set simple_chars \<union> set simple_tests" using Cons.prems(1) by simp
    show ?thesis
      using False o f IH room l
      by (auto simp: k(1) simple_chars_def simple_tests_def)
  qed
qed

section \<open>Greedy loops\<close>

definition greedy_insn :: "u32 \<Rightarrow> u32 \<Rightarrow> u32 \<Rightarrow> u32 \<Rightarrow> bytes" where
  "greedy_insn k lo hi n = reop_code REOP_simple_greedy_quant # le32 k @ le32 lo @ le32 hi @ le32 n"

lemma greedy_insn_simps [simp]:
  "length (greedy_insn k lo hi n) = 17" "greedy_insn k lo hi n \<noteq> []"
  "insn_op (greedy_insn k lo hi n) = REOP_simple_greedy_quant"
  by (simp_all add: greedy_insn_def)

lemma insn_greedy: "insn cc (greedy_insn k lo hi n)"
  unfolding greedy_insn_def by (rule insn_plain) simp_all

lemma greedy_operand_reads:
  assumes "code_at bc b (greedy_insn k lo hi n)"
  shows "get_u32 bc (b + 1) = k" "get_u32 bc (b + 1 + 12) = n" "b + 17 \<le> length bc"
proof -
  have at: "code_at bc (b + 1) (le32 k @ le32 lo @ le32 hi @ le32 n)"
    using assms unfolding greedy_insn_def by (rule code_at_tail)
  then have "code_at bc (b + 1) (le32 k)" "code_at bc (b + 1 + 12) (le32 n)"
    by (auto simp: code_at_append add.assoc)
  from this [THEN rd32_code] show "get_u32 bc (b + 1) = k" "get_u32 bc (b + 1 + 12) = n"
    by (auto simp: rd32_def split: if_splits)
  show "b + 17 \<le> length bc" using code_at_length [OF assms] by simp
qed

lemma frag_length: "\<forall>i \<in> set xs. i \<noteq> [] \<Longrightarrow> length xs \<le> length (code xs)"
proof (induction xs)
  case (Cons i xs)
  then have "Suc 0 \<le> length i" "length xs \<le> length (code xs)" by (simp_all add: Suc_le_eq)
  then show ?case by simp
qed simp

lemma frag_greedy:
  assumes xs: "frag cc xs" "\<forall>i \<in> set xs. insn_op i \<in> set simple_chars \<union> set simple_tests" "0 < char_insns xs"
    and len: "length (code xs) + 18 < 2 ^ 31"
  shows "frag cc (greedy_insn (of_nat (length (code xs) + 1)) lo hi (of_nat (char_insns xs)) # xs @
    [[reop_code REOP_match]])"
proof (rule fragI)
  let ?g = "greedy_insn (of_nat (length (code xs) + 1)) lo hi (of_nat (char_insns xs))"
  let ?m = "[reop_code REOP_match]"
  have ne: "\<forall>i \<in> set xs. i \<noteq> []" using frag_nonempty [OF xs(1)] .
  have n: "char_insns xs < 2 ^ 31" using char_insns_le [of xs] frag_length [OF ne] len by linarith
  have im: "insn cc ?m" by (rule insn_plain) simp_all
  show "insn cc i" if "i \<in> set (?g # xs @ [?m])" for i
    using that frag_insns [OF xs(1)] insn_greedy im by auto
  show "depth_run (?g # xs @ [?m]) 0 = Some 0" using frag_run [OF xs(1)] by (simp add: depth_run_append)
  fix s D b e assume p: "placed cc (?g # xs @ [?m]) s D b e"
  note p0 = placed_Cons [OF p, of e, simplified]
  note p1 = placed_frag [OF p0(1) xs(1)]
  note p2 = placed_Cons [OF p1(2), of e, simplified]
  have fin: "D (b + 17 + length (code xs) + 1) e" using placed_start [OF p2(1)] by simp
  note r = greedy_operand_reads [OF p0(2)]
  have at: "code_at (bc_buf s) (b + 17) (code xs @ ?m)" using p0(1) by (simp add: placed_def code_at_append)
  have k: "length xs < length (bc_buf s)"
    using frag_length [OF ne] code_at_length [OF at] by simp
  have chars: "atom_chars (length (bc_buf s)) s (b + 1 + 16) = Some (char_insns xs)"
    using atom_chars_code [of xs cc s "b + 17", OF _ at k] frag_insns [OF xs(1)] xs(2) by (simp add: add.commute)
  have u: "unat (of_nat (char_insns xs) :: u32) = char_insns xs" using n by (simp add: unat_of_nat take_bit_nat_eq_self)
  have "jump (b + 1 + 16) (of_int (int (length (code xs) + 1))) = Some (b + 17 + length (code xs) + 1)"
    by (subst jump_of_int) (use len in auto)
  then have j: "jump (b + 1 + 16) (1 + of_nat (length (code xs))) = Some (b + 17 + length (code xs) + 1)" by simp
  have "0 < (of_nat (char_insns xs) :: u32)"
    using u xs(3) by (metis unat_gt_0 word_greater_zero_iff)
  then have "quant_ok s D (b + 1) e"
    unfolding quant_ok_def r j u chars option.case using r(3) fin by simp
  moreover have "fetch s b = Some REOP_simple_greedy_quant"
    using fetch_insn [OF p0(2) insn_greedy] by simp
  ultimately have "typed_at s D b e" using p0(4) by (simp add: typed_at_def)
  moreover have "typed_code (xs @ [?m]) s D (b + 17) e"
  proof (rule typed_frag_then [OF xs(1)])
    have "typed_at s D (b + 17 + length (code xs)) e" by (rule stack_op_typed(4)) (use p2 in auto)
    then show "typed_code [?m] s D (b + 17 + length (code xs)) e" by (simp add: typed_code_single)
  qed (use p1(1) in simp)
  ultimately show "typed_code (?g # xs @ [?m]) s D b e"
    using typed_code_Cons [of ?g "xs @ [?m]" e e s D b] ne by auto
qed

section \<open>Stack size\<close>

lemma stack_loop_code:
  "\<forall>i \<in> set xs. insn cc i \<Longrightarrow> code_at bc pos (code xs) \<Longrightarrow> d \<le> mx \<Longrightarrow> mx \<le> STACK_SIZE_MAX \<Longrightarrow>
   stack_loop bc (pos + length (code xs)) pos d mx = Some r \<Longrightarrow> 0 \<le> r \<Longrightarrow>
   int mx \<le> r \<and> r \<le> int STACK_SIZE_MAX \<and> (\<forall>p d'. lin xs d p d' \<longrightarrow> int d' \<le> r)"
proof (induction xs arbitrary: pos d mx)
  case Nil
  then show ?case by (subst (asm) stack_loop.simps) auto
next
  case (Cons i xs)
  have i: "insn cc i" and at: "code_at bc pos i" "code_at bc (pos + length i) (code xs)"
    using Cons.prems by (auto simp: code_at_append)
  note o = op_at_code [OF at(1) i]
  have ne: "0 < length i" using insn_nonempty [OF i] by simp
  have IH: "int mx' \<le> r \<and> r \<le> int STACK_SIZE_MAX \<and> (\<forall>p d''. lin xs d' p d'' \<longrightarrow> int d'' \<le> r)"
    if "stack_loop bc (pos + length i + length (code xs)) (pos + length i) d' mx' = Some r"
      "d' \<le> mx'" "mx' \<le> STACK_SIZE_MAX" for d' mx'
    using Cons.IH [OF _ at(2) that(2,3,1) Cons.prems(6)] Cons.prems(1) by auto
  have run: "stack_loop bc (pos + (length i + length (code xs))) pos d mx = Some r"
    using Cons.prems(5) by (simp add: add.assoc)
  let ?next = "stack_loop bc (pos + (length i + length (code xs))) (pos + length i)"
  have "\<exists>d1 mx1. depth_step (insn_op i) d = Some d1 \<and> d1 \<le> mx1 \<and> mx \<le> mx1 \<and> mx1 \<le> STACK_SIZE_MAX \<and> ?next d1 mx1 = Some r"
  proof (cases "pushes (insn_op i)")
    case True
    then have "?next (d + 1) (max mx (d + 1)) = Some r \<and> max mx (d + 1) \<le> STACK_SIZE_MAX"
      using run Cons.prems(3,4,6) o ne
      by (subst (asm) stack_loop.simps) (auto simp: pushes_def split: if_splits)
    then show ?thesis using True
      by (intro exI [of _ "d + 1"] exI [of _ "max mx (d + 1)"]) (simp add: depth_step_def)
  next
    case np: False
    show ?thesis
    proof (cases "pops (insn_op i)")
      case True
      then have "?next (d - 1) mx = Some r \<and> d \<noteq> 0"
        using run np o ne by (subst (asm) stack_loop.simps) (auto simp: pops_def split: if_splits)
      then show ?thesis using True np Cons.prems(3,4)
        by (intro exI [of _ "d - 1"] exI [of _ mx]) (simp add: depth_step_def)
    next
      case False
      then have "?next d mx = Some r"
        using run np o ne by (subst (asm) stack_loop.simps) (auto simp: pushes_def pops_def split: if_splits)
      then show ?thesis using False np Cons.prems(3,4)
        by (intro exI [of _ d] exI [of _ mx]) (simp add: depth_step_def)
    qed
  qed
  then obtain d1 mx1 where 1: "depth_step (insn_op i) d = Some d1" "d1 \<le> mx1" "mx \<le> mx1" "mx1 \<le> STACK_SIZE_MAX"
      "stack_loop bc (pos + length i + length (code xs)) (pos + length i) d1 mx1 = Some r" by (auto simp: add.assoc)
  note IH' = IH [OF 1(5,2,4)]
  show ?case
  proof (intro conjI allI impI)
    fix p d' assume "lin (i # xs) d p d'"
    then consider "d' = d" | "lin xs d1 (p - length i) d'" using 1(1) by auto
    then show "int d' \<le> r" by cases (use IH' 1 Cons.prems(3) in auto)
  qed (use IH' 1(3) in auto)
qed

end
