(* ===== verification/RegexpRewrite.thy ===== *)
theory RegexpRewrite
  imports RegexpCompile RegexpScan
begin

text \<open>
  How the steps of the compiler change the emitted code, as far as no allocation has failed. \<open>changes s s' pos a b\<close>:
  the step from \<open>s\<close> to \<open>s'\<close> replaces the code \<open>a\<close> that starts at \<open>pos\<close> and reaches to the end by \<open>b\<close>.
  A failed allocation sticks, so that nothing needs to be said about the code after it.
\<close>

section \<open>The calculus\<close>

abbreviation failed :: "re_parse_state \<Rightarrow> bool" where
  "failed s \<equiv> error (byte_code s)"

abbreviation emitted :: "re_parse_state \<Rightarrow> bytes" where
  "emitted s \<equiv> contents (byte_code s)"

definition emit_ok :: "re_parse_state \<Rightarrow> bool" where
  "emit_ok s \<longleftrightarrow> \<not> failed s \<and> dbuf_ok (byte_code s) \<and> 1 \<le> re_capture_count s \<and> re_capture_count s \<le> CAPTURE_COUNT_MAX"

definition changes :: "re_parse_state \<Rightarrow> re_parse_state \<Rightarrow> nat \<Rightarrow> bytes \<Rightarrow> bytes \<Rightarrow> bool" where
  "changes s s' pos a b \<longleftrightarrow>
     (failed s \<longrightarrow> failed s') \<and> re_capture_count s' = re_capture_count s \<and> re_group_names s' = re_group_names s \<and>
     (\<forall>pre. emit_ok s \<and> \<not> failed s' \<and> length pre = pos \<and> emitted s = pre @ a \<longrightarrow> emit_ok s' \<and> emitted s' = pre @ b)"

abbreviation appends :: "re_parse_state \<Rightarrow> re_parse_state \<Rightarrow> bytes \<Rightarrow> bool" where
  "appends s s' d \<equiv> changes s s' (bsize s) [] d"

lemma emit_ok_size: "emit_ok s \<Longrightarrow> bsize s = length (emitted s)"
  by (simp add: emit_ok_def bsize_def)

lemma changesD:
  "changes s s' pos a b \<Longrightarrow> emit_ok s \<Longrightarrow> \<not> failed s' \<Longrightarrow> emitted s = pre @ a \<Longrightarrow> length pre = pos \<Longrightarrow>
   emit_ok s' \<and> emitted s' = pre @ b"
  by (simp add: changes_def)

lemma changes_failed: "changes s s' pos a b \<Longrightarrow> failed s \<Longrightarrow> failed s'"
  by (simp add: changes_def)

lemma changes_count: "changes s s' pos a b \<Longrightarrow> re_capture_count s' = re_capture_count s"
  by (simp add: changes_def)

lemma changes_refl: "changes s s pos a a"
  by (simp add: changes_def)

lemma changes_trans [trans]:
  assumes "changes s s1 pos a b" "changes s1 s2 pos b c"
  shows "changes s s2 pos a c"
  using assms unfolding changes_def by metis

lemma appends_changes:
  assumes "appends s s' d"
  shows "changes s s' pos a (a @ d)"
  unfolding changes_def
proof (intro conjI allI impI)
  fix pre assume a: "emit_ok s \<and> \<not> failed s' \<and> length pre = pos \<and> emitted s = pre @ a"
  have "emit_ok s' \<and> emitted s' = (pre @ a) @ d"
    by (rule changesD [OF assms]) (use a emit_ok_size [of s] in auto)
  then show "emit_ok s'" "emitted s' = pre @ a @ d" by simp_all
qed (use assms in \<open>auto simp: changes_def\<close>)

lemma appends_trans:
  assumes "appends s s1 d1" "appends s1 s2 d2"
  shows "appends s s2 (d1 @ d2)"
  using changes_trans [OF assms(1) appends_changes [OF assms(2)]] .

section \<open>Appending\<close>

lemma dbuf_realloc_error: "error s \<Longrightarrow> error (fst (dbuf_realloc s n))"
  by (simp add: dbuf_realloc_def)

lemma dbuf_reserve_error: "error s \<Longrightarrow> error (fst (dbuf_reserve s n))"
  by (simp add: dbuf_reserve_def dbuf_realloc_error)

lemma dbuf_put_error: "error s \<Longrightarrow> error (fst (dbuf_put s d))"
  using dbuf_reserve_error [of s "length d"] by (auto simp: dbuf_put_def Let_def split: prod.splits)

lemma dbuf_put_self_error: "error s \<Longrightarrow> error (fst (dbuf_put_self s pos len))"
  using dbuf_reserve_error [of s len] by (auto simp: dbuf_put_self_def Let_def split: prod.splits)

lemma put_appends:
  assumes "length d \<le> PTRDIFF_MAX"
  shows "appends s (s\<lparr>byte_code := fst (dbuf_put (byte_code s) d)\<rparr>) d"
  using dbuf_put_error dbuf_sink.put_invar [of "byte_code s" d] dbuf_sink.put_view [of "byte_code s" d] assms
  by (simp add: changes_def emit_ok_def)

lemma emit_op_appends: "appends s (re_emit_op s opc) [reop_code opc]"
  unfolding re_emit_op_def dbuf_putc_def by (rule put_appends) simp

lemma emit_op_u8_appends: "appends s (re_emit_op_u8 s opc v) [reop_code opc, ucast v]"
  using appends_trans [OF emit_op_appends put_appends [of "[ucast v]"]]
  by (simp add: re_emit_op_u8_def dbuf_putc_def Let_def)

lemma emit_op_u16_appends: "appends s (re_emit_op_u16 s opc v) (reop_code opc # le16 (ucast v))"
  using appends_trans [OF emit_op_appends put_appends [of "le16 (ucast v)"]]
  by (simp add: re_emit_op_u16_def dbuf_put_u16_def Let_def)

lemma emit_op_u32_appends: "appends s (fst (re_emit_op_u32 s opc v)) (reop_code opc # le32 v)"
  using appends_trans [OF emit_op_appends put_appends [of "le32 v"]]
  by (simp add: re_emit_op_u32_def dbuf_put_u32_def Let_def)

lemma of_nat_diff_int: "of_nat t - of_nat x = (of_int (int t - int x) :: u32)"
  by simp

lemma emit_goto_changes:
  assumes "t = pos + k"
  shows "changes s (fst (re_emit_goto s opc (of_nat t))) pos a
    (a @ jump_insn opc (int k - int (length a) - 5))"
proof -
  let ?s = "re_emit_op s opc"
  have eq: "fst (re_emit_goto s opc (of_nat t)) =
      ?s\<lparr>byte_code := fst (dbuf_put (byte_code ?s) (le32 (of_nat t - of_nat (bsize ?s + 4))))\<rparr>"
    by (simp add: re_emit_goto_def dbuf_put_u32_def Let_def bsize_def)
  note ops = appends_changes [OF emit_op_appends]
  note r = appends_changes [OF put_appends [of "le32 (of_nat t - of_nat (bsize ?s + 4))"]]
  show ?thesis unfolding changes_def
  proof (intro conjI allI impI)
    fix pre assume a: "emit_ok s \<and> \<not> failed (fst (re_emit_goto s opc (of_nat t))) \<and> length pre = pos \<and> emitted s = pre @ a"
    have nf: "\<not> failed ?s" using a eq dbuf_put_error by fastforce
    have 1: "emit_ok ?s \<and> emitted ?s = pre @ a @ [reop_code opc]"
      by (rule changesD [OF ops]) (use a nf in auto)
    then have v: "of_nat t - of_nat (bsize ?s + 4) = (of_int (int k - int (length a) - 5) :: u32)"
      using a assms emit_ok_size [of ?s] by (simp add: of_nat_diff_int del: of_int_diff) (simp add: algebra_simps)
    have 2: "fst (re_emit_goto s opc (of_nat t)) =
        ?s\<lparr>byte_code := fst (dbuf_put (byte_code ?s) (le32 (of_int (int k - int (length a) - 5))))\<rparr>"
      unfolding eq v by (rule refl)
    have "emit_ok (fst (re_emit_goto s opc (of_nat t))) \<and>
        emitted (fst (re_emit_goto s opc (of_nat t))) = (pre @ a @ [reop_code opc]) @ le32 (of_int (int k - int (length a) - 5))"
      unfolding 2 by (rule changesD [OF put_appends]) (use 1 a 2 emit_ok_size [of ?s] in auto)
    then show "emit_ok (fst (re_emit_goto s opc (of_nat t)))"
      "emitted (fst (re_emit_goto s opc (of_nat t))) = pre @ a @ jump_insn opc (int k - int (length a) - 5)"
      by (simp_all add: jump_insn_def)
  qed (use emit_op_appends [of s opc] in \<open>auto simp: eq changes_def dbuf_put_error\<close>)
qed

lemma copy_atom_changes:
  assumes "p = pos + length a" "len = length b"
  shows "changes s (copy_atom s p len) pos (a @ b @ c) (a @ b @ c @ b)"
  unfolding changes_def
proof (intro conjI allI impI)
  fix pre assume h: "emit_ok s \<and> \<not> failed (copy_atom s p len) \<and> length pre = pos \<and> emitted s = pre @ a @ b @ c"
  then have ok: "dbuf_ok (byte_code s)" and c: "emitted s = pre @ a @ b @ c" "p = length (pre @ a)"
    using assms by (auto simp: emit_ok_def)
  have fit: "p + len \<le> dbuf_size (byte_code s)"
    using length_contents [OF ok] c assms(2) by simp
  have "take len (drop p (emitted s)) = b" unfolding c assms(2) by simp
  then show "emit_ok (copy_atom s p len)" "emitted (copy_atom s p len) = pre @ a @ b @ c @ b"
    using dbuf_put_self_cases [OF ok fit prod.collapse [symmetric]] h c
    by (auto simp: emit_ok_def copy_atom_def)
qed (auto simp: copy_atom_def dbuf_put_self_error)

section \<open>Patching and inserting\<close>

lemma take_blit_inside:
  "off + length src \<le> n \<Longrightarrow> n \<le> length dst \<Longrightarrow> take n (blit dst off src) = blit (take n dst) off src"
  by (cases "n = off") (auto simp: blit_def drop_take)

lemma poke_changes:
  assumes "poke s p v = Some s'" "p = pos + length a + i" "i < length h"
  shows "changes s s' pos (a @ h @ b) (a @ h[i := v] @ b)"
proof -
  from assms(1) have s': "s' = s\<lparr>byte_code := byte_code s\<lparr>buf := (buf (byte_code s))[p := v]\<rparr>\<rparr>"
    by (auto simp: poke_def split: if_splits)
  show ?thesis
    unfolding changes_def
  proof (intro conjI allI impI)
    fix pre assume h: "emit_ok s \<and> \<not> failed s' \<and> length pre = pos \<and> emitted s = pre @ a @ h @ b"
    have "emitted s' = (emitted s)[p := v]" by (simp add: s' contents_def take_update_swap)
    also have "\<dots> = pre @ a @ h[i := v] @ b" using h assms(2,3) by (simp add: list_update_append)
    finally show "emitted s' = pre @ a @ h[i := v] @ b" .
    show "emit_ok s'" using h by (simp add: s' emit_ok_def dbuf_ok_def)
  qed (auto simp: s')
qed

lemma poke_u32_changes:
  assumes "poke_u32 s p v = Some s'" "p = pos + length a + i" "i + 4 \<le> length h"
  shows "changes s s' pos (a @ h @ b) (a @ put_u32 h i v @ b)"
proof -
  from assms(1) have s': "s' = s\<lparr>byte_code := byte_code s\<lparr>buf := put_u32 (buf (byte_code s)) p v\<rparr>\<rparr>"
      and fit: "p + 4 \<le> length (buf (byte_code s))"
    by (auto simp: poke_u32_def split: if_splits)
  show ?thesis
    unfolding changes_def
  proof (intro conjI allI impI)
    fix pre assume h: "emit_ok s \<and> \<not> failed s' \<and> length pre = pos \<and> emitted s = pre @ a @ h @ b"
    then have sz: "p + 4 \<le> dbuf_size (byte_code s)"
      using emit_ok_size [of s] assms(2,3) by (simp add: bsize_def)
    have "emitted s' = blit (emitted s) p (le32 v)"
      using h sz by (simp add: s' contents_def emit_ok_def dbuf_ok_def put_u32_def take_blit_inside [where off = p and src = "le32 v"])
    also have "\<dots> = pre @ a @ put_u32 h i v @ b" using h assms(2,3) by (simp add: blit_def put_u32_def)
    finally show "emitted s' = pre @ a @ put_u32 h i v @ b" .
    show "emit_ok s'" using h fit by (simp add: s' emit_ok_def dbuf_ok_def put_u32_def)
  qed (auto simp: s')
qed

lemma insert_code_changes:
  assumes "insert_code s p len = (s', 0)" "p = pos + length a"
  shows "\<exists>h. length h = len \<and> changes s s' pos (a @ b) (a @ h @ b)"
proof -
  obtain d r where d: "dbuf_realloc (byte_code s) (dbuf_size (byte_code s) + len) = (d, r)" by force
  then have r: "r = 0" and s': "s' = s\<lparr>byte_code := d\<lparr>buf := blit (buf d) (p + len)
      (take (dbuf_size d - p) (drop p (buf d))), dbuf_size := dbuf_size d + len\<rparr>\<rparr>"
    using assms(1) by (auto simp: insert_code_def dbuf_insert_def re_parse_out_of_memory_def re_parse_error_def Let_def
        split: if_splits)
  define g where "g = take len (drop p (buf d)) @ replicate (len - (length (buf d) - p)) 0"
  have "changes s s' pos (a @ b) (a @ g @ b)"
    unfolding changes_def
  proof (intro conjI allI impI)
    fix pre assume h: "emit_ok s \<and> \<not> failed s' \<and> length pre = pos \<and> emitted s = pre @ a @ b"
    have ok: "dbuf_ok (byte_code s)" using h by (simp add: emit_ok_def)
    note R = dbuf_realloc_ok [OF ok d [unfolded r]]
    have sz: "dbuf_size d = p + length b" "p = length (pre @ a)"
      using h assms(2) emit_ok_size [of s] R(3) by (simp_all add: bsize_def)
    have fit: "p + len + length b \<le> length (buf d)" using R(1,2,3) sz by (simp add: dbuf_ok_def)
    have c: "take (p + length b) (buf d) = pre @ a @ b" using R(4) h sz by (simp add: contents_def)
    then have "take p (buf d) @ take (length b) (drop p (buf d)) = (pre @ a) @ b" by (simp add: take_add)
    moreover have "length (take p (buf d)) = length (pre @ a)" using sz(2) fit by simp
    ultimately have "take p (buf d) = pre @ a" "take (length b) (drop p (buf d)) = b"
      using append_eq_append_conv by blast+
    moreover have "g = take len (drop p (buf d))" using fit by (simp add: g_def)
    ultimately show "emitted s' = pre @ a @ g @ b"
      using fit sz by (simp add: s' contents_def blit_def take_add [of "length pre + length a"])
    show "emit_ok s'" using h R(1,5) fit sz(1) by (simp add: s' emit_ok_def dbuf_ok_def)
  qed (use dbuf_realloc_error [of "byte_code s" "dbuf_size (byte_code s) + len"] d in \<open>auto simp: s'\<close>)
  moreover have "length g = len" by (simp add: g_def)
  ultimately show ?thesis by blast
qed

text \<open>Patches that fill a hole.\<close>

lemma length_put_u32 [simp]: "i + 4 \<le> length h \<Longrightarrow> length (put_u32 h i v) = length h"
  by (simp add: put_u32_def)

lemma fill_jump: "length h = 5 \<Longrightarrow> put_u32 (h[0 := reop_code opc]) (Suc 0) (of_int k) = jump_insn opc k"
  by (cases h) (auto simp: put_u32_def blit_def jump_insn_def)

lemma fill_push: "length h = 5 \<Longrightarrow> put_u32 (h[0 := reop_code REOP_push_i32]) (Suc 0) v = push_insn v"
  by (cases h) (auto simp: put_u32_def blit_def push_insn_def)

lemma fill_greedy:
  "length h = 17 \<Longrightarrow>
   put_u32 (put_u32 (put_u32 (put_u32 (h[0 := reop_code REOP_simple_greedy_quant]) (Suc 0) k) 5 lo) 9 hi) 13 n = greedy_insn k lo hi n"
  by (cases h) (auto simp: put_u32_def blit_def greedy_insn_def)

lemma changes_prefix:
  assumes "changes s s' (pos + length p) a b"
  shows "changes s s' pos (p @ a) (p @ b)"
  unfolding changes_def
proof (intro conjI allI impI)
  fix pre assume h: "emit_ok s \<and> \<not> failed s' \<and> length pre = pos \<and> emitted s = pre @ p @ a"
  have "emit_ok s' \<and> emitted s' = (pre @ p) @ b" by (rule changesD [OF assms]) (use h in auto)
  then show "emit_ok s'" "emitted s' = pre @ p @ b" by simp_all
qed (use assms in \<open>auto simp: changes_def\<close>)

lemma changes_truncate:
  assumes "p = pos + length a"
  shows "changes s (s\<lparr>byte_code := byte_code s\<lparr>dbuf_size := p\<rparr>\<rparr>) pos (a @ b) a"
  unfolding changes_def
proof (intro conjI allI impI)
  fix pre assume h: "emit_ok s \<and> \<not> failed (s\<lparr>byte_code := byte_code s\<lparr>dbuf_size := p\<rparr>\<rparr>) \<and> length pre = pos \<and>
    emitted s = pre @ a @ b"
  then have sz: "dbuf_size (byte_code s) = p + length b" using assms emit_ok_size [of s] by (simp add: bsize_def)
  then have "emitted (s\<lparr>byte_code := byte_code s\<lparr>dbuf_size := p\<rparr>\<rparr>) = take p (emitted s)"
    by (simp add: contents_def)
  then show "emitted (s\<lparr>byte_code := byte_code s\<lparr>dbuf_size := p\<rparr>\<rparr>) = pre @ a" using h assms by simp
  show "emit_ok (s\<lparr>byte_code := byte_code s\<lparr>dbuf_size := p\<rparr>\<rparr>)"
    using h sz by (simp add: emit_ok_def dbuf_ok_def)
qed auto

text \<open>Values that the code computes from the size of the buffer are known when nothing has failed.\<close>

definition sticky :: "re_parse_state \<Rightarrow> re_parse_state \<Rightarrow> bool" where
  "sticky s s' \<longleftrightarrow> (failed s \<longrightarrow> failed s') \<and> re_capture_count s' = re_capture_count s \<and>
     re_group_names s' = re_group_names s"

lemma sticky_trans: "sticky s s1 \<Longrightarrow> sticky s1 s2 \<Longrightarrow> sticky s s2"
  by (simp add: sticky_def)

lemma changes_sticky: "changes s s' pos a b \<Longrightarrow> sticky s s'"
  by (simp add: changes_def sticky_def)

lemma changes_sized:
  assumes "sticky s s'" "bsize s = pos + length a \<Longrightarrow> changes s s' pos a b"
  shows "changes s s' pos a b"
  unfolding changes_def
proof (intro conjI allI impI)
  fix pre assume h: "emit_ok s \<and> \<not> failed s' \<and> length pre = pos \<and> emitted s = pre @ a"
  then have "changes s s' pos a b" using assms(2) emit_ok_size [of s] by simp
  from changesD [OF this] show "emit_ok s'" "emitted s' = pre @ b" using h by auto
qed (use assms(1) in \<open>auto simp: sticky_def\<close>)

lemma sticky_poke: "poke s p v = Some s' \<Longrightarrow> sticky s s'" "poke_u32 s p w = Some s' \<Longrightarrow> sticky s s'"
  by (auto simp: poke_def poke_u32_def sticky_def split: if_splits)

lemma sticky_emit:
  "sticky s (re_emit_op s opc)" "sticky s (fst (re_emit_op_u32 s opc v))" "sticky s (fst (re_emit_goto s opc v))"
  "sticky s (copy_atom s p len)"
  using emit_op_appends [of s opc]
  by (auto simp: sticky_def changes_def re_emit_op_u32_def re_emit_goto_def dbuf_put_u32_def copy_atom_def Let_def
      intro: dbuf_put_error dbuf_put_self_error)

lemma sticky_emitI:
  "sticky s s"
  "sticky s s1 \<Longrightarrow> sticky s (re_emit_op s1 opc)" "sticky s s1 \<Longrightarrow> sticky s (fst (re_emit_op_u32 s1 opc v))"
  "sticky s s1 \<Longrightarrow> sticky s (fst (re_emit_goto s1 opc v))" "sticky s s1 \<Longrightarrow> sticky s (copy_atom s1 p len)"
  by (auto intro: sticky_trans sticky_emit simp: sticky_def [of s s])

section \<open>Quantifiers\<close>

lemma emit_greedy_changes:
  assumes "emit_greedy s pos lo hi n = Some (s', 0)"
  shows "changes s s' pos (code xs)
    (code (greedy_insn (of_nat (length (code xs) + 1)) lo hi n # xs @ [[reop_code REOP_match]]))"
proof -
  let ?s = "re_emit_op s REOP_match" and ?m = "code xs @ [reop_code REOP_match]"
  from assms obtain s1 s2 s3 s4 s5 where run:
    "insert_code ?s pos 17 = (s1, 0)" "poke s1 pos (reop_code REOP_simple_greedy_quant) = Some s2"
    "poke_u32 s2 (pos + 1) (of_nat (bsize s2 - pos - 17)) = Some s3" "poke_u32 s3 (pos + 5) lo = Some s4"
    "poke_u32 s4 (pos + 9) hi = Some s5" "poke_u32 s5 (pos + 13) n = Some s'"
    by (auto simp: emit_greedy_def bind_eq_Some_conv split: prod.splits if_splits)
  obtain h where h: "length h = 17" "changes ?s s1 pos ?m (h @ ?m)"
    using insert_code_changes [OF run(1), of pos "[]" ?m] by auto
  let ?h = "h[0 := reop_code REOP_simple_greedy_quant]" and ?k = "of_nat (length (code xs) + 1) :: u32"
  have "changes s ?s pos (code xs) ?m" using appends_changes [OF emit_op_appends] .
  also note h(2)
  also have "changes s1 s2 pos (h @ ?m) (?h @ ?m)"
    using poke_changes [OF run(2), of pos "[]" 0 h ?m] h(1) by simp
  also have "changes s2 s3 pos (?h @ ?m) (put_u32 ?h 1 ?k @ ?m)"
  proof (rule changes_sized [OF sticky_poke(2) [OF run(3)]])
    assume "bsize s2 = pos + length (?h @ ?m)"
    then have "bsize s2 - pos - 17 = length (code xs) + 1" using h(1) by simp
    then show "changes s2 s3 pos (?h @ ?m) (put_u32 ?h 1 ?k @ ?m)"
      using poke_u32_changes [OF run(3), of pos "[]" 1 ?h ?m] h(1) by simp
  qed
  also have "changes s3 s4 pos (put_u32 ?h 1 ?k @ ?m) (put_u32 (put_u32 ?h 1 ?k) 5 lo @ ?m)"
    using poke_u32_changes [OF run(4), of pos "[]" 5 "put_u32 ?h 1 ?k" ?m] h(1) by simp
  also have "changes s4 s5 pos (put_u32 (put_u32 ?h 1 ?k) 5 lo @ ?m) (put_u32 (put_u32 (put_u32 ?h 1 ?k) 5 lo) 9 hi @ ?m)"
    using poke_u32_changes [OF run(5), of pos "[]" 9 "put_u32 (put_u32 ?h 1 ?k) 5 lo" ?m] h(1) by simp
  also have "changes s5 s' pos (put_u32 (put_u32 (put_u32 ?h 1 ?k) 5 lo) 9 hi @ ?m) (greedy_insn ?k lo hi n @ ?m)"
    using poke_u32_changes [OF run(6), of pos "[]" 13 "put_u32 (put_u32 (put_u32 ?h 1 ?k) 5 lo) 9 hi" ?m] h(1)
    by (simp add: fill_greedy)
  finally show ?thesis by simp
qed

lemma patch_hole:
  assumes "poke s p c = Some s1" "poke_u32 s1 (p + 1) v = Some s2" "p = pos + length a" "length h = 5"
  shows "changes s s2 pos (a @ h @ b) (a @ put_u32 (h[0 := c]) (Suc 0) v @ b)"
proof -
  have "changes s s1 pos (a @ h @ b) (a @ h[0 := c] @ b)"
    by (rule poke_changes [OF assms(1)]) (use assms in auto)
  also have "changes s1 s2 pos (a @ h[0 := c] @ b) (a @ put_u32 (h[0 := c]) (Suc 0) v @ b)"
    by (rule poke_u32_changes [OF assms(2)]) (use assms in auto)
  finally show ?thesis .
qed

lemma patch_jump:
  assumes "poke s p (reop_code opc) = Some s1" "poke_u32 s1 (p + 1) v = Some s2" "p = pos + length a" "length h = 5"
    "v = of_int k"
  shows "changes s s2 pos (a @ h @ b) (a @ jump_insn opc k @ b)"
  using patch_hole [OF assms(1-4)] by (simp add: fill_jump [OF assms(4)] assms(5))

lemma patch_push:
  assumes "poke s p (reop_code REOP_push_i32) = Some s1" "poke_u32 s1 (p + 1) v = Some s2" "p = pos + length a" "length h = 5"
  shows "changes s s2 pos (a @ h @ b) (a @ push_insn v @ b)"
  using patch_hole [OF assms(1-4)] by (simp add: fill_push [OF assms(4)])

definition reset_insns :: "nat \<Rightarrow> nat \<Rightarrow> bytes list" where
  "reset_insns lcc cc = (if lcc \<noteq> cc then [[reop_code REOP_save_reset, of_nat lcc, of_nat (cc - 1)]] else [])"

lemma emit_reset_changes:
  assumes "emit_reset s pos lcc = Some ((s', pos'), 0)"
  shows "pos' = pos + length (code (reset_insns lcc (re_capture_count s)))"
    "changes s s' pos a (code (reset_insns lcc (re_capture_count s)) @ a)"
proof -
  have "pos' = pos + length (code (reset_insns lcc (re_capture_count s))) \<and>
    changes s s' pos a (code (reset_insns lcc (re_capture_count s)) @ a)"
  proof (cases "lcc = re_capture_count s")
    case True
    then show ?thesis using assms by (simp add: emit_reset_def reset_insns_def changes_refl)
  next
    case False
    with assms obtain s1 s2 s3 where run: "insert_code s pos 3 = (s1, 0)" "poke s1 pos (reop_code REOP_save_reset) = Some s2"
      "poke s2 (pos + 1) (of_nat lcc) = Some s3" "poke s3 (pos + 2) (of_nat (re_capture_count s3 - 1)) = Some s'" "pos' = pos + 3"
      by (auto simp: emit_reset_def bind_eq_Some_conv split: prod.splits if_splits)
    obtain h where h: "length h = 3" "changes s s1 pos a (h @ a)"
      using insert_code_changes [OF run(1), of pos "[]" a] by auto
    let ?h = "h[0 := reop_code REOP_save_reset]" and ?c = "of_nat (re_capture_count s - 1) :: u8"
    note h(2)
    also have 2: "changes s1 s2 pos (h @ a) (?h @ a)"
      using poke_changes [OF run(2), of pos "[]" 0 h a] h(1) by simp
    also have 3: "changes s2 s3 pos (?h @ a) (?h[1 := of_nat lcc] @ a)"
      using poke_changes [OF run(3), of pos "[]" 1 ?h a] h(1) by simp
    also have "changes s3 s' pos (?h[1 := of_nat lcc] @ a) (?h[1 := of_nat lcc, 2 := ?c] @ a)"
      using poke_changes [OF run(4), of pos "[]" 2 "?h[1 := of_nat lcc]" a] h(1) changes_count [OF h(2)]
        changes_count [OF 2] changes_count [OF 3] by simp
    also have "?h[1 := of_nat lcc, 2 := ?c] = [reop_code REOP_save_reset, of_nat lcc, ?c]"
      using h(1) by (auto simp: numeral_3_eq_3 length_Suc_conv)
    finally show ?thesis using False run(5) by (simp add: reset_insns_def)
  qed
  then show "pos' = pos + length (code (reset_insns lcc (re_capture_count s)))"
    "changes s s' pos a (code (reset_insns lcc (re_capture_count s)) @ a)" by simp_all
qed

lemma emit_optional_changes:
  assumes "emit_optional s pos (length (code xs)) greedy = Some (s', 0)"
  shows "changes s s' pos (code xs) (code (jump_insn (split_op greedy) (int (length (code xs))) # xs))"
proof -
  from assms obtain s1 s2 where run: "insert_code s pos 5 = (s1, 0)" "poke s1 pos (reop_code (split_op greedy)) = Some s2"
    "poke_u32 s2 (pos + 1) (of_nat (length (code xs))) = Some s'"
    by (auto simp: emit_optional_def bind_eq_Some_conv split: prod.splits if_splits)
  obtain h where h: "length h = 5" "changes s s1 pos (code xs) (h @ code xs)"
    using insert_code_changes [OF run(1), of pos "[]" "code xs"] by auto
  note h(2)
  also have "changes s1 s' pos (h @ code xs) (jump_insn (split_op greedy) (int (length (code xs))) @ code xs)"
    using patch_jump [OF run(2,3), of pos "[]" h "int (length (code xs))" "code xs"] h(1) by simp
  finally show ?thesis by simp
qed

definition star_insns :: "bool \<Rightarrow> bool \<Rightarrow> bytes list \<Rightarrow> bytes list" where
  "star_insns greedy add_check xs =
     (if add_check
      then jump_insn (split_op greedy) (int (length (code xs)) + 6) # [reop_code REOP_push_char_pos] # xs @
        [jump_insn REOP_bne_char_pos (- int (length (code xs)) - 11)]
      else jump_insn (split_op greedy) (int (length (code xs)) + 5) # xs @
        [jump_insn REOP_goto (- int (length (code xs)) - 10)])"

lemma emit_star_changes:
  assumes "emit_star s pos (length (code xs)) greedy add_check = Some (s', 0)"
  shows "changes s s' pos (code xs) (code (star_insns greedy add_check xs))"
proof (cases add_check)
  case True
  with assms obtain s1 s2 s3 s4 where run: "insert_code s pos 6 = (s1, 0)" "poke s1 pos (reop_code (split_op greedy)) = Some s2"
    "poke_u32 s2 (pos + 1) (of_nat (length (code xs) + 6)) = Some s3"
    "poke s3 (pos + 5) (reop_code REOP_push_char_pos) = Some s4"
    and s': "s' = fst (re_emit_goto s4 REOP_bne_char_pos (of_nat pos))"
    by (auto simp: emit_star_def bind_eq_Some_conv add.commute split: prod.splits if_splits)
  obtain h where h: "length h = 6" "changes s s1 pos (code xs) (h @ code xs)"
    using insert_code_changes [OF run(1), of pos "[]" "code xs"] by auto
  then obtain h5 x where hx: "h = h5 @ [x]" "length h5 = 5"
    by (cases h rule: rev_cases) auto
  let ?j = "jump_insn (split_op greedy) (int (length (code xs)) + 6)"
  note h(2)
  also have "changes s1 s3 pos (h @ code xs) (?j @ [x] @ code xs)"
    using patch_jump [OF run(2,3), of pos "[]" h5 "int (length (code xs)) + 6" "[x] @ code xs"] hx by simp
  also have "changes s3 s4 pos (?j @ [x] @ code xs) (?j @ [reop_code REOP_push_char_pos] @ code xs)"
    using poke_changes [OF run(4), of pos ?j 0 "[x]" "code xs"] by simp
  also have "changes s4 s' pos (?j @ [reop_code REOP_push_char_pos] @ code xs)
      ((?j @ [reop_code REOP_push_char_pos] @ code xs) @ jump_insn REOP_bne_char_pos (- int (length (code xs)) - 11))"
    using emit_goto_changes [of pos pos 0 s4 REOP_bne_char_pos "?j @ [reop_code REOP_push_char_pos] @ code xs"]
    by (simp add: s' algebra_simps)
  finally show ?thesis using True by (simp add: star_insns_def)
next
  case False
  with assms obtain s1 s2 s3 where run: "insert_code s pos 5 = (s1, 0)" "poke s1 pos (reop_code (split_op greedy)) = Some s2"
    "poke_u32 s2 (pos + 1) (of_nat (length (code xs) + 5)) = Some s3"
    and s': "s' = fst (re_emit_goto s3 REOP_goto (of_nat pos))"
    by (auto simp: emit_star_def bind_eq_Some_conv split: prod.splits if_splits)
  obtain h where h: "length h = 5" "changes s s1 pos (code xs) (h @ code xs)"
    using insert_code_changes [OF run(1), of pos "[]" "code xs"] by auto
  let ?j = "jump_insn (split_op greedy) (int (length (code xs)) + 5)"
  note h(2)
  also have "changes s1 s3 pos (h @ code xs) (?j @ code xs)"
    using patch_jump [OF run(2,3), of pos "[]" h "int (length (code xs)) + 5" "code xs"] h(1) by simp
  also have "changes s3 s' pos (?j @ code xs) ((?j @ code xs) @ jump_insn REOP_goto (- int (length (code xs)) - 10))"
    using emit_goto_changes [of pos pos 0 s3 REOP_goto "?j @ code xs"] by (simp add: s' algebra_simps)
  finally show ?thesis using False by (simp add: star_insns_def)
qed

definition at_most_insns :: "bool \<Rightarrow> u32 \<Rightarrow> bytes list \<Rightarrow> bytes list" where
  "at_most_insns greedy v xs = push_insn v # jump_insn (split_op greedy) (int (length (code xs)) + 5) # xs @
     [jump_insn REOP_loop (- int (length (code xs)) - 10), [reop_code REOP_drop]]"

definition repeat_insns :: "u32 \<Rightarrow> bytes list \<Rightarrow> bytes list" where
  "repeat_insns v xs = push_insn v # xs @ [jump_insn REOP_loop (- int (length (code xs)) - 5), [reop_code REOP_drop]]"

text \<open>The end of a counted loop: the jump to \<open>pos + k\<close> and the drop.\<close>

lemma emit_loop_changes:
  assumes "t = pos + k"
  shows "changes s (re_emit_op (fst (re_emit_goto s REOP_loop (of_nat t))) REOP_drop) pos a
    (a @ jump_insn REOP_loop (int k - int (length a) - 5) @ [reop_code REOP_drop])"
  using changes_trans [OF emit_goto_changes [OF assms] appends_changes [OF emit_op_appends]] by simp

lemma emit_at_most_changes:
  assumes "emit_at_most s pos (length (code xs)) v greedy = Some (s', 0)"
  shows "changes s s' pos (code xs) (code (at_most_insns greedy v xs))"
proof -
  from assms obtain s1 s2 s3 s4 s5 where run: "insert_code s pos 10 = (s1, 0)" "poke s1 pos (reop_code REOP_push_i32) = Some s2"
    "poke_u32 s2 (pos + 1) v = Some s3" "poke s3 (pos + 5) (reop_code (split_op greedy)) = Some s4"
    "poke_u32 s4 (pos + 6) (of_nat (length (code xs) + 5)) = Some s5"
    and s': "s' = re_emit_op (fst (re_emit_goto s5 REOP_loop (of_nat (pos + 5)))) REOP_drop"
    by (auto simp: emit_at_most_def bind_eq_Some_conv Let_def split: prod.splits if_splits)
  obtain h where h: "length h = 10" "changes s s1 pos (code xs) (h @ code xs)"
    using insert_code_changes [OF run(1), of pos "[]" "code xs"] by auto
  define h1 h2 where "h1 = take 5 h" and "h2 = drop 5 h"
  then have hx: "h = h1 @ h2" "length h1 = 5" "length h2 = 5" using h(1) by simp_all
  let ?j = "jump_insn (split_op greedy) (int (length (code xs)) + 5)"
  have run5: "poke_u32 s4 (pos + 5 + 1) (of_nat (length (code xs) + 5)) = Some s5" using run(5) by (simp add: add.commute)
  note h(2)
  also have "changes s1 s3 pos (h @ code xs) (push_insn v @ h2 @ code xs)"
    using patch_push [OF run(2,3), of pos "[]" h1 "h2 @ code xs"] hx by simp
  also have "changes s3 s5 pos (push_insn v @ h2 @ code xs) (push_insn v @ ?j @ code xs)"
    using patch_jump [OF run(4) run5, of pos "push_insn v" h2 "int (length (code xs)) + 5" "code xs"] hx by simp
  also have "changes s5 s' pos (push_insn v @ ?j @ code xs)
      ((push_insn v @ ?j @ code xs) @ jump_insn REOP_loop (- int (length (code xs)) - 10) @ [reop_code REOP_drop])"
    using emit_loop_changes [of "pos + 5" pos 5 s5 "push_insn v @ ?j @ code xs"] by (simp add: s' algebra_simps)
  finally show ?thesis by (simp add: at_most_insns_def)
qed

text \<open>The required repetitions. What precedes the atom and what follows it in the result are both known.\<close>

lemma emit_at_least_changes:
  assumes "emit_at_least s pos (length (code xs)) v = Some ((s', atom), 0)"
  obtains p q where "changes s s' pos (code xs) (p @ code xs @ q)" "atom = pos + length p"
    "p @ code xs @ q = code (if v = 1 then xs else repeat_insns v xs)"
proof (cases "v = 1")
  case True
  then have "s' = s" "atom = pos" using assms by (simp_all add: emit_at_least_def)
  then show ?thesis using True by (intro that [of "[]" "[]"]) (simp_all add: changes_refl)
next
  case False
  with assms obtain s1 s2 s3 where run: "insert_code s pos 5 = (s1, 0)" "poke s1 pos (reop_code REOP_push_i32) = Some s2"
    "poke_u32 s2 (pos + 1) v = Some s3"
    and s': "s' = re_emit_op (fst (re_emit_goto s3 REOP_loop (of_nat (pos + 5)))) REOP_drop" "atom = pos + 5"
    by (auto simp: emit_at_least_def bind_eq_Some_conv Let_def split: prod.splits if_splits)
  obtain h where h: "length h = 5" "changes s s1 pos (code xs) (h @ code xs)"
    using insert_code_changes [OF run(1), of pos "[]" "code xs"] by auto
  let ?t = "jump_insn REOP_loop (- int (length (code xs)) - 5) @ [reop_code REOP_drop]"
  note h(2)
  also have "changes s1 s3 pos (h @ code xs) (push_insn v @ code xs)"
    using patch_push [OF run(2,3), of pos "[]" h "code xs"] h(1) by simp
  also have "changes s3 s' pos (push_insn v @ code xs) ((push_insn v @ code xs) @ ?t)"
    using emit_loop_changes [of "pos + 5" pos 5 s3 "push_insn v @ code xs"] by (simp add: s' algebra_simps)
  finally have "changes s s' pos (code xs) (push_insn v @ code xs @ ?t)" by simp
  then show ?thesis using False s'(2) by (intro that [of "push_insn v" ?t]) (simp_all add: repeat_insns_def)
qed

definition more_insns :: "int \<Rightarrow> int \<Rightarrow> bool \<Rightarrow> bool \<Rightarrow> bytes list \<Rightarrow> bytes list" where
  "more_insns quant_min quant_max greedy add_check xs =
     (if quant_max = int INT32_MAX then star_insns greedy add_check xs
      else if quant_max > quant_min then at_most_insns greedy (of_int (quant_max - quant_min)) xs
      else [])"

lemma emit_more_sticky: "sticky s (emit_more s atom len quant_min quant_max greedy add_check)"
  unfolding emit_more_def Let_def by (auto intro!: sticky_emitI)

lemma emit_more_changes:
  assumes "atom = pos + length p"
  shows "changes s (emit_more s atom (length (code xs)) quant_min quant_max greedy add_check) pos (p @ code xs @ q)
    (p @ code xs @ q @ code (more_insns quant_min quant_max greedy add_check xs))"
proof (rule changes_sized [OF emit_more_sticky])
  assume sz: "bsize s = pos + length (p @ code xs @ q)"
  let ?len = "length (code xs)"
  note copy = copy_atom_changes [where pos = pos and a = p and b = "code xs" and p = atom and len = ?len, OF assms refl]
  consider "quant_max = int INT32_MAX" | "quant_max \<noteq> int INT32_MAX" "quant_max > quant_min"
    | "quant_max \<noteq> int INT32_MAX" "\<not> quant_max > quant_min" by blast
  then show "changes s (emit_more s atom ?len quant_min quant_max greedy add_check) pos (p @ code xs @ q)
    (p @ code xs @ q @ code (more_insns quant_min quant_max greedy add_check xs))"
  proof cases
    case 1
    let ?k = "if add_check then 1 else 0 :: nat" and ?c = "if add_check then [reop_code REOP_push_char_pos] else []"
    let ?j = "jump_insn (split_op greedy) (int (?len + 5 + ?k))"
    let ?opc = "if add_check then REOP_bne_char_pos else REOP_goto"
    define s1 where "s1 = fst (re_emit_op_u32 s (split_op greedy) (of_nat (?len + 5 + ?k)))"
    define s2 where "s2 = (if add_check then re_emit_op s1 REOP_push_char_pos else s1)"
    define s3 where "s3 = copy_atom s2 atom ?len"
    have s4: "emit_more s atom ?len quant_min quant_max greedy add_check = fst (re_emit_goto s3 ?opc (of_nat (bsize s)))"
      using 1 by (simp add: emit_more_def Let_def s1_def s2_def s3_def)
    have "changes s s1 pos (p @ code xs @ q) ((p @ code xs @ q) @ ?j)"
      unfolding s1_def jump_insn_def of_int_of_nat_eq by (rule appends_changes [OF emit_op_u32_appends])
    also have "changes s1 s2 pos ((p @ code xs @ q) @ ?j) (((p @ code xs @ q) @ ?j) @ ?c)"
      by (cases add_check) (simp_all add: s2_def changes_refl appends_changes [OF emit_op_appends] del: append_assoc)
    also have "changes s2 s3 pos (((p @ code xs @ q) @ ?j) @ ?c) (p @ code xs @ q @ ?j @ ?c @ code xs)"
      using copy [of s2 "q @ ?j @ ?c"] by (simp add: s3_def)
    also have "changes s3 (emit_more s atom ?len quant_min quant_max greedy add_check) pos
        (p @ code xs @ q @ ?j @ ?c @ code xs)
        ((p @ code xs @ q @ ?j @ ?c @ code xs) @ jump_insn ?opc (- int (?len + 10 + ?k)))"
      using emit_goto_changes [where t = "bsize s" and pos = pos and k = "length (p @ code xs @ q)" and s = s3
          and opc = ?opc and a = "p @ code xs @ q @ ?j @ ?c @ code xs", OF sz]
      unfolding s4 by (cases add_check) (simp_all add: algebra_simps)
    finally show ?thesis using 1 by (cases add_check) (simp_all add: more_insns_def star_insns_def algebra_simps)
  next
    case 2
    let ?v = "of_int (quant_max - quant_min) :: u32" and ?j = "jump_insn (split_op greedy) (int (?len + 5))"
    define s1 where "s1 = fst (re_emit_op_u32 s REOP_push_i32 ?v)"
    define s2 where "s2 = fst (re_emit_op_u32 s1 (split_op greedy) (of_nat (?len + 5)))"
    define s3 where "s3 = copy_atom s2 atom ?len"
    have s4: "emit_more s atom ?len quant_min quant_max greedy add_check =
        re_emit_op (fst (re_emit_goto s3 REOP_loop (of_nat (bsize s1)))) REOP_drop"
      using 2 by (simp add: emit_more_def Let_def s1_def s2_def s3_def)
    have st: "sticky s1 (emit_more s atom ?len quant_min quant_max greedy add_check)"
      unfolding s4 s3_def s2_def by (intro sticky_emitI)
    have "changes s s1 pos (p @ code xs @ q) ((p @ code xs @ q) @ push_insn ?v)"
      unfolding s1_def push_insn_def by (rule appends_changes [OF emit_op_u32_appends])
    also have "changes s1 (emit_more s atom ?len quant_min quant_max greedy add_check) pos ((p @ code xs @ q) @ push_insn ?v)
        (p @ code xs @ q @ code (at_most_insns greedy ?v xs))"
    proof (rule changes_sized [OF st])
      assume sz: "bsize s1 = pos + length ((p @ code xs @ q) @ push_insn ?v)"
      have "changes s1 s2 pos ((p @ code xs @ q) @ push_insn ?v) (((p @ code xs @ q) @ push_insn ?v) @ ?j)"
        unfolding s2_def jump_insn_def of_int_of_nat_eq by (rule appends_changes [OF emit_op_u32_appends])
      also have "changes s2 s3 pos (((p @ code xs @ q) @ push_insn ?v) @ ?j)
          (p @ code xs @ q @ push_insn ?v @ ?j @ code xs)"
        using copy [of s2 "q @ push_insn ?v @ ?j"] by (simp add: s3_def)
      also have "changes s3 (emit_more s atom ?len quant_min quant_max greedy add_check) pos
          (p @ code xs @ q @ push_insn ?v @ ?j @ code xs)
          ((p @ code xs @ q @ push_insn ?v @ ?j @ code xs) @ jump_insn REOP_loop (- int ?len - 10) @ [reop_code REOP_drop])"
        using emit_loop_changes [OF sz, of s3 "p @ code xs @ q @ push_insn ?v @ ?j @ code xs"]
        unfolding s4 by (simp add: algebra_simps)
      finally show "changes s1 (emit_more s atom ?len quant_min quant_max greedy add_check) pos
          ((p @ code xs @ q) @ push_insn ?v) (p @ code xs @ q @ code (at_most_insns greedy ?v xs))"
        by (simp add: at_most_insns_def algebra_simps)
    qed
    finally show ?thesis using 2 by (simp add: more_insns_def)
  next
    case 3
    then show ?thesis by (simp add: emit_more_def more_insns_def changes_refl)
  qed
qed

end
