(* ===== verification/RegexpSafe.thy ===== *)
theory RegexpSafe
  imports RegexpTyping
begin

text \<open>
  Soundness of the type discipline for the matcher: on well-typed byte code every instruction, every
  resumption of a saved state and every greedy loop keeps the run-time invariant, so no run is
  undefined.
\<close>

section \<open>Saving and resuming\<close>

lemma grow_states_ok:
  assumes "context_ok s" "memory_ok s D m" "grow_states s m = (m', r)"
  shows "memory_ok s D m'" "r = 0 \<or> r = -1" "r = 0 \<Longrightarrow> state_stack_len m' < state_stack_size m'"
    "capture m' = capture m" "re_stack m' = re_stack m" "state_stack_len m' = state_stack_len m"
proof -
  have c: "realloc_contract (lre_realloc s)" using assms(1) by (simp add: context_ok_def)
  show "memory_ok s D m'" "r = 0 \<or> r = -1" "r = 0 \<Longrightarrow> state_stack_len m' < state_stack_size m'"
    "capture m' = capture m" "re_stack m' = re_stack m" "state_stack_len m' = state_stack_len m"
    using assms(2,3) realloc_contract.realloc_length [OF c] realloc_contract.realloc_nth [OF c]
    by (auto simp: grow_states_def memory_ok_def Let_def split: if_splits option.splits)
qed

lemma push_state_ok:
  assumes s: "context_ok s" and m: "memory_ok s D m" and p: "position_ok s cptr"
    and d: "d \<le> stack_size_max s"
    and ty: "if ty = RE_EXEC_STATE_GREEDY_QUANT then
        quant_ok s D pc d \<and> 0 < n \<and> n < SIZE_MOD \<and>
        prev_chars s (n * unat (get_u32 (bc_buf s) (pc + 12))) cptr \<noteq> None
      else D pc d"
  shows "\<exists>m' r. push_state s m (int d) pc cptr ty n = Some (m', r) \<and> (r = 0 \<or> r = -1) \<and> memory_ok s D m'"
proof -
  obtain m1 r1 where g: "grow_states s m = (m1, r1)" by (metis surj_pair)
  note g' = grow_states_ok [OF s m g]
  have d': "d mod 256 = d" using s d by (simp add: context_ok_def)
  show ?thesis
  proof (cases "r1 = 0")
    case True
    let ?rs = "\<lparr>rs_type = ty, rs_stack_len = d, rs_count = n, rs_cptr = cptr, rs_pc = pc,
        rs_capture = take (2 * capture_count s) (capture m1), rs_stack = take d (re_stack m1)\<rparr>"
    have "saved_ok s D ?rs"
      using g'(1) p d ty by (auto simp: saved_ok_def memory_ok_def capture_ok_def)
    then have "memory_ok s D (m1\<lparr>state_stack := (state_stack m1)[state_stack_len m1 := ?rs],
        state_stack_len := state_stack_len m1 + 1\<rparr>)"
      using g'(1) g'(3) [OF True] by (auto simp: memory_ok_def nth_list_update less_Suc_eq)
    moreover have "push_state s m (int d) pc cptr ty n =
        Some (m1\<lparr>state_stack := (state_stack m1)[state_stack_len m1 := ?rs],
          state_stack_len := state_stack_len m1 + 1\<rparr>, 0)"
      using g'(1) True d d' by (simp add: push_state_def g memory_ok_def capture_ok_def)
    ultimately show ?thesis by blast
  next
    case False
    then show ?thesis using g' by (simp add: push_state_def g)
  qed
qed

lemma nth_blit_front: "length src \<le> length dst \<Longrightarrow> i < length dst \<Longrightarrow>
  blit dst 0 src ! i = (if i < length src then src ! i else dst ! i)"
  by (simp add: nth_blit)

lemma restore_ok:
  assumes "memory_ok s D m" "saved_ok s D rs"
  shows "memory_ok s D (restore_capture rs m)" "memory_ok s D (restore_stack rs m)"
  using assms
  by (auto simp: memory_ok_def saved_ok_def capture_ok_def restore_capture_def restore_stack_def nth_blit_front)

lemma restore_fields [simp]:
  "state_stack (restore_capture rs m) = state_stack m" "state_stack (restore_stack rs m) = state_stack m"
  "state_stack_len (restore_capture rs m) = state_stack_len m"
  "state_stack_len (restore_stack rs m) = state_stack_len m"
  by (simp_all add: restore_capture_def restore_stack_def)

lemma memory_ok_shrink:
  "memory_ok s D m \<Longrightarrow> n \<le> state_stack_len m \<Longrightarrow> memory_ok s D (m\<lparr>state_stack_len := n\<rparr>)"
  by (simp add: memory_ok_def)

lemma saved_regs_ok:
  "saved_ok s D rs \<Longrightarrow> rs_type rs \<noteq> RE_EXEC_STATE_GREEDY_QUANT \<Longrightarrow> regs_ok s D (saved_regs rs)"
  by (simp add: saved_ok_def regs_ok_def saved_regs_def)

lemma prev_chars_add: "prev_chars s (a + b) p = do { q \<leftarrow> prev_chars s a p; prev_chars s b q }"
  by (simp add: prev_chars_prvs cursor.prvs_add)

text \<open>Taking up a greedy loop again, with one repetition less.\<close>

lemma resume_greedy:
  assumes m: "memory_ok s D m" and n: "n < state_stack_len m" and rs: "saved_ok s D rs"
    and ty: "rs_type rs = RE_EXEC_STATE_GREEDY_QUANT" and top: "state_stack m ! n = rs"
  obtains cc p tgt where
    "rd32 (bc_buf s) (rs_pc rs + 12) = Some cc" "prev_chars s (unat cc) (rs_cptr rs) = Some p"
    "rd32 (bc_buf s) (rs_pc rs) = Some (get_u32 (bc_buf s) (rs_pc rs))"
    "jump (rs_pc rs + 16) (get_u32 (bc_buf s) (rs_pc rs)) = Some tgt"
    "(rs_count rs + SIZE_MOD - 1) mod SIZE_MOD = rs_count rs - 1"
    "memory_ok s D (m\<lparr>state_stack := (state_stack m)[n := rs\<lparr>rs_cptr := p, rs_count := rs_count rs - 1\<rparr>],
       state_stack_len := if rs_count rs - 1 = 0 then n else Suc n\<rparr>)"
    "regs_ok s D \<lparr>re_pc = tgt, re_cptr = p, re_stack_len = int (rs_stack_len rs)\<rparr>"
proof -
  let ?cc = "get_u32 (bc_buf s) (rs_pc rs + 12)" and ?k = "rs_count rs - 1"
  from rs ty have q: "quant_ok s D (rs_pc rs) (rs_stack_len rs)" "0 < rs_count rs" "rs_count rs < SIZE_MOD"
    and pos: "position_ok s (rs_cptr rs)"
    and chain: "prev_chars s (rs_count rs * unat ?cc) (rs_cptr rs) \<noteq> None"
    by (auto simp: saved_ok_def)
  from q(2) have "rs_count rs * unat ?cc = unat ?cc + ?k * unat ?cc" by (cases "rs_count rs") auto
  with chain obtain p where p: "prev_chars s (unat ?cc) (rs_cptr rs) = Some p" "prev_chars s (?k * unat ?cc) p \<noteq> None"
    by (auto simp: prev_chars_add split: Option.bind_splits)
  have pp: "position_ok s p"
    using prvs_at_char [of "cbuf_type s" "cbuf s" "unat ?cc" "rs_cptr rs" p "cbuf_end s"] p(1) pos
    by (simp add: position_ok_def prev_chars_prvs)
  from q(1) obtain tgt where tgt: "jump (rs_pc rs + 16) (get_u32 (bc_buf s) (rs_pc rs)) = Some tgt"
      "D tgt (rs_stack_len rs)"
    by (auto simp: quant_ok_def split: option.splits)
  have wrap: "(rs_count rs + SIZE_MOD - 1) mod SIZE_MOD = ?k"
    using q(2,3) mod_add_self2 [of ?k SIZE_MOD] by (simp add: mod_less)
  let ?new = "rs\<lparr>rs_cptr := p, rs_count := ?k\<rparr>"
  have "saved_ok s D ?new" if "?k \<noteq> 0"
    using rs that q p pp ty by (simp add: saved_ok_def)
  then have mem: "memory_ok s D (m\<lparr>state_stack := (state_stack m)[n := ?new],
       state_stack_len := if ?k = 0 then n else Suc n\<rparr>)"
    using m n by (auto simp: memory_ok_def nth_list_update less_Suc_eq)
  show thesis
    using that [OF _ p(1) _ tgt(1) wrap mem] q(1) pp tgt(2) rs
    by (simp add: rd32_def quant_ok_def regs_ok_def saved_ok_def)
qed

lemma re_recurse_ok:
  assumes "context_ok s" "memory_ok s D m" "n \<le> state_stack_len m"
  shows "step_ok s D (re_recurse s m ret n) \<and>
    (\<exists>st. re_recurse s m ret n = Some st \<and> (\<forall>m'. st \<noteq> No_match m') \<and> (\<forall>m' p. st \<noteq> Matched m' p))"
  using assms
proof (induction n arbitrary: ret)
  case 0
  then show ?case by (simp add: memory_ok_shrink)
next
  case (Suc n)
  let ?rs = "state_stack m ! n"
  have len: "n < length (state_stack m)" and rs: "saved_ok s D ?rs"
    using Suc.prems by (auto simp: memory_ok_def)
  have n: "n \<le> state_stack_len m" using Suc.prems by simp
  note IH = Suc.IH [OF Suc.prems(1,2) n]
  note mem = memory_ok_shrink [OF restore_ok(2) [OF Suc.prems(2) rs], of n]
    memory_ok_shrink [OF restore_ok(2) [OF restore_ok(1) [OF Suc.prems(2) rs] rs], of n]
  show ?case
  proof (cases "rs_type ?rs")
    case RE_EXEC_STATE_GREEDY_QUANT
    show ?thesis
    proof (cases ret)
      case False
      have m': "memory_ok s D (restore_stack ?rs (restore_capture ?rs m))"
        using restore_ok Suc.prems(2) rs by blast
      show ?thesis
        using False Suc.prems(3) RE_EXEC_STATE_GREEDY_QUANT len
        by (rule_tac resume_greedy [OF m' _ rs RE_EXEC_STATE_GREEDY_QUANT]) (auto simp: Let_def)
    qed (use IH len RE_EXEC_STATE_GREEDY_QUANT in simp)
  qed (use IH len mem n saved_regs_ok [OF rs] in \<open>auto simp: Let_def\<close>)
qed

section \<open>Characters of the subject\<close>

lemma context_text: "context_ok s \<Longrightarrow> at_char (cbuf_type s) (cbuf_end s) (cbuf_end s) \<and> cbuf_end s \<le> length (cbuf s)"
  by (simp add: context_ok_def text_ok_def)

lemma position_0 [simp]: "position_ok s 0"
  by (simp add: position_ok_def at_char_def)

lemma position_le: "position_ok s p \<Longrightarrow> p \<le> cbuf_end s"
  by (simp add: position_ok_def at_char_def)

lemma get_char_ok:
  assumes "context_ok s" "position_ok s p" "p < cbuf_end s"
  shows "\<exists>c q. get_char s p = Some (c, q) \<and> p < q \<and> position_ok s q"
  using GET_CHAR_ok [of "cbuf_type s" "cbuf_end s" p "cbuf s"] context_text [OF assms(1)] assms(2,3)
  by (simp add: get_char_def position_ok_def)

lemma get_prev_char_ok:
  assumes "context_ok s" "position_ok s p" "position_ok s lo" "lo < p"
  shows "\<exists>c q. GET_PREV_CHAR (cbuf_type s) (cbuf s) p lo = Some (c, q) \<and> q < p \<and> lo \<le> q \<and> position_ok s q"
  using GET_PREV_CHAR_ok [of "cbuf_type s" "cbuf_end s" p lo "cbuf s"] context_text [OF assms(1)] assms(2-4)
  by (simp add: position_ok_def)

lemma canon_defined: "\<exists>c'. canon s c = Some c'"
  using lre_canonicalize_defined by (simp add: canon_def)

lemma peek_char_ok:
  "context_ok s \<Longrightarrow> position_ok s p \<Longrightarrow> p < cbuf_end s \<Longrightarrow>
   \<exists>c. PEEK_CHAR (cbuf_type s) (cbuf s) p (cbuf_end s) = Some c"
  using get_char_ok [of s p] by (auto simp: PEEK_CHAR_GET_CHAR get_char_def)

lemma peek_prev_char_ok:
  assumes "context_ok s" "position_ok s p" "0 < p"
  shows "\<exists>c. PEEK_PREV_CHAR (cbuf_type s) (cbuf s) p 0 = Some c"
  using get_prev_char_ok [OF assms(1,2) position_0 assms(3)] assms(2)
  by (subst PEEK_PREV_CHAR_GET_PREV_CHAR) (auto simp: position_ok_def at_char_def)

lemma prev_char_ok:
  assumes "context_ok s" "position_ok s p" "0 < p"
  shows "\<exists>q. PREV_CHAR (cbuf_type s) (cbuf s) p 0 = Some q \<and> position_ok s q"
  using get_prev_char_ok [OF assms(1,2) position_0 assms(3)] assms(2) context_text [OF assms(1)]
  by (subst PREV_CHAR_GET_PREV_CHAR) (auto simp: position_ok_def at_char_def)

section \<open>Back references\<close>

lemma compare_forward_ok:
  assumes "context_ok s" "position_ok s e1"
  shows "position_ok s p1 \<Longrightarrow> position_ok s p \<Longrightarrow>
    \<exists>res. compare_forward s p1 e1 p = Some res \<and> (\<forall>q. res = Some q \<longrightarrow> position_ok s q)"
proof (induction "e1 - p1" arbitrary: p1 p rule: less_induct)
  case less
  show ?case
  proof (cases "p1 < e1 \<and> p < cbuf_end s")
    case True
    have "at_char (cbuf_type s) e1 p1" "at_char (cbuf_type s) e1 e1" "e1 \<le> length (cbuf s)"
      using less.prems assms True context_text [OF assms(1)] by (auto simp: position_ok_def at_char_def)
    then obtain c1 q1 where g1: "GET_CHAR (cbuf_type s) (cbuf s) p1 e1 = Some (c1, q1)" "p1 < q1"
        "at_char (cbuf_type s) e1 q1"
      using GET_CHAR_ok True by blast
    have q1: "position_ok s q1" using g1(3) position_le [OF assms(2)] by (simp add: position_ok_def at_char_def)
    obtain c2 q where g2: "get_char s p = Some (c2, q)" "position_ok s q"
      using get_char_ok [OF assms(1) less.prems(2)] True by blast
    obtain d1 d2 where "canon s c1 = Some d1" "canon s c2 = Some d2" using canon_defined by blast
    then show ?thesis
      using True g1(1) g2(1) less.hyps [OF _ q1 g2(2)] g1(2) by (subst compare_forward.simps) auto
  qed (use less.prems in \<open>subst compare_forward.simps, auto\<close>)
qed

lemma compare_backward_ok:
  assumes "context_ok s" "position_ok s lo"
  shows "position_ok s p1 \<Longrightarrow> position_ok s p \<Longrightarrow>
    \<exists>res. compare_backward s p1 lo p = Some res \<and> (\<forall>q. res = Some q \<longrightarrow> position_ok s q)"
proof (induction p1 arbitrary: p rule: less_induct)
  case (less p1)
  show ?case
  proof (cases "lo < p1 \<and> 0 < p")
    case True
    obtain c1 q1 where g1: "GET_PREV_CHAR (cbuf_type s) (cbuf s) p1 lo = Some (c1, q1)" "q1 < p1" "position_ok s q1"
      using get_prev_char_ok [OF assms(1) less.prems(1) assms(2)] True by blast
    obtain c2 q where g2: "GET_PREV_CHAR (cbuf_type s) (cbuf s) p 0 = Some (c2, q)" "position_ok s q"
      using get_prev_char_ok [OF assms(1) less.prems(2) position_0] True by blast
    obtain d1 d2 where "canon s c1 = Some d1" "canon s c2 = Some d2" using canon_defined by blast
    then show ?thesis
      using True g1(1) g2(1) less.IH [OF g1(2,3) g2(2)] by (subst compare_backward.simps) auto
  qed (use less.prems in \<open>subst compare_backward.simps, auto\<close>)
qed

section \<open>Ranges\<close>

lemma table_size:
  assumes "0 < w" "2 * w * n < 2 ^ 31"
  shows "n < (2::nat) ^ 31"
proof -
  have "n \<le> 2 * w * n" using assms(1) by simp
  then show ?thesis using assms(2) by (rule order_le_less_trans)
qed

lemma table_offset:
  assumes "0 < w" "2 * w * n < 2 ^ 31" "unat (idx :: u32) < n"
  shows "unat (idx * of_nat (2 * w)) = unat idx * (2 * w)"
proof -
  have pow: "(2::nat) ^ 31 < 2 ^ 32" by simp
  have "unat idx * (2 * w) \<le> n * (2 * w)" by (rule mult_le_mono1) (use assms(3) in simp)
  moreover have "n * (2 * w) = 2 * w * n" by (rule mult.commute)
  moreover have "2 * w \<le> 2 * w * n" using assms(3) by simp
  ultimately have "unat idx * (2 * w) < 2 ^ 32" "2 * w < 2 ^ 32" using assms(2) pow by linarith+
  then show ?thesis by (simp add: unat_mult_lem [THEN iffD1] unat_of_nat take_bit_eq_mod)
qed

text \<open>The search stays inside a table of \<open>n\<close> pairs once the first bound is known not to exceed the character.\<close>

lemma range_search_defined:
  assumes rd: "\<And>i. i < n \<Longrightarrow> rd (pc + i * (2 * w)) \<noteq> None \<and> rd (pc + i * (2 * w) + w) \<noteq> None"
    and w: "0 < w" "2 * w * n < 2 ^ 31" and first: "rd pc = Some low" "low \<le> c"
  shows "idx_max < of_nat n \<Longrightarrow> idx_min \<le> of_nat n \<Longrightarrow> \<exists>b. range_search rd w pc c idx_min idx_max = Some b"
proof (induction "Suc (unat idx_max) - unat idx_min" arbitrary: idx_min idx_max rule: less_induct)
  case less
  have n: "n < 2 ^ 31" using w by (metis One_nat_def Suc_leI mult_less_cancel1 nat_0_less_mult_iff
        order_le_less_trans mult_le_mono1 mult.left_neutral zero_less_numeral)
  have bounds: "unat idx_max < n" "unat idx_min \<le> n" "idx_min \<le> idx_max \<longleftrightarrow> unat idx_min \<le> unat idx_max"
    using less.prems n by (auto simp: word_less_nat_alt word_le_nat_alt unat_of_nat)
  show ?case
  proof (cases "unat idx_min \<le> unat idx_max")
    case False
    then show ?thesis using bounds by (subst range_search.simps) auto
  next
    case True
    define idx where "idx = (idx_min + idx_max) div 2"
    have sum: "unat (idx_min + idx_max) = unat idx_min + unat idx_max"
      using bounds n by (subst unat_add_lem [THEN iffD1]) auto
    have idx: "unat idx = (unat idx_min + unat idx_max) div 2"
      by (simp add: idx_def unat_div sum)
    then have mid: "unat idx_min \<le> unat idx" "unat idx \<le> unat idx_max" using True by simp_all
    have off: "unat (idx * of_nat (2 * w)) = unat idx * (2 * w)"
      by (rule table_offset [OF w]) (use mid bounds in linarith)
    obtain lo hi where r: "rd (pc + unat idx * (2 * w)) = Some lo" "rd (pc + unat idx * (2 * w) + w) = Some hi"
      using rd [of "unat idx"] mid bounds by fastforce
    have pred: "unat (idx - 1) = unat idx - 1" "0 < unat idx" if "c < lo"
    proof -
      have "unat idx \<noteq> 0" by (rule notI) (use that r(1) first in auto)
      then show "0 < unat idx" by simp
      then have "idx \<noteq> 0" by auto
      then show "unat (idx - 1) = unat idx - 1" by (rule unat_minus_one)
    qed
    have succ: "unat (idx + 1) = unat idx + 1"
      using mid bounds n by (subst unat_add_lem [THEN iffD1]) auto
    have "\<exists>b. range_search rd w pc c idx_min (idx - 1) = Some b" if "c < lo"
      using less.hyps [of "idx - 1" idx_min] pred [OF that] mid bounds less.prems n
      by (auto simp: word_less_nat_alt word_le_nat_alt unat_of_nat)
    moreover have "\<exists>b. range_search rd w pc c (idx + 1) idx_max = Some b"
      using less.hyps [of idx_max "idx + 1"] succ mid bounds less.prems n
      by (auto simp: word_less_nat_alt word_le_nat_alt unat_of_nat)
    ultimately show ?thesis
      using True bounds r off by (subst range_search.simps) (auto simp: Let_def idx_def [symmetric])
  qed
qed

lemma range_test_defined:
  assumes rd: "\<And>i. i < n \<Longrightarrow> rd (pc + i * (2 * w)) \<noteq> None \<and> rd (pc + i * (2 * w) + w) \<noteq> None"
    and w: "0 < w" "2 * w * n < 2 ^ 31" and n: "0 < n"
  shows "\<exists>b. range_test rd w infinity pc (of_nat n) c = Some b"
proof -
  obtain low where low: "rd pc = Some low" using rd [of 0] n by auto
  have n31: "n < 2 ^ 31" using table_size w by blast
  then have nn: "unat (of_nat n :: u32) = n" by (simp add: unat_of_nat take_bit_eq_mod)
  have "(of_nat n :: u32) \<noteq> 0" using nn n by (metis less_irrefl unat_0)
  then have last: "unat (of_nat n - 1 :: u32) = n - 1" by (simp add: unat_minus_one nn)
  then have lt: "(of_nat n - 1 :: u32) < of_nat n" using nn n by (simp add: word_less_nat_alt)
  have off: "unat ((of_nat n - 1 :: u32) * of_nat (2 * w)) = (n - 1) * (2 * w)"
    using table_offset [OF w, of "of_nat n - 1"] last n by simp
  obtain high where high: "rd (pc + (n - 1) * (2 * w) + w) = Some high" using rd [of "n - 1"] n by auto
  have "\<exists>b. range_search rd w pc c 0 (of_nat n - 1) = Some b" if "low \<le> c"
    by (rule range_search_defined [OF rd w low that lt]) simp_all
  then show ?thesis using low high off by (auto simp: range_test_def Let_def not_less)
qed

section \<open>Instructions\<close>

text \<open>What holds when an instruction starts: \<open>r\<close> points after the opcode.\<close>

definition at_op :: "re_exec_context \<Rightarrow> typing \<Rightarrow> reop \<Rightarrow> re_memory \<Rightarrow> re_regs \<Rightarrow> nat \<Rightarrow> bool" where
  "at_op s D opc m r d \<longleftrightarrow> context_ok s \<and> memory_ok s D m \<and> position_ok s (re_cptr r) \<and>
     op_ok s D (re_pc r) d opc \<and> re_stack_len r = int d \<and> d \<le> stack_size_max s \<and> well_typed s D"

lemma typed_depth: "well_typed s D \<Longrightarrow> D pc d \<Longrightarrow> d \<le> stack_size_max s"
  by (auto simp: well_typed_def typed_at_def)

lemma regs_okI:
  "well_typed s D \<Longrightarrow> position_ok s (re_cptr r) \<Longrightarrow> D (re_pc r) d \<Longrightarrow> re_stack_len r = int d \<Longrightarrow>
   regs_ok s D r"
  by (auto simp: regs_ok_def typed_depth)

lemma jump_okD:
  assumes "jump_ok s D pc d"
  obtains v tgt where "rd32 (bc_buf s) pc = Some v" "jump (pc + 4) v = Some tgt" "D tgt d"
  using assms by (auto simp: jump_ok_def operand_at_def split: option.splits)

lemma test_char_ok:
  assumes "context_ok s" "well_typed s D" "memory_ok s D m" "position_ok s (re_cptr r)"
    "D (re_pc r) d" "re_stack_len r = int d"
  shows "step_ok s D (test_char s m r val)"
proof (cases "re_cptr r < cbuf_end s")
  case True
  then obtain c q where g: "get_char s (re_cptr r) = Some (c, q)" "position_ok s q"
    using get_char_ok assms(1,4) by blast
  obtain c' where "canon s c = Some c'" using canon_defined by blast
  then show ?thesis using assms g True by (simp add: test_char_def regs_okI)
qed (use assms in \<open>simp add: test_char_def\<close>)

lemma push_and_go_ok:
  assumes "context_ok s" "well_typed s D" "memory_ok s D m" "position_ok s (re_cptr r)"
    "re_stack_len r = int d" "D saved_pc d" "D pc d" "ty \<noteq> RE_EXEC_STATE_GREEDY_QUANT"
  shows "step_ok s D (push_and_go s m r saved_pc ty pc)"
proof -
  obtain m' v where "push_state s m (int d) saved_pc (re_cptr r) ty 0 = Some (m', v)" "v = 0 \<or> v = -1" "memory_ok s D m'"
    using push_state_ok [OF assms(1,3,4), of d ty saved_pc 0] typed_depth [OF assms(2,6)] assms(6,8) by auto
  then show ?thesis using assms by (auto simp: push_and_go_def regs_okI)
qed

lemma exec_split_ok:
  assumes "at_op s D opc m r d" "opc = REOP_split_goto_first \<or> opc = REOP_split_next_first"
  shows "step_ok s D (exec_split s opc m r)"
proof -
  have j: "jump_ok s D (re_pc r) d" "D (re_pc r + 4) d" using assms by (auto simp: at_op_def)
  from j(1) show ?thesis
    by (rule jump_okD) (use assms j(2) push_and_go_ok in \<open>auto simp: exec_split_def at_op_def Let_def\<close>)
qed

lemma exec_lookahead_ok:
  assumes "at_op s D opc m r d" "opc = REOP_lookahead \<or> opc = REOP_negative_lookahead"
  shows "step_ok s D (exec_lookahead s opc m r)"
proof -
  have j: "jump_ok s D (re_pc r) d" "D (re_pc r + 4) d" using assms by (auto simp: at_op_def)
  from j(1) show ?thesis
    by (rule jump_okD) (use assms j(2) push_and_go_ok in \<open>auto simp: exec_lookahead_def at_op_def Let_def\<close>)
qed

lemma exec_goto_ok: "at_op s D REOP_goto m r d \<Longrightarrow> step_ok s D (exec_goto s m r)"
  by (auto simp: at_op_def exec_goto_def regs_okI elim!: jump_okD)

lemma exec_line_start_ok: "at_op s D REOP_line_start m r d \<Longrightarrow> step_ok s D (exec_line_start s m r)"
  using peek_prev_char_ok [of s "re_cptr r"]
  by (auto simp: at_op_def exec_line_start_def regs_okI)

lemma exec_line_end_ok: "at_op s D REOP_line_end m r d \<Longrightarrow> step_ok s D (exec_line_end s m r)"
  using peek_char_ok [of s "re_cptr r"] position_le [of s "re_cptr r"]
  by (auto simp: at_op_def exec_line_end_def regs_okI)

lemma exec_any_ok:
  assumes "at_op s D opc m r d" "opc = REOP_dot \<or> opc = REOP_any"
  shows "step_ok s D (exec_any s opc m r)"
  using assms get_char_ok [of s "re_cptr r"] position_le [of s "re_cptr r"]
  by (auto simp: at_op_def exec_any_def regs_okI)

lemma capture_ok_update:
  "capture_ok s cap \<Longrightarrow> position_ok s p \<Longrightarrow> capture_ok s (cap[i := Some p])"
  by (cases "i < length cap") (auto simp: capture_ok_def nth_list_update)

lemma exec_save_ok:
  assumes "at_op s D opc m r d" "opc = REOP_save_start \<and> off = 0 \<or> opc = REOP_save_end \<and> off = 1"
  shows "step_ok s D (exec_save s off m r)"
  using assms
  by (auto simp: at_op_def exec_save_def operand_at_def memory_ok_def capture_ok_update regs_okI
      capture_ok_def [of s "capture m"] split: option.splits)

lemma capture_ok_clear: "capture_ok s cap \<Longrightarrow> capture_ok s (cap[i := None])"
  by (cases "i < length cap") (auto simp: capture_ok_def nth_list_update)

lemma capture_okD: "capture_ok s cap \<Longrightarrow> i < 2 * capture_count s \<Longrightarrow> cap ! i = Some p \<Longrightarrow> position_ok s p"
  by (simp add: capture_ok_def)

lemma reset_captures_ok:
  "capture_ok s cap \<Longrightarrow> capture_ok s (reset_captures cap i j)"
proof (induction cap i j rule: reset_captures.induct)
  case (1 cap i j)
  then show ?case
    by (subst reset_captures.simps) (simp add: capture_ok_clear)
qed

lemma exec_save_reset_ok:
  assumes "at_op s D REOP_save_reset m r d"
  shows "step_ok s D (exec_save_reset s m r)"
  using assms
  by (auto simp: at_op_def exec_save_reset_def operand_at_def memory_ok_def reset_captures_ok regs_okI rd8_def
      capture_ok_def [of s "capture m"] split: option.splits if_splits)

lemma memory_ok_stack: "memory_ok s D m \<Longrightarrow> memory_ok s D (m\<lparr>re_stack := (re_stack m)[i := v]\<rparr>)"
  by (simp add: memory_ok_def)

lemma stack_put_ok:
  "memory_ok s D m \<Longrightarrow> d < stack_size_max s \<Longrightarrow> stack_put m (int d) v = Some (m\<lparr>re_stack := (re_stack m)[d := v]\<rparr>)"
  by (simp add: stack_put_def memory_ok_def)

lemma stack_get_ok:
  "memory_ok s D m \<Longrightarrow> d < stack_size_max s \<Longrightarrow> stack_get m (int d) = Some (re_stack m ! d)"
  by (simp add: stack_get_def memory_ok_def)

lemma exec_push_i32_ok: "at_op s D REOP_push_i32 m r d \<Longrightarrow> step_ok s D (exec_push_i32 s m r)"
  by (auto simp: at_op_def exec_push_i32_def rd32_def stack_put_ok memory_ok_stack regs_okI)

lemma exec_drop_ok: "at_op s D REOP_drop m r d \<Longrightarrow> step_ok s D (exec_drop m r)"
  by (auto simp: at_op_def exec_drop_def regs_okI)

lemma exec_loop_ok:
  assumes "at_op s D REOP_loop m r d"
  shows "step_ok s D (exec_loop s m r)"
proof -
  have j: "jump_ok s D (re_pc r) d" "D (re_pc r + 4) d" "0 < d" "d - 1 < stack_size_max s"
    "int d - 1 = int (d - 1)"
    using assms by (auto simp: at_op_def)
  from j(1) show ?thesis
    by (rule jump_okD) (use assms j(2-) in \<open>auto simp: exec_loop_def at_op_def Let_def stack_get_ok stack_put_ok
        memory_ok_stack regs_okI simp del: of_nat_diff\<close>)
qed

lemma exec_push_char_pos_ok: "at_op s D REOP_push_char_pos m r d \<Longrightarrow> step_ok s D (exec_push_char_pos s m r)"
  by (auto simp: at_op_def exec_push_char_pos_def stack_put_ok memory_ok_stack regs_okI)

lemma exec_bne_char_pos_ok:
  assumes "at_op s D REOP_bne_char_pos m r d"
  shows "step_ok s D (exec_bne_char_pos s m r)"
proof -
  have j: "jump_ok s D (re_pc r) (d - 1)" "D (re_pc r + 4) (d - 1)" "0 < d" "d - 1 < stack_size_max s"
    "int d - 1 = int (d - 1)"
    using assms by (auto simp: at_op_def)
  from j(1) show ?thesis
    by (rule jump_okD) (use assms j(2-) in \<open>auto simp: exec_bne_char_pos_def at_op_def Let_def stack_get_ok
        regs_okI simp del: of_nat_diff\<close>)
qed

lemma word_boundary_cases:
  assumes "context_ok s" "position_ok s (re_cptr r)"
  shows "exec_word_boundary s opc m r = Some (No_match m) \<or> exec_word_boundary s opc m r = Some (Step m r)"
proof -
  have "\<exists>b. (if re_cptr r = 0 then Some False
     else do { c \<leftarrow> PEEK_PREV_CHAR (cbuf_type s) (cbuf s) (re_cptr r) 0; Some (is_word_char c) }) = Some b"
    using assms peek_prev_char_ok [of s "re_cptr r"] by auto
  then obtain v1 where v1: "(if re_cptr r = 0 then Some False
     else do { c \<leftarrow> PEEK_PREV_CHAR (cbuf_type s) (cbuf s) (re_cptr r) 0; Some (is_word_char c) }) = Some v1" ..
  have "\<exists>b. (if re_cptr r \<ge> cbuf_end s then Some False
     else do { c \<leftarrow> PEEK_CHAR (cbuf_type s) (cbuf s) (re_cptr r) (cbuf_end s); Some (is_word_char c) }) = Some b"
    using assms peek_char_ok [of s "re_cptr r"] by auto
  then obtain v2 where v2: "(if re_cptr r \<ge> cbuf_end s then Some False
     else do { c \<leftarrow> PEEK_CHAR (cbuf_type s) (cbuf s) (re_cptr r) (cbuf_end s); Some (is_word_char c) }) = Some v2" ..
  show ?thesis unfolding exec_word_boundary_def v1 v2 by simp
qed

lemma exec_word_boundary_ok:
  assumes "at_op s D opc m r d" "opc = REOP_word_boundary \<or> opc = REOP_not_word_boundary"
  shows "step_ok s D (exec_word_boundary s opc m r)"
  using word_boundary_cases [of s r opc m] assms by (auto simp: at_op_def regs_okI)

lemma exec_back_reference_ok:
  assumes "at_op s D opc m r d" "opc = REOP_back_reference \<or> opc = REOP_backward_back_reference"
  shows "step_ok s D (exec_back_reference s opc m r)"
proof -
  have a: "context_ok s" "well_typed s D" "memory_ok s D m" "position_ok s (re_cptr r)" "re_stack_len r = int d"
    and pc: "re_pc r + 1 \<le> length (bc_buf s)" "D (re_pc r + 1) d"
    using assms by (auto simp: at_op_def)
  let ?v = "get_u8 (bc_buf s) (re_pc r)"
  show ?thesis
  proof (cases "unat ?v < capture_count s")
    case False
    then show ?thesis using a pc by (simp add: exec_back_reference_def rd8_def)
  next
    case True
    have cap: "capture_ok s (capture m)" using a(3) by (simp add: memory_ok_def)
    have len: "2 * unat ?v + 1 < length (capture m)" using cap True by (simp add: capture_ok_def)
    have pos: "\<And>i p. i = 2 * unat ?v \<or> i = 2 * unat ?v + 1 \<Longrightarrow> capture m ! i = Some p \<Longrightarrow> position_ok s p"
      by (rule capture_okD [OF cap]) (use True in auto)
    show ?thesis
    proof (cases "capture m ! (2 * unat ?v)"; cases "capture m ! (2 * unat ?v + 1)")
      fix p1 p2
      assume c: "capture m ! (2 * unat ?v) = Some p1" "capture m ! (2 * unat ?v + 1) = Some p2"
      have p: "position_ok s p1" "position_ok s p2" using pos c by blast+
      show ?thesis
        using compare_forward_ok [OF a(1) p(2) p(1) a(4)] compare_backward_ok [OF a(1) p(1) p(2) a(4)]
          True len c a pc
        by (auto simp: exec_back_reference_def rd8_def Let_def regs_okI split: option.splits)
    qed (use True len a pc in \<open>auto simp: exec_back_reference_def rd8_def Let_def regs_okI split: option.splits\<close>)
  qed
qed

lemma unat_get_u16_bound: "unat (get_u16 b i) < 65536"
proof -
  have "get_u16 b i = take_bit 16 (get_u16 b i)"
    by (rule bit_word_eqI) (auto simp: get_u16_def bit_simps dest: bit_imp_le_length)
  then have "unat (get_u16 b i) = take_bit 16 (unat (get_u16 b i))"
    by (metis unsigned_take_bit_eq)
  also have "\<dots> < 2 ^ 16" by (rule take_bit_nat_less_exp)
  finally show ?thesis by simp
qed

lemma range_operand_defined:
  assumes n: "rd16 (bc_buf s) pc = Some n" "n \<noteq> 0" and w: "w = 2 \<or> w = 4"
    and rd: "\<And>i. i + w \<le> length (bc_buf s) \<Longrightarrow> rd i \<noteq> None"
    and len: "pc + 2 + 2 * w * unat n \<le> length (bc_buf s)"
  shows "\<exists>b. range_test rd w infinity (pc + 2) n c = Some b"
proof -
  have "unat n < 65536" using n(1) unat_get_u16_bound [of "bc_buf s" pc] by (auto simp: rd16_def split: if_splits)
  then have "2 * w * unat n < 2 ^ 31" using w by auto
  moreover have "rd (pc + 2 + i * (2 * w)) \<noteq> None \<and> rd (pc + 2 + i * (2 * w) + w) \<noteq> None" if "i < unat n" for i
  proof -
    have "Suc i * (2 * w) \<le> unat n * (2 * w)" by (rule mult_le_mono1) (use that in simp)
    then show ?thesis using len rd by (simp add: mult.commute)
  qed
  moreover have "0 < unat n" using n(2) by (simp add: unat_gt_0)
  ultimately show ?thesis
    using range_test_defined [of "unat n" rd "pc + 2" w infinity c] w by auto
qed

lemma exec_range_char_ok:
  assumes "context_ok s" "well_typed s D" "memory_ok s D m" "position_ok s (re_cptr r)" "re_stack_len r = int d"
    and n: "rd16 (bc_buf s) (re_pc r) = Some n" "n \<noteq> 0" and w: "w = 2 \<or> w = 4"
    and rd: "\<And>i. i + w \<le> length (bc_buf s) \<Longrightarrow> rd i \<noteq> None"
    and len: "re_pc r + 2 + 2 * w * unat n \<le> length (bc_buf s)"
    and D: "D (re_pc r + 2 + 2 * w * unat n) d"
  shows "step_ok s D (exec_range_char rd w infinity s m r)"
proof (cases "re_cptr r < cbuf_end s")
  case True
  obtain c q where g: "get_char s (re_cptr r) = Some (c, q)" "position_ok s q"
    using get_char_ok True assms(1,4) by blast
  obtain c' where c': "canon s c = Some c'" using canon_defined by blast
  obtain b where "range_test rd w infinity (re_pc r + 2) n c' = Some b"
    using range_operand_defined [where rd = rd, OF n w rd len] by blast
  then show ?thesis using assms g c' True by (auto simp: exec_range_char_def Let_def regs_okI)
qed (use assms in \<open>simp add: exec_range_char_def Let_def\<close>)

lemma exec_ranges_ok:
  "at_op s D REOP_range m r d \<Longrightarrow> step_ok s D (exec_range s m r)"
  "at_op s D REOP_range32 m r d \<Longrightarrow> step_ok s D (exec_range32 s m r)"
proof -
  assume a: "at_op s D REOP_range m r d"
  then show "step_ok s D (exec_range s m r)"
    unfolding exec_range_def
    by (cases "rd16 (bc_buf s) (re_pc r)")
      (auto simp: at_op_def operand_at_def rd16_def intro!: exec_range_char_ok split: if_splits)
next
  assume a: "at_op s D REOP_range32 m r d"
  then show "step_ok s D (exec_range32 s m r)"
    unfolding exec_range32_def
    by (cases "rd16 (bc_buf s) (re_pc r)")
      (auto simp: at_op_def operand_at_def rd32_def intro!: exec_range_char_ok split: if_splits)
qed

lemma exec_prev_ok: "at_op s D REOP_prev m r d \<Longrightarrow> step_ok s D (exec_prev s m r)"
  using prev_char_ok [of s "re_cptr r"] by (auto simp: at_op_def exec_prev_def regs_okI)

lemma exec_match_ok: "at_op s D REOP_match m r d \<Longrightarrow> step_ok s D (Some (Matched m (re_cptr r)))"
  by (simp add: at_op_def)

lemma exec_chars_ok:
  "at_op s D REOP_char m r d \<Longrightarrow> step_ok s D (exec_op s REOP_char m r)"
  "at_op s D REOP_char32 m r d \<Longrightarrow> step_ok s D (exec_op s REOP_char32 m r)"
  by (auto simp: at_op_def rd16_def rd32_def intro!: test_char_ok)

lemma exec_op_ok:
  assumes "at_op s D opc m r d" "opc \<noteq> REOP_simple_greedy_quant"
  shows "step_ok s D (exec_op s opc m r)"
  using assms
  by (cases opc)
    (simp_all add: exec_split_ok exec_lookahead_ok exec_goto_ok exec_line_start_ok exec_line_end_ok
      exec_any_ok exec_save_ok exec_save_reset_ok exec_push_i32_ok exec_drop_ok exec_loop_ok
      exec_push_char_pos_ok exec_bne_char_pos_ok exec_word_boundary_ok exec_back_reference_ok
      exec_ranges_ok exec_prev_ok exec_match_ok exec_chars_ok del: exec_op.simps step_ok.simps
      add: exec_op.simps(1,4-), simp add: at_op_def)

section \<open>Greedy loops\<close>

text \<open>
  The instructions of a loop's body leave the memory as it is. A character test that succeeds takes one
  character, a boundary test none.
\<close>

definition next_char :: "re_exec_context \<Rightarrow> nat \<Rightarrow> nat option" where
  "next_char s p = fwd (cbuf_type s) (cbuf s) (cbuf_end s) p"

definition takes_char :: "re_exec_context \<Rightarrow> re_memory \<Rightarrow> re_regs \<Rightarrow> nat \<Rightarrow> re_step option \<Rightarrow> bool" where
  "takes_char s m r pc st \<longleftrightarrow> st = Some (No_match m) \<or>
     (\<exists>q. next_char s (re_cptr r) = Some q \<and> st = Some (Step m (r\<lparr>re_pc := pc, re_cptr := q\<rparr>)))"

definition takes_none :: "re_memory \<Rightarrow> re_regs \<Rightarrow> nat \<Rightarrow> re_step option \<Rightarrow> bool" where
  "takes_none m r pc st \<longleftrightarrow> st = Some (No_match m) \<or> st = Some (Step m (r\<lparr>re_pc := pc\<rparr>))"

lemma next_char_get_char:
  "context_ok s \<Longrightarrow> position_ok s p \<Longrightarrow> p < cbuf_end s \<Longrightarrow> get_char s p = Some (c, q) \<Longrightarrow> next_char s p = Some q"
  by (simp add: next_char_def fwd_def get_char_def context_ok_def position_ok_def)

lemma test_char_takes:
  assumes "context_ok s" "position_ok s (re_cptr r)"
  shows "takes_char s m r (re_pc r) (test_char s m r val)"
proof (cases "re_cptr r < cbuf_end s")
  case True
  then obtain c q where g: "get_char s (re_cptr r) = Some (c, q)" using get_char_ok assms by blast
  obtain c' where "canon s c = Some c'" using canon_defined by blast
  then show ?thesis using g next_char_get_char [OF assms True g]
    by (cases r) (auto simp: takes_char_def test_char_def)
qed (simp add: takes_char_def test_char_def)

lemma exec_any_takes:
  assumes "context_ok s" "position_ok s (re_cptr r)"
  shows "takes_char s m r (re_pc r) (exec_any s opc m r)"
proof (cases "re_cptr r < cbuf_end s")
  case True
  then obtain c q where g: "get_char s (re_cptr r) = Some (c, q)" using get_char_ok assms by blast
  then show ?thesis using next_char_get_char [OF assms True g] True
    by (cases r) (auto simp: takes_char_def exec_any_def)
next
  case False
  then show ?thesis using position_le [OF assms(2)] by (simp add: takes_char_def exec_any_def)
qed

lemma tests_take_none:
  assumes "context_ok s" "position_ok s (re_cptr r)"
  shows "takes_none m r (re_pc r) (exec_line_start s m r)" "takes_none m r (re_pc r) (exec_line_end s m r)"
    "takes_none m r (re_pc r) (exec_word_boundary s opc m r)"
proof -
  have same: "r\<lparr>re_pc := re_pc r\<rparr> = r" by simp
  show "takes_none m r (re_pc r) (exec_line_start s m r)"
    using peek_prev_char_ok [OF assms] by (auto simp: takes_none_def exec_line_start_def same)
  show "takes_none m r (re_pc r) (exec_line_end s m r)"
    using peek_char_ok [OF assms] position_le [OF assms(2)] by (auto simp: takes_none_def exec_line_end_def same)
  show "takes_none m r (re_pc r) (exec_word_boundary s opc m r)"
    using word_boundary_cases [OF assms, of opc m] by (auto simp: takes_none_def same)
qed

lemma exec_range_char_takes:
  assumes "context_ok s" "position_ok s (re_cptr r)"
    and n: "rd16 (bc_buf s) (re_pc r) = Some n" "n \<noteq> 0" and w: "w = 2 \<or> w = 4"
    and rd: "\<And>i. i + w \<le> length (bc_buf s) \<Longrightarrow> rd i \<noteq> None"
    and len: "re_pc r + 2 + 2 * w * unat n \<le> length (bc_buf s)"
  shows "takes_char s m r (re_pc r + 2 + 2 * w * unat n) (exec_range_char rd w infinity s m r)"
proof (cases "re_cptr r < cbuf_end s")
  case True
  obtain c q where g: "get_char s (re_cptr r) = Some (c, q)" using get_char_ok True assms(1,2) by blast
  obtain c' where c': "canon s c = Some c'" using canon_defined by blast
  obtain b where "range_test rd w infinity (re_pc r + 2) n c' = Some b"
    using range_operand_defined [where rd = rd, OF n w rd len] by blast
  then show ?thesis using n g c' True next_char_get_char [OF assms(1,2) True g]
    by (auto simp: takes_char_def exec_range_char_def Let_def)
qed (simp add: takes_char_def exec_range_char_def n(1) Let_def)

text \<open>
  A body for \<open>n\<close> characters runs to its end: it fails, or stops behind the \<open>n\<close>-th character. It needs
  one unit of fuel for each instruction and one for \<^verbatim>\<open>match\<close>, and does not touch the memory.
\<close>

definition next_chars :: "re_exec_context \<Rightarrow> nat \<Rightarrow> nat \<Rightarrow> nat option" where
  "next_chars s = cursor.nxts (cbuf_type s) (cbuf s) (cbuf_end s)"

lemma next_chars_simps [simp]:
  "next_chars s 0 p = Some p" "next_chars s (Suc n) p = do { q \<leftarrow> next_char s p; next_chars s n q }"
  by (simp_all add: next_chars_def next_char_def)

definition atom_outcome :: "re_exec_context \<Rightarrow> re_memory \<Rightarrow> nat \<Rightarrow> nat \<Rightarrow> re_outcome \<Rightarrow> bool" where
  "atom_outcome s m n p out \<longleftrightarrow> out = RE_ret m (RE_int 0) \<or>
     (\<exists>q. next_chars s n p = Some q \<and> out = RE_ret m (RE_ptr q))"

lemma next_char_position: "next_char s p = Some q \<Longrightarrow> position_ok s q"
  using fwd_at_char by (auto simp: next_char_def position_ok_def)

lemma run_takes_char:
  assumes "fetch s (re_pc r) = Some opc" "opc \<noteq> REOP_simple_greedy_quant"
    and "takes_char s m (r\<lparr>re_pc := re_pc r + 1\<rparr>) pc (exec_op s opc m (r\<lparr>re_pc := re_pc r + 1\<rparr>))"
    and "\<And>q. next_char s (re_cptr r) = Some q \<Longrightarrow>
      atom_outcome s m n q (lre_exec_backtrack fuel s m (r\<lparr>re_pc := pc, re_cptr := q\<rparr>) True)"
  shows "atom_outcome s m (Suc n) (re_cptr r) (lre_exec_backtrack (Suc fuel) s m r True)"
  using assms by (auto simp: takes_char_def atom_outcome_def Let_def)

lemma run_takes_none:
  assumes "fetch s (re_pc r) = Some opc" "opc \<noteq> REOP_simple_greedy_quant"
    and "takes_none m (r\<lparr>re_pc := re_pc r + 1\<rparr>) pc (exec_op s opc m (r\<lparr>re_pc := re_pc r + 1\<rparr>))"
    and "atom_outcome s m n (re_cptr r) (lre_exec_backtrack fuel s m (r\<lparr>re_pc := pc\<rparr>) True)"
  shows "atom_outcome s m n (re_cptr r) (lre_exec_backtrack (Suc fuel) s m r True)"
  using assms by (auto simp: takes_none_def atom_outcome_def Let_def)

lemma char_op_takes:
  assumes "context_ok s" "position_ok s (re_cptr r)"
  shows "re_pc r + 3 \<le> length (bc_buf s) \<Longrightarrow>
      takes_char s m (r\<lparr>re_pc := re_pc r + 1\<rparr>) (re_pc r + 3) (exec_op s REOP_char m (r\<lparr>re_pc := re_pc r + 1\<rparr>))"
    "re_pc r + 5 \<le> length (bc_buf s) \<Longrightarrow>
      takes_char s m (r\<lparr>re_pc := re_pc r + 1\<rparr>) (re_pc r + 5) (exec_op s REOP_char32 m (r\<lparr>re_pc := re_pc r + 1\<rparr>))"
    "takes_char s m (r\<lparr>re_pc := re_pc r + 1\<rparr>) (re_pc r + 1) (exec_op s REOP_dot m (r\<lparr>re_pc := re_pc r + 1\<rparr>))"
    "takes_char s m (r\<lparr>re_pc := re_pc r + 1\<rparr>) (re_pc r + 1) (exec_op s REOP_any m (r\<lparr>re_pc := re_pc r + 1\<rparr>))"
  using test_char_takes [OF assms(1), of "r\<lparr>re_pc := re_pc r + 3\<rparr>" m]
    test_char_takes [OF assms(1), of "r\<lparr>re_pc := re_pc r + 5\<rparr>" m]
    exec_any_takes [OF assms(1), of "r\<lparr>re_pc := re_pc r + 1\<rparr>" m] assms(2)
  by (simp_all add: rd16_def rd32_def takes_char_def eval_nat_numeral)

lemma range_op_takes:
  assumes "context_ok s" "position_ok s (re_cptr r)" "rd16 (bc_buf s) (re_pc r + 1) = Some n" "n \<noteq> 0"
  shows "re_pc r + 3 + 4 * unat n \<le> length (bc_buf s) \<Longrightarrow>
      takes_char s m (r\<lparr>re_pc := re_pc r + 1\<rparr>) (re_pc r + 3 + 4 * unat n)
        (exec_op s REOP_range m (r\<lparr>re_pc := re_pc r + 1\<rparr>))"
    "re_pc r + 3 + 8 * unat n \<le> length (bc_buf s) \<Longrightarrow>
      takes_char s m (r\<lparr>re_pc := re_pc r + 1\<rparr>) (re_pc r + 3 + 8 * unat n)
        (exec_op s REOP_range32 m (r\<lparr>re_pc := re_pc r + 1\<rparr>))"
proof -
  have r: "rd16 (bc_buf s) (re_pc (r\<lparr>re_pc := re_pc r + 1\<rparr>)) = Some n"
    "position_ok s (re_cptr (r\<lparr>re_pc := re_pc r + 1\<rparr>))"
    using assms(2,3) by simp_all
  show "takes_char s m (r\<lparr>re_pc := re_pc r + 1\<rparr>) (re_pc r + 3 + 4 * unat n)
      (exec_op s REOP_range m (r\<lparr>re_pc := re_pc r + 1\<rparr>))" if "re_pc r + 3 + 4 * unat n \<le> length (bc_buf s)"
    using exec_range_char_takes [where rd = "rd16 (bc_buf s)" and w = 2 and infinity = True and m = m,
        OF assms(1) r(2,1) assms(4)] that
    by (simp add: exec_range_def rd16_def ac_simps numeral_3_eq_3)
  show "takes_char s m (r\<lparr>re_pc := re_pc r + 1\<rparr>) (re_pc r + 3 + 8 * unat n)
      (exec_op s REOP_range32 m (r\<lparr>re_pc := re_pc r + 1\<rparr>))" if "re_pc r + 3 + 8 * unat n \<le> length (bc_buf s)"
    using exec_range_char_takes [where rd = "rd32 (bc_buf s)" and w = 4 and infinity = False and m = m,
        OF assms(1) r(2,1) assms(4)] that
    by (simp add: exec_range32_def rd32_def ac_simps numeral_3_eq_3)
qed

lemma tests_op_take_none:
  assumes "context_ok s" "position_ok s (re_cptr r)"
    "opc \<in> {REOP_line_start, REOP_line_end, REOP_word_boundary, REOP_not_word_boundary}"
  shows "takes_none m (r\<lparr>re_pc := re_pc r + 1\<rparr>) (re_pc r + 1) (exec_op s opc m (r\<lparr>re_pc := re_pc r + 1\<rparr>))"
  using tests_take_none [of s "r\<lparr>re_pc := re_pc r + 1\<rparr>" m] assms by auto

lemma atom_run:
  assumes "context_ok s"
  shows "atom_chars k s (re_pc r) = Some n \<Longrightarrow> position_ok s (re_cptr r) \<Longrightarrow> k \<le> fuel \<Longrightarrow>
    atom_outcome s m n (re_cptr r) (lre_exec_backtrack fuel s m r True)"
proof (induction k arbitrary: r n fuel)
  case (Suc k)
  then obtain f where f: "fuel = Suc f" "k \<le> f" by (cases fuel) auto
  from Suc.prems(1) obtain opc where opc: "fetch s (re_pc r) = Some opc" by (auto split: option.splits)
  note pos = Suc.prems(2)
  have step_none: ?case
    if "opc \<in> {REOP_line_start, REOP_line_end, REOP_word_boundary, REOP_not_word_boundary}"
      "atom_chars k s (re_pc r + 1) = Some n"
    unfolding f(1)
    by (rule run_takes_none [OF opc _ tests_op_take_none [OF assms pos that(1)]])
      (use that Suc.IH [of "r\<lparr>re_pc := re_pc r + 1\<rparr>" n f] pos f(2) in auto)
  have step_char: ?case
    if "takes_char s m (r\<lparr>re_pc := re_pc r + 1\<rparr>) pc (exec_op s opc m (r\<lparr>re_pc := re_pc r + 1\<rparr>))"
      "map_option Suc (atom_chars k s pc) = Some n" "opc \<noteq> REOP_simple_greedy_quant" for pc
  proof -
    from that(2) obtain n' where n': "n = Suc n'" "atom_chars k s pc = Some n'" by auto
    show ?thesis unfolding f(1) n'(1)
      by (rule run_takes_char [OF opc that(3,1)])
        (use n'(2) Suc.IH [of "r\<lparr>re_pc := pc, re_cptr := q\<rparr>" n' f for q] next_char_position f(2) in auto)
  qed
  show ?case
  proof (cases opc)
    case REOP_match
    then show ?thesis using Suc.prems opc f by (simp add: atom_outcome_def Let_def)
  next
    case REOP_char
    then show ?thesis using Suc.prems(1) opc step_char [unfolded REOP_char, OF char_op_takes(1) [OF assms pos]]
      by (auto split: if_splits)
  next
    case REOP_char32
    then show ?thesis using Suc.prems(1) opc step_char [unfolded REOP_char32, OF char_op_takes(2) [OF assms pos]]
      by (auto split: if_splits)
  next
    case REOP_dot
    then show ?thesis using Suc.prems(1) opc step_char [unfolded REOP_dot, OF char_op_takes(3) [OF assms pos]] by auto
  next
    case REOP_any
    then show ?thesis using Suc.prems(1) opc step_char [unfolded REOP_any, OF char_op_takes(4) [OF assms pos]] by auto
  next
    case REOP_range
    then show ?thesis using Suc.prems(1) opc step_char [unfolded REOP_range, OF range_op_takes(1) [OF assms pos]]
      by (auto split: if_splits option.splits)
  next
    case REOP_range32
    then show ?thesis using Suc.prems(1) opc step_char [unfolded REOP_range32, OF range_op_takes(2) [OF assms pos]]
      by (auto split: if_splits option.splits)
  qed (use Suc.prems(1) opc step_none in auto)
qed simp

text \<open>
  The loop around the body. After \<open>q\<close> repetitions the pointer has passed \<open>q * n\<close> characters, so a body that
  takes at least one character ends the loop before the subject does, and \<open>q\<close> never wraps.
\<close>

definition quant_result :: "re_exec_context \<Rightarrow> re_memory \<Rightarrow> nat \<Rightarrow> nat \<Rightarrow> nat \<Rightarrow> u32 \<Rightarrow> quant_outcome \<Rightarrow> bool" where
  "quant_result s m n p q quant_max out \<longleftrightarrow>
     (\<exists>p' q'. out = Quant_done m p' q' \<and> q \<le> q' \<and> q' < SIZE_MOD \<and> next_chars s (n * (q' - q)) p = Some p')"

lemma next_chars_position:
  assumes "next_chars s n p = Some q" "position_ok s p"
  shows "position_ok s q" "p + n \<le> q" "n \<le> cbuf_end s"
  using nxts_at_char [OF assms(1) [unfolded next_chars_def] assms(2) [unfolded position_ok_def]]
  by (auto simp: position_ok_def at_char_def)

lemma next_chars_add: "next_chars s (a + b) p = do { q \<leftarrow> next_chars s a p; next_chars s b q }"
  by (simp add: next_chars_def cursor.nxts_add)

lemma quant_loop_run:
  assumes s: "context_ok s" and atom: "atom_chars k s (re_pc r) = Some n" "0 < n"
  shows "position_ok s (re_cptr r) \<Longrightarrow> q + cbuf_end s < SIZE_MOD + re_cptr r \<Longrightarrow>
    k + cbuf_end s < fuel + re_cptr r \<Longrightarrow>
    quant_result s m n (re_cptr r) q quant_max (quant_loop fuel s m r quant_max q)"
  using atom(1)
proof (induction "cbuf_end s - re_cptr r" arbitrary: r q fuel rule: less_induct)
  case less
  have "re_cptr r \<le> cbuf_end s" using position_le less.prems(1) by blast
  then obtain f where f: "fuel = Suc f" "k \<le> f" using less.prems(3) by (cases fuel) auto
  have q0: "q < SIZE_MOD" using less.prems(2) \<open>re_cptr r \<le> cbuf_end s\<close> by simp
  from atom_run [OF s less.prems(4,1) f(2), of m]
  consider "lre_exec_backtrack f s m r True = RE_ret m (RE_int 0)"
    | p where "next_chars s n (re_cptr r) = Some p" "lre_exec_backtrack f s m r True = RE_ret m (RE_ptr p)"
    by (auto simp: atom_outcome_def)
  then show ?case
  proof cases
    case 1
    then show ?thesis using q0 by (simp add: f(1) quant_result_def)
  next
    case 2
    note p = next_chars_position [OF 2(1) less.prems(1)]
    have gt: "re_cptr r < p" "p \<le> cbuf_end s" using p(2) atom(2) position_le [OF p(1)] by simp_all
    then have q1: "(q + 1) mod SIZE_MOD = q + 1" using less.prems(2) by simp
    show ?thesis
    proof (cases "q + 1 \<ge> unat quant_max \<and> quant_max \<noteq> 0x7fffffff")
      case True
      then show ?thesis using 2 q1 gt less.prems(2)
        by (auto simp: f(1) quant_result_def Let_def intro!: exI [of _ p] exI [of _ "q + 1"])
    next
      case False
      let ?r = "r\<lparr>re_cptr := p\<rparr>"
      have "quant_result s m n (re_cptr ?r) (q + 1) quant_max (quant_loop f s m ?r quant_max (q + 1))"
        by (rule less.hyps) (use gt p less.prems f in auto)
      then obtain p' q' where d: "quant_loop f s m ?r quant_max (q + 1) = Quant_done m p' q'"
          "q + 1 \<le> q'" "q' < SIZE_MOD" "next_chars s (n * (q' - (q + 1))) p = Some p'"
        by (auto simp: quant_result_def)
      have "n * (q' - q) = n + n * (q' - (q + 1))"
        using d(2) by (cases "q' - q") (auto simp: diff_diff_left [symmetric] simp del: diff_diff_left)
      then have "next_chars s (n * (q' - q)) (re_cptr r) = Some p'"
        using next_chars_add [of s n "n * (q' - (q + 1))" "re_cptr r"] 2(1) d(4) by simp
      moreover have "quant_loop fuel s m r quant_max q = Quant_done m p' q'"
        using 2(2) q1 False d(1) by (auto simp: f(1) Let_def)
      ultimately show ?thesis using d(2,3) by (auto simp: quant_result_def)
    qed
  qed
qed

text \<open>More fuel never changes a result.\<close>

lemma fuel_step:
  "(\<forall>s m r nr. lre_exec_backtrack fuel s m r nr \<noteq> RE_timeout \<longrightarrow>
      lre_exec_backtrack (Suc fuel) s m r nr = lre_exec_backtrack fuel s m r nr) \<and>
   (\<forall>s m r quant_max q. quant_loop fuel s m r quant_max q \<noteq> Quant_timeout \<longrightarrow>
      quant_loop (Suc fuel) s m r quant_max q = quant_loop fuel s m r quant_max q)"
proof (induction fuel)
  case (Suc fuel)
  define E E' where "E = lre_exec_backtrack fuel" and "E' = lre_exec_backtrack (Suc fuel)"
  define Q Q' where "Q = quant_loop fuel" and "Q' = quant_loop (Suc fuel)"
  have IH: "E s m r nr \<noteq> RE_timeout \<Longrightarrow> E' s m r nr = E s m r nr"
    "Q s m r quant_max q \<noteq> Quant_timeout \<Longrightarrow> Q' s m r quant_max q = Q s m r quant_max q"
    for s m r nr quant_max q
    using Suc by (auto simp: E_def E'_def Q_def Q'_def)
  note L = lre_exec_backtrack.simps(2) [of fuel, folded E_def Q_def]
    lre_exec_backtrack.simps(2) [of "Suc fuel", folded E'_def Q'_def]
    quant_loop.simps(2) [of fuel, folded E_def Q_def]
    quant_loop.simps(2) [of "Suc fuel", folded E'_def Q'_def]
  have resume: "(case st of None \<Rightarrow> RE_undef | Some (Step m r) \<Rightarrow> E' s m r nr
        | Some (Return m v) \<Rightarrow> RE_ret m (RE_int v) | Some _ \<Rightarrow> RE_undef) =
      (case st of None \<Rightarrow> RE_undef | Some (Step m r) \<Rightarrow> E s m r nr
        | Some (Return m v) \<Rightarrow> RE_ret m (RE_int v) | Some _ \<Rightarrow> RE_undef)"
    if "(case st of None \<Rightarrow> RE_undef | Some (Step m r) \<Rightarrow> E s m r nr
        | Some (Return m v) \<Rightarrow> RE_ret m (RE_int v) | Some _ \<Rightarrow> RE_undef) \<noteq> RE_timeout" for st s nr
    using that IH(1) by (auto split: option.splits re_step.splits)
  have "lre_exec_backtrack (Suc (Suc fuel)) s m r nr = lre_exec_backtrack (Suc fuel) s m r nr"
    if "lre_exec_backtrack (Suc fuel) s m r nr \<noteq> RE_timeout" for s m r nr
  proof (cases "fetch s (re_pc r)")
    case None
    then show ?thesis unfolding L by simp
  next
    case (Some opc)
    let ?r = "r\<lparr>re_pc := re_pc r + 1\<rparr>"
    show ?thesis
    proof (cases "opc = REOP_simple_greedy_quant")
      case False
      then show ?thesis
        using that Some IH(1) resume unfolding L
        by (cases "exec_op s opc m ?r") (auto simp: Let_def split: re_step.splits if_splits)
    next
      case True
      show ?thesis
      proof (cases "greedy_operands s (re_pc ?r)")
        case None
        with True Some show ?thesis unfolding L by (simp add: Let_def)
      next
        case (Some ops)
        obtain pc' lo hi where ops: "ops = (pc', lo, hi)" by (cases ops)
        note op = \<open>fetch s (re_pc r) = Some opc\<close> True Some [unfolded ops]
        let ?r1 = "?r\<lparr>re_pc := re_pc ?r + 16\<rparr>"
        show ?thesis
        proof (cases "Q s m ?r1 hi 0")
          case (Quant_done m1 p q)
          then have Q': "Q' s m ?r1 hi 0 = Quant_done m1 p q" using IH(2) by simp
          show ?thesis
            using that op IH(1) resume Quant_done Q' unfolding L
            by (cases "push_state s m1 (re_stack_len r) (re_pc r + 1) p RE_EXEC_STATE_GREEDY_QUANT (q - unat lo)")
              (auto simp: Let_def split: if_splits)
        qed (use that op IH(2) in \<open>unfold L, simp_all add: Let_def\<close>)
      qed
    qed
  qed
  moreover have "quant_loop (Suc (Suc fuel)) s m r quant_max q = quant_loop (Suc fuel) s m r quant_max q"
    if "quant_loop (Suc fuel) s m r quant_max q \<noteq> Quant_timeout" for s m r quant_max q
    using that unfolding L
    by (auto simp: Let_def IH split: re_outcome.splits re_value.splits if_splits)
  ultimately show ?case by blast
qed simp

lemma fuel_add:
  "lre_exec_backtrack fuel s m r nr \<noteq> RE_timeout \<Longrightarrow>
   lre_exec_backtrack (fuel + k) s m r nr = lre_exec_backtrack fuel s m r nr"
  "quant_loop fuel s m r quant_max q \<noteq> Quant_timeout \<Longrightarrow>
   quant_loop (fuel + k) s m r quant_max q = quant_loop fuel s m r quant_max q"
  by (induction k) (simp_all add: fuel_step del: lre_exec_backtrack.simps quant_loop.simps)

lemma fuel_mono:
  "lre_exec_backtrack fuel s m r nr \<noteq> RE_timeout \<Longrightarrow> fuel \<le> fuel' \<Longrightarrow>
   lre_exec_backtrack fuel' s m r nr = lre_exec_backtrack fuel s m r nr"
  "quant_loop fuel s m r quant_max q \<noteq> Quant_timeout \<Longrightarrow> fuel \<le> fuel' \<Longrightarrow>
   quant_loop fuel' s m r quant_max q = quant_loop fuel s m r quant_max q"
  by (auto simp: le_iff_add fuel_add simp del: lre_exec_backtrack.simps quant_loop.simps)

section \<open>Every run is defined\<close>

fun outcome_ok :: "re_exec_context \<Rightarrow> typing \<Rightarrow> re_outcome \<Rightarrow> bool" where
  "outcome_ok s D RE_timeout \<longleftrightarrow> True"
| "outcome_ok s D RE_undef \<longleftrightarrow> False"
| "outcome_ok s D (RE_ret m v) \<longleftrightarrow> memory_ok s D m \<and> v \<in> {RE_int (-1), RE_int 0, RE_int 1}"

lemma greedy_operands_ok:
  assumes "quant_ok s D pc d"
  obtains tgt where "greedy_operands s pc = Some (tgt, get_u32 (bc_buf s) (pc + 4), get_u32 (bc_buf s) (pc + 8))"
    "D tgt d"
  using assms by (auto simp: quant_ok_def greedy_operands_def rd32_def split: option.splits)

lemma quant_loop_any:
  assumes s: "context_ok s" and atom: "quant_ok s D pc d" and r: "re_pc r = pc + 16" "position_ok s (re_cptr r)"
  shows "quant_loop fuel s m r quant_max 0 = Quant_timeout \<or>
    quant_result s m (unat (get_u32 (bc_buf s) (pc + 12))) (re_cptr r) 0 quant_max (quant_loop fuel s m r quant_max 0)"
proof -
  let ?n = "unat (get_u32 (bc_buf s) (pc + 12))" and ?big = "fuel + length (bc_buf s) + cbuf_end s + 1"
  have a: "atom_chars (length (bc_buf s)) s (re_pc r) = Some ?n" "0 < ?n"
    using atom r(1) by (auto simp: quant_ok_def word_greater_zero_iff unat_gt_0)
  have "quant_result s m ?n (re_cptr r) 0 quant_max (quant_loop ?big s m r quant_max 0)"
    by (rule quant_loop_run [OF s a r(2)]) (use s in \<open>simp_all add: context_ok_def\<close>)
  then show ?thesis using fuel_mono(2) [of fuel s m r quant_max 0 ?big] by force
qed

lemma prev_chars_defined:
  assumes "next_chars s n p = Some q" "k \<le> n"
  shows "prev_chars s k q \<noteq> None"
proof -
  have "prev_chars s n q \<noteq> None"
    using cursor.prvs_nxts_defined [OF assms(1) [unfolded next_chars_def]] by (simp add: prev_chars_prvs)
  then show ?thesis using prev_chars_add [of s k "n - k" q] assms(2) by (auto split: Option.bind_splits)
qed

lemma run_ok:
  assumes s: "context_ok s" and D: "well_typed s D"
  shows "memory_ok s D m \<Longrightarrow> regs_ok s D r \<Longrightarrow> outcome_ok s D (lre_exec_backtrack fuel s m r False)"
proof (induction fuel arbitrary: m r)
  case (Suc fuel)
  have resume: "outcome_ok s D (case re_recurse s m' ret (state_stack_len m') of
        None \<Rightarrow> RE_undef
      | Some (Step m r) \<Rightarrow> lre_exec_backtrack fuel s m r False
      | Some (Return m v) \<Rightarrow> RE_ret m (RE_int v)
      | Some _ \<Rightarrow> RE_undef)" if "memory_ok s D m'" for m' ret
    using re_recurse_ok [OF s that order_refl, of ret] Suc.IH
    by (auto split: option.splits re_step.splits)
  from Suc.prems(2) obtain d where d: "D (re_pc r) d" "d \<le> stack_size_max s" "re_stack_len r = int d"
      and pos: "position_ok s (re_cptr r)"
    by (auto simp: regs_ok_def)
  obtain opc where opc: "fetch s (re_pc r) = Some opc" "op_ok s D (re_pc r + 1) d opc"
    using D d(1) by (auto simp: well_typed_def typed_at_def split: option.splits)
  let ?r = "r\<lparr>re_pc := re_pc r + 1\<rparr>"
  show ?case
  proof (cases "opc = REOP_simple_greedy_quant")
    case False
    have "at_op s D opc m ?r d" using s D Suc.prems(1) d pos opc(2) by (simp add: at_op_def)
    then have "step_ok s D (exec_op s opc m ?r)" using exec_op_ok False by blast
    then show ?thesis
      using opc(1) False Suc.IH resume
      by (cases "exec_op s opc m ?r") (auto simp: Let_def split: re_step.splits)
  next
    case True
    let ?pc = "re_pc r + 1" and ?r1 = "?r\<lparr>re_pc := re_pc ?r + 16\<rparr>"
    let ?lo = "get_u32 (bc_buf s) (?pc + 4)" and ?hi = "get_u32 (bc_buf s) (?pc + 8)"
    let ?n = "unat (get_u32 (bc_buf s) (?pc + 12))"
    have q: "quant_ok s D ?pc d" using opc(2) True by simp
    obtain tgt where ops: "greedy_operands s ?pc = Some (tgt, ?lo, ?hi)" and tgt: "D tgt d"
      using greedy_operands_ok [OF q] .
    have "re_pc ?r1 = ?pc + 16" "position_ok s (re_cptr ?r1)" using pos by simp_all
    from quant_loop_any [OF s q this, of fuel m ?hi]
    consider "quant_loop fuel s m ?r1 ?hi 0 = Quant_timeout"
      | p k where "quant_loop fuel s m ?r1 ?hi 0 = Quant_done m p k" "k < SIZE_MOD" "next_chars s (?n * k) (re_cptr r) = Some p"
      by (auto simp: quant_result_def)
    then show ?thesis
    proof cases
      case 1
      then show ?thesis using opc(1) True ops by (simp add: Let_def)
    next
      case 2
      have p: "position_ok s p" using next_chars_position [OF 2(3) pos] by blast
      have go: "outcome_ok s D (lre_exec_backtrack fuel s m' (?r1\<lparr>re_pc := tgt, re_cptr := p\<rparr>) False)"
        if "memory_ok s D m'" for m'
        by (rule Suc.IH [OF that]) (use p tgt d in \<open>simp add: regs_ok_def\<close>)
      show ?thesis
      proof (cases "k > unat ?lo")
        case True
        let ?c = "k - unat ?lo"
        have "prev_chars s (?c * ?n) p \<noteq> None"
          by (rule prev_chars_defined [OF 2(3)]) (simp add: mult.commute)
        moreover have "0 < ?c" "?c < SIZE_MOD" using True 2(2) by linarith+
        ultimately have "\<exists>m' v. push_state s m (int d) ?pc p RE_EXEC_STATE_GREEDY_QUANT ?c = Some (m', v) \<and>
            (v = 0 \<or> v = -1) \<and> memory_ok s D m'"
          by (intro push_state_ok [OF s Suc.prems(1) p d(2)]) (use q in \<open>simp only: if_True simp_thms\<close>)
        then obtain m' v where "push_state s m (int d) ?pc p RE_EXEC_STATE_GREEDY_QUANT ?c = Some (m', v)"
            "v = 0 \<or> v = -1" "memory_ok s D m'" by blast
        then show ?thesis
          using opc(1) \<open>opc = REOP_simple_greedy_quant\<close> ops 2(1) d(3) True go by (auto simp: Let_def)
      next
        case False
        then show ?thesis
          using opc(1) \<open>opc = REOP_simple_greedy_quant\<close> ops 2(1) go [OF Suc.prems(1)] resume [OF Suc.prems(1), of False]
          by (auto simp: Let_def)
      qed
    qed
  qed
qed simp

end
