(* ===== verification/RegexpTyped.thy ===== *)
theory RegexpTyped
  imports RegexpRewrite RegexpSafe
begin

text \<open>
  The code that the compiler emits is well typed: every parsing function appends a fragment, so that the result of
  \<^verbatim>\<open>lre_compile\<close> can be run without an undefined step.
\<close>

section \<open>Fragments of bounded length\<close>

text \<open>Jumps reach 2 GiB; longer code is not claimed to be a fragment.\<close>

definition sfrag :: "nat \<Rightarrow> bytes list \<Rightarrow> bool" where
  "sfrag cc xs \<longleftrightarrow> (length (code xs) < 2 ^ 31 \<longrightarrow> frag cc xs)"

lemma sfrag_mono: "sfrag cc xs \<Longrightarrow> cc \<le> cc' \<Longrightarrow> sfrag cc' xs"
  by (auto simp: sfrag_def intro: frag_mono)

lemma sfrag_append: "sfrag cc xs \<Longrightarrow> sfrag cc ys \<Longrightarrow> sfrag cc (xs @ ys)"
  by (auto simp: sfrag_def intro: frag_append)

lemma sfrag_Nil [simp]: "sfrag cc []"
  by (simp add: sfrag_def)

lemma sfrag_single: "insn cc i \<Longrightarrow> insn_op i \<in> set straight_ops \<Longrightarrow> sfrag cc [i]"
  by (simp add: sfrag_def frag_straight)

lemma sfrag_Cons: "insn cc i \<Longrightarrow> insn_op i \<in> set straight_ops \<Longrightarrow> sfrag cc xs \<Longrightarrow> sfrag cc (i # xs)"
  using sfrag_append [OF sfrag_single] by fastforce

lemma split_op_set [simp]: "split_op greedy \<in> set split_ops"
  by (simp add: split_op_def split_ops_def)

lemma sfrag_star: "sfrag cc xs \<Longrightarrow> sfrag cc (star_insns greedy add_check xs)"
  using frag_star [of cc xs "split_op greedy"] frag_star_check [of cc xs "split_op greedy"]
  by (auto simp: sfrag_def star_insns_def near_def)

lemma sfrag_at_most: "sfrag cc xs \<Longrightarrow> sfrag cc (at_most_insns greedy v xs)"
  using frag_at_most [of cc xs "split_op greedy" v] by (auto simp: sfrag_def at_most_insns_def near_def)

lemma sfrag_repeat: "sfrag cc xs \<Longrightarrow> sfrag cc (repeat_insns v xs)"
  using frag_repeat [of cc xs v] by (auto simp: sfrag_def repeat_insns_def near_def)

lemma sfrag_optional: "sfrag cc xs \<Longrightarrow> sfrag cc (jump_insn (split_op greedy) (int (length (code xs))) # xs)"
  using frag_optional [of cc xs "split_op greedy"] by (auto simp: sfrag_def near_def)

lemma sfrag_plus: "sfrag cc xs \<Longrightarrow> sfrag cc (xs @ [jump_insn (split_op greedy) (- int (length (code xs)) - 5)])"
  using frag_plus [of cc xs "split_op greedy"] by (auto simp: sfrag_def near_def)

lemma sfrag_more: "sfrag cc xs \<Longrightarrow> sfrag cc (more_insns quant_min quant_max greedy add_check xs)"
  by (simp add: more_insns_def sfrag_star sfrag_at_most)

lemma unat_of_nat_u8: "n \<le> 255 \<Longrightarrow> unat (of_nat n :: u8) = n"
  by (simp add: unat_of_nat take_bit_nat_eq_self)

lemma unat_rd8: "i < length b \<Longrightarrow> rd8 b i = Some (ucast (b ! i)) \<and> unat (ucast (b ! i) :: u32) = unat (b ! i)"
  by (simp add: rd8_def get_u8_def)

lemma insn_bytes:
  assumes "Suc (length xs) = reop_size opc" "opc \<noteq> REOP_range" "opc \<noteq> REOP_range32"
    "opc \<in> {REOP_save_start, REOP_save_end} \<Longrightarrow> unat (xs ! 0) < cc" "opc = REOP_save_reset \<Longrightarrow> unat (xs ! 1) < cc"
  shows "insn cc (reop_code opc # xs)"
proof -
  let ?i = "reop_code opc # xs"
  have op: "insn_op ?i = opc" "op_at ?i 0 = Some opc" by (simp_all add: op_at_def)
  have r: "operand_at (rd8 ?i) 1 (\<lambda>v. unat v < cc)" if "opc \<in> {REOP_save_start, REOP_save_end}"
    using assms(1,4) that unat_rd8 [of 1 ?i] by (auto simp: operand_at_def)
  have r2: "operand_at (rd8 ?i) 2 (\<lambda>v. unat v < cc)" if "opc = REOP_save_reset"
    using assms(1,5) that unat_rd8 [of 2 ?i] by (auto simp: operand_at_def)
  show ?thesis using assms(1-3) op r r2 by (auto simp: insn_def insn_len_def)
qed

lemma sfrag_reset: "1 \<le> cc \<Longrightarrow> cc \<le> CAPTURE_COUNT_MAX \<Longrightarrow> sfrag cc (reset_insns lcc cc)"
  using insn_bytes [of "[of_nat lcc, of_nat (cc - 1)]" REOP_save_reset cc] unat_of_nat_u8 [of "cc - 1"]
  by (auto simp: reset_insns_def straight_ops_def simp del: of_nat_diff intro!: sfrag_single)

section \<open>Quantifiers\<close>

lemma emit_loops_changes:
  assumes run: "emit_loops s pos lcc quant_min quant_max greedy add_check = Some (s', 0)"
    and len: "length (code xs) = bsize s - pos"
  shows "\<exists>ys. changes s s' pos (code xs) (code ys) \<and>
    (1 \<le> re_capture_count s \<and> re_capture_count s \<le> CAPTURE_COUNT_MAX \<and> sfrag (re_capture_count s) xs \<longrightarrow>
       sfrag (re_capture_count s) ys)"
proof (cases "quant_min = 0")
  case True
  let ?cc = "re_capture_count s" and ?r = "reset_insns lcc (re_capture_count s)"
  obtain s1 p1 where reset: "emit_reset s pos lcc = Some ((s1, p1), 0)"
    and rest: "(if quant_max = 0 then Some (s1\<lparr>byte_code := byte_code s1\<lparr>dbuf_size := p1\<rparr>\<rparr>, 0)
        else if quant_max = 1 then emit_optional s1 p1 (length (code xs)) greedy
        else if quant_max = int INT32_MAX then emit_star s1 p1 (length (code xs)) greedy add_check
        else emit_at_most s1 p1 (length (code xs)) (of_int quant_max) greedy) = Some (s', 0)"
    using run True len by (auto simp: emit_loops_def bind_eq_Some_conv Let_def split: if_splits)
  note R = emit_reset_changes [OF reset]
  have r: "changes s s1 pos (code xs) (code ?r @ code xs)" using R(2) .
  have sr: "sfrag ?cc ?r" if "1 \<le> ?cc" "?cc \<le> CAPTURE_COUNT_MAX" using sfrag_reset that .
  have tail: "changes s s' pos (code xs) (code (?r @ ys))" if "changes s1 s' p1 (code xs) (code ys)" for ys
    using changes_trans [OF r changes_prefix [OF that [unfolded R(1)]]] by simp
  consider "quant_max = 0" | "quant_max \<noteq> 0" "quant_max = 1" | "quant_max \<notin> {0, 1}" "quant_max = int INT32_MAX"
    | "quant_max \<notin> {0, 1, int INT32_MAX}" by auto
  then show ?thesis
  proof cases
    case 1
    then have s': "s' = s1\<lparr>byte_code := byte_code s1\<lparr>dbuf_size := p1\<rparr>\<rparr>" using rest by simp
    have "changes s s' pos (code xs) (code ?r)"
      using changes_trans [OF r changes_truncate [OF R(1)]] by (simp add: s')
    then show ?thesis using sr by blast
  next
    case 2
    then have "emit_optional s1 p1 (length (code xs)) greedy = Some (s', 0)" using rest by simp
    from tail [OF emit_optional_changes [OF this]] show ?thesis
      using sfrag_append [OF sr sfrag_optional] by blast
  next
    case 3
    then have "emit_star s1 p1 (length (code xs)) greedy add_check = Some (s', 0)" using rest by simp
    from tail [OF emit_star_changes [OF this]] show ?thesis
      using sfrag_append [OF sr sfrag_star] by blast
  next
    case 4
    then have "emit_at_most s1 p1 (length (code xs)) (of_int quant_max) greedy = Some (s', 0)" using rest by simp
    from tail [OF emit_at_most_changes [OF this]] show ?thesis
      using sfrag_append [OF sr sfrag_at_most] by blast
  qed
next
  case False
  show ?thesis
  proof (cases "quant_min = 1 \<and> quant_max = int INT32_MAX \<and> \<not> add_check")
    case True
    then have s': "s' = fst (re_emit_goto s (split_op (\<not> greedy)) (of_nat pos))"
      using run by (simp add: emit_loops_def Let_def)
    have "changes s s' pos (code xs) (code (xs @ [jump_insn (split_op (\<not> greedy)) (- int (length (code xs)) - 5)]))"
      using emit_goto_changes [of pos pos 0 s "split_op (\<not> greedy)" "code xs"] by (simp add: s')
    then show ?thesis using sfrag_plus by blast
  next
    case plus: False
    obtain s1 atom where least: "emit_at_least s pos (length (code xs)) (of_int quant_min) = Some ((s1, atom), 0)"
      and s': "s' = emit_more s1 atom (length (code xs)) quant_min quant_max greedy add_check"
      using run False plus len by (auto simp: emit_loops_def bind_eq_Some_conv Let_def split: if_splits)
    let ?ys = "if (of_int quant_min :: u32) = 1 then xs else repeat_insns (of_int quant_min) xs"
    obtain p q where pq: "changes s s1 pos (code xs) (p @ code xs @ q)" "atom = pos + length p" "p @ code xs @ q = code ?ys"
      using emit_at_least_changes [OF least] .
    have "changes s1 s' pos (p @ code xs @ q) ((p @ code xs @ q) @ code (more_insns quant_min quant_max greedy add_check xs))"
      using emit_more_changes [OF pq(2), of s1 xs quant_min quant_max greedy add_check q] by (simp add: s')
    from changes_trans [OF pq(1) this]
    have "changes s s' pos (code xs) (code (?ys @ more_insns quant_min quant_max greedy add_check xs))"
      unfolding pq(3) by simp
    moreover have "sfrag (re_capture_count s) (?ys @ more_insns quant_min quant_max greedy add_check xs)"
      if "sfrag (re_capture_count s) xs"
      by (rule sfrag_append) (use that sfrag_repeat sfrag_more in auto)
    ultimately show ?thesis by blast
  qed
qed

text \<open>What a step promises about the code from \<open>pos\<close> on.\<close>

definition refragments :: "re_parse_state \<Rightarrow> re_parse_state \<Rightarrow> nat \<Rightarrow> bool" where
  "refragments s s' pos \<longleftrightarrow> sticky s s' \<and>
     (\<forall>pre xs. emit_ok s \<and> \<not> failed s' \<and> length pre = pos \<and> emitted s = pre @ code xs \<and> sfrag (re_capture_count s) xs \<longrightarrow>
        emit_ok s' \<and> (\<exists>ys. emitted s' = pre @ code ys \<and> sfrag (re_capture_count s) ys))"

lemma code_of_length: "\<exists>xs. length (code xs) = n"
  by (rule exI [of _ "[replicate n 0]"]) simp

lemma emit_loops_refragments:
  assumes "emit_loops s pos lcc quant_min quant_max greedy add_check = Some (s', 0)"
  shows "refragments s s' pos"
  unfolding refragments_def
proof (intro conjI allI impI)
  show "sticky s s'"
    using emit_loops_changes [OF assms] code_of_length [of "bsize s - pos"] changes_sticky by blast
  fix pre xs
  assume h: "emit_ok s \<and> \<not> failed s' \<and> length pre = pos \<and> emitted s = pre @ code xs \<and> sfrag (re_capture_count s) xs"
  then have "length (code xs) = bsize s - pos" using emit_ok_size [of s] by simp
  from emit_loops_changes [OF assms this] obtain ys where ys: "changes s s' pos (code xs) (code ys)"
      "sfrag (re_capture_count s) ys"
    using h by (auto simp: emit_ok_def)
  have "emit_ok s' \<and> emitted s' = pre @ code ys" by (rule changesD [OF ys(1)]) (use h in auto)
  then show "emit_ok s'" "\<exists>ys. emitted s' = pre @ code ys \<and> sfrag (re_capture_count s) ys" using ys(2) by auto
qed

lemma emit_greedy_refragments:
  assumes scan: "re_is_simple_quantifier (drop pos (buf (byte_code s))) (bsize s - pos) = Some n" "0 < n"
    and run: "emit_greedy s pos lo hi (of_int n) = Some (s', 0)"
  shows "refragments s s' pos"
  unfolding refragments_def
proof (intro conjI allI impI)
  show "sticky s s'" using emit_greedy_changes [OF run] changes_sticky by blast
  fix pre xs
  assume h: "emit_ok s \<and> \<not> failed s' \<and> length pre = pos \<and> emitted s = pre @ code xs \<and> sfrag (re_capture_count s) xs"
  let ?ys = "greedy_insn (of_nat (length (code xs) + 1)) lo hi (of_int n) # xs @ [[reop_code REOP_match]]"
  have fin: "emit_ok s' \<and> emitted s' = pre @ code ?ys" by (rule changesD [OF emit_greedy_changes [OF run]]) (use h in auto)
  have "sfrag (re_capture_count s) ?ys"
    unfolding sfrag_def
  proof
    assume len: "length (code ?ys) < 2 ^ 31"
    then have xs: "frag (re_capture_count s) xs" using h by (simp add: sfrag_def)
    have sz: "bsize s - pos = length (code xs)" using h emit_ok_size [of s] by simp
    have "emitted s = take (bsize s) (buf (byte_code s))" by (simp add: contents_def bsize_def)
    then have "take (length pre + length (code xs)) (buf (byte_code s)) = pre @ code xs"
      using h emit_ok_size [of s] by simp
    then have "drop pos (take (pos + length (code xs)) (buf (byte_code s))) = drop pos (pre @ code xs)" using h by simp
    then have tk: "take (length (code xs)) (drop pos (buf (byte_code s))) = code xs" using h by (simp add: drop_take)
    then have "length (code xs) \<le> length (drop pos (buf (byte_code s)))" by (metis length_take min.cobounded1)
    then have at: "code_at (drop pos (buf (byte_code s))) 0 (code xs)" using tk by (simp add: code_at_def)
    have "(\<forall>i \<in> set xs. insn_op i \<in> set simple_chars \<union> set simple_tests) \<and> n = int (char_insns xs)"
      using simple_loop_code [of xs "re_capture_count s", OF _ at, of 0 n] frag_insns [OF xs] scan sz
      by (simp add: re_is_simple_quantifier_def)
    then show "frag (re_capture_count s) ?ys"
      using frag_greedy [OF xs, of lo hi] scan(2) len by simp
  qed
  then show "\<exists>ys. emitted s' = pre @ code ys \<and> sfrag (re_capture_count s) ys" using fin by blast
  show "emit_ok s'" using fin by simp
qed

lemma emit_quantifier_refragments:
  assumes "emit_quantifier s pos lcc quant_min quant_max greedy = Some (s', 0)"
  shows "refragments s s' pos"
proof -
  let ?atom = "drop pos (buf (byte_code s))" and ?len = "bsize s - pos"
  consider n where "re_is_simple_quantifier ?atom ?len = Some n" "0 < n"
      "emit_greedy s pos (of_int quant_min) (of_int quant_max) (of_int n) = Some (s', 0)"
    | b where "emit_loops s pos lcc quant_min quant_max greedy b = Some (s', 0)"
    using assms
    by (auto simp: emit_quantifier_def Let_def bind_eq_Some_conv re_parse_out_of_memory_def re_parse_error_def
        split: if_splits)
  then show ?thesis by cases (rule emit_greedy_refragments emit_loops_refragments; assumption)+
qed

section \<open>Steps that append fragments\<close>

definition names_kept :: "re_parse_state \<Rightarrow> re_parse_state \<Rightarrow> bool" where
  "names_kept s s' \<longleftrightarrow> (dbuf_ok (re_group_names s) \<longrightarrow> dbuf_ok (re_group_names s'))"

definition emits :: "re_parse_state \<Rightarrow> re_parse_state \<Rightarrow> bool" where
  "emits s s' \<longleftrightarrow> (failed s \<longrightarrow> failed s') \<and> re_capture_count s \<le> re_capture_count s' \<and> names_kept s s' \<and>
     (emit_ok s \<and> \<not> failed s' \<longrightarrow> emit_ok s' \<and>
        (\<exists>xs. emitted s' = emitted s @ code xs \<and> sfrag (re_capture_count s') xs))"

definition same_code :: "re_parse_state \<Rightarrow> re_parse_state \<Rightarrow> bool" where
  "same_code s s' \<longleftrightarrow> byte_code s' = byte_code s \<and> re_capture_count s' = re_capture_count s \<and> names_kept s s'"

lemma same_code_refl [simp]: "same_code s s"
  by (simp add: same_code_def names_kept_def)

lemma same_code_trans: "same_code s s1 \<Longrightarrow> same_code s1 s2 \<Longrightarrow> same_code s s2"
  by (simp add: same_code_def names_kept_def)

lemma same_code_update [simp]:
  "same_code s (s1\<lparr>buf_ptr := p\<rparr>) \<longleftrightarrow> same_code s s1" "same_code (s\<lparr>buf_ptr := p\<rparr>) s1 \<longleftrightarrow> same_code s s1"
  "same_code s (s1\<lparr>re_u := u\<rparr>) \<longleftrightarrow> same_code s s1" "same_code (s\<lparr>re_u := u\<rparr>) s1 \<longleftrightarrow> same_code s s1"
  "same_code s (s1\<lparr>re_clock := k\<rparr>) \<longleftrightarrow> same_code s s1" "same_code (s\<lparr>re_clock := k\<rparr>) s1 \<longleftrightarrow> same_code s s1"
  "same_code s (s1\<lparr>re_checks := k\<rparr>) \<longleftrightarrow> same_code s s1" "same_code (s\<lparr>re_checks := k\<rparr>) s1 \<longleftrightarrow> same_code s s1"
  "same_code s (s1\<lparr>re_has_named_captures := h\<rparr>) \<longleftrightarrow> same_code s s1"
  "same_code s (s1\<lparr>re_total_capture_count := n\<rparr>) \<longleftrightarrow> same_code s s1"
  by (simp_all add: same_code_def names_kept_def)

lemma same_code_steps [simp]:
  "same_code s (fst (re_parse_error s1 txt)) \<longleftrightarrow> same_code s s1" "same_code s (release s1 cr) \<longleftrightarrow> same_code s s1"
  "same_code s (clock_to s1 cr) \<longleftrightarrow> same_code s s1" "same_code s (out_of_memory s1) \<longleftrightarrow> same_code s s1"
  by (simp_all add: re_parse_error_def release_def clock_to_def out_of_memory_def re_parse_out_of_memory_def)

lemma emits_same: "same_code s s' \<Longrightarrow> emits s s'"
  by (auto simp: emits_def same_code_def names_kept_def emit_ok_def intro: exI [of _ "[]"])

lemma emits_refl: "emits s s"
  by (simp add: emits_same)

lemma emits_trans [trans]:
  assumes "emits s s1" "emits s1 s2"
  shows "emits s s2"
  unfolding emits_def
proof (intro conjI impI)
  assume h: "emit_ok s \<and> \<not> failed s2"
  then have nf: "\<not> failed s1" using assms(2) by (auto simp: emits_def)
  obtain xs where 1: "emit_ok s1" "re_capture_count s \<le> re_capture_count s1" "emitted s1 = emitted s @ code xs"
      "sfrag (re_capture_count s1) xs"
    using assms(1) h nf by (auto simp: emits_def)
  obtain ys where 2: "emit_ok s2" "re_capture_count s1 \<le> re_capture_count s2" "emitted s2 = emitted s1 @ code ys"
      "sfrag (re_capture_count s2) ys"
    using assms(2) h 1(1) by (auto simp: emits_def)
  show "emit_ok s2" using 2 by simp
  have "emitted s2 = emitted s @ code (xs @ ys)" using 1 2 by simp
  moreover have "sfrag (re_capture_count s2) (xs @ ys)" using sfrag_append [OF sfrag_mono [OF 1(4) 2(2)] 2(4)] .
  ultimately show "\<exists>xs. emitted s2 = emitted s @ code xs \<and> sfrag (re_capture_count s2) xs" by blast
qed (use assms in \<open>auto simp: emits_def names_kept_def\<close>)

lemma emits_appends:
  assumes "appends s s' (code xs)" "emit_ok s \<Longrightarrow> sfrag (re_capture_count s) xs"
  shows "emits s s'"
  unfolding emits_def
proof (intro conjI impI)
  assume h: "emit_ok s \<and> \<not> failed s'"
  have "emit_ok s' \<and> emitted s' = emitted s @ code xs"
    by (rule changesD [OF assms(1)]) (use h emit_ok_size [of s] in auto)
  then show "emit_ok s'" "\<exists>xs. emitted s' = emitted s @ code xs \<and> sfrag (re_capture_count s') xs"
    using assms h changes_count [OF assms(1)] by auto
qed (use assms(1) in \<open>auto simp: changes_def names_kept_def\<close>)

lemma emits_insn:
  "appends s s' i \<Longrightarrow> (emit_ok s \<Longrightarrow> insn (re_capture_count s) i) \<Longrightarrow> insn_op i \<in> set straight_ops \<Longrightarrow> emits s s'"
  using emits_appends [of s s' "[i]"] by (simp add: sfrag_single)

lemma emits_refragments:
  assumes "emits s0 s" "refragments s s' (bsize s0)"
  shows "emits s0 s'"
  unfolding emits_def
proof (intro conjI impI)
  assume h: "emit_ok s0 \<and> \<not> failed s'"
  then have nf: "\<not> failed s" using assms(2) by (auto simp: refragments_def sticky_def)
  obtain xs where 1: "emit_ok s" "re_capture_count s0 \<le> re_capture_count s" "emitted s = emitted s0 @ code xs"
      "sfrag (re_capture_count s) xs"
    using assms(1) h nf by (auto simp: emits_def)
  have "re_capture_count s' = re_capture_count s" using assms(2) by (simp add: refragments_def sticky_def)
  moreover have "emit_ok s' \<and> (\<exists>ys. emitted s' = emitted s0 @ code ys \<and> sfrag (re_capture_count s) ys)"
    using assms(2) h 1 emit_ok_size [of s0] by (auto simp: refragments_def)
  ultimately show "emit_ok s'" "\<exists>xs. emitted s' = emitted s0 @ code xs \<and> sfrag (re_capture_count s') xs"
    using 1 by auto
qed (use assms in \<open>auto simp: emits_def refragments_def sticky_def names_kept_def\<close>)

section \<open>Character ranges\<close>

fun range16_bytes :: "u32 list \<Rightarrow> bytes" where
  "range16_bytes (p # q # rest) =
     le16 (ucast p) @ le16 (ucast (if q - 1 = 0xffffffff - 1 then 0xffff else q - 1 :: u32)) @ range16_bytes rest"
| "range16_bytes _ = []"

fun range32_bytes :: "u32 list \<Rightarrow> bytes" where
  "range32_bytes (p # q # rest) = le32 p @ le32 (q - 1) @ range32_bytes rest"
| "range32_bytes _ = []"

lemma length_range16_bytes: "length (range16_bytes pts) = 4 * (length pts div 2)"
  by (induction pts rule: range16_bytes.induct) auto

lemma length_range32_bytes: "length (range32_bytes pts) = 8 * (length pts div 2)"
  by (induction pts rule: range32_bytes.induct) auto

lemma put_u16_appends: "appends s (s\<lparr>byte_code := fst (dbuf_put_u16 (byte_code s) v)\<rparr>) (le16 v)"
  unfolding dbuf_put_u16_def by (rule put_appends) simp

lemma put_u32_appends: "appends s (s\<lparr>byte_code := fst (dbuf_put_u32 (byte_code s) v)\<rparr>) (le32 v)"
  unfolding dbuf_put_u32_def by (rule put_appends) simp

lemma emit_range16_appends: "appends s (emit_range16 s pts) (range16_bytes pts)"
proof (induction s pts rule: emit_range16.induct)
  case (1 s p q rest)
  show ?case
    using appends_trans [OF appends_trans [OF put_u16_appends put_u16_appends] "1.IH" [OF refl refl refl refl]]
    by (simp add: Let_def)
qed (simp_all add: changes_refl)

lemma emit_range32_appends: "appends s (emit_range32 s pts) (range32_bytes pts)"
proof (induction s pts rule: emit_range32.induct)
  case (1 s p q rest)
  show ?case
    using appends_trans [OF appends_trans [OF put_u32_appends put_u32_appends] "1.IH" [OF refl refl]]
    by (simp add: Let_def)
qed (simp_all add: changes_refl)

lemma insn_range:
  assumes "0 < n" "n < 65536" "opc = REOP_range \<and> length xs = 4 * n \<or> opc = REOP_range32 \<and> length xs = 8 * n"
  shows "insn cc (reop_code opc # le16 (of_nat n) @ xs)"
proof -
  let ?i = "reop_code opc # le16 (of_nat n) @ xs"
  have op: "insn_op ?i = opc" "op_at ?i 0 = Some opc" by (simp_all add: op_at_def)
  have "code_at ?i 1 (le16 (of_nat n))" using code_at_middle [of "[reop_code opc]" "le16 (of_nat n)" xs] by simp
  from rd16_code [OF this] have rd: "rd16 ?i 1 = Some (ucast (of_nat n :: u16))" .
  have u: "unat (ucast (of_nat n :: u16) :: u32) = n"
    using assms(2) by (subst unat_ucast_small) (simp_all add: unat_of_nat take_bit_nat_eq_self)
  have nz: "(ucast (of_nat n :: u16) :: u32) \<noteq> 0" using u assms(1) by (metis unat_0 less_numeral_extra(3))
  show ?thesis using op rd u nz assms(3) by (auto simp: insn_def insn_len_def operand_at_def)
qed

lemma ucast_u16_of_nat: "ucast (of_nat n :: u32) = (of_nat n :: u16)"
  by transfer simp

lemma emit_range_insn:
  assumes "re_emit_range s cr = Some (s', 0)"
  shows "\<exists>i. appends s s' i \<and> insn cc i \<and> insn_op i \<in> set straight_ops"
proof -
  let ?len = "cr_len cr div 2" and ?pts = "take (cr_len cr) (points cr)"
  have small: "?len < 65535" using assms
    by (auto simp: re_emit_range_def re_parse_error_def Let_def split: if_splits)
  show ?thesis
  proof (cases "?len = 0")
    case True
    then have "s' = fst (re_emit_op_u32 s REOP_char32 (-1))" using assms small by (simp add: re_emit_range_def Let_def)
    then show ?thesis
      using emit_op_u32_appends [of s REOP_char32 "-1"] insn_bytes [of "le32 (-1)" REOP_char32 cc]
      by (auto simp: straight_ops_def)
  next
    case False
    then have pts: "length ?pts = cr_len cr"
      using assms small by (auto simp: re_emit_range_def Let_def split: if_splits)
    have n16: "ucast (of_nat ?len :: u32) = (of_nat ?len :: u16)" by (rule ucast_u16_of_nat)
    consider "s' = emit_range16 (re_emit_op_u16 s REOP_range (of_nat ?len)) ?pts"
      | "s' = emit_range32 (re_emit_op_u16 s REOP_range32 (of_nat ?len)) ?pts"
      using assms small False by (auto simp: re_emit_range_def Let_def split: if_splits)
    then show ?thesis
    proof cases
      case 1
      have "appends s s' (reop_code REOP_range # le16 (of_nat ?len) @ range16_bytes ?pts)"
        using appends_trans [OF emit_op_u16_appends [of s REOP_range "of_nat ?len"] emit_range16_appends [of _ ?pts]] by (simp add: 1 n16)
      moreover have "insn cc (reop_code REOP_range # le16 (of_nat ?len) @ range16_bytes ?pts)"
        by (rule insn_range) (use False small pts in \<open>simp_all add: length_range16_bytes\<close>)
      ultimately show ?thesis by (intro exI conjI) (auto simp: straight_ops_def)
    next
      case 2
      have "appends s s' (reop_code REOP_range32 # le16 (of_nat ?len) @ range32_bytes ?pts)"
        using appends_trans [OF emit_op_u16_appends [of s REOP_range32 "of_nat ?len"] emit_range32_appends [of _ ?pts]] by (simp add: 2 n16)
      moreover have "insn cc (reop_code REOP_range32 # le16 (of_nat ?len) @ range32_bytes ?pts)"
        by (rule insn_range) (use False small pts in \<open>simp_all add: length_range32_bytes\<close>)
      ultimately show ?thesis by (intro exI conjI) (auto simp: straight_ops_def)
    qed
  qed
qed

lemma emit_range_emits: "re_emit_range s cr = Some (s', 0) \<Longrightarrow> emits s s'"
  using emit_range_insn emits_insn by blast

end
