(* ===== verification/RegexpSound.thy ===== *)
theory RegexpSound
  imports RegexpTyped
begin

text \<open>
  Soundness of the compiler: every parsing function appends a fragment to the byte code, so that the result of
  \<^verbatim>\<open>lre_compile\<close> is well typed and \<^verbatim>\<open>lre_exec\<close> never takes an undefined step on it.
\<close>

section \<open>Functions that only read the pattern\<close>

definition keeps_code :: "re_parse_state \<Rightarrow> (re_parse_state \<times> 'a) option \<Rightarrow> bool" where
  "keeps_code s m \<longleftrightarrow> (\<forall>s' r. m = Some (s', r) \<longrightarrow> same_code s s')"

lemma keeps_code_simps [simp]: "keeps_code s None" "keeps_code s (Some (s', r)) \<longleftrightarrow> same_code s s'"
  by (simp_all add: keeps_code_def)

lemma keeps_code_bind: "(\<And>x. m = Some x \<Longrightarrow> keeps_code s (f x)) \<Longrightarrow> keeps_code s (Option.bind m f)"
  by (auto simp: keeps_code_def bind_eq_Some_conv)

lemma keeps_codeD: "keeps_code s m \<Longrightarrow> m = Some (s', r) \<Longrightarrow> same_code s s'"
  by (simp add: keeps_code_def)

lemma same_code_expect: "re_parse_expect s p c = Some (s', r) \<Longrightarrow> same_code s s'"
  by (auto simp: re_parse_expect_def bind_eq_Some_conv split: if_splits)

lemma same_code_property: "parse_unicode_property s p neg = Some (s', r) \<Longrightarrow> same_code s s'"
proof (rule keeps_codeD)
  show "keeps_code s (parse_unicode_property s p neg)"
    unfolding parse_unicode_property_def Let_def
    by (auto intro!: keeps_code_bind split: option.split prod.split)
qed

lemma same_code_normal_char: "atom_normal_char s p c = (s', r) \<Longrightarrow> same_code s s'"
  by (auto simp: atom_normal_char_def split: if_splits option.splits)

lemma same_code_init_range: "cr_init_char_range s e = (s', r) \<Longrightarrow> same_code s s'"
  by (auto simp: cr_init_char_range_def Let_def split: prod.splits if_splits)

lemma same_code_class_escape: "get_class_escape s p c inclass = Some (s', r) \<Longrightarrow> same_code s s'"
  by (auto simp: get_class_escape_def bind_eq_Some_conv Let_def
      dest: same_code_property same_code_normal_char same_code_init_range
      split: if_splits option.splits prod.splits)

lemma same_code_class_atom: "get_class_atom s p inclass = Some (s', r) \<Longrightarrow> same_code s s'"
  by (auto simp: get_class_atom_def bind_eq_Some_conv dest: same_code_class_escape same_code_normal_char split: if_splits)

lemma same_code_class_single: "class_single s cr c p cr1 = Some ((s', cr'), r) \<Longrightarrow> same_code s s'"
  by (auto simp: class_single_def class_add_def bind_eq_Some_conv
      intro: same_code_trans split: if_splits option.splits prod.splits)

lemma same_code_class_interval:
  assumes "class_interval s cr c p = Some ((s', cr'), r)"
  shows "same_code s s'"
proof -
  from assms obtain s1 a where "get_class_atom s (p + 1) True = Some (s1, a)"
    by (auto simp: class_interval_def bind_eq_Some_conv)
  moreover from this have "same_code s1 s'" using assms
    by (auto simp: class_interval_def intro: same_code_trans dest!: same_code_class_single
        split: if_splits option.splits prod.splits)
  ultimately show ?thesis using same_code_class_atom same_code_trans by blast
qed

lemma same_code_class_item:
  assumes "class_item s cr p = Some ((s', cr'), r)"
  shows "same_code s s'"
proof -
  from assms obtain s1 a where "get_class_atom s p True = Some (s1, a)"
    by (auto simp: class_item_def bind_eq_Some_conv)
  moreover from this have "same_code s1 s'" using assms
    by (auto simp: class_item_def bind_eq_Some_conv intro: same_code_trans
        dest!: same_code_class_single same_code_class_interval split: if_splits option.splits)
  ultimately show ?thesis using same_code_class_atom same_code_trans by blast
qed

lemma same_code_class_loop: "class_loop s cr n p = Some ((s', cr'), r) \<Longrightarrow> same_code s s'"
proof (induction s cr n p rule: class_loop.induct)
  case (1 s cr n p)
  show ?case
  proof (cases "\<exists>s1 cr1 q. class_item s cr p = Some ((s1, cr1), Some q) \<and> class_loop s1 cr1 n q = Some ((s', cr'), r)")
    case True
    then obtain s1 cr1 q where a: "class_item s cr p = Some ((s1, cr1), Some q)" "class_loop s1 cr1 n q = Some ((s', cr'), r)" by blast
    show ?thesis
    proof (cases "p > n \<or> src_at (re_src s) p = None \<or> src_at (re_src s) p = Some (asc CHR '']'')")
      case True
      then show ?thesis using "1.prems" by (subst (asm) class_loop.simps) (auto split: if_splits)
    next
      case False
      then obtain c where "src_at (re_src s) p = Some c" by auto
      then have "same_code s1 s'" using "1.IH" [of c "((s1, cr1), Some q)" "(s1, cr1)" "Some q" s1 cr1 q] False a by auto
      then show ?thesis using same_code_class_item [OF a(1)] same_code_trans by blast
    qed
  next
    case False
    then show ?thesis using "1.prems"
      by (subst (asm) class_loop.simps) (auto dest: same_code_class_item split: if_splits option.splits)
  qed
qed

lemma same_code_count: "re_count_captures s = Some (s', n) \<Longrightarrow> same_code s s'"
  by (auto simp: re_count_captures_def same_code_def names_kept_def bind_eq_Some_conv Let_def split: if_splits)

lemma same_code_named: "has_named_captures s = Some (s', b) \<Longrightarrow> same_code s s'"
  by (auto simp: has_named_captures_def bind_eq_Some_conv dest: same_code_count split: if_splits)

lemma same_code_fail: "fail s txt = Some (s', r) \<Longrightarrow> same_code s s'"
  by (auto simp: fail_def)

lemma same_code_braces: "parse_braces s p = Some (s', r) \<Longrightarrow> same_code s s'"
proof (rule keeps_codeD)
  show "keeps_code s (parse_braces s p)"
    unfolding parse_braces_def fail_def
    by (auto intro!: keeps_code_bind dest!: same_code_expect split: prod.split)
qed

lemma same_code_quantifier: "parse_quantifier s p = Some (s', r) \<Longrightarrow> same_code s s'"
  by (auto simp: parse_quantifier_def bind_eq_Some_conv dest: same_code_braces split: if_splits)

lemma same_code_size: "same_code s s' \<Longrightarrow> bsize s' = bsize s \<and> re_capture_count s' = re_capture_count s"
  by (simp add: same_code_def bsize_def)

section \<open>Atoms\<close>

text \<open>An atom that can be repeated starts where the code ended before.\<close>

definition atom_ok :: "re_parse_state \<Rightarrow> re_parse_state \<Rightarrow> atom_end \<Rightarrow> bool" where
  "atom_ok s s' a \<longleftrightarrow> emits s s' \<and> (case snd a of None \<Rightarrow> True | Some (pos, lcc) \<Rightarrow> pos = bsize s)"

lemma emit_straight:
  assumes "opc \<in> {REOP_prev, REOP_dot, REOP_any, REOP_line_start, REOP_line_end, REOP_word_boundary, REOP_not_word_boundary}"
  shows "emits s (re_emit_op s opc)"
  by (rule emits_insn [OF emit_op_appends insn_bytes]) (use assms in \<open>auto simp: straight_ops_def\<close>)

lemma emit_prev_emits: "emits s (emit_prev s d)"
  by (simp add: emit_prev_def emits_refl emit_straight)

lemma emit_char_emits: "emit_char s c = Some s' \<Longrightarrow> emits s s'"
proof -
  assume "emit_char s c = Some s'"
  then obtain v where "s' = re_emit_op_u16 s REOP_char v \<or> s' = fst (re_emit_op_u32 s REOP_char32 v)"
    by (auto simp: emit_char_def bind_eq_Some_conv split: if_splits)
  moreover have "emits s (re_emit_op_u16 s REOP_char v)"
    by (rule emits_insn [OF emit_op_u16_appends insn_bytes]) (auto simp: straight_ops_def)
  moreover have "emits s (fst (re_emit_op_u32 s REOP_char32 v))"
    by (rule emits_insn [OF emit_op_u32_appends insn_bytes]) (auto simp: straight_ops_def)
  ultimately show ?thesis by auto
qed

lemma emit_u8_emits:
  assumes "opc \<in> {REOP_back_reference, REOP_backward_back_reference, REOP_save_start, REOP_save_end}"
    "opc \<in> {REOP_save_start, REOP_save_end} \<Longrightarrow> emit_ok s \<Longrightarrow> unat (ucast v :: u8) < re_capture_count s"
  shows "emits s (re_emit_op_u8 s opc v)"
  by (rule emits_insn [OF emit_op_u8_appends insn_bytes]) (use assms in \<open>auto simp: straight_ops_def\<close>)

lemma normal_char_ok:
  assumes "normal_char s p c cr d = Some (s', Some a)"
  shows "atom_ok s s' a"
proof -
  let ?s = "emit_prev s d"
  from assms consider s1 where "emit_char ?s c = Some s1" "s' = emit_prev s1 d" "a = (p, Some (bsize s, re_capture_count s))"
    | cr1 s1 where "re_emit_range ?s cr1 = Some (s1, 0)" "s' = emit_prev (release s1 cr1) d"
        "a = (p, Some (bsize s, re_capture_count s))"
    by (auto simp: normal_char_def Let_def bind_eq_Some_conv split: if_splits option.splits)
  then show ?thesis
  proof cases
    case 1
    have "emits s ?s" by (rule emit_prev_emits)
    also have "emits ?s s1" by (rule emit_char_emits [OF 1(1)])
    also have "emits s1 s'" unfolding 1(2) by (rule emit_prev_emits)
    finally show ?thesis by (simp add: atom_ok_def 1)
  next
    case 2
    have "emits s ?s" by (rule emit_prev_emits)
    also have "emits ?s s1" by (rule emit_range_emits [OF 2(1)])
    also have "emits s1 (release s1 cr1)" by (rule emits_same) simp
    also have "emits (release s1 cr1) s'" unfolding 2(2) by (rule emit_prev_emits)
    finally show ?thesis by (simp add: atom_ok_def 2)
  qed
qed

lemma atom_ok_same: "same_code s s1 \<Longrightarrow> atom_ok s1 s' a \<Longrightarrow> atom_ok s s' a"
  using emits_trans [OF emits_same] same_code_size by (auto simp: atom_ok_def split: option.splits)

lemma parse_class_atom_ok: "parse_class_atom s p d = Some (s', Some a) \<Longrightarrow> atom_ok s s' a"
  by (auto simp: parse_class_atom_def bind_eq_Some_conv split: option.splits
      dest!: same_code_class_atom normal_char_ok intro: atom_ok_same)

lemma emit_back_reference_ok: "emit_back_reference s p c d = Some (s', Some a) \<Longrightarrow> atom_ok s s' a"
  by (cases d) (auto simp: emit_back_reference_def Let_def atom_ok_def intro!: emit_u8_emits)

lemma named_or_atom_ok: "named_or_atom s p txt d = Some (s', Some a) \<Longrightarrow> atom_ok s s' a"
  by (auto simp: named_or_atom_def fail_def bind_eq_Some_conv split: if_splits
      dest!: same_code_named parse_class_atom_ok intro: atom_ok_same)

lemma parse_named_reference_ok:
  assumes "parse_named_reference s p d = Some (s', Some a)"
  shows "atom_ok s s' a"
proof -
  from assms consider msg where "named_or_atom s p msg d = Some (s', Some a)"
    | name q c where "emit_back_reference (s\<lparr>re_u := name\<rparr>) q c d = Some (s', Some a)"
    | name msg where "named_or_atom (s\<lparr>re_u := name\<rparr>) p msg d = Some (s', Some a)"
    by (auto simp: parse_named_reference_def Let_def bind_eq_Some_conv split: if_splits option.splits)
  then show ?thesis
    by cases (auto dest!: named_or_atom_ok emit_back_reference_ok intro: atom_ok_same [of s "s\<lparr>re_u := _\<rparr>"])
qed

lemma parse_nul_escape_ok: "parse_nul_escape s p d = Some (s', Some a) \<Longrightarrow> atom_ok s s' a"
  by (auto simp: parse_nul_escape_def fail_def bind_eq_Some_conv split: if_splits dest: normal_char_ok)

lemma parse_numeric_reference_ok:
  assumes "parse_numeric_reference s p d = Some (s', Some a)"
  shows "atom_ok s s' a"
proof -
  from assms obtain s1 where "same_code s s1"
      and "(\<exists>q c. emit_back_reference s1 q c d = Some (s', Some a)) \<or> (\<exists>q c. normal_char s1 q c None d = Some (s', Some a))"
    by (auto simp: parse_numeric_reference_def fail_def bind_eq_Some_conv split: if_splits dest!: same_code_count)
      (metis same_code_refl)+
  then show ?thesis using emit_back_reference_ok normal_char_ok atom_ok_same by blast
qed

lemma parse_escape_atom_ok: "parse_escape_atom s p d = Some (s', Some a) \<Longrightarrow> atom_ok s s' a"
  by (auto simp: parse_escape_atom_def bind_eq_Some_conv split: if_splits
      dest: parse_named_reference_ok parse_nul_escape_ok parse_numeric_reference_ok parse_class_atom_ok)
    (simp_all add: atom_ok_def emit_straight)

lemma parse_open_brace_ok: "parse_open_brace s p d = Some (s', Some a) \<Longrightarrow> atom_ok s s' a"
  by (auto simp: parse_open_brace_def fail_def bind_eq_Some_conv split: if_splits dest: parse_class_atom_ok)

definition yields :: "re_parse_state \<Rightarrow> (re_parse_state \<times> 'a option) option \<Rightarrow> bool" where
  "yields s m \<longleftrightarrow> (\<forall>s' x. m = Some (s', Some x) \<longrightarrow> emits s s')"

lemma yields_simps [simp]: "yields s None" "yields s (Some (s', r)) \<longleftrightarrow> (r \<noteq> None \<longrightarrow> emits s s')"
  by (auto simp: yields_def)

lemma yields_bind: "(\<And>x. m = Some x \<Longrightarrow> yields s (f x)) \<Longrightarrow> yields s (Option.bind m f)"
  by (auto simp: yields_def bind_eq_Some_conv)

lemma release_emits: "emits s s1 \<Longrightarrow> emits s (release s1 cr)"
  using emits_trans [OF _ emits_same] by simp

lemma char_class_emits:
  assumes "re_parse_char_class s p = Some (s', Some q)"
  shows "emits s s'"
proof -
  have "emits s (release s2 cr2)"
    if "class_loop s cr n p1 = Some ((s1, cr1), r)" "re_emit_range s1 cr2 = Some (s2, 0)" for cr n p1 s1 cr1 r cr2 s2
    using emits_trans [OF emits_same [OF same_code_class_loop [OF that(1)]] emit_range_emits [OF that(2)]]
    by (rule release_emits)
  then have "yields s (re_parse_char_class s p)"
    unfolding re_parse_char_class_def Let_def
    by (auto intro!: yields_bind split: option.split prod.split)
  then show ?thesis using assms by (simp add: yields_def)
qed

lemma parse_atom_ok:
  assumes "parse_atom s p c d = Some (s', Some a)"
  shows "atom_ok s s' a"
proof -
  let ?lst = "Some (bsize s, re_capture_count s)"
  have dot: "emits s (emit_prev (re_emit_op (emit_prev s d) opc) d)" if "opc \<in> {REOP_dot, REOP_any}" for opc
    using emits_trans [OF emits_trans [OF emit_prev_emits emit_straight [of opc]] emit_prev_emits, of s d d] that by blast
  have cls: "emits s (emit_prev s1 d)" if "re_parse_char_class (emit_prev s d) p = Some (s1, Some q)" for s1 q
    using emits_trans [OF emits_trans [OF emit_prev_emits char_class_emits [OF that]] emit_prev_emits] .
  show ?thesis
    using assms dot cls
    by (auto simp: parse_atom_def Let_def fail_def bind_eq_Some_conv split: if_splits option.splits
        dest: parse_open_brace_ok parse_escape_atom_ok parse_class_atom_ok)
      (simp_all add: atom_ok_def emit_straight)
qed

lemma finish_term_emits:
  assumes "finish_term s p lst = Some (s', 0)" "emits s0 s" "case lst of None \<Rightarrow> True | Some (pos, lcc) \<Rightarrow> pos = bsize s0"
  shows "emits s0 s'"
proof (cases lst)
  case None
  then show ?thesis using assms emits_trans [OF assms(2) emits_same [of s s']] by (auto simp: finish_term_def)
next
  case (Some l)
  then obtain lcc where lst: "lst = Some (bsize s0, lcc)" using assms(3) by (cases l) auto
  with assms(1) obtain s1 q where q: "parse_quantifier s p = Some (s1, q)"
    by (auto simp: finish_term_def bind_eq_Some_conv)
  have 1: "emits s0 s1" using emits_trans [OF assms(2) emits_same [OF same_code_quantifier [OF q]]] .
  from assms(1) lst q consider "same_code s1 s'"
    | s2 lo hi lazy where "emit_quantifier s1 (bsize s0) lcc lo hi lazy = Some (s2, 0)" "same_code s2 s'"
    by (auto simp: finish_term_def bind_eq_Some_conv Let_def split: option.splits if_splits)
  then show ?thesis
  proof cases
    case 1
    then show ?thesis using emits_trans [OF \<open>emits s0 s1\<close> emits_same] by blast
  next
    case 2
    then show ?thesis using emits_trans [OF emits_refragments [OF 1 emit_quantifier_refragments] emits_same] by blast
  qed
qed

section \<open>Groups, terms, alternatives\<close>

lemma group_name_loop_length:
  "group_name_loop src n p u acc = Some (Some (name, q)) \<Longrightarrow> length acc \<le> n \<Longrightarrow> length name \<le> n"
proof (induction src n p u acc rule: group_name_loop.induct)
  case (1 src n p u acc)
  from "1.prems" obtain c where c: "src_at src p = Some c"
    by (subst (asm) group_name_loop.simps) (auto split: option.splits)
  show ?case
  proof (cases "c = asc CHR ''>''")
    case True
    then show ?thesis using "1.prems" c by (subst (asm) group_name_loop.simps) (auto split: if_splits)
  next
    case False
    obtain c' p' where g: "group_name_char src p u c = Some (Some (c', p'))" "\<not> c' > 0x10FFFF"
      using "1.prems" c False by (subst (asm) group_name_loop.simps) (auto split: option.splits if_splits)
    obtain ok where ok: "(if acc = [] then lre_js_is_ident_first c' else lre_js_is_ident_next c') = Some ok"
        "ok" "\<not> length acc + 6 + 1 > n"
      using "1.prems" c False g by (subst (asm) group_name_loop.simps) (auto split: option.splits if_splits)
    let ?acc = "acc @ (if c' < 128 then [ucast c'] else unicode_to_utf8 c')"
    have "group_name_loop src n p' u ?acc = Some (Some (name, q))"
      using "1.prems" c False g ok by (subst (asm) group_name_loop.simps) (simp split: if_splits)
    moreover have "length ?acc \<le> n" using ok(3) by (simp add: unicode_to_utf8_def)
    ultimately show ?thesis using "1.IH" [OF c False g(1) refl refl g(2) ok(1)] ok(2,3) by blast
  qed
qed

lemma group_name_length: "re_parse_group_name src n p u = Some (Some (name, q)) \<Longrightarrow> length name \<le> n"
  using group_name_loop_length by (fastforce simp: re_parse_group_name_def)

lemma names_put: "dbuf_ok d \<Longrightarrow> length xs \<le> PTRDIFF_MAX \<Longrightarrow> dbuf_ok (fst (dbuf_put d xs))"
  using dbuf_put_cases(1) by (metis prod.collapse)

lemma names_putc: "dbuf_ok d \<Longrightarrow> dbuf_ok (fst (dbuf_putc d c))"
  by (simp add: dbuf_putc_def names_put)

lemma names_put_name:
  assumes "re_parse_group_name src TMP_BUF_SIZE p u = Some (Some (name, q))" "dbuf_ok d"
  shows "dbuf_ok (fst (dbuf_put d (take k name @ [0])))"
  using group_name_length [OF assms(1)] assms(2) by (intro names_put) (simp_all add: min_def)

lemma names_put_group:
  "re_parse_group_name src TMP_BUF_SIZE p u = Some (Some (name, q)) \<Longrightarrow>
    dbuf_ok d \<longrightarrow> dbuf_ok (fst (dbuf_put d (take k name @ [0])))"
  by (blast intro: names_put_name)

lemma same_code_group_open: "parse_group_open s p = Some (s', Some g) \<Longrightarrow> same_code s s'"
  by (auto simp: parse_group_open_def fail_def bind_eq_Some_conv Let_def same_code_def names_kept_def names_putc
      split: if_splits option.splits) (erule (1) names_put_name)

lemma put_u32_le32 [simp]: "put_u32 (le32 u) 0 v = le32 v"
  by (simp add: put_u32_def blit_def)

lemma emit_op_u32_pos: "snd (re_emit_op_u32 s opc v) = bsize (re_emit_op s opc)"
  by (simp add: re_emit_op_u32_def Let_def bsize_def)

lemma lookaround_emits:
  assumes opc: "opc = REOP_lookahead \<or> opc = REOP_negative_lookahead"
    and run: "re_emit_op_u32 s opc 0 = (s1, pos)" "emits s1 s2"
      "poke_u32 (re_emit_op s2 REOP_match) pos (of_int (int (bsize (re_emit_op s2 REOP_match)) - int (pos + 4))) = Some s'"
  shows "emits s s'"
  unfolding emits_def
proof (intro conjI impI)
  let ?s3 = "re_emit_op s2 REOP_match"
  have a1: "appends s s1 (reop_code opc # le32 0)" using emit_op_u32_appends [of s opc 0] run(1) by simp
  have a3: "appends s2 ?s3 [reop_code REOP_match]" by (rule emit_op_appends)
  have st: "sticky ?s3 s'" using sticky_poke(2) [OF run(3)] .
  show "failed s \<Longrightarrow> failed s'"
    using a1 a3 st run(2) by (auto simp: changes_def emits_def sticky_def)
  show "re_capture_count s \<le> re_capture_count s'"
    using changes_count [OF a1] changes_count [OF a3] st run(2) by (simp add: emits_def sticky_def)
  show "names_kept s s'"
    using a1 a3 st run(2) by (simp add: changes_def emits_def sticky_def names_kept_def)
  assume h: "emit_ok s \<and> \<not> failed s'"
  then have nf: "\<not> failed ?s3" "\<not> failed s2" "\<not> failed s1"
    using a3 st run(2) by (auto simp: changes_def emits_def sticky_def)
  have nf0: "\<not> failed (re_emit_op s opc)"
    using nf(3) run(1) by (auto simp: re_emit_op_u32_def dbuf_put_u32_def Let_def dest: dbuf_put_error)
  have pos: "pos = bsize s + 1"
  proof -
    have "emit_ok (re_emit_op s opc) \<and> emitted (re_emit_op s opc) = emitted s @ [reop_code opc]"
      by (rule changesD [OF emit_op_appends]) (use h nf0 emit_ok_size [of s] in auto)
    then show ?thesis using emit_op_u32_pos [of s opc 0] run(1) emit_ok_size [of s] emit_ok_size [of "re_emit_op s opc"] h by simp
  qed
  have 1: "emit_ok s1 \<and> emitted s1 = emitted s @ reop_code opc # le32 0"
    by (rule changesD [OF a1]) (use h nf emit_ok_size [of s] in auto)
  then obtain xs where 2: "emit_ok s2" "emitted s2 = emitted s1 @ code xs" "sfrag (re_capture_count s2) xs"
    using run(2) nf by (auto simp: emits_def)
  have 3: "emit_ok ?s3 \<and> emitted ?s3 = emitted s2 @ [reop_code REOP_match]"
    by (rule changesD [OF a3]) (use 2 nf emit_ok_size [of s2] in auto)
  have v: "int (bsize ?s3) - int (pos + 4) = int (length (code xs)) + 1"
    using 1 2 3 h emit_ok_size [of ?s3] emit_ok_size [of s] by (simp add: pos)
  have "emit_ok s' \<and> emitted s' = emitted s @ [reop_code opc] @ put_u32 (le32 0) 0 (of_int (int (bsize ?s3) - int (pos + 4))) @
      (code xs @ [reop_code REOP_match])"
    by (rule changesD [OF poke_u32_changes [OF run(3), where pos = "bsize s"]])
      (use 1 2 3 h emit_ok_size [of s] in \<open>auto simp: pos\<close>)
  then have fin: "emit_ok s'" "emitted s' = emitted s @ code (jump_insn opc (int (length (code xs)) + 1) # xs @ [[reop_code REOP_match]])"
    unfolding v by (simp_all add: jump_insn_def)
  have "re_capture_count s' = re_capture_count s2" using changes_count [OF a3] st by (simp add: sticky_def)
  then have "sfrag (re_capture_count s') (jump_insn opc (int (length (code xs)) + 1) # xs @ [[reop_code REOP_match]])"
    using 2(3) frag_lookaround [OF _ opc, of "re_capture_count s2" xs] by (auto simp: sfrag_def near_def)
  then show "emit_ok s'" "\<exists>xs. emitted s' = emitted s @ code xs \<and> sfrag (re_capture_count s') xs"
    using fin by blast+
qed

lemma rotate_term_emits:
  assumes s1: "emits s0 s1" and s2: "emits s1 s2" and run: "rotate_term s2 (bsize s0) (bsize s1) = Some (s', 0)"
  shows "emits s0 s'"
  unfolding emits_def
proof (intro conjI impI)
  obtain d where d: "dbuf_realloc (byte_code s2) (bsize s2 + (bsize s2 - bsize s1)) = (d, 0)"
    and room: "bsize s2 + (bsize s2 - bsize s1) \<le> length (buf d)"
    and s': "s' = s2\<lparr>byte_code := d\<lparr>buf :=
      (let b = blit (buf d) (bsize s0 + (bsize s2 - bsize s1)) (take (bsize s2 - bsize s0) (drop (bsize s0) (buf d)))
       in blit b (bsize s0) (take (bsize s2 - bsize s1) (drop (bsize s2) b)))\<rparr>\<rparr>"
    using run by (auto simp: rotate_term_def Let_def split: prod.splits if_splits)
  have err: "failed s2 \<Longrightarrow> failed s'"
    using dbuf_realloc_error [of "byte_code s2"] d by (simp add: s') (metis fst_conv)
  show "failed s0 \<Longrightarrow> failed s'" "re_capture_count s0 \<le> re_capture_count s'" "names_kept s0 s'"
    using s1 s2 err by (auto simp: emits_def names_kept_def s')
  assume h: "emit_ok s0 \<and> \<not> failed s'"
  then have nf: "\<not> failed s2" "\<not> failed s1" using err s2 by (auto simp: emits_def)
  obtain xs where 1: "emit_ok s1" "emitted s1 = emitted s0 @ code xs" "sfrag (re_capture_count s1) xs"
    using s1 h nf by (auto simp: emits_def)
  obtain ys where 2: "emit_ok s2" "emitted s2 = emitted s1 @ code ys" "sfrag (re_capture_count s2) ys"
      "re_capture_count s1 \<le> re_capture_count s2"
    using s2 1 nf by (auto simp: emits_def)
  let ?x = "length (code xs)" and ?y = "length (code ys)" and ?n = "length (emitted s0)"
  have sz: "bsize s0 = ?n" "bsize s1 = ?n + ?x" "bsize s2 = ?n + ?x + ?y"
    using emit_ok_size [of s0] emit_ok_size [of s1] emit_ok_size [of s2] h 1 2 by simp_all
  have ok: "dbuf_ok (byte_code s2)" using 2(1) by (simp add: emit_ok_def)
  note R = dbuf_realloc_ok [OF ok d]
  define b where "b = buf d"
  have tk: "take (?n + ?x + ?y) b = emitted s0 @ code xs @ code ys"
    using R(3,4) sz(3) 1(2) 2(2) by (simp add: contents_def bsize_def b_def)
  have len: "?n + ?x + ?y + ?y \<le> length b" using room sz by (simp add: b_def)
  obtain z where z: "b = emitted s0 @ code xs @ code ys @ z"
    using tk append_take_drop_id [of "?n + ?x + ?y" b] by (metis append.assoc)
  have lz: "?y \<le> length z" using len by (simp add: z)
  have "emitted s' = take (?n + ?x + ?y) (let b' = blit b (?n + ?y) (code xs @ code ys) in blit b' ?n (take ?y (drop (?n + ?x + ?y) b')))"
    using R(3) sz by (simp add: s' contents_def bsize_def b_def [symmetric] z)
  also have "\<dots> = emitted s0 @ code ys @ code xs"
    using lz by (simp add: z blit_def)
  finally have e: "emitted s' = emitted s0 @ code (ys @ xs)" by simp
  have "sfrag (re_capture_count s2) (ys @ xs)" using sfrag_append [OF 2(3) sfrag_mono [OF 1(3) 2(4)]] .
  then show "\<exists>xs. emitted s' = emitted s0 @ code xs \<and> sfrag (re_capture_count s') xs"
    using e by (intro exI [of _ "ys @ xs"]) (simp add: s')
  have "length (let b' = blit b (?n + ?y) (take (?x + ?y) (drop ?n b)) in blit b' ?n (take ?y (drop (?n + ?x + ?y) b'))) = length b"
    using len by (simp add: Let_def)
  then show "emit_ok s'" using 2(1) R(1,5) by (simp add: s' emit_ok_def dbuf_ok_def b_def [symmetric] sz)
qed

lemma alternative_emits:
  assumes s: "emits s0 s" and run: "insert_code s (bsize s0) 5 = (s1, 0)"
      "poke s1 (bsize s0) (reop_code REOP_split_next_first) = Some s2"
      "poke_u32 s2 (bsize s0 + 1) (of_nat (bsize s - bsize s0 + 5)) = Some s3"
      "re_emit_op_u32 s3 REOP_goto 0 = (s4, pos)" "emits s4 s5"
      "poke_u32 s5 pos (of_int (int (bsize s5) - int (pos + 4))) = Some s'"
  shows "emits s0 s'"
  unfolding emits_def
proof (intro conjI impI)
  let ?g = "re_emit_op s3 REOP_goto"
  have sz_any: "\<exists>xs. length (code xs) = bsize s - bsize s0" using code_of_length .
  have main: "changes s s4 (bsize s0) (code xs)
      (jump_insn REOP_split_next_first (int (length (code xs)) + 5) @ code xs @ jump_insn REOP_goto 0)"
    and goto: "changes s ?g (bsize s0) (code xs)
      (jump_insn REOP_split_next_first (int (length (code xs)) + 5) @ code xs @ [reop_code REOP_goto])"
    if "length (code xs) = bsize s - bsize s0" for xs
  proof -
    let ?j = "jump_insn REOP_split_next_first (int (length (code xs)) + 5)"
    obtain h where h: "length h = 5" "changes s s1 (bsize s0) (code xs) (h @ code xs)"
      using insert_code_changes [OF run(1), of "bsize s0" "[]" "code xs"] by auto
    note h(2)
    also have "changes s1 s3 (bsize s0) (h @ code xs) (?j @ code xs)"
      using patch_jump [OF run(2,3), of "bsize s0" "[]" h "int (length (code xs)) + 5" "code xs"] h(1) that by simp
    finally have c: "changes s s3 (bsize s0) (code xs) (?j @ code xs)" .
    have "changes s3 s4 (bsize s0) (?j @ code xs) ((?j @ code xs) @ reop_code REOP_goto # le32 0)"
      by (rule appends_changes) (use emit_op_u32_appends [of s3 REOP_goto 0] run(4) in simp)
    with c show "changes s s4 (bsize s0) (code xs) (?j @ code xs @ jump_insn REOP_goto 0)"
      using changes_trans by (fastforce simp: jump_insn_def)
    show "changes s ?g (bsize s0) (code xs) (?j @ code xs @ [reop_code REOP_goto])"
      using changes_trans [OF c appends_changes [OF emit_op_appends]] by simp
  qed
  have st: "sticky s s4" "sticky s ?g" using main goto sz_any changes_sticky by blast+
  have st': "sticky s5 s'" using sticky_poke(2) [OF run(6)] .
  have g4: "failed ?g \<Longrightarrow> failed s4"
    using run(4) by (auto simp: re_emit_op_u32_def dbuf_put_u32_def Let_def dest: dbuf_put_error)
  show "failed s0 \<Longrightarrow> failed s'" "re_capture_count s0 \<le> re_capture_count s'"
    using s st(1) run(5) st' by (auto simp: emits_def sticky_def)
  show "names_kept s0 s'"
    using s st(1) run(5) st' by (simp add: emits_def sticky_def names_kept_def)
  assume h: "emit_ok s0 \<and> \<not> failed s'"
  then have nf: "\<not> failed s5" "\<not> failed s4" "\<not> failed ?g" "\<not> failed s"
    using st st' run(5) g4 by (auto simp: emits_def sticky_def)
  obtain xs where 1: "emit_ok s" "emitted s = emitted s0 @ code xs" "sfrag (re_capture_count s) xs"
    using s h nf by (auto simp: emits_def)
  let ?j = "jump_insn REOP_split_next_first (int (length (code xs)) + 5)" and ?n = "bsize s0"
  have len: "length (code xs) = bsize s - bsize s0" "?n = length (emitted s0)"
    using emit_ok_size [of s] emit_ok_size [of s0] 1 h by simp_all
  have 4: "emit_ok s4 \<and> emitted s4 = emitted s0 @ ?j @ code xs @ jump_insn REOP_goto 0"
    by (rule changesD [OF main [OF len(1)]]) (use 1 nf len in auto)
  have "emit_ok ?g \<and> emitted ?g = emitted s0 @ ?j @ code xs @ [reop_code REOP_goto]"
    by (rule changesD [OF goto [OF len(1)]]) (use 1 nf len in auto)
  then have pos: "pos = ?n + 5 + length (code xs) + 1"
    using emit_op_u32_pos [of s3 REOP_goto 0] run(4) emit_ok_size [of ?g] len(2) by simp
  obtain ys where 5: "emit_ok s5" "emitted s5 = emitted s4 @ code ys" "sfrag (re_capture_count s5) ys"
    using run(5) 4 nf by (auto simp: emits_def)
  have v: "int (bsize s5) - int (pos + 4) = int (length (code ys))"
    using 4 5 emit_ok_size [of s5] len(2) by (simp add: pos)
  have "emit_ok s' \<and> emitted s' = emitted s0 @ (?j @ code xs @ [reop_code REOP_goto]) @
      put_u32 (le32 0) 0 (of_int (int (bsize s5) - int (pos + 4))) @ code ys"
    by (rule changesD [OF poke_u32_changes [OF run(6), where pos = ?n]])
      (use 4 5 h len in \<open>auto simp: pos jump_insn_def\<close>)
  then have fin: "emit_ok s'" "emitted s' = emitted s0 @ code (?j # xs @ jump_insn REOP_goto (int (length (code ys))) # ys)"
    unfolding v by (simp_all add: jump_insn_def)
  have cc: "re_capture_count s' = re_capture_count s5" "re_capture_count s \<le> re_capture_count s5"
    using st(1) st' run(5) by (simp_all add: sticky_def emits_def)
  have "sfrag (re_capture_count s') (?j # xs @ jump_insn REOP_goto (int (length (code ys))) # ys)"
    using sfrag_mono [OF 1(3) cc(2)] 5(3) frag_alternative [of "re_capture_count s5" xs ys]
    by (auto simp: sfrag_def near_def cc(1))
  then show "emit_ok s'" "\<exists>xs. emitted s' = emitted s0 @ code xs \<and> sfrag (re_capture_count s') xs"
    using fin by blast+
qed

lemma capture_emits:
  assumes "re_capture_count s < CAPTURE_COUNT_MAX" "opc \<in> {REOP_save_start, REOP_save_end}" "opc' \<in> {REOP_save_start, REOP_save_end}"
    and body: "emits (re_emit_op_u8 (s\<lparr>re_capture_count := re_capture_count s + 1\<rparr>) opc (of_nat (re_capture_count s))) s1"
  shows "emits s (re_emit_op_u8 s1 opc' (of_nat (re_capture_count s)))"
proof -
  let ?s = "s\<lparr>re_capture_count := re_capture_count s + 1\<rparr>"
  let ?v = "of_nat (re_capture_count s) :: u32"
  have u: "unat (ucast ?v :: u8) = re_capture_count s"
    using assms(1) by (subst unat_ucast_small) (simp_all add: unat_of_nat take_bit_nat_eq_self)
  have "emits s ?s" using assms(1) by (auto simp: emits_def names_kept_def emit_ok_def intro: exI [of _ "[]"])
  also have *: "emits ?s (re_emit_op_u8 ?s opc ?v)" by (rule emit_u8_emits) (use assms(2) u in auto)
  also note body
  also have "re_capture_count ?s \<le> re_capture_count s1" using * body by (simp add: emits_def)
  then have "emits s1 (re_emit_op_u8 s1 opc' ?v)" by (intro emit_u8_emits) (use assms(3) u in auto)
  finally show ?thesis .
qed

text \<open>The five functions of the recursive parser, by induction on the fuel.\<close>

definition parser_ok :: "nat \<Rightarrow> bool" where
  "parser_ok fuel \<longleftrightarrow>
     (\<forall>s d s'. re_parse_term fuel s d = Some (s', 0) \<longrightarrow> emits s s') \<and>
     (\<forall>s p d s' a. re_parse_group fuel s p d = Some (s', Some a) \<longrightarrow> atom_ok s s' a) \<and>
     (\<forall>s0 s d s'. re_parse_alternative fuel s d (bsize s0) = Some (s', 0) \<longrightarrow> emits s0 s \<longrightarrow> emits s0 s') \<and>
     (\<forall>s d s'. re_parse_disjunction fuel s d = Some (s', 0) \<longrightarrow> emits s s') \<and>
     (\<forall>s0 s d s'. disjunction_loop fuel s d (bsize s0) = Some (s', 0) \<longrightarrow> emits s0 s \<longrightarrow> emits s0 s')"

lemma parser_okD:
  assumes "parser_ok fuel"
  shows "re_parse_term fuel s d = Some (s', 0) \<Longrightarrow> emits s s'"
    "re_parse_group fuel s p d = Some (s', Some a) \<Longrightarrow> atom_ok s s' a"
    "re_parse_alternative fuel s d (bsize s0) = Some (s', 0) \<Longrightarrow> emits s0 s \<Longrightarrow> emits s0 s'"
    "re_parse_disjunction fuel s d = Some (s', 0) \<Longrightarrow> emits s s'"
    "disjunction_loop fuel s d (bsize s0) = Some (s', 0) \<Longrightarrow> emits s0 s \<Longrightarrow> emits s0 s'"
  using assms unfolding parser_ok_def by blast+

lemma parse_term_step:
  assumes IH: "parser_ok fuel" and run: "re_parse_term (Suc fuel) s d = Some (s', 0)"
  shows "emits s s'"
proof -
  from run obtain c s1 p lst where a: "(if c = asc CHR ''('' then re_parse_group fuel s (buf_ptr s) d
        else parse_atom s (buf_ptr s) c d) = Some (s1, Some (p, lst))" "finish_term s1 p lst = Some (s', 0)"
    by (auto simp: bind_eq_Some_conv split: option.splits)
  have "atom_ok s s1 (p, lst)"
    using a(1) parser_okD(2) [OF IH] parse_atom_ok by (cases "c = asc CHR ''(''") simp_all
  then show ?thesis
    using finish_term_emits [OF a(2)] by (auto simp: atom_ok_def split: option.splits)
qed

lemma parse_group_step:
  assumes IH: "parser_ok fuel" and run: "re_parse_group (Suc fuel) s p d = Some (s', Some a)"
  shows "atom_ok s s' a"
proof -
  have dis: "emits t t'" if "re_parse_disjunction fuel (t\<lparr>buf_ptr := q\<rparr>) d' = Some (t', 0)" for t t' d' q
    using emits_trans [OF emits_same parser_okD(4) [OF IH that]] by simp
  from run obtain s1 k p1 where open_ok: "parse_group_open s p = Some (s1, Some (k, p1))"
    by (auto simp: bind_eq_Some_conv split: option.splits)
  have same: "same_code s s1" using same_code_group_open [OF open_ok] .
  show ?thesis
  proof (rule atom_ok_same [OF same], cases k)
    case Plain_group
    then obtain s2 q where b: "re_parse_disjunction fuel (s1\<lparr>buf_ptr := p1\<rparr>) d = Some (s2, 0)"
        "re_parse_expect s2 (buf_ptr s2) CHR '')'' = Some (s', Some q)" "a = (q, Some (bsize s1, re_capture_count s1))"
      using run open_ok by (auto simp: bind_eq_Some_conv Let_def split: if_splits option.splits)
    then show "atom_ok s1 s' a"
      using emits_trans [OF dis emits_same [OF same_code_expect]] by (auto simp: atom_ok_def)
  next
    case (Lookaround neg behind)
    let ?opc = "if neg then REOP_negative_lookahead else REOP_lookahead"
    obtain s2 pos s3 s4 q where b: "re_emit_op_u32 s1 ?opc 0 = (s2, pos)"
        "re_parse_disjunction fuel (s2\<lparr>buf_ptr := p1\<rparr>) behind = Some (s3, 0)"
        "re_parse_expect s3 (buf_ptr s3) CHR '')'' = Some (s4, Some q)"
        "poke_u32 (re_emit_op s4 REOP_match) pos
           (of_int (int (bsize (re_emit_op s4 REOP_match)) - int (pos + 4))) = Some s'"
        "snd a = None \<or> snd a = Some (bsize s1, re_capture_count s1)"
      using run open_ok Lookaround
      by (auto simp: bind_eq_Some_conv Let_def simp del: of_int_diff of_nat_add split: if_splits option.splits prod.splits)
    have "emits s2 s4" using emits_trans [OF dis [OF b(2)] emits_same [OF same_code_expect [OF b(3)]]] .
    then have "emits s1 s'" using lookaround_emits [OF _ b(1) _ b(4)] by auto
    then show "atom_ok s1 s' a" using b(5) by (auto simp: atom_ok_def)
  next
    case Capture_group
    let ?i = "re_capture_count s1" and ?o = "if d then REOP_save_end else REOP_save_start"
      and ?o' = "if d then REOP_save_start else REOP_save_end"
    obtain s3 q where b: "?i < CAPTURE_COUNT_MAX"
        "re_parse_disjunction fuel (re_emit_op_u8 (s1\<lparr>re_capture_count := ?i + 1\<rparr>) ?o (of_nat ?i)\<lparr>buf_ptr := p1\<rparr>) d = Some (s3, 0)"
        "re_parse_expect (re_emit_op_u8 s3 ?o' (of_nat ?i)) (buf_ptr s3) CHR '')'' = Some (s', Some q)"
        "a = (q, Some (bsize s1, ?i))"
      using run open_ok Capture_group
      by (auto simp: fail_def bind_eq_Some_conv Let_def not_le split: if_splits option.splits)
    have "emits s1 (re_emit_op_u8 s3 ?o' (of_nat ?i))"
      by (rule capture_emits [OF b(1) _ _ dis [OF b(2)]]) auto
    from emits_trans [OF this emits_same [OF same_code_expect [OF b(3)]]]
    show "atom_ok s1 s' a" by (simp add: atom_ok_def b(4))
  qed
qed

lemma parse_alternative_step:
  assumes IH: "parser_ok fuel" and run: "re_parse_alternative (Suc fuel) s d (bsize s0) = Some (s', 0)" and s: "emits s0 s"
  shows "emits s0 s'"
proof -
  from run consider "s' = s"
    | s1 s2 where "re_parse_term fuel s d = Some (s1, 0)"
        "(if d then rotate_term s1 (bsize s0) (bsize s) else Some (s1, 0)) = Some (s2, 0)"
        "re_parse_alternative fuel s2 d (bsize s0) = Some (s', 0)"
    by (cases d) (auto simp: bind_eq_Some_conv Let_def split: if_splits)
  then show ?thesis
  proof cases
    case 2
    have 1: "emits s s1" using parser_okD(1) [OF IH 2(1)] .
    have "emits s0 s2"
    proof (cases d)
      case True
      then have "rotate_term s1 (bsize s0) (bsize s) = Some (s2, 0)" using 2(2) by simp
      then show ?thesis by (rule rotate_term_emits [OF s 1])
    next
      case False
      then show ?thesis using 2(2) emits_trans [OF s 1] by simp
    qed
    then show ?thesis using parser_okD(3) [OF IH 2(3)] by simp
  qed (use s in simp)
qed

lemma parse_disjunction_step:
  assumes IH: "parser_ok fuel" and run: "re_parse_disjunction (Suc fuel) s d = Some (s', 0)"
  shows "emits s s'"
proof -
  let ?s = "s\<lparr>re_checks := re_checks s + 1\<rparr>"
  from run obtain s1 where 1: "re_parse_alternative fuel ?s d (bsize ?s) = Some (s1, 0)"
      "disjunction_loop fuel s1 d (bsize ?s) = Some (s', 0)"
    by (auto simp: bind_eq_Some_conv Let_def re_parse_error_def split: if_splits)
  have "emits ?s s'" using parser_okD(5) [OF IH 1(2)] parser_okD(3) [OF IH 1(1) emits_refl] .
  then show ?thesis using emits_trans [OF emits_same [of s ?s]] by simp
qed

lemma disjunction_loop_step:
  assumes IH: "parser_ok fuel" and run: "disjunction_loop (Suc fuel) s d (bsize s0) = Some (s', 0)" and s: "emits s0 s"
  shows "emits s0 s'"
proof -
  let ?s = "s\<lparr>buf_ptr := buf_ptr s + 1\<rparr>"
  let ?i = "insert_code ?s (bsize s0) 5" and ?g = "\<lambda>s3. re_emit_op_u32 s3 REOP_goto 0"
  from run consider "s' = s"
    | s2 s3 s5 s6 where "snd ?i = 0" "poke (fst ?i) (bsize s0) (reop_code REOP_split_next_first) = Some s2"
        "poke_u32 s2 (bsize s0 + 1) (of_nat (bsize ?s - bsize s0 + 5)) = Some s3"
        "re_parse_alternative fuel (fst (?g s3)) d (bsize (fst (?g s3))) = Some (s5, 0)"
        "poke_u32 s5 (snd (?g s3)) (of_int (int (bsize s5) - int (snd (?g s3) + 4))) = Some s6"
        "disjunction_loop fuel s6 d (bsize s0) = Some (s', 0)"
    by (auto simp: bind_eq_Some_conv Let_def case_prod_beta simp del: of_int_diff of_nat_add split: if_splits)
  then show ?thesis
  proof cases
    case 2
    have i: "?i = (fst ?i, 0)" and g: "?g s3 = (fst (?g s3), snd (?g s3))" using 2(1) by (simp_all add: prod_eq_iff)
    have "emits (fst (?g s3)) s5" using parser_okD(3) [OF IH 2(4) emits_refl] .
    moreover have "emits s0 ?s" using emits_trans [OF s emits_same] by simp
    ultimately have "emits s0 s6" using alternative_emits [OF _ i 2(2,3) g _ 2(5)] by blast
    then show ?thesis using parser_okD(5) [OF IH 2(6)] by simp
  qed (use s in simp)
qed

lemma parser_ok: "parser_ok fuel"
proof (induction fuel)
  case 0
  show ?case by (simp add: parser_ok_def)
next
  case (Suc fuel)
  show ?case
    unfolding parser_ok_def
    using parse_term_step [OF Suc] parse_group_step [OF Suc] parse_alternative_step [OF Suc]
      parse_disjunction_step [OF Suc] disjunction_loop_step [OF Suc] by blast
qed

section \<open>The compiler\<close>

lemma initial_emit_ok:
  "realloc_contract host_bc \<Longrightarrow>
   emit_ok (initial_state src re_flags host_bc host_names host_cr overflow) \<and>
   emitted (initial_state src re_flags host_bc host_names host_cr overflow) = []"
  by (simp add: initial_state_def emit_ok_def) (simp add: dbuf_init2_def)

lemma emit_header_appends: "appends s (emit_header s re_flags) (ucast re_flags # 0 # 0 # le32 0)"
  unfolding emit_header_def Let_def dbuf_putc_def
  using appends_trans [OF appends_trans [OF appends_trans [OF put_appends [of "[ucast re_flags]" s] put_appends [of "[0]"]]
      put_appends [of "[0]"]] put_u32_appends [of _ 0]]
  by simp

lemma emit_prefix_emits: "emits (emit_header s re_flags) (emit_prefix s re_flags)"
proof -
  let ?s = "emit_header s re_flags"
  define s1 where "s1 = (if re_flags AND 32 = 0 then
                 fst (re_emit_op_u32 (re_emit_op (fst (re_emit_op_u32 ?s REOP_split_goto_first (1 + 5))) REOP_any)
                   REOP_goto (- (5 + 1 + 5)))
               else ?s)"
  have a: "appends ?s s1 (code (star_insns False False [[reop_code REOP_any]]))" if "re_flags AND 32 = 0"
    using appends_trans [OF appends_trans [OF emit_op_u32_appends [of ?s REOP_split_goto_first "1 + 5"]
        emit_op_appends [of _ REOP_any]] emit_op_u32_appends [of _ REOP_goto "- (5 + 1 + 5)"]] that
    by (simp add: s1_def star_insns_def jump_insn_def split_op_def)
  have any: "sfrag cc [[reop_code REOP_any]]" for cc
    by (rule sfrag_single [OF insn_bytes]) (auto simp: straight_ops_def)
  have "emits ?s s1"
    using emits_appends [OF a sfrag_star [OF any]] by (cases "re_flags AND 32 = 0") (auto simp: s1_def emits_refl)
  also have "emits s1 (re_emit_op_u8 s1 REOP_save_start 0)"
    by (rule emit_u8_emits) (auto simp: emit_ok_def)
  finally show ?thesis unfolding emit_prefix_def s1_def Let_def .
qed

end
