(* ===== verification/RegexpCompiled.thy ===== *)
theory RegexpCompiled
  imports RegexpSound
begin

text \<open>
  What \<^verbatim>\<open>lre_compile\<close> returns: a header, well-typed code, a final \<^verbatim>\<open>match\<close> and the group names, with the capture
  count and the stack size of the header large enough for the code. \<^verbatim>\<open>lre_exec\<close> on it never leaves its blocks.
\<close>

section \<open>Complete byte code\<close>

definition compiled :: "bytes \<Rightarrow> bytes list \<Rightarrow> bool" where
  "compiled bc xs \<longleftrightarrow> (\<exists>h rest. bc = h @ code xs @ [reop_code REOP_match] @ rest \<and> length h = RE_HEADER_LEN) \<and>
     frag (unat (bc ! RE_HEADER_CAPTURE_COUNT)) xs \<and>
     (\<forall>p d. lin xs 0 p d \<longrightarrow> d \<le> unat (bc ! RE_HEADER_STACK_SIZE))"

definition code_typing :: "bytes list \<Rightarrow> typing" where
  "code_typing xs p d \<longleftrightarrow> RE_HEADER_LEN \<le> p \<and> lin xs 0 (p - RE_HEADER_LEN) d"

lemma compiled_well_typed:
  assumes "compiled bc xs" "bc_buf s = bc" "capture_count s = unat (bc ! RE_HEADER_CAPTURE_COUNT)"
    "stack_size_max s = unat (bc ! RE_HEADER_STACK_SIZE)"
  shows "well_typed s (code_typing xs)"
  unfolding well_typed_def
proof (intro allI impI)
  let ?D = "code_typing xs"
  fix pc d assume "?D pc d"
  then obtain p where p: "pc = 7 + p" "lin xs 0 p d" by (auto simp: code_typing_def dest!: le_Suc_ex)
  obtain h rest where h: "bc = h @ code xs @ [reop_code REOP_match] @ rest" "length h = 7"
    using assms(1) by (auto simp: compiled_def)
  have at: "code_at bc 7 (code xs)" "code_at bc (7 + length (code xs)) [reop_code REOP_match]"
    using code_at_middle [of h "code xs"] code_at_middle [of "h @ code xs" "[reop_code REOP_match]" rest] h by simp_all
  have f: "frag (capture_count s) xs" and d: "d \<le> stack_size_max s"
    using assms p(2) by (auto simp: compiled_def)
  have "placed (capture_count s) xs s ?D 7 0"
    using at(1) assms by (auto simp: placed_def code_typing_def compiled_def)
  from frag_typed [OF f this] have t: "typed_at s ?D pc d" if "p < length (code xs)"
    using that p by (simp add: typed_code_def)
  show "typed_at s ?D pc d"
  proof (cases "p < length (code xs)")
    case False
    then have "p = length (code xs)" using lin_le [OF p(2)] by simp
    then show ?thesis using stack_op_typed(4) [of s pc d ?D] at(2) d p(1) assms(2) by simp
  qed (use t in blast)
qed

section \<open>The end of the compilation\<close>

lemma poke_same:
  "poke s p v = Some s' \<Longrightarrow> failed s' = failed s \<and> re_group_names s' = re_group_names s \<and> re_capture_count s' = re_capture_count s"
  "poke_u32 s p w = Some s' \<Longrightarrow> failed s' = failed s \<and> re_group_names s' = re_group_names s \<and> re_capture_count s' = re_capture_count s"
  by (auto simp: poke_def poke_u32_def split: if_splits)

lemma emitted_poke: "poke s p v = Some s' \<Longrightarrow> emitted s' = (emitted s)[p := v]"
  by (auto simp: poke_def contents_def take_update_swap split: if_splits)

lemma header_filled:
  assumes h: "length h = 7" and s: "emit_ok s" "\<not> failed s" "emitted s = h @ c"
    and run: "poke s 1 u = Some s1" "poke s1 2 v = Some s2" "poke_u32 s2 3 w = Some s3"
  shows "emit_ok s3 \<and> emitted s3 = put_u32 (h[1 := u, 2 := v]) 3 w @ c"
proof -
  have 1: "changes s s1 0 (h @ c) (h[1 := u] @ c)" using poke_changes [OF run(1), of 0 "[]" 1 h c] h by simp
  have 2: "changes s1 s2 0 (h[1 := u] @ c) (h[1 := u, 2 := v] @ c)"
    using poke_changes [OF run(2), of 0 "[]" 2 "h[1 := u]" c] h by simp
  have 3: "changes s2 s3 0 (h[1 := u, 2 := v] @ c) (put_u32 (h[1 := u, 2 := v]) 3 w @ c)"
    using poke_u32_changes [OF run(3), of 0 "[]" 3 "h[1 := u, 2 := v]" c] h by simp
  have "\<not> failed s3" using s(2) poke_same run by simp
  then show ?thesis using changesD [OF changes_trans [OF changes_trans [OF 1 2] 3], of "[]"] s by simp
qed

lemma header_bytes:
  "length h = 7 \<Longrightarrow> put_u32 (h[1 := u, 2 := v]) 3 w ! 1 = u \<and> put_u32 (h[1 := u, 2 := v]) 3 w ! 2 = v"
  by (simp add: put_u32_def nth_blit)

lemma stack_bound:
  assumes "frag cc xs" "length h = 7" "take n b = h @ code xs @ [reop_code REOP_match]" "n = length (h @ code xs @ [reop_code REOP_match])"
    "compute_stack_size b n = Some r" "0 \<le> r"
  shows "r \<le> 255" "lin xs 0 p d \<Longrightarrow> int d \<le> r"
proof -
  let ?ys = "xs @ [[reop_code REOP_match]]"
  have m: "insn cc [reop_code REOP_match]" by (rule insn_bytes) auto
  have b: "b = h @ code ?ys @ drop n b" using assms(3) append_take_drop_id [of n b] by simp
  have at: "code_at (drop 7 b) 0 (code ?ys)"
    using code_at_middle [of "[]" "code ?ys" "drop n b"] assms(2) arg_cong [OF b, of "drop 7"] by simp
  have "stack_loop (drop 7 b) (0 + length (code ?ys)) 0 0 0 = Some r"
    using assms(2,4,5) by (simp add: compute_stack_size_def)
  from stack_loop_code [OF _ at _ _ this assms(6), of cc]
  have S: "r \<le> int STACK_SIZE_MAX \<and> (\<forall>p d. lin ?ys 0 p d \<longrightarrow> int d \<le> r)"
    using frag_insns [OF assms(1)] m by auto
  show "r \<le> 255" using S by simp
  show "int d \<le> r" if "lin xs 0 p d" using S that lin_append [OF frag_run [OF assms(1)]] by blast
qed

lemma names_appended:
  assumes "dbuf_ok (byte_code s)" "dbuf_ok d"
  shows "\<exists>rest. contents (fst (dbuf_put (byte_code s) (contents d))) = emitted s @ rest"
proof -
  have "length (contents d) \<le> PTRDIFF_MAX" using assms(2) by (simp add: dbuf_ok_def contents_def)
  moreover obtain t r where t: "dbuf_put (byte_code s) (contents d) = (t, r)" by (metis surj_pair)
  ultimately have "contents t = emitted s @ contents d \<or> contents t = emitted s @ []"
    using dbuf_put_cases(3,4) [OF assms(1) _ t] by (cases "r = 0") auto
  then show ?thesis unfolding t fst_conv by blast
qed

lemma finish_compile_compiled:
  assumes fin: "finish_compile s = Some (Inr bc)" and em: "emits s0 s"
    and s0: "\<not> failed s0 \<Longrightarrow> emit_ok s0 \<and> length (emitted s0) = 7"
    and names: "dbuf_ok (re_group_names s)" and len: "length bc < 2 ^ 31"
  obtains xs where "compiled bc xs"
proof -
  let ?s1 = "re_emit_op_u8 s REOP_save_end 0" and ?s2 = "re_emit_op (re_emit_op_u8 s REOP_save_end 0) REOP_match"
  note steps = fin [unfolded finish_compile_def Let_def]
  obtain n s3 s4 s5 s6 where nf: "\<not> failed ?s2"
    and n: "compute_stack_size (buf (byte_code ?s2)) (bsize ?s2) = Some n" "0 \<le> n"
    and run: "poke ?s2 1 (of_nat (re_capture_count ?s2)) = Some s3" "poke s3 2 (of_int n) = Some s4"
      "poke_u32 s4 3 (of_nat (bsize s4 - RE_HEADER_LEN)) = Some s5"
    and s6: "s6 = s5 \<or> poke (s5\<lparr>byte_code := fst (dbuf_put (byte_code s5) (contents (re_group_names s5)))\<rparr>) 0
        (buf (byte_code s5) ! 0 OR LRE_FLAG_NAMED_GROUPS) = Some s6"
    and bc: "bc = emitted s6"
    using steps by (simp add: bind_eq_Some_conv dbuf_error_def not_less split: if_splits) blast+
  have a1: "appends s ?s1 [reop_code REOP_save_end, 0]" and a2: "appends ?s1 ?s2 [reop_code REOP_match]"
    using emit_op_u8_appends [of s REOP_save_end 0] emit_op_appends by simp_all
  have nf1: "\<not> failed ?s1" using changes_failed [OF a2] nf by blast
  have e1: "emits s0 ?s1" by (rule emits_trans [OF em emit_u8_emits]) (auto simp: emit_ok_def)
  then have s0: "emit_ok s0" "length (emitted s0) = 7" using nf1 s0 by (auto simp: emits_def)
  obtain xs where 1: "emit_ok ?s1" "emitted ?s1 = emitted s0 @ code xs" "sfrag (re_capture_count ?s1) xs"
    using e1 s0 nf1 by (auto simp: emits_def)
  have 2: "emit_ok ?s2 \<and> emitted ?s2 = emitted ?s1 @ [reop_code REOP_match]"
    by (rule changesD [OF a2 1(1) nf]) (use emit_ok_size [OF 1(1)] in auto)
  let ?cc = "re_capture_count ?s2" and ?c = "code xs @ [reop_code REOP_match]"
  have cc: "?cc = re_capture_count ?s1" "?cc \<le> 255" using changes_count [OF a2] 2 by (simp_all add: emit_ok_def)
  define h where "h = put_u32 ((emitted s0)[1 := of_nat ?cc, 2 := of_int n]) 3 (of_nat (bsize s4 - RE_HEADER_LEN))"
  have 5: "emit_ok s5 \<and> emitted s5 = h @ ?c"
    unfolding h_def by (rule header_filled [OF s0(2) _ nf _ run]) (use 1 2 in auto)
  have names5: "dbuf_ok (re_group_names s5)"
    using names a1 a2 poke_same run by (simp add: changes_def)
  have h: "length h = 7" "h ! 1 = of_nat ?cc" "h ! 2 = of_int n"
    unfolding h_def using header_bytes [OF s0(2)] s0(2) by (simp_all add: length_put_u32)
  obtain h' rest where bc': "bc = h' @ ?c @ rest" "length h' = 7" "h' ! 1 = h ! 1" "h' ! 2 = h ! 2"
  proof -
    obtain rest where r: "contents (fst (dbuf_put (byte_code s5) (contents (re_group_names s5)))) = emitted s5 @ rest"
      using names_appended [OF _ names5, of s5] 5 unfolding emit_ok_def by blast
    show thesis
      using s6
    proof
      assume "s6 = s5"
      then show thesis using that [of h "[]"] bc 5 h(1) by simp
    next
      assume "poke (s5\<lparr>byte_code := fst (dbuf_put (byte_code s5) (contents (re_group_names s5)))\<rparr>) 0
        (buf (byte_code s5) ! 0 OR LRE_FLAG_NAMED_GROUPS) = Some s6"
      from emitted_poke [OF this] show thesis
        using that [of "h[0 := buf (byte_code s5) ! 0 OR LRE_FLAG_NAMED_GROUPS]" rest] bc 5 h(1) r
        by (simp add: list_update_append1)
    qed
  qed
  have "length (code xs) < 2 ^ 31" using len bc'(1,2) by simp
  then have f: "frag ?cc xs" using 1(3) cc(1) by (simp add: sfrag_def)
  have n2: "bsize ?s2 = length (emitted s0 @ ?c)" using emit_ok_size [of ?s2] 1(2) 2 by simp
  have "take (bsize ?s2) (buf (byte_code ?s2)) = emitted s0 @ ?c" using 1(2) 2 by (simp add: contents_def bsize_def)
  note S = stack_bound [OF f s0(2) this n2 n]
  have hd: "bc ! 1 = of_nat ?cc" "bc ! 2 = of_int n" using bc' h by (simp_all add: nth_append)
  have "unat (bc ! 1) = ?cc" using hd(1) unat_of_nat_u8 [OF cc(2)] by simp
  moreover have "unat (bc ! 2) = nat n" using hd(2) S(1) n(2) unat_of_nat_u8 [of "nat n"] by simp
  moreover have "d \<le> nat n" if "lin xs 0 p d" for p d using S(2) [OF that] by linarith
  ultimately have "compiled bc xs" using f bc'(1,2) by (auto simp: compiled_def)
  then show thesis by (rule that)
qed

lemma lre_compile_compiled:
  assumes run: "lre_compile fuel src re_flags host_bc host_names host_cr overflow = Some (Inr bc)"
    and host: "realloc_contract host_bc" "realloc_contract host_names" and len: "length bc < 2 ^ 31"
  obtains xs where "compiled bc xs"
proof -
  let ?i = "initial_state src re_flags host_bc host_names host_cr overflow"
  let ?h = "emit_header ?i re_flags"
  obtain s where s: "re_parse_disjunction fuel (emit_prefix ?i re_flags) False = Some (s, 0)" "finish_compile s = Some (Inr bc)"
    using run by (auto simp: lre_compile_def bind_eq_Some_conv split: if_splits)
  have em: "emits ?h s" using emits_trans [OF emit_prefix_emits parser_okD(4) [OF parser_ok s(1)]] .
  have i: "emit_ok ?i \<and> emitted ?i = []" by (rule initial_emit_ok [OF host(1)])
  have h: "emit_ok ?h \<and> length (emitted ?h) = 7" if "\<not> failed ?h"
    using changesD [OF emit_header_appends [of ?i re_flags], of "[]"] i that emit_ok_size [of ?i] by simp
  have "dbuf_ok (re_group_names ?i)" using host(2) by (simp add: initial_state_def)
  then have "dbuf_ok (re_group_names s)"
    using em emit_header_appends [of ?i re_flags] by (simp add: emits_def names_kept_def changes_def)
  from finish_compile_compiled [OF s(2) em h this len] show thesis using that by blast
qed

section \<open>Running it\<close>

text \<open>The result of a run that did not leave its memory: an answer, and captures inside the subject.\<close>

definition safe_result :: "nat \<Rightarrow> nat \<Rightarrow> re_outcome \<Rightarrow> bool" where
  "safe_result n cend r = (case r of RE_timeout \<Rightarrow> True | RE_undef \<Rightarrow> False
     | RE_ret m v \<Rightarrow> v \<in> {RE_int (-1), RE_int 0, RE_int 1} \<and>
         list_all (\<lambda>c. case c of None \<Rightarrow> True | Some p \<Rightarrow> p \<le> cend) (take n (capture m)))"

lemma outcome_safe: "outcome_ok s D r \<Longrightarrow> safe_result (2 * capture_count s) (cbuf_end s) r"
  by (cases r) (auto simp: safe_result_def memory_ok_def capture_ok_def position_ok_def at_char_def list_all_length
      split: option.splits)

lemma compiled_run_safe:
  assumes bc: "compiled bc xs" and rf: "realloc_contract rf"
    and input: "type \<le> 1" "clen * 2 ^ type \<le> length subject" "clen * 2 ^ type < 2 ^ 31" "cindex \<le> clen"
    and cap: "2 * lre_get_capture_count bc \<le> length cap"
  shows "safe_result (2 * lre_get_capture_count bc) (clen * 2 ^ type)
    (lre_exec fuel cap garbage bc subject cindex clen type addr rf)"
proof -
  let ?s = "exec_context bc subject clen type addr rf"
  let ?m = "\<lparr>capture = clear_captures (2 * capture_count ?s) cap, re_stack = map garbage [0 ..< stack_size_max ?s],
      state_stack = [], state_stack_size = 0, state_stack_len = 0, re_requests = 0\<rparr>"
  let ?r = "\<lparr>re_pc = RE_HEADER_LEN, re_cptr = cindex * 2 ^ type, re_stack_len = 0\<rparr>"
  let ?D = "code_typing xs"
  have s: "bc_buf ?s = bc" "capture_count ?s = unat (bc ! 1)" "stack_size_max ?s = unat (bc ! 2)"
      "cbuf_end ?s = clen * 2 ^ type" "capture_count ?s = lre_get_capture_count bc"
    by (simp_all add: exec_context_def Let_def lre_get_capture_count_def)
  have D: "well_typed ?s ?D" by (rule compiled_well_typed [OF bc s(1-3)])
  have t: "type = 0 \<or> type = 1" using input(1) by auto
  have byte: "unat b < 256" for b :: u8 using unsigned_less [of b] by simp
  have ctx: "context_ok ?s"
    using t input(2,3) rf byte by (auto simp: context_ok_def exec_context_def Let_def text_ok_def at_char_def)
  have pos: "position_ok ?s (cindex * 2 ^ type)"
    using t input(4) by (auto simp: position_ok_def exec_context_def Let_def at_char_def)
  have mem: "memory_ok ?s ?D ?m"
    using cap by (auto simp: memory_ok_def capture_ok_def clear_captures_def nth_blit s(5) lre_get_capture_count_def)
  have regs: "regs_ok ?s ?D ?r" using pos by (auto simp: regs_ok_def code_typing_def)
  have start: "cindex * 2 ^ type < 2 ^ 31"
    using input(3) mult_le_mono1 [OF input(4), of "2 ^ type"] by linarith
  have "outcome_ok ?s ?D (lre_exec_backtrack fuel ?s ?m ?r False)" by (rule run_ok [OF ctx D mem regs])
  moreover have "lre_exec fuel cap garbage bc subject cindex clen type addr rf = lre_exec_backtrack fuel ?s ?m ?r False"
    using cap s(5) input(3) start by (simp add: lre_exec_def Let_def)
  ultimately show ?thesis using outcome_safe s(4,5) by fastforce
qed

end
