(* ===== verification/RegexpReach.thy ===== *)
theory RegexpReach
  imports RegexpSafe
begin

text \<open>
  The interpreter as a state machine: one step per instruction, the greedy loop and the backtracking that an
  instruction triggers included. A step keeps the run-time invariant, a configuration that satisfies it is never
  stuck, and the steps are those of \<^verbatim>\<open>lre_exec_backtrack\<close>.
\<close>

section \<open>Steps of the interpreter\<close>

text \<open>
  \<open>greedy_exit\<close> is the code behind the loop of \<^verbatim>\<open>REOP_simple_greedy_quant\<close>; \<open>resolve\<close> is what the labels \<^verbatim>\<open>no_match\<close> and
  \<^verbatim>\<open>recurse\<close> of the main loop do with an instruction that failed or accepted.
\<close>

definition greedy_exit ::
  "re_exec_context \<Rightarrow> re_memory \<Rightarrow> re_regs \<Rightarrow> nat \<Rightarrow> u32 \<Rightarrow> nat \<Rightarrow> nat \<Rightarrow> re_step option" where
  "greedy_exit s m r pc' quant_min cptr q =
     (if q < unat quant_min then Some (No_match m)
      else if q > unat quant_min then
        (case push_state s m (re_stack_len r) (re_pc r) cptr RE_EXEC_STATE_GREEDY_QUANT (q - unat quant_min) of
           None \<Rightarrow> None
         | Some (m, ret) \<Rightarrow> Some (if ret < 0 then Return m (-1) else Step m (r\<lparr>re_pc := pc', re_cptr := cptr\<rparr>)))
      else Some (Step m (r\<lparr>re_pc := pc', re_cptr := cptr\<rparr>)))"

fun resolve :: "re_exec_context \<Rightarrow> re_step \<Rightarrow> re_step option" where
  "resolve s (No_match m) = re_recurse s m False (state_stack_len m)"
| "resolve s (Matched m p) = re_recurse s m True (state_stack_len m)"
| "resolve s st = Some st"

inductive interp :: "re_exec_context \<Rightarrow> re_memory \<Rightarrow> re_regs \<Rightarrow> re_step \<Rightarrow> bool" for s where
  op: "fetch s (re_pc r) = Some opc \<Longrightarrow> opc \<noteq> REOP_simple_greedy_quant \<Longrightarrow>
    exec_op s opc m (r\<lparr>re_pc := re_pc r + 1\<rparr>) = Some st \<Longrightarrow> resolve s st = Some st' \<Longrightarrow> interp s m r st'"
| greedy: "fetch s (re_pc r) = Some REOP_simple_greedy_quant \<Longrightarrow>
    greedy_operands s (re_pc r + 1) = Some (pc', lo, hi) \<Longrightarrow>
    quant_loop fuel s m (r\<lparr>re_pc := re_pc r + 1 + 16\<rparr>) hi 0 = Quant_done m' p q \<Longrightarrow>
    greedy_exit s m' (r\<lparr>re_pc := re_pc r + 1\<rparr>) pc' lo p q = Some st \<Longrightarrow> resolve s st = Some st' \<Longrightarrow> interp s m r st'"
| greedy_error: "fetch s (re_pc r) = Some REOP_simple_greedy_quant \<Longrightarrow>
    greedy_operands s (re_pc r + 1) = Some (pc', lo, hi) \<Longrightarrow>
    quant_loop fuel s m (r\<lparr>re_pc := re_pc r + 1 + 16\<rparr>) hi 0 = Quant_error m' \<Longrightarrow> interp s m r (Return m' (-1))"

inductive_cases interpE: "interp s m r st"

text \<open>A configuration is the memory with the registers.\<close>

definition interp_step :: "re_exec_context \<Rightarrow> re_memory \<times> re_regs \<Rightarrow> re_memory \<times> re_regs \<Rightarrow> bool" where
  "interp_step s c c' \<longleftrightarrow> interp s (fst c) (snd c) (Step (fst c') (snd c'))"

section \<open>The steps are those of the program\<close>

fun step_outcome :: "nat \<Rightarrow> re_exec_context \<Rightarrow> re_step option \<Rightarrow> re_outcome" where
  "step_outcome fuel s (Some (Step m r)) = lre_exec_backtrack fuel s m r False"
| "step_outcome fuel s (Some (Return m v)) = RE_ret m (RE_int v)"
| "step_outcome fuel s _ = RE_undef"

lemma step_outcome_resume:
  "(case st of None \<Rightarrow> RE_undef | Some (Step m r) \<Rightarrow> lre_exec_backtrack fuel s m r False
     | Some (Return m v) \<Rightarrow> RE_ret m (RE_int v) | Some _ \<Rightarrow> RE_undef) = step_outcome fuel s st"
  by (cases "(fuel, s, st)" rule: step_outcome.cases) simp_all

lemma backtrack_op:
  assumes "fetch s (re_pc r) = Some opc" "opc \<noteq> REOP_simple_greedy_quant"
    and "exec_op s opc m (r\<lparr>re_pc := re_pc r + 1\<rparr>) = Some st"
  shows "lre_exec_backtrack (Suc fuel) s m r False = step_outcome fuel s (resolve s st)"
  using assms by (cases st) (simp_all add: Let_def step_outcome_resume)

lemma backtrack_greedy:
  assumes "fetch s (re_pc r) = Some REOP_simple_greedy_quant" "greedy_operands s (re_pc r + 1) = Some (pc', lo, hi)"
    and "quant_loop fuel s m (r\<lparr>re_pc := re_pc r + 1 + 16\<rparr>) hi 0 = Quant_done m' p q"
    and "greedy_exit s m' (r\<lparr>re_pc := re_pc r + 1\<rparr>) pc' lo p q = Some st"
  shows "lre_exec_backtrack (Suc fuel) s m r False = step_outcome fuel s (resolve s st)"
  using assms by (auto simp: Let_def greedy_exit_def step_outcome_resume split: if_splits option.splits)

text \<open>Whatever fuel a greedy loop was given, with more the program takes the same step.\<close>

lemma interp_run:
  assumes "interp s m r st"
  shows "\<exists>k. \<forall>fuel \<ge> k. lre_exec_backtrack (Suc fuel) s m r False = step_outcome fuel s (Some st)"
  using assms
proof cases
  case (op opc st1)
  then show ?thesis using backtrack_op [OF op(1-3)] by simp
next
  case (greedy pc' lo hi k m' p q st1)
  have "lre_exec_backtrack (Suc fuel) s m r False = step_outcome fuel s (Some st)" if "k \<le> fuel" for fuel
    using backtrack_greedy [OF greedy(1,2) _ greedy(4), of fuel] greedy(5) fuel_mono(2) [OF _ that] greedy(3) by simp
  then show ?thesis by blast
next
  case (greedy_error pc' lo hi k m')
  have "lre_exec_backtrack (Suc fuel) s m r False = step_outcome fuel s (Some st)" if "k \<le> fuel" for fuel
    using greedy_error fuel_mono(2) [OF _ that, of s m "r\<lparr>re_pc := re_pc r + 1 + 16\<rparr>" hi 0] by (simp add: Let_def)
  then show ?thesis by blast
qed

text \<open>A run of several steps: the program, started with more fuel, reaches the last configuration.\<close>

definition same_run :: "re_exec_context \<Rightarrow> re_memory \<times> re_regs \<Rightarrow> re_memory \<times> re_regs \<Rightarrow> bool" where
  "same_run s c c' \<longleftrightarrow> (\<exists>n k. \<forall>fuel \<ge> k.
     lre_exec_backtrack (fuel + n) s (fst c) (snd c) False = lre_exec_backtrack fuel s (fst c') (snd c') False)"

lemma same_run_step:
  assumes "same_run s c c'" "interp_step s c' c''"
  shows "same_run s c c''"
proof -
  obtain n k where 1: "lre_exec_backtrack (fuel + n) s (fst c) (snd c) False = lre_exec_backtrack fuel s (fst c') (snd c') False"
    if "k \<le> fuel" for fuel
    using assms(1) unfolding same_run_def by blast
  obtain k' where 2: "lre_exec_backtrack (Suc fuel) s (fst c') (snd c') False = lre_exec_backtrack fuel s (fst c'') (snd c'') False"
    if "k' \<le> fuel" for fuel
    using interp_run [OF assms(2) [unfolded interp_step_def]] unfolding step_outcome.simps(1) by blast
  have "lre_exec_backtrack (fuel + Suc n) s (fst c) (snd c) False = lre_exec_backtrack fuel s (fst c'') (snd c'') False"
    if "max k k' \<le> fuel" for fuel
    using 1 [of "Suc fuel"] 2 [of fuel] that by simp
  then show ?thesis unfolding same_run_def by blast
qed

lemma reachable_same_run: "(interp_step s)\<^sup>*\<^sup>* c c' \<Longrightarrow> same_run s c c'"
proof (induction rule: rtranclp_induct)
  case base
  show ?case unfolding same_run_def by (intro exI [of _ 0]) simp
qed (rule same_run_step)

section \<open>The invariant\<close>

definition config_ok :: "re_exec_context \<Rightarrow> typing \<Rightarrow> re_memory \<times> re_regs \<Rightarrow> bool" where
  "config_ok s D c \<longleftrightarrow> memory_ok s D (fst c) \<and> regs_ok s D (snd c)"

text \<open>What a step ends in: the next configuration or a result.\<close>

definition step_done :: "re_exec_context \<Rightarrow> typing \<Rightarrow> re_step \<Rightarrow> bool" where
  "step_done s D st \<longleftrightarrow> step_ok s D (Some st) \<and> (\<forall>m. st \<noteq> No_match m) \<and> (\<forall>m p. st \<noteq> Matched m p)"

lemma resolve_ok:
  assumes "context_ok s" "step_ok s D (Some st)"
  shows "\<exists>st'. resolve s st = Some st' \<and> step_done s D st'"
proof -
  have "\<exists>st'. re_recurse s m ret (state_stack_len m) = Some st' \<and> step_done s D st'" if "memory_ok s D m" for m ret
    using re_recurse_ok [OF assms(1) that order_refl, of ret] by (auto simp: step_done_def)
  then show ?thesis using assms(2) by (cases st) (auto simp: step_done_def)
qed

lemma resolve_done: "context_ok s \<Longrightarrow> step_ok s D (Some st) \<Longrightarrow> resolve s st = Some st' \<Longrightarrow> step_done s D st'"
  using resolve_ok by fastforce

lemma greedy_exit_ok:
  assumes s: "context_ok s" and m: "memory_ok s D m" and q: "quant_ok s D (re_pc r) d" "D tgt d"
    and d: "d \<le> stack_size_max s" "re_stack_len r = int d"
    and run: "next_chars s (unat (get_u32 (bc_buf s) (re_pc r + 12)) * k) c = Some p" "position_ok s c" "k < SIZE_MOD"
  shows "step_ok s D (greedy_exit s m r tgt lo p k)"
proof -
  have p: "position_ok s p" using next_chars_position [OF run(1,2)] by blast
  have go: "step_ok s D (Some (Step m' (r\<lparr>re_pc := tgt, re_cptr := p\<rparr>)))" if "memory_ok s D m'" for m'
    using that p q(2) d by (auto simp: regs_ok_def)
  show ?thesis
  proof (cases "unat lo < k")
    case True
    have "prev_chars s ((k - unat lo) * unat (get_u32 (bc_buf s) (re_pc r + 12))) p \<noteq> None"
      by (rule prev_chars_defined [OF run(1)]) (simp add: mult.commute)
    moreover have "0 < k - unat lo" "k - unat lo < SIZE_MOD" using True run(3) by linarith+
    ultimately have "\<exists>m' v. push_state s m (int d) (re_pc r) p RE_EXEC_STATE_GREEDY_QUANT (k - unat lo) = Some (m', v) \<and>
        (v = 0 \<or> v = -1) \<and> memory_ok s D m'"
      by (intro push_state_ok [OF s m p d(1)]) (use q in \<open>simp only: if_True simp_thms\<close>)
    then show ?thesis using True d(2) go by (auto simp: greedy_exit_def)
  qed (use m go in \<open>simp add: greedy_exit_def\<close>)
qed

lemma greedy_loop_result:
  assumes s: "context_ok s" and q: "quant_ok s D pc d" and r: "re_pc r = pc + 16" "position_ok s (re_cptr r)"
    and out: "quant_loop fuel s m r hi 0 \<noteq> Quant_timeout"
  obtains p k where "quant_loop fuel s m r hi 0 = Quant_done m p k" "k < SIZE_MOD"
    "next_chars s (unat (get_u32 (bc_buf s) (pc + 12)) * k) (re_cptr r) = Some p"
  using quant_loop_any [OF s q r, of fuel m hi] out by (auto simp: quant_result_def)

lemma greedy_loop_returns:
  assumes s: "context_ok s" and q: "quant_ok s D pc d" and r: "re_pc r = pc + 16" "position_ok s (re_cptr r)"
  obtains fuel where "quant_loop fuel s m r hi 0 \<noteq> Quant_timeout"
proof (rule that)
  let ?n = "unat (get_u32 (bc_buf s) (pc + 12))"
  have a: "atom_chars (length (bc_buf s)) s (re_pc r) = Some ?n" "0 < ?n"
    using q r(1) by (auto simp: quant_ok_def word_greater_zero_iff unat_gt_0)
  have "quant_result s m ?n (re_cptr r) 0 hi (quant_loop (length (bc_buf s) + cbuf_end s + 1) s m r hi 0)"
    by (rule quant_loop_run [OF s a r(2)]) (use s in \<open>simp_all add: context_ok_def\<close>)
  then show "quant_loop (length (bc_buf s) + cbuf_end s + 1) s m r hi 0 \<noteq> Quant_timeout" by (auto simp: quant_result_def)
qed

text \<open>Well-typed code at a configuration of the invariant: the instruction, and for a greedy loop its operands.\<close>

lemma config_cases:
  assumes s: "context_ok s" and D: "well_typed s D" and c: "config_ok s D (m, r)"
  obtains opc where "fetch s (re_pc r) = Some opc" "opc \<noteq> REOP_simple_greedy_quant"
      "step_ok s D (exec_op s opc m (r\<lparr>re_pc := re_pc r + 1\<rparr>))"
  | tgt lo hi d where "fetch s (re_pc r) = Some REOP_simple_greedy_quant"
      "greedy_operands s (re_pc r + 1) = Some (tgt, lo, hi)" "quant_ok s D (re_pc r + 1) d" "D tgt d"
      "d \<le> stack_size_max s" "re_stack_len r = int d"
proof -
  obtain d where d: "D (re_pc r) d" "d \<le> stack_size_max s" "re_stack_len r = int d" and pos: "position_ok s (re_cptr r)"
    using c by (auto simp: config_ok_def regs_ok_def)
  obtain opc where opc: "fetch s (re_pc r) = Some opc" "op_ok s D (re_pc r + 1) d opc"
    using D d(1) by (auto simp: well_typed_def typed_at_def split: option.splits)
  show thesis
  proof (cases "opc = REOP_simple_greedy_quant")
    case False
    have "at_op s D opc m (r\<lparr>re_pc := re_pc r + 1\<rparr>) d"
      using s D c d pos opc(2) by (simp add: at_op_def config_ok_def)
    then show ?thesis using that(1) opc(1) False exec_op_ok by blast
  next
    case True
    then have q: "quant_ok s D (re_pc r + 1) d" using opc(2) by simp
    obtain tgt where "greedy_operands s (re_pc r + 1) =
        Some (tgt, get_u32 (bc_buf s) (re_pc r + 1 + 4), get_u32 (bc_buf s) (re_pc r + 1 + 8))" "D tgt d"
      using greedy_operands_ok [OF q] .
    then show ?thesis using that(2) opc(1) True q d by blast
  qed
qed

lemma greedy_done:
  assumes s: "context_ok s" and c: "config_ok s D (m, r)"
    and q: "quant_ok s D (re_pc r + 1) d" "D tgt d" "d \<le> stack_size_max s" "re_stack_len r = int d"
    and out: "quant_loop fuel s m (r\<lparr>re_pc := re_pc r + 1 + 16\<rparr>) hi 0 \<noteq> Quant_timeout"
  obtains p k where "quant_loop fuel s m (r\<lparr>re_pc := re_pc r + 1 + 16\<rparr>) hi 0 = Quant_done m p k"
    "step_ok s D (greedy_exit s m (r\<lparr>re_pc := re_pc r + 1\<rparr>) tgt lo p k)"
proof -
  have pos: "position_ok s (re_cptr r)" and m: "memory_ok s D m" using c by (simp_all add: config_ok_def regs_ok_def)
  obtain p k where k: "quant_loop fuel s m (r\<lparr>re_pc := re_pc r + 1 + 16\<rparr>) hi 0 = Quant_done m p k" "k < SIZE_MOD"
      "next_chars s (unat (get_u32 (bc_buf s) (re_pc r + 1 + 12)) * k) (re_cptr r) = Some p"
    using greedy_loop_result [OF s q(1) _ _ out] pos by auto
  moreover have "step_ok s D (greedy_exit s m (r\<lparr>re_pc := re_pc r + 1\<rparr>) tgt lo p k)"
    using greedy_exit_ok [OF s m, of "r\<lparr>re_pc := re_pc r + 1\<rparr>"] q k pos by simp
  ultimately show thesis using that by blast
qed

lemma interp_ok:
  assumes s: "context_ok s" and D: "well_typed s D" and c: "config_ok s D (m, r)" and i: "interp s m r st"
  shows "step_done s D st"
  using s D c
proof (cases rule: config_cases)
  case (1 opc)
  from i show ?thesis using 1 by cases (auto intro: resolve_done [OF s])
next
  case (2 tgt lo hi d)
  note g = greedy_done [OF s c 2(3-6)]
  from i show ?thesis
  proof cases
    case (greedy pc' lo' hi' fuel m' p q st1)
    then show ?thesis using g [of fuel hi lo] resolve_done [OF s _ greedy(5)] 2(1,2) by fastforce
  next
    case (greedy_error pc' lo' hi' fuel m')
    then show ?thesis using g [of fuel hi lo] 2(1,2) by fastforce
  qed (use 2(1) in simp)
qed

lemma interp_progress:
  assumes s: "context_ok s" and D: "well_typed s D" and c: "config_ok s D (m, r)"
  shows "\<exists>st. interp s m r st"
  using s D c
proof (cases rule: config_cases)
  case (1 opc)
  then obtain st where "exec_op s opc m (r\<lparr>re_pc := re_pc r + 1\<rparr>) = Some st" "step_ok s D (Some st)"
    by (cases "exec_op s opc m (r\<lparr>re_pc := re_pc r + 1\<rparr>)") auto
  then show ?thesis using interp.op [OF 1(1,2)] resolve_ok [OF s] by blast
next
  case (2 tgt lo hi d)
  have "position_ok s (re_cptr r)" using c by (simp add: config_ok_def regs_ok_def)
  then obtain fuel where "quant_loop fuel s m (r\<lparr>re_pc := re_pc r + 1 + 16\<rparr>) hi 0 \<noteq> Quant_timeout"
    using greedy_loop_returns [OF s 2(3), of "r\<lparr>re_pc := re_pc r + 1 + 16\<rparr>"] by auto
  from greedy_done [OF s c 2(3-6) this] obtain p k where
    pk: "quant_loop fuel s m (r\<lparr>re_pc := re_pc r + 1 + 16\<rparr>) hi 0 = Quant_done m p k"
    "step_ok s D (greedy_exit s m (r\<lparr>re_pc := re_pc r + 1\<rparr>) tgt lo p k)" by metis
  then obtain st where "greedy_exit s m (r\<lparr>re_pc := re_pc r + 1\<rparr>) tgt lo p k = Some st" "step_ok s D (Some st)"
    by (cases "greedy_exit s m (r\<lparr>re_pc := re_pc r + 1\<rparr>) tgt lo p k") auto
  then show ?thesis using interp.greedy [OF 2(1,2) pk(1)] resolve_ok [OF s] by blast
qed

lemma interp_step_keeps:
  "context_ok s \<Longrightarrow> well_typed s D \<Longrightarrow> config_ok s D c \<Longrightarrow> interp_step s c c' \<Longrightarrow> config_ok s D c'"
  using interp_ok [of s D "fst c" "snd c" "Step (fst c') (snd c')"]
  by (simp add: interp_step_def step_done_def config_ok_def)

lemma reachable_config_ok:
  assumes "(interp_step s)\<^sup>*\<^sup>* c c'" "context_ok s" "well_typed s D" "config_ok s D c"
  shows "config_ok s D c'"
  using assms by (induction rule: rtranclp_induct) (auto intro: interp_step_keeps)

end
