(* ===== verification/RegexpLiteral.thy ===== *)
theory RegexpLiteral
  imports RegexpCompiled RegexpReach
begin

text \<open>
  Patterns of ordinary characters from source to match: the byte code that \<^verbatim>\<open>lre_compile\<close> emits for them, byte
  for byte, and what \<^verbatim>\<open>lre_exec\<close> answers on it, which is the first occurrence of the text.
\<close>

section \<open>Compilation\<close>

text \<open>An ASCII character that stands for itself in a pattern.\<close>

definition plain :: "u8 \<Rightarrow> bool" where
  "plain b \<longleftrightarrow> 0 < b \<and> b < 128 \<and> ucast b \<notin> set syntax_chars"

definition literal_body :: "bytes \<Rightarrow> bytes" where
  "literal_body txt = concat (map (\<lambda>b. reop_code REOP_char # le16 (ucast b)) txt)"

text \<open>Without the sticky flag the code starts with a loop that tries every start position.\<close>

definition literal_prefix :: "u32 \<Rightarrow> bytes" where
  "literal_prefix re_flags =
     (if re_flags AND 32 = 0 then
        reop_code REOP_split_goto_first # le32 6 @ [reop_code REOP_any] @ reop_code REOP_goto # le32 (- 11)
      else [])"

definition literal_code :: "u32 \<Rightarrow> bytes \<Rightarrow> bytes" where
  "literal_code re_flags txt = literal_prefix re_flags @ [reop_code REOP_save_start, 0] @ literal_body txt @
     [reop_code REOP_save_end, 0, reop_code REOP_match]"

lemma plain_char:
  assumes "plain b"
  shows "(ucast b :: u32) \<noteq> 0" "\<not> 128 \<le> (ucast b :: u32)" "\<not> CLASS_RANGE_BASE \<le> (ucast b :: u32)" "(ucast b :: u32) \<le> 0xffff"
proof -
  have u: "unat (ucast b :: u32) = unat b" by simp
  have b: "0 < unat b" "unat b < 128" using assms by (auto simp: plain_def word_less_nat_alt)
  show "(ucast b :: u32) \<noteq> 0"
  proof
    assume "(ucast b :: u32) = 0"
    then have "unat (ucast b :: u32) = 0" by (simp only: unsigned_0)
    then show False using u b(1) by linarith
  qed
  show "\<not> 128 \<le> (ucast b :: u32)" "\<not> CLASS_RANGE_BASE \<le> (ucast b :: u32)" "(ucast b :: u32) \<le> 0xffff"
    using b unfolding CLASS_RANGE_BASE_def word_less_nat_alt word_le_nat_alt u by simp_all
qed

lemma plain_syntax:
  assumes "plain b" "c \<in> set (''^$.*+?()[]{}|/'' @ [CHR 0x5c])"
  shows "(ucast b :: u32) \<noteq> asc c"
  using assms by (auto simp: plain_def syntax_chars_def)

lemma src_at_end [simp]: "src_at src (length src) = Some 0"
  by (simp add: src_at_def c_at_def)

lemma src_at_nth: "p < length src \<Longrightarrow> src_at src p = Some (ucast (src ! p))"
  by (simp add: src_at_def c_at_def)

lemma plain_drop:
  assumes "p < length src" "list_all plain (drop p src)"
  shows "plain (src ! p)" "list_all plain (drop (Suc p) src)"
proof -
  have "list_all plain (src ! p # drop (Suc p) src)" using assms Cons_nth_drop_Suc [OF assms(1)] by simp
  then show "plain (src ! p)" "list_all plain (drop (Suc p) src)" by simp_all
qed

lemma no_quantifier:
  assumes "p \<le> length (re_src s)" "list_all plain (drop p (re_src s))"
  shows "parse_quantifier s p = Some (s, Some None)"
proof (cases "p = length (re_src s)")
  case True
  then show ?thesis by (simp add: parse_quantifier_def asc_def)
next
  case False
  then have p: "p < length (re_src s)" using assms(1) by simp
  have "plain (re_src s ! p)" using plain_drop p assms(2) by blast
  then show ?thesis
    using plain_syntax [of "re_src s ! p"] src_at_nth [OF p] by (simp add: parse_quantifier_def)
qed

abbreviation char_emitted :: "re_parse_state \<Rightarrow> u8 \<Rightarrow> re_parse_state" where
  "char_emitted s b \<equiv> (re_emit_op_u16 s REOP_char (ucast b))\<lparr>buf_ptr := buf_ptr s + 1\<rparr>"

lemma emit_u16_fields [simp]:
  "re_src (re_emit_op_u16 s opc v) = re_src s" "buf_ptr (re_emit_op_u16 s opc v) = buf_ptr s"
  "re_ignore_case (re_emit_op_u16 s opc v) = re_ignore_case s"
  by (simp_all add: re_emit_op_u16_def re_emit_op_def Let_def)

lemma parse_plain_term:
  assumes s: "buf_ptr s < length (re_src s)" "list_all plain (drop (buf_ptr s) (re_src s))" "\<not> re_ignore_case s"
  shows "re_parse_term (Suc fuel) s False = Some (char_emitted s (re_src s ! buf_ptr s), 0)"
proof -
  let ?b = "re_src s ! buf_ptr s"
  have b: "plain ?b" using plain_drop s by blast
  note src = src_at_nth [OF s(1)]
  have rest: "list_all plain (drop (buf_ptr s + 1) (re_src s))"
    using plain_drop s by simp
  have "get_class_atom s (buf_ptr s) False = Some (s, Some (ucast ?b, buf_ptr s + 1, None))"
    using src plain_char [OF b] plain_syntax [OF b, of "CHR 0x5c"] by (simp add: get_class_atom_def atom_normal_char_def)
  moreover have "normal_char s (buf_ptr s + 1) (ucast ?b) None False =
      Some (re_emit_op_u16 s REOP_char (ucast ?b), Some (buf_ptr s + 1, Some (bsize s, re_capture_count s)))"
    using plain_char [OF b] s(3) by (simp add: normal_char_def emit_prev_def emit_char_def Let_def)
  ultimately have "parse_class_atom s (buf_ptr s) False =
      Some (re_emit_op_u16 s REOP_char (ucast ?b), Some (buf_ptr s + 1, Some (bsize s, re_capture_count s)))"
    by (simp add: parse_class_atom_def)
  then have "parse_atom s (buf_ptr s) (ucast ?b) False =
      Some (re_emit_op_u16 s REOP_char (ucast ?b), Some (buf_ptr s + 1, Some (bsize s, re_capture_count s)))"
    using plain_syntax [OF b] by (simp add: parse_atom_def)
  then show ?thesis
    using src plain_syntax [OF b] no_quantifier [of "buf_ptr s + 1" "re_emit_op_u16 s REOP_char (ucast ?b)"] rest s(1)
    by (simp add: finish_term_def)
qed

lemma ucast_u8_u32_u16: "(ucast (ucast (b :: u8) :: u32) :: u16) = ucast b"
  by (rule bit_word_eqI) (auto simp: bit_ucast_iff dest: bit_imp_le_length)

lemma char_emitted_appends: "appends s (char_emitted s b) (literal_body [b])"
  using emit_op_u16_appends [of s REOP_char "ucast b"]
  by (simp add: changes_def emit_ok_def literal_body_def ucast_u8_u32_u16)

lemma plain_alternative_step:
  assumes s: "buf_ptr s < length (re_src s)" "list_all plain (drop (buf_ptr s) (re_src s))" "\<not> re_ignore_case s"
  shows "re_parse_alternative (Suc (Suc fuel)) s False start =
    re_parse_alternative (Suc fuel) (char_emitted s (re_src s ! buf_ptr s)) False start"
proof -
  have b: "plain (re_src s ! buf_ptr s)" using plain_drop s by blast
  have c: "src_at (re_src s) (buf_ptr s) = Some (ucast (re_src s ! buf_ptr s))"
    "ucast (re_src s ! buf_ptr s) \<noteq> asc CHR ''|''" "ucast (re_src s ! buf_ptr s) \<noteq> asc CHR '')''" "\<not> length (re_src s) \<le> buf_ptr s"
    using src_at_nth s(1) plain_syntax [OF b] by simp_all
  show ?thesis
    by (subst re_parse_alternative.simps(2)) (simp add: c parse_plain_term [OF s] del: re_parse_alternative.simps re_parse_term.simps)
qed

lemma parse_plain_alternative:
  assumes "re_parse_alternative fuel s False start = Some (s', r)"
    and "buf_ptr s \<le> length (re_src s)" "list_all plain (drop (buf_ptr s) (re_src s))" "\<not> re_ignore_case s"
  shows "r = 0 \<and> appends s s' (literal_body (drop (buf_ptr s) (re_src s))) \<and> re_src s' = re_src s \<and>
    buf_ptr s' = length (re_src s)"
  using assms
proof (induction fuel arbitrary: s)
  case (Suc fuel)
  show ?case
  proof (cases "buf_ptr s < length (re_src s)")
    case False
    then show ?thesis using Suc.prems by (simp add: changes_refl literal_body_def)
  next
    case True
    let ?b = "re_src s ! buf_ptr s"
    have c: "src_at (re_src s) (buf_ptr s) = Some (ucast ?b)" "\<not> length (re_src s) \<le> buf_ptr s"
      using src_at_nth True by simp_all
    have "plain ?b" using plain_drop True Suc.prems(3) by blast
    note syn = plain_syntax [OF this]
    obtain f where f: "fuel = Suc f"
      using Suc.prems(1) syn by (cases fuel) (simp_all add: c)
    have run: "re_parse_alternative fuel (char_emitted s ?b) False start = Some (s', r)"
      using Suc.prems(1) plain_alternative_step [OF True Suc.prems(3,4), of f start] unfolding f by simp
    have "r = 0 \<and> appends (char_emitted s ?b) s' (literal_body (drop (buf_ptr s + 1) (re_src s))) \<and> re_src s' = re_src s \<and>
        buf_ptr s' = length (re_src s)"
      using Suc.IH [OF run] True Suc.prems(2-4) plain_drop [OF True Suc.prems(3)] by simp
    moreover have "literal_body (drop (buf_ptr s) (re_src s)) = literal_body [?b] @ literal_body (drop (buf_ptr s + 1) (re_src s))"
      using Cons_nth_drop_Suc [OF True] by (simp add: literal_body_def flip: Cons_nth_drop_Suc [OF True])
    ultimately show ?thesis using appends_trans [OF char_emitted_appends] by simp
  qed
qed simp

lemma parse_plain_disjunction:
  assumes "re_parse_disjunction fuel s False = Some (s', 0)"
    and "buf_ptr s = 0" "list_all plain (re_src s)" "\<not> re_ignore_case s"
  shows "appends s s' (literal_body (re_src s)) \<and> re_src s' = re_src s \<and> buf_ptr s' = length (re_src s)"
proof -
  let ?s = "s\<lparr>re_checks := re_checks s + 1\<rparr>"
  obtain f s1 r where f: "fuel = Suc f" "re_parse_alternative f ?s False (bsize s) = Some (s1, r)"
      "r = 0 \<Longrightarrow> disjunction_loop f s1 False (bsize s) = Some (s', 0)" "r = 0"
    using assms(1) by (cases fuel) (auto simp: Let_def bsize_def re_parse_error_def bind_eq_Some_conv split: if_splits)
  have 1: "appends ?s s1 (literal_body (re_src s))" "re_src s1 = re_src s" "buf_ptr s1 = length (re_src s)"
    using parse_plain_alternative [OF f(2)] assms(2-4) by auto
  have "s' = s1" using f(3,4) 1 by (cases f) (auto simp: asc_def)
  then show ?thesis using 1 by (simp add: changes_def emit_ok_def bsize_def)
qed

lemma header_first: "length h = 7 \<Longrightarrow> put_u32 (h[1 := u, 2 := v]) 3 w ! 0 = h ! 0"
  by (simp add: put_u32_def nth_blit)

lemma bind_SomeE: "x \<bind> f = Some z \<Longrightarrow> (\<And>y. x = Some y \<Longrightarrow> f y = Some z \<Longrightarrow> P) \<Longrightarrow> P"
  by (auto simp: bind_eq_Some_conv)

lemma if_SomeE:
  "(if b then x else y) = Some z \<Longrightarrow> (b \<Longrightarrow> x = Some z \<Longrightarrow> P) \<Longrightarrow> (\<not> b \<Longrightarrow> y = Some z \<Longrightarrow> P) \<Longrightarrow> P"
  by (auto split: if_splits)

text \<open>The last steps of a successful compilation without group names.\<close>

lemma finish_compile_steps:
  assumes fin: "finish_compile s = Some (Inr bc)" and s2: "s2 = re_emit_op (re_emit_op_u8 s REOP_save_end 0) REOP_match"
  obtains n s3 s4 s5 where "\<not> failed s2" "poke s2 1 (of_nat (re_capture_count s2)) = Some s3"
    "poke s3 2 (of_int n) = Some s4" "poke_u32 s4 3 (of_nat (bsize s4 - RE_HEADER_LEN)) = Some s5"
    "dbuf_size (re_group_names s5) \<le> re_capture_count s5 - 1 \<longrightarrow> bc = emitted s5"
proof -
  define Q where "Q s5 = (if dbuf_size (re_group_names s5) > re_capture_count s5 - 1 then
        poke (s5\<lparr>byte_code := fst (dbuf_put (byte_code s5) (contents (re_group_names s5)))\<rparr>) RE_HEADER_FLAGS
          (buf (byte_code s5) ! RE_HEADER_FLAGS OR LRE_FLAG_NAMED_GROUPS) else Some s5)" for s5
  have Q: "Q s5 = Some s6 \<Longrightarrow> dbuf_size (re_group_names s5) \<le> re_capture_count s5 - 1 \<Longrightarrow> s6 = s5" for s5 s6
    by (simp add: Q_def)
  from fin [unfolded finish_compile_def Let_def, folded s2 Q_def] show thesis
    by (elim bind_SomeE if_SomeE) (simp_all add: dbuf_error_def, rule that, (assumption | simp | force dest: Q)+)
qed

lemma finish_without_names:
  assumes fin: "finish_compile s = Some (Inr bc)" and s: "\<not> failed s \<Longrightarrow> emit_ok s \<and> emitted s = h0 @ c" "length h0 = 7"
    and names: "dbuf_size (re_group_names s) = 0" and cc: "re_capture_count s = 1"
  obtains h where "bc = h @ c @ [reop_code REOP_save_end, 0, reop_code REOP_match]" "length h = 7" "h ! 0 = h0 ! 0" "h ! 1 = 1"
proof -
  let ?s2 = "re_emit_op (re_emit_op_u8 s REOP_save_end 0) REOP_match"
  have a: "appends s ?s2 [reop_code REOP_save_end, 0, reop_code REOP_match]"
    using appends_trans [OF emit_op_u8_appends [of s REOP_save_end 0] emit_op_appends [of _ REOP_match]] by simp
  obtain n s3 s4 s5 where nf: "\<not> failed ?s2"
    and run: "poke ?s2 1 (of_nat (re_capture_count ?s2)) = Some s3" "poke s3 2 (of_int n) = Some s4"
      "poke_u32 s4 3 (of_nat (bsize s4 - RE_HEADER_LEN)) = Some s5"
    and bc: "dbuf_size (re_group_names s5) \<le> re_capture_count s5 - 1 \<longrightarrow> bc = emitted s5"
    using finish_compile_steps [OF fin refl] .
  have same: "re_group_names ?s2 = re_group_names s" "re_capture_count ?s2 = 1" using a cc by (simp_all add: changes_def)
  have e: "emit_ok s" "emitted s = h0 @ c" using changes_failed [OF a] nf s(1) by blast+
  have 2: "emit_ok ?s2 \<and> emitted ?s2 = emitted s @ [reop_code REOP_save_end, 0, reop_code REOP_match]"
    by (rule changesD [OF a e(1) nf]) (use emit_ok_size [OF e(1)] in auto)
  define h where "h = put_u32 (h0[1 := of_nat (re_capture_count ?s2), 2 := of_int n]) 3 (of_nat (bsize s4 - RE_HEADER_LEN))"
  have 5: "emit_ok s5 \<and> emitted s5 = h @ c @ [reop_code REOP_save_end, 0, reop_code REOP_match]"
    unfolding h_def by (rule header_filled [OF s(2) _ nf _ run]) (use 2 e(2) in auto)
  have "bc = emitted s5" using bc same names poke_same run by simp
  moreover have "length h = 7" "h ! 0 = h0 ! 0" "h ! 1 = 1"
    unfolding h_def using header_bytes [OF s(2)] header_first [OF s(2)] s(2) same(2) by (simp_all add: length_put_u32)
  ultimately show thesis using that bc 5 by simp
qed

lemma emit_prefix_appends:
  "appends s (emit_prefix s re_flags)
     ((ucast re_flags # 0 # 0 # le32 0) @ literal_prefix re_flags @ [reop_code REOP_save_start, 0])"
proof -
  let ?h = "emit_header s re_flags"
  have "appends ?h (emit_prefix s re_flags) (literal_prefix re_flags @ [reop_code REOP_save_start, 0])"
  proof (cases "re_flags AND 32 = 0")
    case True
    then show ?thesis
      using appends_trans [OF appends_trans [OF appends_trans [OF emit_op_u32_appends [of ?h REOP_split_goto_first 6]
          emit_op_appends [of _ REOP_any]] emit_op_u32_appends [of _ REOP_goto "- 11"]] emit_op_u8_appends [of _ REOP_save_start 0]]
      by (simp add: emit_prefix_def Let_def literal_prefix_def)
  next
    case False
    then show ?thesis
      using emit_op_u8_appends [of ?h REOP_save_start 0] by (simp add: emit_prefix_def Let_def literal_prefix_def)
  qed
  from appends_trans [OF emit_header_appends this] show ?thesis by simp
qed

lemma prefix_fields:
  "re_src (emit_prefix s re_flags) = re_src s" "buf_ptr (emit_prefix s re_flags) = buf_ptr s"
  "re_ignore_case (emit_prefix s re_flags) = re_ignore_case s"
  by (simp_all add: emit_prefix_def emit_header_def re_emit_op_u8_def re_emit_op_u32_def re_emit_op_def Let_def)

text \<open>The code of a literal pattern, byte for byte behind the header.\<close>

lemma compile_literal:
  assumes run: "lre_compile fuel txt re_flags host_bc host_names host_cr overflow = Some (Inr bc)"
    and host: "realloc_contract host_bc" and pl: "list_all plain txt" and flags: "re_flags AND 2 = 0"
  obtains h where "bc = h @ literal_code re_flags txt" "length h = 7" "h ! 0 = ucast re_flags" "h ! 1 = 1"
proof -
  let ?i = "initial_state txt re_flags host_bc host_names host_cr overflow"
  let ?p = "emit_prefix ?i re_flags" and ?h0 = "ucast re_flags # 0 # 0 # le32 0"
  obtain s where s: "re_parse_disjunction fuel ?p False = Some (s, 0)" "finish_compile s = Some (Inr bc)"
    using run by (auto simp: lre_compile_def bind_eq_Some_conv split: if_splits)
  have i: "re_src ?i = txt" "buf_ptr ?i = 0" "\<not> re_ignore_case ?i" "re_capture_count ?i = 1"
    "dbuf_size (re_group_names ?i) = 0"
    using flags by (simp_all add: initial_state_def dbuf_init2_def)
  have d: "appends ?p s (literal_body txt)"
    using parse_plain_disjunction [OF s(1)] i pl by (simp add: prefix_fields)
  note a = appends_trans [OF emit_prefix_appends [of ?i re_flags] d]
  have e: "emit_ok ?i" "emitted ?i = []" using initial_emit_ok [OF host] by simp_all
  have em: "emit_ok s \<and> emitted s = ?h0 @ literal_prefix re_flags @ [reop_code REOP_save_start, 0] @ literal_body txt"
    if "\<not> failed s"
    using changesD [OF a e(1) that, of "[]"] emit_ok_size [OF e(1)] e(2) by simp
  have "dbuf_size (re_group_names s) = 0" "re_capture_count s = 1" using a i by (simp_all add: changes_def)
  from finish_without_names [OF s(2) em _ this] obtain h where "bc = h @ (literal_prefix re_flags @ [reop_code REOP_save_start, 0] @ literal_body txt) @
      [reop_code REOP_save_end, 0, reop_code REOP_match]" "length h = 7" "h ! 0 = ?h0 ! 0" "h ! 1 = 1"
    by auto
  then show thesis using that by (simp add: literal_code_def)
qed

section \<open>Runs that return\<close>

definition returns :: "re_exec_context \<Rightarrow> re_memory \<Rightarrow> re_regs \<Rightarrow> re_memory \<Rightarrow> int \<Rightarrow> bool" where
  "returns s m r m' v \<longleftrightarrow> (\<exists>k. \<forall>fuel \<ge> k. lre_exec_backtrack fuel s m r False = RE_ret m' (RE_int v))"

fun follow :: "re_exec_context \<Rightarrow> re_step option \<Rightarrow> re_memory \<Rightarrow> int \<Rightarrow> bool" where
  "follow s (Some (Step m r)) m' v \<longleftrightarrow> returns s m r m' v"
| "follow s (Some (Return m w)) m' v \<longleftrightarrow> m = m' \<and> w = v"
| "follow s _ m' v \<longleftrightarrow> False"

lemma returns_interp:
  assumes "interp s m r st" "follow s (Some st) m' v"
  shows "returns s m r m' v"
proof -
  obtain k where k: "lre_exec_backtrack (Suc fuel) s m r False = step_outcome fuel s (Some st)" if "k \<le> fuel" for fuel
    using interp_run [OF assms(1)] by blast
  obtain k' where k': "step_outcome fuel s (Some st) = RE_ret m' (RE_int v)" if "k' \<le> fuel" for fuel
    using assms(2) by (cases st) (auto simp: returns_def)
  have "lre_exec_backtrack fuel s m r False = RE_ret m' (RE_int v)" if "max k k' + 1 \<le> fuel" for fuel
    using k [of "fuel - 1"] k' [of "fuel - 1"] that by (cases fuel) auto
  then show ?thesis unfolding returns_def by blast
qed

lemma returns_op:
  assumes "code_at (bc_buf s) (re_pc r) (reop_code opc # xs)" "opc \<noteq> REOP_simple_greedy_quant"
    and "exec_op s opc m (r\<lparr>re_pc := re_pc r + 1\<rparr>) = Some st" "follow s (resolve s st) m' v"
  shows "returns s m r m' v"
proof -
  obtain st' where "resolve s st = Some st'" using assms(4) by (cases "resolve s st") auto
  then show ?thesis
    using returns_interp [OF interp.op [OF fetch_code [OF assms(1)] assms(2,3)]] assms(4) by simp
qed

section \<open>Running a literal pattern\<close>

definition occurs :: "bytes \<Rightarrow> bytes \<Rightarrow> nat \<Rightarrow> bool" where
  "occurs txt subj i \<longleftrightarrow> i + length txt \<le> length subj \<and> take (length txt) (drop i subj) = txt"

lemma occurs_Nil [simp]: "occurs [] subj i \<longleftrightarrow> i \<le> length subj"
  by (simp add: occurs_def)

lemma occurs_Cons: "occurs (b # txt) subj i \<longleftrightarrow> i < length subj \<and> subj ! i = b \<and> occurs txt subj (i + 1)"
  by (cases "i < length subj") (auto simp: occurs_def simp flip: Cons_nth_drop_Suc)

text \<open>A case-sensitive run over a subject of bytes, with the whole match as the only capture.\<close>

definition byte_context :: "re_exec_context \<Rightarrow> bytes \<Rightarrow> bool" where
  "byte_context s subj \<longleftrightarrow> cbuf_type s = 0 \<and> cbuf_end s = length subj \<and> take (length subj) (cbuf s) = subj \<and>
     length subj \<le> length (cbuf s) \<and> \<not> ignore_case s \<and> capture_count s = 1"

abbreviation regs_at :: "nat \<Rightarrow> nat \<Rightarrow> re_regs" where
  "regs_at pc p \<equiv> \<lparr>re_pc = pc, re_cptr = p, re_stack_len = 0\<rparr>"

lemma byte_char:
  assumes "byte_context s subj" "p < length subj"
  shows "get_char s p = Some (ucast (subj ! p), p + 1)"
proof -
  have "cbuf s ! p = subj ! p" using assms by (metis byte_context_def nth_take)
  then show ?thesis
    using assms by (simp add: byte_context_def get_char_def GET_CHAR_def rd8_def get_u8_def Suc_le_eq)
qed

lemma ucast_u16_u32: "(ucast (ucast (b :: u8) :: u16) :: u32) = ucast b"
  by (rule bit_word_eqI) (auto simp: bit_ucast_iff dest: bit_imp_le_length)

lemma ucast_u8_eq: "(ucast (a :: u8) :: u32) = ucast b \<longleftrightarrow> a = b"
proof
  assume "(ucast a :: u32) = ucast b"
  then have "unat (ucast a :: u32) = unat (ucast b :: u32)" by (rule arg_cong)
  then show "a = b" by (simp add: word_unat_eq_iff)
qed simp

lemma test_byte:
  assumes "byte_context s subj" "p \<le> length subj"
  shows "test_char s m (regs_at pc p) (ucast b) =
    Some (if p < length subj \<and> subj ! p = b then Step m (regs_at pc (p + 1)) else No_match m)"
  using assms byte_char [OF assms(1), of p] ucast_u8_eq [of b "subj ! p"]
  by (auto simp: test_char_def byte_context_def canon_def not_less)

lemma body_run:
  assumes s: "byte_context s subj"
  shows "code_at (bc_buf s) pc (literal_body txt) \<Longrightarrow> p \<le> length subj \<Longrightarrow>
    (if occurs txt subj p then returns s m (regs_at (pc + length (literal_body txt)) (p + length txt)) m' v
     else follow s (re_recurse s m False (state_stack_len m)) m' v) \<Longrightarrow>
    returns s m (regs_at pc p) m' v"
proof (induction "txt" arbitrary: pc p)
  case Nil
  then show ?case by (simp add: literal_body_def)
next
  case (Cons b bs)
  have c: "code_at (bc_buf s) pc (reop_code REOP_char # le16 (ucast b))" "code_at (bc_buf s) (pc + 3) (literal_body bs)"
    using Cons.prems(1) code_at_append [of "bc_buf s" pc "reop_code REOP_char # le16 (ucast b)" "literal_body bs"]
    by (simp_all add: literal_body_def eval_nat_numeral)
  have "rd16 (bc_buf s) (pc + 1) = Some (ucast b)"
    using rd16_code [OF code_at_tail [OF c(1)]] by (simp add: ucast_u16_u32)
  then have op: "exec_op s REOP_char m ((regs_at pc p)\<lparr>re_pc := re_pc (regs_at pc p) + 1\<rparr>) =
      Some (if p < length subj \<and> subj ! p = b then Step m (regs_at (pc + 3) (p + 1)) else No_match m)"
    using test_byte [OF s Cons.prems(2), of m "pc + 3" b] by (simp add: eval_nat_numeral)
  show ?case
  proof (rule returns_op [OF _ _ op])
    show "code_at (bc_buf s) (re_pc (regs_at pc p)) (reop_code REOP_char # le16 (ucast b))" using c(1) by simp
    have len: "pc + length (literal_body (b # bs)) = pc + 3 + length (literal_body bs)" "p + length (b # bs) = p + 1 + length bs"
      by (simp_all add: literal_body_def)
    show "follow s (resolve s (if p < length subj \<and> subj ! p = b then Step m (regs_at (pc + 3) (p + 1)) else No_match m)) m' v"
    proof (cases "p < length subj \<and> subj ! p = b")
      case True
      then have "occurs (b # bs) subj p = occurs bs subj (p + 1)" by (simp add: occurs_Cons)
      from Cons.prems(3) [unfolded this len] have "returns s m (regs_at (pc + 3) (p + 1)) m' v"
        using True by (intro Cons.IH [OF c(2)]) simp_all
      then show ?thesis using True by simp
    next
      case False
      then have "\<not> occurs (b # bs) subj p" by (auto simp: occurs_Cons)
      then show ?thesis using False Cons.prems(3) by (simp only: if_False resolve.simps)
    qed
  qed simp
qed

text \<open>One attempt at position \<open>p\<close>: the two marks of the match, and the test of the text between them.\<close>

definition marked :: "re_memory \<Rightarrow> nat \<Rightarrow> re_memory" where
  "marked m p = m\<lparr>capture := (capture m)[0 := Some p]\<rparr>"

definition matched :: "re_memory \<Rightarrow> nat \<Rightarrow> nat \<Rightarrow> re_memory" where
  "matched m p q = m\<lparr>capture := (capture m)[0 := Some p, 1 := Some q]\<rparr>"

lemma attempt_run:
  assumes s: "byte_context s subj" and p: "p \<le> length subj" and m: "2 \<le> length (capture m)"
    and code: "code_at (bc_buf s) pc ([reop_code REOP_save_start, 0] @ literal_body txt @
      [reop_code REOP_save_end, 0, reop_code REOP_match])"
    and hit: "occurs txt subj p \<Longrightarrow> follow s (re_recurse s (matched m p (p + length txt)) True (state_stack_len m)) m' v"
    and miss: "\<not> occurs txt subj p \<Longrightarrow> follow s (re_recurse s (marked m p) False (state_stack_len m)) m' v"
  shows "returns s m (regs_at pc p) m' v"
proof -
  let ?e = "pc + 2 + length (literal_body txt)"
  have c: "code_at (bc_buf s) pc [reop_code REOP_save_start, 0]" "code_at (bc_buf s) (pc + 2) (literal_body txt)"
      "code_at (bc_buf s) ?e [reop_code REOP_save_end, 0]" "code_at (bc_buf s) (?e + 2) [reop_code REOP_match]"
  proof -
    have "[reop_code REOP_save_end, 0, reop_code REOP_match] = [reop_code REOP_save_end, 0] @ [reop_code REOP_match]" by simp
    from code [unfolded this code_at_append] show "code_at (bc_buf s) pc [reop_code REOP_save_start, 0]"
      "code_at (bc_buf s) (pc + 2) (literal_body txt)" "code_at (bc_buf s) ?e [reop_code REOP_save_end, 0]"
      "code_at (bc_buf s) (?e + 2) [reop_code REOP_match]"
      unfolding length_Cons list.size by (simp_all only: numeral_2_eq_2 add_0 add_0_right plus_1_eq_Suc add_Suc_right add_Suc)
  qed
  have s0: "rd8 (bc_buf s) (pc + 1) = Some 0" "rd8 (bc_buf s) (?e + 1) = Some 0"
    using rd8_code [OF code_at_tail [OF c(1)]] rd8_code [OF code_at_tail [OF c(3)]] by simp_all
  have len: "0 < length (capture m)" "1 < length (capture m)" using m by linarith+
  have start: "exec_op s REOP_save_start m ((regs_at pc p)\<lparr>re_pc := re_pc (regs_at pc p) + 1\<rparr>) =
      Some (Step (marked m p) (regs_at (pc + 2) p))"
    using s s0(1) len by (simp add: exec_save_def byte_context_def marked_def)
  have "returns s (marked m p) (regs_at ?e (p + length txt)) m' v" if o: "occurs txt subj p"
  proof -
    have "exec_op s REOP_save_end (marked m p) ((regs_at ?e (p + length txt))\<lparr>re_pc := re_pc (regs_at ?e (p + length txt)) + 1\<rparr>) =
        Some (Step (matched m p (p + length txt)) (regs_at (?e + 2) (p + length txt)))"
      using s s0(2) len by (simp add: exec_save_def byte_context_def marked_def matched_def)
    moreover have "returns s (matched m p (p + length txt)) (regs_at (?e + 2) (p + length txt)) m' v"
      by (rule returns_op [where opc = REOP_match and xs = "[]" and st = "Matched (matched m p (p + length txt)) (p + length txt)"])
        (use c(4) hit [OF o] in \<open>simp_all add: matched_def\<close>)
    ultimately show ?thesis
      by (intro returns_op [where opc = REOP_save_end and xs = "[0]"
            and st = "Step (matched m p (p + length txt)) (regs_at (?e + 2) (p + length txt))"]) (use c(3) in simp_all)
  qed
  then have "returns s (marked m p) (regs_at (pc + 2) p) m' v"
    by (intro body_run [OF s c(2) p]) (use miss in \<open>simp add: marked_def\<close>)
  then show ?thesis
    by (intro returns_op [where opc = REOP_save_start and xs = "[0]" and st = "Step (marked m p) (regs_at (pc + 2) p)"])
      (use c(1) start in simp_all)
qed

section \<open>The search\<close>

text \<open>
  Between two attempts the stack of saved states is empty and the match is not set; the first attempt allocates
  room for eight states.
\<close>

definition idle :: "re_memory \<Rightarrow> bool" where
  "idle m \<longleftrightarrow> state_stack_len m = 0 \<and> length (state_stack m) = state_stack_size m \<and>
     (\<exists>rest. capture m = None # None # rest)"

definition saved_start :: "re_exec_state \<Rightarrow> nat \<Rightarrow> bool" where
  "saved_start rs p \<longleftrightarrow> rs_type rs = RE_EXEC_STATE_SPLIT \<and> rs_stack_len rs = 0 \<and> rs_cptr rs = p \<and> rs_pc rs = 12 \<and>
     rs_capture rs = [None, None]"

lemma push_start:
  assumes "byte_context s subj" "idle m" "realloc_contract (lre_realloc s)"
  obtains m1 where "push_state s m 0 12 p RE_EXEC_STATE_SPLIT 0 = Some (m1, -1)" "refused (lre_realloc s) 8"
  | m1 where "push_state s m 0 12 p RE_EXEC_STATE_SPLIT 0 = Some (m1, 0)" "state_stack_len m1 = 1"
      "length (state_stack m1) = state_stack_size m1" "0 < length (state_stack m1)" "saved_start (state_stack m1 ! 0) p"
      "capture m1 = capture m"
proof -
  obtain m0 r where g: "grow_states s m = (m0, r)" by (metis surj_pair)
  have "r = -1 \<and> refused (lre_realloc s) 8 \<or> r = 0 \<and> state_stack_len m0 = 0 \<and>
      length (state_stack m0) = state_stack_size m0 \<and> 0 < length (state_stack m0) \<and> capture m0 = capture m"
    using g assms(2)
    by (auto simp: grow_states_def idle_def Let_def refused_def dest: realloc_contract.realloc_length [OF assms(3)]
        split: if_splits option.splits)
  then show thesis
  proof
    assume "r = -1 \<and> refused (lre_realloc s) 8"
    then show thesis using that(1) g by (simp add: push_state_def)
  next
    assume m0: "r = 0 \<and> state_stack_len m0 = 0 \<and>
      length (state_stack m0) = state_stack_size m0 \<and> 0 < length (state_stack m0) \<and> capture m0 = capture m"
    let ?rs = "\<lparr>rs_type = RE_EXEC_STATE_SPLIT, rs_stack_len = 0, rs_count = 0, rs_cptr = p, rs_pc = 12,
        rs_capture = [None, None], rs_stack = []\<rparr>"
    have "push_state s m 0 12 p RE_EXEC_STATE_SPLIT 0 =
        Some (m0\<lparr>state_stack := (state_stack m0)[0 := ?rs], state_stack_len := 1\<rparr>, 0)"
      using m0 g assms(1,2) by (auto simp: push_state_def byte_context_def idle_def)
    then show thesis using that(2) m0 by (simp add: saved_start_def)
  qed
qed

text \<open>The outcome of a search that starts at \<open>p\<close>.\<close>

definition found :: "u8 list \<Rightarrow> bytes \<Rightarrow> nat \<Rightarrow> nat \<Rightarrow> re_memory \<Rightarrow> bool" where
  "found txt subj p i m \<longleftrightarrow> p \<le> i \<and> occurs txt subj i \<and> (\<forall>j. p \<le> j \<and> j < i \<longrightarrow> \<not> occurs txt subj j) \<and>
     capture m ! 0 = Some i \<and> capture m ! 1 = Some (i + length txt)"

definition search_result :: "re_exec_state realloc_fun \<Rightarrow> u8 list \<Rightarrow> bytes \<Rightarrow> nat \<Rightarrow> re_memory \<Rightarrow> int \<Rightarrow> bool" where
  "search_result rf txt subj p m v \<longleftrightarrow> v = -1 \<and> refused rf 8 \<or>
     v = 0 \<and> (\<forall>i \<ge> p. \<not> occurs txt subj i) \<or> v = 1 \<and> (\<exists>i. found txt subj p i m)"

lemma search_result_Suc:
  assumes "search_result rf txt subj (p + 1) m v" "\<not> occurs txt subj p"
  shows "search_result rf txt subj p m v"
proof -
  have le: "p \<le> j \<longleftrightarrow> j = p \<or> p + 1 \<le> j" for j by auto
  show ?thesis using assms unfolding search_result_def found_def le by auto
qed

text \<open>A failed attempt resumes the saved state: the match is unset, and the search goes on behind the split.\<close>

lemma resume_start:
  assumes "saved_start (state_stack m1 ! 0) p" "0 < length (state_stack m1)" "length (state_stack m1) = state_stack_size m1"
    and "capture m1 = None # None # rest"
  obtains m2 where "re_recurse s (marked m1 p) False 1 = Some (Step m2 (regs_at 12 p))" "idle m2"
proof (rule that)
  let ?rs = "state_stack m1 ! 0"
  let ?m2 = "restore_stack ?rs (restore_capture ?rs (marked m1 p))\<lparr>state_stack_len := 0\<rparr>"
  show "re_recurse s (marked m1 p) False 1 = Some (Step ?m2 (regs_at 12 p))"
    using assms(1,2) by (simp add: marked_def saved_start_def saved_regs_def Let_def)
  show "idle ?m2"
    using assms by (simp add: idle_def marked_def saved_start_def restore_stack_def restore_capture_def blit_def)
qed

lemma search_run:
  assumes s: "byte_context s subj" "realloc_contract (lre_realloc s)"
    and code: "code_at (bc_buf s) 7 (reop_code REOP_split_goto_first # le32 6)" "code_at (bc_buf s) 12 [reop_code REOP_any]"
      "code_at (bc_buf s) 13 (reop_code REOP_goto # le32 (- 11))"
      "code_at (bc_buf s) 18 ([reop_code REOP_save_start, 0] @ literal_body txt @ [reop_code REOP_save_end, 0, reop_code REOP_match])"
  shows "idle m \<Longrightarrow> p \<le> length subj \<Longrightarrow>
    \<exists>m' v. returns s m (regs_at 7 p) m' v \<and> search_result (lre_realloc s) txt subj p m' v"
proof (induction "length subj - p" arbitrary: m p rule: less_induct)
  case less
  have v: "rd32 (bc_buf s) 8 = Some 6" "rd32 (bc_buf s) 14 = Some (- 11)"
    using rd32_code [OF code_at_tail [OF code(1)]] rd32_code [OF code_at_tail [OF code(3)]] by simp_all
  obtain rest where cap: "capture m = None # None # rest" using less.prems(1) by (auto simp: idle_def)
  show ?case
  proof (rule push_start [OF s(1) less.prems(1) s(2), of p])
    fix m1 assume m1: "push_state s m 0 12 p RE_EXEC_STATE_SPLIT 0 = Some (m1, -1)" "refused (lre_realloc s) 8"
    have "returns s m (regs_at 7 p) m1 (-1)"
      by (rule returns_op [where opc = REOP_split_goto_first and xs = "le32 6" and st = "Return m1 (-1)"])
        (use code(1) v m1(1) in \<open>simp_all add: exec_split_def push_and_go_def jump_def Let_def\<close>)
    then show ?thesis using m1(2) by (auto simp: search_result_def)
  next
    fix m1 assume m1: "push_state s m 0 12 p RE_EXEC_STATE_SPLIT 0 = Some (m1, 0)" "state_stack_len m1 = 1"
      "length (state_stack m1) = state_stack_size m1" "0 < length (state_stack m1)" "saved_start (state_stack m1 ! 0) p"
      "capture m1 = capture m"
    have split: "returns s m (regs_at 7 p) m' v" if "returns s m1 (regs_at 18 p) m' v" for m' v
      by (rule returns_op [where opc = REOP_split_goto_first and xs = "le32 6" and st = "Step m1 (regs_at 18 p)"])
        (use that code(1) v m1(1) in \<open>simp_all add: exec_split_def push_and_go_def jump_def Let_def\<close>)
    have cap1: "capture m1 = None # None # rest" using cap m1(6) by simp
    then have len: "2 \<le> length (capture m1)" by simp
    show ?thesis
    proof (cases "occurs txt subj p")
      case True
      let ?m = "(matched m1 p (p + length txt))\<lparr>state_stack_len := 0\<rparr>"
      have "returns s m1 (regs_at 18 p) ?m 1"
        by (rule attempt_run [OF s(1) less.prems(2) len code(4)])
          (use True m1(2-5) in \<open>simp_all add: matched_def saved_start_def Let_def\<close>)
      moreover have "found txt subj p p ?m" using True cap1 by (auto simp: found_def matched_def)
      ultimately show ?thesis using split by (auto simp: search_result_def)
    next
      case False
      obtain m2 where m2: "re_recurse s (marked m1 p) False 1 = Some (Step m2 (regs_at 12 p))" "idle m2"
        using resume_start [OF m1(5,4,3) cap1] .
      have miss: "returns s m (regs_at 7 p) m' v" if "returns s m2 (regs_at 12 p) m' v" for m' v
        by (rule split, rule attempt_run [OF s(1) less.prems(2) len code(4)]) (use that False m1(2) m2(1) in simp_all)
      show ?thesis
      proof (cases "p = length subj")
        case True
        have "returns s m2 (regs_at 12 p) (m2\<lparr>state_stack_len := 0\<rparr>) 0"
          by (rule returns_op [where opc = REOP_any and xs = "[]" and st = "No_match m2"])
            (use code(2) True s(1) m2(2) in \<open>simp_all add: exec_any_def byte_context_def idle_def\<close>)
        moreover have "\<forall>i \<ge> p. \<not> occurs txt subj i" using False True by (auto simp: occurs_def)
        ultimately show ?thesis using miss unfolding search_result_def by blast
      next
        case lt: False
        have "length subj - (p + 1) < length subj - p" "p + 1 \<le> length subj" using lt less.prems(2) by linarith+
        from less.hyps [OF this(1) m2(2) this(2)]
        obtain m' v where r: "returns s m2 (regs_at 7 (p + 1)) m' v" "search_result (lre_realloc s) txt subj (p + 1) m' v"
          by blast
        have "returns s m2 (regs_at 13 (p + 1)) m' v"
          by (rule returns_op [where opc = REOP_goto and xs = "le32 (- 11)" and st = "Step m2 (regs_at 7 (p + 1))"])
            (use code(3) v r(1) in \<open>simp_all add: exec_goto_def jump_def\<close>)
        then have "returns s m2 (regs_at 12 p) m' v"
          using lt s(1) less.prems(2) byte_char [OF s(1), of p] code(2)
          by (intro returns_op [where opc = REOP_any and xs = "[]" and st = "Step m2 (regs_at 13 (p + 1))"])
            (simp_all add: exec_any_def byte_context_def)
        then show ?thesis using miss search_result_Suc [OF r(2) False] by blast
      qed
    qed
  qed
qed

section \<open>From the pattern to the result\<close>

lemma flag_byte: "(ucast (re_flags :: u32) AND 2 :: u8) = ucast (re_flags AND 2)"
  by (rule bit_word_eqI) (auto simp: bit_simps)

lemma literal_context:
  assumes "bc = h @ rest" "length h = 7" "h ! 0 = ucast (re_flags :: u32)" "h ! 1 = 1" "re_flags AND 2 = 0" "clen \<le> length subject"
  shows "byte_context (exec_context bc subject clen 0 addr rf) (take clen subject)"
  using assms flag_byte [of re_flags]
  by (simp add: byte_context_def exec_context_def Let_def nth_append min_absorb2)

lemma literal_exec:
  assumes "returns (exec_context bc subject clen 0 addr rf)
      \<lparr>capture = clear_captures 2 cap, re_stack = map garbage [0 ..< unat (bc ! 2)], state_stack = [], state_stack_size = 0,
        state_stack_len = 0, re_requests = 0\<rparr> (regs_at 7 cindex) m v"
    and "byte_context (exec_context bc subject clen 0 addr rf) subj" "clen < 2 ^ 31" "cindex \<le> clen" "2 \<le> length cap"
  shows "\<exists>k. \<forall>n \<ge> k. lre_exec n cap garbage bc subject cindex clen 0 addr rf = RE_ret m (RE_int v)"
proof -
  have "stack_size_max (exec_context bc subject clen 0 addr rf) = unat (bc ! 2)" by (simp add: exec_context_def Let_def)
  then have "lre_exec n cap garbage bc subject cindex clen 0 addr rf =
      lre_exec_backtrack n (exec_context bc subject clen 0 addr rf)
        \<lparr>capture = clear_captures 2 cap, re_stack = map garbage [0 ..< unat (bc ! 2)], state_stack = [], state_stack_size = 0,
          state_stack_len = 0, re_requests = 0\<rparr> (regs_at 7 cindex) False" for n
    using assms(2-5) by (simp add: lre_exec_def Let_def byte_context_def)
  then show ?thesis using assms(1) by (simp add: returns_def)
qed

lemma literal_sticky_run:
  assumes run: "lre_compile fuel txt re_flags host_bc host_names host_cr overflow = Some (Inr bc)"
    and host: "realloc_contract host_bc" and pl: "list_all plain txt" and flags: "re_flags AND 2 = 0" "re_flags AND 32 \<noteq> 0"
    and input: "clen \<le> length subject" "clen < 2 ^ 31" "cindex \<le> clen" "2 \<le> length cap"
  shows "\<exists>k m. (\<forall>n \<ge> k. lre_exec n cap garbage bc subject cindex clen 0 addr rf =
        RE_ret m (RE_int (if occurs txt (take clen subject) cindex then 1 else 0))) \<and>
      (occurs txt (take clen subject) cindex \<longrightarrow>
        capture m ! 0 = Some cindex \<and> capture m ! 1 = Some (cindex + length txt))"
proof -
  obtain h where h: "bc = h @ literal_code re_flags txt" "length h = 7" "h ! 0 = ucast re_flags" "h ! 1 = 1"
    using compile_literal [OF run host pl flags(1)] .
  let ?s = "exec_context bc subject clen 0 addr rf" and ?subj = "take clen subject"
  let ?m = "\<lparr>capture = clear_captures 2 cap, re_stack = map garbage [0 ..< unat (bc ! 2)], state_stack = [],
      state_stack_size = 0, state_stack_len = 0, re_requests = 0\<rparr>"
  note s = literal_context [OF h flags(1) input(1), of addr rf]
  have code: "code_at (bc_buf ?s) 7 ([reop_code REOP_save_start, 0] @ literal_body txt @
      [reop_code REOP_save_end, 0, reop_code REOP_match])"
    using code_at_middle [of h "literal_code re_flags txt" "[]"] h flags(2)
    by (simp add: literal_code_def literal_prefix_def exec_context_def Let_def)
  have cap: "2 \<le> length (clear_captures 2 cap)" using input(4) by (simp add: clear_captures_def)
  then have "0 < length (clear_captures 2 cap)" "1 < length (clear_captures 2 cap)" by linarith+
  note len = cap this
  let ?hit = "occurs txt ?subj cindex"
  define m where "m = (if ?hit then matched ?m cindex (cindex + length txt) else marked ?m cindex)"
  have "returns ?s ?m (regs_at 7 cindex) m (if ?hit then 1 else 0)"
    by (rule attempt_run [OF s _ _ code]) (use cap input in \<open>simp_all add: m_def matched_def marked_def\<close>)
  moreover have "?hit \<longrightarrow> capture m ! 0 = Some cindex \<and> capture m ! 1 = Some (cindex + length txt)"
    using len by (simp add: m_def matched_def)
  ultimately show ?thesis using literal_exec [OF _ s input(2-4)] by blast
qed

lemma literal_search_run:
  assumes run: "lre_compile fuel txt re_flags host_bc host_names host_cr overflow = Some (Inr bc)"
    and host: "realloc_contract host_bc" and pl: "list_all plain txt" and flags: "re_flags AND 2 = 0" "re_flags AND 32 = 0"
    and rf: "realloc_contract rf"
    and input: "clen \<le> length subject" "clen < 2 ^ 31" "cindex \<le> clen" "2 \<le> length cap"
  shows "\<exists>k m v. (\<forall>n \<ge> k. lre_exec n cap garbage bc subject cindex clen 0 addr rf = RE_ret m (RE_int v)) \<and>
      search_result rf txt (take clen subject) cindex m v"
proof -
  obtain h where h: "bc = h @ literal_code re_flags txt" "length h = 7" "h ! 0 = ucast re_flags" "h ! 1 = 1"
    using compile_literal [OF run host pl flags(1)] .
  let ?s = "exec_context bc subject clen 0 addr rf" and ?subj = "take clen subject"
  let ?m = "\<lparr>capture = clear_captures 2 cap, re_stack = map garbage [0 ..< unat (bc ! 2)], state_stack = [],
      state_stack_size = 0, state_stack_len = 0, re_requests = 0\<rparr>"
  note s = literal_context [OF h flags(1) input(1), of addr rf]
  have b: "bc_buf ?s = bc" "lre_realloc ?s = rf" by (simp_all add: exec_context_def Let_def)
  have "code_at bc 7 ((reop_code REOP_split_goto_first # le32 6) @ [reop_code REOP_any] @ (reop_code REOP_goto # le32 (- 11)) @
      ([reop_code REOP_save_start, 0] @ literal_body txt @ [reop_code REOP_save_end, 0, reop_code REOP_match]))"
    using code_at_middle [of h "literal_code re_flags txt" "[]"] h flags(2)
    by (simp add: literal_code_def literal_prefix_def)
  then have code: "code_at bc 7 (reop_code REOP_split_goto_first # le32 6)" "code_at bc 12 [reop_code REOP_any]"
      "code_at bc 13 (reop_code REOP_goto # le32 (- 11))"
      "code_at bc 18 ([reop_code REOP_save_start, 0] @ literal_body txt @ [reop_code REOP_save_end, 0, reop_code REOP_match])"
    unfolding code_at_append [of bc 7] code_at_append [of bc "7 + length (reop_code REOP_split_goto_first # le32 6)"]
      code_at_append [of bc "7 + length (reop_code REOP_split_goto_first # le32 6) + length [reop_code REOP_any]"]
    by simp_all
  have "idle ?m" using input(4) by (cases cap; cases "tl cap") (auto simp: idle_def clear_captures_def blit_def eval_nat_numeral)
  moreover have "cindex \<le> length ?subj" using input(1,3) by simp
  ultimately obtain m v where "returns ?s ?m (regs_at 7 cindex) m v" "search_result rf txt ?subj cindex m v"
    using search_run [OF s, unfolded b, OF rf code, of ?m cindex] by blast
  then show ?thesis using literal_exec [OF _ s input(2-4)] by blast
qed

end
