(* ===== verification/RegexpRanges.thy ===== *)
theory RegexpRanges
  imports RegexpTyped
begin

text \<open>
  Character classes from the compiler to the interpreter: the table that \<^verbatim>\<open>re_emit_range\<close> writes is the set of
  code points, as the binary search of \<^verbatim>\<open>REOP_range\<close> and \<^verbatim>\<open>REOP_range32\<close> reads it.
\<close>

section \<open>Binary search\<close>

text \<open>A table of \<open>n\<close> pairs of bounds in increasing order, read by \<open>rd\<close>.\<close>

definition bounds_table ::
  "(nat \<Rightarrow> u32 option) \<Rightarrow> nat \<Rightarrow> nat \<Rightarrow> nat \<Rightarrow> (nat \<Rightarrow> u32) \<Rightarrow> (nat \<Rightarrow> u32) \<Rightarrow> bool" where
  "bounds_table rd w pc n lo hi \<longleftrightarrow> 0 < w \<and> 2 * w * n < 2 ^ 31 \<and>
     (\<forall>i < n. rd (pc + i * (2 * w)) = Some (lo i) \<and> rd (pc + i * (2 * w) + w) = Some (hi i) \<and> lo i \<le> hi i) \<and>
     (\<forall>i j. i < j \<longrightarrow> j < n \<longrightarrow> hi i < lo j)"

definition in_bounds :: "(nat \<Rightarrow> u32) \<Rightarrow> (nat \<Rightarrow> u32) \<Rightarrow> u32 \<Rightarrow> nat \<Rightarrow> nat \<Rightarrow> bool" where
  "in_bounds lo hi c a b \<longleftrightarrow> (\<exists>i. a \<le> i \<and> i \<le> b \<and> lo i \<le> c \<and> c \<le> hi i)"

lemma in_bounds_below:
  assumes T: "bounds_table rd w pc n lo hi" and i: "a \<le> i" "i \<le> b" "b < n" "0 < i" and c: "c < lo i"
  shows "in_bounds lo hi c a b \<longleftrightarrow> in_bounds lo hi c a (i - 1)"
proof -
  have "lo i \<le> lo j" if "i \<le> j" "j \<le> b" for j
  proof (cases "i = j")
    case False
    then have "hi i < lo j" "lo i \<le> hi i" using T that i(3) by (auto simp: bounds_table_def)
    then show ?thesis by simp
  qed simp
  then have key: "j < i" if "j \<le> b" "lo j \<le> c" for j
    using that c by (metis not_less order_trans)
  show ?thesis
    unfolding in_bounds_def
  proof (rule ex_cong1)
    show "a \<le> j \<and> j \<le> b \<and> lo j \<le> c \<and> c \<le> hi j \<longleftrightarrow> a \<le> j \<and> j \<le> i - 1 \<and> lo j \<le> c \<and> c \<le> hi j" for j
      using key [of j] i by auto
  qed
qed

lemma in_bounds_above:
  assumes T: "bounds_table rd w pc n lo hi" and i: "a \<le> i" "i \<le> b" "b < n" and c: "hi i < c"
  shows "in_bounds lo hi c a b \<longleftrightarrow> in_bounds lo hi c (i + 1) b"
proof -
  have "hi j \<le> hi i" if "j \<le> i" for j
  proof (cases "j = i")
    case False
    then have "hi j < lo i" "lo i \<le> hi i" using T that i by (auto simp: bounds_table_def)
    then show ?thesis by simp
  qed simp
  then have key: "i + 1 \<le> j" if "c \<le> hi j" for j
    using that c by (metis Suc_eq_plus1 not_less not_less_eq_eq order_trans)
  show ?thesis
    unfolding in_bounds_def
  proof (rule ex_cong1)
    show "a \<le> j \<and> j \<le> b \<and> lo j \<le> c \<and> c \<le> hi j \<longleftrightarrow> i + 1 \<le> j \<and> j \<le> b \<and> lo j \<le> c \<and> c \<le> hi j" for j
      using key [of j] i by auto
  qed
qed

lemma range_search_correct:
  assumes T: "bounds_table rd w pc n lo hi" and first: "lo 0 \<le> c" and n0: "0 < n"
  shows "idx_max < of_nat n \<Longrightarrow> idx_min \<le> of_nat n \<Longrightarrow>
    range_search rd w pc c idx_min idx_max = Some (in_bounds lo hi c (unat idx_min) (unat idx_max))"
proof (induction "Suc (unat idx_max) - unat idx_min" arbitrary: idx_min idx_max rule: less_induct)
  case less
  have w: "0 < w" "2 * w * n < 2 ^ 31" using T by (auto simp: bounds_table_def)
  have n: "n < 2 ^ 31" using table_size [OF w] .
  have bounds: "unat idx_max < n" "unat idx_min \<le> n" "idx_min \<le> idx_max \<longleftrightarrow> unat idx_min \<le> unat idx_max"
    using less.prems n by (auto simp: word_less_nat_alt word_le_nat_alt unat_of_nat)
  show ?case
  proof (cases "unat idx_min \<le> unat idx_max")
    case False
    then show ?thesis using bounds by (subst range_search.simps) (auto simp: in_bounds_def)
  next
    case True
    define idx where "idx = (idx_min + idx_max) div 2"
    have sum: "unat (idx_min + idx_max) = unat idx_min + unat idx_max"
      using bounds n by (subst unat_add_lem [THEN iffD1]) auto
    have idx: "unat idx = (unat idx_min + unat idx_max) div 2"
      by (simp add: idx_def unat_div sum)
    then have mid: "unat idx_min \<le> unat idx" "unat idx \<le> unat idx_max" using True by simp_all
    have off: "unat (idx * of_nat (2 * w)) = unat idx * (2 * w)"
      by (rule table_offset [OF w]) (use mid bounds in linarith)
    have r: "rd (pc + unat idx * (2 * w)) = Some (lo (unat idx))" "rd (pc + unat idx * (2 * w) + w) = Some (hi (unat idx))"
      using T mid bounds(1) by (auto simp: bounds_table_def)
    have "range_search rd w pc c idx_min (idx - 1) = Some (in_bounds lo hi c (unat idx_min) (unat idx_max))"
      if c: "c < lo (unat idx)"
    proof -
      have pos: "0 < unat idx" using c first by (metis gr0I leD)
      then have p: "unat (idx - 1) = unat idx - 1" by (metis less_irrefl unat_0 unat_minus_one)
      have "range_search rd w pc c idx_min (idx - 1) = Some (in_bounds lo hi c (unat idx_min) (unat (idx - 1)))"
        by (rule less.hyps) (use p pos mid bounds less.prems n in \<open>auto simp: word_less_nat_alt word_le_nat_alt unat_of_nat\<close>)
      then show ?thesis using in_bounds_below [OF T mid bounds(1) pos c] p by simp
    qed
    moreover have "range_search rd w pc c (idx + 1) idx_max = Some (in_bounds lo hi c (unat idx_min) (unat idx_max))"
      if c: "hi (unat idx) < c"
    proof -
      have s: "unat (idx + 1) = unat idx + 1"
        using mid bounds n by (subst unat_add_lem [THEN iffD1]) auto
      have "range_search rd w pc c (idx + 1) idx_max = Some (in_bounds lo hi c (unat (idx + 1)) (unat idx_max))"
        by (rule less.hyps) (use s mid bounds less.prems n in \<open>auto simp: word_less_nat_alt word_le_nat_alt unat_of_nat\<close>)
      then show ?thesis using in_bounds_above [OF T mid bounds(1) c] s by simp
    qed
    moreover have "in_bounds lo hi c (unat idx_min) (unat idx_max)"
      if "\<not> c < lo (unat idx)" "\<not> hi (unat idx) < c"
      using that mid by (auto simp: in_bounds_def not_less)
    ultimately show ?thesis
      using True bounds r off by (subst range_search.simps) (auto simp: Let_def idx_def [symmetric])
  qed
qed

lemma range_test_correct:
  assumes T: "bounds_table rd w pc n lo hi" and n: "0 < n"
  shows "range_test rd w infinity pc (of_nat n) c =
    Some (in_bounds lo hi c 0 (n - 1) \<or> infinity \<and> hi (n - 1) = 0xffff \<and> 0xffff \<le> c)"
proof -
  have w: "0 < w" "2 * w * n < 2 ^ 31" using T by (auto simp: bounds_table_def)
  have n31: "n < 2 ^ 31" using table_size w by blast
  then have nn: "unat (of_nat n :: u32) = n" by (simp add: unat_of_nat take_bit_eq_mod)
  have "(of_nat n :: u32) \<noteq> 0" using nn n by (metis less_irrefl unat_0)
  then have last: "unat (of_nat n - 1 :: u32) = n - 1" by (simp add: unat_minus_one nn)
  then have lt: "(of_nat n - 1 :: u32) < of_nat n" using nn n by (simp add: word_less_nat_alt)
  have off: "unat ((of_nat n - 1 :: u32) * of_nat (2 * w)) = (n - 1) * (2 * w)"
    using table_offset [OF w, of "of_nat n - 1"] last n by simp
  have low: "rd pc = Some (lo 0)" and high: "rd (pc + (n - 1) * (2 * w) + w) = Some (hi (n - 1))"
    using T n by (auto simp: bounds_table_def dest: spec [of _ 0] spec [of _ "n - 1"])
  have mono: "lo 0 \<le> lo i" "hi i \<le> hi (n - 1)" if "i < n" for i
  proof -
    have l: "lo i \<le> hi i" "lo 0 \<le> hi 0" "lo (n - 1) \<le> hi (n - 1)" using T that n by (auto simp: bounds_table_def)
    have "hi 0 < lo i" if "0 < i" using T that \<open>i < n\<close> by (auto simp: bounds_table_def)
    then show "lo 0 \<le> lo i" using l by (cases "i = 0") auto
    have "hi i < lo (n - 1)" if "i < n - 1" using T that by (auto simp: bounds_table_def)
    moreover have "i < n - 1 \<or> i = n - 1" using \<open>i < n\<close> by linarith
    ultimately show "hi i \<le> hi (n - 1)" using l by (elim disjE) (auto intro: less_imp_le less_le_trans)
  qed
  have s: "range_search rd w pc c 0 (of_nat n - 1) = Some (in_bounds lo hi c 0 (n - 1))" if "lo 0 \<le> c"
    using range_search_correct [OF T that n lt, of 0] last by simp
  have below: "\<not> in_bounds lo hi c 0 (n - 1)" "\<not> (hi (n - 1) = 0xffff \<and> 0xffff \<le> c)" if "c < lo 0"
  proof -
    show "\<not> in_bounds lo hi c 0 (n - 1)"
      using that mono(1) n by (auto simp: in_bounds_def) (metis Suc_pred le_imp_less_Suc leD less_le_trans)
    have "lo 0 \<le> hi (n - 1)" using mono(2) [of 0] T n by (auto simp: bounds_table_def intro: order_trans)
    then show "\<not> (hi (n - 1) = 0xffff \<and> 0xffff \<le> c)" using that by auto
  qed
  have above: "\<not> in_bounds lo hi c 0 (n - 1)" if "hi (n - 1) < c"
    using that mono(2) n by (auto simp: in_bounds_def) (metis Suc_pred le_imp_less_Suc leD le_less_trans)
  show ?thesis
    using low high off s below above by (auto simp: range_test_def Let_def not_less)
qed

section \<open>The emitted table\<close>

lemma odd_even_nth:
  assumes "cr_normal pts" "i < length pts div 2"
  shows "pts ! (2 * i) < pts ! (2 * i + 1)" "j < i \<Longrightarrow> pts ! (2 * j + 1) < pts ! (2 * i)"
  using assms by (auto simp: cr_normal_def sorted_wrt_iff_nth_less)

lemma cr_mem_nth:
  "cr_normal pts \<Longrightarrow> cr_mem pts c \<longleftrightarrow> (\<exists>i < length pts div 2. pts ! (2 * i) \<le> c \<and> c < pts ! (2 * i + 1))"
proof (induction pts c rule: in_intervals.induct)
  case (1 p q rest c)
  have "(\<exists>i < Suc (length rest div 2). (p # q # rest) ! (2 * i) \<le> c \<and> c < (p # q # rest) ! (2 * i + 1)) \<longleftrightarrow>
      p \<le> c \<and> c < q \<or> (\<exists>i < length rest div 2. rest ! (2 * i) \<le> c \<and> c < rest ! (2 * i + 1))"
    by (simp add: Ex_less_Suc2)
  then show ?case
    using 1 cr_normal_sorted_drop2 [OF "1.prems"] cr_mem_in_intervals [OF "1.prems"]
      cr_mem_in_intervals [of rest c] by simp
qed (auto simp: cr_normal_def)

definition high16 :: "u32 \<Rightarrow> u32" where
  "high16 q = (if q - 1 = 0xffffffff - 1 then 0xffff else q - 1)"

lemma range16_bytes_Cons:
  "range16_bytes (p # q # rest) = le16 (ucast p) @ le16 (ucast (high16 q)) @ range16_bytes rest"
  by (simp add: high16_def)

lemma range32_bytes_at:
  "i < length pts div 2 \<Longrightarrow> code_at (range32_bytes pts) (i * 8) (le32 (pts ! (2 * i)) @ le32 (pts ! (2 * i + 1) - 1))"
proof (induction pts arbitrary: i rule: range32_bytes.induct)
  case (1 p q rest)
  show ?case
  proof (cases i)
    case 0
    then show ?thesis using code_at_middle [of "[]" "le32 p @ le32 (q - 1)" "range32_bytes rest"] by simp
  next
    case (Suc j)
    have "code_at (range32_bytes (p # q # rest)) 8 (range32_bytes rest)"
      using code_at_middle [of "le32 p @ le32 (q - 1)" "range32_bytes rest" "[]"] by simp
    from code_at_sub [OF this "1.IH" [of j]] show ?thesis using Suc "1.prems" by simp
  qed
qed simp_all

lemma range16_bytes_at:
  "i < length pts div 2 \<Longrightarrow>
   code_at (range16_bytes pts) (i * 4) (le16 (ucast (pts ! (2 * i))) @ le16 (ucast (high16 (pts ! (2 * i + 1)))))"
proof (induction pts arbitrary: i rule: range16_bytes.induct)
  case (1 p q rest)
  show ?case
  proof (cases i)
    case 0
    then show ?thesis
      using code_at_middle [of "[]" "le16 (ucast p) @ le16 (ucast (high16 q))" "range16_bytes rest"]
      by (simp add: range16_bytes_Cons del: range16_bytes.simps)
  next
    case (Suc j)
    have "code_at (range16_bytes (p # q # rest)) 4 (range16_bytes rest)"
      using code_at_middle [of "le16 (ucast p) @ le16 (ucast (high16 q))" "range16_bytes rest" "[]"]
      by (simp add: range16_bytes_Cons del: range16_bytes.simps)
    from code_at_sub [OF this "1.IH" [of j]] show ?thesis using Suc "1.prems" by (simp del: range16_bytes.simps)
  qed
qed simp_all

lemma u16_roundtrip: "v \<le> 0xffff \<Longrightarrow> ucast (ucast (v :: u32) :: u16) = v"
proof -
  assume "v \<le> 0xffff"
  then have "unat v < 2 ^ 16" by (simp add: word_le_nat_alt)
  then show ?thesis
    by (intro word_unat_eq_iff [THEN iffD2]) (simp add: unsigned_ucast_eq unsigned_take_bit_eq take_bit_nat_eq_self)
qed

lemma minus_1_less: "p < q \<Longrightarrow> p \<le> q - 1 \<and> (c \<le> q - 1 \<longleftrightarrow> c < q)" for q :: u32
proof -
  assume a: "p < q"
  then have "q \<noteq> 0" by auto
  then have "unat (q - 1) = unat q - 1" "0 < unat q" by (simp_all add: unat_minus_one word_neq_0_conv unat_gt_0)
  then show ?thesis using a by (auto simp: word_less_nat_alt word_le_nat_alt)
qed

lemma bounds_table32:
  assumes pts: "cr_normal pts" "n = length pts div 2" "8 * n < 2 ^ 31" and at: "code_at bc pc (range32_bytes pts)"
  shows "bounds_table (rd32 bc) 4 pc n (\<lambda>i. pts ! (2 * i)) (\<lambda>i. pts ! (2 * i + 1) - 1)"
proof -
  have rd: "rd32 bc (pc + i * 8) = Some (pts ! (2 * i)) \<and> rd32 bc (pc + i * 8 + 4) = Some (pts ! (2 * i + 1) - 1)"
    if "i < n" for i
    using code_at_sub [OF at range32_bytes_at [of i pts]] that pts(2)
    by (auto simp: code_at_append intro: rd32_code)
  have le: "pts ! (2 * i) \<le> pts ! (2 * i + 1) - 1" if "i < n" for i
    using minus_1_less [OF odd_even_nth(1) [OF pts(1)]] odd_even_nth(1) [OF pts(1)] that pts(2) by simp
  have lt: "pts ! (2 * i + 1) - 1 < pts ! (2 * j)" if "i < j" "j < n" for i j
  proof -
    have "pts ! (2 * i + 1) - 1 < pts ! (2 * i + 1)"
      using minus_1_less [OF odd_even_nth(1) [OF pts(1), of i], where c = "pts ! (2 * i + 1) - 1"] that pts(2) by simp
    also have "\<dots> < pts ! (2 * j)" using odd_even_nth(2) [OF pts(1)] that pts(2) by simp
    finally show ?thesis .
  qed
  show ?thesis using rd le lt pts(3) by (simp add: bounds_table_def)
qed

text \<open>In the 16-bit form only the last interval may be open, and its end is written as 0xffff.\<close>

definition fits16 :: "u32 list \<Rightarrow> bool" where
  "fits16 pts \<longleftrightarrow> (let n = length pts div 2 in (\<forall>i < n. pts ! (2 * i) \<le> 0xffff) \<and>
     (\<forall>i < n. pts ! (2 * i + 1) \<le> 0xffff \<or> i = n - 1 \<and> pts ! (2 * i + 1) = 0xffffffff))"

lemma bounds_table16:
  assumes pts: "cr_normal pts" "n = length pts div 2" "4 * n < 2 ^ 31" "fits16 pts" and at: "code_at bc pc (range16_bytes pts)"
  shows "bounds_table (rd16 bc) 2 pc n (\<lambda>i. pts ! (2 * i)) (\<lambda>i. high16 (pts ! (2 * i + 1)))"
proof -
  have lo: "pts ! (2 * i) \<le> 0xffff"
    and hi: "pts ! (2 * i + 1) \<le> 0xffff \<or> i = n - 1 \<and> pts ! (2 * i + 1) = 0xffffffff" if "i < n" for i
    using pts(2,4) that by (auto simp: fits16_def Let_def)
  have lt: "pts ! (2 * i) < pts ! (2 * i + 1)" if "i < n" for i
    using odd_even_nth(1) [OF pts(1)] that pts(2) by simp
  have h: "pts ! (2 * i) \<le> high16 (pts ! (2 * i + 1)) \<and> high16 (pts ! (2 * i + 1)) \<le> 0xffff \<and>
      (pts ! (2 * i + 1) \<le> 0xffff \<longrightarrow> high16 (pts ! (2 * i + 1)) < pts ! (2 * i + 1))" if "i < n" for i
  proof -
    note m = minus_1_less [OF lt [OF that]]
    from hi [OF that] show ?thesis
    proof (elim disjE conjE)
      assume a: "pts ! (2 * i + 1) \<le> 0xffff"
      then have "pts ! (2 * i + 1) \<noteq> 0xffffffff" by auto
      then have "high16 (pts ! (2 * i + 1)) = pts ! (2 * i + 1) - 1" by (simp add: high16_def)
      moreover have less: "pts ! (2 * i + 1) - 1 < pts ! (2 * i + 1)" using m [where c = "pts ! (2 * i + 1) - 1"] by simp
      moreover have "pts ! (2 * i + 1) - 1 \<le> 0xffff" using less_imp_le [OF less] a by (rule order_trans)
      ultimately show ?thesis using m lt [OF that] by simp
    next
      assume "pts ! (2 * i + 1) = 0xffffffff"
      then show ?thesis using lo [OF that] by (simp add: high16_def)
    qed
  qed
  have rd: "rd16 bc (pc + i * 4) = Some (pts ! (2 * i)) \<and> rd16 bc (pc + i * 4 + 2) = Some (high16 (pts ! (2 * i + 1)))"
    if "i < n" for i
  proof -
    have "code_at bc (pc + i * 4) (le16 (ucast (pts ! (2 * i))))"
      "code_at bc (pc + i * 4 + 2) (le16 (ucast (high16 (pts ! (2 * i + 1)))))"
      using code_at_sub [OF at range16_bytes_at [of i pts]] that pts(2) by (auto simp: code_at_append)
    from rd16_code [OF this(1)] rd16_code [OF this(2)] show ?thesis
      using u16_roundtrip [OF lo [OF that]] u16_roundtrip [of "high16 (pts ! (2 * i + 1))"] h [OF that] by metis
  qed
  have "high16 (pts ! (2 * i + 1)) < pts ! (2 * j)" if "i < j" "j < n" for i j
  proof -
    have "pts ! (2 * i + 1) < pts ! (2 * j)" using odd_even_nth(2) [OF pts(1)] that pts(2) by simp
    moreover have "pts ! (2 * i + 1) \<le> 0xffff" using hi [of i] that by auto
    ultimately show ?thesis using h [of i] that by (auto intro: less_trans)
  qed
  then show ?thesis using rd h pts(3) by (simp add: bounds_table_def)
qed

lemma table_member:
  assumes pts: "cr_normal pts" "n = length pts div 2" "0 < n"
  shows "in_bounds (\<lambda>i. pts ! (2 * i)) (\<lambda>i. pts ! (2 * i + 1) - 1) c 0 (n - 1) \<longleftrightarrow> cr_mem pts c"
proof -
  have "pts ! (2 * i) \<le> c \<and> c \<le> pts ! (2 * i + 1) - 1 \<longleftrightarrow> pts ! (2 * i) \<le> c \<and> c < pts ! (2 * i + 1)" if "i < n" for i
    using minus_1_less [OF odd_even_nth(1) [OF pts(1)], of i c] that pts(2) by blast
  moreover have "i \<le> n - 1 \<longleftrightarrow> i < n" for i using pts(3) by linarith
  ultimately show ?thesis using cr_mem_nth [OF pts(1)] pts(2) by (auto simp: in_bounds_def)
qed

lemma table_member16:
  assumes pts: "cr_normal pts" "n = length pts div 2" "0 < n" "fits16 pts" and c: "c < 0xffffffff"
  shows "in_bounds (\<lambda>i. pts ! (2 * i)) (\<lambda>i. high16 (pts ! (2 * i + 1))) c 0 (n - 1) \<or>
      high16 (pts ! (2 * (n - 1) + 1)) = 0xffff \<and> 0xffff \<le> c \<longleftrightarrow> cr_mem pts c"
proof (cases "pts ! (2 * (n - 1) + 1) = 0xffffffff")
  case False
  have e: "pts ! (2 * i + 1) \<le> 0xffff" if "i < n" for i
    using pts(2,4) that False by (auto simp: fits16_def Let_def)
  have h: "high16 (pts ! (2 * i + 1)) = pts ! (2 * i + 1) - 1" if "i < n" for i
    using e [OF that] by (auto simp: high16_def)
  have "pts ! (2 * (n - 1) + 1) - 1 < 0xffff"
    using minus_1_less [OF odd_even_nth(1) [OF pts(1)], of "n - 1" "pts ! (2 * (n - 1) + 1) - 1"] e [of "n - 1"] pts(2,3)
    by (auto intro: less_le_trans)
  then have "high16 (pts ! (2 * (n - 1) + 1)) \<noteq> 0xffff" using h [of "n - 1"] pts(3) by auto
  moreover have "in_bounds (\<lambda>i. pts ! (2 * i)) (\<lambda>i. high16 (pts ! (2 * i + 1))) c 0 (n - 1) \<longleftrightarrow>
      in_bounds (\<lambda>i. pts ! (2 * i)) (\<lambda>i. pts ! (2 * i + 1) - 1) c 0 (n - 1)"
    unfolding in_bounds_def by (rule ex_cong1) (use h pts(3) in auto)
  ultimately show ?thesis using table_member [OF pts(1-3)] by simp
next
  case True
  let ?l = "pts ! (2 * (n - 1))"
  have l: "?l \<le> 0xffff" using pts(2-4) by (auto simp: fits16_def Let_def)
  have h: "high16 (pts ! (2 * i + 1)) = pts ! (2 * i + 1) - 1 \<and> (c \<le> pts ! (2 * i + 1) - 1 \<longleftrightarrow> c < pts ! (2 * i + 1))"
    if "i < n - 1" for i
  proof -
    have "i < n" "i \<noteq> n - 1" using that by auto
    then have "pts ! (2 * i + 1) \<le> 0xffff" using pts(2,4) unfolding fits16_def Let_def by blast
    then have "pts ! (2 * i + 1) \<noteq> 0xffffffff" by auto
    then show ?thesis using minus_1_less [OF odd_even_nth(1) [OF pts(1)], of i c] that pts(2) by (auto simp: high16_def)
  qed
  have split: "(\<exists>i < n. P i) \<longleftrightarrow> P (n - 1) \<or> (\<exists>i < n - 1. P i)" for P
    using pts(3) by (metis Suc_pred' less_Suc_eq)
  have "in_bounds (\<lambda>i. pts ! (2 * i)) (\<lambda>i. high16 (pts ! (2 * i + 1))) c 0 (n - 1) \<longleftrightarrow>
      (\<exists>i < n. pts ! (2 * i) \<le> c \<and> c \<le> high16 (pts ! (2 * i + 1)))"
    unfolding in_bounds_def by (rule ex_cong1) (use pts(3) in auto)
  also have "\<dots> \<longleftrightarrow> ?l \<le> c \<and> c \<le> high16 (pts ! (2 * (n - 1) + 1)) \<or>
      (\<exists>i < n - 1. pts ! (2 * i) \<le> c \<and> c \<le> high16 (pts ! (2 * i + 1)))"
    by (rule split)
  also have "high16 (pts ! (2 * (n - 1) + 1)) = 0xffff" unfolding True by (simp add: high16_def)
  also have "(\<exists>i < n - 1. pts ! (2 * i) \<le> c \<and> c \<le> high16 (pts ! (2 * i + 1))) \<longleftrightarrow>
      (\<exists>i < n - 1. pts ! (2 * i) \<le> c \<and> c < pts ! (2 * i + 1))"
    using h by (intro ex_cong1) (metis (no_types))
  finally have b: "in_bounds (\<lambda>i. pts ! (2 * i)) (\<lambda>i. high16 (pts ! (2 * i + 1))) c 0 (n - 1) \<longleftrightarrow>
      ?l \<le> c \<and> c \<le> 0xffff \<or> (\<exists>i < n - 1. pts ! (2 * i) \<le> c \<and> c < pts ! (2 * i + 1))" .
  have m: "cr_mem pts c \<longleftrightarrow> ?l \<le> c \<or> (\<exists>i < n - 1. pts ! (2 * i) \<le> c \<and> c < pts ! (2 * i + 1))"
    unfolding cr_mem_nth [OF pts(1)] pts(2) [symmetric] split using True c by simp
  have "?l \<le> c" if "0xffff \<le> c" using l that by (rule order_trans)
  moreover have "high16 (pts ! (2 * (n - 1) + 1)) = 0xffff" using True by (simp add: high16_def)
  ultimately show ?thesis unfolding b m by (auto simp: not_le intro: less_imp_le)
qed

lemma fits16_high:
  assumes pts: "cr_normal pts" "0 < length pts"
    and high: "(if pts ! (length pts - 1) = 0xffffffff then pts ! (length pts - 2) else pts ! (length pts - 1)) \<le> 0xffff"
  shows "fits16 pts"
proof -
  let ?n = "length pts div 2"
  have "length pts = 2 * ?n" using pts(1) by (simp add: cr_normal_def)
  then have n: "length pts = 2 * ?n" "0 < ?n" using pts(2) by linarith+
  have ix: "2 * (?n - 1) + 1 = length pts - 1" "2 * (?n - 1) = length pts - 2" using n by linarith+
  have last: "pts ! (2 * (?n - 1)) < pts ! (2 * (?n - 1) + 1)" using odd_even_nth(1) [OF pts(1)] n(2) by simp
  have "pts ! (length pts - 2) < pts ! (length pts - 1)" unfolding ix [symmetric] by (rule last)
  then have top: "pts ! (2 * (?n - 1)) \<le> 0xffff"
    unfolding ix(2) using high by (auto split: if_splits intro: order_trans less_imp_le)
  have e: "pts ! (2 * i + 1) \<le> 0xffff \<or> i = ?n - 1 \<and> pts ! (2 * i + 1) = 0xffffffff" if "i < ?n" for i
  proof (cases "i = ?n - 1")
    case True
    then have "pts ! (2 * i + 1) = pts ! (length pts - 1)" using ix(1) by simp
    then show ?thesis using high True by (auto split: if_splits)
  next
    case False
    then have "i < ?n - 1" using that by linarith
    then have "pts ! (2 * i + 1) < pts ! (2 * (?n - 1))" using odd_even_nth(2) [OF pts(1), of "?n - 1" i] n(2) by simp
    from order_trans [OF less_imp_le [OF this] top] show ?thesis by blast
  qed
  have "pts ! (2 * i) \<le> 0xffff" if "i < ?n" for i
    using e [OF that] top odd_even_nth(1) [OF pts(1) that] by (auto intro: order_trans less_imp_le)
  then show ?thesis using e by (simp add: fits16_def Let_def)
qed

text \<open>The two forms of the instruction.\<close>

lemma emit_range_code:
  assumes run: "re_emit_range s cr = Some (s', 0)" and ok: "cr_ok cr" and pts: "cr_normal pts" "pts = cr_points cr" "0 < cr_len cr"
    and n: "n = length pts div 2"
  shows "0 < n \<and> n < 65535 \<and> (appends s s' (reop_code REOP_range # le16 (of_nat n) @ range16_bytes pts) \<and> fits16 pts \<or>
    appends s s' (reop_code REOP_range32 # le16 (of_nat n) @ range32_bytes pts))"
proof -
  let ?len = "cr_len cr div 2"
  have small: "?len < 65535" using run
    by (auto simp: re_emit_range_def re_parse_error_def Let_def split: if_splits)
  have n16: "ucast (of_nat ?len :: u32) = (of_nat ?len :: u16)" by (rule ucast_u16_of_nat)
  have full: "length pts = cr_len cr" using pts(2) ok by simp
  then have ne: "?len \<noteq> 0" "n = ?len" "0 < length pts" using pts n by (auto simp: cr_normal_def elim!: evenE)
  have take: "take (cr_len cr) (points cr) = pts" using pts(2) by (simp add: cr_points_def)
  consider "s' = emit_range16 (re_emit_op_u16 s REOP_range (of_nat ?len)) pts"
      "(if pts ! (length pts - 1) = 0xffffffff then pts ! (length pts - 2) else pts ! (length pts - 1)) \<le> 0xffff"
    | "s' = emit_range32 (re_emit_op_u16 s REOP_range32 (of_nat ?len)) pts"
    using run [unfolded re_emit_range_def Let_def take] small ne(1) full by (auto split: if_splits)
  then show ?thesis
  proof cases
    case 1
    then show ?thesis
      using appends_trans [OF emit_op_u16_appends [of s REOP_range "of_nat ?len"] emit_range16_appends [of _ pts]]
        fits16_high [OF pts(1) ne(3)] ne small by (simp add: n16)
  next
    case 2
    then show ?thesis
      using appends_trans [OF emit_op_u16_appends [of s REOP_range32 "of_nat ?len"] emit_range32_appends [of _ pts]]
        ne small by (simp add: n16)
  qed
qed

lemma exec_range_table:
  assumes T: "bounds_table rd w (re_pc r + 2) n lo hi" "0 < n" "n < 65535"
    and rd: "rd16 (bc_buf x) (re_pc r) = Some (of_nat n)"
    and c: "re_cptr r < cbuf_end x" "get_char x (re_cptr r) = Some (c, q)" "canon x c = Some c'"
  shows "exec_range_char rd w infinity x m r = Some (if in_bounds lo hi c' 0 (n - 1) \<or> infinity \<and> hi (n - 1) = 0xffff \<and> 0xffff \<le> c'
    then Step m (r\<lparr>re_pc := re_pc r + 2 + 2 * w * n, re_cptr := q\<rparr>) else No_match m)"
proof -
  have "unat (of_nat n :: u32) = n" using T(3) by (simp add: unat_of_nat take_bit_nat_eq_self)
  then show ?thesis
    using range_test_correct [OF T(1,2), of infinity c'] rd c by (simp add: exec_range_char_def Let_def)
qed

lemma emitted_range_matches:
  assumes run: "re_emit_range s cr = Some (s', 0)" and s: "emit_ok s" "\<not> failed s'"
    and ok: "cr_ok cr" and pts: "cr_normal (cr_points cr)" "0 < cr_len cr"
    and x: "bc_buf x = emitted s'" "re_pc r = bsize s + 1"
    and c: "re_cptr r < cbuf_end x" "get_char x (re_cptr r) = Some (c, q)" "canon x c = Some c'" "c' < 0xffffffff"
  shows "\<exists>opc. fetch x (bsize s) = Some opc \<and> exec_op x opc m r =
    Some (if cr_mem (cr_points cr) c' then Step m (r\<lparr>re_pc := bsize s', re_cptr := q\<rparr>) else No_match m)"
proof -
  let ?pts = "cr_points cr"
  define n where "n = length ?pts div 2"
  have sz: "bsize s = length (emitted s)" using emit_ok_size s(1) .
  have u16: "ucast (of_nat n :: u16) = (of_nat n :: u32)" if "n < 65535"
    using that by (intro word_unat_eq_iff [THEN iffD2])
      (simp add: unsigned_ucast_eq unsigned_take_bit_eq unat_of_nat take_bit_nat_eq_self)
  from emit_range_code [OF run ok pts(1) refl pts(2) n_def] have n: "0 < n" "n < 65535"
    and "(appends s s' (reop_code REOP_range # le16 (of_nat n) @ range16_bytes ?pts) \<and> fits16 ?pts) \<or>
      appends s s' (reop_code REOP_range32 # le16 (of_nat n) @ range32_bytes ?pts)" by auto
  then show ?thesis
  proof (elim disjE conjE)
    assume a: "appends s s' (reop_code REOP_range # le16 (of_nat n) @ range16_bytes ?pts)" and f: "fits16 ?pts"
    have e: "emit_ok s' \<and> emitted s' = emitted s @ reop_code REOP_range # le16 (of_nat n) @ range16_bytes ?pts"
      by (rule changesD [OF a s]) (use sz in auto)
    have at: "code_at (bc_buf x) (bsize s) (reop_code REOP_range # le16 (of_nat n) @ range16_bytes ?pts)"
      using code_at_middle [of "emitted s" _ "[]"] e x(1) sz by simp
    have at1: "code_at (bc_buf x) (re_pc r) (le16 (of_nat n))" "code_at (bc_buf x) (re_pc r + 2) (range16_bytes ?pts)"
      using code_at_tail [OF at] x(2) by (simp_all add: code_at_append)
    have T: "bounds_table (rd16 (bc_buf x)) 2 (re_pc r + 2) n (\<lambda>i. ?pts ! (2 * i)) (\<lambda>i. high16 (?pts ! (2 * i + 1)))"
      by (rule bounds_table16 [OF pts(1) n_def _ f at1(2)]) (use n in simp)
    have "rd16 (bc_buf x) (re_pc r) = Some (of_nat n)" using rd16_code [OF at1(1)] u16 n by simp
    from exec_range_table [OF T n this c(1-3), of True m]
    have "exec_op x REOP_range m r = Some (if cr_mem ?pts c' then Step m (r\<lparr>re_pc := re_pc r + 2 + 2 * 2 * n, re_cptr := q\<rparr>) else No_match m)"
      using table_member16 [OF pts(1) n_def n(1) f c(4)] by (simp add: exec_range_def)
    moreover have "bsize s' = re_pc r + 2 + 2 * 2 * n"
      using emit_ok_size [of s'] e sz x(2) by (simp add: length_range16_bytes n_def)
    ultimately show ?thesis using fetch_code [OF at] by auto
  next
    assume a: "appends s s' (reop_code REOP_range32 # le16 (of_nat n) @ range32_bytes ?pts)"
    have e: "emit_ok s' \<and> emitted s' = emitted s @ reop_code REOP_range32 # le16 (of_nat n) @ range32_bytes ?pts"
      by (rule changesD [OF a s]) (use sz in auto)
    have at: "code_at (bc_buf x) (bsize s) (reop_code REOP_range32 # le16 (of_nat n) @ range32_bytes ?pts)"
      using code_at_middle [of "emitted s" _ "[]"] e x(1) sz by simp
    have at1: "code_at (bc_buf x) (re_pc r) (le16 (of_nat n))" "code_at (bc_buf x) (re_pc r + 2) (range32_bytes ?pts)"
      using code_at_tail [OF at] x(2) by (simp_all add: code_at_append)
    have T: "bounds_table (rd32 (bc_buf x)) 4 (re_pc r + 2) n (\<lambda>i. ?pts ! (2 * i)) (\<lambda>i. ?pts ! (2 * i + 1) - 1)"
      by (rule bounds_table32 [OF pts(1) n_def _ at1(2)]) (use n in simp)
    have "rd16 (bc_buf x) (re_pc r) = Some (of_nat n)" using rd16_code [OF at1(1)] u16 n by simp
    from exec_range_table [OF T n this c(1-3), of False m]
    have "exec_op x REOP_range32 m r = Some (if cr_mem ?pts c' then Step m (r\<lparr>re_pc := re_pc r + 2 + 2 * 4 * n, re_cptr := q\<rparr>) else No_match m)"
      using table_member [OF pts(1) n_def n(1)] by (simp add: exec_range32_def)
    moreover have "bsize s' = re_pc r + 2 + 2 * 4 * n"
      using emit_ok_size [of s'] e sz x(2) by (simp add: length_range32_bytes n_def)
    ultimately show ?thesis using fetch_code [OF at] by auto
  qed
qed

end
