(* ===== verification/RegexpRuns.thy ===== *)
theory RegexpRuns
  imports RegexpLiteral RegexpRanges "HOL-Library.Code_Target_Numeral"
begin

text \<open>
  The properties of the regular expression engine as a whole, with concrete compilations and runs: safety of compiled
  code, the invariant of the interpreter, termination of greedy loops, character classes, and two behaviours in
  which the engine departs from what it is meant to do.
\<close>

section \<open>A host for concrete runs\<close>

definition host_bytes :: "u8 realloc_fun" where
  "host_bytes = libc_realloc (\<lambda>_ _. True) 0"

definition host_points :: "u32 realloc_fun" where
  "host_points = libc_realloc (\<lambda>_ _. True) 0"

definition host_states :: "re_exec_state realloc_fun" where
  "host_states = libc_realloc (\<lambda>_ n. n < 1000) \<lparr>rs_type = RE_EXEC_STATE_SPLIT, rs_stack_len = 0, rs_count = 0,
     rs_cptr = 0, rs_pc = 0, rs_capture = [], rs_stack = []\<rparr>"

lemma host_contracts: "realloc_contract host_bytes" "realloc_contract host_points" "realloc_contract host_states"
  by (simp_all add: host_bytes_def host_points_def host_states_def)

definition compile :: "string \<Rightarrow> u32 \<Rightarrow> (bytes + bytes) option" where
  "compile txt re_flags = lre_compile 40 (map of_char txt) re_flags host_bytes host_bytes host_points (\<lambda>_. False)"

text \<open>\<^verbatim>\<open>/(a)*/y\<close>: save_start 0; save_reset 1 1; split 12; save_start 1; char a; save_end 1; goto -17; save_end 0; match.\<close>

definition star_code :: bytes where
  "star_code = [32, 2, 0, 25, 0, 0, 0, 11, 0, 13, 1, 1, 9, 12, 0, 0, 0, 11, 1, 1, 97, 0, 12, 1, 7, 239, 255, 255, 255,
     12, 0, 10]"

lemma compile_star: "compile ''(a)*'' 32 = Some (Inr star_code)"
  by code_simp

text \<open>\<^verbatim>\<open>/(?:)*?x/y\<close>: save_start 0; split 5; goto -10; char x; save_end 0; match.\<close>

definition lazy_code :: bytes where
  "lazy_code = [32, 1, 0, 18, 0, 0, 0, 11, 0, 8, 5, 0, 0, 0, 7, 246, 255, 255, 255, 1, 120, 0, 12, 0, 10]"

lemma compile_lazy: "compile ''(?:)*?x'' 32 = Some (Inr lazy_code)"
  by code_simp

text \<open>\<^verbatim>\<open>/a+/y\<close>: save_start 0; simple_greedy_quant 1..infinity over (char a; match); save_end 0; match.\<close>

definition plus_code :: bytes where
  "plus_code = [32, 1, 0, 26, 0, 0, 0, 11, 0, 28, 4, 0, 0, 0, 1, 0, 0, 0, 255, 255, 255, 127, 1, 0, 0, 0, 1, 97, 0, 10,
     12, 0, 10]"

lemma compile_plus: "compile ''a+'' 32 = Some (Inr plus_code)"
  by code_simp

section \<open>Safety of compiled code\<close>

text \<open>
  Property C1. Compiled regular expressions run safely. Whatever the pattern and the flags, when \<^verbatim>\<open>lre_compile\<close>
  succeeds with less than 2 GiB of code, \<^verbatim>\<open>lre_exec\<close> on the result, on any subject of 8-bit or 16-bit units of less
  than 2 GiB (the range of its \<^verbatim>\<open>int\<close> shifts) and from any start index, never reads or writes outside byte code, subject, captures, operand stack and saved states;
  it answers -1, 0 or 1, and every capture it leaves lies inside the subject. Allocations may fail at any time.
\<close>

theorem lre_exec_safe:
  assumes "lre_compile fuel src re_flags host_bc host_names host_cr overflow = Some (Inr bc)"
    and "realloc_contract host_bc" "realloc_contract host_names" "length bc < 2 ^ 31"
    and "realloc_contract rf" "type \<le> 1" "clen * 2 ^ type \<le> length subject" "clen * 2 ^ type < 2 ^ 31"
    and "cindex \<le> clen" "2 * lre_get_capture_count bc \<le> length cap"
  shows "safe_result (2 * lre_get_capture_count bc) (clen * 2 ^ type)
    (lre_exec n cap garbage bc subject cindex clen type addr rf)"
proof -
  obtain xs where "compiled bc xs" using lre_compile_compiled [OF assms(1-4)] .
  then show ?thesis using compiled_run_safe assms(5-10) by blast
qed

theorem lre_exec_safe_witness:
  "safe_result 4 3 (lre_exec 100 [None, None, None, None] (\<lambda>_. 0) star_code [97, 97, 98] 0 3 0 4096 host_states)"
  using lre_exec_safe [OF compile_star [unfolded compile_def] host_contracts(1,1) _ host_contracts(3),
      of 0 3 "[97, 97, 98]" 0 "[None, None, None, None]" 100 "\<lambda>_. 0" 4096]
  by (simp add: star_code_def lre_get_capture_count_def)

text \<open>
  Property C5. Compiled code is well typed: there is an assignment of operand stack depths to code positions under
  which every reachable instruction finds its operands inside the code, jumps to a typed position, keeps the
  depth between 0 and the stack size of the header, and indexes only captures that the header counts.
\<close>

theorem lre_compile_well_typed:
  assumes "lre_compile fuel src re_flags host_bc host_names host_cr overflow = Some (Inr bc)"
    and "realloc_contract host_bc" "realloc_contract host_names" "length bc < 2 ^ 31"
  shows "\<exists>D. D RE_HEADER_LEN 0 \<and> well_typed (exec_context bc subject clen type addr rf) D"
proof -
  obtain xs where xs: "compiled bc xs" using lre_compile_compiled [OF assms] .
  have "well_typed (exec_context bc subject clen type addr rf) (code_typing xs)"
    by (rule compiled_well_typed [OF xs]) (simp_all add: exec_context_def Let_def)
  moreover have "code_typing xs RE_HEADER_LEN 0" by (simp add: code_typing_def)
  ultimately show ?thesis by blast
qed

theorem lre_compile_well_typed_witness:
  "\<exists>D. D 7 0 \<and> well_typed (exec_context star_code [97] 1 0 4096 host_states) D"
  by (rule lre_compile_well_typed [OF compile_star [unfolded compile_def] host_contracts(1,1)]) (simp add: star_code_def)

section \<open>The invariant of the interpreter\<close>

text \<open>
  Property C4. The run-time invariant of well-typed code holds throughout a run: captures and saved states point
  between characters of the subject, the operand stack has the depth of the typing and saved states can be
  resumed. Every configuration the interpreter reaches from one that satisfies the invariant, by any instruction
  (greedy loops included) and any backtrack, satisfies it; there the next step exists, and it ends in a
  configuration of the invariant or in a result -1, 0 or 1. The steps are those of \<^verbatim>\<open>lre_exec_backtrack\<close>: with
  more fuel the program started at the first configuration behaves as if started at the one reached.
\<close>

theorem interpreter_invariant:
  assumes "context_ok s" "well_typed s D" "config_ok s D (m, r)" "(interp_step s)\<^sup>*\<^sup>* (m, r) (m', r')"
  shows "config_ok s D (m', r') \<and> (\<exists>st. interp s m' r' st) \<and> (\<forall>st. interp s m' r' st \<longrightarrow> step_done s D st) \<and>
    same_run s (m, r) (m', r')"
proof -
  have c: "config_ok s D (m', r')" using reachable_config_ok assms by blast
  then show ?thesis
    using interp_progress interp_ok reachable_same_run assms by blast
qed

definition start_memory :: re_memory where
  "start_memory = \<lparr>capture = replicate 4 None, re_stack = [], state_stack = [], state_stack_size = 0,
     state_stack_len = 0, re_requests = 0\<rparr>"

abbreviation plus_context :: re_exec_context where
  "plus_context \<equiv> exec_context plus_code [97, 97, 98] 3 0 4096 host_states"

text \<open>Two steps of \<^verbatim>\<open>/a+/y\<close> on \<^verbatim>\<open>aab\<close>: the capture starts, and the loop takes both letters and saves a state.\<close>

abbreviation plus_memory :: "nat option \<Rightarrow> re_memory" where
  "plus_memory c \<equiv> start_memory\<lparr>capture := [c, None]\<rparr>"

definition plus_saved :: re_memory where
  "plus_saved = the (map_option fst (push_state plus_context (plus_memory (Some 0)) 0 10 2 RE_EXEC_STATE_GREEDY_QUANT 1))"

lemma plus_push:
  "push_state plus_context (plus_memory (Some 0)) 0 10 2 RE_EXEC_STATE_GREEDY_QUANT 1 = Some (plus_saved, 0)"
  "state_stack_len plus_saved = 1"
  by (simp_all add: plus_saved_def push_state_def grow_states_def start_memory_def host_states_def libc_realloc_def
      exec_context_def Let_def plus_code_def)

lemma plus_loop:
  "quant_loop 10 plus_context (plus_memory (Some 0)) \<lparr>re_pc = 26, re_cptr = 0, re_stack_len = 0\<rparr> 0x7fffffff 0 =
     Quant_done (plus_memory (Some 0)) 2 2"
  by code_simp

lemma plus_operands: "greedy_operands plus_context 10 = Some (30, 1, 0x7fffffff)"
  by code_simp

lemma plus_steps:
  "interp_step plus_context (plus_memory None, \<lparr>re_pc = 7, re_cptr = 0, re_stack_len = 0\<rparr>)
     (plus_memory (Some 0), \<lparr>re_pc = 9, re_cptr = 0, re_stack_len = 0\<rparr>)"
  "interp_step plus_context (plus_memory (Some 0), \<lparr>re_pc = 9, re_cptr = 0, re_stack_len = 0\<rparr>)
     (plus_saved, \<lparr>re_pc = 30, re_cptr = 2, re_stack_len = 0\<rparr>)"
proof -
  have f: "fetch plus_context 7 = Some REOP_save_start" "fetch plus_context 9 = Some REOP_simple_greedy_quant"
    by (simp_all add: fetch_def exec_context_def Let_def plus_code_def reop_of_byte_def REOP_COUNT_def reops_def)
  show "interp_step plus_context (plus_memory None, \<lparr>re_pc = 7, re_cptr = 0, re_stack_len = 0\<rparr>)
     (plus_memory (Some 0), \<lparr>re_pc = 9, re_cptr = 0, re_stack_len = 0\<rparr>)"
    unfolding interp_step_def
    by (rule interp.op [where opc = REOP_save_start and st = "Step (plus_memory (Some 0)) \<lparr>re_pc = 9, re_cptr = 0, re_stack_len = 0\<rparr>"])
      (use f in \<open>simp_all add: exec_save_def rd8_def get_u8_def exec_context_def
      Let_def plus_code_def start_memory_def\<close>)
  show "interp_step plus_context (plus_memory (Some 0), \<lparr>re_pc = 9, re_cptr = 0, re_stack_len = 0\<rparr>)
     (plus_saved, \<lparr>re_pc = 30, re_cptr = 2, re_stack_len = 0\<rparr>)"
    unfolding interp_step_def
    by (rule interp.greedy [where pc' = 30 and lo = 1 and hi = "0x7fffffff" and fuel = 10 and m' = "plus_memory (Some 0)"
          and p = 2 and q = 2 and st = "Step plus_saved \<lparr>re_pc = 30, re_cptr = 2, re_stack_len = 0\<rparr>"])
      (use f plus_operands plus_loop plus_push in \<open>simp_all add: greedy_exit_def\<close>)
qed

theorem interpreter_invariant_witness:
  "\<exists>D. config_ok plus_context D (plus_saved, \<lparr>re_pc = 30, re_cptr = 2, re_stack_len = 0\<rparr>) \<and>
     (\<exists>st. interp plus_context plus_saved \<lparr>re_pc = 30, re_cptr = 2, re_stack_len = 0\<rparr> st \<and> step_done plus_context D st)"
proof -
  obtain xs where xs: "compiled plus_code xs"
    using lre_compile_compiled [OF compile_plus [unfolded compile_def] host_contracts(1,1)] by (auto simp: plus_code_def)
  let ?D = "code_typing xs" and ?r = "\<lparr>re_pc = 7, re_cptr = 0, re_stack_len = 0\<rparr>"
  have "context_ok plus_context"
    using host_contracts by (simp add: context_ok_def exec_context_def Let_def text_ok_def at_char_def plus_code_def)
  moreover have "well_typed plus_context ?D"
    by (rule compiled_well_typed [OF xs]) (simp_all add: exec_context_def Let_def)
  moreover have "config_ok plus_context ?D (plus_memory None, ?r)"
    by (auto simp: config_ok_def memory_ok_def capture_ok_def start_memory_def regs_ok_def position_ok_def at_char_def
        exec_context_def Let_def plus_code_def code_typing_def nth_Cons split: nat.splits)
  moreover have "(interp_step plus_context)\<^sup>*\<^sup>* (plus_memory None, ?r) (plus_saved, \<lparr>re_pc = 30, re_cptr = 2, re_stack_len = 0\<rparr>)"
    using plus_steps by (meson rtranclp.rtrancl_into_rtrancl rtranclp.rtrancl_refl)
  ultimately show ?thesis using interpreter_invariant by blast
qed

section \<open>Termination and its limits\<close>

text \<open>
  Property C6. A greedy loop over characters ends. For a well-typed \<^verbatim>\<open>simple_greedy_quant\<close> instruction at any
  position of any subject, fuel for the length of the code and of the subject is enough: the loop returns a count and
  a pointer, it has not touched the memory, and it advanced by at least one unit per repetition without
  leaving the subject.
\<close>

theorem greedy_loop_ends:
  assumes "context_ok s" "quant_ok s D pc d" "re_pc r = pc + 16" "position_ok s (re_cptr r)"
    and "length (bc_buf s) + cbuf_end s < fuel"
  shows "\<exists>p q. quant_loop fuel s m r quant_max 0 = Quant_done m p q \<and> re_cptr r + q \<le> p \<and> p \<le> cbuf_end s"
proof -
  let ?n = "unat (get_u32 (bc_buf s) (pc + 12))"
  have n: "atom_chars (length (bc_buf s)) s (re_pc r) = Some ?n" "0 < ?n"
    using assms(2,3) by (auto simp: quant_ok_def word_less_nat_alt)
  have "cbuf_end s < SIZE_MOD" using assms(1) by (simp add: context_ok_def)
  then have "quant_result s m ?n (re_cptr r) 0 quant_max (quant_loop fuel s m r quant_max 0)"
    by (intro quant_loop_run [OF assms(1) n assms(4)]) (use assms(5) in simp_all)
  then obtain p q where d: "quant_loop fuel s m r quant_max 0 = Quant_done m p q"
      "next_chars s (?n * q) (re_cptr r) = Some p" by (auto simp: quant_result_def)
  have "re_cptr r + ?n * q \<le> p" "p \<le> cbuf_end s"
    using next_chars_position [OF d(2) assms(4)] position_le by blast+
  moreover have "q \<le> ?n * q" using n(2) by simp
  ultimately show ?thesis using d(1) by (intro exI [of _ p] exI [of _ q]) linarith
qed

theorem greedy_loop_ends_witness:
  "\<exists>p q. quant_loop 100 plus_context start_memory \<lparr>re_pc = 26, re_cptr = 0, re_stack_len = 0\<rparr> 0x7fffffff 0 =
     Quant_done start_memory p q \<and> q \<le> p \<and> p \<le> 3"
proof -
  have "context_ok plus_context"
    using host_contracts by (simp add: context_ok_def exec_context_def Let_def text_ok_def at_char_def plus_code_def)
  moreover have "quant_ok plus_context (\<lambda>_ _. True) 10 0"
    by code_simp
  ultimately show ?thesis
    using greedy_loop_ends [where s = plus_context and D = "\<lambda>_ _. True" and pc = 10 and d = 0 and fuel = 100 and m = start_memory
        and r = "\<lparr>re_pc = 26, re_cptr = 0, re_stack_len = 0\<rparr>" and quant_max = "0x7fffffff"]
    by (simp add: position_ok_def at_char_def exec_context_def Let_def plus_code_def)
qed

text \<open>
  Property C3. Character classes from pattern to match: where \<^verbatim>\<open>re_emit_range\<close> has written a finished set of code
  points, in its 16-bit or its 32-bit form, the interpreter steps over the next character exactly when the
  canonicalized character is in the set, and goes on behind the table.
\<close>

theorem range_opcode_matches:
  assumes "re_emit_range s cr = Some (s', 0)" "emit_ok s" "\<not> error (byte_code s')"
    and "cr_ok cr" "cr_normal (cr_points cr)" "0 < cr_len cr"
    and "bc_buf x = contents (byte_code s')" "re_pc r = bsize s + 1"
    and "re_cptr r < cbuf_end x" "get_char x (re_cptr r) = Some (c, q)" "canon x c = Some c'" "c' < 0xffffffff"
  shows "\<exists>opc. fetch x (bsize s) = Some opc \<and> exec_op x opc m r =
    Some (if cr_mem (cr_points cr) c' then Step m (r\<lparr>re_pc := bsize s', re_cptr := q\<rparr>) else No_match m)"
  by (rule emitted_range_matches [OF assms])

definition small_class :: char_range where
  "small_class = \<lparr>cr_len = 2, cr_size = 2, points = [97, 100], mem_opaque = 0, cr_realloc_func = host_points\<rparr>"

definition empty_state :: re_parse_state where
  "empty_state = initial_state [] 32 host_bytes host_bytes host_points (\<lambda>_. False)"

abbreviation class_context :: re_exec_context where
  "class_context \<equiv> exec_context star_code [98] 1 0 4096 host_states\<lparr>bc_buf := [21, 1, 0, 97, 0, 99, 0]\<rparr>"

lemma emit_small_class:
  "map_option (\<lambda>(s, r). (r, error (byte_code s), contents (byte_code s), bsize s)) (re_emit_range empty_state small_class) =
    Some (0, False, [21, 1, 0, 97, 0, 99, 0], 7)"
  by code_simp

theorem range_opcode_matches_witness:
  "\<exists>opc. fetch class_context 0 = Some opc \<and> exec_op class_context opc start_memory \<lparr>re_pc = 1, re_cptr = 0, re_stack_len = 0\<rparr> =
    Some (Step start_memory \<lparr>re_pc = 7, re_cptr = 1, re_stack_len = 0\<rparr>)"
proof -
  obtain s' where s': "re_emit_range empty_state small_class = Some (s', 0)" "\<not> error (byte_code s')"
      "contents (byte_code s') = [21, 1, 0, 97, 0, 99, 0]" "bsize s' = 7"
    using emit_small_class by (auto split: prod.splits)
  have s: "emit_ok empty_state" "bsize empty_state = 0"
    using initial_emit_ok [OF host_contracts(1)] emit_ok_size [of empty_state] by (simp_all add: empty_state_def)
  have cr: "cr_ok small_class" "cr_normal (cr_points small_class)" "0 < cr_len small_class" "cr_mem (cr_points small_class) 98"
    using host_contracts by (simp_all add: cr_ok_def cr_normal_def cr_points_def cr_mem_def small_class_def)
  have c: "get_char class_context 0 = Some (98, 1)" "canon class_context 98 = Some 98" "0 < cbuf_end class_context"
    by (simp_all add: get_char_def canon_def GET_CHAR_def rd8_def get_u8_def exec_context_def Let_def star_code_def)
  show ?thesis
    using range_opcode_matches [OF s'(1) s(1) s'(2) cr(1-3), of class_context "\<lparr>re_pc = 1, re_cptr = 0, re_stack_len = 0\<rparr>" 98 1 98 start_memory]
      s' s(2) cr(4) c by simp
qed

section \<open>Searching for a text\<close>

text \<open>\<^verbatim>\<open>/ab/\<close>: split 6; any; goto -11; save_start 0; char a; char b; save_end 0; match. The sticky form has no loop.\<close>

definition ab_code :: bytes where
  "ab_code = [0, 1, 0, 22, 0, 0, 0, 8, 6, 0, 0, 0, 4, 7, 245, 255, 255, 255, 11, 0, 1, 97, 0, 1, 98, 0, 12, 0, 10]"

definition sticky_ab_code :: bytes where
  "sticky_ab_code = [32, 1, 0, 11, 0, 0, 0, 11, 0, 1, 97, 0, 1, 98, 0, 12, 0, 10]"

lemma compile_ab: "compile ''ab'' 0 = Some (Inr ab_code)"
  by code_simp

lemma compile_sticky_ab: "compile ''ab'' 32 = Some (Inr sticky_ab_code)"
  by code_simp

lemma plain_ab: "list_all plain (map of_char ''ab'')"
  by (simp add: plain_def syntax_chars_def asc_def)

lemma host_states_grants: "\<not> refused host_states 8"
  by (auto simp: refused_def host_states_def libc_realloc_def)

text \<open>
  Property C7. The engine finds texts. A pattern of ordinary ASCII characters without the sticky and the
  ignore-case flag is compiled to a search: \<^verbatim>\<open>lre_exec\<close> on a subject of bytes always returns. It answers 1 with the
  bounds of the first occurrence of the text at or behind the start index as capture 0, 0 when there is none, and
  -1 only when the host refuses the first block of saved states.
\<close>

theorem literal_search:
  assumes "lre_compile fuel txt re_flags host_bc host_names host_cr overflow = Some (Inr bc)" "realloc_contract host_bc"
    and "list_all plain txt" "re_flags AND 2 = 0" "re_flags AND 32 = 0" "realloc_contract rf"
    and "clen \<le> length subject" "clen < 2 ^ 31" "cindex \<le> clen" "2 \<le> length cap"
  shows "\<exists>k m v. (\<forall>n \<ge> k. lre_exec n cap garbage bc subject cindex clen 0 addr rf = RE_ret m (RE_int v)) \<and>
    (v = -1 \<and> refused rf 8 \<or>
     v = 0 \<and> (\<forall>i \<ge> cindex. \<not> occurs txt (take clen subject) i) \<or>
     v = 1 \<and> (\<exists>i \<ge> cindex. occurs txt (take clen subject) i \<and>
       (\<forall>j. cindex \<le> j \<and> j < i \<longrightarrow> \<not> occurs txt (take clen subject) j) \<and>
       capture m ! 0 = Some i \<and> capture m ! 1 = Some (i + length txt)))"
  using literal_search_run [OF assms, of garbage addr] unfolding search_result_def found_def by blast

theorem literal_search_witness:
  "\<exists>k m. \<forall>n \<ge> k. lre_exec n [None, None] (\<lambda>_. 0) ab_code [120, 97, 98, 97, 98] 0 5 0 4096 host_states = RE_ret m (RE_int 1) \<and>
     capture m ! 0 = Some 1 \<and> capture m ! 1 = Some 3"
proof -
  let ?subj = "[120, 97, 98, 97, 98] :: bytes" and ?t = "map of_char ''ab'' :: bytes"
  have o: "occurs ?t (take 5 ?subj) 1" "\<not> occurs ?t (take 5 ?subj) 0" by (simp_all add: occurs_def eval_nat_numeral)
  obtain k m v where r: "\<forall>n \<ge> k. lre_exec n [None, None] (\<lambda>_. 0) ab_code ?subj 0 5 0 4096 host_states = RE_ret m (RE_int v)"
    and v: "v = 0 \<and> (\<forall>i \<ge> 0. \<not> occurs ?t (take 5 ?subj) i) \<or>
      v = 1 \<and> (\<exists>i \<ge> 0. occurs ?t (take 5 ?subj) i \<and> (\<forall>j. 0 \<le> j \<and> j < i \<longrightarrow> \<not> occurs ?t (take 5 ?subj) j) \<and>
        capture m ! 0 = Some i \<and> capture m ! 1 = Some (i + length ?t))"
    using literal_search [OF compile_ab [unfolded compile_def] host_contracts(1) plain_ab _ _ host_contracts(3),
        of 5 ?subj 0 "[None, None]" "\<lambda>_. 0" 4096] host_states_grants by auto
  from v o(1) obtain i where i: "v = 1" "occurs ?t (take 5 ?subj) i" "\<forall>j < i. \<not> occurs ?t (take 5 ?subj) j"
      "capture m ! 0 = Some i" "capture m ! 1 = Some (i + length ?t)" by blast
  have "i \<noteq> 0" using i(2) o(2) by metis
  moreover have "\<not> 1 < i" using i(3) o(1) by blast
  ultimately have "i = 1" by linarith
  then show ?thesis using r i by (intro exI [of _ k] exI [of _ m]) simp
qed

text \<open>
  Property C8. With the sticky flag the same pattern matches at the start index only: \<^verbatim>\<open>lre_exec\<close> returns 1 exactly when
  the text stands there, with its bounds as capture 0, and 0 otherwise. It allocates nothing, so it cannot fail.
\<close>

theorem literal_sticky:
  assumes "lre_compile fuel txt re_flags host_bc host_names host_cr overflow = Some (Inr bc)" "realloc_contract host_bc"
    and "list_all plain txt" "re_flags AND 2 = 0" "re_flags AND 32 \<noteq> 0"
    and "clen \<le> length subject" "clen < 2 ^ 31" "cindex \<le> clen" "2 \<le> length cap"
  shows "\<exists>k m. (\<forall>n \<ge> k. lre_exec n cap garbage bc subject cindex clen 0 addr rf =
      RE_ret m (RE_int (if occurs txt (take clen subject) cindex then 1 else 0))) \<and>
    (occurs txt (take clen subject) cindex \<longrightarrow>
      capture m ! 0 = Some cindex \<and> capture m ! 1 = Some (cindex + length txt))"
  by (rule literal_sticky_run [OF assms])

theorem literal_sticky_witness:
  "\<exists>k m. \<forall>n \<ge> k. lre_exec n [None, None] (\<lambda>_. 0) sticky_ab_code [120, 97, 98] 1 3 0 4096 host_states = RE_ret m (RE_int 1) \<and>
     capture m ! 0 = Some 1 \<and> capture m ! 1 = Some 3"
proof -
  let ?subj = "[120, 97, 98] :: bytes" and ?t = "map of_char ''ab'' :: bytes"
  have o: "occurs ?t (take 3 ?subj) 1" by (simp add: occurs_def eval_nat_numeral)
  have "\<exists>k m. (\<forall>n \<ge> k. lre_exec n [None, None] (\<lambda>_. 0) sticky_ab_code ?subj 1 3 0 4096 host_states =
        RE_ret m (RE_int (if occurs ?t (take 3 ?subj) 1 then 1 else 0))) \<and>
      (occurs ?t (take 3 ?subj) 1 \<longrightarrow> capture m ! 0 = Some 1 \<and> capture m ! 1 = Some (1 + length ?t))"
    by (rule literal_sticky [OF compile_sticky_ab [unfolded compile_def] host_contracts(1) plain_ab]) simp_all
  then obtain k m where "\<forall>n \<ge> k. lre_exec n [None, None] (\<lambda>_. 0) sticky_ab_code ?subj 1 3 0 4096 host_states = RE_ret m (RE_int 1)"
      "capture m ! 0 = Some 1" "capture m ! 1 = Some (1 + length ?t)" using o by auto
  then show ?thesis by (intro exI [of _ k] exI [of _ m]) simp
qed

section \<open>A lazy loop that does not end\<close>

text \<open>Single steps of the interpreter at the start of the subject.\<close>

abbreviation lazy_regs :: "nat \<Rightarrow> re_regs" where
  "lazy_regs pc \<equiv> \<lparr>re_pc = pc, re_cptr = 0, re_stack_len = 0\<rparr>"

lemma run_step:
  assumes "fetch s pc = Some opc" "exec_op s opc m (lazy_regs pc') = Some (Step m' r')" "pc' = pc + 1"
    "opc \<noteq> REOP_simple_greedy_quant" "0 < fuel"
  shows "lre_exec_backtrack fuel s m (lazy_regs pc) False = lre_exec_backtrack (fuel - 1) s m' r' False"
  using assms by (cases fuel) (simp_all add: Let_def)

lemma run_fail:
  assumes "fetch s pc = Some opc" "exec_op s opc m (lazy_regs pc') = Some (No_match m')" "pc' = pc + 1"
    "opc \<noteq> REOP_simple_greedy_quant" "0 < fuel" "re_recurse s m' False (state_stack_len m') = Some (Step m'' r'')"
  shows "lre_exec_backtrack fuel s m (lazy_regs pc) False = lre_exec_backtrack (fuel - 1) s m'' r'' False"
  using assms by (cases fuel) (simp_all add: Let_def)

lemma run_0 [simp]: "lre_exec_backtrack 0 s m r False = RE_timeout"
  by simp

definition lazy_loop :: "re_memory \<Rightarrow> bool" where
  "lazy_loop m \<longleftrightarrow> state_stack_len m = 0 \<and> length (state_stack m) = state_stack_size m \<and>
     (state_stack_size m = 0 \<or> state_stack_size m = 8) \<and> length (capture m) = 2 \<and> re_stack m = []"

abbreviation lazy_context :: re_exec_context where
  "lazy_context \<equiv> exec_context lazy_code [] 0 0 4096 host_states"

lemma lazy_fetch:
  "fetch lazy_context 7 = Some REOP_save_start" "fetch lazy_context 9 = Some REOP_split_goto_first"
  "fetch lazy_context 14 = Some REOP_goto" "fetch lazy_context 19 = Some REOP_char"
  by (simp_all add: fetch_def exec_context_def Let_def lazy_code_def reop_of_byte_def REOP_COUNT_def reops_def)

lemma lazy_operands:
  "rd32 (bc_buf lazy_context) 10 = Some 5" "rd32 (bc_buf lazy_context) 15 = Some (- 10)"
  "rd16 (bc_buf lazy_context) 20 = Some 120" "rd8 (bc_buf lazy_context) 8 = Some 0"
  by (code_simp, code_simp, code_simp, code_simp)

lemma lazy_fields [simp]:
  "cbuf_end lazy_context = 0" "capture_count lazy_context = 1" "stack_size_max lazy_context = 0"
  "lre_realloc lazy_context = host_states"
  by (simp_all add: exec_context_def Let_def lazy_code_def)

lemma host_states_8: "\<exists>b. host_states t old 8 = Some b \<and> length b = 8"
  by (auto simp: host_states_def libc_realloc_def)

text \<open>One iteration: the split saves a state, the character fails, the saved state jumps back.\<close>

lemma lazy_split:
  assumes "lazy_loop (m :: re_memory)"
  obtains m' where "exec_op lazy_context REOP_split_goto_first m (lazy_regs 10) = Some (Step m' (lazy_regs 19))"
    "exec_op lazy_context REOP_char m' (lazy_regs 20) = Some (No_match m')"
    "\<exists>m''. re_recurse lazy_context m' False (state_stack_len m') = Some (Step m'' (lazy_regs 14)) \<and> lazy_loop m''"
proof -
  obtain b where b: "host_states (re_requests m) (state_stack m) 8 = Some b" "length b = 8" using host_states_8 by blast
  have "\<exists>m'. push_state lazy_context m 0 14 0 RE_EXEC_STATE_SPLIT 0 = Some (m', 0) \<and> state_stack_len m' = 1 \<and>
      length (state_stack m') = 8 \<and> state_stack_size m' = 8 \<and> length (capture m') = 2 \<and> re_stack m' = [] \<and>
      state_stack m' ! 0 = \<lparr>rs_type = RE_EXEC_STATE_SPLIT, rs_stack_len = 0, rs_count = 0, rs_cptr = 0, rs_pc = 14,
        rs_capture = take 2 (capture m'), rs_stack = []\<rparr>"
    using assms b by (cases "state_stack_size m = 0") (auto simp: lazy_loop_def push_state_def grow_states_def Let_def)
  then obtain m' where m': "push_state lazy_context m 0 14 0 RE_EXEC_STATE_SPLIT 0 = Some (m', 0)" "state_stack_len m' = 1"
      "length (state_stack m') = 8" "state_stack_size m' = 8" "length (capture m') = 2" "re_stack m' = []"
      "state_stack m' ! 0 = \<lparr>rs_type = RE_EXEC_STATE_SPLIT, rs_stack_len = 0, rs_count = 0, rs_cptr = 0, rs_pc = 14,
        rs_capture = take 2 (capture m'), rs_stack = []\<rparr>" by blast
  show thesis
  proof (rule that)
    show "exec_op lazy_context REOP_split_goto_first m (lazy_regs 10) = Some (Step m' (lazy_regs 19))"
      using m'(1) lazy_operands(1) by (simp add: exec_split_def push_and_go_def jump_def Let_def)
    show "exec_op lazy_context REOP_char m' (lazy_regs 20) = Some (No_match m')"
      using lazy_operands(3) by (simp add: test_char_def)
    show "\<exists>m''. re_recurse lazy_context m' False (state_stack_len m') = Some (Step m'' (lazy_regs 14)) \<and> lazy_loop m''"
      using m' by (simp add: lazy_loop_def restore_stack_def restore_capture_def saved_regs_def blit_def)
  qed
qed

lemma lazy_goto: "exec_op lazy_context REOP_goto m (lazy_regs 15) = Some (Step m (lazy_regs 9))"
  using lazy_operands(2) by (simp add: exec_goto_def jump_def)

lemma lazy_loop_diverges: "lazy_loop m \<Longrightarrow> lre_exec_backtrack fuel lazy_context m (lazy_regs 9) False = RE_timeout"
proof (induction fuel arbitrary: m rule: less_induct)
  case (less fuel)
  obtain m' where 1: "exec_op lazy_context REOP_split_goto_first m (lazy_regs 10) = Some (Step m' (lazy_regs 19))"
    "exec_op lazy_context REOP_char m' (lazy_regs 20) = Some (No_match m')"
    "\<exists>m''. re_recurse lazy_context m' False (state_stack_len m') = Some (Step m'' (lazy_regs 14)) \<and> lazy_loop m''"
    using lazy_split [OF less.prems] .
  then obtain m'' where 2: "re_recurse lazy_context m' False (state_stack_len m') = Some (Step m'' (lazy_regs 14))" "lazy_loop m''"
    by blast
  have s1: "lre_exec_backtrack f lazy_context m (lazy_regs 9) False = lre_exec_backtrack (f - 1) lazy_context m' (lazy_regs 19) False"
    if "0 < f" for f
    by (rule run_step [OF lazy_fetch(2) 1(1) _ _ that]) simp_all
  have s2: "lre_exec_backtrack f lazy_context m' (lazy_regs 19) False = lre_exec_backtrack (f - 1) lazy_context m'' (lazy_regs 14) False"
    if "0 < f" for f
    by (rule run_fail [OF lazy_fetch(4) 1(2) _ _ that 2(1)]) simp_all
  have s3: "lre_exec_backtrack f lazy_context m'' (lazy_regs 14) False = lre_exec_backtrack (f - 1) lazy_context m'' (lazy_regs 9) False"
    if "0 < f" for f
    by (rule run_step [OF lazy_fetch(3) lazy_goto _ _ that]) simp_all
  consider "fuel = 0" | "fuel = 1" | "fuel = 2" | "3 \<le> fuel" by linarith
  then show ?case
  proof cases
    case 4
    then have "lre_exec_backtrack fuel lazy_context m (lazy_regs 9) False = lre_exec_backtrack (fuel - 3) lazy_context m'' (lazy_regs 9) False"
      using s1 [of fuel] s2 [of "fuel - 1"] s3 [of "fuel - 2"] by (simp add: numeral_2_eq_2 numeral_3_eq_3 diff_diff_left)
    then show ?thesis using less.IH [of "fuel - 3" m''] 2(2) 4 by simp
  qed (use s1 [of fuel] s2 [of "fuel - 1"] in simp_all)
qed

text \<open>
  Property C40. The test against empty iterations is missing for lazy quantifiers: \<^verbatim>\<open>/(?:)*?x/y\<close> compiles to a loop
  without advance, and matching it against the empty string never returns, whatever the fuel. It repeats the
  same states with constant memory.
\<close>

theorem lazy_empty_loop_diverges:
  "\<exists>bc. compile ''(?:)*?x'' 32 = Some (Inr bc) \<and>
     lre_exec fuel [None, None] garbage bc [] 0 0 0 4096 host_states = RE_timeout"
proof (intro exI conjI)
  show "compile ''(?:)*?x'' 32 = Some (Inr lazy_code)" by (rule compile_lazy)
  let ?m = "\<lparr>capture = [None, None], re_stack = [], state_stack = [], state_stack_size = 0, state_stack_len = 0, re_requests = 0\<rparr>"
  have "lre_exec_backtrack fuel lazy_context ?m (lazy_regs 7) False = RE_timeout"
  proof (cases "fuel = 0")
    case False
    let ?m' = "?m\<lparr>capture := [Some 0, None]\<rparr>"
    have "lre_exec_backtrack fuel lazy_context ?m (lazy_regs 7) False = lre_exec_backtrack (fuel - 1) lazy_context ?m' (lazy_regs 9) False"
      by (rule run_step [OF lazy_fetch(1), of _ 8]) (use lazy_operands(4) False in \<open>simp_all add: exec_save_def\<close>)
    then show ?thesis using lazy_loop_diverges [of ?m' "fuel - 1"] by (simp add: lazy_loop_def)
  qed simp
  then show "lre_exec fuel [None, None] garbage lazy_code [] 0 0 0 4096 host_states = RE_timeout"
    by (simp add: lre_exec_def Let_def clear_captures_def blit_def numeral_2_eq_2)
qed

section \<open>A forward reference by name\<close>

text \<open>
  \<^verbatim>\<open>/\k<c>(?<a>(x))(?<c>y)/uy\<close>: the group named c is number 3, the reference compiles to group 2, because the scan of
  \<^verbatim>\<open>re_parse_captures\<close> skips the parenthesis that follows a group name.
\<close>

lemma forward_reference_wrong_group:
  "compile (CHR 0x5c # ''k<c>(?<a>(x))(?<c>y)'') 48 = Some (Inr [176, 4, 0, 25, 0, 0, 0, 11, 0, 19, 2, 11, 1, 11, 2, 1, 120, 0,
     12, 2, 12, 1, 11, 3, 1, 121, 0, 12, 3, 12, 0, 10, 97, 0, 0, 99, 0])"
  by code_simp

text \<open>
  \<^verbatim>\<open>/(?:(a)|b)*/y\<close>: the instruction that resets the captures of the atom is at offset 9, the loop goes back to
  offset 12 (38 + 5 - 31). So a capture of an earlier iteration survives an iteration that does not take part in it, where
  ECMAScript resets the captures at the start of each iteration.
\<close>

lemma captures_reset_outside_loop:
  "compile ''(?:(a)|b)*'' 32 = Some (Inr [32, 2, 1, 39, 0, 0, 0, 11, 0, 13, 1, 1, 9, 26, 0, 0, 0, 25, 9, 12, 0, 0, 0, 11, 1,
     1, 97, 0, 12, 1, 7, 3, 0, 0, 0, 1, 98, 0, 26, 225, 255, 255, 255, 12, 0, 10])"
  by code_simp

end
