(* ===== verification/Spec2Isabelle.thy ===== *)
theory Spec2Isabelle
  imports CUtils UTF8 DynBuf ListHead RQSortOrder CharRange UnicodeCase UnicodeNormProofs UnicodePropMachine
    RegexpRuns
begin

text \<open>
  Verification of the C core of a V8 API backend on QuickJS.

  \<^bold>\<open>The program.\<close> \<^verbatim>\<open>src/src/v8-impl.cc\<close> implements the V8 API by calls to the QuickJS engine,
  \<^verbatim>\<open>src/quickjs/quickjs.c\<close>. The engine rests on a layer of C libraries, and that layer is modelled here
  completely: \<^verbatim>\<open>cutils.c\<close> and \<^verbatim>\<open>list.h\<close> (strings, UTF-8, growing buffers, lists, sorting), \<^verbatim>\<open>libunicode.c\<close> with its
  tables (case conversion, normalization, character sets) and \<^verbatim>\<open>libregexp.c\<close> (the compiler of regular expressions to
  byte code and the backtracking interpreter that runs it). Calls go upwards only: \<^verbatim>\<open>cutils.c\<close> is used by
  \<^verbatim>\<open>libunicode.c\<close>, both by \<^verbatim>\<open>libregexp.c\<close>, all three by the engine. They share no global state; what they share is the
  host's memory allocator, which can refuse any request.

  \<^bold>\<open>Conventions.\<close> Machine integers are words of their width (\<open>u8\<close>, \<open>u16\<close>, \<open>u32\<close>, \<open>u64\<close>); sizes are natural numbers
  with the reduction modulo \<open>SIZE_MOD\<close> (2 to the 64) written out where a \<^verbatim>\<open>size_t\<close> may wrap. A pointer into a block is an
  offset, a block a list. The value \<open>None\<close> stands for a step that C leaves undefined (an access outside its block, a
  failed assertion), so that a theorem which says that a result exists also says that the step was defined. The
  allocator is the locale \<open>realloc_contract\<close> of \<^verbatim>\<open>QJS_Prelude\<close>: a function that either refuses or returns a block of
  the requested length with the old contents at its front; every theorem holds for every such function.

  \<^bold>\<open>Theories.\<close>
  \<^item> \<^verbatim>\<open>QJS_Prelude\<close>: types, blocks and C strings, the allocator, lemmas on bits. \<^verbatim>\<open>CUtils\<close>: \<^verbatim>\<open>pstrcpy\<close>,
    \<^verbatim>\<open>strstart\<close>, \<^verbatim>\<open>has_suffix\<close>, unaligned integers. \<^verbatim>\<open>UTF8\<close>: \<^verbatim>\<open>unicode_to_utf8\<close>, \<^verbatim>\<open>unicode_from_utf8\<close>; decoding inverts
    encoding and accepts nothing else.
  \<^item> \<^verbatim>\<open>DynBuf\<close>: \<^verbatim>\<open>dbuf_*\<close>. The locale \<open>byte_sink\<close> is what the clients rely on: append, ignore the return code, test the
    error flag at the end. \<^verbatim>\<open>ListHead\<close>: the circular lists of \<^verbatim>\<open>list.h\<close> on an explicit store refine plain lists.
  \<^item> \<^verbatim>\<open>MemExchange\<close>, \<^verbatim>\<open>RQSort\<close>, \<^verbatim>\<open>RQSortOrder\<close>: \<^verbatim>\<open>rqsort\<close> with its exchange functions, its explicit stack of 50 segments,
    partition, heap sort and insertion sort: it terminates, never overflows the stack, permutes for any comparison
    function and sorts for a total preorder.
  \<^item> \<^verbatim>\<open>CharRange\<close>: \<^verbatim>\<open>CharRange\<close> and its set operations; the denotation \<open>cr_mem\<close> of a list of interval ends.
  \<^item> \<^verbatim>\<open>UnicodeTables\<close>, \<^verbatim>\<open>UnicodeNormTables\<close>, \<^verbatim>\<open>UnicodePropTables\<close>: \<^verbatim>\<open>libunicode-table.h\<close>, literally. \<^verbatim>\<open>UnicodeIndex\<close>,
    \<^verbatim>\<open>TableEval\<close>, \<^verbatim>\<open>UnicodeRuns\<close>: run-length coded tables and what scanning them yields. \<^verbatim>\<open>UnicodeCase\<close>,
    \<^verbatim>\<open>UnicodeCaseSets\<close>: \<^verbatim>\<open>lre_case_conv\<close> and the sets of characters it changes. \<^verbatim>\<open>UnicodeNorm\<close>, \<^verbatim>\<open>UnicodeNormProofs\<close>,
    \<^verbatim>\<open>UnicodeNormOrder\<close>: \<^verbatim>\<open>unicode_normalize\<close>. \<^verbatim>\<open>UnicodeNames\<close>, \<^verbatim>\<open>UnicodeSets\<close>, \<^verbatim>\<open>UnicodeProp\<close>, \<^verbatim>\<open>UnicodePropMachine\<close>: names,
    categories, scripts and the stack machine behind binary properties, each equal to a set read off the tables; the
    programs of derived properties are compared with definitions after the Unicode standard (\<open>derived_sets\<close>).
  \<^item> \<^verbatim>\<open>RegexpChars\<close>: opcodes and the character macros. \<^verbatim>\<open>RegexpEmit\<close>, \<^verbatim>\<open>RegexpLex\<close>, \<^verbatim>\<open>RegexpParse\<close>, \<^verbatim>\<open>RegexpCompile\<close>:
    \<^verbatim>\<open>lre_compile\<close>, from the lexer to the patched header; the parser's state is the record \<open>re_parse_state\<close>, the
    recursive functions take fuel for their depth. \<^verbatim>\<open>RegexpExec\<close>: \<^verbatim>\<open>lre_exec\<close> with its stack of saved states; fuel
    counts instructions, and more fuel never changes a result.
  \<^item> \<^verbatim>\<open>RegexpTyping\<close>, \<^verbatim>\<open>RegexpSafe\<close>: a type discipline for byte code (a depth of the operand stack for each reachable
    position) and the proof that well-typed code is run without an undefined step: one lemma per instruction, one
    for backtracking, one for greedy loops, whose body is shown to end and to leave the memory alone. \<^verbatim>\<open>RegexpReach\<close>: the
    interpreter as a step relation on configurations, with preservation of the invariant and progress for every step.
  \<^item> \<^verbatim>\<open>RegexpCode\<close>, \<^verbatim>\<open>RegexpScan\<close>: fragments of instructions that are well typed wherever they are placed, closed under
    the shapes the compiler builds; what its linear scans compute. \<^verbatim>\<open>RegexpRewrite\<close>, \<^verbatim>\<open>RegexpTyped\<close>, \<^verbatim>\<open>RegexpSound\<close>: how
    each step of the compiler rewrites the emitted code, and, by induction on the fuel of the parser, that it appends a
    fragment. \<^verbatim>\<open>RegexpCompiled\<close>: the header, and the safety of running compiled code. \<^verbatim>\<open>RegexpRanges\<close>: the table of a
    character class is searched for exactly the members of the class. \<^verbatim>\<open>RegexpLiteral\<close>: patterns of ordinary
    characters, byte for byte to their code, and what running it answers. \<^verbatim>\<open>RegexpRuns\<close>: the properties of compiler and
    interpreter together, with concrete patterns.

  \<^bold>\<open>Bounds.\<close> A jump of the byte code reaches 2 GiB; the properties of compiled code are stated for code below that
  size, which \<^verbatim>\<open>lre_compile\<close> does not check. \<^verbatim>\<open>lre_exec\<close> shifts the lengths of the subject as values of type \<^verbatim>\<open>int\<close>: at 2 GiB
  and more it is undefined (the engine's limit on string lengths is below). The fields \<^verbatim>\<open>len\<close> and \<^verbatim>\<open>size\<close> of a
  \<^verbatim>\<open>CharRange\<close> are natural numbers here and \<^verbatim>\<open>int\<close> in C, which sets of code points cannot exhaust. The comparison function of
  \<^verbatim>\<open>rqsort\<close> is a function of the two elements; a callback whose answers depend on its opaque state is not covered. Fuel for the greedy loop is the length of code plus subject. For other runs no
  fuel is enough in general: backtracking is exponential, and the last section of \<^verbatim>\<open>RegexpRuns\<close> shows a pattern whose
  run does not end. The 50 slots of the sorting stack and the four ranges of the property machine are proved to suffice.

  \<^bold>\<open>Not modelled.\<close> \<^verbatim>\<open>quickjs.c\<close> itself (interpreter, garbage collector, built-in objects) works on a heap of
  tagged values that no part of it leaves alone; \<^verbatim>\<open>libbf.c\<close> (big numbers) is not part of the default build; the V8 layer
  only forwards calls. The printing functions and test programs of the libraries are left out. \<^verbatim>\<open>vsnprintf\<close>,
  \<^verbatim>\<open>realloc\<close> and the comparison functions of the callers are parameters.
\<close>

end
